(* ===== verification/Prelude.thy ===== *)
theory Prelude
  imports Main "HOL-Library.Word"
begin

text \<open>
  The shared base of the development: the machine integers of the C code as words of their
  width, the way bytes are put together and taken apart, and the list lemmas that the byte
  stores, buffers and tables of the components use.
\<close>

unbundle bit_operations_syntax

type_synonym u8 = "8 word"
type_synonym u16 = "16 word"
type_synonym u32 = "32 word"
type_synonym u64 = "64 word"

named_theorems wordfield \<comment> \<open>reads of masked and shifted fields as arithmetic on \<open>nat\<close>\<close>

subsection \<open>Masks and shifts as arithmetic\<close>

lemma unat_and_mask_eq:
  "unat (w AND mask n) = unat w mod 2 ^ n"
  by (metis take_bit_eq_mask take_bit_eq_mod unsigned_take_bit_eq)

lemma mask_numerals:
  "(1 :: 'a::len word) = mask 1" "(3 :: 'a word) = mask 2" "(7 :: 'a word) = mask 3"
  "(15 :: 'a word) = mask 4" "(63 :: 'a word) = mask 6" "(255 :: 'a word) = mask 8"
  by (simp_all add: mask_eq_exp_minus_1)

lemma unat_and_1 [wordfield]: "unat (w AND 1) = unat w mod 2"
  and unat_and_3 [wordfield]: "unat (w AND 3) = unat w mod 4"
  and unat_and_7 [wordfield]: "unat (w AND 7) = unat w mod 8"
  and unat_and_15 [wordfield]: "unat (w AND 15) = unat w mod 16"
  and unat_and_63 [wordfield]: "unat (w AND 63) = unat w mod 64"
  and unat_and_255 [wordfield]: "unat (w AND 255) = unat w mod 256"
  by (simp_all only: mask_numerals unat_and_mask_eq) simp_all

lemma unat_drop_bit_div [wordfield]: "unat (drop_bit n w) = unat w div 2 ^ n"
  by (metis drop_bit_eq_div unsigned_drop_bit_eq take_bit_nat_eq_self unsigned_less)

lemma unat_push_bit_mod:
  "unat (push_bit n w :: 'a::len word) = (unat w * 2 ^ n) mod 2 ^ LENGTH('a)"
  by (metis push_bit_eq_mult take_bit_eq_mod unsigned_push_bit_eq)

lemma or_disjoint_plus:
  fixes a b :: "'a::len word"
  assumes "\<And>i. bit a i \<Longrightarrow> bit b i \<Longrightarrow> False"
  shows "a OR b = a + b"
proof -
  have "a AND b = 0"
    by (rule bit_word_eqI) (use assms in \<open>auto simp: bit_simps\<close>)
  then show ?thesis by (simp add: disjunctive_add_eq_or)
qed

text \<open>A field put above a smaller one with \<open>OR\<close> adds.\<close>

lemma bit_below_exp:
  fixes b :: "'a::len word"
  assumes "unat b < 2 ^ n" "bit b i"
  shows "i < n"
proof (rule ccontr)
  assume "\<not> i < n"
  have "take_bit n b = b"
    using assms(1) by (metis take_bit_nat_eq_self unsigned_take_bit_eq word_eq_iff_unsigned)
  with assms(2) \<open>\<not> i < n\<close> show False by (metis bit_take_bit_iff)
qed

lemma or_shift_plus:
  fixes a b :: "'a::len word"
  assumes "unat b < 2 ^ n"
  shows "push_bit n a OR b = push_bit n a + b"
  by (rule or_disjoint_plus) (auto simp: bit_push_bit_iff dest: bit_below_exp [OF assms])

lemma unat_or_shift:
  fixes a b :: "'a::len word"
  assumes "unat b < 2 ^ n" "unat a * 2 ^ n + unat b < 2 ^ LENGTH('a)"
  shows "unat (push_bit n a OR b) = unat a * 2 ^ n + unat b"
  using assms by (simp add: or_shift_plus unat_word_ariths unat_push_bit_mod)

lemma unat_u8_less [simp]: "unat (b :: u8) < 256"
  and unat_u16_less [simp]: "unat (w :: u16) < 65536"
  and unat_u32_less [simp]: "unat (d :: u32) < 4294967296"
  using unsigned_less [of b] unsigned_less [of w] unsigned_less [of d] by simp_all

lemma unat_ucast_8_16 [simp]: "unat (ucast (b :: u8) :: u16) = unat b"
  and unat_ucast_8_32 [simp]: "unat (ucast (b :: u8) :: u32) = unat b"
  and unat_ucast_16_32 [simp]: "unat (ucast (w :: u16) :: u32) = unat w"
  using unat_u8_less [of b] unat_u16_less [of w]
  by (simp_all add: unsigned_ucast_eq take_bit_nat_eq_self del: unat_u8_less unat_u16_less)

lemma unat_ucast_16_8: "unat (ucast (w :: u16) :: u8) = unat w mod 256"
  by (simp add: unsigned_ucast_eq take_bit_eq_mod)

lemma unat_ucast_32_16: "unat (ucast (d :: u32) :: u16) = unat d mod 65536"
  by (simp add: unsigned_ucast_eq take_bit_eq_mod)

lemma and_bit_eq_0:
  fixes w :: "'a::len word"
  shows "w AND 2 ^ n = 0 \<longleftrightarrow> even (unat w div 2 ^ n)"
proof -
  have "bit w n \<longleftrightarrow> bit (unat w) n"
    by (simp add: bit_unsigned_iff bit_imp_le_length)
  then show ?thesis by (simp add: and_exp_eq_0_iff_not_bit bit_iff_odd [of "unat w"])
qed

lemma even_div_split:
  assumes "m * q \<le> n" "n < m * (q + 2)" "even q" "(0::nat) < m"
  shows "even (n div m) \<longleftrightarrow> n < m * (q + 1)"
proof (cases "n < m * (q + 1)")
  case True
  then have "n div m = q" using assms by (intro div_nat_eqI) (simp_all add: mult.commute)
  with True assms show ?thesis by simp
next
  case False
  then have "n div m = q + 1" using assms by (intro div_nat_eqI) (simp_all add: mult.commute)
  with False assms show ?thesis by simp
qed

lemma digit_div [simp]: "s < k \<Longrightarrow> (k * q + s) div k = (q :: nat)"
  and digit_mod [simp]: "s < k \<Longrightarrow> (k * q + s) mod k = (s :: nat)"
  by simp_all

lemma unat_eq_iff8: "(a :: u8) = b \<longleftrightarrow> unat a = unat b"
  by (simp add: word_eq_iff_unsigned)

lemma unat_eq_iff16: "(a :: u16) = b \<longleftrightarrow> unat a = unat b"
  by (simp add: word_eq_iff_unsigned)

lemma byte_forall:
  assumes "\<forall>n \<in> set [0..<256]. P (of_nat n :: u8)"
  shows "P b"
  using assms unsigned_less [of b] by (auto dest: bspec [of _ _ "unat b"])

subsection \<open>Big-endian pairs and quadruples of bytes\<close>

definition be16 :: "u8 \<Rightarrow> u8 \<Rightarrow> u16" where
  "be16 hi lo = push_bit 8 (ucast hi) OR ucast lo"

definition hi8 :: "u16 \<Rightarrow> u8" where
  "hi8 w = ucast (drop_bit 8 w)"

definition lo8 :: "u16 \<Rightarrow> u8" where
  "lo8 w = ucast (w AND 255)"

lemma be16_hi8_lo8 [simp]: "be16 (hi8 w) (lo8 w) = w"
proof (rule bit_word_eqI)
  fix n assume "n < LENGTH(16)"
  then show "bit (be16 (hi8 w) (lo8 w)) n = bit w n"
    by (auto simp: be16_def hi8_def lo8_def mask_numerals bit_simps)
qed

lemma hi8_be16 [simp]: "hi8 (be16 a b) = a"
proof (rule bit_word_eqI)
  fix n assume "n < LENGTH(8)"
  then show "bit (hi8 (be16 a b)) n = bit a n"
    by (auto simp: be16_def hi8_def bit_simps dest: bit_imp_le_length)
qed

lemma lo8_be16 [simp]: "lo8 (be16 a b) = b"
proof (rule bit_word_eqI)
  fix n assume "n < LENGTH(8)"
  then show "bit (lo8 (be16 a b)) n = bit b n"
    by (auto simp: be16_def lo8_def mask_numerals bit_simps)
qed

lemma unat_be16: "unat (be16 a b) = 256 * unat a + unat b"
proof -
  have "be16 a b = push_bit 8 (ucast a) + ucast b"
    unfolding be16_def
    by (rule or_disjoint_plus) (auto simp: bit_simps dest: bit_imp_le_length)
  moreover have "256 * unat a + unat b < 65536"
    using unat_u8_less [of a] unat_u8_less [of b] by linarith
  ultimately show ?thesis
    by (simp add: unat_word_ariths unat_push_bit_mod)
qed

definition be32 :: "u8 \<Rightarrow> u8 \<Rightarrow> u8 \<Rightarrow> u8 \<Rightarrow> u32" where
  "be32 b3 b2 b1 b0 =
     push_bit 24 (ucast b3) OR push_bit 16 (ucast b2) OR push_bit 8 (ucast b1) OR ucast b0"

definition be32_bytes :: "u32 \<Rightarrow> u8 list" where
  "be32_bytes w = [ucast (drop_bit 24 w AND 255), ucast (drop_bit 16 w AND 255),
                   ucast (drop_bit 8 w AND 255), ucast (w AND 255)]"

lemma bit_be32:
  assumes "n < 32"
  shows "bit (be32 b3 b2 b1 b0) n =
    (if n < 8 then bit b0 n else if n < 16 then bit b1 (n - 8)
     else if n < 24 then bit b2 (n - 16) else bit b3 (n - 24))"
proof -
  have z: "\<not> bit (x :: u8) k" if "8 \<le> k" for x k
    using that bit_imp_le_length [of x k] by auto
  show ?thesis
    using assms
    by (auto simp: be32_def bit_or_iff bit_push_bit_iff bit_ucast_iff z)
qed

lemma bit_ucast_byte:
  "bit (ucast (drop_bit k w AND 255) :: u8) n \<longleftrightarrow> n < 8 \<and> bit (w :: u32) (k + n)"
  by (auto simp: bit_ucast_iff bit_and_iff mask_numerals bit_mask_iff bit_drop_bit_eq
      dest: bit_imp_le_length)

lemma be32_be32_bytes:
  "be32_bytes w = [b3, b2, b1, b0] \<Longrightarrow> be32 b3 b2 b1 b0 = w"
proof -
  assume "be32_bytes w = [b3, b2, b1, b0]"
  then have b: "b3 = ucast (drop_bit 24 w AND 255)" "b2 = ucast (drop_bit 16 w AND 255)"
    "b1 = ucast (drop_bit 8 w AND 255)" "b0 = ucast (drop_bit 0 w AND 255)"
    by (simp_all add: be32_bytes_def)
  have "bit (be32 b3 b2 b1 b0) n = bit w n" if "n < 32" for n
    using that unfolding bit_be32 [OF that] b bit_ucast_byte by auto
  then show ?thesis by (intro bit_word_eqI) simp
qed

lemma length_be32_bytes [simp]: "length (be32_bytes w) = 4"
  by (simp add: be32_bytes_def)

subsection \<open>Overwriting part of a byte sequence\<close>

definition splice_at :: "nat \<Rightarrow> 'a list \<Rightarrow> 'a list \<Rightarrow> 'a list" where
  "splice_at a d xs = take a xs @ d @ drop (a + length d) xs"

lemma length_splice_at [simp]: "a + length d \<le> length xs \<Longrightarrow> length (splice_at a d xs) = length xs"
  by (simp add: splice_at_def)

lemma nth_splice_at:
  "a + length d \<le> length xs \<Longrightarrow> i < length xs \<Longrightarrow>
   splice_at a d xs ! i = (if a \<le> i \<and> i < a + length d then d ! (i - a) else xs ! i)"
  by (auto simp: splice_at_def nth_append min_def)

lemma splice_at_single: "a < length xs \<Longrightarrow> splice_at a [x] xs = xs[a := x]"
  by (simp add: splice_at_def upd_conv_take_nth_drop)

lemma splice_at_Nil [simp]: "splice_at a [] xs = xs"
  by (simp add: splice_at_def)

lemma takeWhile_take:
  "length (takeWhile P xs) < n \<Longrightarrow> takeWhile P (take n xs) = takeWhile P xs"
proof (induction xs arbitrary: n)
  case (Cons x xs)
  then show ?case by (cases n) auto
qed simp

lemma length_takeWhile_stop:
  assumes "n < length xs" "\<not> P (xs ! n)"
  shows "length (takeWhile P xs) \<le> n"
proof (rule ccontr)
  assume "\<not> length (takeWhile P xs) \<le> n"
  then have n: "n < length (takeWhile P xs)" by simp
  then have "P (takeWhile P xs ! n)" by (blast dest: nth_mem set_takeWhileD)
  then show False using n assms(2) by (simp add: takeWhile_nth)
qed

lemma takeWhile_append_stop:
  "list_all P xs \<Longrightarrow> \<not> P y \<Longrightarrow> takeWhile P (xs @ y # ys) = xs"
  by (induction xs) auto

end
