(* ===== verification/Util.thy ===== *)
theory Util
  imports Prelude
begin

text \<open>
  \<open>src/kernel/util.c\<close>: the power-of-two test and the leading-zero counts that the
  \<open>clz\<close> instruction of the virtual machine uses. The table is the C array, run by run.
\<close>

definition isPow2 :: "u32 \<Rightarrow> bool" where
  "isPow2 x = (x \<noteq> 0 \<and> \<not> (x AND (x - 1)) \<noteq> 0)"

definition clz8Array :: "u8 list" where
  "clz8Array = [8, 7] @ replicate 2 6 @ replicate 4 5 @ replicate 8 4 @ replicate 16 3
     @ replicate 32 2 @ replicate 64 1 @ replicate 128 0"

definition clz8 :: "u8 \<Rightarrow> int" where
  "clz8 x = uint (clz8Array ! unat x)"

definition clz16 :: "u16 \<Rightarrow> int" where
  "clz16 x =
     (let upper = (ucast (drop_bit 8 x) :: u8) in
      if upper \<noteq> 0 then clz8 upper
      else (let lower = (ucast (x AND 255) :: u8) in clz8 lower + 8))"

lemma length_clz8Array [simp]: "length clz8Array = 256"
  by (simp add: clz8Array_def)

lemma clz8Array_bounds:
  "\<forall>n \<in> set [1..<256]. uint (clz8Array ! n) \<le> 7 \<and>
     2 ^ (7 - nat (uint (clz8Array ! n))) \<le> n \<and> n < 2 ^ (8 - nat (uint (clz8Array ! n)))"
  by code_simp

lemma clz8_bounds:
  assumes "x \<noteq> 0"
  shows "clz8 x \<le> 7" "2 ^ (7 - nat (clz8 x)) \<le> unat x" "unat x < 2 ^ (8 - nat (clz8 x))"
proof -
  have "unat x \<in> set [1..<256]"
    using assms unsigned_less [of x] by (simp add: unat_gt_0 Suc_le_eq)
  with clz8Array_bounds show "clz8 x \<le> 7" "2 ^ (7 - nat (clz8 x)) \<le> unat x"
    "unat x < 2 ^ (8 - nat (clz8 x))"
    unfolding clz8_def by blast+
qed

lemma clz8_nonneg: "0 \<le> clz8 x"
  by (simp add: clz8_def)

lemma clz8_0 [simp]: "clz8 0 = 8"
  by (simp add: clz8_def clz8Array_def)

text \<open>A word is its two bytes.\<close>

lemma unat_two_bytes: "unat x = 256 * unat (hi8 x) + unat (lo8 x)"
  using unat_be16 [of "hi8 x" "lo8 x"] by simp

lemma clz16_unfold:
  "clz16 x = (if hi8 x \<noteq> 0 then clz8 (hi8 x) else clz8 (lo8 x) + 8)"
  by (simp add: clz16_def hi8_def lo8_def)

lemma clz16_bounds_hi:
  assumes "hi8 x \<noteq> 0"
  shows "2 ^ (15 - nat (clz16 x)) \<le> unat x" "unat x < 2 ^ (16 - nat (clz16 x))"
proof -
  define c where "c = nat (clz8 (hi8 x))"
  have c: "c \<le> 7" "2 ^ (7 - c) \<le> unat (hi8 x)" "unat (hi8 x) < 2 ^ (8 - c)"
    using clz8_bounds [OF assms] by (auto simp: c_def)
  have l: "unat (lo8 x) < 256" using unsigned_less [of "lo8 x"] by simp
  have cl: "nat (clz16 x) = c" using assms by (simp add: clz16_unfold c_def)
  have e: "(2::nat) ^ (15 - c) = 256 * 2 ^ (7 - c)" "(2::nat) ^ (16 - c) = 256 * 2 ^ (8 - c)"
  proof -
    have "15 - c = 8 + (7 - c)" "16 - c = 8 + (8 - c)" using c(1) by simp_all
    then show "(2::nat) ^ (15 - c) = 256 * 2 ^ (7 - c)" "(2::nat) ^ (16 - c) = 256 * 2 ^ (8 - c)"
      by (simp_all only: power_add) simp_all
  qed
  show "2 ^ (15 - nat (clz16 x)) \<le> unat x"
    using c(2) unfolding cl e unat_two_bytes [of x] by simp
  show "unat x < 2 ^ (16 - nat (clz16 x))"
    using c(3) l unfolding cl e unat_two_bytes [of x] by linarith
qed

lemma clz16_bounds_lo:
  assumes "hi8 x = 0" "x \<noteq> 0"
  shows "2 ^ (15 - nat (clz16 x)) \<le> unat x" "unat x < 2 ^ (16 - nat (clz16 x))"
proof -
  have lo: "lo8 x \<noteq> 0" using assms unat_two_bytes [of x] by (auto simp: unat_eq_0)
  have ux: "unat x = unat (lo8 x)" using assms unat_two_bytes [of x] by simp
  have "nat (clz16 x) = nat (clz8 (lo8 x)) + 8"
    using assms clz8_nonneg [of "lo8 x"] by (simp add: clz16_unfold)
  then show "2 ^ (15 - nat (clz16 x)) \<le> unat x" "unat x < 2 ^ (16 - nat (clz16 x))"
    using clz8_bounds [OF lo] by (simp_all add: ux)
qed

lemma clz16_range:
  assumes "x \<noteq> 0"
  shows "0 \<le> clz16 x" "clz16 x \<le> 15"
proof -
  show "0 \<le> clz16 x" using clz8_nonneg by (simp add: clz16_unfold)
  have "hi8 x \<noteq> 0 \<or> lo8 x \<noteq> 0" using assms unat_two_bytes [of x] by (auto simp: unat_eq_0)
  then show "clz16 x \<le> 15"
    using clz8_bounds(1) [of "lo8 x"] clz8_bounds(1) [of "hi8 x"] by (auto simp: clz16_unfold)
qed

text \<open>The two-step table lookup of \<open>clz16\<close> counts the leading zeros of a 16 bit value:
  16 for zero, and otherwise the number that puts the value between the two powers of two
  of its highest one bit.
\<close>
theorem clz16_leading_zeros:
  "clz16 0 = 16 \<and>
   (x \<noteq> 0 \<longrightarrow> 0 \<le> clz16 x \<and> clz16 x \<le> 15 \<and>
      2 ^ (15 - nat (clz16 x)) \<le> unat x \<and> unat x < 2 ^ (16 - nat (clz16 x)))"
  using clz16_bounds_hi [of x] clz16_bounds_lo [of x] clz16_range [of x]
  by (auto simp: clz16_unfold [of 0] hi8_def lo8_def)

theorem clz16_leading_zeros_witness:
  "clz16 0x0A31 = 4 \<and> 2 ^ 11 \<le> unat (0x0A31 :: u16) \<and> unat (0x0A31 :: u16) < 2 ^ 12"
proof -
  have "clz16 0x0A31 = 4" by code_simp
  then show ?thesis using clz16_leading_zeros [of "0x0A31"] by simp
qed

end
