(* ===== verification/Bytecode.thy ===== *)
theory Bytecode
  imports Prelude
begin

text \<open>
  \<open>src/kernel/bytecode.c\<close> and \<open>bytecode.h\<close>: the instruction set of the 16 bit
  virtual machine, its decoder and its encoders. An instruction is the three byte array
  \<open>BytecodeInstruction3Byte\<close>, here a triple. The decoder fills a record the caller
  supplies, so it is a function of that record too: a field no branch assigns keeps the
  value it had. An encoder whose \<open>assert\<close> fails aborts, which is \<open>None\<close>.
\<close>

subsection \<open>Types of \<open>bytecode.h\<close>\<close>

definition BytecodeMemoryTotalSize :: u32 where "BytecodeMemoryTotalSize = 0xFFFF"
definition BytecodeMemoryProgmemAddr :: u16 where "BytecodeMemoryProgmemAddr = 0"
definition BytecodeMemoryProgmemSize :: u16 where "BytecodeMemoryProgmemSize = 0x8000"
definition BytecodeMemoryRamAddr :: u16 where
  "BytecodeMemoryRamAddr = BytecodeMemoryProgmemAddr + BytecodeMemoryProgmemSize"
definition BytecodeMemoryRamSize :: u16 where
  "BytecodeMemoryRamSize = ucast (BytecodeMemoryTotalSize - ucast BytecodeMemoryProgmemSize)"
definition ByteCodeIllegalInstructionByte :: u8 where "ByteCodeIllegalInstructionByte = 0xC3"

datatype BytecodeSignalId =
  BytecodeSignalIdInterrupt | BytecodeSignalIdUser1 | BytecodeSignalIdUser2 | BytecodeSignalIdSuicide

definition BytecodeSignalIdNB :: nat where "BytecodeSignalIdNB = 4"

text \<open>Registers are three bit numbers; r5, r6 and r7 have fixed roles.\<close>

definition BytecodeRegisterNB :: u8 where "BytecodeRegisterNB = 8"
definition BytecodeRegisterS :: u8 where "BytecodeRegisterS = 5"
definition BytecodeRegisterSP :: u8 where "BytecodeRegisterSP = 6"
definition BytecodeRegisterIP :: u8 where "BytecodeRegisterIP = 7"

datatype BytecodeInstructionType =
  BytecodeInstructionTypeMemory | BytecodeInstructionTypeAlu | BytecodeInstructionTypeMisc

datatype BytecodeInstructionLength =
  BytecodeInstructionLength1Byte | BytecodeInstructionLength2Byte | BytecodeInstructionLength3Byte

type_synonym instr3 = "u8 \<times> u8 \<times> u8" \<comment> \<open>\<open>BytecodeInstruction3Byte\<close>\<close>

datatype BytecodeInstructionMemoryType =
  BytecodeInstructionMemoryTypeLoad8 | BytecodeInstructionMemoryTypeStore8
  | BytecodeInstructionMemoryTypeSet4 | BytecodeInstructionMemoryTypeOther

record BytecodeInstructionMemoryInfo =
  memType :: BytecodeInstructionMemoryType
  memDestReg :: u8
  memSrcReg :: u8
  memSet4Value :: u8

datatype BytecodeInstructionAluExtraType =
  BytecodeInstructionAluExtraTypeNot | BytecodeInstructionAluExtraTypeStore16
  | BytecodeInstructionAluExtraTypeLoad16 | BytecodeInstructionAluExtraTypePush16
  | BytecodeInstructionAluExtraTypePop16 | BytecodeInstructionAluExtraTypeCall
  | BytecodeInstructionAluExtraTypeXchg8 | BytecodeInstructionAluExtraTypeClz

text \<open>An enum field may hold a number that is no enumerator: \<open>Other\<close> with that number.\<close>

datatype BytecodeInstructionAluType =
  BytecodeInstructionAluTypeInc | BytecodeInstructionAluTypeDec
  | BytecodeInstructionAluTypeAdd | BytecodeInstructionAluTypeSub
  | BytecodeInstructionAluTypeMul | BytecodeInstructionAluTypeDiv
  | BytecodeInstructionAluTypeXor | BytecodeInstructionAluTypeOr
  | BytecodeInstructionAluTypeAnd | BytecodeInstructionAluTypeCmp
  | BytecodeInstructionAluTypeShiftLeft | BytecodeInstructionAluTypeShiftRight
  | BytecodeInstructionAluTypeSkip | BytecodeInstructionAluTypeExtra
  | BytecodeInstructionAluTypeOther nat

record BytecodeInstructionAluInfo =
  aluType :: BytecodeInstructionAluType
  aluDestReg :: u8
  aluOpAReg :: u8
  aluOpBReg :: u8
  aluIncDecValue :: u8

datatype BytecodeInstructionMiscType =
  BytecodeInstructionMiscTypeNop | BytecodeInstructionMiscTypeSyscall
  | BytecodeInstructionMiscTypeClearInstructionCache | BytecodeInstructionMiscTypeIllegal
  | BytecodeInstructionMiscTypeDebug | BytecodeInstructionMiscTypeSet8
  | BytecodeInstructionMiscTypeSet16 | BytecodeInstructionMiscTypeOther nat

record BytecodeInstructionMiscSet8Info =
  set8DestReg :: u8
  set8Value :: u8

record BytecodeInstructionMiscSet16Info =
  set16DestReg :: u8
  set16Value :: u16

record BytecodeInstructionMiscInfo =
  miscType :: BytecodeInstructionMiscType
  miscSet8 :: BytecodeInstructionMiscSet8Info
  miscSet16 :: BytecodeInstructionMiscSet16Info

record BytecodeInstructionInfo =
  infoType :: BytecodeInstructionType
  infoMemory :: BytecodeInstructionMemoryInfo
  infoAlu :: BytecodeInstructionAluInfo
  infoMisc :: BytecodeInstructionMiscInfo

text \<open>The numbers behind the enumerators.\<close>

definition memTypeOfNat :: "nat \<Rightarrow> BytecodeInstructionMemoryType" where
  "memTypeOfNat n =
     (if n = 0 then BytecodeInstructionMemoryTypeLoad8
      else if n = 1 then BytecodeInstructionMemoryTypeStore8
      else if n = 2 then BytecodeInstructionMemoryTypeSet4
      else BytecodeInstructionMemoryTypeOther)"

fun memTypeCode :: "BytecodeInstructionMemoryType \<Rightarrow> u8" where
  "memTypeCode BytecodeInstructionMemoryTypeLoad8 = 0"
| "memTypeCode BytecodeInstructionMemoryTypeStore8 = 1"
| "memTypeCode BytecodeInstructionMemoryTypeSet4 = 2"
| "memTypeCode BytecodeInstructionMemoryTypeOther = 3"

definition aluTypes :: "BytecodeInstructionAluType list" where
  "aluTypes = [BytecodeInstructionAluTypeInc, BytecodeInstructionAluTypeDec,
     BytecodeInstructionAluTypeAdd, BytecodeInstructionAluTypeSub,
     BytecodeInstructionAluTypeMul, BytecodeInstructionAluTypeDiv,
     BytecodeInstructionAluTypeXor, BytecodeInstructionAluTypeOr,
     BytecodeInstructionAluTypeAnd, BytecodeInstructionAluTypeCmp,
     BytecodeInstructionAluTypeShiftLeft, BytecodeInstructionAluTypeShiftRight,
     BytecodeInstructionAluTypeSkip, BytecodeInstructionAluTypeExtra]"

definition aluTypeOfNat :: "nat \<Rightarrow> BytecodeInstructionAluType" where
  "aluTypeOfNat n = (if n < 14 then aluTypes ! n else BytecodeInstructionAluTypeOther n)"

fun aluTypeCode :: "BytecodeInstructionAluType \<Rightarrow> nat" where
  "aluTypeCode BytecodeInstructionAluTypeInc = 0"
| "aluTypeCode BytecodeInstructionAluTypeDec = 1"
| "aluTypeCode BytecodeInstructionAluTypeAdd = 2"
| "aluTypeCode BytecodeInstructionAluTypeSub = 3"
| "aluTypeCode BytecodeInstructionAluTypeMul = 4"
| "aluTypeCode BytecodeInstructionAluTypeDiv = 5"
| "aluTypeCode BytecodeInstructionAluTypeXor = 6"
| "aluTypeCode BytecodeInstructionAluTypeOr = 7"
| "aluTypeCode BytecodeInstructionAluTypeAnd = 8"
| "aluTypeCode BytecodeInstructionAluTypeCmp = 9"
| "aluTypeCode BytecodeInstructionAluTypeShiftLeft = 10"
| "aluTypeCode BytecodeInstructionAluTypeShiftRight = 11"
| "aluTypeCode BytecodeInstructionAluTypeSkip = 12"
| "aluTypeCode BytecodeInstructionAluTypeExtra = 13"
| "aluTypeCode (BytecodeInstructionAluTypeOther n) = n"

definition aluExtraTypes :: "BytecodeInstructionAluExtraType list" where
  "aluExtraTypes = [BytecodeInstructionAluExtraTypeNot, BytecodeInstructionAluExtraTypeStore16,
     BytecodeInstructionAluExtraTypeLoad16, BytecodeInstructionAluExtraTypePush16,
     BytecodeInstructionAluExtraTypePop16, BytecodeInstructionAluExtraTypeCall,
     BytecodeInstructionAluExtraTypeXchg8, BytecodeInstructionAluExtraTypeClz]"

definition aluExtraTypeOfNat :: "nat \<Rightarrow> BytecodeInstructionAluExtraType option" where
  "aluExtraTypeOfNat n = (if n < 8 then Some (aluExtraTypes ! n) else None)"

definition miscTypes :: "BytecodeInstructionMiscType list" where
  "miscTypes = [BytecodeInstructionMiscTypeNop, BytecodeInstructionMiscTypeSyscall,
     BytecodeInstructionMiscTypeClearInstructionCache, BytecodeInstructionMiscTypeIllegal,
     BytecodeInstructionMiscTypeDebug, BytecodeInstructionMiscTypeSet8,
     BytecodeInstructionMiscTypeSet16]"

definition miscTypeOfNat :: "nat \<Rightarrow> BytecodeInstructionMiscType" where
  "miscTypeOfNat n = (if n < 7 then miscTypes ! n else BytecodeInstructionMiscTypeOther n)"

fun lengthBytes :: "BytecodeInstructionLength \<Rightarrow> nat" where
  "lengthBytes BytecodeInstructionLength1Byte = 1"
| "lengthBytes BytecodeInstructionLength2Byte = 2"
| "lengthBytes BytecodeInstructionLength3Byte = 3"

subsection \<open>The decoder\<close>

fun bytecodeInstructionParseLength :: "instr3 \<Rightarrow> BytecodeInstructionLength" where
  "bytecodeInstructionParseLength (b0, b1, b2) =
     (if b0 < 0xD0 then BytecodeInstructionLength1Byte
      else if drop_bit 3 b0 \<noteq> 0x1B then BytecodeInstructionLength2Byte
      else BytecodeInstructionLength3Byte)"

definition parseMemory :: "BytecodeInstructionInfo \<Rightarrow> instr3 \<Rightarrow> BytecodeInstructionInfo" where
  "parseMemory info i =
     (case i of (b0, b1, b2) \<Rightarrow>
       (let upperTwoBits = drop_bit 6 b0;
            mem = (infoMemory info)\<lparr>memType := memTypeOfNat (unat upperTwoBits)\<rparr>
        in info\<lparr>infoType := BytecodeInstructionTypeMemory,
                infoMemory :=
                  (if memType mem = BytecodeInstructionMemoryTypeSet4
                   then mem\<lparr>memDestReg := drop_bit 4 b0 AND 3, memSet4Value := b0 AND 15\<rparr>
                   else mem\<lparr>memDestReg := drop_bit 3 b0 AND 7, memSrcReg := b0 AND 7\<rparr>)\<rparr>))"

definition parseAlu :: "BytecodeInstructionInfo \<Rightarrow> instr3 \<Rightarrow> BytecodeInstructionInfo" where
  "parseAlu info i =
     (case i of (b0, b1, b2) \<Rightarrow>
       (let upper16 = push_bit 8 (ucast b0 :: u16) OR ucast b1
        in info\<lparr>infoType := BytecodeInstructionTypeAlu,
                infoAlu := \<lparr>aluType = aluTypeOfNat (unat (drop_bit 9 upper16 AND 15)),
                            aluDestReg = ucast (drop_bit 6 upper16 AND 7),
                            aluOpAReg = ucast (drop_bit 3 upper16 AND 7),
                            aluOpBReg = ucast (upper16 AND 7),
                            aluIncDecValue = ucast (upper16 AND 63) + 1\<rparr>\<rparr>))"

definition parseMisc :: "BytecodeInstructionInfo \<Rightarrow> instr3 \<Rightarrow> BytecodeInstructionInfo" where
  "parseMisc info i =
     (case i of (b0, b1, b2) \<Rightarrow>
       (let misc = infoMisc info
        in info\<lparr>infoType := BytecodeInstructionTypeMisc,
                infoMisc :=
                  (if b0 AND 0x10 \<noteq> 0 then
                     (if b0 AND 8 \<noteq> 0 then
                        misc\<lparr>miscType := BytecodeInstructionMiscTypeSet16,
                             miscSet16 := \<lparr>set16DestReg = b0 AND 7,
                                           set16Value = push_bit 8 (ucast b1) OR ucast b2\<rparr>\<rparr>
                      else
                        misc\<lparr>miscType := BytecodeInstructionMiscTypeSet8,
                             miscSet8 := \<lparr>set8DestReg = b0 AND 7, set8Value = b1\<rparr>\<rparr>)
                   else misc\<lparr>miscType := miscTypeOfNat (unat (b0 AND 15))\<rparr>)\<rparr>))"

definition bytecodeInstructionParse ::
  "BytecodeInstructionInfo \<Rightarrow> instr3 \<Rightarrow> BytecodeInstructionInfo" where
  "bytecodeInstructionParse info i =
     (case i of (b0, b1, b2) \<Rightarrow>
        if drop_bit 6 b0 \<noteq> 3 then parseMemory info i
        else if b0 AND 0x20 \<noteq> 0 then parseAlu info i
        else parseMisc info i)"

subsection \<open>The encoders\<close>

definition bytecodeInstructionCreateMemory ::
  "BytecodeInstructionMemoryType \<Rightarrow> u8 \<Rightarrow> u8 \<Rightarrow> u8" where
  "bytecodeInstructionCreateMemory t destReg srcReg =
     push_bit 6 (memTypeCode t) OR push_bit 3 destReg OR srcReg"

definition bytecodeInstructionCreateMemorySet4 :: "u8 \<Rightarrow> u8 \<Rightarrow> u8 option" where
  "bytecodeInstructionCreateMemorySet4 destReg v =
     (if destReg < 4 \<and> v < 16
      then Some (push_bit 6 (memTypeCode BytecodeInstructionMemoryTypeSet4) OR push_bit 4 destReg OR v)
      else None)"

definition bytecodeInstructionCreateAlu ::
  "BytecodeInstructionAluType \<Rightarrow> u8 \<Rightarrow> u8 \<Rightarrow> u8 \<Rightarrow> u16 option" where
  "bytecodeInstructionCreateAlu t destReg opAReg opBReg =
     (if destReg < BytecodeRegisterNB \<and> opAReg < BytecodeRegisterNB \<and> opBReg < BytecodeRegisterNB
      then (let upper = (0xE0 OR push_bit 1 (of_nat (aluTypeCode t)) OR drop_bit 2 destReg :: u8);
                lower = push_bit 6 (destReg AND 3) OR push_bit 3 opAReg OR opBReg
            in Some (push_bit 8 (ucast upper) OR ucast lower))
      else None)"

definition bytecodeInstructionCreateAluIncDecValue ::
  "BytecodeInstructionAluType \<Rightarrow> u8 \<Rightarrow> u8 \<Rightarrow> u16 option" where
  "bytecodeInstructionCreateAluIncDecValue t destReg incDecValue =
     (if (t = BytecodeInstructionAluTypeInc \<or> t = BytecodeInstructionAluTypeDec)
         \<and> 0 < incDecValue \<and> incDecValue \<le> 64
      then bytecodeInstructionCreateAlu t destReg (drop_bit 3 (incDecValue - 1)) ((incDecValue - 1) AND 7)
      else None)"

definition bytecodeInstructionCreateMiscNop :: u8 where
  "bytecodeInstructionCreateMiscNop = 0xC0"
definition bytecodeInstructionCreateMiscSyscall :: u8 where
  "bytecodeInstructionCreateMiscSyscall = 0xC1"
definition bytecodeInstructionCreateMiscClearInstructionCache :: u8 where
  "bytecodeInstructionCreateMiscClearInstructionCache = 0xC2"
definition bytecodeInstructionCreateMiscIllegal :: u8 where
  "bytecodeInstructionCreateMiscIllegal = 0xC3"
definition bytecodeInstructionCreateMiscDebug :: u8 where
  "bytecodeInstructionCreateMiscDebug = 0xC4"

definition bytecodeInstructionCreateMiscSet8 :: "u8 \<Rightarrow> u8 \<Rightarrow> u16" where
  "bytecodeInstructionCreateMiscSet8 destReg v =
     push_bit 8 (ucast (0xD0 OR destReg)) OR ucast v"

definition bytecodeInstructionCreateMiscSet16 :: "u8 \<Rightarrow> u16 \<Rightarrow> instr3" where
  "bytecodeInstructionCreateMiscSet16 destReg v =
     (0xD8 OR destReg, ucast (drop_bit 8 v), ucast (v AND 255))"

text \<open>The generic set: the array it writes into keeps the bytes past the chosen length.\<close>

definition bytecodeInstructionCreateSet ::
  "instr3 \<Rightarrow> u8 \<Rightarrow> u16 \<Rightarrow> (instr3 \<times> BytecodeInstructionLength) option" where
  "bytecodeInstructionCreateSet i destReg v =
     (case i of (b0, b1, b2) \<Rightarrow>
        if v < 16 \<and> destReg < 4 then
          (case bytecodeInstructionCreateMemorySet4 destReg (ucast v) of
             None \<Rightarrow> None
           | Some b \<Rightarrow> Some ((b, b1, b2), BytecodeInstructionLength1Byte))
        else if v < 256 then
          (let op = bytecodeInstructionCreateMiscSet8 destReg (ucast v)
           in Some ((ucast (drop_bit 8 op), ucast (op AND 255), b2), BytecodeInstructionLength2Byte))
        else Some (bytecodeInstructionCreateMiscSet16 destReg v, BytecodeInstructionLength3Byte))"

subsection \<open>Field layout of the encoders\<close>

lemma unat_CreateMemory:
  assumes "unat d < 8" "unat s < 8" "unat (memTypeCode t) < 3"
  shows "unat (bytecodeInstructionCreateMemory t d s) = 64 * unat (memTypeCode t) + 8 * unat d + unat s"
  using assms by (simp add: bytecodeInstructionCreateMemory_def unat_or_shift)

lemma unat_CreateMemorySet4:
  "bytecodeInstructionCreateMemorySet4 d v = Some b \<Longrightarrow> unat b = 128 + 16 * unat d + unat v"
proof -
  assume c: "bytecodeInstructionCreateMemorySet4 d v = Some b"
  then have lt: "unat d < 4" "unat v < 16" and b: "b = push_bit 6 2 OR push_bit 4 d OR v"
    by (auto simp: bytecodeInstructionCreateMemorySet4_def word_less_nat_alt simp del: push_bit_numeral
        split: if_splits)
  have i: "unat (push_bit 4 d OR v) = 16 * unat d + unat v"
    using lt by (subst unat_or_shift) simp_all
  show ?thesis
    unfolding b using lt i by (subst unat_or_shift) (simp_all del: push_bit_numeral)
qed

lemma split_div4: "256 * (224 + 2 * t + d div 4) + (64 * (d mod 4) + 8 * a + b)
    = 57344 + 512 * t + 64 * d + 8 * a + (b :: nat)"
proof -
  have "256 * (224 + 2 * t + q) + (64 * r + 8 * a + b) = 57344 + 512 * t + 64 * (4 * q + r) + 8 * a + b"
    for q r by simp
  from this [of "d div 4" "d mod 4"] show ?thesis by simp
qed

lemma unat_CreateAlu:
  assumes "bytecodeInstructionCreateAlu t d a b = Some op" "aluTypeCode t < 16"
  shows "unat op = 57344 + 512 * aluTypeCode t + 64 * unat d + 8 * unat a + unat b"
    and "unat d < 8" "unat a < 8" "unat b < 8"
proof -
  let ?u = "0xE0 OR push_bit 1 (of_nat (aluTypeCode t)) OR drop_bit 2 d :: u8"
  let ?l = "push_bit 6 (d AND 3) OR push_bit 3 a OR b :: u8"
  show lt: "unat d < 8" "unat a < 8" "unat b < 8"
    using assms(1) by (auto simp: bytecodeInstructionCreateAlu_def BytecodeRegisterNB_def
        word_less_nat_alt split: if_splits)
  have op: "op = push_bit 8 (ucast ?u) OR ucast ?l"
    using assms(1) by (simp add: bytecodeInstructionCreateAlu_def Let_def split: if_splits)
  have t: "unat (of_nat (aluTypeCode t) :: u8) = aluTypeCode t"
    using assms(2) by (simp add: unat_of_nat)
  have e: "(0xE0 :: u8) = push_bit 5 7" by simp
  have d2: "unat (drop_bit 2 d) = unat d div 4" "unat d div 4 < 2" "unat (d AND 3) = unat d mod 4"
    using lt(1) by (simp_all add: wordfield)
  have m: "unat (push_bit 1 (of_nat (aluTypeCode t)) OR drop_bit 2 d :: u8)
      = aluTypeCode t * 2 + unat d div 4"
    using assms(2) d2 t by (subst unat_or_shift) simp_all
  have u: "unat ?u = 224 + 2 * aluTypeCode t + unat d div 4"
    unfolding e using assms(2) d2 m by (subst unat_or_shift) simp_all
  have l0: "unat (push_bit 3 a OR b) = unat a * 8 + unat b"
    using lt by (subst unat_or_shift) simp_all
  have l: "unat ?l = 64 * (unat d mod 4) + 8 * unat a + unat b"
  proof -
    have "unat d mod 4 < 4" by simp
    then show ?thesis
      using lt l0 d2 by (subst unat_or_shift) (simp_all)
  qed
  have "unat op = 256 * unat ?u + unat ?l"
    unfolding op be16_def [symmetric] by (rule unat_be16)
  then show "unat op = 57344 + 512 * aluTypeCode t + 64 * unat d + 8 * unat a + unat b"
    unfolding u l by (simp only: split_div4)
qed

definition blankInfo :: BytecodeInstructionInfo where
  "blankInfo = \<lparr>infoType = BytecodeInstructionTypeMemory,
     infoMemory = \<lparr>memType = BytecodeInstructionMemoryTypeLoad8, memDestReg = 0, memSrcReg = 0,
                   memSet4Value = 0\<rparr>,
     infoAlu = \<lparr>aluType = BytecodeInstructionAluTypeInc, aluDestReg = 0, aluOpAReg = 0,
                aluOpBReg = 0, aluIncDecValue = 0\<rparr>,
     infoMisc = \<lparr>miscType = BytecodeInstructionMiscTypeNop,
                 miscSet8 = \<lparr>set8DestReg = 0, set8Value = 0\<rparr>,
                 miscSet16 = \<lparr>set16DestReg = 0, set16Value = 0\<rparr>\<rparr>\<rparr>"

declare bytecodeInstructionParseLength.simps [simp del]

subsection \<open>Which branch of the decoder a first byte takes\<close>

lemma first_byte:
  fixes b :: u8
  shows "drop_bit 6 b = 3 \<longleftrightarrow> 192 \<le> unat b"
    and "192 \<le> unat b \<Longrightarrow> b AND 0x20 = 0 \<longleftrightarrow> unat b < 224"
    and "192 \<le> unat b \<Longrightarrow> unat b < 224 \<Longrightarrow> b AND 0x10 = 0 \<longleftrightarrow> unat b < 208"
    and "208 \<le> unat b \<Longrightarrow> unat b < 224 \<Longrightarrow> b AND 8 = 0 \<longleftrightarrow> unat b < 216"
    and "drop_bit 3 b = 0x1B \<longleftrightarrow> 216 \<le> unat b \<and> unat b < 224"
proof -
  note lt = unat_u8_less [of b]
  have "drop_bit 6 b = 3 \<longleftrightarrow> unat b div 64 = 3"
    unfolding unat_eq_iff8 unat_drop_bit_div by simp
  also have "\<dots> \<longleftrightarrow> 192 \<le> unat b"
    using lt div_mult_mod_eq [of "unat b" 64] mod_less_divisor [of 64 "unat b"]
    by (auto intro: div_nat_eqI)
  finally show "drop_bit 6 b = 3 \<longleftrightarrow> 192 \<le> unat b" .
  show "192 \<le> unat b \<Longrightarrow> b AND 0x20 = 0 \<longleftrightarrow> unat b < 224"
    using lt even_div_split [of 32 6 "unat b"] and_bit_eq_0 [of b 5] by simp
  show "192 \<le> unat b \<Longrightarrow> unat b < 224 \<Longrightarrow> b AND 0x10 = 0 \<longleftrightarrow> unat b < 208"
    using even_div_split [of 16 12 "unat b"] and_bit_eq_0 [of b 4] by simp
  show "208 \<le> unat b \<Longrightarrow> unat b < 224 \<Longrightarrow> b AND 8 = 0 \<longleftrightarrow> unat b < 216"
    using even_div_split [of 8 26 "unat b"] and_bit_eq_0 [of b 3] by simp
  have "drop_bit 3 b = 0x1B \<longleftrightarrow> unat b div 8 = 27"
    unfolding unat_eq_iff8 unat_drop_bit_div by simp
  also have "\<dots> \<longleftrightarrow> 216 \<le> unat b \<and> unat b < 224"
    using div_mult_mod_eq [of "unat b" 8] mod_less_divisor [of 8 "unat b"]
    by (auto intro: div_nat_eqI)
  finally show "drop_bit 3 b = 0x1B \<longleftrightarrow> 216 \<le> unat b \<and> unat b < 224" .
qed

lemma parse_memory: "unat b0 < 192 \<Longrightarrow> bytecodeInstructionParse info (b0, b1, b2) = parseMemory info (b0, b1, b2)"
  by (simp add: bytecodeInstructionParse_def first_byte)

lemma parse_alu: "224 \<le> unat b0 \<Longrightarrow> bytecodeInstructionParse info (b0, b1, b2) = parseAlu info (b0, b1, b2)"
  by (simp add: bytecodeInstructionParse_def first_byte)

lemma parse_misc: "192 \<le> unat b0 \<Longrightarrow> unat b0 < 224 \<Longrightarrow>
    bytecodeInstructionParse info (b0, b1, b2) = parseMisc info (b0, b1, b2)"
  by (simp add: bytecodeInstructionParse_def first_byte)

lemmas parse_class = parse_memory parse_alu parse_misc

lemma parse_length_by_first_byte:
  "bytecodeInstructionParseLength (b0, b1, b2) =
     (if unat b0 < 208 then BytecodeInstructionLength1Byte
      else if unat b0 < 216 \<or> 224 \<le> unat b0 then BytecodeInstructionLength2Byte
      else BytecodeInstructionLength3Byte)"
  by (auto simp: bytecodeInstructionParseLength.simps first_byte word_less_nat_alt)

text \<open>The length that \<open>bytecodeInstructionParseLength\<close> reads off the upper bits is
  enough: the decoder looks at no byte beyond it, so a caller that fetched only that many
  bytes decodes the same instruction whatever the rest of its buffer holds.
\<close>
theorem parse_reads_only_length:
  "take (lengthBytes (bytecodeInstructionParseLength (b0, b1, b2))) [b0, b1, b2] =
   take (lengthBytes (bytecodeInstructionParseLength (b0, b1, b2))) [b0, c1, c2] \<Longrightarrow>
   bytecodeInstructionParse info (b0, b1, b2) = bytecodeInstructionParse info (b0, c1, c2)"
proof -
  assume same: "take (lengthBytes (bytecodeInstructionParseLength (b0, b1, b2))) [b0, b1, b2] =
    take (lengthBytes (bytecodeInstructionParseLength (b0, b1, b2))) [b0, c1, c2]"
  consider "unat b0 < 192" | "192 \<le> unat b0" "unat b0 < 208" | "208 \<le> unat b0" "unat b0 < 216"
    | "216 \<le> unat b0" "unat b0 < 224" | "224 \<le> unat b0" by linarith
  then show ?thesis
  proof cases
    case 1
    then show ?thesis by (simp add: parse_class parseMemory_def Let_def)
  next
    case 2
    then show ?thesis by (simp add: parse_class parseMisc_def first_byte Let_def)
  next
    case 3
    then have "b1 = c1" using same by (simp add: parse_length_by_first_byte)
    with 3 show ?thesis by (simp add: parse_class parseMisc_def first_byte Let_def)
  next
    case 4
    then have "b1 = c1" "b2 = c2"
      using same by (simp_all add: parse_length_by_first_byte)
    with 4 show ?thesis by (simp add: parse_class parseMisc_def first_byte Let_def)
  next
    case 5
    then have "b1 = c1" using same by (simp add: parse_length_by_first_byte)
    with 5 show ?thesis by (simp add: parse_class parseAlu_def Let_def)
  qed
qed

theorem parse_reads_only_length_witness:
  "bytecodeInstructionParse blankInfo (0xD3, 7, 0) = bytecodeInstructionParse blankInfo (0xD3, 7, 99)"
  by (rule parse_reads_only_length)
    (simp add: parse_length_by_first_byte)

subsection \<open>Round trips\<close>

lemma mem_fields:
  assumes "s < (8::nat)" "d < 8"
  shows "(64 * t + 8 * d + s) div 64 = t" "(64 * t + 8 * d + s) div 8 mod 8 = d"
    "(64 * t + 8 * d + s) mod 8 = s"
proof -
  have e: "64 * t + 8 * d + s = 8 * (8 * t + d) + s" by simp
  show "(64 * t + 8 * d + s) div 8 mod 8 = d" "(64 * t + 8 * d + s) mod 8 = s"
    unfolding e using assms by (simp_all only: digit_div digit_mod)
  show "(64 * t + 8 * d + s) div 64 = t"
    using digit_div [of "8 * d + s" 64 t] assms by simp
qed



lemma aluTypeOfNat_code:
  "t \<in> set aluTypes \<Longrightarrow> aluTypeOfNat (aluTypeCode t) = t \<and> aluTypeCode t < 14"
  by (auto simp: aluTypes_def aluTypeOfNat_def)

lemma alu_fields:
  assumes "d < (8::nat)" "a < 8" "b < 8" "t < 16" and v: "v = 57344 + 512 * t + 64 * d + 8 * a + b"
  shows "v div 512 mod 16 = t" "v div 64 mod 8 = d" "v div 8 mod 8 = a" "v mod 8 = b"
    "v mod 64 = 8 * a + b"
proof -
  have s: "64 * d + 8 * a + b < 512" "8 * a + b < 64" using assms by linarith+
  have e: "v = 512 * (16 * 7 + t) + (64 * d + 8 * a + b)"
    "v = 64 * (8 * (16 * 7 + t) + d) + (8 * a + b)"
    "v = 8 * (8 * (8 * (16 * 7 + t) + d) + a) + b"
    unfolding v by simp_all
  show "v div 512 mod 16 = t" by (simp only: e(1) digit_div [OF s(1)] digit_mod [OF assms(4)])
  show "v div 64 mod 8 = d" by (simp only: e(2) digit_div [OF s(2)] digit_mod [OF assms(1)])
  show "v mod 64 = 8 * a + b" by (simp only: e(2) digit_mod [OF s(2)])
  show "v div 8 mod 8 = a" "v mod 8 = b"
    by (simp_all only: e(3) digit_div [OF assms(3)] digit_mod [OF assms(2)] digit_mod [OF assms(3)])
qed

lemma decode_create_alu:
  assumes "bytecodeInstructionCreateAlu t d a b = Some op" and "t \<in> set aluTypes"
  shows "bytecodeInstructionParseLength (hi8 op, lo8 op, x) = BytecodeInstructionLength2Byte"
    and "bytecodeInstructionParse info (hi8 op, lo8 op, x) =
           info\<lparr>infoType := BytecodeInstructionTypeAlu,
                infoAlu := \<lparr>aluType = t, aluDestReg = d, aluOpAReg = a, aluOpBReg = b,
                            aluIncDecValue = 8 * a + b + 1\<rparr>\<rparr>"
proof -
  have t: "aluTypeOfNat (aluTypeCode t) = t" "aluTypeCode t < 16"
    using aluTypeOfNat_code [OF assms(2)] by simp_all
  note op = unat_CreateAlu [OF assms(1) t(2)]
  note f = alu_fields [OF op(2-4) t(2) op(1)]
  have "57344 \<le> 256 * unat (hi8 op) + unat (lo8 op)"
    unfolding unat_be16 [symmetric] be16_hi8_lo8 op(1) by simp
  with unat_u8_less [of "lo8 op"] have hi: "224 \<le> unat (hi8 op)" by linarith
  then show "bytecodeInstructionParseLength (hi8 op, lo8 op, x) = BytecodeInstructionLength2Byte"
    by (simp add: parse_length_by_first_byte)
  have u: "push_bit 8 (ucast (hi8 op) :: u16) OR ucast (lo8 op) = op"
    using be16_hi8_lo8 [of op] unfolding be16_def .
  have g: "unat (drop_bit 9 op AND 15) = aluTypeCode t"
    unfolding wordfield using f(1) by simp
  have r: "ucast (drop_bit 6 op AND 7) = d" "ucast (drop_bit 3 op AND 7) = a" "ucast (op AND 7) = b"
    unfolding unat_eq_iff8 unat_ucast_16_8 wordfield using f(2-4) op(2-4) by simp_all
  have "ucast (op AND 63) = 8 * a + b"
    unfolding unat_eq_iff8 unat_ucast_16_8 wordfield using f(5) op(2-4)
    by (simp add: unat_word_ariths)
  then show "bytecodeInstructionParse info (hi8 op, lo8 op, x) =
      info\<lparr>infoType := BytecodeInstructionTypeAlu,
           infoAlu := \<lparr>aluType = t, aluDestReg = d, aluOpAReg = a, aluOpBReg = b,
                       aluIncDecValue = 8 * a + b + 1\<rparr>\<rparr>"
    unfolding parse_alu [OF hi] parseAlu_def prod.case Let_def u using g r t(1) by simp
qed

text \<open>C24: an ALU instruction built by \<open>bytecodeInstructionCreateAlu\<close> and stored high byte
  first is two bytes long and decodes to the same operation on the same registers; the
  decoder's increment field is the two operand fields read as one number, plus one.
\<close>
theorem parse_create_alu:
  assumes "bytecodeInstructionCreateAlu t d a b = Some op" and "t \<in> set aluTypes"
  shows "bytecodeInstructionParseLength (hi8 op, lo8 op, x) = BytecodeInstructionLength2Byte \<and>
    bytecodeInstructionParse info (hi8 op, lo8 op, x) =
      info\<lparr>infoType := BytecodeInstructionTypeAlu,
           infoAlu := \<lparr>aluType = t, aluDestReg = d, aluOpAReg = a, aluOpBReg = b,
                       aluIncDecValue = 8 * a + b + 1\<rparr>\<rparr>"
  using decode_create_alu [OF assms] by simp

theorem parse_create_alu_witness:
  "bytecodeInstructionParse blankInfo (0xF3, 0x62, 0) =
     blankInfo\<lparr>infoType := BytecodeInstructionTypeAlu,
       infoAlu := \<lparr>aluType = BytecodeInstructionAluTypeCmp, aluDestReg = 5, aluOpAReg = 4,
                   aluOpBReg = 2, aluIncDecValue = 35\<rparr>\<rparr>"
proof -
  have c: "bytecodeInstructionCreateAlu BytecodeInstructionAluTypeCmp 5 4 2 = Some 0xF362"
    by (simp add: bytecodeInstructionCreateAlu_def BytecodeRegisterNB_def)
  have h: "hi8 0xF362 = 0xF3" "lo8 0xF362 = 0x62" by (simp_all add: hi8_def lo8_def)
  show ?thesis using parse_create_alu [OF c, of 0 blankInfo] by (simp add: h aluTypes_def)
qed

text \<open>The increment and decrement encoder stores every amount from 1 to 64 in the two
  operand fields so that the decoder gets the same amount back; it takes no other amount.
\<close>
theorem parse_create_inc_dec:
  assumes "bytecodeInstructionCreateAluIncDecValue t d v = Some op"
  shows "0 < v \<and> v \<le> 64 \<and>
    infoType (bytecodeInstructionParse info (hi8 op, lo8 op, x)) = BytecodeInstructionTypeAlu \<and>
    aluType (infoAlu (bytecodeInstructionParse info (hi8 op, lo8 op, x))) = t \<and>
    aluDestReg (infoAlu (bytecodeInstructionParse info (hi8 op, lo8 op, x))) = d \<and>
    aluIncDecValue (infoAlu (bytecodeInstructionParse info (hi8 op, lo8 op, x))) = v"
proof -
  from assms have v: "0 < v" "v \<le> 64" and t: "t \<in> set aluTypes"
    and c: "bytecodeInstructionCreateAlu t d (drop_bit 3 (v - 1)) ((v - 1) AND 7) = Some op"
    by (auto simp: bytecodeInstructionCreateAluIncDecValue_def aluTypes_def split: if_splits)
  have "8 * drop_bit 3 (v - 1) + ((v - 1) AND 7) = v - 1"
  proof -
    have "8 * drop_bit 3 (v - 1) + ((v - 1) AND 7) = push_bit 3 (drop_bit 3 (v - 1)) + take_bit 3 (v - 1)"
      by (simp add: push_bit_eq_mult take_bit_eq_mask mask_numerals(3))
    then show ?thesis by (simp only: bits_ident)
  qed
  then show ?thesis
    using v by (simp only: decode_create_alu [OF c t]) simp
qed

theorem parse_create_inc_dec_witness:
  "0 < (64 :: u8) \<and> (64 :: u8) \<le> 64 \<and>
   aluIncDecValue (infoAlu (bytecodeInstructionParse blankInfo (hi8 0xE1BF, lo8 0xE1BF, 0))) = 64"
proof -
  have c: "bytecodeInstructionCreateAluIncDecValue BytecodeInstructionAluTypeInc 6 64 = Some 0xE1BF"
    by (simp add: bytecodeInstructionCreateAluIncDecValue_def bytecodeInstructionCreateAlu_def
        BytecodeRegisterNB_def)
  show ?thesis
    using parse_create_inc_dec [OF c, of blankInfo 0] by simp
qed

text \<open>
  What a decoded instruction that only loads a constant does: the register and the value.
\<close>

definition setEffect :: "BytecodeInstructionInfo \<Rightarrow> (u8 \<times> u16) option" where
  "setEffect info =
     (case infoType info of
        BytecodeInstructionTypeMemory \<Rightarrow>
          (if memType (infoMemory info) = BytecodeInstructionMemoryTypeSet4
           then Some (memDestReg (infoMemory info), ucast (memSet4Value (infoMemory info))) else None)
      | BytecodeInstructionTypeMisc \<Rightarrow>
          (if miscType (infoMisc info) = BytecodeInstructionMiscTypeSet8
           then Some (set8DestReg (miscSet8 (infoMisc info)), ucast (set8Value (miscSet8 (infoMisc info))))
           else if miscType (infoMisc info) = BytecodeInstructionMiscTypeSet16
           then Some (set16DestReg (miscSet16 (infoMisc info)), set16Value (miscSet16 (infoMisc info)))
           else None)
      | BytecodeInstructionTypeAlu \<Rightarrow> None)"

lemma ucast_8_16_inverse: "unat v < 256 \<Longrightarrow> ucast (ucast (v :: u16) :: u8) = v"
  unfolding unat_eq_iff16 by (simp add: unat_ucast_16_8)

lemma set4_effect:
  assumes "bytecodeInstructionCreateMemorySet4 d v = Some b"
  shows "bytecodeInstructionParseLength (b, b1, b2) = BytecodeInstructionLength1Byte"
    and "setEffect (bytecodeInstructionParse info (b, b1, b2)) = Some (d, ucast v)"
proof -
  have lt: "unat d < 4" "unat v < 16"
    using assms by (auto simp: bytecodeInstructionCreateMemorySet4_def word_less_nat_alt split: if_splits)
  have b: "unat b = 16 * (4 * 2 + unat d) + unat v"
    using unat_CreateMemorySet4 [OF assms] by simp
  have b': "unat b = 64 * 2 + (16 * unat d + unat v)" "16 * unat d + unat v < 64"
    using b lt by simp_all
  have "unat b div 64 = 2" by (simp only: b'(1) digit_div [OF b'(2)])
  moreover have "unat b div 16 mod 4 = unat d" "unat b mod 16 = unat v"
    by (simp_all only: b digit_div [OF lt(2)] digit_mod [OF lt(2)] digit_mod [OF lt(1)])
  ultimately have f: "unat (drop_bit 6 b) = 2" "drop_bit 4 b AND 3 = d" "b AND 15 = v"
    unfolding unat_eq_iff8 wordfield by simp_all
  show "bytecodeInstructionParseLength (b, b1, b2) = BytecodeInstructionLength1Byte"
    using lt b by (simp add: parse_length_by_first_byte)
  have "unat b < 192" unfolding b using lt by simp
  then show "setEffect (bytecodeInstructionParse info (b, b1, b2)) = Some (d, ucast v)"
    by (simp add: parse_class parseMemory_def Let_def f memTypeOfNat_def setEffect_def)
qed

lemma or_reg:
  assumes "unat d < 8"
  shows "unat (0xD0 OR d) = 208 + unat (d :: u8)" "unat (0xD8 OR d) = 216 + unat d"
  using unat_or_shift [of d 3 "0x1A"] unat_or_shift [of d 3 "0x1B"] assms by simp_all

lemma set8_effect:
  assumes "unat d < 8" "op = bytecodeInstructionCreateMiscSet8 d v"
  shows "bytecodeInstructionParseLength (hi8 op, lo8 op, x) = BytecodeInstructionLength2Byte"
    and "setEffect (bytecodeInstructionParse info (hi8 op, lo8 op, x)) = Some (d, ucast v)"
proof -
  have op: "hi8 op = 0xD0 OR d" "lo8 op = v"
    unfolding assms(2) bytecodeInstructionCreateMiscSet8_def be16_def [symmetric] by simp_all
  have u: "unat (0xD0 OR d) = 8 * 26 + unat d" using or_reg [OF assms(1)] by simp
  have d: "(0xD0 OR d) AND 7 = d"
    unfolding unat_eq_iff8 wordfield u by (simp only: digit_mod [OF assms(1)])
  have r: "208 \<le> unat (0xD0 OR d)" "unat (0xD0 OR d) < 216" using u assms(1) by simp_all
  then show "bytecodeInstructionParseLength (hi8 op, lo8 op, x) = BytecodeInstructionLength2Byte"
    by (simp add: parse_length_by_first_byte op)
  show "setEffect (bytecodeInstructionParse info (hi8 op, lo8 op, x)) = Some (d, ucast v)"
    using r d by (simp add: parse_class parseMisc_def Let_def op first_byte setEffect_def)
qed

lemma set16_effect:
  assumes "unat d < 8"
  shows "bytecodeInstructionParseLength (bytecodeInstructionCreateMiscSet16 d v)
           = BytecodeInstructionLength3Byte"
    and "setEffect (bytecodeInstructionParse info (bytecodeInstructionCreateMiscSet16 d v)) = Some (d, v)"
proof -
  have u: "unat (0xD8 OR d) = 8 * 27 + unat d" using or_reg [OF assms(1)] by simp
  have d: "(0xD8 OR d) AND 7 = d"
    unfolding unat_eq_iff8 wordfield u by (simp only: digit_mod [OF assms(1)])
  have r: "216 \<le> unat (0xD8 OR d)" "unat (0xD8 OR d) < 224" using u assms(1) by simp_all
  then show "bytecodeInstructionParseLength (bytecodeInstructionCreateMiscSet16 d v)
      = BytecodeInstructionLength3Byte"
    by (simp add: parse_length_by_first_byte bytecodeInstructionCreateMiscSet16_def)
  have v: "push_bit 8 (ucast (ucast (drop_bit 8 v) :: u8) :: u16) OR ucast (ucast (v AND 255) :: u8) = v"
    using be16_hi8_lo8 [of v] unfolding be16_def hi8_def lo8_def .
  show "setEffect (bytecodeInstructionParse info (bytecodeInstructionCreateMiscSet16 d v)) = Some (d, v)"
    unfolding bytecodeInstructionCreateMiscSet16_def parse_misc [OF order.trans [OF _ r(1)] r(2), simplified]
      parseMisc_def prod.case v
    using r d by (simp add: Let_def first_byte setEffect_def)
qed

text \<open>C25: the generic set encoder never fails on a real register; the bytes it writes have the
  length it returns, decode to an instruction that loads exactly that value into exactly
  that register, and it takes the one byte form whenever register and value fit it and the
  three byte form only when the value needs sixteen bits.
\<close>
theorem create_set_correct:
  assumes "unat d < 8"
  shows "\<exists>j l. bytecodeInstructionCreateSet i d v = Some (j, l) \<and>
     bytecodeInstructionParseLength j = l \<and>
     setEffect (bytecodeInstructionParse info j) = Some (d, v) \<and>
     (lengthBytes l = 1 \<longleftrightarrow> v < 16 \<and> d < 4) \<and> (lengthBytes l = 3 \<longleftrightarrow> 256 \<le> v)"
proof -
  obtain b0 b1 b2 where i: "i = (b0, b1, b2)" by (cases i)
  consider "v < 16" "d < 4" | "\<not> (v < 16 \<and> d < 4)" "v < 256" | "\<not> v < 256" by blast
  then show ?thesis
  proof cases
    case 1
    then have uv: "unat v < 16" by (simp add: word_less_nat_alt)
    have c: "(ucast v :: u8) < 16" using uv by (simp add: word_less_nat_alt unat_ucast_16_8)
    then obtain b where b: "bytecodeInstructionCreateMemorySet4 d (ucast v) = Some b"
      using 1 by (auto simp: bytecodeInstructionCreateMemorySet4_def)
    have "\<not> 256 \<le> v" using uv by (simp add: word_le_nat_alt)
    then show ?thesis
      using 1 set4_effect [OF b] uv
      by (auto simp: bytecodeInstructionCreateSet_def i b ucast_8_16_inverse)
  next
    case 2
    then have uv: "unat v < 256" by (simp add: word_less_nat_alt)
    have nle: "\<not> 256 \<le> v" using 2 by simp
    show ?thesis
      using 2 nle set8_effect [OF assms refl, where v = "ucast v"] uv
      by (auto simp: bytecodeInstructionCreateSet_def i Let_def ucast_8_16_inverse hi8_def lo8_def)
  next
    case 3
    then have "\<not> v < 16" by (simp add: word_less_nat_alt)
    with 3 set16_effect [OF assms] show ?thesis
      by (auto simp: bytecodeInstructionCreateSet_def i)
  qed
qed

theorem create_set_correct_witness:
  "\<exists>j l. bytecodeInstructionCreateSet (0, 0, 0) 6 0x8000 = Some (j, l) \<and>
     bytecodeInstructionParseLength j = l \<and>
     setEffect (bytecodeInstructionParse blankInfo j) = Some (6, 0x8000) \<and>
     (lengthBytes l = 1 \<longleftrightarrow> (0x8000 :: u16) < 16 \<and> (6 :: u8) < 4) \<and>
     (lengthBytes l = 3 \<longleftrightarrow> (256 :: u16) \<le> 0x8000)"
  by (rule create_set_correct) simp

text \<open>The short misc group has sixteen encodings and seven enumerators, and
  \<open>bytecodeInstructionParse\<close> adds the low bits to the first enumerator: the one byte
  instruction 0xC5 decodes as a set8 and 0xC6 as a set16, without the decoder ever
  assigning a register or a value. The record's old contents decide what the instruction
  does; in \<open>procManProcessExecInstruction\<close> that record is an uninitialised local.
\<close>
theorem parse_short_misc_collision:
  "bytecodeInstructionParseLength (0xC5, b1, b2) = BytecodeInstructionLength1Byte \<and>
   bytecodeInstructionParseLength (0xC6, b1, b2) = BytecodeInstructionLength1Byte \<and>
   setEffect (bytecodeInstructionParse info (0xC5, b1, b2)) =
     Some (set8DestReg (miscSet8 (infoMisc info)), ucast (set8Value (miscSet8 (infoMisc info)))) \<and>
   setEffect (bytecodeInstructionParse info (0xC6, b1, b2)) =
     Some (set16DestReg (miscSet16 (infoMisc info)), set16Value (miscSet16 (infoMisc info)))"
  by (simp add: parse_length_by_first_byte parse_class parseMisc_def Let_def setEffect_def
      miscTypeOfNat_def miscTypes_def)

end
