(* ===== verification/CircBuf.thy ===== *)
theory CircBuf
  imports Prelude
begin

text \<open>
  \<open>src/kernel/circbuf.c\<close>: the ring buffer behind the terminal. Its contract is a
  bounded double-ended queue: a locale over the five operations a client calls, which
  the C code's index arithmetic is shown to satisfy, so that a client reasons on lists.
\<close>

text \<open>\<open>n\<close> successive removals, with the value each one returned.\<close>

fun drain :: "('q \<Rightarrow> 'a option \<times> 'q) \<Rightarrow> nat \<Rightarrow> 'q \<Rightarrow> 'a option list \<times> 'q" where
  "drain p 0 q = ([], q)"
| "drain p (Suc n) q = (case drain p n (snd (p q)) of (vs, q') \<Rightarrow> (fst (p q) # vs, q'))"

subsection \<open>The contract\<close>

locale bounded_deque =
  fixes push :: "'q \<Rightarrow> 'a \<Rightarrow> bool \<times> 'q"
    and pop :: "'q \<Rightarrow> 'a option \<times> 'q"
    and unpush :: "'q \<Rightarrow> bool \<times> 'q"
    and peek :: "'q \<Rightarrow> 'a option"
    and is_empty :: "'q \<Rightarrow> bool"
    and contents :: "'q \<Rightarrow> 'a list"
    and room :: "'q \<Rightarrow> nat"
    and wf :: "'q \<Rightarrow> bool"
  assumes is_empty_contents: "wf q \<Longrightarrow> is_empty q \<longleftrightarrow> contents q = []"
    and push_room: "wf q \<Longrightarrow> 0 < room q \<Longrightarrow>
      fst (push q x) \<and> wf (snd (push q x)) \<and> contents (snd (push q x)) = contents q @ [x]
      \<and> Suc (room (snd (push q x))) = room q"
    and push_full: "wf q \<Longrightarrow> room q = 0 \<Longrightarrow> push q x = (False, q)"
    and pop_Nil: "wf q \<Longrightarrow> contents q = [] \<Longrightarrow> pop q = (None, q)"
    and pop_Cons: "wf q \<Longrightarrow> contents q = x # xs \<Longrightarrow>
      fst (pop q) = Some x \<and> wf (snd (pop q)) \<and> contents (snd (pop q)) = xs
      \<and> room (snd (pop q)) = Suc (room q)"
    and unpush_Nil: "wf q \<Longrightarrow> contents q = [] \<Longrightarrow> unpush q = (False, q)"
    and unpush_snoc: "wf q \<Longrightarrow> contents q = xs @ [x] \<Longrightarrow>
      fst (unpush q) \<and> wf (snd (unpush q)) \<and> contents (snd (unpush q)) = xs
      \<and> room (snd (unpush q)) = Suc (room q)"
    and peek_contents: "wf q \<Longrightarrow> peek q = (if contents q = [] then None else Some (last (contents q)))"
begin

lemma push_wf: "wf q \<Longrightarrow> wf (snd (push q x))"
  by (cases "room q") (simp_all add: push_full push_room)

lemma pop_wf: "wf q \<Longrightarrow> wf (snd (pop q))"
  by (cases "contents q") (simp_all add: pop_Nil pop_Cons)

lemma unpush_wf: "wf q \<Longrightarrow> wf (snd (unpush q))"
  by (cases "contents q" rule: rev_cases) (simp_all add: unpush_Nil unpush_snoc)

lemma pop_contents: "wf q \<Longrightarrow> contents (snd (pop q)) = tl (contents q)"
  by (cases "contents q") (simp_all add: pop_Nil pop_Cons)

lemma pop_value: "wf q \<Longrightarrow> fst (pop q) = (case contents q of [] \<Rightarrow> None | x # _ \<Rightarrow> Some x)"
  by (cases "contents q") (simp_all add: pop_Nil pop_Cons)

lemma unpush_contents: "wf q \<Longrightarrow> contents (snd (unpush q)) = butlast (contents q)"
  by (cases "contents q" rule: rev_cases) (simp_all add: unpush_Nil unpush_snoc)

lemma push_all_contents:
  "wf q \<Longrightarrow> length xs \<le> room q \<Longrightarrow>
   wf (fold (\<lambda>x q. snd (push q x)) xs q) \<and>
   contents (fold (\<lambda>x q. snd (push q x)) xs q) = contents q @ xs \<and>
   room (fold (\<lambda>x q. snd (push q x)) xs q) + length xs = room q"
proof (induction xs arbitrary: q)
  case (Cons x xs)
  then have "0 < room q" by auto
  with push_room [OF Cons.prems(1), of x] Cons show ?case by auto
qed simp

lemma drain_contents:
  "wf q \<Longrightarrow> contents q = xs @ ys \<Longrightarrow>
   fst (drain pop (length xs) q) = map Some xs \<and> contents (snd (drain pop (length xs) q)) = ys"
proof (induction xs arbitrary: q)
  case (Cons x xs)
  then show ?case
    using pop_Cons [of q x "xs @ ys"] by (simp split: prod.splits) (metis fst_conv snd_conv)
qed simp

lemma fifo:
  assumes "wf q" "contents q = []" "length xs \<le> room q"
  shows "fst (drain pop (length xs) (fold (\<lambda>x q. snd (push q x)) xs q)) = map Some xs"
  using push_all_contents [OF assms(1,3)] drain_contents [of "fold (\<lambda>x q. snd (push q x)) xs q" xs "[]"] assms(2)
  by simp

end

subsection \<open>The code\<close>

record CircBuf =
  cbBuffer :: "u8 list"
  cbSize :: u8
  cbHead :: u8
  cbTail :: u8

text \<open>The index macros compute in \<open>int\<close>; their value is stored in a \<open>uint8_t\<close>.\<close>

definition circBufIndexNext :: "CircBuf \<Rightarrow> u8 \<Rightarrow> u8" where
  "circBufIndexNext cb i = (if uint i = uint (cbSize cb) - 1 then 0 else i + 1)"

definition circBufIndexPrev :: "CircBuf \<Rightarrow> u8 \<Rightarrow> u8" where
  "circBufIndexPrev cb i = (if i = 0 then cbSize cb - 1 else i - 1)"

definition circBufInit :: "u8 list \<Rightarrow> u8 \<Rightarrow> CircBuf" where
  "circBufInit buffer sz = \<lparr>cbBuffer = buffer, cbSize = sz, cbHead = 0, cbTail = 0\<rparr>"

definition circBufIsEmpty :: "CircBuf \<Rightarrow> bool" where
  "circBufIsEmpty cb \<longleftrightarrow> cbHead cb = cbTail cb"

definition circBufPush :: "CircBuf \<Rightarrow> u8 \<Rightarrow> bool \<times> CircBuf" where
  "circBufPush cb v =
     (let newTail = circBufIndexNext cb (cbTail cb) in
      if newTail = cbHead cb then (False, cb)
      else (True, cb\<lparr>cbBuffer := (cbBuffer cb)[unat (cbTail cb) := v], cbTail := newTail\<rparr>))"

definition circBufPop :: "CircBuf \<Rightarrow> u8 option \<times> CircBuf" where
  "circBufPop cb =
     (if cbHead cb = cbTail cb then (None, cb)
      else (Some (cbBuffer cb ! unat (cbHead cb)),
            cb\<lparr>cbHead := circBufIndexNext cb (cbHead cb)\<rparr>))"

definition circBufUnpush :: "CircBuf \<Rightarrow> bool \<times> CircBuf" where
  "circBufUnpush cb =
     (if cbHead cb = cbTail cb then (False, cb)
      else (True, cb\<lparr>cbTail := circBufIndexPrev cb (cbTail cb)\<rparr>))"

definition circBufTailPeek :: "CircBuf \<Rightarrow> u8 option" where
  "circBufTailPeek cb =
     (if cbHead cb = cbTail cb then None
      else Some (cbBuffer cb ! unat (circBufIndexPrev cb (cbTail cb))))"

subsection \<open>Representation\<close>

text \<open>Both indexes stay inside the buffer, so every array access of the code is in range.\<close>

definition cbWf :: "CircBuf \<Rightarrow> bool" where
  "cbWf cb \<longleftrightarrow> length (cbBuffer cb) = unat (cbSize cb) \<and> cbHead cb < cbSize cb \<and> cbTail cb < cbSize cb"

definition cbCount :: "CircBuf \<Rightarrow> nat" where
  "cbCount cb = (if cbHead cb \<le> cbTail cb then unat (cbTail cb) - unat (cbHead cb)
                 else unat (cbSize cb) - unat (cbHead cb) + unat (cbTail cb))"

definition cbRoom :: "CircBuf \<Rightarrow> nat" where
  "cbRoom cb = unat (cbSize cb) - 1 - cbCount cb"

definition cbContents :: "CircBuf \<Rightarrow> u8 list" where
  "cbContents cb =
     map (\<lambda>k. cbBuffer cb ! ((unat (cbHead cb) + k) mod unat (cbSize cb))) [0..<cbCount cb]"

lemma length_cbContents [simp]: "length (cbContents cb) = cbCount cb"
  by (simp add: cbContents_def)

lemma cbContents_Nil [simp]: "cbContents cb = [] \<longleftrightarrow> cbCount cb = 0"
  by (simp add: cbContents_def)

lemmas cb_le_defs = word_less_nat_alt word_le_nat_alt

lemma unat_next:
  assumes "i < cbSize cb"
  shows "unat (circBufIndexNext cb i) = (if Suc (unat i) = unat (cbSize cb) then 0 else Suc (unat i))"
proof -
  have le: "unat i < unat (cbSize cb)" using assms by (simp add: word_less_nat_alt)
  have "uint i = uint (cbSize cb) - 1 \<longleftrightarrow> Suc (unat i) = unat (cbSize cb)"
    unfolding uint_nat using le by arith
  moreover have "Suc (unat i) < 256" using le unat_u8_less [of "cbSize cb"] by linarith
  then have "unat (i + 1) = Suc (unat i)" by (simp add: unat_word_ariths)
  ultimately show ?thesis by (simp add: circBufIndexNext_def)
qed

lemma unat_prev:
  assumes "i < cbSize cb"
  shows "unat (circBufIndexPrev cb i) = (if unat i = 0 then unat (cbSize cb) - 1 else unat i - 1)"
proof -
  have "cbSize cb \<noteq> 0" using assms by auto
  then have "unat (cbSize cb - 1) = unat (cbSize cb) - 1" by (simp add: unat_minus_one)
  then show ?thesis by (simp add: circBufIndexPrev_def unat_minus_one unat_eq_0)
qed

lemma wrap:
  "h < n \<Longrightarrow> k \<le> n \<Longrightarrow> (h + k) mod n = (if h + k < n then h + k else h + k - (n::nat))"
  by (simp add: mod_if)

lemma cbWf_nat:
  assumes "cbWf cb"
  shows "unat (cbHead cb) < unat (cbSize cb)" "unat (cbTail cb) < unat (cbSize cb)"
    "length (cbBuffer cb) = unat (cbSize cb)"
  using assms by (simp_all add: cbWf_def word_less_nat_alt)

lemma cbCount_less: "cbWf cb \<Longrightarrow> cbCount cb < unat (cbSize cb)"
  using cbWf_nat [of cb] by (auto simp: cbCount_def word_le_nat_alt)

lemma cbTail_of_count:
  assumes "cbWf cb"
  shows "unat (cbTail cb) = (unat (cbHead cb) + cbCount cb) mod unat (cbSize cb)"
  using cbWf_nat [OF assms] cbCount_less [OF assms]
  by (auto simp: wrap cbCount_def word_le_nat_alt)

lemma nth_cbContents:
  "k < cbCount cb \<Longrightarrow> cbContents cb ! k = cbBuffer cb ! ((unat (cbHead cb) + k) mod unat (cbSize cb))"
  by (simp add: cbContents_def)

lemma empty_iff_count: "cbWf cb \<Longrightarrow> cbHead cb = cbTail cb \<longleftrightarrow> cbCount cb = 0"
  using cbWf_nat [of cb] by (auto simp: cbCount_def word_le_nat_alt unat_eq_iff8)

lemma push_full_iff:
  assumes "cbWf cb"
  shows "circBufIndexNext cb (cbTail cb) = cbHead cb \<longleftrightarrow> cbRoom cb = 0"
proof -
  have "cbTail cb < cbSize cb" using assms by (simp add: cbWf_def)
  note nx = unat_next [OF this]
  show ?thesis
    unfolding unat_eq_iff8 nx cbRoom_def
    using cbWf_nat [OF assms] by (auto simp: cbCount_def word_le_nat_alt)
qed

lemma circBufPush_room:
  assumes wf: "cbWf cb" and room: "0 < cbRoom cb"
  shows "fst (circBufPush cb v) \<and> cbWf (snd (circBufPush cb v)) \<and>
    cbContents (snd (circBufPush cb v)) = cbContents cb @ [v] \<and>
    Suc (cbRoom (snd (circBufPush cb v))) = cbRoom cb"
proof -
  let ?n = "unat (cbSize cb)" and ?h = "unat (cbHead cb)" and ?t = "unat (cbTail cb)"
  let ?cb = "cb\<lparr>cbBuffer := (cbBuffer cb)[?t := v], cbTail := circBufIndexNext cb (cbTail cb)\<rparr>"
  have p: "circBufPush cb v = (True, ?cb)"
    using push_full_iff [OF wf] room by (simp add: circBufPush_def Let_def)
  have tl: "cbTail cb < cbSize cb" using wf by (simp add: cbWf_def)
  note nx = unat_next [OF tl] and n = cbWf_nat [OF wf]
  have wf': "cbWf ?cb"
    using wf n nx by (auto simp: cbWf_def word_less_nat_alt)
  have cnt: "cbCount ?cb = Suc (cbCount cb)"
    using n room nx by (auto simp: cbCount_def cbRoom_def word_le_nat_alt split: if_splits)
  have "cbContents ?cb = cbContents cb @ [v]"
  proof (rule nth_equalityI)
    show "length (cbContents ?cb) = length (cbContents cb @ [v])" by (simp add: cnt)
  next
    fix k assume "k < length (cbContents ?cb)"
    then have k: "k \<le> cbCount cb" by (simp add: cnt)
    have l: "cbCount cb < ?n" using wf by (rule cbCount_less)
    have t: "?t = (?h + cbCount cb) mod ?n" by (rule cbTail_of_count [OF wf])
    have "(?h + k) mod ?n = ?t \<longleftrightarrow> k = cbCount cb"
      unfolding t using k l n by (auto simp: wrap)
    moreover have "(?h + k) mod ?n < ?n" using n by simp
    moreover have "cbContents ?cb ! k = (cbBuffer cb)[?t := v] ! ((?h + k) mod ?n)"
      using nth_cbContents [of k ?cb] k cnt by simp
    ultimately show "cbContents ?cb ! k = (cbContents cb @ [v]) ! k"
      using k n(3) by (cases "k = cbCount cb") (simp_all add: nth_cbContents nth_append)
  qed
  then show ?thesis
    using wf' cnt room by (simp add: p cbRoom_def)
qed

lemma circBufPop_Cons:
  assumes wf: "cbWf cb" and c: "cbContents cb = x # xs"
  shows "fst (circBufPop cb) = Some x \<and> cbWf (snd (circBufPop cb)) \<and>
    cbContents (snd (circBufPop cb)) = xs \<and> cbRoom (snd (circBufPop cb)) = Suc (cbRoom cb)"
proof -
  let ?n = "unat (cbSize cb)" and ?h = "unat (cbHead cb)"
  let ?cb = "cb\<lparr>cbHead := circBufIndexNext cb (cbHead cb)\<rparr>"
  have cnt: "cbCount cb = Suc (length xs)" using length_cbContents [of cb] c by simp
  have hd: "cbHead cb < cbSize cb" using wf by (simp add: cbWf_def)
  note nx = unat_next [OF hd] and n = cbWf_nat [OF wf]
  have x: "x = cbBuffer cb ! ?h" using nth_cbContents [of 0 cb] cnt c n by simp
  have p: "circBufPop cb = (Some x, ?cb)"
    using empty_iff_count [OF wf] cnt by (simp add: circBufPop_def x)
  have wf': "cbWf ?cb" using wf n nx by (auto simp: cbWf_def word_less_nat_alt)
  have cnt': "cbCount ?cb = length xs"
    using n nx cnt by (auto simp: cbCount_def word_le_nat_alt split: if_splits)
  have nh: "unat (circBufIndexNext cb (cbHead cb)) = (?h + 1) mod ?n"
    using nx n by (auto simp: mod_if)
  have "cbContents ?cb = xs"
  proof (rule nth_equalityI)
    fix k assume "k < length (cbContents ?cb)"
    then have k: "k < length xs" by (simp add: cnt')
    have "xs ! k = cbContents cb ! Suc k" by (simp add: c)
    also have "\<dots> = cbBuffer cb ! ((?h + Suc k) mod ?n)" using k cnt by (simp add: nth_cbContents)
    finally show "cbContents ?cb ! k = xs ! k"
      using k by (simp add: nth_cbContents cnt' nh mod_add_left_eq)
  qed (simp add: cnt')
  then show ?thesis
    using wf' cnt cnt' cbCount_less [OF wf] by (simp add: p cbRoom_def)
qed

lemma circBufUnpush_snoc:
  assumes wf: "cbWf cb" and c: "cbContents cb = xs @ [x]"
  shows "fst (circBufUnpush cb) \<and> cbWf (snd (circBufUnpush cb)) \<and>
    cbContents (snd (circBufUnpush cb)) = xs \<and> cbRoom (snd (circBufUnpush cb)) = Suc (cbRoom cb)"
proof -
  let ?cb = "cb\<lparr>cbTail := circBufIndexPrev cb (cbTail cb)\<rparr>"
  have cnt: "cbCount cb = Suc (length xs)" using length_cbContents [of cb] c by simp
  have tl: "cbTail cb < cbSize cb" using wf by (simp add: cbWf_def)
  note pv = unat_prev [OF tl] and n = cbWf_nat [OF wf]
  have p: "circBufUnpush cb = (True, ?cb)"
    using empty_iff_count [OF wf] cnt by (simp add: circBufUnpush_def)
  have wf': "cbWf ?cb" using wf n pv by (auto simp: cbWf_def word_less_nat_alt)
  have cnt': "cbCount ?cb = length xs"
  proof (cases "cbHead cb \<le> cbTail cb")
    case True
    then have "unat (cbTail cb) \<noteq> 0" using cnt by (auto simp: cbCount_def)
    then show ?thesis using n pv cnt True by (auto simp: cbCount_def word_le_nat_alt)
  next
    case False
    then show ?thesis
      using n pv cnt by (cases "unat (cbTail cb) = 0") (auto simp: cbCount_def word_le_nat_alt)
  qed
  have "cbContents ?cb = xs"
  proof (rule nth_equalityI)
    fix k assume "k < length (cbContents ?cb)"
    then have k: "k < length xs" by (simp add: cnt')
    then have "xs ! k = cbContents cb ! k" by (simp add: c nth_append)
    then show "cbContents ?cb ! k = xs ! k" using k cnt by (simp add: nth_cbContents cnt')
  qed (simp add: cnt')
  then show ?thesis
    using wf' cnt cnt' cbCount_less [OF wf] by (simp add: p cbRoom_def)
qed

lemma circBufTailPeek_contents:
  assumes wf: "cbWf cb"
  shows "circBufTailPeek cb = (if cbContents cb = [] then None else Some (last (cbContents cb)))"
proof (cases "cbCount cb")
  case 0
  then show ?thesis using empty_iff_count [OF wf] by (simp add: circBufTailPeek_def cbContents_def)
next
  case (Suc m)
  have tl: "cbTail cb < cbSize cb" using wf by (simp add: cbWf_def)
  note pv = unat_prev [OF tl] and n = cbWf_nat [OF wf] and t = cbTail_of_count [OF wf]
  have m: "Suc m < unat (cbSize cb)" using cbCount_less [OF wf] Suc by simp
  have "unat (circBufIndexPrev cb (cbTail cb)) = (unat (cbHead cb) + m) mod unat (cbSize cb)"
    using pv n m t wrap [OF n(1), of m] wrap [OF n(1), of "Suc m"] by (auto simp: Suc split: if_splits)
  moreover have "cbContents cb \<noteq> []" using Suc length_cbContents [of cb] by auto
  ultimately show ?thesis
    using Suc empty_iff_count [OF wf] by (simp add: circBufTailPeek_def last_conv_nth nth_cbContents)
qed

interpretation cb: bounded_deque circBufPush circBufPop circBufUnpush circBufTailPeek
  circBufIsEmpty cbContents cbRoom cbWf
proof unfold_locales
  fix q :: CircBuf and x assume wf: "cbWf q"
  have nil: "cbContents q = [] \<longleftrightarrow> cbHead q = cbTail q"
    using empty_iff_count [OF wf] by simp
  then show "circBufIsEmpty q \<longleftrightarrow> cbContents q = []" by (simp add: circBufIsEmpty_def)
  show "cbContents q = [] \<Longrightarrow> circBufPop q = (None, q)" using nil by (simp add: circBufPop_def)
  show "cbContents q = [] \<Longrightarrow> circBufUnpush q = (False, q)" using nil by (simp add: circBufUnpush_def)
  show "cbRoom q = 0 \<Longrightarrow> circBufPush q x = (False, q)"
    using push_full_iff [OF wf] by (simp add: circBufPush_def Let_def)
qed (use circBufPush_room circBufPop_Cons circBufUnpush_snoc circBufTailPeek_contents in auto)

lemma cbRoom_eq: "cbWf cb \<Longrightarrow> length (cbContents cb) + cbRoom cb + 1 = unat (cbSize cb)"
  using cbCount_less [of cb] by (simp add: cbRoom_def)

lemma circBufInit_wf:
  "length buffer = unat sz \<Longrightarrow> 0 < unat sz \<Longrightarrow>
   cbWf (circBufInit buffer sz) \<and> cbContents (circBufInit buffer sz) = [] \<and>
   cbRoom (circBufInit buffer sz) = unat sz - 1"
  by (simp add: circBufInit_def cbWf_def cbCount_def cbRoom_def word_less_nat_alt)

text \<open>C28: every operation of the ring buffer keeps both indexes inside the array and acts on
  the stored sequence as on a bounded list: a push appends while one of the \<open>size - 1\<close> places
  is free and otherwise changes nothing, a pop takes the front, an unpush drops the back, a
  peek shows it.\<close>

theorem circBuf_is_bounded_deque:
  assumes "cbWf cb"
  shows "length (cbContents cb) + cbRoom cb + 1 = unat (cbSize cb) \<and>
    cbWf (snd (circBufPush cb v)) \<and> cbWf (snd (circBufPop cb)) \<and> cbWf (snd (circBufUnpush cb)) \<and>
    fst (circBufPush cb v) = (0 < cbRoom cb) \<and>
    cbContents (snd (circBufPush cb v)) = cbContents cb @ (if 0 < cbRoom cb then [v] else []) \<and>
    fst (circBufPop cb) = (case cbContents cb of [] \<Rightarrow> None | x # _ \<Rightarrow> Some x) \<and>
    cbContents (snd (circBufPop cb)) = tl (cbContents cb) \<and>
    cbContents (snd (circBufUnpush cb)) = butlast (cbContents cb) \<and>
    circBufTailPeek cb = (if cbContents cb = [] then None else Some (last (cbContents cb)))"
  using assms cbRoom_eq [OF assms] cb.push_wf [OF assms] cb.pop_wf [OF assms] cb.unpush_wf [OF assms]
    cb.push_full [OF assms, of v] cb.push_room [OF assms, of v] cb.pop_value [OF assms]
    cb.pop_contents [OF assms] cb.unpush_contents [OF assms] cb.peek_contents [OF assms]
  by (cases "cbRoom cb = 0") (simp_all del: length_cbContents cbContents_Nil)

lemma circBuf_is_bounded_deque_witness:
  "cbContents (snd (circBufPush \<lparr>cbBuffer = [7, 8, 9], cbSize = 3, cbHead = 2, cbTail = 0\<rparr> 5)) = [9, 5]"
proof -
  have "cbWf \<lparr>cbBuffer = [7, 8, 9], cbSize = 3, cbHead = 2, cbTail = 0\<rparr>" by (simp add: cbWf_def)
  from circBuf_is_bounded_deque [OF this, of 5] show ?thesis
    by (simp add: cbContents_def cbCount_def cbRoom_def)
qed

text \<open>First in, first out: as many values as the initialised buffer has room for come out
  of it in the order they went in.\<close>

theorem circBuf_fifo:
  assumes "length buffer = unat sz" "length xs < unat sz"
  shows "fst (drain circBufPop (length xs)
    (fold (\<lambda>x q. snd (circBufPush q x)) xs (circBufInit buffer sz))) = map Some xs"
  using assms circBufInit_wf [OF assms(1)] by (intro cb.fifo) auto

lemma circBuf_fifo_witness:
  "fst (drain circBufPop 2
    (fold (\<lambda>x q. snd (circBufPush q x)) [10, 20] (circBufInit [0, 0, 0] 3))) = [Some 10, Some 20]"
proof -
  have n: "length [10, 20 :: u8] = 2" by simp
  show ?thesis
    using circBuf_fifo [of "[0, 0, 0]" 3 "[10, 20]"] unfolding n
    by (simp del: drain.simps fold.simps)
qed

end
