(* ===== verification/Tty.thy ===== *)
theory Tty
  imports CircBuf
begin

text \<open>
  \<open>src/kernel/tty.c\<close>: the terminal behind \<open>/dev/ttyS0\<close>. Bytes arrive one at a time
  (\<open>ttyHandleByte\<close>, from the UART interrupt or from standard input), are edited and kept in the
  ring buffer, and are handed to readers. In blocking mode a reader sees nothing before a
  newline or a ctrl+d has been typed; \<open>ttyCircBufActivityCount\<close> counts those that are still in
  the buffer. What is echoed or written is kept as the byte list \<open>ttyOut\<close>, to which
  \<open>fwrite\<close> appends all it is given.
\<close>

subsection \<open>State\<close>

record Tty =
  ttyFlags :: u8
  ttyCircBuf :: CircBuf
  ttyActivityCount :: u8
  ttyOut :: "u8 list"

definition TtyFlagEcho :: u8 where "TtyFlagEcho = 1"
definition TtyFlagBlocking :: u8 where "TtyFlagBlocking = 2"
definition TtyFlagBreak :: u8 where "TtyFlagBreak = 4"
definition ttyCircBufSize :: u8 where "ttyCircBufSize = 64"

lemmas tty_consts = TtyFlagEcho_def TtyFlagBlocking_def TtyFlagBreak_def ttyCircBufSize_def

text \<open>The fields \<open>ttyInit\<close> sets; the buffer is a zeroed global. Grabbing the two serial pins
  and the terminal mode are outside this state.\<close>

definition ttyInit :: Tty where
  "ttyInit = \<lparr>ttyFlags = TtyFlagEcho OR TtyFlagBlocking,
     ttyCircBuf = circBufInit (replicate 64 0) ttyCircBufSize,
     ttyActivityCount = 0, ttyOut = []\<rparr>"

subsection \<open>Operations\<close>

definition ttyGetBlocking :: "Tty \<Rightarrow> bool" where
  "ttyGetBlocking t \<longleftrightarrow> ttyFlags t AND TtyFlagBlocking \<noteq> 0"

definition ttyGetEcho :: "Tty \<Rightarrow> bool" where
  "ttyGetEcho t \<longleftrightarrow> ttyFlags t AND TtyFlagEcho \<noteq> 0"

definition ttySetBlocking :: "bool \<Rightarrow> Tty \<Rightarrow> Tty" where
  "ttySetBlocking b t = t\<lparr>ttyFlags := (if b then ttyFlags t OR TtyFlagBlocking
                                       else ttyFlags t AND NOT TtyFlagBlocking)\<rparr>"

definition ttySetEcho :: "bool \<Rightarrow> Tty \<Rightarrow> Tty" where
  "ttySetEcho b t = t\<lparr>ttyFlags := (if b then ttyFlags t OR TtyFlagEcho
                                   else ttyFlags t AND NOT TtyFlagEcho)\<rparr>"

definition ttySigIntHandler :: "Tty \<Rightarrow> Tty" where
  "ttySigIntHandler t = t\<lparr>ttyFlags := ttyFlags t OR TtyFlagBreak\<rparr>"

definition ttyWriteFunctor :: "u8 list \<Rightarrow> Tty \<Rightarrow> nat \<times> Tty" where
  "ttyWriteFunctor bs t =
     (let n = min (length bs) 65535 in (n, t\<lparr>ttyOut := ttyOut t @ take n bs\<rparr>))"

definition ttyCanWriteFunctor :: "Tty \<Rightarrow> bool" where
  "ttyCanWriteFunctor t = True"

definition ttyCanReadFunctor :: "Tty \<Rightarrow> bool" where
  "ttyCanReadFunctor t =
     (if 0 < ttyActivityCount t then True
      else if ttyGetBlocking t then False
      else \<not> circBufIsEmpty (ttyCircBuf t))"

definition ttyReadFunctor :: "Tty \<Rightarrow> int \<times> Tty" where
  "ttyReadFunctor t =
     (if ttyCanReadFunctor t then
        (case circBufPop (ttyCircBuf t) of
           (None, _) \<Rightarrow> (-1, t)
         | (Some v, q) \<Rightarrow>
             (let t = t\<lparr>ttyCircBuf := q\<rparr>;
                  t = (if v = 10 then t\<lparr>ttyActivityCount := ttyActivityCount t - 1\<rparr> else t)
              in if v = 4 then (-1, t\<lparr>ttyActivityCount := ttyActivityCount t - 1\<rparr>)
                 else (uint v, t)))
      else (-1, t))"

definition ttyHandleByte :: "u8 \<Rightarrow> Tty \<Rightarrow> bool \<times> Tty" where
  "ttyHandleByte value t =
     (if value = 3 then (True, t\<lparr>ttyFlags := ttyFlags t OR TtyFlagBreak\<rparr>)
      else if value = 127 then
        (True,
         case circBufTailPeek (ttyCircBuf t) of
           None \<Rightarrow> t
         | Some tailValue \<Rightarrow>
             if tailValue \<noteq> 10 \<and> fst (circBufUnpush (ttyCircBuf t)) then
               (let t = t\<lparr>ttyCircBuf := snd (circBufUnpush (ttyCircBuf t))\<rparr>
                in if ttyGetEcho t then snd (ttyWriteFunctor [8, 32, 8] t) else t)
             else t)
      else
        (let value = (if value = 13 then 10 else value) in
         case circBufPush (ttyCircBuf t) value of
           (False, q) \<Rightarrow> (False, t\<lparr>ttyCircBuf := q\<rparr>)
         | (True, q) \<Rightarrow>
             (let t = t\<lparr>ttyCircBuf := q\<rparr>;
                  t = (if value = 10 \<or> value = 4
                       then t\<lparr>ttyActivityCount := ttyActivityCount t + 1\<rparr> else t)
              in (True, if ttyGetEcho t \<and> value \<noteq> 4 then snd (ttyWriteFunctor [value] t) else t))))"

text \<open>The read loop of \<open>ttyTick\<close> over the bytes that have arrived: it stops at the first one
  the buffer has no room for (already taken from standard input, so lost).\<close>

fun ttyTickInput :: "u8 list \<Rightarrow> Tty \<Rightarrow> Tty" where
  "ttyTickInput [] t = t"
| "ttyTickInput (b # bs) t =
     (case ttyHandleByte b t of (ok, t') \<Rightarrow> if ok then ttyTickInput bs t' else t')"

subsection \<open>The buffer invariant\<close>

definition ttyFlushByte :: "u8 \<Rightarrow> bool" where
  "ttyFlushByte b \<longleftrightarrow> b = 10 \<or> b = 4"

definition ttyContents :: "Tty \<Rightarrow> u8 list" where
  "ttyContents t = cbContents (ttyCircBuf t)"

definition ttyInv :: "Tty \<Rightarrow> bool" where
  "ttyInv t \<longleftrightarrow> cbWf (ttyCircBuf t) \<and> cbSize (ttyCircBuf t) = ttyCircBufSize \<and>
     unat (ttyActivityCount t) = length (filter ttyFlushByte (ttyContents t))"

lemma ttyInv_cbWf: "ttyInv t \<Longrightarrow> cbWf (ttyCircBuf t)"
  by (simp add: ttyInv_def)

lemma length_ttyContents: "ttyInv t \<Longrightarrow> length (ttyContents t) < 64"
  using cbCount_less [of "ttyCircBuf t"]
  by (simp add: ttyInv_def ttyContents_def ttyCircBufSize_def)

lemma ttyInit_inv: "ttyInv ttyInit \<and> ttyContents ttyInit = []"
  using circBufInit_wf [of "replicate 64 0" 64]
  by (simp add: ttyInv_def ttyContents_def ttyInit_def ttyCircBufSize_def circBufInit_def
      del: cbContents_Nil)

lemma cbSize_ops [simp]:
  "cbSize (snd (circBufPush cb v)) = cbSize cb"
  "cbSize (snd (circBufPop cb)) = cbSize cb"
  "cbSize (snd (circBufUnpush cb)) = cbSize cb"
  by (simp_all add: circBufPush_def circBufPop_def circBufUnpush_def Let_def)

lemma ttyWrite_sel [simp]:
  "ttyFlags (snd (ttyWriteFunctor bs t)) = ttyFlags t"
  "ttyCircBuf (snd (ttyWriteFunctor bs t)) = ttyCircBuf t"
  "ttyActivityCount (snd (ttyWriteFunctor bs t)) = ttyActivityCount t"
  by (simp_all add: ttyWriteFunctor_def Let_def)

text \<open>The effect of a byte on the buffer, by the kind of the byte.\<close>

lemma ttyHandleByte_push:
  assumes inv: "ttyInv t" and v: "value \<noteq> 3" "value \<noteq> 127"
    and w: "w = (if value = 13 then 10 else value)"
  shows "fst (ttyHandleByte value t) = (length (ttyContents t) < 63) \<and>
    ttyContents (snd (ttyHandleByte value t)) =
      ttyContents t @ (if length (ttyContents t) < 63 then [w] else []) \<and>
    ttyInv (snd (ttyHandleByte value t))"
proof -
  let ?q = "ttyCircBuf t"
  have wf: "cbWf ?q" using inv by (rule ttyInv_cbWf)
  have room: "cbRoom ?q = 63 - length (ttyContents t)"
    using cbRoom_eq [OF wf] inv by (simp add: ttyInv_def ttyContents_def ttyCircBufSize_def)
  show ?thesis
  proof (cases "cbRoom ?q = 0")
    case True
    then have "circBufPush ?q w = (False, ?q)" using wf by (rule cb.push_full [rotated])
    then show ?thesis
      using v w True room inv by (simp add: ttyHandleByte_def ttyContents_def Let_def)
  next
    case False
    then obtain q' where p: "circBufPush ?q w = (True, q')" "cbWf q'"
      "cbContents q' = cbContents ?q @ [w]" "cbSize q' = cbSize ?q"
      using cb.push_room [OF wf, of w] cbSize_ops(1) [of ?q w] by (cases "circBufPush ?q w") auto
    have cnt: "length (filter ttyFlushByte (ttyContents t)) \<le> 63"
      using length_filter_le [of ttyFlushByte "ttyContents t"] length_ttyContents [OF inv] by linarith
    then have "unat (ttyActivityCount t + 1) = Suc (unat (ttyActivityCount t))"
      using inv by (simp add: ttyInv_def unat_word_ariths)
    moreover have "ttyHandleByte value t =
      (let t = t\<lparr>ttyCircBuf := q'\<rparr>;
           t = (if ttyFlushByte w then t\<lparr>ttyActivityCount := ttyActivityCount t + 1\<rparr> else t)
       in (True, if ttyGetEcho t \<and> w \<noteq> 4 then snd (ttyWriteFunctor [w] t) else t))"
      unfolding ttyHandleByte_def w [symmetric] ttyFlushByte_def Let_def p(1) using v by simp
    ultimately show ?thesis
      using False room inv p(2-4)
      by (simp add: Let_def ttyInv_def ttyContents_def)
  qed
qed

lemma ttyHandleByte_erase:
  assumes inv: "ttyInv t"
  shows "fst (ttyHandleByte 127 t) \<and>
    ttyContents (snd (ttyHandleByte 127 t)) =
      (if ttyContents t \<noteq> [] \<and> last (ttyContents t) \<noteq> 10 then butlast (ttyContents t)
       else ttyContents t) \<and>
    cbWf (ttyCircBuf (snd (ttyHandleByte 127 t))) \<and>
    cbSize (ttyCircBuf (snd (ttyHandleByte 127 t))) = ttyCircBufSize \<and>
    ttyActivityCount (snd (ttyHandleByte 127 t)) = ttyActivityCount t"
proof (cases "ttyContents t" rule: rev_cases)
  case Nil
  then show ?thesis
    using inv cb.peek_contents [OF ttyInv_cbWf [OF inv]]
    by (simp add: ttyHandleByte_def ttyContents_def ttyInv_def)
next
  case (snoc xs x)
  then show ?thesis
    using inv cb.peek_contents [OF ttyInv_cbWf [OF inv]]
      cb.unpush_snoc [OF ttyInv_cbWf [OF inv], of xs x]
    by (simp add: ttyHandleByte_def ttyContents_def ttyInv_def Let_def)
qed

lemma ttyHandleByte_inv:
  assumes inv: "ttyInv t" and del: "value = 127 \<longrightarrow> ttyContents t = [] \<or> last (ttyContents t) \<noteq> 4"
  shows "ttyInv (snd (ttyHandleByte value t))"
proof -
  consider "value = 3" | "value = 127" | "value \<noteq> 3" "value \<noteq> 127" by blast
  then show ?thesis
  proof cases
    case 1
    then show ?thesis using inv by (simp add: ttyHandleByte_def ttyInv_def ttyContents_def)
  next
    case 2
    show ?thesis
      using del inv ttyHandleByte_erase [OF inv] 2
      by (cases "ttyContents t" rule: rev_cases) (auto simp: ttyInv_def ttyFlushByte_def)
  next
    case 3
    then show ?thesis using ttyHandleByte_push [OF inv] by blast
  qed
qed

lemma ttyCanRead_iff:
  assumes "ttyInv t"
  shows "ttyCanReadFunctor t \<longleftrightarrow>
    (if ttyGetBlocking t then \<exists>b \<in> set (ttyContents t). ttyFlushByte b else ttyContents t \<noteq> [])"
proof -
  have "0 < ttyActivityCount t \<longleftrightarrow> (\<exists>b \<in> set (ttyContents t). ttyFlushByte b)"
    using assms by (auto simp: ttyInv_def word_less_nat_alt filter_empty_conv)
  then show ?thesis
    using cb.is_empty_contents [OF ttyInv_cbWf [OF assms]]
    by (auto simp: ttyCanReadFunctor_def ttyContents_def simp del: cbContents_Nil)
qed

lemma ttyRead_effect:
  assumes inv: "ttyInv t"
  shows "ttyInv (snd (ttyReadFunctor t)) \<and>
    (ttyCanReadFunctor t \<longrightarrow> (\<exists>v vs. ttyContents t = v # vs \<and>
       fst (ttyReadFunctor t) = (if v = 4 then -1 else uint v) \<and>
       ttyContents (snd (ttyReadFunctor t)) = vs)) \<and>
    (\<not> ttyCanReadFunctor t \<longrightarrow> ttyReadFunctor t = (-1, t)) \<and>
    ttyFlags (snd (ttyReadFunctor t)) = ttyFlags t"
proof (cases "ttyCanReadFunctor t")
  case False
  then show ?thesis using inv by (simp add: ttyReadFunctor_def)
next
  case True
  then have "ttyContents t \<noteq> []" using ttyCanRead_iff [OF inv] by (auto split: if_splits)
  then obtain v vs where c: "ttyContents t = v # vs" by (auto simp: neq_Nil_conv)
  let ?q = "ttyCircBuf t"
  obtain q' where p: "circBufPop ?q = (Some v, q')" "cbWf q'" "cbContents q' = vs"
    "cbSize q' = cbSize ?q"
    using cb.pop_Cons [OF ttyInv_cbWf [OF inv], of v vs] c cbSize_ops(2) [of ?q]
    by (cases "circBufPop ?q") (auto simp: ttyContents_def)
  have "unat (ttyActivityCount t - 1) = unat (ttyActivityCount t) - 1" if "ttyFlushByte v"
    using that inv c by (intro unat_minus_one) (auto simp: ttyInv_def)
  then show ?thesis
    using True inv c p(2-4) unfolding ttyReadFunctor_def p(1)
    by (auto simp: Let_def ttyInv_def ttyContents_def ttyFlushByte_def simp del: cbContents_Nil)
qed

lemma ttyFlags_updates:
  "ttyFlags (t\<lparr>ttyCircBuf := q\<rparr>) = ttyFlags t" "ttyFlags (t\<lparr>ttyActivityCount := a\<rparr>) = ttyFlags t"
  by simp_all

lemma ttyHandleByte_flags:
  "value \<noteq> 3 \<Longrightarrow> ttyFlags (snd (ttyHandleByte value t)) = ttyFlags t"
proof (cases "value = 127")
  case True
  then show ?thesis
    by (cases "circBufTailPeek (ttyCircBuf t)") (simp_all add: ttyHandleByte_def Let_def)
next
  case False
  assume v: "value \<noteq> 3"
  define w where "w = (if value = 13 then 10 else value)"
  obtain ok q where p: "circBufPush (ttyCircBuf t) w = (ok, q)" by fastforce
  show ?thesis
    unfolding ttyHandleByte_def Let_def w_def [symmetric] p
    by (cases ok) (simp_all only: False v if_False prod.case bool.case snd_conv
        if_distrib [of ttyFlags] ttyWrite_sel ttyFlags_updates if_cancel)
qed

subsection \<open>Lines\<close>

definition ttyPlainByte :: "u8 \<Rightarrow> bool" where
  "ttyPlainByte b \<longleftrightarrow> b \<noteq> 3 \<and> b \<noteq> 4 \<and> b \<noteq> 10 \<and> b \<noteq> 13 \<and> b \<noteq> 127"

fun ttyReads :: "nat \<Rightarrow> Tty \<Rightarrow> int list \<times> Tty" where
  "ttyReads 0 t = ([], t)"
| "ttyReads (Suc n) t =
     (case ttyReads n (snd (ttyReadFunctor t)) of (vs, t') \<Rightarrow> (fst (ttyReadFunctor t) # vs, t'))"

lemma ttyHandleByte_plain:
  assumes "ttyInv t" "ttyPlainByte x" "length (ttyContents t) < 63"
  shows "fst (ttyHandleByte x t) \<and> ttyInv (snd (ttyHandleByte x t)) \<and>
    ttyContents (snd (ttyHandleByte x t)) = ttyContents t @ [x] \<and>
    ttyFlags (snd (ttyHandleByte x t)) = ttyFlags t"
  using assms ttyHandleByte_push [OF assms(1), of x x] ttyHandleByte_flags [of x t]
  by (simp add: ttyPlainByte_def)

lemma ttyTickInput_plain:
  assumes "ttyInv t" "list_all ttyPlainByte xs" "length (ttyContents t) + length xs \<le> 63"
  shows "ttyInv (ttyTickInput xs t) \<and> ttyContents (ttyTickInput xs t) = ttyContents t @ xs \<and>
    ttyFlags (ttyTickInput xs t) = ttyFlags t"
  using assms
proof (induction xs arbitrary: t)
  case (Cons x xs)
  obtain ok t' where h: "ttyHandleByte x t = (ok, t')" by fastforce
  show ?case
    using Cons.prems Cons.IH [of t'] ttyHandleByte_plain [of t x] by (simp add: h)
qed simp

lemma ttyTickInput_append:
  "fst (ttyHandleByte y (ttyTickInput xs t)) \<Longrightarrow> list_all ttyPlainByte xs \<Longrightarrow> ttyInv t \<Longrightarrow>
   length (ttyContents t) + length xs \<le> 63 \<Longrightarrow>
   ttyTickInput (xs @ [y]) t = snd (ttyHandleByte y (ttyTickInput xs t))"
proof (induction xs arbitrary: t)
  case (Cons x xs)
  obtain ok t' where h: "ttyHandleByte x t = (ok, t')" by fastforce
  show ?case
    using Cons.prems Cons.IH [of t'] ttyHandleByte_plain [of t x] by (simp add: h)
qed (simp split: prod.splits)

lemma ttyReads_line:
  assumes "ttyInv t" "ttyContents t = xs @ 10 # rest" "list_all (\<lambda>b. b \<noteq> 4) xs"
  shows "fst (ttyReads (Suc (length xs)) t) = map uint (xs @ [10]) \<and>
    ttyContents (snd (ttyReads (Suc (length xs)) t)) = rest \<and>
    ttyInv (snd (ttyReads (Suc (length xs)) t)) \<and>
    ttyFlags (snd (ttyReads (Suc (length xs)) t)) = ttyFlags t"
  using assms
proof (induction xs arbitrary: t)
  case Nil
  then have "ttyCanReadFunctor t" by (simp add: ttyCanRead_iff ttyFlushByte_def)
  then show ?case using ttyRead_effect [OF Nil.prems(1)] Nil by auto
next
  case (Cons x xs)
  then have "ttyCanReadFunctor t" by (simp add: ttyCanRead_iff ttyFlushByte_def)
  then show ?case
    using ttyRead_effect [OF Cons.prems(1)] Cons.prems Cons.IH [of "snd (ttyReadFunctor t)"]
    by (auto split: prod.splits)
qed

subsection \<open>Properties\<close>

text \<open>C27: the count that decides whether a blocked reader may go on is exactly the number of
  newlines and ctrl+d bytes in the buffer. It starts so, each read keeps it, and so does every
  arriving byte but a backspace that erases a ctrl+d; the terminal is then readable exactly when a
  finished line is buffered (blocking mode) or any byte is (non-blocking mode).\<close>

theorem tty_activity_count_exact:
  assumes "ttyInv t"
  shows "ttyInv ttyInit \<and> ttyInv (snd (ttyReadFunctor t)) \<and>
    ttyInv (ttySetBlocking b t) \<and> ttyInv (ttySetEcho b t) \<and> ttyInv (ttySigIntHandler t) \<and>
    (value = 127 \<and> ttyContents t \<noteq> [] \<and> last (ttyContents t) = 4 \<or>
      ttyInv (snd (ttyHandleByte value t))) \<and>
    ttyCanReadFunctor t =
      (if ttyGetBlocking t then \<exists>c \<in> set (ttyContents t). c = 10 \<or> c = 4
       else ttyContents t \<noteq> [])"
proof -
  have "ttyInv (ttySetBlocking b t)" "ttyInv (ttySetEcho b t)" "ttyInv (ttySigIntHandler t)"
    using assms by (simp_all add: ttySetBlocking_def ttySetEcho_def ttySigIntHandler_def
        ttyInv_def ttyContents_def)
  then show ?thesis
    using assms ttyInit_inv ttyRead_effect [OF assms] ttyHandleByte_inv [OF assms, of "value"]
      ttyCanRead_iff [OF assms] by (auto simp: ttyFlushByte_def)
qed

lemma tty_activity_count_exact_witness:
  "ttyInv ttyInit \<and> \<not> ttyCanReadFunctor ttyInit"
proof -
  have i: "ttyInv ttyInit" "ttyContents ttyInit = []" using ttyInit_inv by auto
  from tty_activity_count_exact [OF i(1), of True 0] i show ?thesis by simp
qed





end
