(* ===== verification/KStr.thy ===== *)
theory KStr
  imports Prelude
begin

text \<open>
  \<open>src/kernel/kstr.c\<close>: the kernel's string type, which hides where the bytes of a string
  live and carries five spare bits that other components use. The bytes before the NUL are the
  list. An offset string points into another one. In the host build a program memory string
  never occurs (\<open>kstrAllocProgmem\<close> copies); the branches for it are those of that build.
  Reading past the NUL of a string, which C leaves undefined, gives zero here.
\<close>

type_synonym cstr = "u8 list"

datatype KStr =
    KStrTypeNull (kstrSpare: u8)
  | KStrTypeProgmem (kstrSpare: u8)
  | KStrTypeStatic (kstrSpare: u8) cstr
  | KStrTypeHeap (kstrSpare: u8) cstr
  | KStrTypeOffset (kstrSpare: u8) (kstrOffset: u8) (kstrSrc: KStr)

definition KStrSpareBits :: nat where "KStrSpareBits = 5"
definition KStrSpareMax :: nat where "KStrSpareMax = 2 ^ KStrSpareBits"
definition KStrOffsetMax :: nat where "KStrOffsetMax = 2 ^ 8"

definition charAt :: "cstr \<Rightarrow> nat \<Rightarrow> u8" where
  "charAt s n = (if n < length s then s ! n else 0)"

subsection \<open>Making strings\<close>

definition kstrNull :: KStr where "kstrNull = KStrTypeNull 0"
definition kstrAllocStatic :: "cstr \<Rightarrow> KStr" where "kstrAllocStatic s = KStrTypeStatic 0 s"
definition kstrAllocCopy :: "cstr \<Rightarrow> KStr" where "kstrAllocCopy s = KStrTypeHeap 0 s"

text \<open>The offset is limited to 256, then stored in eight bits.\<close>

definition kstrAllocOffset :: "KStr \<Rightarrow> nat \<Rightarrow> KStr" where
  "kstrAllocOffset src offset =
     KStrTypeOffset 0 (of_nat (if offset > KStrOffsetMax then KStrOffsetMax else offset)) src"

definition kstrGetSpare :: "KStr \<Rightarrow> u8" where "kstrGetSpare s = kstrSpare s"

primrec setSpareField :: "u8 \<Rightarrow> KStr \<Rightarrow> KStr" where
  "setSpareField v (KStrTypeNull s) = KStrTypeNull v"
| "setSpareField v (KStrTypeProgmem s) = KStrTypeProgmem v"
| "setSpareField v (KStrTypeStatic s b) = KStrTypeStatic v b"
| "setSpareField v (KStrTypeHeap s b) = KStrTypeHeap v b"
| "setSpareField v (KStrTypeOffset s n src) = KStrTypeOffset v n src"

definition kstrSetSpare :: "KStr \<Rightarrow> u8 \<Rightarrow> KStr" where
  "kstrSetSpare s v = (if unat v < KStrSpareMax then setSpareField v s else s)"

definition kstrFree :: "KStr \<Rightarrow> KStr" where "kstrFree s = kstrNull"

fun kstrIsNull :: "KStr \<Rightarrow> bool" where
  "kstrIsNull (KStrTypeNull s) = True"
| "kstrIsNull s = False"

subsection \<open>Reading strings\<close>

fun kstrGetChar :: "KStr \<Rightarrow> nat \<Rightarrow> u8" where
  "kstrGetChar (KStrTypeNull s) n = 0"
| "kstrGetChar (KStrTypeProgmem s) n = 0"
| "kstrGetChar (KStrTypeStatic s b) n = charAt b n"
| "kstrGetChar (KStrTypeHeap s b) n = charAt b n"
| "kstrGetChar (KStrTypeOffset s offset src) n = kstrGetChar src (n + unat offset)"

fun kstrStrlen :: "KStr \<Rightarrow> u16" where
  "kstrStrlen (KStrTypeNull s) = 0"
| "kstrStrlen (KStrTypeProgmem s) = 0"
| "kstrStrlen (KStrTypeStatic s b) = of_nat (length b)"
| "kstrStrlen (KStrTypeHeap s b) = of_nat (length b)"
| "kstrStrlen (KStrTypeOffset s offset src) = kstrStrlen src - ucast offset"

text \<open>The loop that resolves an offset string to its base string, adding up the offsets.\<close>

fun resolveBase :: "KStr \<Rightarrow> nat \<Rightarrow> KStr \<times> nat" where
  "resolveBase (KStrTypeOffset s n src) offset = resolveBase src (offset + unat n)"
| "resolveBase k offset = (k, offset)"

text \<open>The bytes a base string of a static or heap type has from an offset on.\<close>

fun baseBytes :: "KStr \<times> nat \<Rightarrow> cstr option" where
  "baseBytes (KStrTypeStatic s b, n) = Some (drop n b)"
| "baseBytes (KStrTypeHeap s b, n) = Some (drop n b)"
| "baseBytes _ = None"

text \<open>\<open>kstrStrcpy\<close> leaves the buffer as it is for a null string.\<close>

definition kstrStrcpy :: "cstr \<Rightarrow> KStr \<Rightarrow> cstr" where
  "kstrStrcpy buf k = (case baseBytes (resolveBase k 0) of None \<Rightarrow> buf | Some s \<Rightarrow> s)"

subsection \<open>Comparisons\<close>

text \<open>\<open>strcmp\<close> and \<open>strncmp\<close> of the C library, with -1, 0 and 1 as results.\<close>

fun cstrcmp :: "cstr \<Rightarrow> cstr \<Rightarrow> int" where
  "cstrcmp [] [] = 0"
| "cstrcmp [] (b # bs) = -1"
| "cstrcmp (a # as) [] = 1"
| "cstrcmp (a # as) (b # bs) = (if a < b then -1 else if a > b then 1 else cstrcmp as bs)"

definition kstrStrcmp :: "cstr \<Rightarrow> KStr \<Rightarrow> int" where
  "kstrStrcmp a k = (case baseBytes (resolveBase k 0) of None \<Rightarrow> 0 | Some b \<Rightarrow> cstrcmp a b)"

definition kstrStrncmp :: "cstr \<Rightarrow> KStr \<Rightarrow> nat \<Rightarrow> int" where
  "kstrStrncmp a k n =
     (case baseBytes (resolveBase k 0) of None \<Rightarrow> 0 | Some b \<Rightarrow> cstrcmp (take n a) (take n b))"

text \<open>The byte loops end at the first difference or at the NUL of the first string; \<open>i\<close> is
  bounded by the longest string a \<open>KStr\<close> holds.\<close>

fun kstrBound :: "KStr \<Rightarrow> nat" where
  "kstrBound (KStrTypeStatic s b) = length b"
| "kstrBound (KStrTypeHeap s b) = length b"
| "kstrBound (KStrTypeOffset s n src) = kstrBound src"
| "kstrBound _ = 0"

lemma kstrGetChar_beyond: "kstrBound k \<le> n \<Longrightarrow> kstrGetChar k n = 0"
  by (induction k n rule: kstrGetChar.induct) (auto simp: charAt_def)

function doubleStrcmpLoop :: "KStr \<Rightarrow> KStr \<Rightarrow> nat \<Rightarrow> int" where
  "doubleStrcmpLoop a b i =
     (if kstrGetChar a i < kstrGetChar b i then -1
      else if kstrGetChar a i > kstrGetChar b i then 1
      else if kstrGetChar a i = 0 then 0
      else doubleStrcmpLoop a b (i + 1))"
  by pat_completeness auto
termination
  by (relation "measure (\<lambda>(a, b, i). kstrBound a - i)")
    (auto, metis diff_less_mono2 kstrGetChar_beyond lessI not_less)

definition kstrDoubleStrcmp :: "KStr \<Rightarrow> KStr \<Rightarrow> int" where
  "kstrDoubleStrcmp a b = (if kstrIsNull a \<or> kstrIsNull b then 0 else doubleStrcmpLoop a b 0)"

fun doubleStrncmpLoop :: "KStr \<Rightarrow> KStr \<Rightarrow> nat \<Rightarrow> nat \<Rightarrow> int" where
  "doubleStrncmpLoop a b i 0 = 0"
| "doubleStrncmpLoop a b i (Suc n) =
     (if kstrGetChar a i < kstrGetChar b i then -1
      else if kstrGetChar a i > kstrGetChar b i then 1
      else if kstrGetChar a i = 0 then 0
      else doubleStrncmpLoop a b (i + 1) n)"

definition kstrDoubleStrncmp :: "KStr \<Rightarrow> KStr \<Rightarrow> nat \<Rightarrow> int" where
  "kstrDoubleStrncmp a b n =
     (if kstrIsNull a \<or> kstrIsNull b then 0 else doubleStrncmpLoop a b 0 n)"

fun commonPrefixLen :: "cstr \<Rightarrow> cstr \<Rightarrow> nat" where
  "commonPrefixLen (a # as) (b # bs) = (if a = b then Suc (commonPrefixLen as bs) else 0)"
| "commonPrefixLen _ _ = 0"

definition kstrMatchLen :: "cstr \<Rightarrow> KStr \<Rightarrow> nat" where
  "kstrMatchLen a k =
     (case baseBytes (resolveBase k 0) of None \<Rightarrow> 0 | Some b \<Rightarrow> commonPrefixLen a b)"

function doubleMatchLenLoop :: "KStr \<Rightarrow> KStr \<Rightarrow> nat \<Rightarrow> nat" where
  "doubleMatchLenLoop a b i =
     (if kstrGetChar a i = 0 \<or> kstrGetChar a i \<noteq> kstrGetChar b i then i
      else doubleMatchLenLoop a b (i + 1))"
  by pat_completeness auto
termination
  by (relation "measure (\<lambda>(a, b, i). kstrBound a - i)")
    (auto, metis diff_less_mono2 kstrGetChar_beyond lessI not_less)

definition kstrDoubleMatchLen :: "KStr \<Rightarrow> KStr \<Rightarrow> nat" where
  "kstrDoubleMatchLen a b = (if kstrIsNull a \<or> kstrIsNull b then 0 else doubleMatchLenLoop a b 0)"

declare doubleStrcmpLoop.simps [simp del] doubleMatchLenLoop.simps [simp del]

subsection \<open>The bytes of a string, and what the operations are on them\<close>

fun kstrBytes :: "KStr \<Rightarrow> cstr" where
  "kstrBytes (KStrTypeStatic s b) = b"
| "kstrBytes (KStrTypeHeap s b) = b"
| "kstrBytes (KStrTypeOffset s n src) = drop (unat n) (kstrBytes src)"
| "kstrBytes _ = []"

text \<open>A C string holds no NUL before its end.\<close>

fun kstrWf :: "KStr \<Rightarrow> bool" where
  "kstrWf (KStrTypeStatic s b) \<longleftrightarrow> 0 \<notin> set b"
| "kstrWf (KStrTypeHeap s b) \<longleftrightarrow> 0 \<notin> set b"
| "kstrWf (KStrTypeOffset s n src) \<longleftrightarrow> kstrWf src"
| "kstrWf _ \<longleftrightarrow> True"

lemma kstrGetChar_bytes: "kstrGetChar k n = charAt (kstrBytes k) n"
  by (induction k n rule: kstrGetChar.induct) (auto simp: charAt_def add.commute)

lemma kstrWf_bytes: "kstrWf k \<Longrightarrow> 0 \<notin> set (kstrBytes k)"
  by (induction k) (auto dest: in_set_dropD)

lemma baseBytes_resolve: "baseBytes (resolveBase k m) = Some s \<Longrightarrow> s = drop m (kstrBytes k)"
  by (induction k m rule: resolveBase.induct) (auto simp: add.commute)

lemma cstrcmp_eq_0 [simp]: "cstrcmp a b = 0 \<longleftrightarrow> a = b"
  by (induction a b rule: cstrcmp.induct) auto

lemma doubleStrcmpLoop_bytes:
  assumes "0 \<notin> set (kstrBytes a)" "0 \<notin> set (kstrBytes b)"
  shows "doubleStrcmpLoop a b i = cstrcmp (drop i (kstrBytes a)) (drop i (kstrBytes b))"
  using assms
proof (induction a b i rule: doubleStrcmpLoop.induct)
  case (1 a b i)
  have nz: "j < length (kstrBytes a) \<Longrightarrow> kstrBytes a ! j \<noteq> 0"
    "j < length (kstrBytes b) \<Longrightarrow> kstrBytes b ! j \<noteq> 0" for j
    using "1.prems" by (metis nth_mem)+
  show ?case
  proof (cases "i < length (kstrBytes a)")
    case True
    note a = True
    show ?thesis
    proof (cases "i < length (kstrBytes b)")
      case True
      then show ?thesis
        using a nz 1 by (subst doubleStrcmpLoop.simps)
          (auto simp: kstrGetChar_bytes charAt_def Cons_nth_drop_Suc [symmetric])
    next
      case False
      then have "0 < kstrBytes a ! i" using a nz by (simp add: word_neq_0_conv)
      then show ?thesis
        using a False by (subst doubleStrcmpLoop.simps)
          (auto simp: kstrGetChar_bytes charAt_def Cons_nth_drop_Suc [symmetric])
    qed
  next
    case False
    note a = False
    show ?thesis
    proof (cases "i < length (kstrBytes b)")
      case True
      then have "0 < kstrBytes b ! i" using nz by (simp add: word_neq_0_conv)
      then show ?thesis
        using a True by (subst doubleStrcmpLoop.simps)
          (auto simp: kstrGetChar_bytes charAt_def Cons_nth_drop_Suc [symmetric])
    next
      case False
      then show ?thesis
        using a by (subst doubleStrcmpLoop.simps) (auto simp: kstrGetChar_bytes charAt_def)
    qed
  qed
qed

lemma kstrDoubleStrcmp_eq_0:
  assumes "kstrWf a" "kstrWf b"
  shows "kstrDoubleStrcmp a b = 0 \<longleftrightarrow> kstrIsNull a \<or> kstrIsNull b \<or> kstrBytes a = kstrBytes b"
  using assms by (auto simp: kstrDoubleStrcmp_def doubleStrcmpLoop_bytes kstrWf_bytes)

subsection \<open>Literals and numbers\<close>

definition bytesOf :: "string \<Rightarrow> cstr" where
  "bytesOf s = map of_char s"

function decimalBytes :: "nat \<Rightarrow> cstr" where
  "decimalBytes n = (if n < 10 then [48 + of_nat n] else decimalBytes (n div 10) @ [48 + of_nat (n mod 10)])"
  by pat_completeness auto
termination by (relation "measure id") auto

declare decimalBytes.simps [simp del]

text \<open>\<open>atoi\<close>: leading white space, an optional sign and the digits that follow.\<close>

definition isDigit :: "u8 \<Rightarrow> bool" where
  "isDigit b \<longleftrightarrow> 48 \<le> b \<and> b \<le> 57"

definition digitsValue :: "cstr \<Rightarrow> int" where
  "digitsValue s = foldl (\<lambda>v b. 10 * v + (uint b - 48)) 0 (takeWhile isDigit s)"

definition atoi :: "cstr \<Rightarrow> int" where
  "atoi s =
     (let s = dropWhile (\<lambda>b. b = 32 \<or> 9 \<le> b \<and> b \<le> 13) s in
      if charAt s 0 = 45 then - digitsValue (tl s)
      else if charAt s 0 = 43 then digitsValue (tl s) else digitsValue s)"

end
