(* ===== verification/KernelFsPath.thy ===== *)
theory KernelFsPath
  imports KStr "HOL-Library.Monad_Syntax"
begin

text \<open>
  The path functions and the file descriptor's spare bits of \<open>src/kernel/kernelfs.c\<close>.
  \<open>kernelFsPathNormalise\<close> edits a buffer in place through two pointers; both are indexes here,
  and the buffer keeps the stale bytes after a moved NUL, which the second pointer does read.
\<close>

definition KernelFsPathMax :: nat where "KernelFsPathMax = 64"
definition KernelFsFdMax :: nat where "KernelFsFdMax = 64"
definition KernelFsFdInvalid :: u8 where "KernelFsFdInvalid = 0"

type_synonym KernelFsFd = u8
type_synonym KernelFsFdMode = u8

definition KernelFsFdModeNone :: u8 where "KernelFsFdModeNone = 0"
definition KernelFsFdModeRO :: u8 where "KernelFsFdModeRO = 1"
definition KernelFsFdModeWO :: u8 where "KernelFsFdModeWO = 2"
definition KernelFsFdModeRW :: u8 where "KernelFsFdModeRW = 3"
definition KernelFsFdModeBits :: nat where "KernelFsFdModeBits = 2"
definition KernelFsFdModeMax :: nat where "KernelFsFdModeMax = 2 ^ KernelFsFdModeBits"
definition KernelFsFdRefCountBits :: nat where
  "KernelFsFdRefCountBits = KStrSpareBits - KernelFsFdModeBits"
definition KernelFsFdRefCountMax :: nat where "KernelFsFdRefCountMax = 2 ^ KernelFsFdRefCountBits"

lemmas fdmode_consts =
  KernelFsFdModeNone_def KernelFsFdModeRO_def KernelFsFdModeWO_def KernelFsFdModeRW_def
  KernelFsFdModeBits_def KernelFsFdModeMax_def KernelFsFdRefCountBits_def
  KernelFsFdRefCountMax_def KStrSpareBits_def

section \<open>Mode and reference count in the spare bits\<close>

definition kernelFsFdPathSpareMake :: "KernelFsFdMode \<Rightarrow> u32 \<Rightarrow> u8" where
  "kernelFsFdPathSpareMake mode refCount =
     (if mode = KernelFsFdModeNone \<or> unat mode \<ge> KernelFsFdModeMax then 0
      else if unat refCount \<ge> KernelFsFdRefCountMax then 0
      else push_bit KernelFsFdModeBits (ucast refCount) OR mode)"

definition kernelFsFdPathSpareGetMode :: "u8 \<Rightarrow> KernelFsFdMode" where
  "kernelFsFdPathSpareGetMode spare = spare AND (of_nat KernelFsFdModeMax - 1)"

definition kernelFsFdPathSpareGetRefCount :: "u8 \<Rightarrow> u32" where
  "kernelFsFdPathSpareGetRefCount spare = ucast (drop_bit KernelFsFdModeBits spare)"

definition kernelFsFdModeToString :: "KernelFsFdMode \<Rightarrow> string" where
  "kernelFsFdModeToString mode =
     (if unat mode \<ge> KernelFsFdModeMax then ''??''
      else [''NO'', ''RO'', ''WO'', ''RW''] ! unat mode)"

lemma spare_round_trip:
  assumes "0 < unat mode" "unat mode < 4" "unat refCount < 8"
  shows "kernelFsFdPathSpareGetMode (kernelFsFdPathSpareMake mode refCount) = mode"
    and "kernelFsFdPathSpareGetRefCount (kernelFsFdPathSpareMake mode refCount) = refCount"
    and "unat (kernelFsFdPathSpareMake mode refCount) = 4 * unat refCount + unat mode"
proof -
  have "unat (ucast refCount :: u8) = unat refCount"
    using assms(3) by (simp add: unsigned_ucast_eq take_bit_eq_mod)
  moreover have "mode \<noteq> 0" using assms(1) by auto
  ultimately have m: "unat (kernelFsFdPathSpareMake mode refCount) = 4 * unat refCount + unat mode"
    using assms by (simp add: kernelFsFdPathSpareMake_def fdmode_consts unat_or_shift)
  show "kernelFsFdPathSpareGetMode (kernelFsFdPathSpareMake mode refCount) = mode"
    unfolding unat_eq_iff8 kernelFsFdPathSpareGetMode_def using assms m
    by (simp add: fdmode_consts wordfield)
  have "unat (kernelFsFdPathSpareGetRefCount (kernelFsFdPathSpareMake mode refCount)) = unat refCount"
    unfolding kernelFsFdPathSpareGetRefCount_def using assms m
    by (simp add: fdmode_consts wordfield)
  then show "kernelFsFdPathSpareGetRefCount (kernelFsFdPathSpareMake mode refCount) = refCount"
    by (simp add: word_unat_eq_iff)
  show "unat (kernelFsFdPathSpareMake mode refCount) = 4 * unat refCount + unat mode" by (rule m)
qed

section \<open>Valid paths and their two parts\<close>

abbreviation chSlash :: u8 where "chSlash \<equiv> 47"
abbreviation chDot :: u8 where "chDot \<equiv> 46"

definition kernelFsPathIsValid :: "cstr \<Rightarrow> bool" where
  "kernelFsPathIsValid path =
     (if charAt path 0 \<noteq> chSlash then False
      else if path \<noteq> [chSlash] \<and> path ! (length path - 1) = chSlash then False
      else True)"

text \<open>\<open>strrchr\<close>: the last position of a byte.\<close>

definition lastIndex :: "u8 \<Rightarrow> cstr \<Rightarrow> nat option" where
  "lastIndex b s = List.find (\<lambda>i. s ! i = b) (rev [0..<length s])"

definition kernelFsPathSplit :: "cstr \<Rightarrow> (cstr \<times> cstr) option" where
  "kernelFsPathSplit path =
     (if \<not> kernelFsPathIsValid path then None
      else case lastIndex chSlash path of
        None \<Rightarrow> None
      | Some i \<Rightarrow> Some (take i path, drop (Suc i) path))"

text \<open>The static buffer has 64 bytes; a longer string would overrun it.\<close>

definition kernelFsPathSplitStatic :: "cstr \<Rightarrow> (cstr \<times> cstr) option" where
  "kernelFsPathSplitStatic path =
     (if length path < KernelFsPathMax then kernelFsPathSplit path else None)"

definition kernelFsPathSplitStaticKStr :: "KStr \<Rightarrow> (cstr \<times> cstr) option" where
  "kernelFsPathSplitStaticKStr k =
     (if kstrIsNull k then None else kernelFsPathSplitStatic (kstrBytes k))"

section \<open>Normalising a path in its buffer\<close>

text \<open>The C string that starts at an index of a buffer, \<open>strstr\<close> from there, and
  \<open>memmove\<close> inside the buffer.\<close>

definition cstrFrom :: "u8 list \<Rightarrow> nat \<Rightarrow> cstr" where
  "cstrFrom buf i = takeWhile (\<lambda>b. b \<noteq> 0) (drop i buf)"

definition strstrFrom :: "u8 list \<Rightarrow> nat \<Rightarrow> cstr \<Rightarrow> nat option" where
  "strstrFrom buf i pat =
     List.find (\<lambda>k. take (length pat) (cstrFrom buf k) = pat) [i..<i + length (cstrFrom buf i)]"

definition memmoveBuf :: "u8 list \<Rightarrow> nat \<Rightarrow> nat \<Rightarrow> nat \<Rightarrow> u8 list" where
  "memmoveBuf buf dest src n = take dest buf @ take n (drop src buf) @ drop (dest + n) buf"

text \<open>One turn of the loop over \<open>/..\<close> with \<open>c\<close> on a match: the last slash before it is
  sought downwards, and the part between is cut out unless it is \<open>..\<close> itself.\<close>

definition parentStep :: "u8 list \<Rightarrow> nat \<Rightarrow> bool \<Rightarrow> u8 list \<times> bool" where
  "parentStep buf c change =
     (case List.find (\<lambda>d. buf ! d = chSlash) (rev [0..<c]) of
        None \<Rightarrow> (buf, change)
      | Some d \<Rightarrow>
          if take 4 (cstrFrom buf d) = [chSlash, chDot, chDot, chSlash] then (buf, change)
          else let d' = d + (if cstrFrom buf c = [chSlash, chDot, chDot] then 1 else 0) in
            (memmoveBuf buf d' (c + 3) (length (cstrFrom buf (c + 3)) + 1), True))"

text \<open>A match that is not a whole component makes the C loop \<open>continue\<close> without moving
  \<open>c\<close>.\<close>

partial_function (option) parentLoop :: "u8 list \<Rightarrow> nat \<Rightarrow> bool \<Rightarrow> (u8 list \<times> bool) option" where
  "parentLoop buf c change =
     (case strstrFrom buf c [chSlash, chDot, chDot] of
        None \<Rightarrow> Some (buf, change)
      | Some c \<Rightarrow>
          if cstrFrom buf c \<noteq> [chSlash, chDot, chDot] \<and>
             take 4 (cstrFrom buf c) \<noteq> [chSlash, chDot, chDot, chSlash]
          then parentLoop buf c change
          else (case parentStep buf c change of (buf', change') \<Rightarrow> parentLoop buf' (c + 1) change'))"

definition squeeze :: "cstr \<Rightarrow> nat \<Rightarrow> u8 list \<times> bool \<Rightarrow> u8 list \<times> bool" where
  "squeeze pat n bc =
     (case bc of (buf, change) \<Rightarrow>
        (case strstrFrom buf 0 pat of
           None \<Rightarrow> (buf, change)
         | Some c \<Rightarrow> (memmoveBuf buf c (c + n) (length (cstrFrom buf (c + n)) + 1), True)))"

partial_function (option) normaliseLoop :: "u8 list \<Rightarrow> u8 list option" where
  "normaliseLoop buf =
     (case parentLoop buf 0 False of
        None \<Rightarrow> None
      | Some bc \<Rightarrow>
          (case squeeze [chSlash, chSlash] 1 (squeeze [chSlash, chDot, chSlash] 2 bc) of
             (buf', change) \<Rightarrow> if change then normaliseLoop buf' else Some buf'))"

declare parentLoop.simps [code] normaliseLoop.simps [code]

text \<open>The test for a trailing slash would read before the buffer of an empty string.\<close>

definition kernelFsPathNormalise :: "u8 list \<Rightarrow> u8 list option" where
  "kernelFsPathNormalise path =
     (case normaliseLoop path of
        None \<Rightarrow> None
      | Some path \<Rightarrow>
          let s = cstrFrom path 0 in
          if s = [] then None
          else if s \<noteq> [chSlash] \<and> s ! (length s - 1) = chSlash
          then Some (path[length s - 1 := 0]) else Some path)"

text \<open>A C string handed over in a buffer of its own.\<close>

definition normalisePath :: "cstr \<Rightarrow> cstr option" where
  "normalisePath s = map_option (\<lambda>buf. cstrFrom buf 0) (kernelFsPathNormalise (s @ [0]))"

end
