(* ===== verification/MiniFs.thy ===== *)
theory MiniFs
  imports Prelude "HOL-Library.Monad_Syntax"
begin

text \<open>
  \<open>src/kernel/minifs.c\<close>: the flat file system used for read-only program images, for the
  EEPROM volumes and for \<open>/tmp\<close>. A volume is a byte store reached through a read and a write
  functor. Byte 0 is a magic number, byte 1 the number of 128-byte units less one, bytes 2 to 127
  the start unit of each file, ascending with zeros last. A file occupies whole units: two bytes of
  total length, one byte of allocated units, its name up to a NUL, then its content.

  A value of option type is \<open>None\<close> where the C code does not return: an assertion fails, or the
  scan for a name's NUL never ends. Offsets and lengths are kept at the width of the code;
  \<open>unsigned\<close> and \<open>int\<close> have 32 bits, as in the host build.
\<close>

section \<open>The volume and its functors\<close>

text \<open>The external state behind \<open>functorUserData\<close> has type \<open>'s\<close>. A read returns the bytes it
  filled in, their number being the functor's result. \<open>mfIndet\<close> stands for the indeterminate
  value of the local that \<open>miniFsReadByte\<close> returns when its read fills in nothing.\<close>

record 's MiniFs =
  mfReadFunctor :: "'s \<Rightarrow> u16 \<Rightarrow> u16 \<Rightarrow> u8 list"
  mfWriteFunctor :: "('s \<Rightarrow> u16 \<Rightarrow> u8 list \<Rightarrow> u16 \<times> 's) option"
  mfUserData :: 's
  mfIndet :: "u16 \<Rightarrow> u8"

record MiniFsFileInfo =
  fiOffset :: u16
  fiFilenameLen :: u16
  fiContentLen :: u16
  fiSize :: u16
  fiSpare :: u16

definition MINIFSFACTOR :: nat where "MINIFSFACTOR = 128"
definition MINIFSMAXSIZE :: nat where "MINIFSMAXSIZE = MINIFSFACTOR * 256"
definition MINIFSMAXFILES :: nat where "MINIFSMAXFILES = MINIFSFACTOR - 2"
definition MiniFsPathMax :: nat where "MiniFsPathMax = MINIFSFACTOR - 1"
definition MINIFSHEADERMAGICBYTEADDR :: u16 where "MINIFSHEADERMAGICBYTEADDR = 0"
definition MINIFSHEADERMAGICBYTEVALUE :: u8 where "MINIFSHEADERMAGICBYTEVALUE = 53"
definition MINIFSHEADERTOTALSIZEADDR :: u16 where "MINIFSHEADERTOTALSIZEADDR = 1"
definition MINIFSHEADERFILEBASEADDR :: u16 where "MINIFSHEADERFILEBASEADDR = 2"
definition MINIFSHEADERSIZE :: nat where "MINIFSHEADERSIZE = 1 + 1 + MINIFSMAXFILES"
definition MINIFSFILEMINOFFSETFACTOR :: nat where
  "MINIFSFILEMINOFFSETFACTOR = MINIFSHEADERSIZE div MINIFSFACTOR"

lemmas minifs_consts =
  MINIFSFACTOR_def MINIFSMAXSIZE_def MINIFSMAXFILES_def MiniFsPathMax_def
  MINIFSHEADERMAGICBYTEADDR_def MINIFSHEADERMAGICBYTEVALUE_def MINIFSHEADERTOTALSIZEADDR_def
  MINIFSHEADERFILEBASEADDR_def MINIFSHEADERSIZE_def MINIFSFILEMINOFFSETFACTOR_def

definition slotAddr :: "u8 \<Rightarrow> u16" where
  "slotAddr index = MINIFSHEADERFILEBASEADDR + ucast index"

definition fileSlots :: "u8 list" where
  "fileSlots = map of_nat [0..<MINIFSMAXFILES]"

section \<open>Raw access\<close>

definition miniFsRead :: "'s MiniFs \<Rightarrow> u16 \<Rightarrow> u16 \<Rightarrow> u8 list" where
  "miniFsRead fs addr len = mfReadFunctor fs (mfUserData fs) addr len"

definition miniFsReadByte :: "'s MiniFs \<Rightarrow> u16 \<Rightarrow> u8" where
  "miniFsReadByte fs addr = (case miniFsRead fs addr 1 of [] \<Rightarrow> mfIndet fs addr | b # _ \<Rightarrow> b)"

text \<open>A write through a missing functor would call a null pointer.\<close>

definition miniFsWrite :: "'s MiniFs \<Rightarrow> u16 \<Rightarrow> u8 list \<Rightarrow> (u16 \<times> 's MiniFs) option" where
  "miniFsWrite fs addr data =
     (case mfWriteFunctor fs of
        None \<Rightarrow> None
      | Some w \<Rightarrow> (case w (mfUserData fs) addr data of (n, s) \<Rightarrow> Some (n, fs\<lparr>mfUserData := s\<rparr>)))"

definition miniFsWriteByte :: "'s MiniFs \<Rightarrow> u16 \<Rightarrow> u8 \<Rightarrow> 's MiniFs option" where
  "miniFsWriteByte fs addr v = map_option snd (miniFsWrite fs addr [v])"

definition miniFsGetReadOnly :: "'s MiniFs \<Rightarrow> bool" where
  "miniFsGetReadOnly fs \<longleftrightarrow> mfWriteFunctor fs = None"

definition miniFsGetTotalSizeFactorMinusOne :: "'s MiniFs \<Rightarrow> u8" where
  "miniFsGetTotalSizeFactorMinusOne fs = miniFsReadByte fs MINIFSHEADERTOTALSIZEADDR"

definition miniFsGetTotalSize :: "'s MiniFs \<Rightarrow> u16" where
  "miniFsGetTotalSize fs =
     (ucast (miniFsGetTotalSizeFactorMinusOne fs) + 1) * of_nat MINIFSFACTOR"

section \<open>Fields of a file, from its base offset or its slot\<close>

definition miniFsFileGetBaseOffsetFactorFromIndex :: "'s MiniFs \<Rightarrow> u8 \<Rightarrow> u8" where
  "miniFsFileGetBaseOffsetFactorFromIndex fs index = miniFsReadByte fs (slotAddr index)"

definition miniFsFileGetBaseOffsetFromIndex :: "'s MiniFs \<Rightarrow> u8 \<Rightarrow> u16" where
  "miniFsFileGetBaseOffsetFromIndex fs index =
     ucast (miniFsFileGetBaseOffsetFactorFromIndex fs index) * of_nat MINIFSFACTOR"

definition miniFsFileGetBaseOffsetFactorFromBaseOffset :: "u16 \<Rightarrow> u8" where
  "miniFsFileGetBaseOffsetFactorFromBaseOffset baseOffset = ucast (baseOffset div of_nat MINIFSFACTOR)"

definition miniFsFileGetLengthOffsetFromBaseOffset :: "u16 \<Rightarrow> u16" where
  "miniFsFileGetLengthOffsetFromBaseOffset baseOffset = baseOffset"

definition miniFsFileGetSizeFactorOffsetFromBaseOffset :: "u16 \<Rightarrow> u16" where
  "miniFsFileGetSizeFactorOffsetFromBaseOffset baseOffset =
     (if baseOffset = 0 then 0 else baseOffset + 2)"

definition miniFsFileGetSizeFactorFromBaseOffset :: "'s MiniFs \<Rightarrow> u16 \<Rightarrow> u8" where
  "miniFsFileGetSizeFactorFromBaseOffset fs baseOffset =
     (let a = miniFsFileGetSizeFactorOffsetFromBaseOffset baseOffset in
      if a = 0 then 0 else miniFsReadByte fs a)"

definition miniFsFileGetSizeFromBaseOffset :: "'s MiniFs \<Rightarrow> u16 \<Rightarrow> u16" where
  "miniFsFileGetSizeFromBaseOffset fs baseOffset =
     (let sizeFactor = (ucast (miniFsFileGetSizeFactorFromBaseOffset fs baseOffset) :: u16) in
      if sizeFactor = 0 then 0 else sizeFactor * of_nat MINIFSFACTOR)"

definition miniFsFileGetFilenameOffsetFromBaseOffset :: "u16 \<Rightarrow> u16" where
  "miniFsFileGetFilenameOffsetFromBaseOffset baseOffset =
     (if baseOffset = 0 then 0 else baseOffset + 3)"

text \<open>The scan for the NUL that ends a name: its counter has 16 bits, so on a volume without a
  zero byte it wraps and never returns.\<close>

partial_function (option) filenameLenLoop :: "'s MiniFs \<Rightarrow> u16 \<Rightarrow> u16 \<Rightarrow> u16 option" where
  "filenameLenLoop fs filenameOffset filenameLen =
     (if miniFsReadByte fs (filenameOffset + filenameLen) = 0 then Some filenameLen
      else filenameLenLoop fs filenameOffset (filenameLen + 1))"

declare filenameLenLoop.simps [code]

definition miniFsFileGetFilenameLenFromBaseOffset :: "'s MiniFs \<Rightarrow> u16 \<Rightarrow> u16 option" where
  "miniFsFileGetFilenameLenFromBaseOffset fs baseOffset =
     filenameLenLoop fs (miniFsFileGetFilenameOffsetFromBaseOffset baseOffset) 0"

definition miniFsFileGetContentOffsetFromBaseOffset :: "'s MiniFs \<Rightarrow> u16 \<Rightarrow> u16 option" where
  "miniFsFileGetContentOffsetFromBaseOffset fs baseOffset =
     (let fileOffset = miniFsFileGetFilenameOffsetFromBaseOffset baseOffset in
      if fileOffset = 0 then Some 0
      else map_option (\<lambda>n. fileOffset + n + 1) (miniFsFileGetFilenameLenFromBaseOffset fs baseOffset))"

definition miniFsGetFileTotalLengthFromBaseOffset :: "'s MiniFs \<Rightarrow> u16 \<Rightarrow> u16" where
  "miniFsGetFileTotalLengthFromBaseOffset fs baseOffset =
     (let a = miniFsFileGetLengthOffsetFromBaseOffset baseOffset in
      if a = 0 then 0 else be16 (miniFsReadByte fs (a + 0)) (miniFsReadByte fs (a + 1)))"

definition miniFsFileGetContentLenFromBaseOffset :: "'s MiniFs \<Rightarrow> u16 \<Rightarrow> u16 option" where
  "miniFsFileGetContentLenFromBaseOffset fs baseOffset =
     (let total = miniFsGetFileTotalLengthFromBaseOffset fs baseOffset in
      map_option (\<lambda>off. baseOffset + total - off)
        (miniFsFileGetContentOffsetFromBaseOffset fs baseOffset))"

definition miniFsFileGetLengthOffsetFromIndex :: "'s MiniFs \<Rightarrow> u8 \<Rightarrow> u16" where
  "miniFsFileGetLengthOffsetFromIndex fs index =
     miniFsFileGetLengthOffsetFromBaseOffset (miniFsFileGetBaseOffsetFromIndex fs index)"

definition miniFsFileGetSizeFactorOffsetFromIndex :: "'s MiniFs \<Rightarrow> u8 \<Rightarrow> u16" where
  "miniFsFileGetSizeFactorOffsetFromIndex fs index =
     miniFsFileGetSizeFactorOffsetFromBaseOffset (miniFsFileGetBaseOffsetFromIndex fs index)"

definition miniFsFileGetSizeFactorFromIndex :: "'s MiniFs \<Rightarrow> u8 \<Rightarrow> u8" where
  "miniFsFileGetSizeFactorFromIndex fs index =
     miniFsFileGetSizeFactorFromBaseOffset fs (miniFsFileGetBaseOffsetFromIndex fs index)"

definition miniFsFileGetSizeFromIndex :: "'s MiniFs \<Rightarrow> u8 \<Rightarrow> u16" where
  "miniFsFileGetSizeFromIndex fs index =
     miniFsFileGetSizeFromBaseOffset fs (miniFsFileGetBaseOffsetFromIndex fs index)"

definition miniFsFileGetFilenameOffsetFromIndex :: "'s MiniFs \<Rightarrow> u8 \<Rightarrow> u16" where
  "miniFsFileGetFilenameOffsetFromIndex fs index =
     miniFsFileGetFilenameOffsetFromBaseOffset (miniFsFileGetBaseOffsetFromIndex fs index)"

definition miniFsFileGetFilenameLenFromIndex :: "'s MiniFs \<Rightarrow> u8 \<Rightarrow> u16 option" where
  "miniFsFileGetFilenameLenFromIndex fs index =
     miniFsFileGetFilenameLenFromBaseOffset fs (miniFsFileGetBaseOffsetFromIndex fs index)"

definition miniFsFileGetContentOffsetFromIndex :: "'s MiniFs \<Rightarrow> u8 \<Rightarrow> u16 option" where
  "miniFsFileGetContentOffsetFromIndex fs index =
     miniFsFileGetContentOffsetFromBaseOffset fs (miniFsFileGetBaseOffsetFromIndex fs index)"

definition miniFsFileGetContentLenFromIndex :: "'s MiniFs \<Rightarrow> u8 \<Rightarrow> u16 option" where
  "miniFsFileGetContentLenFromIndex fs index =
     miniFsFileGetContentLenFromBaseOffset fs (miniFsFileGetBaseOffsetFromIndex fs index)"

definition miniFsGetFileTotalLengthFromIndex :: "'s MiniFs \<Rightarrow> u8 \<Rightarrow> u16" where
  "miniFsGetFileTotalLengthFromIndex fs index =
     miniFsGetFileTotalLengthFromBaseOffset fs (miniFsFileGetBaseOffsetFromIndex fs index)"

definition miniFsReadFileInfoFromBaseOffset :: "'s MiniFs \<Rightarrow> u16 \<Rightarrow> MiniFsFileInfo option option" where
  "miniFsReadFileInfoFromBaseOffset fs baseOffset =
     (if baseOffset = 0 then Some None
      else do {
        filenameLen \<leftarrow> miniFsFileGetFilenameLenFromBaseOffset fs baseOffset;
        contentLen \<leftarrow> miniFsFileGetContentLenFromBaseOffset fs baseOffset;
        let sz = miniFsFileGetSizeFromBaseOffset fs baseOffset;
        Some (Some \<lparr>fiOffset = baseOffset, fiFilenameLen = filenameLen, fiContentLen = contentLen,
          fiSize = sz, fiSpare = sz - miniFsGetFileTotalLengthFromBaseOffset fs baseOffset\<rparr>)
      })"

definition miniFsReadFileInfoFromIndex :: "'s MiniFs \<Rightarrow> u8 \<Rightarrow> MiniFsFileInfo option option" where
  "miniFsReadFileInfoFromIndex fs index =
     miniFsReadFileInfoFromBaseOffset fs (miniFsFileGetBaseOffsetFromIndex fs index)"

section \<open>Looking up names and slots\<close>

text \<open>\<open>char childPath[MiniFsPathMax]\<close>: at most \<open>n\<close> bytes are copied, then a NUL is set.\<close>

fun copyFilename :: "'s MiniFs \<Rightarrow> u16 \<Rightarrow> nat \<Rightarrow> u8 list" where
  "copyFilename fs filenameOffset 0 = []"
| "copyFilename fs filenameOffset (Suc n) =
     (let src = miniFsReadByte fs filenameOffset in
      if src = 0 then [] else src # copyFilename fs (filenameOffset + 1) n)"

definition miniFsGetFilenameFromIndex :: "'s MiniFs \<Rightarrow> u8 \<Rightarrow> u8 list option" where
  "miniFsGetFilenameFromIndex fs index =
     (let filenameOffset = miniFsFileGetFilenameOffsetFromIndex fs index in
      if filenameOffset = 0 then None
      else Some (copyFilename fs filenameOffset (MiniFsPathMax - 1)))"

text \<open>The C string \<open>filename\<close> is the list of its bytes before the NUL.\<close>

fun filenameMatches :: "'s MiniFs \<Rightarrow> u16 \<Rightarrow> u8 list \<Rightarrow> bool" where
  "filenameMatches fs filenameOffset [] \<longleftrightarrow> miniFsReadByte fs filenameOffset = 0"
| "filenameMatches fs filenameOffset (c # cs) \<longleftrightarrow>
     miniFsReadByte fs filenameOffset = c \<and> filenameMatches fs (filenameOffset + 1) cs"

fun filenameToIndexLoop :: "'s MiniFs \<Rightarrow> u8 list \<Rightarrow> u8 list \<Rightarrow> u8 \<times> u16" where
  "filenameToIndexLoop fs filename [] = (of_nat MINIFSMAXFILES, 0)"
| "filenameToIndexLoop fs filename (index # rest) =
     (let baseOffset = miniFsFileGetBaseOffsetFromIndex fs index in
      if baseOffset = 0 then (of_nat MINIFSMAXFILES, 0)
      else if filenameMatches fs (miniFsFileGetFilenameOffsetFromBaseOffset baseOffset) filename
      then (index, baseOffset)
      else filenameToIndexLoop fs filename rest)"

definition miniFsFilenameToIndexKStr :: "'s MiniFs \<Rightarrow> u8 list \<Rightarrow> u8 \<times> u16" where
  "miniFsFilenameToIndexKStr fs filename = filenameToIndexLoop fs filename fileSlots"

definition miniFsFilenameToIndex :: "'s MiniFs \<Rightarrow> u8 list \<Rightarrow> u8 \<times> u16" where
  "miniFsFilenameToIndex fs filename = miniFsFilenameToIndexKStr fs filename"

definition miniFsIsFileSlotEmpty :: "'s MiniFs \<Rightarrow> u8 \<Rightarrow> bool" where
  "miniFsIsFileSlotEmpty fs index \<longleftrightarrow> miniFsReadByte fs (slotAddr index) = 0"

definition miniFsGetEmptyIndex :: "'s MiniFs \<Rightarrow> u8" where
  "miniFsGetEmptyIndex fs =
     (case List.find (miniFsIsFileSlotEmpty fs) fileSlots of
        Some i \<Rightarrow> i | None \<Rightarrow> of_nat MINIFSMAXFILES)"

definition miniFsGetChildN :: "'s MiniFs \<Rightarrow> nat \<Rightarrow> u8 list option option" where
  "miniFsGetChildN fs childNum =
     (if childNum < MINIFSMAXFILES then Some (miniFsGetFilenameFromIndex fs (of_nat childNum))
      else None)"

definition miniFsGetChildCount :: "'s MiniFs \<Rightarrow> u8" where
  "miniFsGetChildCount fs =
     of_nat (length (takeWhile (\<lambda>i. \<not> miniFsIsFileSlotEmpty fs i) fileSlots))"

definition miniFsIsEmpty :: "'s MiniFs \<Rightarrow> bool" where
  "miniFsIsEmpty fs = miniFsIsFileSlotEmpty fs 0"

definition miniFsFileExistsKStr :: "'s MiniFs \<Rightarrow> u8 list \<Rightarrow> bool" where
  "miniFsFileExistsKStr fs filename \<longleftrightarrow> fst (miniFsFilenameToIndexKStr fs filename) \<noteq> of_nat MINIFSMAXFILES"

definition miniFsFileExists :: "'s MiniFs \<Rightarrow> u8 list \<Rightarrow> bool" where
  "miniFsFileExists fs filename \<longleftrightarrow> fst (miniFsFilenameToIndex fs filename) \<noteq> of_nat MINIFSMAXFILES"

definition miniFsFileGetLen :: "'s MiniFs \<Rightarrow> u8 list \<Rightarrow> u16 option" where
  "miniFsFileGetLen fs filename =
     miniFsFileGetContentLenFromBaseOffset fs (snd (miniFsFilenameToIndex fs filename))"

definition miniFsFileGetSize :: "'s MiniFs \<Rightarrow> u8 list \<Rightarrow> u16 option" where
  "miniFsFileGetSize fs filename =
     (case miniFsReadFileInfoFromBaseOffset fs (snd (miniFsFilenameToIndex fs filename)) of
        None \<Rightarrow> None
      | Some None \<Rightarrow> Some 0
      | Some (Some info) \<Rightarrow> Some (fiContentLen info + fiSpare info))"

section \<open>Consistency, mounting and formatting\<close>

text \<open>The first loop stops at the first free slot and hands over the slots not looked at yet.\<close>

fun consistentUsed :: "'s MiniFs \<Rightarrow> u8 \<Rightarrow> u8 list \<Rightarrow> u8 list option" where
  "consistentUsed fs prevOffsetFactor [] = Some []"
| "consistentUsed fs prevOffsetFactor (i # rest) =
     (let f = miniFsFileGetBaseOffsetFactorFromIndex fs i in
      if f = 0 then Some (i # rest)
      else if unat f < MINIFSFILEMINOFFSETFACTOR then None
      else if f < prevOffsetFactor then None
      else consistentUsed fs f rest)"

definition miniFsIsConsistent :: "'s MiniFs \<Rightarrow> bool" where
  "miniFsIsConsistent fs =
     (if miniFsReadByte fs MINIFSHEADERMAGICBYTEADDR \<noteq> MINIFSHEADERMAGICBYTEVALUE then False
      else let totalSize = unat (miniFsGetTotalSize fs) in
        if totalSize < MINIFSHEADERSIZE \<or> MINIFSMAXSIZE < totalSize then False
        else case consistentUsed fs 0 fileSlots of
          None \<Rightarrow> False
        | Some rest \<Rightarrow> list_all (\<lambda>i. miniFsFileGetBaseOffsetFactorFromIndex fs i = 0) rest)"

definition assertConsistent :: "'s MiniFs \<Rightarrow> 'a \<Rightarrow> 'a option" where
  "assertConsistent fs r = (if miniFsIsConsistent fs then Some r else None)"

definition miniFsMountFast :: "('s \<Rightarrow> u16 \<Rightarrow> u16 \<Rightarrow> u8 list) \<Rightarrow>
    ('s \<Rightarrow> u16 \<Rightarrow> u8 list \<Rightarrow> u16 \<times> 's) option \<Rightarrow> 's \<Rightarrow> (u16 \<Rightarrow> u8) \<Rightarrow> 's MiniFs" where
  "miniFsMountFast rd wr userData indet =
     \<lparr>mfReadFunctor = rd, mfWriteFunctor = wr, mfUserData = userData, mfIndet = indet\<rparr>"

definition miniFsMountSafe :: "('s \<Rightarrow> u16 \<Rightarrow> u16 \<Rightarrow> u8 list) \<Rightarrow>
    ('s \<Rightarrow> u16 \<Rightarrow> u8 list \<Rightarrow> u16 \<times> 's) option \<Rightarrow> 's \<Rightarrow> (u16 \<Rightarrow> u8) \<Rightarrow> 's MiniFs option" where
  "miniFsMountSafe rd wr userData indet =
     (let fs = miniFsMountFast rd wr userData indet in
      if miniFsIsConsistent fs then Some fs else None)"

definition miniFsFormat ::
    "('s \<Rightarrow> u16 \<Rightarrow> u8 list \<Rightarrow> u16 \<times> 's) \<Rightarrow> 's \<Rightarrow> u16 \<Rightarrow> bool \<times> 's" where
  "miniFsFormat writeFunctor userData maxTotalSize =
     (let totalSizeFactor = unat maxTotalSize div MINIFSFACTOR;
          totalSize = totalSizeFactor * MINIFSFACTOR;
          wr = (\<lambda>addr v s. snd (writeFunctor s addr [v])) in
      if totalSize < MINIFSHEADERSIZE \<or> MINIFSMAXSIZE < totalSize then (False, userData)
      else
        let s = wr MINIFSHEADERMAGICBYTEADDR MINIFSHEADERMAGICBYTEVALUE userData;
            s = wr MINIFSHEADERTOTALSIZEADDR (of_nat totalSizeFactor - 1) s;
            s = fold (\<lambda>i s. wr (slotAddr i) 0 s) fileSlots s
        in (True, s))"

section \<open>Changing the header\<close>

definition miniFsSetFileTotalLengthForIndex :: "'s MiniFs \<Rightarrow> u8 \<Rightarrow> u16 \<Rightarrow> 's MiniFs option" where
  "miniFsSetFileTotalLengthForIndex fs index newTotalLen =
     (let offset = miniFsFileGetLengthOffsetFromIndex fs index in
      if offset = 0 then None
      else do {
        fs \<leftarrow> miniFsWriteByte fs (offset + 0) (hi8 newTotalLen);
        miniFsWriteByte fs (offset + 1) (lo8 newTotalLen)
      })"

definition miniFsSetFileSizeFactorForIndex :: "'s MiniFs \<Rightarrow> u8 \<Rightarrow> u8 \<Rightarrow> 's MiniFs option" where
  "miniFsSetFileSizeFactorForIndex fs index newSizeFactor =
     (let offset = miniFsFileGetSizeFactorOffsetFromIndex fs index in
      if offset = 0 then None else miniFsWriteByte fs offset newSizeFactor)"

definition miniFsClearFileForIndex :: "'s MiniFs \<Rightarrow> u8 \<Rightarrow> 's MiniFs option" where
  "miniFsClearFileForIndex fs index = miniFsWriteByte fs (slotAddr index) 0"

definition miniFsGetSizeFactorForTotalLength :: "u16 \<Rightarrow> u8" where
  "miniFsGetSizeFactorForTotalLength totalLen =
     ucast ((ucast totalLen + of_nat MINIFSFACTOR - 1 :: u32) div of_nat MINIFSFACTOR)"

text \<open>One pass of the bubble sort over the slots \<open>i - 1, i\<close> for the given \<open>i\<close>.\<close>

fun resortPass :: "'s MiniFs \<Rightarrow> u8 list \<Rightarrow> bool \<Rightarrow> ('s MiniFs \<times> bool) option" where
  "resortPass fs [] change = Some (fs, change)"
| "resortPass fs (i # is) change =
     (let factorA = miniFsFileGetBaseOffsetFactorFromIndex fs (i - 1);
          factorB = miniFsFileGetBaseOffsetFactorFromIndex fs i in
      if factorB \<noteq> 0 \<and> (factorA = 0 \<or> factorA > factorB) then do {
        fs \<leftarrow> miniFsWriteByte fs (slotAddr (i - 1)) factorB;
        fs \<leftarrow> miniFsWriteByte fs (slotAddr i) factorA;
        resortPass fs is True
      } else resortPass fs is change)"

text \<open>The \<open>do ... while (change)\<close> loop: \<open>max\<close> falls with each pass and a pass over no slot
  changes nothing.\<close>

function resortLoop :: "'s MiniFs \<Rightarrow> nat \<Rightarrow> 's MiniFs option" where
  "resortLoop fs mx =
     (case resortPass fs (map of_nat [1..<mx]) False of
        None \<Rightarrow> None
      | Some (fs', change) \<Rightarrow> if change then resortLoop fs' (mx - 1) else Some fs')"
  by pat_completeness auto
termination
proof (relation "measure snd")
  fix fs :: "'s MiniFs" and mx and r fs' change
  assume "resortPass fs (map of_nat [1..<mx]) False = Some r" "(fs', change) = r" change
  then have "0 < mx" by (cases mx) auto
  then show "((fs', mx - 1), fs, mx) \<in> measure snd" by simp
qed simp

definition miniFsResortFileOffsets :: "'s MiniFs \<Rightarrow> 's MiniFs option" where
  "miniFsResortFileOffsets fs = resortLoop fs MINIFSMAXFILES"

section \<open>Free space\<close>

fun findFreeRegionLoop :: "'s MiniFs \<Rightarrow> u8 \<Rightarrow> u8 \<Rightarrow> u8 list \<Rightarrow> u8" where
  "findFreeRegionLoop fs sizeFactor firstFileIndex second =
     (let firstFileOffsetFactor = miniFsFileGetBaseOffsetFactorFromIndex fs firstFileIndex;
          firstFileSizeFactor = miniFsFileGetSizeFactorFromIndex fs firstFileIndex;
          firstEnd = uint firstFileOffsetFactor + uint firstFileSizeFactor;
          afterLast =
            (if uint sizeFactor \<le> uint (miniFsGetTotalSizeFactorMinusOne fs) + 1 - firstEnd
             then of_int firstEnd else 0) in
      case second of
        [] \<Rightarrow> afterLast
      | secondFileIndex # rest \<Rightarrow>
          let secondFileOffsetFactor = miniFsFileGetBaseOffsetFactorFromIndex fs secondFileIndex in
          if secondFileOffsetFactor = 0 then afterLast
          else if uint sizeFactor \<le> uint secondFileOffsetFactor - firstEnd then of_int firstEnd
          else findFreeRegionLoop fs sizeFactor secondFileIndex rest)"

declare findFreeRegionLoop.simps [simp del] resortLoop.simps [simp del]

definition miniFsFindFreeRegionFactor :: "'s MiniFs \<Rightarrow> u8 \<Rightarrow> u8" where
  "miniFsFindFreeRegionFactor fs sizeFactor =
     (let first = miniFsFileGetBaseOffsetFactorFromIndex fs 0 in
      if first = 0 then
        (if unat sizeFactor >
            unat (ucast (miniFsGetTotalSizeFactorMinusOne fs) - of_nat MINIFSFILEMINOFFSETFACTOR + 1 :: u32)
         then 0 else of_nat MINIFSFILEMINOFFSETFACTOR)
      else if unat sizeFactor \<le> unat (ucast first - of_nat MINIFSFILEMINOFFSETFACTOR :: u32)
      then of_nat MINIFSFILEMINOFFSETFACTOR
      else findFreeRegionLoop fs sizeFactor 0 (tl fileSlots))"

section \<open>File operations\<close>

text \<open>The three bytes of a file's own header and its name, as \<open>miniFsFileCreate\<close> and the moving
  branch of \<open>miniFsFileResize\<close> write them; the result is the offset after them.\<close>

definition writeFileHeader ::
    "'s MiniFs \<Rightarrow> u8 \<Rightarrow> u16 \<Rightarrow> u8 \<Rightarrow> u8 list \<Rightarrow> (u16 \<times> 's MiniFs) option" where
  "writeFileHeader fs fileOffsetFactor totalLength sizeFactor filename =
     (let fileOffset = ucast fileOffsetFactor * of_nat MINIFSFACTOR in do {
        fs \<leftarrow> miniFsWriteByte fs fileOffset (hi8 totalLength);
        fs \<leftarrow> miniFsWriteByte fs (fileOffset + 1) (lo8 totalLength);
        fs \<leftarrow> miniFsWriteByte fs (fileOffset + 2) sizeFactor;
        (_, fs) \<leftarrow> miniFsWrite fs (fileOffset + 3) (filename @ [0]);
        Some (fileOffset + 3 + (of_nat (length filename) + 1), fs)
      })"

definition miniFsFileCreate :: "'s MiniFs \<Rightarrow> u8 list \<Rightarrow> u16 \<Rightarrow> (bool \<times> 's MiniFs) option" where
  "miniFsFileCreate fs filename contentSize =
     (let filenameLen = (of_nat (length filename) :: u16) in
      if unat filenameLen \<ge> MiniFsPathMax then Some (False, fs)
      else if miniFsGetReadOnly fs then Some (False, fs)
      else if miniFsFileExists fs filename then Some (False, fs)
      else let freeIndex = miniFsGetEmptyIndex fs in
        if freeIndex = of_nat MINIFSMAXFILES then Some (False, fs)
        else let fileTotalLength = 3 + filenameLen + 1 + contentSize;
                 fileSizeFactor = miniFsGetSizeFactorForTotalLength fileTotalLength;
                 fileOffsetFactor = miniFsFindFreeRegionFactor fs fileSizeFactor in
          if fileOffsetFactor = 0 then Some (False, fs)
          else do {
            fs \<leftarrow> miniFsWriteByte fs (slotAddr freeIndex) fileOffsetFactor;
            (_, fs) \<leftarrow> writeFileHeader fs fileOffsetFactor fileTotalLength fileSizeFactor filename;
            fs \<leftarrow> miniFsResortFileOffsets fs;
            assertConsistent fs (True, fs)
          })"

definition miniFsFileDelete :: "'s MiniFs \<Rightarrow> u8 list \<Rightarrow> (bool \<times> 's MiniFs) option" where
  "miniFsFileDelete fs filename =
     (if miniFsGetReadOnly fs then Some (False, fs)
      else let index = fst (miniFsFilenameToIndex fs filename) in
        if index = of_nat MINIFSMAXFILES then Some (False, fs)
        else do {
          fs \<leftarrow> miniFsClearFileForIndex fs index;
          fs \<leftarrow> miniFsResortFileOffsets fs;
          assertConsistent fs (True, fs)
        })"

text \<open>The byte by byte copy to the new region; \<open>n\<close> bytes are left.\<close>

fun copyContent :: "'s MiniFs \<Rightarrow> u16 \<Rightarrow> u16 \<Rightarrow> nat \<Rightarrow> 's MiniFs option" where
  "copyContent fs dest src 0 = Some fs"
| "copyContent fs dest src (Suc n) =
     (case miniFsWriteByte fs dest (miniFsReadByte fs src) of
        None \<Rightarrow> None
      | Some fs' \<Rightarrow> copyContent fs' (dest + 1) (src + 1) n)"

text \<open>The start unit of the next file in the list, if there is one.\<close>

definition nextFileOffsetFactor :: "'s MiniFs \<Rightarrow> u8 \<Rightarrow> u8 option" where
  "nextFileOffsetFactor fs index =
     List.find (\<lambda>f. f \<noteq> 0)
       (map (miniFsFileGetBaseOffsetFactorFromIndex fs) (drop (Suc (unat index)) fileSlots))"

definition resizeMove ::
    "'s MiniFs \<Rightarrow> u8 list \<Rightarrow> u8 \<Rightarrow> u16 \<Rightarrow> u16 \<Rightarrow> u8 \<Rightarrow> (bool \<times> 's MiniFs) option" where
  "resizeMove fs filename index baseOffset newTotalLen newSizeFactor =
     (let newFileOffsetFactor = miniFsFindFreeRegionFactor fs newSizeFactor in
      if newFileOffsetFactor = 0 then Some (False, fs)
      else do {
        (fileOffset, fs) \<leftarrow> writeFileHeader fs newFileOffsetFactor newTotalLen newSizeFactor filename;
        oldContentOffset \<leftarrow> miniFsFileGetContentOffsetFromBaseOffset fs baseOffset;
        oldContentLen \<leftarrow> miniFsFileGetContentLenFromIndex fs index;
        fs \<leftarrow> copyContent fs fileOffset oldContentOffset (unat oldContentLen);
        fs \<leftarrow> miniFsWriteByte fs (slotAddr index) newFileOffsetFactor;
        fs \<leftarrow> miniFsResortFileOffsets fs;
        assertConsistent fs (True, fs)
      })"

definition resizeGrow ::
    "'s MiniFs \<Rightarrow> u8 list \<Rightarrow> u8 \<Rightarrow> u16 \<Rightarrow> u16 \<Rightarrow> (bool \<times> 's MiniFs) option" where
  "resizeGrow fs filename index baseOffset newTotalLen =
     (if newTotalLen \<le> miniFsFileGetSizeFromBaseOffset fs baseOffset then do {
        let fileOffset = miniFsFileGetLengthOffsetFromBaseOffset baseOffset;
        fs \<leftarrow> miniFsWriteByte fs fileOffset (hi8 newTotalLen);
        fs \<leftarrow> miniFsWriteByte fs (fileOffset + 1) (lo8 newTotalLen);
        assertConsistent fs (True, fs)
      } else
        let newSizeFactor = miniFsGetSizeFactorForTotalLength newTotalLen;
            currFileOffsetFactor = miniFsFileGetBaseOffsetFactorFromBaseOffset baseOffset;
            maxSizeIfDesiredFactor =
              (case nextFileOffsetFactor fs index of
                 Some next \<Rightarrow> next - currFileOffsetFactor
               | None \<Rightarrow> miniFsGetTotalSizeFactorMinusOne fs - currFileOffsetFactor + 1) in
        if newSizeFactor \<le> maxSizeIfDesiredFactor then do {
          let fileLenOffset = miniFsFileGetLengthOffsetFromBaseOffset baseOffset;
          fs \<leftarrow> miniFsWriteByte fs fileLenOffset (hi8 newTotalLen);
          fs \<leftarrow> miniFsWriteByte fs (fileLenOffset + 1) (lo8 newTotalLen);
          fs \<leftarrow> miniFsWriteByte fs (miniFsFileGetSizeFactorOffsetFromBaseOffset baseOffset) newSizeFactor;
          assertConsistent fs (True, fs)
        } else resizeMove fs filename index baseOffset newTotalLen newSizeFactor)"

definition miniFsFileResize :: "'s MiniFs \<Rightarrow> u8 list \<Rightarrow> u16 \<Rightarrow> (bool \<times> 's MiniFs) option" where
  "miniFsFileResize fs filename newContentLen =
     (if miniFsGetReadOnly fs then Some (False, fs)
      else case miniFsFilenameToIndex fs filename of (index, baseOffset) \<Rightarrow>
        if index = of_nat MINIFSMAXFILES then Some (False, fs)
        else do {
          contentLen \<leftarrow> miniFsFileGetContentLenFromBaseOffset fs baseOffset;
          if newContentLen \<le> contentLen then do {
            let newTotalLen =
              miniFsGetFileTotalLengthFromBaseOffset fs baseOffset - (contentLen - newContentLen);
            fs \<leftarrow> miniFsSetFileTotalLengthForIndex fs index newTotalLen;
            let newSizeFactor = miniFsGetSizeFactorForTotalLength newTotalLen;
            fs \<leftarrow> miniFsSetFileSizeFactorForIndex fs index newSizeFactor;
            assertConsistent fs (True, fs)
          } else
            resizeGrow fs filename index baseOffset
              (miniFsGetFileTotalLengthFromBaseOffset fs baseOffset + (newContentLen - contentLen))
        })"

definition miniFsFileReadKStr :: "'s MiniFs \<Rightarrow> u8 list \<Rightarrow> u16 \<Rightarrow> u16 \<Rightarrow> u8 list option" where
  "miniFsFileReadKStr fs filename offset len =
     (case miniFsFilenameToIndexKStr fs filename of (index, baseOffset) \<Rightarrow>
        if index = of_nat MINIFSMAXFILES then Some []
        else do {
          fileLen \<leftarrow> miniFsFileGetContentLenFromBaseOffset fs baseOffset;
          if offset \<ge> fileLen then Some []
          else do {
            let len = (if len > fileLen - offset then fileLen - offset else len);
            contentOffset \<leftarrow> miniFsFileGetContentOffsetFromBaseOffset fs baseOffset;
            if contentOffset = 0 then Some []
            else Some (miniFsRead fs (contentOffset + offset) len)
          }
        })"

definition miniFsFileRead :: "'s MiniFs \<Rightarrow> u8 list \<Rightarrow> u16 \<Rightarrow> u16 \<Rightarrow> u8 list option" where
  "miniFsFileRead fs filename offset len = miniFsFileReadKStr fs filename offset len"

definition miniFsFileWrite ::
    "'s MiniFs \<Rightarrow> u8 list \<Rightarrow> u16 \<Rightarrow> u8 list \<Rightarrow> (u16 \<times> 's MiniFs) option" where
  "miniFsFileWrite fs filename offset data =
     (if miniFsGetReadOnly fs then Some (0, fs)
      else case miniFsFilenameToIndex fs filename of (index, baseOffset) \<Rightarrow>
        if index = of_nat MINIFSMAXFILES then Some (0, fs)
        else do {
          fileLen \<leftarrow> miniFsFileGetContentLenFromBaseOffset fs baseOffset;
          if offset \<ge> fileLen then Some (0, fs)
          else do {
            let data = take (unat (fileLen - offset)) data;
            contentOffset \<leftarrow> miniFsFileGetContentOffsetFromBaseOffset fs baseOffset;
            if contentOffset = 0 then Some (0, fs)
            else miniFsWrite fs (contentOffset + offset) data
          }
        })"

end
