(* ===== verification/Fat.thy ===== *)
theory Fat
  imports KStr "HOL-Library.Monad_Syntax"
begin

text \<open>
  \<open>src/kernel/fat.c\<close>: the read-only FAT driver. A \<open>Fat\<close> is the structure that
  \<open>fatMountFast\<close> fills in; the volume behind it is reached by its read functor, which returns
  the bytes it read. A value read from the volume is \<open>None\<close> when the read fails; where the
  code ignores the failure and goes on with an uninitialised variable, where it divides by zero
  and where a directory or cluster loop never ends, the operation has no result and is \<open>None\<close>.
  Products of two 16-bit values are taken modulo \<open>2 ^ 32\<close>. \<open>fatWrite\<close> is never called, and
  \<open>fatDebug\<close> and \<open>fatReadDir\<close> only print.
\<close>

type_synonym FatReader = "u32 \<Rightarrow> u32 \<Rightarrow> u8 list"

datatype FatType = FatTypeFAT12 | FatTypeFAT16 | FatTypeFAT32 | FatTypeExFAT

record Fat =
  fatReadFunctor :: FatReader
  fatBytesPerSector :: u16
  fatFatSector :: u16
  fatRootDirSector :: u16
  fatFirstDataSector :: u16
  fatTypeField :: FatType
  fatSectorsPerCluster :: u8

definition FATPATHMAX :: nat where "FATPATHMAX = 64"
definition FATMAXFILES :: nat where "FATMAXFILES = 128"

definition FatDirEntryNameFirstByteUnusedFinal :: u8 where
  "FatDirEntryNameFirstByteUnusedFinal = 0x00"
definition FatDirEntryNameFirstByteEscape0xE5 :: u8 where
  "FatDirEntryNameFirstByteEscape0xE5 = 0x05"
definition FatDirEntryNameFirstByteUnusedDeleted :: u8 where
  "FatDirEntryNameFirstByteUnusedDeleted = 0x2E"
definition FatDirEntryNameFirstByteDotEntry :: u8 where
  "FatDirEntryNameFirstByteDotEntry = 0xE5"

definition FatDirEntryAttributesVolumeLabel :: u8 where
  "FatDirEntryAttributesVolumeLabel = 0x08"
definition FatDirEntryAttributesSubDir :: u8 where
  "FatDirEntryAttributesSubDir = 0x10"

lemmas fat_byte_defs = FatDirEntryNameFirstByteUnusedFinal_def
  FatDirEntryNameFirstByteEscape0xE5_def FatDirEntryNameFirstByteUnusedDeleted_def
  FatDirEntryNameFirstByteDotEntry_def

text \<open>A name is the string in the buffer on success; a data entry of the table carries the
  value that \<open>fatReadClusterEntry\<close> only fills in for it.\<close>

datatype FatReadDirEntryNameResult =
    FatReadDirEntryNameResultError
  | FatReadDirEntryNameResultSuccess cstr
  | FatReadDirEntryNameResultUnused
  | FatReadDirEntryNameResultEnd

datatype FatClusterType =
    FatClusterTypeError
  | FatClusterTypeFree
  | FatClusterTypeData u32
  | FatClusterTypeReserved
  | FatClusterTypeEndOfChain

section \<open>Reading the volume\<close>

definition fatRead :: "Fat \<Rightarrow> u32 \<Rightarrow> u32 \<Rightarrow> u8 list" where
  "fatRead fs addr len = fatReadFunctor fs addr len"

definition fatRead8 :: "Fat \<Rightarrow> u32 \<Rightarrow> u8 option" where
  "fatRead8 fs addr = (case fatRead fs addr 1 of [b] \<Rightarrow> Some b | _ \<Rightarrow> None)"

definition fatRead16 :: "Fat \<Rightarrow> u32 \<Rightarrow> u16 option" where
  "fatRead16 fs addr = do {
     lower \<leftarrow> fatRead8 fs addr;
     upper \<leftarrow> fatRead8 fs (addr + 1);
     Some (push_bit 8 (ucast upper) OR ucast lower)
   }"

definition fatRead32 :: "Fat \<Rightarrow> u32 \<Rightarrow> u32 option" where
  "fatRead32 fs addr = do {
     lower \<leftarrow> fatRead16 fs addr;
     upper \<leftarrow> fatRead16 fs (addr + 2);
     Some (push_bit 16 (ucast upper) OR ucast lower)
   }"

subsection \<open>The fields of the BIOS parameter block\<close>

definition fatReadBpbBytsPerSec :: "Fat \<Rightarrow> u16 option" where
  "fatReadBpbBytsPerSec fs = fatRead16 fs 11"

definition fatReadBpbRootEntCnt :: "Fat \<Rightarrow> u16 option" where
  "fatReadBpbRootEntCnt fs = fatRead16 fs 17"

definition fatReadBpbFatSz16 :: "Fat \<Rightarrow> u16 option" where
  "fatReadBpbFatSz16 fs = fatRead16 fs 22"

definition fatReadBpbFatSz32 :: "Fat \<Rightarrow> u32 option" where
  "fatReadBpbFatSz32 fs = fatRead32 fs 36"

definition fatReadBpbFatSz :: "Fat \<Rightarrow> u32 option" where
  "fatReadBpbFatSz fs = do {
     value16 \<leftarrow> fatReadBpbFatSz16 fs;
     if value16 > 0 then Some (ucast value16)
     else do { value \<leftarrow> fatReadBpbFatSz32 fs; if value > 0 then Some value else None }
   }"

definition fatReadBpbTotSec16 :: "Fat \<Rightarrow> u16 option" where
  "fatReadBpbTotSec16 fs = fatRead16 fs 9"

definition fatReadBpbTotSec32 :: "Fat \<Rightarrow> u32 option" where
  "fatReadBpbTotSec32 fs = fatRead32 fs 32"

definition fatReadBpbTotSec :: "Fat \<Rightarrow> u32 option" where
  "fatReadBpbTotSec fs = do {
     value16 \<leftarrow> fatReadBpbTotSec16 fs;
     if value16 > 0 then Some (ucast value16)
     else do { value \<leftarrow> fatReadBpbTotSec32 fs; if value > 0 then Some value else None }
   }"

definition fatReadBpbResvdSecCnt :: "Fat \<Rightarrow> u16 option" where
  "fatReadBpbResvdSecCnt fs = fatRead16 fs 14"

definition fatReadBpbNumFats :: "Fat \<Rightarrow> u8 option" where
  "fatReadBpbNumFats fs = fatRead8 fs 16"

definition fatReadBpbSecPerClus :: "Fat \<Rightarrow> u8 option" where
  "fatReadBpbSecPerClus fs = fatRead8 fs 13"

subsection \<open>The layout of the volume\<close>

definition fatGetBytesPerSector :: "Fat \<Rightarrow> u16" where
  "fatGetBytesPerSector fs = fatBytesPerSector fs"

definition fatGetFatType :: "Fat \<Rightarrow> FatType" where
  "fatGetFatType fs = fatTypeField fs"

definition fatGetFatSector :: "Fat \<Rightarrow> u16" where
  "fatGetFatSector fs = fatFatSector fs"

definition fatGetFatOffset :: "Fat \<Rightarrow> u32" where
  "fatGetFatOffset fs = ucast (fatGetFatSector fs) * ucast (fatGetBytesPerSector fs)"

definition fatGetRootDirSector :: "Fat \<Rightarrow> u16" where
  "fatGetRootDirSector fs = fatRootDirSector fs"

definition fatGetRootDirOffset :: "Fat \<Rightarrow> u32" where
  "fatGetRootDirOffset fs = ucast (fatGetRootDirSector fs) * ucast (fatGetBytesPerSector fs)"

definition fatGetFirstDataSector :: "Fat \<Rightarrow> u16" where
  "fatGetFirstDataSector fs = fatFirstDataSector fs"

definition fatGetSectorsPerCluster :: "Fat \<Rightarrow> u8" where
  "fatGetSectorsPerCluster fs = fatSectorsPerCluster fs"

definition fatGetFirstSectorForCluster :: "Fat \<Rightarrow> u16 \<Rightarrow> u32" where
  "fatGetFirstSectorForCluster fs cluster =
     (ucast cluster - 2) * ucast (fatGetSectorsPerCluster fs) + ucast (fatGetFirstDataSector fs)"

definition fatGetOffsetForCluster :: "Fat \<Rightarrow> u16 \<Rightarrow> u32" where
  "fatGetOffsetForCluster fs cluster =
     fatGetFirstSectorForCluster fs cluster * ucast (fatGetBytesPerSector fs)"

definition fatGetClusterSize :: "Fat \<Rightarrow> u16" where
  "fatGetClusterSize fs = ucast (fatGetSectorsPerCluster fs) * fatGetBytesPerSector fs"

section \<open>Mounting\<close>

text \<open>\<open>None\<close> is the division by a sector or cluster size of zero, \<open>Some None\<close> the failure.\<close>

definition fatMountFast :: "FatReader \<Rightarrow> Fat option option" where
  "fatMountFast readFunctor =
     (let fs = \<lparr>fatReadFunctor = readFunctor, fatBytesPerSector = 0, fatFatSector = 0,
            fatRootDirSector = 0, fatFirstDataSector = 0, fatTypeField = FatTypeFAT32,
            fatSectorsPerCluster = 0\<rparr>;
          bpb = do {
            bytesPerSector \<leftarrow> fatReadBpbBytsPerSec fs;
            bpbRootEntCnt \<leftarrow> fatReadBpbRootEntCnt fs;
            bpbFatSz \<leftarrow> fatReadBpbFatSz fs;
            bpbTotSec \<leftarrow> fatReadBpbTotSec fs;
            bpbResvdSecCnt \<leftarrow> fatReadBpbResvdSecCnt fs;
            bpbNumFats \<leftarrow> fatReadBpbNumFats fs;
            sectorsPerCluster \<leftarrow> fatReadBpbSecPerClus fs;
            Some (bytesPerSector, bpbRootEntCnt, bpbFatSz, bpbTotSec, bpbResvdSecCnt, bpbNumFats,
                  sectorsPerCluster)
          }
      in case bpb of
        None \<Rightarrow> Some None
      | Some (bytesPerSector, bpbRootEntCnt, bpbFatSz, bpbTotSec, bpbResvdSecCnt, bpbNumFats,
              sectorsPerCluster) \<Rightarrow>
          if bytesPerSector = 0 then None
          else
            let rootDirSizeSectors = (of_nat ((unat bpbRootEntCnt * 32 + (unat bytesPerSector - 1))
                    div unat bytesPerSector) :: u16);
                dataSectors = bpbTotSec - (ucast bpbResvdSecCnt + ucast bpbNumFats * bpbFatSz
                    + ucast rootDirSizeSectors)
            in if sectorsPerCluster = 0 then None
               else
                 let totalClusters = dataSectors div ucast sectorsPerCluster;
                     rootDirSector = (ucast (ucast bpbResvdSecCnt + ucast bpbNumFats * bpbFatSz :: u32) :: u16)
                 in Some (Some (fs\<lparr>
                      fatBytesPerSector := bytesPerSector,
                      fatSectorsPerCluster := sectorsPerCluster,
                      fatFatSector := bpbResvdSecCnt,
                      fatRootDirSector := rootDirSector,
                      fatTypeField :=
                        (if bytesPerSector = 0 then FatTypeExFAT
                         else if totalClusters < 4085 then FatTypeFAT12
                         else if totalClusters < 65525 then FatTypeFAT16
                         else FatTypeFAT32),
                      fatFirstDataSector := rootDirSector + rootDirSizeSectors\<rparr>)))"

definition fatMountSafe :: "FatReader \<Rightarrow> Fat option option" where
  "fatMountSafe readFunctor = do {
     mounted \<leftarrow> fatMountFast readFunctor;
     case mounted of
       None \<Rightarrow> Some None
     | Some fs \<Rightarrow>
         if fatRead8 fs 510 \<noteq> Some 0x55 then Some None
         else if fatRead8 fs 511 \<noteq> Some 0xAA then Some None
         else (case fatGetFatType fs of
             FatTypeExFAT \<Rightarrow> Some None
           | _ \<Rightarrow> Some (Some fs))
   }"

section \<open>The allocation table\<close>

text \<open>The entry keeps its initial value \<open>FatClusterTypeError\<close>, zero, when the read fails.\<close>

definition fatReadClusterEntry :: "Fat \<Rightarrow> u16 \<Rightarrow> FatClusterType" where
  "fatReadClusterEntry fs cluster =
     (let fatOffset = fatGetFatOffset fs in
      case fatGetFatType fs of
        FatTypeFAT12 \<Rightarrow> FatClusterTypeError
      | FatTypeFAT16 \<Rightarrow>
          (let entry = (case fatRead16 fs (fatOffset + ucast cluster * 2) of
                None \<Rightarrow> 0 | Some e \<Rightarrow> e) in
           if entry = 0x0000 then FatClusterTypeFree
           else if entry \<ge> 0x0002 \<and> entry \<le> 0xFFF6 then FatClusterTypeData (ucast entry)
           else if entry \<ge> 0xFFF8 then FatClusterTypeEndOfChain
           else FatClusterTypeReserved)
      | FatTypeFAT32 \<Rightarrow>
          (let entry = (case fatRead32 fs (fatOffset + ucast cluster * 4) of
                None \<Rightarrow> 0 | Some e \<Rightarrow> e) AND 0x0FFFFFFF in
           if entry = 0x00000000 then FatClusterTypeFree
           else if entry \<ge> 0x00000002 \<and> entry \<le> 0x0FFFFFF6 then FatClusterTypeData entry
           else if entry \<ge> 0x0FFFFFF8 then FatClusterTypeEndOfChain
           else FatClusterTypeReserved)
      | FatTypeExFAT \<Rightarrow> FatClusterTypeError)"

section \<open>Directory entries\<close>

definition fatReadDirEntryAttributes :: "Fat \<Rightarrow> u32 \<Rightarrow> u8 option" where
  "fatReadDirEntryAttributes fs dirEntryOffset = fatRead8 fs (dirEntryOffset + 11)"

definition fatReadDirEntrySize :: "Fat \<Rightarrow> u32 \<Rightarrow> u32 option" where
  "fatReadDirEntrySize fs dirEntryOffset = fatRead32 fs (dirEntryOffset + 28)"

definition fatReadDirEntryFirstCluster :: "Fat \<Rightarrow> u32 \<Rightarrow> u32 option" where
  "fatReadDirEntryFirstCluster fs dirEntryOffset =
     (if fatGetFatType fs = FatTypeFAT12 \<or> fatGetFatType fs = FatTypeFAT16 then
        map_option ucast (fatRead16 fs (dirEntryOffset + 26))
      else if fatGetFatType fs = FatTypeFAT32 then do {
        clusterLower \<leftarrow> fatRead16 fs (dirEntryOffset + 26);
        clusterUpper \<leftarrow> fatRead16 fs (dirEntryOffset + 20);
        Some (ucast clusterLower OR push_bit 16 (ucast clusterUpper))
      }
      else None)"

subsection \<open>Long names\<close>

text \<open>One of the three loops over the characters of a phony entry: the characters stored so
  far, and whether a terminator was met. Each character is two bytes of the entry.\<close>

fun longNameChars :: "u8 list \<Rightarrow> cstr \<Rightarrow> cstr \<times> bool" where
  "longNameChars (lo # hi # rest) name =
     (if length name + 1 \<ge> FATPATHMAX then (name, False)
      else if hi \<noteq> 0 then longNameChars rest (name @ [63])
      else if lo = 0 then (name, True)
      else longNameChars rest (name @ [lo]))"
| "longNameChars _ name = (name, False)"

definition longNameEntry :: "u8 list \<Rightarrow> cstr \<Rightarrow> cstr \<times> bool" where
  "longNameEntry buffer name =
     (case longNameChars (take 10 (drop 1 buffer)) name of
        (name, True) \<Rightarrow> (name, True)
      | (name, False) \<Rightarrow>
          (case longNameChars (take 12 (drop 14 buffer)) name of
             (name, True) \<Rightarrow> (name, True)
           | (name, False) \<Rightarrow> longNameChars (take 4 (drop 28 buffer)) name))"

partial_function (option) longNameLoop ::
    "Fat \<Rightarrow> u32 \<Rightarrow> cstr \<Rightarrow> FatReadDirEntryNameResult option" where
  "longNameLoop fs dirEntryOffset name =
     (let dirEntryOffset = dirEntryOffset - 32;
          buffer = fatRead fs dirEntryOffset 32 in
      if length buffer \<noteq> 32 then Some FatReadDirEntryNameResultError
      else if buffer ! 11 \<noteq> 0x0F \<or> buffer ! 12 \<noteq> 0 \<or> buffer ! 26 \<noteq> 0 \<or> buffer ! 27 \<noteq> 0
      then Some FatReadDirEntryNameResultError
      else
        let (name, terminated) = longNameEntry buffer name in
        if terminated then Some (FatReadDirEntryNameResultSuccess name)
        else if buffer ! 0 AND 0x40 \<noteq> 0 then Some (FatReadDirEntryNameResultSuccess name)
        else longNameLoop fs dirEntryOffset name)"

subsection \<open>Short names\<close>

text \<open>The loop that strips the padding of the name part, and the index it ends at.\<close>

fun stripPadding :: "nat \<Rightarrow> u8 list \<Rightarrow> u8 list \<times> nat" where
  "stripPadding 0 name = (name, 0)"
| "stripPadding (Suc p1End) name =
     (if name ! Suc p1End \<noteq> 32 then (name, Suc p1End)
      else stripPadding p1End (name[Suc p1End := 0]))"

definition bufferString :: "u8 list \<Rightarrow> cstr" where
  "bufferString name = takeWhile (\<lambda>c. c \<noteq> 0) name"

text \<open>The buffer is the eleven bytes read and the two after them that this part writes.\<close>

definition shortName :: "u8 list \<Rightarrow> cstr" where
  "shortName name =
     (let (name, p1End) = stripPadding 7 name in
      if name ! 8 = 32 then bufferString (name[8 := 0])
      else
        let name = (if name ! 9 = 32 then name[9 := 0] else name);
            name = (if name ! 10 = 32 then name[10 := 0] else name);
            name = name[11 := name ! 10];
            name = name[10 := name ! 9];
            name = name[9 := name ! 8];
            name = name[p1End + 1 := 46];
            name = name[p1End + 2 := name ! 9];
            name = name[p1End + 3 := name ! 10];
            name = name[p1End + 4 := name ! 11];
            name = name[p1End + 5 := 0]
        in bufferString name)"

definition fatReadDirEntryName :: "Fat \<Rightarrow> u32 \<Rightarrow> FatReadDirEntryNameResult option" where
  "fatReadDirEntryName fs dirEntryOffset =
     (let name = fatRead fs (dirEntryOffset + 0) 11 in
      if length name \<noteq> 11 then Some FatReadDirEntryNameResultError
      else if name ! 0 = FatDirEntryNameFirstByteUnusedFinal
      then Some FatReadDirEntryNameResultEnd
      else if name ! 0 = FatDirEntryNameFirstByteDotEntry \<or>
              name ! 0 = FatDirEntryNameFirstByteUnusedDeleted
      then Some FatReadDirEntryNameResultUnused
      else
        let name = (if name ! 0 = FatDirEntryNameFirstByteEscape0xE5 then name[0 := 0xE5] else name)
        in if name ! 6 = 126 \<and> name ! 7 = 49 then longNameLoop fs dirEntryOffset []
           else Some (FatReadDirEntryNameResultSuccess (shortName (name @ [0, 0]))))"

section \<open>Looking up a path\<close>

text \<open>An entry whose name cannot be read is skipped like a deleted one, so a directory that
  runs off the end of the volume is searched for ever.\<close>

partial_function (option) fatGetFileDirEntryOffsetFromPathKStrHelper ::
    "Fat \<Rightarrow> u32 \<Rightarrow> KStr \<Rightarrow> u32 option" where
  "fatGetFileDirEntryOffsetFromPathKStrHelper fs currDirOffset path = do {
     result \<leftarrow> fatReadDirEntryName fs currDirOffset;
     case result of
       FatReadDirEntryNameResultError \<Rightarrow>
         fatGetFileDirEntryOffsetFromPathKStrHelper fs (currDirOffset + 32) path
     | FatReadDirEntryNameResultUnused \<Rightarrow>
         fatGetFileDirEntryOffsetFromPathKStrHelper fs (currDirOffset + 32) path
     | FatReadDirEntryNameResultEnd \<Rightarrow> Some 0
     | FatReadDirEntryNameResultSuccess fileName \<Rightarrow>
         (case fatReadDirEntryAttributes fs currDirOffset of
            None \<Rightarrow> fatGetFileDirEntryOffsetFromPathKStrHelper fs (currDirOffset + 32) path
          | Some attributes \<Rightarrow>
              if attributes AND FatDirEntryAttributesVolumeLabel \<noteq> 0
              then fatGetFileDirEntryOffsetFromPathKStrHelper fs (currDirOffset + 32) path
              else if kstrStrcmp fileName path = 0 then Some currDirOffset
              else if attributes AND FatDirEntryAttributesSubDir \<noteq> 0 \<and>
                   kstrStrncmp fileName path (length fileName) = 0 \<and>
                   kstrGetChar path (length fileName) = 47
              then do {
                subDirCluster \<leftarrow> fatReadDirEntryFirstCluster fs currDirOffset;
                fatGetFileDirEntryOffsetFromPathKStrHelper fs
                  (fatGetOffsetForCluster fs (ucast subDirCluster))
                  (kstrAllocOffset path (length fileName + 1))
              }
              else fatGetFileDirEntryOffsetFromPathKStrHelper fs (currDirOffset + 32) path)
   }"

definition fatGetFileDirEntryOffsetFromPathKStr :: "Fat \<Rightarrow> KStr \<Rightarrow> u32 option" where
  "fatGetFileDirEntryOffsetFromPathKStr fs path =
     (if kstrIsNull path then None
      else fatGetFileDirEntryOffsetFromPathKStrHelper fs (fatGetRootDirOffset fs) path)"

definition fatGetFileDirEntryOffsetFromPath :: "Fat \<Rightarrow> cstr \<Rightarrow> u32 option" where
  "fatGetFileDirEntryOffsetFromPath fs path =
     fatGetFileDirEntryOffsetFromPathKStr fs (kstrAllocStatic path)"

section \<open>Directories\<close>

definition fatIsDir :: "Fat \<Rightarrow> cstr \<Rightarrow> bool option" where
  "fatIsDir fs path =
     (if path = [] then Some True
      else do {
        dirEntryOffset \<leftarrow> fatGetFileDirEntryOffsetFromPath fs path;
        if dirEntryOffset = 0 then Some False
        else case fatReadDirEntryAttributes fs dirEntryOffset of
          None \<Rightarrow> Some False
        | Some attributes \<Rightarrow> Some (attributes AND FatDirEntryAttributesSubDir \<noteq> 0)
      })"

text \<open>The loop over the entries of a directory: the name of the entry with the number asked
  for, counting those that have a name and are no volume label.\<close>

partial_function (option) fatChildLoop :: "Fat \<Rightarrow> u32 \<Rightarrow> nat \<Rightarrow> nat \<Rightarrow> cstr option option" where
  "fatChildLoop fs offset childI childNum = do {
     result \<leftarrow> fatReadDirEntryName fs offset;
     case result of
       FatReadDirEntryNameResultError \<Rightarrow> fatChildLoop fs (offset + 32) childI childNum
     | FatReadDirEntryNameResultUnused \<Rightarrow> fatChildLoop fs (offset + 32) childI childNum
     | FatReadDirEntryNameResultEnd \<Rightarrow> Some None
     | FatReadDirEntryNameResultSuccess childPath \<Rightarrow>
         (case fatReadDirEntryAttributes fs offset of
            None \<Rightarrow> fatChildLoop fs (offset + 32) childI childNum
          | Some attributes \<Rightarrow>
              if attributes AND FatDirEntryAttributesVolumeLabel \<noteq> 0
              then fatChildLoop fs (offset + 32) childI childNum
              else if childI = childNum then Some (Some childPath)
              else fatChildLoop fs (offset + 32) (childI + 1) childNum)
   }"

definition fatDirGetChildN :: "Fat \<Rightarrow> KStr \<Rightarrow> nat \<Rightarrow> cstr option option" where
  "fatDirGetChildN fs path childNum =
     (if childNum \<ge> FATMAXFILES then None
      else if kstrStrlen path = 0 then fatChildLoop fs (fatGetRootDirOffset fs) 0 childNum
      else do {
        dirEntryOffset \<leftarrow> fatGetFileDirEntryOffsetFromPathKStr fs path;
        if dirEntryOffset = 0 then Some None
        else case fatReadDirEntryAttributes fs dirEntryOffset of
          None \<Rightarrow> Some None
        | Some attributes \<Rightarrow>
            if attributes AND FatDirEntryAttributesVolumeLabel \<noteq> 0 \<or>
               attributes AND FatDirEntryAttributesSubDir = 0 then Some None
            else case fatReadDirEntryFirstCluster fs dirEntryOffset of
              None \<Rightarrow> Some None
            | Some firstCluster \<Rightarrow>
                fatChildLoop fs (fatGetOffsetForCluster fs (ucast firstCluster)) 0 childNum
      })"

definition fatDirIsEmpty :: "Fat \<Rightarrow> KStr \<Rightarrow> bool option" where
  "fatDirIsEmpty fs path = map_option (\<lambda>child. child = None) (fatDirGetChildN fs path 0)"

section \<open>Files\<close>

definition fatFileExists :: "Fat \<Rightarrow> KStr \<Rightarrow> bool option" where
  "fatFileExists fs path =
     (if kstrIsNull path then None
      else map_option (\<lambda>dirEntryOffset. dirEntryOffset \<noteq> 0)
        (fatGetFileDirEntryOffsetFromPathKStr fs path))"

definition fatFileGetLen :: "Fat \<Rightarrow> cstr \<Rightarrow> u32 option" where
  "fatFileGetLen fs path = do {
     dirEntryOffset \<leftarrow> fatGetFileDirEntryOffsetFromPath fs path;
     if dirEntryOffset = 0 then Some 0
     else case fatReadDirEntrySize fs dirEntryOffset of None \<Rightarrow> Some 0 | Some len \<Rightarrow> Some len
   }"

text \<open>The loop over the data of one cluster: the bytes read so far, their count, and whether
  the function returns with them.\<close>

partial_function (option) clusterReadLoop ::
    "Fat \<Rightarrow> u32 \<Rightarrow> u16 \<Rightarrow> u16 \<Rightarrow> u8 list \<Rightarrow> u16 \<Rightarrow> (u8 list \<times> u16 \<times> bool) option" where
  "clusterReadLoop fs clusterBaseOffset clusterLoopOffset len data totalReadCount =
     (let clusterSize = fatGetClusterSize fs in
      if clusterLoopOffset < clusterSize then
        let readTarget = min (len - totalReadCount) (clusterSize - clusterLoopOffset);
            bytes = fatRead fs (clusterBaseOffset + ucast clusterLoopOffset) (ucast readTarget);
            readCount = (of_nat (length bytes) :: u16);
            data = data @ bytes;
            totalReadCount = totalReadCount + readCount
        in if readCount < readTarget \<or> totalReadCount \<ge> len then Some (data, totalReadCount, True)
           else clusterReadLoop fs clusterBaseOffset (clusterLoopOffset + readCount) len data
                  totalReadCount
      else Some (data, totalReadCount, False))"

partial_function (option) clusterChainLoop ::
    "Fat \<Rightarrow> u32 \<Rightarrow> u32 \<Rightarrow> u16 \<Rightarrow> u8 list \<Rightarrow> u16 \<Rightarrow> u8 list option" where
  "clusterChainLoop fs cluster readOffset len data totalReadCount =
     (let clusterSize = fatGetClusterSize fs;
          clusterType = fatReadClusterEntry fs (ucast cluster) in
      if clusterType = FatClusterTypeError \<or> clusterType = FatClusterTypeFree \<or>
         clusterType = FatClusterTypeReserved
      then Some data
      else do {
        (data, totalReadCount, done, readOffset) \<leftarrow>
          (if readOffset < ucast clusterSize then
             map_option (\<lambda>(data, totalReadCount, done). (data, totalReadCount, done, readOffset))
               (clusterReadLoop fs (fatGetOffsetForCluster fs (ucast cluster)) (ucast readOffset)
                  len data totalReadCount)
           else Some (data, totalReadCount, False, readOffset - ucast clusterSize));
        if done then Some data
        else case clusterType of
          FatClusterTypeData nextCluster \<Rightarrow>
            clusterChainLoop fs nextCluster readOffset len data totalReadCount
        | _ \<Rightarrow> Some data
      })"

definition fatFileReadFromDirEntryOffset :: "Fat \<Rightarrow> u32 \<Rightarrow> u32 \<Rightarrow> u16 \<Rightarrow> u8 list option" where
  "fatFileReadFromDirEntryOffset fs dirEntryOffset readOffset len = do {
     cluster \<leftarrow> fatReadDirEntryFirstCluster fs dirEntryOffset;
     fileSize \<leftarrow> fatReadDirEntrySize fs dirEntryOffset;
     let len = (if readOffset + ucast len > fileSize then ucast (fileSize - readOffset) else len);
     clusterChainLoop fs cluster readOffset len [] 0
   }"

definition fatFileRead :: "Fat \<Rightarrow> KStr \<Rightarrow> u32 \<Rightarrow> u16 \<Rightarrow> u8 list option" where
  "fatFileRead fs path readOffset len =
     (if kstrIsNull path then None
      else do {
        dirEntryOffset \<leftarrow> fatGetFileDirEntryOffsetFromPathKStr fs path;
        if dirEntryOffset = 0 then Some []
        else fatFileReadFromDirEntryOffset fs dirEntryOffset readOffset len
      })"

end
