(* ===== verification/KernelFs.thy ===== *)
theory KernelFs
  imports KernelFsPath MiniFs Fat
begin

text \<open>
  \<open>src/kernel/kernelfs.c\<close>: the virtual file system. A table of 64 open files and a table
  of 128 devices (directories, character devices, block devices holding a flat file, a MiniFs or a
  FAT volume) are kept in \<open>kernelFsData\<close>. A device does its work through a functor pointer,
  which is an identifier here: \<open>FsEnv\<close> says what each one does to the state. A function that
  fails an assertion, calls a null pointer, overruns a buffer or does not end has the value
  \<open>None\<close>; \<open>malloc\<close> is taken to succeed.
\<close>

section \<open>Data\<close>

definition KernelFsDevicesMax :: nat where "KernelFsDevicesMax = 128"

type_synonym KernelFsFileOffset = u32

datatype KernelFsDeviceType =
  KernelFsDeviceTypeBlock | KernelFsDeviceTypeCharacter | KernelFsDeviceTypeDirectory
| KernelFsDeviceTypeNB

datatype KernelFsBlockDeviceFormat =
  KernelFsBlockDeviceFormatCustomMiniFs | KernelFsBlockDeviceFormatFlatFile
| KernelFsBlockDeviceFormatFat | KernelFsBlockDeviceFormatNB

record KernelFsDevice =
  devMountPoint :: KStr
  devFunctor :: "nat option"
  devUserData :: nat
  devType :: KernelFsDeviceType
  devCanOpenMany :: bool
  devWritable :: bool
  devSize :: u32
  devFormat :: KernelFsBlockDeviceFormat

record KernelFsFdtEntry =
  fdtPath :: KStr
  fdtDeviceIndex :: u8

record 'w KernelFs =
  kfsFdt :: "KernelFsFdtEntry list"
  kfsDevices :: "KernelFsDevice list"
  kfsWorld :: 'w

text \<open>\<open>KernelFsDeviceFunctor\<close> by its \<open>KernelFsDeviceFunctorType\<close> argument, for each
  functor and user data. \<open>None\<close> is a failed assertion; the queries leave the state as it is.\<close>

record 'w FsEnv =
  fnFlush :: "nat \<Rightarrow> nat \<Rightarrow> 'w KernelFs \<Rightarrow> (bool \<times> 'w KernelFs) option"
  fnCharacterRead :: "nat \<Rightarrow> nat \<Rightarrow> 'w KernelFs \<Rightarrow> (int \<times> 'w KernelFs) option"
  fnCharacterCanRead :: "nat \<Rightarrow> nat \<Rightarrow> 'w KernelFs \<Rightarrow> bool option"
  fnCharacterWrite :: "nat \<Rightarrow> nat \<Rightarrow> u8 list \<Rightarrow> 'w KernelFs \<Rightarrow> (u32 \<times> 'w KernelFs) option"
  fnCharacterCanWrite :: "nat \<Rightarrow> nat \<Rightarrow> 'w KernelFs \<Rightarrow> bool option"
  fnBlockRead :: "nat \<Rightarrow> nat \<Rightarrow> 'w KernelFs \<Rightarrow> u32 \<Rightarrow> u32 \<Rightarrow> (u8 list \<times> 'w KernelFs) option"
  fnBlockWrite :: "nat \<Rightarrow> nat \<Rightarrow> u32 \<Rightarrow> u8 list \<Rightarrow> 'w KernelFs \<Rightarrow> (u32 \<times> 'w KernelFs) option"
  envIndet :: "u16 \<Rightarrow> u8"

definition unusedDevice :: KernelFsDevice where
  "unusedDevice = \<lparr>devMountPoint = kstrNull, devFunctor = None, devUserData = 0,
     devType = KernelFsDeviceTypeNB, devCanOpenMany = False, devWritable = False, devSize = 0,
     devFormat = KernelFsBlockDeviceFormatCustomMiniFs\<rparr>"

definition closedEntry :: KernelFsFdtEntry where
  "closedEntry = \<lparr>fdtPath = kstrNull, fdtDeviceIndex = of_nat KernelFsDevicesMax\<rparr>"

section \<open>Functors\<close>

definition kernelFsDeviceInvokeFunctorCommonFlush ::
    "'w FsEnv \<Rightarrow> KernelFsDevice \<Rightarrow> 'w KernelFs \<Rightarrow> (bool \<times> 'w KernelFs) option" where
  "kernelFsDeviceInvokeFunctorCommonFlush env device st =
     do { f \<leftarrow> devFunctor device; fnFlush env f (devUserData device) st }"

definition kernelFsDeviceInvokeFunctorCharacterRead ::
    "'w FsEnv \<Rightarrow> KernelFsDevice \<Rightarrow> 'w KernelFs \<Rightarrow> (int \<times> 'w KernelFs) option" where
  "kernelFsDeviceInvokeFunctorCharacterRead env device st =
     do { f \<leftarrow> devFunctor device; fnCharacterRead env f (devUserData device) st }"

definition kernelFsDeviceInvokeFunctorCharacterCanRead ::
    "'w FsEnv \<Rightarrow> KernelFsDevice \<Rightarrow> 'w KernelFs \<Rightarrow> bool option" where
  "kernelFsDeviceInvokeFunctorCharacterCanRead env device st =
     do { f \<leftarrow> devFunctor device; fnCharacterCanRead env f (devUserData device) st }"

definition kernelFsDeviceInvokeFunctorCharacterWrite ::
    "'w FsEnv \<Rightarrow> KernelFsDevice \<Rightarrow> u8 list \<Rightarrow> 'w KernelFs \<Rightarrow> (u32 \<times> 'w KernelFs) option" where
  "kernelFsDeviceInvokeFunctorCharacterWrite env device data st =
     do { f \<leftarrow> devFunctor device; fnCharacterWrite env f (devUserData device) data st }"

definition kernelFsDeviceInvokeFunctorCharacterCanWrite ::
    "'w FsEnv \<Rightarrow> KernelFsDevice \<Rightarrow> 'w KernelFs \<Rightarrow> bool option" where
  "kernelFsDeviceInvokeFunctorCharacterCanWrite env device st =
     do { f \<leftarrow> devFunctor device; fnCharacterCanWrite env f (devUserData device) st }"

definition kernelFsDeviceInvokeFunctorBlockRead ::
    "'w FsEnv \<Rightarrow> KernelFsDevice \<Rightarrow> 'w KernelFs \<Rightarrow> u32 \<Rightarrow> u32 \<Rightarrow>
     (u8 list \<times> 'w KernelFs) option" where
  "kernelFsDeviceInvokeFunctorBlockRead env device st addr len =
     do { f \<leftarrow> devFunctor device; fnBlockRead env f (devUserData device) st addr len }"

definition kernelFsDeviceInvokeFunctorBlockWrite ::
    "'w FsEnv \<Rightarrow> KernelFsDevice \<Rightarrow> u32 \<Rightarrow> u8 list \<Rightarrow> 'w KernelFs \<Rightarrow>
     (u32 \<times> 'w KernelFs) option" where
  "kernelFsDeviceInvokeFunctorBlockWrite env device addr data st =
     do { f \<leftarrow> devFunctor device; fnBlockWrite env f (devUserData device) addr data st }"

text \<open>The wrappers hand the functors of a block device to a volume. They are only passed on
  for a device of the type and format they assert, and such a device has a functor. A volume is
  read as a function of the state: what a read changes in the state, the cached block of an SD
  card, is not seen by any later read.\<close>

definition kernelFsDeviceMiniFsReadWrapper ::
    "'w FsEnv \<Rightarrow> KernelFsDevice \<Rightarrow> 'w KernelFs \<Rightarrow> u16 \<Rightarrow> u16 \<Rightarrow> u8 list" where
  "kernelFsDeviceMiniFsReadWrapper env device st addr len =
     (case kernelFsDeviceInvokeFunctorBlockRead env device st (ucast addr) (ucast len) of
        None \<Rightarrow> [] | Some (bs, _) \<Rightarrow> bs)"

definition kernelFsDeviceMiniFsWriteWrapper ::
    "'w FsEnv \<Rightarrow> KernelFsDevice \<Rightarrow> 'w KernelFs \<Rightarrow> u16 \<Rightarrow> u8 list \<Rightarrow> u16 \<times> 'w KernelFs" where
  "kernelFsDeviceMiniFsWriteWrapper env device st addr data =
     (case kernelFsDeviceInvokeFunctorBlockWrite env device (ucast addr) data st of
        None \<Rightarrow> (0, st) | Some (n, st') \<Rightarrow> (ucast n, st'))"

definition kernelFsFatReadWrapper ::
    "'w FsEnv \<Rightarrow> KernelFsDevice \<Rightarrow> 'w KernelFs \<Rightarrow> FatReader" where
  "kernelFsFatReadWrapper env device st addr len =
     (case kernelFsDeviceInvokeFunctorBlockRead env device st addr len of
        None \<Rightarrow> [] | Some (bs, _) \<Rightarrow> bs)"

definition deviceMiniFs :: "'w FsEnv \<Rightarrow> KernelFsDevice \<Rightarrow> 'w KernelFs \<Rightarrow> ('w KernelFs) MiniFs" where
  "deviceMiniFs env device st =
     miniFsMountFast (kernelFsDeviceMiniFsReadWrapper env device)
       (if devWritable device then Some (kernelFsDeviceMiniFsWriteWrapper env device) else None)
       st (envIndet env)"

section \<open>Finding devices\<close>

definition kernelFsGetDeviceFromPathKStr :: "'w KernelFs \<Rightarrow> KStr \<Rightarrow> nat option" where
  "kernelFsGetDeviceFromPathKStr st path =
     List.find (\<lambda>i. devType (kfsDevices st ! i) \<noteq> KernelFsDeviceTypeNB \<and>
                    kstrDoubleStrcmp path (devMountPoint (kfsDevices st ! i)) = 0)
       [0..<KernelFsDevicesMax]"

definition kernelFsGetDeviceFromPath :: "'w KernelFs \<Rightarrow> cstr \<Rightarrow> nat option" where
  "kernelFsGetDeviceFromPath st path = kernelFsGetDeviceFromPathKStr st (kstrAllocStatic path)"

definition kernelFsPathIsDevice :: "'w KernelFs \<Rightarrow> cstr \<Rightarrow> bool" where
  "kernelFsPathIsDevice st path \<longleftrightarrow> kernelFsGetDeviceFromPath st path \<noteq> None"

definition kernelFsPathIsDeviceKStr :: "'w KernelFs \<Rightarrow> KStr \<Rightarrow> bool" where
  "kernelFsPathIsDeviceKStr st path \<longleftrightarrow> kernelFsGetDeviceFromPathKStr st path \<noteq> None"

fun recursiveLoop ::
    "KernelFsDevice list \<Rightarrow> (KStr \<Rightarrow> nat) \<Rightarrow> nat \<Rightarrow> nat \<Rightarrow> nat option \<Rightarrow> nat list \<Rightarrow> nat option" where
  "recursiveLoop devices matchLenOf pathLen bestMatchLen bestDevice [] = bestDevice"
| "recursiveLoop devices matchLenOf pathLen bestMatchLen bestDevice (i # is) =
     (let device = devices ! i; matchLen = matchLenOf (devMountPoint device);
          mountPointLen = unat (kstrStrlen (devMountPoint device)) in
      if devType device = KernelFsDeviceTypeNB then
        recursiveLoop devices matchLenOf pathLen bestMatchLen bestDevice is
      else if matchLen > bestMatchLen then
        (if pathLen < mountPointLen then
           recursiveLoop devices matchLenOf pathLen bestMatchLen bestDevice is
         else if pathLen = mountPointLen then Some i
         else recursiveLoop devices matchLenOf pathLen matchLen (Some i) is)
      else recursiveLoop devices matchLenOf pathLen bestMatchLen bestDevice is)"

text \<open>With a null \<open>subPath\<close>, and with one: then the best device is dereferenced even if
  there is none.\<close>

definition kernelFsGetDeviceFromPathRecursive :: "'w KernelFs \<Rightarrow> cstr \<Rightarrow> nat option" where
  "kernelFsGetDeviceFromPathRecursive st path =
     recursiveLoop (kfsDevices st) (kstrMatchLen path) (length path) 0 None [0..<KernelFsDevicesMax]"

definition kernelFsGetDeviceFromPathRecursiveSub :: "'w KernelFs \<Rightarrow> cstr \<Rightarrow> (nat \<times> cstr) option" where
  "kernelFsGetDeviceFromPathRecursiveSub st path =
     (case kernelFsGetDeviceFromPathRecursive st path of
        None \<Rightarrow> None
      | Some i \<Rightarrow>
          let rest = drop (unat (kstrStrlen (devMountPoint (kfsDevices st ! i)))) path
          in Some (i, if charAt rest 0 = chSlash then tl rest else rest))"

definition kernelFsGetDeviceFromPathRecursiveKStr :: "'w KernelFs \<Rightarrow> KStr \<Rightarrow> (nat \<times> KStr) option" where
  "kernelFsGetDeviceFromPathRecursiveKStr st path =
     (if kstrIsNull path then None
      else case recursiveLoop (kfsDevices st) (kstrDoubleMatchLen path) (unat (kstrStrlen path)) 0 None
          [0..<KernelFsDevicesMax] of
        None \<Rightarrow> None
      | Some i \<Rightarrow>
          let offset = unat (kstrStrlen (devMountPoint (kfsDevices st ! i)));
              offset = (if kstrGetChar path offset = chSlash then offset + 1 else offset)
          in Some (i, kstrAllocOffset path offset))"

definition kernelFsGetDeviceIndexFromDevice :: "nat option \<Rightarrow> u8" where
  "kernelFsGetDeviceIndexFromDevice device =
     (case device of None \<Rightarrow> of_nat KernelFsDevicesMax | Some i \<Rightarrow> of_nat i)"

section \<open>Directories\<close>

definition kernelFsDeviceIsChildOfPath :: "KernelFsDevice \<Rightarrow> cstr \<Rightarrow> bool option" where
  "kernelFsDeviceIsChildOfPath device parentDir =
     (if \<not> kernelFsPathIsValid parentDir then Some False
      else if kstrStrcmp [chSlash] (devMountPoint device) = 0 then Some False
      else do {
        (dirname, basename) \<leftarrow> kernelFsPathSplitStaticKStr (devMountPoint device);
        Some (if parentDir = [chSlash] then dirname = [] else dirname = parentDir)
      })"

definition kernelFsDeviceIsDir :: "'w FsEnv \<Rightarrow> 'w KernelFs \<Rightarrow> KernelFsDevice \<Rightarrow> cstr \<Rightarrow> bool option" where
  "kernelFsDeviceIsDir env st device subPath =
     (let isRoot = (subPath = []) in
      case devType device of
        KernelFsDeviceTypeBlock \<Rightarrow>
          (case devFormat device of
             KernelFsBlockDeviceFormatCustomMiniFs \<Rightarrow> Some isRoot
           | KernelFsBlockDeviceFormatFat \<Rightarrow>
               (if isRoot then Some True
                else do {
                  mounted \<leftarrow> fatMountFast (kernelFsFatReadWrapper env device st);
                  case mounted of None \<Rightarrow> Some False | Some fat \<Rightarrow> fatIsDir fat subPath
                })
           | KernelFsBlockDeviceFormatFlatFile \<Rightarrow> Some False
           | KernelFsBlockDeviceFormatNB \<Rightarrow> None)
      | KernelFsDeviceTypeCharacter \<Rightarrow> Some False
      | KernelFsDeviceTypeDirectory \<Rightarrow> Some isRoot
      | KernelFsDeviceTypeNB \<Rightarrow> None)"

fun noChildLoop :: "KernelFsDevice list \<Rightarrow> cstr \<Rightarrow> bool option" where
  "noChildLoop [] path = Some True"
| "noChildLoop (child # rest) path =
     (if devType child = KernelFsDeviceTypeNB then noChildLoop rest path
      else case kernelFsDeviceIsChildOfPath child path of
        None \<Rightarrow> None
      | Some True \<Rightarrow> Some False
      | Some False \<Rightarrow> noChildLoop rest path)"

definition kernelFsDeviceIsDirEmpty ::
    "'w FsEnv \<Rightarrow> 'w KernelFs \<Rightarrow> KernelFsDevice \<Rightarrow> cstr \<Rightarrow> bool option" where
  "kernelFsDeviceIsDirEmpty env st device subPath =
     (let isRoot = (subPath = []) in
      case devType device of
        KernelFsDeviceTypeBlock \<Rightarrow>
          (case devFormat device of
             KernelFsBlockDeviceFormatCustomMiniFs \<Rightarrow>
               (if \<not> isRoot then Some False else Some (miniFsIsEmpty (deviceMiniFs env device st)))
           | KernelFsBlockDeviceFormatFlatFile \<Rightarrow> Some False
           | KernelFsBlockDeviceFormatFat \<Rightarrow>
               do {
                 mounted \<leftarrow> fatMountFast (kernelFsFatReadWrapper env device st);
                 case mounted of
                   None \<Rightarrow> Some False
                 | Some fat \<Rightarrow> fatDirIsEmpty fat (kstrAllocStatic subPath)
               }
           | KernelFsBlockDeviceFormatNB \<Rightarrow> None)
      | KernelFsDeviceTypeCharacter \<Rightarrow> Some False
      | KernelFsDeviceTypeDirectory \<Rightarrow>
          (if \<not> isRoot then Some False
           else noChildLoop (kfsDevices st) (kstrStrcpy [] (devMountPoint device)))
      | KernelFsDeviceTypeNB \<Rightarrow> None)"

definition kernelFsFileIsDir :: "'w FsEnv \<Rightarrow> 'w KernelFs \<Rightarrow> cstr \<Rightarrow> bool option" where
  "kernelFsFileIsDir env st path = do {
     (i, subPath) \<leftarrow> kernelFsGetDeviceFromPathRecursiveSub st path;
     kernelFsDeviceIsDir env st (kfsDevices st ! i) subPath
   }"

definition kernelFsFileIsDirEmpty :: "'w FsEnv \<Rightarrow> 'w KernelFs \<Rightarrow> cstr \<Rightarrow> bool option" where
  "kernelFsFileIsDirEmpty env st path = do {
     (i, subPath) \<leftarrow> kernelFsGetDeviceFromPathRecursiveSub st path;
     kernelFsDeviceIsDirEmpty env st (kfsDevices st ! i) subPath
   }"

definition kernelFsFileIsCharacter :: "'w KernelFs \<Rightarrow> cstr \<Rightarrow> bool" where
  "kernelFsFileIsCharacter st path =
     (case kernelFsGetDeviceFromPath st path of
        None \<Rightarrow> False
      | Some i \<Rightarrow> devType (kfsDevices st ! i) = KernelFsDeviceTypeCharacter)"

definition kernelFsFileExistsKStr :: "'w FsEnv \<Rightarrow> 'w KernelFs \<Rightarrow> KStr \<Rightarrow> bool option" where
  "kernelFsFileExistsKStr env st path =
     (if kstrIsNull path then None
      else if kernelFsPathIsDeviceKStr st path then Some True
      else do {
        (dirname, basename) \<leftarrow> kernelFsPathSplitStaticKStr path;
        case kernelFsGetDeviceFromPath st dirname of
          None \<Rightarrow> Some False
        | Some i \<Rightarrow>
            let device = kfsDevices st ! i in
            (case devType device of
               KernelFsDeviceTypeBlock \<Rightarrow>
                 (case devFormat device of
                    KernelFsBlockDeviceFormatCustomMiniFs \<Rightarrow>
                      Some (miniFsFileExists (deviceMiniFs env device st) basename)
                  | KernelFsBlockDeviceFormatFlatFile \<Rightarrow> Some False
                  | KernelFsBlockDeviceFormatFat \<Rightarrow>
                      do {
                        mounted \<leftarrow> fatMountFast (kernelFsFatReadWrapper env device st);
                        case mounted of
                          None \<Rightarrow> Some False
                        | Some fat \<Rightarrow> fatFileExists fat (kstrAllocStatic basename)
                      }
                  | KernelFsBlockDeviceFormatNB \<Rightarrow> None)
             | KernelFsDeviceTypeCharacter \<Rightarrow> Some False
             | KernelFsDeviceTypeDirectory \<Rightarrow> Some False
             | KernelFsDeviceTypeNB \<Rightarrow> None)
      })"

definition kernelFsFileExists :: "'w FsEnv \<Rightarrow> 'w KernelFs \<Rightarrow> cstr \<Rightarrow> bool option" where
  "kernelFsFileExists env st path = kernelFsFileExistsKStr env st (kstrAllocStatic path)"

section \<open>The device table\<close>

definition kernelFsInit :: "'w \<Rightarrow> 'w KernelFs" where
  "kernelFsInit w = \<lparr>kfsFdt = replicate KernelFsFdMax closedEntry,
     kfsDevices = replicate KernelFsDevicesMax unusedDevice, kfsWorld = w\<rparr>"

definition removeDevice :: "KernelFsDevice \<Rightarrow> KernelFsDevice" where
  "removeDevice device =
     (if devType device = KernelFsDeviceTypeNB then device
      else device\<lparr>devType := KernelFsDeviceTypeNB, devMountPoint := kstrNull\<rparr>)"

definition kernelFsRemoveDeviceFileRaw :: "nat \<Rightarrow> 'w KernelFs \<Rightarrow> 'w KernelFs" where
  "kernelFsRemoveDeviceFileRaw i st =
     st\<lparr>kfsDevices := (kfsDevices st)[i := removeDevice (kfsDevices st ! i)]\<rparr>"

definition kernelFsQuit :: "'w KernelFs \<Rightarrow> 'w KernelFs" where
  "kernelFsQuit st = st\<lparr>kfsFdt := map (\<lambda>_. closedEntry) (kfsFdt st),
     kfsDevices := map removeDevice (kfsDevices st)\<rparr>"

text \<open>\<open>dirname\<close> points into the static buffer that \<open>kernelFsFileExists\<close> splits again
  when \<open>dirname\<close> is not itself a device, so that the following call sees its parent.\<close>

definition parentAllowsDevice :: "'w FsEnv \<Rightarrow> 'w KernelFs \<Rightarrow> KStr \<Rightarrow> bool option" where
  "parentAllowsDevice env st mountPoint =
     (if kstrStrcmp [chSlash] mountPoint = 0 then Some True
      else do {
        (dirname, basename) \<leftarrow> kernelFsPathSplitStaticKStr mountPoint;
        if dirname = [] then do {
          exists \<leftarrow> kernelFsFileExists env st [chSlash];
          if exists then kernelFsFileIsDir env st [chSlash] else Some False
        } else do {
          exists \<leftarrow> kernelFsFileExists env st dirname;
          if \<not> exists then Some False
          else if kernelFsPathIsDevice st dirname then kernelFsFileIsDir env st dirname
          else do {
            (dirname', _) \<leftarrow> kernelFsPathSplit dirname;
            kernelFsFileIsDir env st dirname'
          }
        }
      })"

definition kernelFsAddDeviceFile ::
    "'w FsEnv \<Rightarrow> KStr \<Rightarrow> nat option \<Rightarrow> nat \<Rightarrow> KernelFsDeviceType \<Rightarrow> bool \<Rightarrow> 'w KernelFs \<Rightarrow>
     (nat option \<times> 'w KernelFs) option" where
  "kernelFsAddDeviceFile env mountPoint functor userData type writable st =
     (if kstrIsNull mountPoint \<or> type = KernelFsDeviceTypeNB then None
      else do {
        exists \<leftarrow> kernelFsFileExistsKStr env st mountPoint;
        if exists then Some (None, st)
        else do {
          allowed \<leftarrow> parentAllowsDevice env st mountPoint;
          if \<not> allowed then Some (None, st)
          else case List.find (\<lambda>i. devType (kfsDevices st ! i) = KernelFsDeviceTypeNB)
              [0..<KernelFsDevicesMax] of
            None \<Rightarrow> Some (None, st)
          | Some i \<Rightarrow>
              Some (Some i, st\<lparr>kfsDevices := (kfsDevices st)[i := (kfsDevices st ! i)
                \<lparr>devMountPoint := mountPoint, devFunctor := functor, devUserData := userData,
                 devType := type, devWritable := writable\<rparr>]\<rparr>)
        }
      })"

definition kernelFsAddCharacterDeviceFile ::
    "'w FsEnv \<Rightarrow> KStr \<Rightarrow> nat \<Rightarrow> nat \<Rightarrow> bool \<Rightarrow> bool \<Rightarrow> 'w KernelFs \<Rightarrow> (bool \<times> 'w KernelFs) option" where
  "kernelFsAddCharacterDeviceFile env mountPoint functor userData canOpenMany writable st = do {
     (device, st) \<leftarrow> kernelFsAddDeviceFile env mountPoint (Some functor) userData
       KernelFsDeviceTypeCharacter writable st;
     case device of
       None \<Rightarrow> Some (False, st)
     | Some i \<Rightarrow> Some (True, st\<lparr>kfsDevices := (kfsDevices st)[i := (kfsDevices st ! i)
         \<lparr>devCanOpenMany := (canOpenMany \<or> \<not> writable)\<rparr>]\<rparr>)
   }"

definition kernelFsAddDirectoryDeviceFile ::
    "'w FsEnv \<Rightarrow> KStr \<Rightarrow> 'w KernelFs \<Rightarrow> (bool \<times> 'w KernelFs) option" where
  "kernelFsAddDirectoryDeviceFile env mountPoint st = do {
     (device, st) \<leftarrow> kernelFsAddDeviceFile env mountPoint None 0 KernelFsDeviceTypeDirectory True st;
     Some (device \<noteq> None, st)
   }"

definition mountCheck :: "'w FsEnv \<Rightarrow> KernelFsDevice \<Rightarrow> 'w KernelFs \<Rightarrow> bool option" where
  "mountCheck env device st =
     (case devFormat device of
        KernelFsBlockDeviceFormatCustomMiniFs \<Rightarrow>
          Some (miniFsMountSafe (kernelFsDeviceMiniFsReadWrapper env device)
            (if devWritable device then Some (kernelFsDeviceMiniFsWriteWrapper env device) else None)
            st (envIndet env) \<noteq> None)
      | KernelFsBlockDeviceFormatFlatFile \<Rightarrow> Some True
      | KernelFsBlockDeviceFormatFat \<Rightarrow>
          map_option (\<lambda>mounted. mounted \<noteq> None) (fatMountSafe (kernelFsFatReadWrapper env device st))
      | KernelFsBlockDeviceFormatNB \<Rightarrow> Some False)"

definition kernelFsAddBlockDeviceFile ::
    "'w FsEnv \<Rightarrow> KStr \<Rightarrow> nat \<Rightarrow> nat \<Rightarrow> KernelFsBlockDeviceFormat \<Rightarrow> u32 \<Rightarrow> bool \<Rightarrow> 'w KernelFs \<Rightarrow>
     (bool \<times> 'w KernelFs) option" where
  "kernelFsAddBlockDeviceFile env mountPoint functor userData format sz writable st = do {
     (device, st) \<leftarrow> kernelFsAddDeviceFile env mountPoint (Some functor) userData
       KernelFsDeviceTypeBlock writable st;
     case device of
       None \<Rightarrow> Some (False, st)
     | Some i \<Rightarrow>
         let device = (kfsDevices st ! i)\<lparr>devFormat := format, devSize := sz\<rparr>;
             st = st\<lparr>kfsDevices := (kfsDevices st)[i := device]\<rparr>
         in do {
           ok \<leftarrow> mountCheck env device st;
           if ok then Some (True, st) else Some (False, kernelFsRemoveDeviceFileRaw i st)
         }
   }"

definition kernelFsRemoveDeviceFile :: "cstr \<Rightarrow> 'w KernelFs \<Rightarrow> 'w KernelFs" where
  "kernelFsRemoveDeviceFile mountPoint st =
     (case kernelFsGetDeviceFromPath st mountPoint of
        None \<Rightarrow> st | Some i \<Rightarrow> kernelFsRemoveDeviceFileRaw i st)"

definition kernelFsUpdateBlockDeviceFile ::
    "'w FsEnv \<Rightarrow> KStr \<Rightarrow> nat \<Rightarrow> nat \<Rightarrow> KernelFsBlockDeviceFormat \<Rightarrow> u32 \<Rightarrow> bool \<Rightarrow> 'w KernelFs \<Rightarrow>
     (bool \<times> 'w KernelFs) option" where
  "kernelFsUpdateBlockDeviceFile env mountPoint functor userData format sz writable st =
     (if kstrIsNull mountPoint then None
      else case kernelFsGetDeviceFromPathKStr st mountPoint of
        None \<Rightarrow> Some (False, st)
      | Some i \<Rightarrow>
          let device = (kfsDevices st ! i)\<lparr>devFunctor := Some functor, devUserData := userData,
                devType := KernelFsDeviceTypeBlock, devWritable := writable,
                devFormat := format, devSize := sz\<rparr>;
              st' = st\<lparr>kfsDevices := (kfsDevices st)[i := device]\<rparr>
          in do {
            ok \<leftarrow> mountCheck env device st';
            if ok then Some (True, st') else Some (False, st)
          })"

definition kernelFsDeviceFileGetUserData :: "'w KernelFs \<Rightarrow> cstr \<Rightarrow> nat option" where
  "kernelFsDeviceFileGetUserData st mountPoint =
     map_option (\<lambda>i. devUserData (kfsDevices st ! i)) (kernelFsGetDeviceFromPath st mountPoint)"

end
