(* ===== verification/KernelFsFile.thy ===== *)
theory KernelFsFile
  imports KernelFs
begin

text \<open>
  The file operations of \<open>src/kernel/kernelfs.c\<close>: existence, length, creation, deletion and
  resizing by path, the descriptor table with its reference counts, and reading and writing through
  a descriptor, which is either the device cached with it or a file inside that device's volume.
\<close>

section \<open>Files by path\<close>

definition kernelFsFileIsOpen :: "'w KernelFs \<Rightarrow> cstr \<Rightarrow> bool" where
  "kernelFsFileIsOpen st path \<longleftrightarrow>
     list_ex (\<lambda>i. let p = fdtPath (kfsFdt st ! i) in \<not> kstrIsNull p \<and> kstrStrcmp path p = 0)
       [1..<KernelFsFdMax]"

definition kernelFsFileIsOpenByFd :: "'w KernelFs \<Rightarrow> KernelFsFd \<Rightarrow> bool option" where
  "kernelFsFileIsOpenByFd st fd =
     (if unat fd < KernelFsFdMax then Some (\<not> kstrIsNull (fdtPath (kfsFdt st ! unat fd))) else None)"

definition childFileLen :: "'w FsEnv \<Rightarrow> 'w KernelFs \<Rightarrow> cstr \<Rightarrow> u32 option" where
  "childFileLen env st path = do {
     (dirname, basename) \<leftarrow> kernelFsPathSplitStatic path;
     case kernelFsGetDeviceFromPath st dirname of
       None \<Rightarrow> Some 0
     | Some i \<Rightarrow>
         let device = kfsDevices st ! i in
         (case devType device of
            KernelFsDeviceTypeBlock \<Rightarrow>
              (case devFormat device of
                 KernelFsBlockDeviceFormatCustomMiniFs \<Rightarrow>
                   map_option ucast (miniFsFileGetLen (deviceMiniFs env device st) basename)
               | KernelFsBlockDeviceFormatFlatFile \<Rightarrow> Some 0
               | KernelFsBlockDeviceFormatFat \<Rightarrow> Some 0
               | KernelFsBlockDeviceFormatNB \<Rightarrow> None)
          | KernelFsDeviceTypeCharacter \<Rightarrow> Some 0
          | KernelFsDeviceTypeDirectory \<Rightarrow> Some 0
          | KernelFsDeviceTypeNB \<Rightarrow> None)
   }"

definition kernelFsFileGetLen :: "'w FsEnv \<Rightarrow> 'w KernelFs \<Rightarrow> cstr \<Rightarrow> u32 option" where
  "kernelFsFileGetLen env st path =
     (if \<not> kernelFsPathIsValid path then Some 0
      else case kernelFsGetDeviceFromPath st path of
        Some i \<Rightarrow>
          let device = kfsDevices st ! i in
          (case devType device of
             KernelFsDeviceTypeBlock \<Rightarrow>
               (case devFormat device of
                  KernelFsBlockDeviceFormatCustomMiniFs \<Rightarrow> Some 0
                | KernelFsBlockDeviceFormatFlatFile \<Rightarrow> Some (devSize device)
                | KernelFsBlockDeviceFormatFat \<Rightarrow> Some 0
                | KernelFsBlockDeviceFormatNB \<Rightarrow> None)
           | KernelFsDeviceTypeCharacter \<Rightarrow> Some 0
           | KernelFsDeviceTypeDirectory \<Rightarrow> Some 0
           | KernelFsDeviceTypeNB \<Rightarrow> childFileLen env st path)
      | None \<Rightarrow> childFileLen env st path)"

text \<open>The size is cut to 16 bits on its way to \<open>miniFsFileCreate\<close>.\<close>

definition kernelFsFileCreateWithSize ::
    "'w FsEnv \<Rightarrow> cstr \<Rightarrow> u32 \<Rightarrow> 'w KernelFs \<Rightarrow> (bool \<times> 'w KernelFs) option" where
  "kernelFsFileCreateWithSize env path sz st = do {
     (dirname, basename) \<leftarrow> kernelFsPathSplitStatic path;
     case kernelFsGetDeviceFromPath st dirname of
       None \<Rightarrow> Some (False, st)
     | Some i \<Rightarrow>
         let device = kfsDevices st ! i in
         (case devType device of
            KernelFsDeviceTypeBlock \<Rightarrow>
              (case devFormat device of
                 KernelFsBlockDeviceFormatCustomMiniFs \<Rightarrow>
                   (if devWritable device
                    then map_option (\<lambda>(res, fs). (res, mfUserData fs))
                      (miniFsFileCreate (deviceMiniFs env device st) basename (ucast sz))
                    else Some (False, st))
               | KernelFsBlockDeviceFormatFlatFile \<Rightarrow> Some (False, st)
               | KernelFsBlockDeviceFormatFat \<Rightarrow> Some (False, st)
               | KernelFsBlockDeviceFormatNB \<Rightarrow> None)
          | KernelFsDeviceTypeCharacter \<Rightarrow> Some (False, st)
          | KernelFsDeviceTypeDirectory \<Rightarrow> Some (False, st)
          | KernelFsDeviceTypeNB \<Rightarrow> None)
   }"

definition kernelFsFileCreate ::
    "'w FsEnv \<Rightarrow> cstr \<Rightarrow> 'w KernelFs \<Rightarrow> (bool \<times> 'w KernelFs) option" where
  "kernelFsFileCreate env path st = kernelFsFileCreateWithSize env path 0 st"

definition deleteChild ::
    "'w FsEnv \<Rightarrow> cstr \<Rightarrow> 'w KernelFs \<Rightarrow> (bool \<times> 'w KernelFs) option" where
  "deleteChild env path st = do {
     (dirname, basename) \<leftarrow> kernelFsPathSplitStatic path;
     case kernelFsGetDeviceFromPath st dirname of
       None \<Rightarrow> Some (False, st)
     | Some i \<Rightarrow>
         let device = kfsDevices st ! i in
         (case devType device of
            KernelFsDeviceTypeBlock \<Rightarrow>
              (case devFormat device of
                 KernelFsBlockDeviceFormatCustomMiniFs \<Rightarrow>
                   map_option (\<lambda>(res, fs). (res, mfUserData fs))
                     (miniFsFileDelete (deviceMiniFs env device st) basename)
               | KernelFsBlockDeviceFormatFlatFile \<Rightarrow> Some (False, st)
               | KernelFsBlockDeviceFormatFat \<Rightarrow> Some (False, st)
               | KernelFsBlockDeviceFormatNB \<Rightarrow> None)
          | KernelFsDeviceTypeCharacter \<Rightarrow> Some (False, st)
          | KernelFsDeviceTypeDirectory \<Rightarrow> Some (False, st)
          | KernelFsDeviceTypeNB \<Rightarrow> None)
   }"

definition kernelFsFileDelete ::
    "'w FsEnv \<Rightarrow> cstr \<Rightarrow> 'w KernelFs \<Rightarrow> (bool \<times> 'w KernelFs) option" where
  "kernelFsFileDelete env path st =
     (if kernelFsFileIsOpen st path then Some (False, st)
      else case kernelFsGetDeviceFromPath st path of
        Some i \<Rightarrow> do {
          let device = kfsDevices st ! i;
          isDir \<leftarrow> kernelFsDeviceIsDir env st device [];
          isEmpty \<leftarrow> (if isDir then kernelFsDeviceIsDirEmpty env st device [] else Some True);
          if isDir \<and> \<not> isEmpty then Some (False, st)
          else if devType device = KernelFsDeviceTypeBlock \<and>
                  devFormat device = KernelFsBlockDeviceFormatNB
               \<or> devType device = KernelFsDeviceTypeNB then None
          else Some (True, kernelFsRemoveDeviceFileRaw i st)
        }
      | None \<Rightarrow> deleteChild env path st)"

definition kernelFsFileFlush ::
    "'w FsEnv \<Rightarrow> cstr \<Rightarrow> 'w KernelFs \<Rightarrow> (bool \<times> 'w KernelFs) option" where
  "kernelFsFileFlush env path st =
     (if \<not> kernelFsPathIsValid path then Some (False, st)
      else case kernelFsGetDeviceFromPath st path of
        Some i \<Rightarrow> kernelFsDeviceInvokeFunctorCommonFlush env (kfsDevices st ! i) st
      | None \<Rightarrow> do {
          (dirname, basename) \<leftarrow> kernelFsPathSplitStatic path;
          case kernelFsGetDeviceFromPath st dirname of
            Some i \<Rightarrow> kernelFsDeviceInvokeFunctorCommonFlush env (kfsDevices st ! i) st
          | None \<Rightarrow> Some (False, st)
        })"

definition kernelFsFileResize ::
    "'w FsEnv \<Rightarrow> cstr \<Rightarrow> u32 \<Rightarrow> 'w KernelFs \<Rightarrow> (bool \<times> 'w KernelFs) option" where
  "kernelFsFileResize env path newSize st =
     (if \<not> kernelFsPathIsValid path then Some (False, st)
      else if kernelFsFileIsOpen st path then Some (False, st)
      else if kernelFsGetDeviceFromPath st path \<noteq> None then Some (False, st)
      else do {
        (dirname, basename) \<leftarrow> kernelFsPathSplitStatic path;
        case kernelFsGetDeviceFromPath st dirname of
          None \<Rightarrow> Some (False, st)
        | Some i \<Rightarrow>
            let device = kfsDevices st ! i in
            (case devType device of
               KernelFsDeviceTypeBlock \<Rightarrow>
                 (case devFormat device of
                    KernelFsBlockDeviceFormatCustomMiniFs \<Rightarrow>
                      (if unat newSize \<ge> 65535 then Some (False, st)
                       else map_option (\<lambda>(res, fs). (res, mfUserData fs))
                         (miniFsFileResize (deviceMiniFs env device st) basename (ucast newSize)))
                  | KernelFsBlockDeviceFormatFlatFile \<Rightarrow> Some (False, st)
                  | KernelFsBlockDeviceFormatFat \<Rightarrow> Some (False, st)
                  | KernelFsBlockDeviceFormatNB \<Rightarrow> None)
             | KernelFsDeviceTypeCharacter \<Rightarrow> Some (False, st)
             | KernelFsDeviceTypeDirectory \<Rightarrow> Some (False, st)
             | KernelFsDeviceTypeNB \<Rightarrow> None)
      })"

definition canOpenManyChild :: "'w KernelFs \<Rightarrow> cstr \<Rightarrow> bool option" where
  "canOpenManyChild st path = do {
     (dirname, basename) \<leftarrow> kernelFsPathSplitStatic path;
     case kernelFsGetDeviceFromPath st dirname of
       None \<Rightarrow> Some False
     | Some i \<Rightarrow>
         let device = kfsDevices st ! i in
         (case devType device of
            KernelFsDeviceTypeBlock \<Rightarrow>
              (case devFormat device of
                 KernelFsBlockDeviceFormatCustomMiniFs \<Rightarrow> Some (\<not> devWritable device)
               | KernelFsBlockDeviceFormatFlatFile \<Rightarrow> Some False
               | KernelFsBlockDeviceFormatFat \<Rightarrow> Some (\<not> devWritable device)
               | KernelFsBlockDeviceFormatNB \<Rightarrow> None)
          | KernelFsDeviceTypeCharacter \<Rightarrow> Some False
          | KernelFsDeviceTypeDirectory \<Rightarrow> Some False
          | KernelFsDeviceTypeNB \<Rightarrow> None)
   }"

definition kernelFsFileCanOpenMany :: "'w KernelFs \<Rightarrow> cstr \<Rightarrow> bool option" where
  "kernelFsFileCanOpenMany st path =
     (case kernelFsGetDeviceFromPath st path of
        Some i \<Rightarrow>
          let device = kfsDevices st ! i in
          (case devType device of
             KernelFsDeviceTypeBlock \<Rightarrow> Some (\<not> devWritable device)
           | KernelFsDeviceTypeCharacter \<Rightarrow> Some (devCanOpenMany device)
           | KernelFsDeviceTypeDirectory \<Rightarrow> Some True
           | KernelFsDeviceTypeNB \<Rightarrow> canOpenManyChild st path)
      | None \<Rightarrow> canOpenManyChild st path)"

section \<open>The descriptor table\<close>

definition fdEntry :: "'w KernelFs \<Rightarrow> KernelFsFd \<Rightarrow> KernelFsFdtEntry" where
  "fdEntry st fd = kfsFdt st ! unat fd"

definition fdUpdate :: "KernelFsFd \<Rightarrow> (KernelFsFdtEntry \<Rightarrow> KernelFsFdtEntry) \<Rightarrow> 'w KernelFs \<Rightarrow> 'w KernelFs" where
  "fdUpdate fd f st = st\<lparr>kfsFdt := (kfsFdt st)[unat fd := f (fdEntry st fd)]\<rparr>"

definition kernelFsGetFileSpare :: "'w KernelFs \<Rightarrow> KernelFsFd \<Rightarrow> u8 option" where
  "kernelFsGetFileSpare st fd =
     (if unat fd < KernelFsFdMax then
        Some (if kstrIsNull (fdtPath (fdEntry st fd)) then 0
              else kstrGetSpare (fdtPath (fdEntry st fd)))
      else None)"

definition kernelFsSetFileSpare :: "KernelFsFd \<Rightarrow> u8 \<Rightarrow> 'w KernelFs \<Rightarrow> 'w KernelFs option" where
  "kernelFsSetFileSpare fd spare st =
     (if unat fd < KernelFsFdMax \<and> unat spare < KStrSpareMax then
        Some (if kstrIsNull (fdtPath (fdEntry st fd)) then st
              else fdUpdate fd (\<lambda>e. e\<lparr>fdtPath := kstrSetSpare (fdtPath e) spare\<rparr>) st)
      else None)"

definition kernelFsGetFilePath :: "'w KernelFs \<Rightarrow> KernelFsFd \<Rightarrow> KStr option" where
  "kernelFsGetFilePath st fd = (if unat fd < KernelFsFdMax then Some (fdtPath (fdEntry st fd)) else None)"

definition kernelFsGetFileRefCount :: "'w KernelFs \<Rightarrow> KernelFsFd \<Rightarrow> u32 option" where
  "kernelFsGetFileRefCount st fd =
     (if unat fd < KernelFsFdMax then
        (if kstrIsNull (fdtPath (fdEntry st fd)) then Some 0
         else map_option kernelFsFdPathSpareGetRefCount (kernelFsGetFileSpare st fd))
      else None)"

definition kernelFsGetFileMode :: "'w KernelFs \<Rightarrow> KernelFsFd \<Rightarrow> KernelFsFdMode option" where
  "kernelFsGetFileMode st fd =
     (if unat fd < KernelFsFdMax then
        (if kstrIsNull (fdtPath (fdEntry st fd)) then Some KernelFsFdModeNone
         else map_option kernelFsFdPathSpareGetMode (kernelFsGetFileSpare st fd))
      else None)"

text \<open>The scan of \<open>kernelFsFileOpen\<close> keeps the last free slot it sees; without one it
  stays at the invalid descriptor, whose entry is then written all the same.\<close>

definition lastFreeFd :: "'w KernelFs \<Rightarrow> KernelFsFd" where
  "lastFreeFd st =
     (case List.find (\<lambda>i. kstrIsNull (fdtPath (kfsFdt st ! i))) (rev [1..<KernelFsFdMax]) of
        None \<Rightarrow> KernelFsFdInvalid | Some i \<Rightarrow> of_nat i)"

definition openNewFd ::
    "cstr \<Rightarrow> KernelFsFdMode \<Rightarrow> 'w KernelFs \<Rightarrow> (KernelFsFd \<times> 'w KernelFs) option" where
  "openNewFd path mode st = do {
     let newFd = lastFreeFd st;
     let st = fdUpdate newFd (\<lambda>e. e\<lparr>fdtPath := kstrAllocCopy path\<rparr>) st;
     st \<leftarrow> kernelFsSetFileSpare newFd (kernelFsFdPathSpareMake mode 1) st;
     case kernelFsGetDeviceFromPathRecursive st path of
       None \<Rightarrow> Some (KernelFsFdInvalid, fdUpdate newFd (\<lambda>e. e\<lparr>fdtPath := kstrNull\<rparr>) st)
     | Some i \<Rightarrow>
         Some (newFd, fdUpdate newFd
           (\<lambda>e. e\<lparr>fdtDeviceIndex := kernelFsGetDeviceIndexFromDevice (Some i)\<rparr>) st)
   }"

definition kernelFsFileOpen ::
    "'w FsEnv \<Rightarrow> cstr \<Rightarrow> KernelFsFdMode \<Rightarrow> 'w KernelFs \<Rightarrow> (KernelFsFd \<times> 'w KernelFs) option" where
  "kernelFsFileOpen env path mode st =
     (if \<not> kernelFsPathIsValid path then Some (KernelFsFdInvalid, st)
      else if mode = KernelFsFdModeNone \<or> unat mode > KernelFsFdModeMax then Some (KernelFsFdInvalid, st)
      else do {
        exists \<leftarrow> kernelFsFileExists env st path;
        if \<not> exists then Some (KernelFsFdInvalid, st)
        else do {
          canOpen \<leftarrow> (if kernelFsFileIsOpen st path then kernelFsFileCanOpenMany st path else Some True);
          if \<not> canOpen then Some (KernelFsFdInvalid, st) else openNewFd path mode st
        }
      })"

definition kernelFsFileDupe :: "KernelFsFd \<Rightarrow> 'w KernelFs \<Rightarrow> (bool \<times> 'w KernelFs) option" where
  "kernelFsFileDupe fd st =
     (if unat fd < KernelFsFdMax then
        (if kstrIsNull (fdtPath (fdEntry st fd)) then Some (False, st)
         else do {
           spare \<leftarrow> kernelFsGetFileSpare st fd;
           let refCount = kernelFsFdPathSpareGetRefCount spare + 1;
           if unat refCount \<ge> KernelFsFdRefCountMax then Some (False, st)
           else do {
             st \<leftarrow> kernelFsSetFileSpare fd
               (kernelFsFdPathSpareMake (kernelFsFdPathSpareGetMode spare) refCount) st;
             Some (True, st)
           }
         })
      else None)"

text \<open>The path goes through a local buffer of 64 bytes.\<close>

definition kernelFsFileDupeOrOpen ::
    "'w FsEnv \<Rightarrow> KernelFsFd \<Rightarrow> 'w KernelFs \<Rightarrow> (KernelFsFd \<times> 'w KernelFs) option" where
  "kernelFsFileDupeOrOpen env fd st = do {
     (duped, st) \<leftarrow> kernelFsFileDupe fd st;
     if duped then Some (fd, st)
     else do {
       pathK \<leftarrow> kernelFsGetFilePath st fd;
       if kstrIsNull pathK then Some (KernelFsFdInvalid, st)
       else if length (kstrBytes pathK) < KernelFsPathMax then do {
         mode \<leftarrow> kernelFsGetFileMode st fd;
         kernelFsFileOpen env (kstrStrcpy [] pathK) mode st
       } else None
     }
   }"

definition kernelFsFileClose :: "KernelFsFd \<Rightarrow> 'w KernelFs \<Rightarrow> (u32 \<times> 'w KernelFs) option" where
  "kernelFsFileClose fd st =
     (if unat fd < KernelFsFdMax then
        (if kstrIsNull (fdtPath (fdEntry st fd)) then Some (0, st)
         else do {
           spare \<leftarrow> kernelFsGetFileSpare st fd;
           let refCount = kernelFsFdPathSpareGetRefCount spare - 1;
           st \<leftarrow> kernelFsSetFileSpare fd
             (kernelFsFdPathSpareMake (kernelFsFdPathSpareGetMode spare) refCount) st;
           Some (refCount,
             if refCount = 0 then fdUpdate fd (\<lambda>e. \<lparr>fdtPath = kstrFree (fdtPath e),
               fdtDeviceIndex = of_nat KernelFsDevicesMax\<rparr>) st else st)
         })
      else None)"

section \<open>Reading and writing through a descriptor\<close>

text \<open>The device cached with an open descriptor, and whether the descriptor is that device
  itself; both branches of the callers assert that a search by path agrees. An index beyond the
  table, which a closed descriptor has, would be read out of bounds.\<close>

definition fdDevice :: "'w KernelFs \<Rightarrow> KernelFsFd \<Rightarrow> (nat \<times> bool) option" where
  "fdDevice st fd =
     (let i = unat (fdtDeviceIndex (fdEntry st fd)); path = fdtPath (fdEntry st fd) in
      if i < KernelFsDevicesMax then
        (let isDevice = (kstrDoubleStrcmp path (devMountPoint (kfsDevices st ! i)) = 0) in
         if isDevice = (kernelFsGetDeviceFromPathKStr st path = Some i) then Some (i, isDevice)
         else None)
      else None)"

definition fdSubPath :: "'w KernelFs \<Rightarrow> KernelFsFd \<Rightarrow> KernelFsDevice \<Rightarrow> cstr" where
  "fdSubPath st fd device =
     kstrBytes (kstrAllocOffset (fdtPath (fdEntry st fd)) (unat (kstrStrlen (devMountPoint device)) + 1))"

fun characterReadLoop ::
    "'w FsEnv \<Rightarrow> KernelFsDevice \<Rightarrow> nat \<Rightarrow> 'w KernelFs \<Rightarrow> (u8 list \<times> 'w KernelFs) option" where
  "characterReadLoop env device 0 st = Some ([], st)"
| "characterReadLoop env device (Suc n) st =
     (case kernelFsDeviceInvokeFunctorCharacterCanRead env device st of
        None \<Rightarrow> None
      | Some False \<Rightarrow> Some ([], st)
      | Some True \<Rightarrow>
          (case kernelFsDeviceInvokeFunctorCharacterRead env device st of
             None \<Rightarrow> None
           | Some (c, st) \<Rightarrow>
               if c < 0 \<or> c \<ge> 256 then Some ([], st)
               else map_option (\<lambda>(data, st). (of_int c # data, st))
                 (characterReadLoop env device n st)))"

definition readDevice ::
    "'w FsEnv \<Rightarrow> KernelFsDevice \<Rightarrow> u32 \<Rightarrow> u32 \<Rightarrow> 'w KernelFs \<Rightarrow> (u8 list \<times> 'w KernelFs) option" where
  "readDevice env device offset dataLen st =
     (case devType device of
        KernelFsDeviceTypeBlock \<Rightarrow>
          (case devFormat device of
             KernelFsBlockDeviceFormatCustomMiniFs \<Rightarrow> Some ([], st)
           | KernelFsBlockDeviceFormatFlatFile \<Rightarrow>
               kernelFsDeviceInvokeFunctorBlockRead env device st offset dataLen
           | KernelFsBlockDeviceFormatFat \<Rightarrow> Some ([], st)
           | KernelFsBlockDeviceFormatNB \<Rightarrow> None)
      | KernelFsDeviceTypeCharacter \<Rightarrow> characterReadLoop env device (unat dataLen) st
      | KernelFsDeviceTypeDirectory \<Rightarrow> Some ([], st)
      | KernelFsDeviceTypeNB \<Rightarrow> Some ([], st))"

definition readChild ::
    "'w FsEnv \<Rightarrow> KernelFsDevice \<Rightarrow> cstr \<Rightarrow> u32 \<Rightarrow> u32 \<Rightarrow> 'w KernelFs \<Rightarrow> (u8 list \<times> 'w KernelFs) option" where
  "readChild env device subPath offset dataLen st =
     (case devType device of
        KernelFsDeviceTypeBlock \<Rightarrow>
          (case devFormat device of
             KernelFsBlockDeviceFormatCustomMiniFs \<Rightarrow>
               (if unat offset \<ge> 65535 then Some ([], st)
                else
                  let dataLen = (if unat dataLen \<ge> 65535 then 65535 else dataLen) in
                  map_option (\<lambda>bs. (bs, st))
                    (miniFsFileReadKStr (deviceMiniFs env device st) subPath (ucast offset) (ucast dataLen)))
           | KernelFsBlockDeviceFormatFlatFile \<Rightarrow> Some ([], st)
           | KernelFsBlockDeviceFormatFat \<Rightarrow>
               do {
                 mounted \<leftarrow> fatMountFast (kernelFsFatReadWrapper env device st);
                 case mounted of
                   None \<Rightarrow> Some ([], st)
                 | Some fat \<Rightarrow>
                     map_option (\<lambda>bs. (bs, st))
                       (fatFileRead fat (kstrAllocStatic subPath) offset (ucast dataLen))
               }
           | KernelFsBlockDeviceFormatNB \<Rightarrow> None)
      | KernelFsDeviceTypeCharacter \<Rightarrow> Some ([], st)
      | KernelFsDeviceTypeDirectory \<Rightarrow> Some ([], st)
      | KernelFsDeviceTypeNB \<Rightarrow> None)"

definition kernelFsFileReadOffset ::
    "'w FsEnv \<Rightarrow> KernelFsFd \<Rightarrow> u32 \<Rightarrow> u32 \<Rightarrow> 'w KernelFs \<Rightarrow> (u8 list \<times> 'w KernelFs) option" where
  "kernelFsFileReadOffset env fd offset dataLen st =
     (if unat fd < KernelFsFdMax then
        (if kstrIsNull (fdtPath (fdEntry st fd)) then Some ([], st)
         else do {
           mode \<leftarrow> kernelFsGetFileMode st fd;
           if mode AND KernelFsFdModeRO = 0 then Some ([], st)
           else do {
             (i, isDevice) \<leftarrow> fdDevice st fd;
             let device = kfsDevices st ! i;
             if isDevice then readDevice env device offset dataLen st
             else readChild env device (fdSubPath st fd device) offset dataLen st
           }
         })
      else None)"

definition kernelFsFileRead ::
    "'w FsEnv \<Rightarrow> KernelFsFd \<Rightarrow> u32 \<Rightarrow> 'w KernelFs \<Rightarrow> (u8 list \<times> 'w KernelFs) option" where
  "kernelFsFileRead env fd dataLen st = kernelFsFileReadOffset env fd 0 dataLen st"

definition kernelFsFileCanRead :: "'w FsEnv \<Rightarrow> KernelFsFd \<Rightarrow> 'w KernelFs \<Rightarrow> bool option" where
  "kernelFsFileCanRead env fd st =
     (if unat fd < KernelFsFdMax then
        (if kstrIsNull (fdtPath (fdEntry st fd)) then Some False
         else do {
           mode \<leftarrow> kernelFsGetFileMode st fd;
           if mode AND KernelFsFdModeRO = 0 then Some False
           else do {
             (i, isDevice) \<leftarrow> fdDevice st fd;
             let device = kfsDevices st ! i;
             if isDevice \<and> devType device = KernelFsDeviceTypeCharacter
             then kernelFsDeviceInvokeFunctorCharacterCanRead env device st else Some True
           }
         })
      else None)"

text \<open>Big-endian reads of one, two and four bytes; \<open>None\<close> inside is the result false.\<close>

definition kernelFsFileReadByte ::
    "'w FsEnv \<Rightarrow> KernelFsFd \<Rightarrow> u32 \<Rightarrow> 'w KernelFs \<Rightarrow> (u8 option \<times> 'w KernelFs) option" where
  "kernelFsFileReadByte env fd offset st =
     map_option (\<lambda>(bs, st). (case bs of [b] \<Rightarrow> Some b | _ \<Rightarrow> None, st))
       (kernelFsFileReadOffset env fd offset 1 st)"

definition kernelFsFileReadWord ::
    "'w FsEnv \<Rightarrow> KernelFsFd \<Rightarrow> u32 \<Rightarrow> 'w KernelFs \<Rightarrow> (u16 option \<times> 'w KernelFs) option" where
  "kernelFsFileReadWord env fd offset st =
     map_option (\<lambda>(bs, st). (case bs of [b1, b0] \<Rightarrow> Some (be16 b1 b0) | _ \<Rightarrow> None, st))
       (kernelFsFileReadOffset env fd offset 2 st)"

definition kernelFsFileReadDoubleWord ::
    "'w FsEnv \<Rightarrow> KernelFsFd \<Rightarrow> u32 \<Rightarrow> 'w KernelFs \<Rightarrow> (u32 option \<times> 'w KernelFs) option" where
  "kernelFsFileReadDoubleWord env fd offset st =
     map_option (\<lambda>(bs, st).
         (case bs of [b3, b2, b1, b0] \<Rightarrow> Some (be32 b3 b2 b1 b0) | _ \<Rightarrow> None, st))
       (kernelFsFileReadOffset env fd offset 4 st)"

definition writeDevice ::
    "'w FsEnv \<Rightarrow> KernelFsDevice \<Rightarrow> u32 \<Rightarrow> u8 list \<Rightarrow> 'w KernelFs \<Rightarrow> (u32 \<times> 'w KernelFs) option" where
  "writeDevice env device offset data st =
     (if \<not> devWritable device then Some (0, st)
      else case devType device of
        KernelFsDeviceTypeBlock \<Rightarrow>
          (case devFormat device of
             KernelFsBlockDeviceFormatCustomMiniFs \<Rightarrow> Some (0, st)
           | KernelFsBlockDeviceFormatFlatFile \<Rightarrow>
               kernelFsDeviceInvokeFunctorBlockWrite env device offset data st
           | KernelFsBlockDeviceFormatFat \<Rightarrow> Some (0, st)
           | KernelFsBlockDeviceFormatNB \<Rightarrow> None)
      | KernelFsDeviceTypeCharacter \<Rightarrow> do {
          can \<leftarrow> kernelFsDeviceInvokeFunctorCharacterCanWrite env device st;
          if can then kernelFsDeviceInvokeFunctorCharacterWrite env device data st else Some (0, st)
        }
      | KernelFsDeviceTypeDirectory \<Rightarrow> Some (0, st)
      | KernelFsDeviceTypeNB \<Rightarrow> Some (0, st))"

definition writeChild ::
    "'w FsEnv \<Rightarrow> KernelFsDevice \<Rightarrow> cstr \<Rightarrow> u32 \<Rightarrow> u8 list \<Rightarrow> 'w KernelFs \<Rightarrow> (u32 \<times> 'w KernelFs) option" where
  "writeChild env device basename offset data st =
     (if \<not> devWritable device then Some (0, st)
      else case devType device of
        KernelFsDeviceTypeBlock \<Rightarrow>
          (case devFormat device of
             KernelFsBlockDeviceFormatCustomMiniFs \<Rightarrow>
               (if unat offset \<ge> 65535 then Some (0, st)
                else map_option (\<lambda>(n, fs). (ucast n, mfUserData fs))
                  (miniFsFileWrite (deviceMiniFs env device st) basename (ucast offset)
                    (take 65535 data)))
           | KernelFsBlockDeviceFormatFlatFile \<Rightarrow> Some (0, st)
           | KernelFsBlockDeviceFormatFat \<Rightarrow> Some (0, st)
           | KernelFsBlockDeviceFormatNB \<Rightarrow> None)
      | KernelFsDeviceTypeCharacter \<Rightarrow> Some (0, st)
      | KernelFsDeviceTypeDirectory \<Rightarrow> Some (0, st)
      | KernelFsDeviceTypeNB \<Rightarrow> None)"

definition kernelFsFileWriteOffset ::
    "'w FsEnv \<Rightarrow> KernelFsFd \<Rightarrow> u32 \<Rightarrow> u8 list \<Rightarrow> 'w KernelFs \<Rightarrow> (u32 \<times> 'w KernelFs) option" where
  "kernelFsFileWriteOffset env fd offset data st =
     (if unat fd < KernelFsFdMax then
        (if kstrIsNull (fdtPath (fdEntry st fd)) then Some (0, st)
         else do {
           mode \<leftarrow> kernelFsGetFileMode st fd;
           if mode AND KernelFsFdModeWO = 0 then Some (0, st)
           else do {
             (i, isDevice) \<leftarrow> fdDevice st fd;
             let device = kfsDevices st ! i;
             if isDevice then writeDevice env device offset data st
             else do {
               (dirname, basename) \<leftarrow> kernelFsPathSplitStaticKStr (fdtPath (fdEntry st fd));
               if kernelFsGetDeviceFromPath st dirname = Some i
               then writeChild env device basename offset data st else None
             }
           }
         })
      else None)"

definition kernelFsFileWrite ::
    "'w FsEnv \<Rightarrow> KernelFsFd \<Rightarrow> u8 list \<Rightarrow> 'w KernelFs \<Rightarrow> (u32 \<times> 'w KernelFs) option" where
  "kernelFsFileWrite env fd data st = kernelFsFileWriteOffset env fd 0 data st"

definition kernelFsFileCanWrite :: "'w FsEnv \<Rightarrow> KernelFsFd \<Rightarrow> 'w KernelFs \<Rightarrow> bool option" where
  "kernelFsFileCanWrite env fd st =
     (if unat fd < KernelFsFdMax then
        (if kstrIsNull (fdtPath (fdEntry st fd)) then Some False
         else do {
           mode \<leftarrow> kernelFsGetFileMode st fd;
           if mode AND KernelFsFdModeWO = 0 then Some False
           else do {
             (i, isDevice) \<leftarrow> fdDevice st fd;
             let device = kfsDevices st ! i;
             if isDevice \<and> devType device = KernelFsDeviceTypeCharacter
             then kernelFsDeviceInvokeFunctorCharacterCanWrite env device st else Some True
           }
         })
      else None)"

definition kernelFsFileWriteByte ::
    "'w FsEnv \<Rightarrow> KernelFsFd \<Rightarrow> u32 \<Rightarrow> u8 \<Rightarrow> 'w KernelFs \<Rightarrow> (bool \<times> 'w KernelFs) option" where
  "kernelFsFileWriteByte env fd offset v st =
     map_option (\<lambda>(n, st). (n = 1, st)) (kernelFsFileWriteOffset env fd offset [v] st)"

definition kernelFsFileWriteWord ::
    "'w FsEnv \<Rightarrow> KernelFsFd \<Rightarrow> u32 \<Rightarrow> u16 \<Rightarrow> 'w KernelFs \<Rightarrow> (bool \<times> 'w KernelFs) option" where
  "kernelFsFileWriteWord env fd offset v st =
     map_option (\<lambda>(n, st). (n = 2, st)) (kernelFsFileWriteOffset env fd offset [hi8 v, lo8 v] st)"

definition kernelFsFileWriteDoubleWord ::
    "'w FsEnv \<Rightarrow> KernelFsFd \<Rightarrow> u32 \<Rightarrow> u32 \<Rightarrow> 'w KernelFs \<Rightarrow> (bool \<times> 'w KernelFs) option" where
  "kernelFsFileWriteDoubleWord env fd offset v st =
     map_option (\<lambda>(n, st). (n = 4, st)) (kernelFsFileWriteOffset env fd offset (be32_bytes v) st)"

definition kernelFsFdMiniFsReadWrapper ::
    "'w FsEnv \<Rightarrow> KernelFsFd \<Rightarrow> u16 \<Rightarrow> u16 \<Rightarrow> 'w KernelFs \<Rightarrow> (u8 list \<times> 'w KernelFs) option" where
  "kernelFsFdMiniFsReadWrapper env fd addr len st =
     (if fd = 0 then None else kernelFsFileReadOffset env fd (ucast addr) (ucast len) st)"

definition kernelFsFdMiniFsWriteWrapper ::
    "'w FsEnv \<Rightarrow> KernelFsFd \<Rightarrow> u16 \<Rightarrow> u8 list \<Rightarrow> 'w KernelFs \<Rightarrow> (u16 \<times> 'w KernelFs) option" where
  "kernelFsFdMiniFsWriteWrapper env fd addr data st =
     (if fd = 0 then None
      else map_option (\<lambda>(n, st). (ucast n, st)) (kernelFsFileWriteOffset env fd (ucast addr) data st))"

section \<open>Reading directories\<close>

text \<open>The caller's buffer has 64 bytes: a longer child path would overrun it.\<close>

definition childPathOk :: "cstr \<Rightarrow> cstr option" where
  "childPathOk p = (if length p < KernelFsPathMax then Some p else None)"

fun miniFsChildLoop :: "('w KernelFs) MiniFs \<Rightarrow> cstr \<Rightarrow> nat \<Rightarrow> nat list \<Rightarrow> cstr option option" where
  "miniFsChildLoop fs path childNum [] = Some None"
| "miniFsChildLoop fs path childNum (i # is) =
     (case miniFsGetChildN fs i of
        None \<Rightarrow> None
      | Some None \<Rightarrow> miniFsChildLoop fs path childNum is
      | Some (Some name) \<Rightarrow>
          (case childPathOk (path @ [chSlash] @ name) of
             None \<Rightarrow> None
           | Some p \<Rightarrow>
               if childNum = 0 then Some (Some p) else miniFsChildLoop fs path (childNum - 1) is))"

fun deviceChildLoop :: "KernelFsDevice list \<Rightarrow> cstr \<Rightarrow> nat \<Rightarrow> cstr option option" where
  "deviceChildLoop [] path childNum = Some None"
| "deviceChildLoop (child # rest) path childNum =
     (if devType child = KernelFsDeviceTypeNB then deviceChildLoop rest path childNum
      else case kernelFsDeviceIsChildOfPath child path of
        None \<Rightarrow> None
      | Some False \<Rightarrow> deviceChildLoop rest path childNum
      | Some True \<Rightarrow>
          if childNum = 0 then map_option Some (childPathOk (kstrBytes (devMountPoint child)))
          else deviceChildLoop rest path (childNum - 1))"

definition fatChild :: "'w FsEnv \<Rightarrow> 'w KernelFs \<Rightarrow> KernelFsDevice \<Rightarrow> cstr \<Rightarrow> cstr \<Rightarrow> nat \<Rightarrow> cstr option option" where
  "fatChild env st device path subPath childNum =
     do {
       mounted \<leftarrow> fatMountFast (kernelFsFatReadWrapper env device st);
       case mounted of
         None \<Rightarrow> Some None
       | Some fat \<Rightarrow> do {
           child \<leftarrow> fatDirGetChildN fat (kstrAllocStatic subPath) childNum;
           case child of
             None \<Rightarrow> Some None
           | Some name \<Rightarrow> map_option Some (childPathOk (path @ [chSlash] @ name))
         }
     }"

definition kernelFsDirectoryGetChild ::
    "'w FsEnv \<Rightarrow> KernelFsFd \<Rightarrow> nat \<Rightarrow> 'w KernelFs \<Rightarrow> cstr option option" where
  "kernelFsDirectoryGetChild env fd childNum st =
     (if unat fd < KernelFsFdMax then
        (if kstrIsNull (fdtPath (fdEntry st fd)) then Some None
         else do {
           mode \<leftarrow> kernelFsGetFileMode st fd;
           if mode AND KernelFsFdModeRO = 0 then Some None
           else do {
             (i, isDevice) \<leftarrow> fdDevice st fd;
             let device = kfsDevices st ! i;
             let path = kstrBytes (fdtPath (fdEntry st fd));
             case devType device of
               KernelFsDeviceTypeBlock \<Rightarrow>
                 (case devFormat device of
                    KernelFsBlockDeviceFormatCustomMiniFs \<Rightarrow>
                      (if isDevice
                       then miniFsChildLoop (deviceMiniFs env device st) path childNum [0..<MINIFSMAXFILES]
                       else Some None)
                  | KernelFsBlockDeviceFormatFlatFile \<Rightarrow> Some None
                  | KernelFsBlockDeviceFormatFat \<Rightarrow>
                      fatChild env st device path
                        (if isDevice then [] else fdSubPath st fd device) childNum
                  | KernelFsBlockDeviceFormatNB \<Rightarrow> None)
             | KernelFsDeviceTypeCharacter \<Rightarrow> Some None
             | KernelFsDeviceTypeDirectory \<Rightarrow>
                 (if isDevice then deviceChildLoop (kfsDevices st) path childNum else Some None)
             | KernelFsDeviceTypeNB \<Rightarrow> (if isDevice then Some None else None)
           }
         })
      else None)"

end
