(* ===== verification/FdTable.thy ===== *)
theory FdTable
  imports KernelFsFile
begin

text \<open>
  The descriptor table of \<open>src/kernel/kernelfs.c\<close> seen as a map from descriptors to a path, a
  mode and a reference count: opening, duplicating and closing are operations on that map as long
  as a slot is free and the mode is one of the three there are.
\<close>

section \<open>The table as a map\<close>

definition entryInfo :: "KernelFsFdtEntry \<Rightarrow> (cstr \<times> u8 \<times> nat) option" where
  "entryInfo e = (let p = fdtPath e in
     if kstrIsNull p then None
     else Some (kstrBytes p, kernelFsFdPathSpareGetMode (kstrSpare p),
       unat (kernelFsFdPathSpareGetRefCount (kstrSpare p))))"

definition fdInfo :: "'w KernelFs \<Rightarrow> KernelFsFd \<rightharpoonup> cstr \<times> u8 \<times> nat" where
  "fdInfo st fd = entryInfo (fdEntry st fd)"

definition fdtOk :: "'w KernelFs \<Rightarrow> bool" where
  "fdtOk st \<longleftrightarrow> length (kfsFdt st) = KernelFsFdMax \<and>
     (\<forall>fd p m r. unat fd < KernelFsFdMax \<longrightarrow> fdInfo st fd = Some (p, m, r) \<longrightarrow>
        0 < unat m \<and> unat m < 4 \<and> 0 < r \<and> r < 8)"

lemma fdtOk_length: "fdtOk st \<Longrightarrow> unat fd < KernelFsFdMax \<Longrightarrow> unat fd < length (kfsFdt st)"
  by (simp add: fdtOk_def)

lemma fdtOk_entry:
  "fdtOk st \<Longrightarrow> unat fd < KernelFsFdMax \<Longrightarrow> fdInfo st fd = Some (p, m, r) \<Longrightarrow>
   0 < unat m \<and> unat m < 4 \<and> 0 < r \<and> r < 8"
  by (simp add: fdtOk_def)

lemma fdEntry_update [simp]:
  "unat fd < length (kfsFdt st) \<Longrightarrow>
   fdEntry (fdUpdate fd f st) fd' = (if fd' = fd then f (fdEntry st fd) else fdEntry st fd')"
  by (simp add: fdEntry_def fdUpdate_def unat_eq_iff8)

lemma fdUpdate_simps [simp]:
  "length (kfsFdt (fdUpdate fd f st)) = length (kfsFdt st)"
  "kfsDevices (fdUpdate fd f st) = kfsDevices st" "kfsWorld (fdUpdate fd f st) = kfsWorld st"
  by (simp_all add: fdUpdate_def)

lemma fdInfo_update:
  "unat fd < length (kfsFdt st) \<Longrightarrow>
   fdInfo (fdUpdate fd f st) = (fdInfo st)(fd := entryInfo (f (fdEntry st fd)))"
  by (auto simp: fdInfo_def)

lemma fdtOk_update:
  assumes "fdtOk st" "unat fd < KernelFsFdMax" "fdInfo st' = (fdInfo st)(fd := x)"
    and "length (kfsFdt st') = length (kfsFdt st)"
    and "\<And>p m r. x = Some (p, m, r) \<Longrightarrow> 0 < unat m \<and> unat m < 4 \<and> 0 < r \<and> r < 8"
  shows "fdtOk st'"
  using assms unfolding fdtOk_def by simp

lemma word_unat_inverse: "of_nat (unat (w :: 'a :: len word)) = w"
  by simp

lemma setSpareField_simps [simp]:
  "kstrSpare (setSpareField v k) = v" "kstrBytes (setSpareField v k) = kstrBytes k"
  "kstrIsNull (setSpareField v k) = kstrIsNull k"
  by (cases k; simp)+

text \<open>Setting mode and count of an open descriptor.\<close>

lemma set_spare:
  assumes ok: "fdtOk st" and fd: "unat fd < KernelFsFdMax" and p: "\<not> kstrIsNull (fdtPath (fdEntry st fd))"
    and m: "0 < unat m" "unat m < 4" and r: "unat r < 8"
  obtains st' where "kernelFsSetFileSpare fd (kernelFsFdPathSpareMake m r) st = Some st'"
    "fdInfo st' = (fdInfo st)(fd \<mapsto> (kstrBytes (fdtPath (fdEntry st fd)), m, unat r))"
    "length (kfsFdt st') = length (kfsFdt st)"
    "fdEntry st' fd = (fdEntry st fd)\<lparr>fdtPath := setSpareField (kernelFsFdPathSpareMake m r) (fdtPath (fdEntry st fd))\<rparr>"
    "kfsDevices st' = kfsDevices st" "kfsWorld st' = kfsWorld st"
proof -
  let ?s = "kernelFsFdPathSpareMake m r"
  note sp = spare_round_trip [OF m r]
  have s32: "unat ?s < KStrSpareMax" using sp(3) m r by (simp add: KStrSpareMax_def KStrSpareBits_def)
  note l = fdtOk_length [OF ok fd]
  let ?st = "fdUpdate fd (\<lambda>e. e\<lparr>fdtPath := kstrSetSpare (fdtPath e) ?s\<rparr>) st"
  have "kernelFsSetFileSpare fd ?s st = Some ?st"
    using fd s32 p by (simp add: kernelFsSetFileSpare_def)
  moreover have "fdInfo ?st = (fdInfo st)(fd \<mapsto> (kstrBytes (fdtPath (fdEntry st fd)), m, unat r))"
    using s32 p by (simp add: fdInfo_update [OF l] entryInfo_def Let_def kstrSetSpare_def sp)
  moreover have "fdEntry ?st fd = (fdEntry st fd)\<lparr>fdtPath := setSpareField ?s (fdtPath (fdEntry st fd))\<rparr>"
    using l s32 by (simp add: kstrSetSpare_def)
  ultimately show ?thesis by (intro that [of ?st]) simp_all
qed

section \<open>Duplicating and closing\<close>

lemma FileDupe_spec:
  assumes ok: "fdtOk st" and fd: "unat fd < KernelFsFdMax"
  shows "case fdInfo st fd of
      None \<Rightarrow> kernelFsFileDupe fd st = Some (False, st)
    | Some (p, m, r) \<Rightarrow>
        if r < 7 then \<exists>st'. kernelFsFileDupe fd st = Some (True, st') \<and> fdtOk st' \<and>
          fdInfo st' = (fdInfo st)(fd \<mapsto> (p, m, r + 1))
        else kernelFsFileDupe fd st = Some (False, st)"
proof (cases "fdInfo st fd")
  case None
  then have "kstrIsNull (fdtPath (fdEntry st fd))"
    by (simp add: fdInfo_def entryInfo_def Let_def split: if_splits)
  then show ?thesis using None fd by (simp add: kernelFsFileDupe_def)
next
  case (Some x)
  obtain p m r where x: "x = (p, m, r)" by (cases x)
  let ?p = "fdtPath (fdEntry st fd)"
  have i: "\<not> kstrIsNull ?p" "p = kstrBytes ?p" "m = kernelFsFdPathSpareGetMode (kstrSpare ?p)"
    "r = unat (kernelFsFdPathSpareGetRefCount (kstrSpare ?p))"
    using Some unfolding x by (auto simp: fdInfo_def entryInfo_def Let_def split: if_splits)
  note b = fdtOk_entry [OF ok fd Some [unfolded x]]
  let ?c = "kernelFsFdPathSpareGetRefCount (kstrSpare ?p) + 1"
  have c: "unat ?c = r + 1" using b i(4) by (simp add: unat_word_ariths)
  have sp: "kernelFsGetFileSpare st fd = Some (kstrSpare ?p)"
    using fd i(1) by (simp add: kernelFsGetFileSpare_def kstrGetSpare_def)
  show ?thesis
  proof (cases "r < 7")
    case True
    then have r8: "unat ?c < 8" using c by simp
    obtain st' where s: "kernelFsSetFileSpare fd (kernelFsFdPathSpareMake m ?c) st = Some st'"
      "fdInfo st' = (fdInfo st)(fd \<mapsto> (kstrBytes ?p, m, unat ?c))"
      "length (kfsFdt st') = length (kfsFdt st)"
      using set_spare [OF ok fd i(1) _ _ r8, of m] b by blast
    have "kernelFsFileDupe fd st = Some (True, st')"
      using fd i(1) sp s(1) c True
      by (simp add: kernelFsFileDupe_def i(3) [symmetric] KernelFsFdRefCountMax_def
          KernelFsFdRefCountBits_def KStrSpareBits_def KernelFsFdModeBits_def)
    moreover have "fdtOk st'" using b True c by (intro fdtOk_update [OF ok fd s(2,3)]) auto
    ultimately show ?thesis using Some x True s(2) c i(2) by simp
  next
    case False
    then have "kernelFsFileDupe fd st = Some (False, st)"
      using fd i(1) sp c by (simp add: kernelFsFileDupe_def KernelFsFdRefCountMax_def
          KernelFsFdRefCountBits_def KStrSpareBits_def KernelFsFdModeBits_def)
    then show ?thesis using Some x False by simp
  qed
qed

lemma FileClose_spec:
  assumes ok: "fdtOk st" and fd: "unat fd < KernelFsFdMax"
  shows "case fdInfo st fd of
      None \<Rightarrow> kernelFsFileClose fd st = Some (0, st)
    | Some (p, m, r) \<Rightarrow> \<exists>st'. kernelFsFileClose fd st = Some (of_nat (r - 1), st') \<and> fdtOk st' \<and>
        fdInfo st' = (fdInfo st)(fd := (if r = 1 then None else Some (p, m, r - 1)))"
proof (cases "fdInfo st fd")
  case None
  then have "kstrIsNull (fdtPath (fdEntry st fd))"
    by (simp add: fdInfo_def entryInfo_def Let_def split: if_splits)
  then show ?thesis using None fd by (simp add: kernelFsFileClose_def)
next
  case (Some x)
  obtain p m r where x: "x = (p, m, r)" by (cases x)
  let ?p = "fdtPath (fdEntry st fd)"
  have i: "\<not> kstrIsNull ?p" "p = kstrBytes ?p" "m = kernelFsFdPathSpareGetMode (kstrSpare ?p)"
    "r = unat (kernelFsFdPathSpareGetRefCount (kstrSpare ?p))"
    using Some unfolding x by (auto simp: fdInfo_def entryInfo_def Let_def split: if_splits)
  note b = fdtOk_entry [OF ok fd Some [unfolded x]]
  let ?c = "kernelFsFdPathSpareGetRefCount (kstrSpare ?p) - 1"
  have c: "unat ?c = r - 1"
  proof -
    have "(1 :: u32) \<le> kernelFsFdPathSpareGetRefCount (kstrSpare ?p)"
      using b i(4) by (simp add: word_le_nat_alt)
    then show ?thesis using i(4) by (simp add: unat_sub)
  qed
  have r8: "unat ?c < 8" using c b by linarith
  have sp: "kernelFsGetFileSpare st fd = Some (kstrSpare ?p)"
    using fd i(1) by (simp add: kernelFsGetFileSpare_def kstrGetSpare_def)
  obtain st1 where s: "kernelFsSetFileSpare fd (kernelFsFdPathSpareMake m ?c) st = Some st1"
    "fdInfo st1 = (fdInfo st)(fd \<mapsto> (kstrBytes ?p, m, unat ?c))"
    "length (kfsFdt st1) = length (kfsFdt st)"
    using set_spare [OF ok fd i(1) _ _ r8, of m] b by blast
  have "of_nat (unat ?c) = ?c" by (rule word_unat_inverse)
  then have cn: "?c = of_nat (r - 1)" unfolding c by (rule sym)
  have cz: "?c = 0 \<longleftrightarrow> r = 1" using c b by (simp add: unat_eq_0 [symmetric] del: unat_eq_0) linarith
  let ?st2 = "fdUpdate fd (\<lambda>e. \<lparr>fdtPath = kstrFree (fdtPath e), fdtDeviceIndex = of_nat KernelFsDevicesMax\<rparr>) st1"
  have run: "kernelFsFileClose fd st = Some (?c, if ?c = 0 then ?st2 else st1)"
    using fd i(1) sp s(1) by (simp add: kernelFsFileClose_def i(3) [symmetric] Let_def)
  have l1: "unat fd < length (kfsFdt st1)" using fdtOk_length [OF ok fd] s(3) by simp
  show ?thesis
  proof (cases "r = 1")
    case True
    have f2: "fdInfo ?st2 = (fdInfo st)(fd := None)"
      unfolding fdInfo_update [OF l1] s(2) by (simp add: entryInfo_def kstrFree_def kstrNull_def)
    moreover have "fdtOk ?st2" by (rule fdtOk_update [OF ok fd f2]) (simp_all add: s(3))
    ultimately show ?thesis using run cz cn Some x True by auto
  next
    case False
    have "fdtOk st1" using b c False by (intro fdtOk_update [OF ok fd s(2,3)]) auto
    then show ?thesis using run cz cn Some x False s(2) c i(2) by auto
  qed
qed

section \<open>Opening\<close>

lemma lastFreeFd_cases:
  obtains (full) "lastFreeFd st = KernelFsFdInvalid"
      "\<And>i. 0 < i \<Longrightarrow> i < KernelFsFdMax \<Longrightarrow> \<not> kstrIsNull (fdtPath (kfsFdt st ! i))"
  | (free) fd where "lastFreeFd st = fd" "0 < unat fd" "unat fd < KernelFsFdMax"
      "kstrIsNull (fdtPath (fdEntry st fd))"
proof (cases "List.find (\<lambda>i. kstrIsNull (fdtPath (kfsFdt st ! i))) (rev [1..<KernelFsFdMax])")
  case None
  then have "lastFreeFd st = KernelFsFdInvalid" by (simp add: lastFreeFd_def)
  moreover have "\<not> kstrIsNull (fdtPath (kfsFdt st ! i))" if "0 < i" "i < KernelFsFdMax" for i
    using None that by (auto simp: find_None_iff)
  ultimately show ?thesis by (rule full)
next
  case (Some i)
  then have i: "0 < i" "i < KernelFsFdMax" "kstrIsNull (fdtPath (kfsFdt st ! i))"
    by (auto simp: find_Some_iff rev_nth dest!: nth_mem [where xs = "rev [1..<KernelFsFdMax]"])
  then have u: "unat (of_nat i :: u8) = i" by (simp add: unat_of_nat KernelFsFdMax_def)
  show ?thesis
    using Some i by (intro free [of "of_nat i"]) (simp_all add: lastFreeFd_def u fdEntry_def)
qed

lemma fd_valid: "unat KernelFsFdInvalid < KernelFsFdMax" "unat KernelFsFdInvalid = 0" "0 < KernelFsFdMax"
  by (simp_all add: KernelFsFdInvalid_def KernelFsFdMax_def)

lemma one_ref: "unat (1 :: u32) < 8"
  by simp

lemma openNewFd_spec:
  assumes ok: "fdtOk st" and m: "0 < unat mode" "unat mode < 4"
    and r: "openNewFd path mode st = Some (fd, st')"
  shows "fdtOk st' \<and> (fdInfo st' = (fdInfo st)(lastFreeFd st \<mapsto> (path, mode, 1)) \<and> fd = lastFreeFd st
    \<or> fdInfo st' = (fdInfo st)(lastFreeFd st := None) \<and> fd = KernelFsFdInvalid)"
proof -
  let ?fd = "lastFreeFd st"
  have fd: "unat ?fd < KernelFsFdMax"
    by (rule lastFreeFd_cases [of st]) (simp_all add: fd_valid)
  note l = fdtOk_length [OF ok fd]
  define st1 where "st1 = fdUpdate ?fd (\<lambda>e. e\<lparr>fdtPath := kstrAllocCopy path\<rparr>) st"
  have i1: "fdInfo st1 = (fdInfo st)(?fd := entryInfo ((fdEntry st ?fd)\<lparr>fdtPath := kstrAllocCopy path\<rparr>))"
    unfolding st1_def fdInfo_update [OF l] ..
  have l1: "length (kfsFdt st1) = length (kfsFdt st)" by (simp add: st1_def)
  have p1: "fdtPath (fdEntry st1 ?fd) = KStrTypeHeap 0 path" using l by (simp add: st1_def kstrAllocCopy_def)
  let ?s = "kernelFsFdPathSpareMake mode 1"
  note sp = spare_round_trip [OF m one_ref]
  have s32: "unat ?s < KStrSpareMax" using sp(3) m by (simp add: KStrSpareMax_def KStrSpareBits_def)
  define st2 where "st2 = fdUpdate ?fd (\<lambda>e. e\<lparr>fdtPath := kstrSetSpare (fdtPath e) ?s\<rparr>) st1"
  have l': "unat ?fd < length (kfsFdt st1)" using l l1 by simp
  have run2: "kernelFsSetFileSpare ?fd ?s st1 = Some st2"
    using fd s32 p1 by (simp add: kernelFsSetFileSpare_def st2_def)
  have i2: "fdInfo st2 = (fdInfo st)(?fd \<mapsto> (path, mode, 1))"
    unfolding st2_def fdInfo_update [OF l'] i1
    using s32 by (simp add: entryInfo_def p1 kstrSetSpare_def Let_def sp)
  have l2: "unat ?fd < length (kfsFdt st2)" "length (kfsFdt st2) = length (kfsFdt st)"
    using l l1 by (simp_all add: st2_def)
  have e: "entryInfo (fdEntry st2 ?fd) = Some (path, mode, 1)"
    using i2 unfolding fdInfo_def by (metis fun_upd_same)
  note run = r [unfolded openNewFd_def Let_def st1_def [symmetric] run2 bind.bind_lunit]
  show ?thesis
  proof (cases "kernelFsGetDeviceFromPathRecursive st2 path")
    case None
    then have st': "fd = KernelFsFdInvalid" "st' = fdUpdate ?fd (\<lambda>e. e\<lparr>fdtPath := kstrNull\<rparr>) st2"
      using run by simp_all
    have f: "fdInfo st' = (fdInfo st)(?fd := None)"
      unfolding st' fdInfo_update [OF l2(1)] i2 by (simp add: entryInfo_def kstrNull_def)
    moreover have "fdtOk st'" by (rule fdtOk_update [OF ok fd f]) (simp_all add: st'(2) l2(2))
    ultimately show ?thesis using st'(1) by blast
  next
    case (Some i)
    then have st': "fd = ?fd" "st' = fdUpdate ?fd
        (\<lambda>e. e\<lparr>fdtDeviceIndex := kernelFsGetDeviceIndexFromDevice (Some i)\<rparr>) st2"
      using run by auto
    have f: "fdInfo st' = (fdInfo st)(?fd \<mapsto> (path, mode, 1))"
      unfolding st' fdInfo_update [OF l2(1)] i2 using e by (simp add: entryInfo_def Let_def)
    moreover have "fdtOk st'" using m by (intro fdtOk_update [OF ok fd f]) (auto simp: st'(2) l2(2))
    ultimately show ?thesis using st'(1) by blast
  qed
qed

lemma fdUpdate_twice:
  "unat fd < length (kfsFdt st) \<Longrightarrow> fdUpdate fd f (fdUpdate fd g st) = fdUpdate fd (\<lambda>e. f (g e)) st"
  by (simp add: fdUpdate_def fdEntry_def)

lemma set_new_spare:
  assumes "unat fd < length (kfsFdt st)" "unat fd < KernelFsFdMax" "unat m < KStrSpareMax"
  shows "kernelFsSetFileSpare fd m (fdUpdate fd (\<lambda>e. e\<lparr>fdtPath := kstrAllocCopy path\<rparr>) st) =
    Some (fdUpdate fd (\<lambda>e. e\<lparr>fdtPath := kstrSetSpare (kstrAllocCopy path) m\<rparr>) st)"
  using assms by (simp add: kernelFsSetFileSpare_def fdUpdate_twice) (simp add: kstrAllocCopy_def)

definition fdTableFull :: "'w KernelFs \<Rightarrow> bool" where
  "fdTableFull st \<longleftrightarrow> (\<forall>fd. unat fd < KernelFsFdMax \<longrightarrow> fd \<noteq> KernelFsFdInvalid \<longrightarrow> fdInfo st fd \<noteq> None)"

lemma fdInfo_None: "fdInfo st fd = None \<longleftrightarrow> kstrIsNull (fdtPath (fdEntry st fd))"
  by (simp add: fdInfo_def entryInfo_def Let_def)

lemma lastFreeFd_full: "lastFreeFd st = KernelFsFdInvalid \<longleftrightarrow> fdTableFull st"
proof (rule lastFreeFd_cases [of st])
  assume f: "lastFreeFd st = KernelFsFdInvalid" "\<And>i. 0 < i \<Longrightarrow> i < KernelFsFdMax \<Longrightarrow> \<not> kstrIsNull (fdtPath (kfsFdt st ! i))"
  have "fdInfo st fd \<noteq> None" if "unat fd < KernelFsFdMax" "fd \<noteq> KernelFsFdInvalid" for fd
    using f(2) [of "unat fd"] that by (simp add: fdInfo_None fdEntry_def KernelFsFdInvalid_def unat_gt_0)
  then show ?thesis using f(1) by (simp add: fdTableFull_def)
next
  fix fd assume f: "lastFreeFd st = fd" "0 < unat fd" "unat fd < KernelFsFdMax" "kstrIsNull (fdtPath (fdEntry st fd))"
  then have "fd \<noteq> KernelFsFdInvalid" "fdInfo st fd = None" by (auto simp: fdInfo_None KernelFsFdInvalid_def)
  then show ?thesis using f(1,3) by (auto simp: fdTableFull_def)
qed

lemma fdmode_cases: "mode \<noteq> 4 \<Longrightarrow> \<not> (mode = KernelFsFdModeNone \<or> unat mode > KernelFsFdModeMax) \<Longrightarrow>
  0 < unat mode \<and> unat mode < 4"
  using word_unat_eq_iff [of mode 4] word_unat_eq_iff [of mode 0] by (auto simp: fdmode_consts)

lemma FileOpen_new:
  assumes "kernelFsFileOpen env path mode st = Some (fd, st')"
  shows "(fd, st') = (KernelFsFdInvalid, st) \<or> openNewFd path mode st = Some (fd, st') \<and>
    \<not> (mode = KernelFsFdModeNone \<or> unat mode > KernelFsFdModeMax) \<and>
    kernelFsPathIsValid path \<and> kernelFsFileExists env st path = Some True \<and>
    (kernelFsFileIsOpen st path \<longrightarrow> kernelFsFileCanOpenMany st path = Some True)"
  using assms by (auto simp: kernelFsFileOpen_def split: if_splits Option.bind_splits)

text \<open>C6: an open with any mode but 4 either returns a descriptor that was not in use and now stands for that
  path, that mode and one reference, which it only does for a valid path of an existing file that
  is not open or may be opened more than once; or it returns the invalid descriptor and the table is as it
  was, except that with no slot free the entry of the invalid descriptor may have been written.\<close>

theorem fd_open_refines:
  assumes ok: "fdtOk st" and m: "mode \<noteq> 4"
    and r: "kernelFsFileOpen env path mode st = Some (fd, st')"
  shows "if fd = KernelFsFdInvalid
    then fdInfo st' = fdInfo st \<or> fdTableFull st \<and> (\<exists>x. fdInfo st' = (fdInfo st)(KernelFsFdInvalid := x))
    else unat fd < KernelFsFdMax \<and> fdInfo st fd = None \<and> fdInfo st' = (fdInfo st)(fd \<mapsto> (path, mode, 1)) \<and>
      mode \<in> {KernelFsFdModeRO, KernelFsFdModeWO, KernelFsFdModeRW} \<and> kernelFsPathIsValid path \<and>
      kernelFsFileExists env st path = Some True \<and>
      (kernelFsFileIsOpen st path \<longrightarrow> kernelFsFileCanOpenMany st path = Some True)"
  using FileOpen_new [OF r]
proof
  assume "(fd, st') = (KernelFsFdInvalid, st)"
  then show ?thesis by simp
next
  assume new: "openNewFd path mode st = Some (fd, st') \<and>
    \<not> (mode = KernelFsFdModeNone \<or> unat mode > KernelFsFdModeMax) \<and>
    kernelFsPathIsValid path \<and> kernelFsFileExists env st path = Some True \<and>
    (kernelFsFileIsOpen st path \<longrightarrow> kernelFsFileCanOpenMany st path = Some True)"
  then have b: "0 < unat mode" "unat mode < 4" using fdmode_cases [OF m] by blast+
  then have "unat mode = 1 \<or> unat mode = 2 \<or> unat mode = 3" by linarith
  then have "mode \<in> {KernelFsFdModeRO, KernelFsFdModeWO, KernelFsFdModeRW}"
    by (auto simp: fdmode_consts unat_eq_iff8)
  moreover have "fdTableFull st \<or> unat (lastFreeFd st) < KernelFsFdMax \<and> fdInfo st (lastFreeFd st) = None \<and>
      lastFreeFd st \<noteq> KernelFsFdInvalid"
    using lastFreeFd_full [of st] by (cases rule: lastFreeFd_cases [of st]) (auto simp: fdInfo_None)
  ultimately show ?thesis
    using openNewFd_spec [OF ok b, of path fd st'] new lastFreeFd_full [of st] by (auto simp: fun_upd_idem)
qed

lemma FileOpen_ok:
  assumes ok: "fdtOk st" and m: "mode \<noteq> 4"
    and r: "kernelFsFileOpen env path mode st = Some (fd, st')"
  shows "fdtOk st'"
  using FileOpen_new [OF r] openNewFd_spec [OF ok, of mode path fd st'] fdmode_cases [OF m] ok by auto

section \<open>Sequences of operations\<close>

datatype FdOp = FdOpen cstr KernelFsFdMode | FdDupe KernelFsFd | FdClose KernelFsFd

fun fdOpOk :: "FdOp \<Rightarrow> bool" where
  "fdOpOk (FdOpen path mode) \<longleftrightarrow> mode \<noteq> 4"
| "fdOpOk (FdDupe fd) \<longleftrightarrow> unat fd < KernelFsFdMax"
| "fdOpOk (FdClose fd) \<longleftrightarrow> unat fd < KernelFsFdMax"

inductive fdStep :: "'w FsEnv \<Rightarrow> FdOp \<Rightarrow> 'w KernelFs \<Rightarrow> 'w KernelFs \<Rightarrow> bool" for env where
  fdStep_open: "kernelFsFileOpen env path mode st = Some (fd, st') \<Longrightarrow> fdStep env (FdOpen path mode) st st'"
| fdStep_dupe: "kernelFsFileDupe fd st = Some (b, st') \<Longrightarrow> fdStep env (FdDupe fd) st st'"
| fdStep_close: "kernelFsFileClose fd st = Some (n, st') \<Longrightarrow> fdStep env (FdClose fd) st st'"

inductive_cases fdStepE: "fdStep env op st st'"

inductive fdReach :: "'w FsEnv \<Rightarrow> 'w KernelFs \<Rightarrow> bool" for env where
  fdReach_init: "kfsFdt st = replicate KernelFsFdMax closedEntry \<Longrightarrow> fdReach env st"
| fdReach_step: "fdReach env st \<Longrightarrow> fdOpOk op \<Longrightarrow> fdStep env op st st' \<Longrightarrow> fdReach env st'"

lemma fdtOk_init:
  assumes "kfsFdt st = replicate KernelFsFdMax closedEntry"
  shows "fdtOk st"
proof -
  have "fdInfo st fd = None" if "unat fd < KernelFsFdMax" for fd
    using that assms
    by (simp add: fdInfo_def entryInfo_def fdEntry_def closedEntry_def kstrNull_def)
  then show ?thesis using assms by (auto simp: fdtOk_def)
qed

lemma fdStep_ok:
  assumes "fdStep env op st st'" "fdtOk st" "fdOpOk op"
  shows "fdtOk st'"
  using assms
proof (cases rule: fdStep.cases)
  case (fdStep_open path mode fd)
  then show ?thesis using assms FileOpen_ok by fastforce
next
  case (fdStep_dupe fd b)
  then have "unat fd < KernelFsFdMax" using assms(3) by simp
  from FileDupe_spec [OF assms(2) this] show ?thesis
    using fdStep_dupe assms(2) by (auto split: option.splits if_splits prod.splits)
next
  case (fdStep_close fd n)
  then have "unat fd < KernelFsFdMax" using assms(3) by simp
  from FileClose_spec [OF assms(2) this] show ?thesis
    using fdStep_close assms(2) by (auto split: option.splits prod.splits)
qed

text \<open>C7: from an empty table on, under any sequence of opens with any mode but 4, duplications and
  closes, every open descriptor has one of the three modes and between one and seven references, so
  neither field overflows its bits.\<close>

theorem fd_table_invariant:
  assumes "fdReach env st" "unat fd < KernelFsFdMax" "fdInfo st fd = Some (p, m, r)"
  shows "m \<in> {KernelFsFdModeRO, KernelFsFdModeWO, KernelFsFdModeRW} \<and> 1 \<le> r \<and> r \<le> 7"
proof -
  have ok: "fdtOk st" using assms(1) by (induction rule: fdReach.induct) (auto intro: fdtOk_init fdStep_ok)
  have b: "0 < unat m" "unat m < 4" "0 < r" "r < 8" using fdtOk_entry [OF ok assms(2,3)] by simp_all
  then have "unat m = 1 \<or> unat m = 2 \<or> unat m = 3" by linarith
  then show ?thesis using b by (auto simp: fdmode_consts unat_eq_iff8)
qed

section \<open>A file system with a root directory\<close>

definition exEnv :: "unit FsEnv" where
  "exEnv = \<lparr>fnFlush = \<lambda>f u st. Some (True, st), fnCharacterRead = \<lambda>f u st. Some (0, st),
     fnCharacterCanRead = \<lambda>f u st. Some False, fnCharacterWrite = \<lambda>f u data st. Some (0, st),
     fnCharacterCanWrite = \<lambda>f u st. Some False, fnBlockRead = \<lambda>f u st addr len. Some ([], st),
     fnBlockWrite = \<lambda>f u addr data st. Some (0, st),
     envIndet = \<lambda>_. 0\<rparr>"

definition exFs :: "unit KernelFs" where
  "exFs = (kernelFsInit ())\<lparr>kfsDevices := unusedDevice\<lparr>devMountPoint := KStrTypeStatic 0 [47],
     devType := KernelFsDeviceTypeDirectory, devWritable := True\<rparr> # replicate 127 unusedDevice\<rparr>"

lemma exFs_ok: "fdtOk exFs"
  by (rule fdtOk_init) (simp add: exFs_def kernelFsInit_def)

definition exOpen :: "unit KernelFs" where
  "exOpen = exFs\<lparr>kfsFdt := (kfsFdt exFs)[63 := \<lparr>fdtPath = KStrTypeHeap 5 [47], fdtDeviceIndex = 0\<rparr>]\<rparr>"

lemma exFs_open: "kernelFsFileOpen exEnv [47] KernelFsFdModeRO exFs = Some (63, exOpen)"
  by code_simp

lemma exOpen_info: "fdInfo exOpen 63 = Some ([47], KernelFsFdModeRO, 1)"
  by code_simp

theorem fd_open_refines_witness:
  "fdInfo exFs 63 = None \<and> fdInfo exOpen = (fdInfo exFs)(63 \<mapsto> ([47], KernelFsFdModeRO, 1))"
  using fd_open_refines [OF exFs_ok _ exFs_open] by (simp add: KernelFsFdInvalid_def fdmode_consts)

lemma exOpen_reach: "fdReach exEnv exOpen"
proof (rule fdReach_step [where op = "FdOpen [47] KernelFsFdModeRO"])
  show "fdReach exEnv exFs" by (rule fdReach_init) (simp add: exFs_def kernelFsInit_def)
  show "fdStep exEnv (FdOpen [47] KernelFsFdModeRO) exFs exOpen" by (rule fdStep_open [OF exFs_open])
qed code_simp

theorem fd_table_invariant_witness: "KernelFsFdModeRO \<in> {KernelFsFdModeRO, KernelFsFdModeWO, KernelFsFdModeRW} \<and> (1 :: nat) \<le> 1"
  using fd_table_invariant [OF exOpen_reach _ exOpen_info] by (simp add: KernelFsFdMax_def)

section \<open>Counting references\<close>

fun dupeN :: "nat \<Rightarrow> KernelFsFd \<Rightarrow> 'w KernelFs \<Rightarrow> 'w KernelFs option" where
  "dupeN 0 fd st = Some st"
| "dupeN (Suc n) fd st =
     (case kernelFsFileDupe fd st of Some (True, st') \<Rightarrow> dupeN n fd st' | _ \<Rightarrow> None)"

fun closeN :: "nat \<Rightarrow> KernelFsFd \<Rightarrow> 'w KernelFs \<Rightarrow> (u32 list \<times> 'w KernelFs) option" where
  "closeN 0 fd st = Some ([], st)"
| "closeN (Suc n) fd st =
     (case kernelFsFileClose fd st of
        None \<Rightarrow> None
      | Some (c, st') \<Rightarrow> map_option (\<lambda>(cs, st'). (c # cs, st')) (closeN n fd st'))"

lemma dupeN_spec:
  assumes "fdtOk st" "unat fd < KernelFsFdMax" "fdInfo st fd = Some (p, m, r)" "r + n \<le> 7"
  shows "\<exists>st'. dupeN n fd st = Some st' \<and> fdtOk st' \<and> fdInfo st' = (fdInfo st)(fd \<mapsto> (p, m, r + n))"
  using assms
proof (induction n arbitrary: st r)
  case (Suc n)
  then obtain st1 where 1: "kernelFsFileDupe fd st = Some (True, st1)" "fdtOk st1"
    "fdInfo st1 = (fdInfo st)(fd \<mapsto> (p, m, r + 1))"
    using FileDupe_spec [OF Suc.prems(1,2)] by auto
  then show ?case using Suc.IH [of st1 "r + 1"] Suc.prems by (auto intro!: ext)
qed (auto simp: fun_upd_idem)

lemma closeN_spec:
  assumes "fdtOk st" "unat fd < KernelFsFdMax" "fdInfo st fd = Some (p, m, n)" "0 < n"
  shows "\<exists>st'. closeN n fd st = Some (map of_nat (rev [0..<n]), st') \<and> fdInfo st' = (fdInfo st)(fd := None)"
  using assms
proof (induction n arbitrary: st)
  case (Suc n)
  obtain st1 where 1: "kernelFsFileClose fd st = Some (of_nat n, st1)" "fdtOk st1"
    "fdInfo st1 = (fdInfo st)(fd := (if Suc n = 1 then None else Some (p, m, n)))"
    using FileClose_spec [OF Suc.prems(1,2)] Suc.prems(3) by auto
  show ?case
  proof (cases "n = 0")
    case False
    then show ?thesis using 1 Suc.IH [of st1] Suc.prems by (auto intro!: ext)
  qed (use 1 in \<open>auto intro!: ext\<close>)
qed simp

text \<open>C8: a descriptor opened once can be duplicated up to six times, and is freed by exactly one
  close more than that: the counts returned run down to zero and only then is the slot free.\<close>

theorem fd_references_balance:
  assumes "fdtOk st" "unat fd < KernelFsFdMax" "fdInfo st fd = Some (p, m, 1)" "n \<le> 6"
  shows "\<exists>st1 st2. dupeN n fd st = Some st1 \<and> fdInfo st1 fd = Some (p, m, n + 1) \<and>
    closeN (n + 1) fd st1 = Some (map of_nat (rev [0..<n + 1]), st2) \<and> fdInfo st2 = (fdInfo st)(fd := None)"
proof -
  obtain st1 where 1: "dupeN n fd st = Some st1" "fdtOk st1" "fdInfo st1 = (fdInfo st)(fd \<mapsto> (p, m, 1 + n))"
    using dupeN_spec [OF assms(1-3), of n] assms(4) by auto
  have i: "fdInfo st1 fd = Some (p, m, n + 1)" using 1(3) by simp
  then show ?thesis using closeN_spec [OF 1(2) assms(2) i] 1 by (auto intro!: ext)
qed

lemma exOpen_ok: "fdtOk exOpen"
  using fdStep_ok [OF fdStep_open [OF exFs_open] exFs_ok] by (simp add: fdmode_consts)

theorem fd_references_balance_witness:
  "\<exists>st1 st2. dupeN 2 63 exOpen = Some st1 \<and> fdInfo st1 63 = Some ([47], KernelFsFdModeRO, 3) \<and>
    closeN 3 63 st1 = Some ([2, 1, 0], st2) \<and> fdInfo st2 63 = None"
  using fd_references_balance [OF exOpen_ok _ exOpen_info, of 2]
  by (auto simp: KernelFsFdMax_def numeral_3_eq_3 upt_rec)

section \<open>Access modes\<close>

text \<open>C9: a descriptor without the read bit reads nothing and one without the write bit writes
  nothing, whatever device or file is behind it.\<close>

theorem fd_mode_enforced:
  assumes "unat fd < KernelFsFdMax" "fdInfo st fd = Some (p, m, r)"
  shows "(m AND KernelFsFdModeRO = 0 \<longrightarrow> kernelFsFileReadOffset env fd off len st = Some ([], st)) \<and>
    (m AND KernelFsFdModeWO = 0 \<longrightarrow> kernelFsFileWriteOffset env fd off data st = Some (0, st))"
proof -
  have "\<not> kstrIsNull (fdtPath (fdEntry st fd))" "kernelFsGetFileMode st fd = Some m"
    using assms
    by (auto simp: fdInfo_def entryInfo_def Let_def kernelFsGetFileMode_def kernelFsGetFileSpare_def
        kstrGetSpare_def split: if_splits)
  then show ?thesis using assms(1) by (simp add: kernelFsFileReadOffset_def kernelFsFileWriteOffset_def)
qed

theorem fd_mode_enforced_witness:
  "kernelFsFileWriteOffset exEnv 63 0 [1, 2] exOpen = Some (0, exOpen)"
proof -
  have "KernelFsFdModeRO AND KernelFsFdModeWO = 0" by code_simp
  then show ?thesis using fd_mode_enforced [OF _ exOpen_info] by (simp add: KernelFsFdMax_def)
qed

section \<open>Where the table breaks\<close>

definition exFull :: "unit KernelFs" where
  "exFull = exFs\<lparr>kfsFdt := closedEntry # replicate 63 \<lparr>fdtPath = KStrTypeHeap 5 [47], fdtDeviceIndex = 0\<rparr>\<rparr>"

lemma exFull_ok: "fdtOk exFull" "fdTableFull exFull"
proof -
  have e: "fdInfo exFull fd = (if unat fd = 0 then None else Some ([47], KernelFsFdModeRO, 1))"
    if "unat fd < KernelFsFdMax" for fd
  proof (cases "unat fd")
    case 0
    then show ?thesis by (simp add: fdInfo_def entryInfo_def fdEntry_def exFull_def closedEntry_def kstrNull_def)
  next
    case (Suc n)
    have "entryInfo \<lparr>fdtPath = KStrTypeHeap 5 [47], fdtDeviceIndex = 0\<rparr> = Some ([47], KernelFsFdModeRO, 1)"
      by code_simp
    then show ?thesis using that Suc by (simp add: fdInfo_def fdEntry_def exFull_def KernelFsFdMax_def)
  qed
  then show "fdTableFull exFull" by (auto simp: fdTableFull_def KernelFsFdInvalid_def unat_eq_0)
  show "fdtOk exFull" unfolding fdtOk_def
    using e by (auto simp: exFull_def KernelFsFdMax_def fdmode_consts split: if_splits)
qed



lemma close_mode0:
  assumes "unat fd < KernelFsFdMax" "\<not> kstrIsNull (fdtPath (fdEntry st fd))" "kstrSpare (fdtPath (fdEntry st fd)) = 0"
  shows "kernelFsFileClose fd st = Some (-1, st)"
proof -
  have s: "kernelFsGetFileSpare st fd = Some 0"
    using assms by (simp add: kernelFsGetFileSpare_def kstrGetSpare_def)
  have c: "kernelFsFdPathSpareGetRefCount 0 = 0" "kernelFsFdPathSpareGetMode 0 = 0"
    by (simp_all add: kernelFsFdPathSpareGetRefCount_def kernelFsFdPathSpareGetMode_def)
  have z: "kernelFsFdPathSpareMake 0 x = 0" for x
    by (simp add: kernelFsFdPathSpareMake_def KernelFsFdModeNone_def)
  have k: "kstrSetSpare p 0 = p" if "kstrSpare p = 0" for p
    using that by (cases p) (simp_all add: kstrSetSpare_def KStrSpareMax_def)
  have "fdUpdate fd (\<lambda>e. e\<lparr>fdtPath := kstrSetSpare (fdtPath e) 0\<rparr>) st = st"
    using assms by (simp add: fdUpdate_def k fdEntry_def)
  then have "kernelFsSetFileSpare fd 0 st = Some st"
    using assms by (simp add: kernelFsSetFileSpare_def KStrSpareMax_def)
  then show ?thesis using assms s by (simp add: kernelFsFileClose_def c z Let_def)
qed

text \<open>C34: mode 4 passes the check of the mode but does not fit the two bits kept for it: whenever a file could
  be opened for reading and writing, it can be opened with mode 4, and gets the same descriptor, which has
  neither a mode nor a reference and is not closed by a close, which changes nothing.\<close>

theorem fd_mode4_never_closes:
  assumes ok: "fdtOk st" and rw: "kernelFsFileOpen env path KernelFsFdModeRW st = Some (fd, st1)"
    and fd: "fd \<noteq> KernelFsFdInvalid"
  shows "\<exists>st'. kernelFsFileOpen env path 4 st = Some (fd, st') \<and>
    fdInfo st' fd = Some (path, KernelFsFdModeNone, 0) \<and> kernelFsFileClose fd st' = Some (-1, st')"
proof -
  let ?fd = "lastFreeFd st"
  have bound: "unat ?fd < KernelFsFdMax" by (rule lastFreeFd_cases [of st]) (simp_all add: fd_valid)
  note l = fdtOk_length [OF ok bound]
  have new: "openNewFd path KernelFsFdModeRW st = Some (fd, st1)" and checks: "kernelFsPathIsValid path"
    "kernelFsFileExists env st path = Some True"
    "kernelFsFileIsOpen st path \<longrightarrow> kernelFsFileCanOpenMany st path = Some True"
    using FileOpen_new [OF rw] fd by auto
  have open4: "kernelFsFileOpen env path 4 st = openNewFd path 4 st"
    using checks by (auto simp: kernelFsFileOpen_def fdmode_consts)
  define s where "s m = fdUpdate ?fd (\<lambda>e. e\<lparr>fdtPath := kstrSetSpare (kstrAllocCopy path) m\<rparr>) st" for m
  note set = set_new_spare [OF l bound]
  have spare: "kernelFsFdPathSpareMake 4 1 = 0" "unat (kernelFsFdPathSpareMake KernelFsFdModeRW 1) < KStrSpareMax"
    "unat (0 :: u8) < KStrSpareMax"
    by (simp_all add: kernelFsFdPathSpareMake_def fdmode_consts KStrSpareMax_def KStrSpareBits_def
        KernelFsFdModeBits_def)
  obtain i where i: "kernelFsGetDeviceFromPathRecursive st path = Some i" and f: "fd = ?fd"
    using new fd unfolding openNewFd_def Let_def set [OF spare(2)] bind.bind_lunit
    by (auto simp: kernelFsGetDeviceFromPathRecursive_def s_def split: option.splits)
  define st' where "st' = fdUpdate ?fd (\<lambda>e. e\<lparr>fdtDeviceIndex := kernelFsGetDeviceIndexFromDevice (Some i)\<rparr>) (s 0)"
  have "kernelFsGetDeviceFromPathRecursive (s 0) path = Some i"
    using i by (simp add: kernelFsGetDeviceFromPathRecursive_def s_def)
  then have run: "openNewFd path 4 st = Some (fd, st')"
    unfolding openNewFd_def Let_def spare(1) set [OF spare(3)] bind.bind_lunit by (simp add: f st'_def s_def)
  have e: "fdtPath (fdEntry st' fd) = KStrTypeHeap 0 path"
    using l by (simp add: st'_def f s_def kstrAllocCopy_def kstrSetSpare_def KStrSpareMax_def)
  have "kernelFsFileClose fd st' = Some (-1, st')"
    by (rule close_mode0) (use bound in \<open>simp_all add: e, simp_all add: f\<close>)
  moreover have "fdInfo st' fd = Some (path, KernelFsFdModeNone, 0)"
    using e by (simp add: fdInfo_def entryInfo_def kernelFsFdPathSpareGetRefCount_def
        kernelFsFdPathSpareGetMode_def KernelFsFdModeNone_def)
  ultimately show ?thesis using open4 run by simp
qed

theorem fd_mode4_never_closes_witness:
  "\<exists>st'. kernelFsFileOpen exEnv [47] 4 exFs = Some (63, st') \<and> fdInfo st' 63 = Some ([47], KernelFsFdModeNone, 0) \<and>
     kernelFsFileClose 63 st' = Some (-1, st')"
proof -
  have "map_option fst (kernelFsFileOpen exEnv [47] KernelFsFdModeRW exFs) = Some 63" by code_simp
  then obtain st1 where "kernelFsFileOpen exEnv [47] KernelFsFdModeRW exFs = Some (63, st1)" by auto
  from fd_mode4_never_closes [OF exFs_ok this] show ?thesis by (simp add: KernelFsFdInvalid_def)
qed

end
