(* ===== verification/PathProps.thy ===== *)
theory PathProps
  imports KernelFsPath "HOL-Library.Sublist"
begin

text \<open>
  What the path functions of \<open>src/kernel/kernelfs.c\<close> compute: the split at the last slash,
  and the normal form, on the C string a buffer holds. \<open>sublist\<close> is the library's notion of a
  contiguous part.
\<close>

section \<open>Splitting\<close>

lemma upt_split:
  assumes "n < m"
  shows "[0..<m] = [0..<n] @ n # [Suc n..<m]"
proof -
  have "[0..<m] = [0..<n] @ [n..<m]" using assms upt_add_eq_append [of 0 n "m - n"] by simp
  then show ?thesis using assms by (simp add: upt_conv_Cons)
qed

lemma find_skip: "list_all (\<lambda>x. \<not> P x) xs \<Longrightarrow> P y \<Longrightarrow> List.find P (xs @ y # ys) = Some y"
  by (induction xs) simp_all

lemma lastIndex_cases:
  "(lastIndex b s = None \<and> b \<notin> set s) \<or>
   (\<exists>i. lastIndex b s = Some i \<and> i < length s \<and> s ! i = b \<and> b \<notin> set (drop (Suc i) s))"
proof (cases "b \<in> set s")
  case False
  then have "lastIndex b s = None" by (auto simp: lastIndex_def find_None_iff in_set_conv_nth)
  then show ?thesis using False by simp
next
  case True
  obtain xs ys where s: "s = xs @ b # ys" "b \<notin> set ys" using split_list_last [OF True] by blast
  have r: "rev [0..<length s] = rev [Suc (length xs)..<length s] @ length xs # rev [0..<length xs]"
    using upt_split [of "length xs" "length s"] s(1) by simp
  have "s ! i \<noteq> b" if "Suc (length xs) \<le> i" "i < length s" for i
  proof -
    have "i - Suc (length xs) < length ys" using that s(1) by simp
    moreover have "s ! i = ys ! (i - Suc (length xs))" using that s(1) by (simp add: nth_append nth_Cons')
    ultimately show ?thesis using s(2) by (metis nth_mem)
  qed
  then have "list_all (\<lambda>i. s ! i \<noteq> b) (rev [Suc (length xs)..<length s])" by (auto simp: list_all_iff)
  then have "List.find (\<lambda>i. s ! i = b) (rev [Suc (length xs)..<length s] @ length xs # rev [0..<length xs]) = Some (length xs)"
    using s(1) by (intro find_skip) simp_all
  then have "lastIndex b s = Some (length xs)" unfolding lastIndex_def r .
  then show ?thesis using s by (intro disjI2 exI [of _ "length xs"]) simp
qed

text \<open>C40: Every valid path splits at its last slash: the directory, the slash and the name are the
  path again, and the name has no slash.\<close>

theorem path_split_joins:
  assumes "kernelFsPathIsValid path"
  shows "\<exists>dirname basename. kernelFsPathSplit path = Some (dirname, basename) \<and>
    path = dirname @ [chSlash] @ basename \<and> chSlash \<notin> set basename"
proof -
  have "path ! 0 = chSlash" "path \<noteq> []"
    using assms by (auto simp: kernelFsPathIsValid_def charAt_def split: if_splits)
  then have "chSlash \<in> set path" by (metis nth_mem length_greater_0_conv)
  then obtain i where "lastIndex chSlash path = Some i" "i < length path" "path ! i = chSlash"
    "chSlash \<notin> set (drop (Suc i) path)"
    using lastIndex_cases [of chSlash path] by auto
  then have "kernelFsPathSplit path = Some (take i path, drop (Suc i) path) \<and>
    path = take i path @ [chSlash] @ drop (Suc i) path \<and> chSlash \<notin> set (drop (Suc i) path)"
    using assms id_take_nth_drop [of i path] by (simp add: kernelFsPathSplit_def)
  then show ?thesis by blast
qed

theorem path_split_joins_witness:
  "kernelFsPathSplit [47, 97, 47, 98] = Some ([47, 97], [98])"
proof -
  have "kernelFsPathIsValid [47, 97, 47, 98]" by code_simp
  from path_split_joins [OF this] obtain d b where
    k: "kernelFsPathSplit [47, 97, 47, 98] = Some (d, b)" "[47, 97, 47, 98] = d @ [47] @ b" "47 \<notin> set b"
    by auto
  have "d = [47, 97] \<and> b = [98]"
    using k(2,3) by (auto simp: Cons_eq_append_conv)
  then show ?thesis using k(1) by simp
qed

section \<open>The string in a buffer\<close>

lemma takeWhile_drop:
  "k \<le> length (takeWhile P xs) \<Longrightarrow> takeWhile P (drop k xs) = drop k (takeWhile P xs)"
proof (induction xs arbitrary: k)
  case (Cons x xs)
  then show ?case by (cases k) (auto split: if_splits)
qed simp

lemma cstrFrom_drop: "k \<le> length (cstrFrom buf 0) \<Longrightarrow> cstrFrom buf k = drop k (cstrFrom buf 0)"
  by (simp add: cstrFrom_def takeWhile_drop)

lemma take_drop_sublist:
  "take (length pat) (drop k s) = pat \<Longrightarrow> sublist pat s"
  unfolding sublist_def by (metis append_take_drop_id)

lemma strstr_None:
  assumes "strstrFrom buf 0 pat = None" "pat \<noteq> []"
  shows "\<not> sublist pat (cstrFrom buf 0)"
proof
  let ?s = "cstrFrom buf 0"
  assume "sublist pat ?s"
  then obtain ps ss where s: "?s = ps @ pat @ ss" by (auto simp: sublist_def)
  then have k: "length ps < length ?s" using assms(2) by simp
  then have "take (length pat) (cstrFrom buf (length ps)) = pat"
    using cstrFrom_drop [of "length ps" buf] s by simp
  then show False using assms(1) k by (auto simp: strstrFrom_def find_None_iff)
qed

lemma strstr_Some:
  assumes "strstrFrom buf 0 pat = Some c"
  shows "c < length (cstrFrom buf 0)" "take (length pat) (drop c (cstrFrom buf 0)) = pat"
proof -
  have "c \<in> set [0..<length (cstrFrom buf 0)]" and m: "take (length pat) (cstrFrom buf c) = pat"
    using assms by (auto simp: strstrFrom_def find_Some_iff)
  then show c: "c < length (cstrFrom buf 0)" by simp
  show "take (length pat) (drop c (cstrFrom buf 0)) = pat"
    using m cstrFrom_drop [of c buf] c by simp
qed

text \<open>A buffer holds a terminated string.\<close>

definition terminated :: "u8 list \<Rightarrow> bool" where
  "terminated buf \<longleftrightarrow> 0 \<in> set buf"

lemma buffer_split:
  assumes "terminated buf"
  obtains rest where "buf = cstrFrom buf 0 @ 0 # rest" "0 \<notin> set (cstrFrom buf 0)"
proof -
  obtain xs ys where b: "buf = xs @ 0 # ys" "0 \<notin> set xs"
    using split_list_first [of 0 buf] assms by (auto simp: terminated_def)
  have "cstrFrom buf 0 = xs"
    unfolding cstrFrom_def b(1) using b(2) by (auto simp: list_all_iff intro: takeWhile_append_stop)
  then show ?thesis using b that by blast
qed

lemma cstrFrom_append: "0 \<notin> set s \<Longrightarrow> cstrFrom (s @ 0 # rest) 0 = s"
  by (auto simp: cstrFrom_def list_all_iff intro: takeWhile_append_stop)

text \<open>Cutting out a part of the string by moving the rest down.\<close>

lemma cut_string:
  assumes t: "terminated buf" and c: "c + n \<le> length (cstrFrom buf 0)"
  defines "buf' \<equiv> memmoveBuf buf c (c + n) (length (cstrFrom buf (c + n)) + 1)"
  shows "terminated buf' \<and> cstrFrom buf' 0 = take c (cstrFrom buf 0) @ drop (c + n) (cstrFrom buf 0)"
proof -
  define s where "s = cstrFrom buf 0"
  obtain rest where b: "buf = s @ 0 # rest" "0 \<notin> set s"
    using buffer_split [OF t] unfolding s_def by blast
  have l: "cstrFrom buf (c + n) = drop (c + n) s" using c cstrFrom_drop unfolding s_def by blast
  have cs: "c + n \<le> length s" using c by (simp add: s_def)
  have "take (length s - (c + n) + 1) (drop (c + n) (s @ 0 # rest)) = drop (c + n) s @ [0]"
    using cs by simp
  moreover have "take c (s @ 0 # rest) = take c s" using cs by simp
  ultimately have e: "buf' = (take c s @ drop (c + n) s) @ 0 # drop (c + (length s - (c + n) + 1)) (s @ 0 # rest)"
    using l unfolding buf'_def memmoveBuf_def b(1) by simp
  have "0 \<notin> set (take c s @ drop (c + n) s)"
    using b(2) by (auto dest: in_set_takeD in_set_dropD)
  from cstrFrom_append [OF this] show ?thesis
    unfolding s_def [symmetric] e by (simp add: terminated_def)
qed

section \<open>Normalising\<close>

definition cleanPath :: "cstr \<Rightarrow> bool" where
  "cleanPath s \<longleftrightarrow> \<not> sublist [chSlash, chSlash] s \<and> \<not> sublist [chSlash, chDot, chSlash] s"

abbreviation noParent :: "cstr \<Rightarrow> bool" where
  "noParent s \<equiv> \<not> sublist [chSlash, chDot, chDot] s"

lemma noParent_cut:
  assumes "noParent (x @ z @ y)" "y = chSlash # y'"
  shows "noParent (x @ y)"
proof
  assume "sublist [chSlash, chDot, chDot] (x @ y)"
  moreover have "\<not> sublist [chSlash, chDot, chDot] x" "\<not> sublist [chSlash, chDot, chDot] y"
    using assms(1) by (auto simp: sublist_append)
  ultimately obtain p q where pq: "[chSlash, chDot, chDot] = p @ q" "suffix p x" "prefix q y"
    by (auto simp: sublist_append)
  show False
  proof (cases p)
    case Nil
    then show ?thesis using pq(1,3) \<open>\<not> sublist [chSlash, chDot, chDot] y\<close> by auto
  next
    case (Cons a p')
    show ?thesis
    proof (cases q)
      case Nil
      then show ?thesis using pq(1,2) \<open>\<not> sublist [chSlash, chDot, chDot] x\<close> by auto
    next
      case (Cons c q')
      then have "c = chSlash" using pq(3) assms(2) by simp
      moreover have "c = chDot"
        using pq(1) Cons \<open>p = a # p'\<close> by (cases p') (auto simp: Cons_eq_append_conv)
      ultimately show False by simp
    qed
  qed
qed

text \<open>One replacement: either the pattern does not occur, or the string gets shorter and starts no
  new component with two dots.\<close>

lemma squeeze_cases:
  assumes t: "terminated buf" and pat: "n < length pat" "0 < n" "pat ! n = chSlash"
  shows "(squeeze pat n (buf, ch) = (buf, ch) \<and> \<not> sublist pat (cstrFrom buf 0)) \<or>
    (\<exists>buf'. squeeze pat n (buf, ch) = (buf', True) \<and> terminated buf' \<and>
       length (cstrFrom buf' 0) < length (cstrFrom buf 0) \<and> cstrFrom buf' 0 \<noteq> [] \<and>
       (noParent (cstrFrom buf 0) \<longrightarrow> noParent (cstrFrom buf' 0)))"
proof (cases "strstrFrom buf 0 pat")
  case None
  moreover have "pat \<noteq> []" using pat(1) by auto
  ultimately show ?thesis using strstr_None by (simp add: squeeze_def)
next
  case (Some c)
  let ?s = "cstrFrom buf 0"
  note m = strstr_Some [OF Some]
  have "length pat \<le> length (drop c ?s)" using m(2) by (metis length_take min.cobounded1)
  then have cn: "c + n < length ?s" using pat(1) by simp
  have at: "?s ! (c + n) = chSlash"
  proof -
    have "take (length pat) (drop c ?s) ! n = drop c ?s ! n" using pat(1) by simp
    then show ?thesis using m(2) pat(3) cn by simp
  qed
  define buf' where "buf' = memmoveBuf buf c (c + n) (length (cstrFrom buf (c + n)) + 1)"
  have q: "squeeze pat n (buf, ch) = (buf', True)" using Some by (simp add: squeeze_def buf'_def)
  have c: "terminated buf'" "cstrFrom buf' 0 = take c ?s @ drop (c + n) ?s"
    using cut_string [OF t, of c n] cn unfolding buf'_def by simp_all
  have y: "drop (c + n) ?s = chSlash # drop (Suc (c + n)) ?s"
    using cn at by (metis Cons_nth_drop_Suc)
  have s: "?s = take c ?s @ take n (drop c ?s) @ drop (c + n) ?s"
    by (metis append_take_drop_id drop_drop add.commute)
  have "noParent ?s \<longrightarrow> noParent (cstrFrom buf' 0)"
    unfolding c(2) using noParent_cut [OF _ y, of "take c ?s" "take n (drop c ?s)"] s by simp
  moreover have "length (cstrFrom buf' 0) < length ?s" using cn pat(2) unfolding c(2) by simp
  moreover have "cstrFrom buf' 0 \<noteq> []" unfolding c(2) y by simp
  ultimately show ?thesis using q c(1) by blast
qed

lemma parentLoop_none:
  assumes "noParent (cstrFrom buf 0)"
  shows "parentLoop buf 0 ch = Some (buf, ch)"
proof -
  have "strstrFrom buf 0 [chSlash, chDot, chDot] = None"
  proof (rule ccontr)
    assume "strstrFrom buf 0 [chSlash, chDot, chDot] \<noteq> None"
    then obtain c where "strstrFrom buf 0 [chSlash, chDot, chDot] = Some c" by blast
    from take_drop_sublist [OF strstr_Some(2) [OF this]] show False using assms by simp
  qed
  then show ?thesis by (simp add: parentLoop.simps)
qed

lemma normaliseLoop_total:
  assumes "terminated buf" "noParent (cstrFrom buf 0)" "cstrFrom buf 0 \<noteq> []"
  shows "\<exists>buf'. normaliseLoop buf = Some buf' \<and> terminated buf' \<and> cleanPath (cstrFrom buf' 0) \<and> cstrFrom buf' 0 \<noteq> []"
  using assms
proof (induction "length (cstrFrom buf 0)" arbitrary: buf rule: less_induct)
  case less
  let ?a = "squeeze [chSlash, chDot, chSlash] 2 (buf, False)"
  have run: "normaliseLoop buf = (case squeeze [chSlash, chSlash] 1 ?a of
      (buf', change) \<Rightarrow> if change then normaliseLoop buf' else Some buf')"
    by (subst normaliseLoop.simps) (simp add: parentLoop_none [OF less.prems(2)])
  note A = squeeze_cases [OF less.prems(1), of 2 "[chSlash, chDot, chSlash]" False]
  show ?case
  proof (cases "?a = (buf, False) \<and> \<not> sublist [chSlash, chDot, chSlash] (cstrFrom buf 0)")
    case True
    note B = squeeze_cases [OF less.prems(1), of 1 "[chSlash, chSlash]" False]
    show ?thesis
    proof (cases "squeeze [chSlash, chSlash] 1 (buf, False) = (buf, False) \<and> \<not> sublist [chSlash, chSlash] (cstrFrom buf 0)")
      case clean: True
      then show ?thesis using run True less.prems by (auto simp: cleanPath_def)
    next
      case False
      then obtain buf' where b: "squeeze [chSlash, chSlash] 1 (buf, False) = (buf', True)" "terminated buf'"
        "length (cstrFrom buf' 0) < length (cstrFrom buf 0)" "cstrFrom buf' 0 \<noteq> []" "noParent (cstrFrom buf' 0)"
        using B less.prems(2) by auto
      show ?thesis using run True b(1) less.hyps [OF b(3,2,5,4)] by simp
    qed
  next
    case False
    then obtain buf1 where b: "?a = (buf1, True)" "terminated buf1"
      "length (cstrFrom buf1 0) < length (cstrFrom buf 0)" "cstrFrom buf1 0 \<noteq> []" "noParent (cstrFrom buf1 0)"
      using A less.prems(2) by auto
    from squeeze_cases [OF b(2), of 1 "[chSlash, chSlash]" True]
    obtain buf2 where c: "squeeze [chSlash, chSlash] 1 (buf1, True) = (buf2, True)" "terminated buf2"
      "length (cstrFrom buf2 0) < length (cstrFrom buf 0)" "cstrFrom buf2 0 \<noteq> []" "noParent (cstrFrom buf2 0)"
      using b by fastforce
    show ?thesis using run b(1) c(1) less.hyps [OF c(3,2,5,4)] by simp
  qed
qed

lemma cleanPath_butlast: "cleanPath s \<Longrightarrow> cleanPath (butlast s)"
proof -
  have "sublist (butlast s) s" by (simp add: sublist_butlast)
  then show "cleanPath s \<Longrightarrow> cleanPath (butlast s)"
    unfolding cleanPath_def by (meson sublist_order.order_trans)
qed

text \<open>C31: on a path without a component that starts with two dots normalising returns a path that is not
  empty, has no two slashes in a row and no single dot between slashes, and ends in a slash only if it is the
  root; a single dot at the very end is kept.\<close>

theorem normalise_terminates_clean:
  assumes "0 \<notin> set s" "s \<noteq> []" "noParent s"
  shows "\<exists>r. normalisePath s = Some r \<and> cleanPath r \<and> r \<noteq> [] \<and> (r = [chSlash] \<or> last r \<noteq> chSlash)"
proof -
  have c: "cstrFrom (s @ [0]) 0 = s" "terminated (s @ [0])"
    using cstrFrom_append [OF assms(1), of "[]"] by (simp_all add: terminated_def)
  then obtain buf where b: "normaliseLoop (s @ [0]) = Some buf" "terminated buf"
    "cleanPath (cstrFrom buf 0)" "cstrFrom buf 0 \<noteq> []"
    using normaliseLoop_total [of "s @ [0]"] assms by auto
  let ?r = "cstrFrom buf 0"
  obtain rest where buf: "buf = ?r @ 0 # rest" "0 \<notin> set ?r" using buffer_split [OF b(2)] by blast
  show ?thesis
  proof (cases "?r \<noteq> [chSlash] \<and> last ?r = chSlash")
    case False
    then have "kernelFsPathNormalise (s @ [0]) = Some buf"
      using b(1,4) by (auto simp: kernelFsPathNormalise_def Let_def last_conv_nth)
    then show ?thesis using b False by (intro exI [of _ ?r]) (auto simp: normalisePath_def)
  next
    case True
    have r: "?r = butlast ?r @ [chSlash]" using True b(4) by (metis append_butlast_last_id)
    have "buf[length ?r - 1 := 0] = butlast ?r @ 0 # 0 # rest"
      by (subst (1) buf(1), subst (1) r) (simp add: list_update_append)
    then have n: "kernelFsPathNormalise (s @ [0]) = Some (butlast ?r @ 0 # 0 # rest)"
      using b(1,4) True by (simp add: kernelFsPathNormalise_def Let_def last_conv_nth)
    have z: "0 \<notin> set (butlast ?r)" using buf(2) by (auto dest: in_set_butlastD)
    have "normalisePath s = Some (butlast ?r)"
      unfolding normalisePath_def n option.map cstrFrom_append [OF z] ..
    moreover have ne: "butlast ?r \<noteq> []" using True r by auto
    moreover have "last (butlast ?r) \<noteq> chSlash"
    proof
      assume "last (butlast ?r) = chSlash"
      then have "?r = butlast (butlast ?r) @ [chSlash, chSlash] @ []"
        using r append_butlast_last_id [OF ne] by (metis append.assoc append_Cons append_Nil append_Nil2)
      then have "sublist [chSlash, chSlash] ?r" unfolding sublist_def by blast
      then show False using b(3) by (simp add: cleanPath_def)
    qed
    ultimately show ?thesis using cleanPath_butlast [OF b(3)] by blast
  qed
qed

theorem normalise_terminates_clean_witness:
  "\<exists>r. normalisePath [47, 97, 47, 47, 46, 47, 98, 47] = Some r \<and> cleanPath r"
proof -
  have "noParent [47, 97, 47, 47, 46, 47, 98, 47]" by code_simp
  then show ?thesis using normalise_terminates_clean [of "[47, 97, 47, 47, 46, 47, 98, 47]"] by auto
qed

text \<open>A match of \<open>/..\<close> that is not a whole component is found again and again.\<close>

definition stuckAt :: "u8 list \<Rightarrow> nat \<Rightarrow> bool" where
  "stuckAt buf c \<longleftrightarrow> (\<exists>c'. strstrFrom buf c [chSlash, chDot, chDot] = Some c' \<and>
     cstrFrom buf c' \<noteq> [chSlash, chDot, chDot] \<and>
     take 4 (cstrFrom buf c') \<noteq> [chSlash, chDot, chDot, chSlash])"

lemma strstr_again:
  assumes "strstrFrom buf c pat = Some c'" "pat \<noteq> []"
  shows "strstrFrom buf c' pat = Some c'"
proof -
  have m: "take (length pat) (cstrFrom buf c') = pat"
    using assms(1) by (auto simp: strstrFrom_def find_Some_iff)
  then have "0 < length (cstrFrom buf c')" using assms(2) by (metis length_greater_0_conv take_Nil)
  then show ?thesis using m by (simp add: strstrFrom_def upt_conv_Cons)
qed

lemma parentLoop_stuck:
  assumes "parentLoop buf c ch = Some y"
  shows "\<not> stuckAt buf c"
proof (rule parentLoop.raw_induct [where P = "\<lambda>buf c ch y. \<not> stuckAt buf c", OF _ assms], rule notI)
  fix rec buf c ch y
  assume IH: "\<And>buf c ch y. rec buf c ch = Some y \<Longrightarrow> \<not> stuckAt buf c"
    and body: "(case strstrFrom buf c [chSlash, chDot, chDot] of
        None \<Rightarrow> Some (buf, ch)
      | Some c \<Rightarrow>
          if cstrFrom buf c \<noteq> [chSlash, chDot, chDot] \<and>
             take 4 (cstrFrom buf c) \<noteq> [chSlash, chDot, chDot, chSlash]
          then rec buf c ch
          else (case parentStep buf c ch of (buf', change') \<Rightarrow> rec buf' (c + 1) change')) = Some y"
    and st: "stuckAt buf c"
  obtain c' where c': "strstrFrom buf c [chSlash, chDot, chDot] = Some c'"
    "cstrFrom buf c' \<noteq> [chSlash, chDot, chDot]" "take 4 (cstrFrom buf c') \<noteq> [chSlash, chDot, chDot, chSlash]"
    using st by (auto simp: stuckAt_def)
  then have "rec buf c' ch = Some y" using body by simp
  moreover have "stuckAt buf c'" using c' strstr_again [OF c'(1)] by (simp add: stuckAt_def)
  ultimately show False using IH by blast
qed

lemma stuckAt_string:
  assumes "0 \<notin> set s" "s = u @ [chSlash, chDot, chDot, y] @ v" "y \<noteq> chSlash"
    and first: "noParent (u @ [chSlash, chDot])"
  shows "stuckAt (s @ [0]) 0"
proof -
  let ?p = "[chSlash, chDot, chDot]"
  have from_k: "cstrFrom (s @ [0]) k = drop k s" if "k \<le> length s" for k
  proof -
    have "0 \<notin> set (drop k s)" using assms(1) by (auto dest: in_set_dropD)
    from cstrFrom_append [OF this, of "[]"] that show ?thesis by (simp add: cstrFrom_def)
  qed
  have no: "take (length ?p) (drop k s) \<noteq> ?p" if "k < length u" for k
  proof
    assume "take (length ?p) (drop k s) = ?p"
    then have k: "take 3 (drop k s) = ?p" by (simp add: eval_nat_numeral)
    have "take (length u + 2) s = u @ [chSlash, chDot]" by (simp add: assms(2))
    then have "take 3 (drop k (u @ [chSlash, chDot])) = take 3 (drop k (take (length u + 2) s))" by simp
    also have "\<dots> = take 3 (drop k s)" using that by (simp add: drop_take min_def)
    finally have "take 3 (drop k (u @ [chSlash, chDot])) = ?p" using k by simp
    then have "take (length ?p) (drop k (u @ [chSlash, chDot])) = ?p" by (simp add: eval_nat_numeral)
    from take_drop_sublist [OF this] first show False by simp
  qed
  have ls: "length s = length u + (4 + length v)" by (simp add: assms(2))
  have "[0..<length s] = [0..<length u] @ [length u..<length s]"
    unfolding ls by (rule upt_add_eq_append) simp
  also have "[length u..<length s] = length u # [Suc (length u)..<length s]"
    by (rule upt_conv_Cons) (simp add: ls)
  finally have range: "[0..<length s] = [0..<length u] @ length u # [Suc (length u)..<length s]" .
  have "strstrFrom (s @ [0]) 0 ?p = Some (length u)"
    unfolding strstrFrom_def from_k [OF le0] add_0 drop_0 range
  proof (rule find_skip)
    show "list_all (\<lambda>k. \<not> take (length ?p) (cstrFrom (s @ [0]) k) = ?p) [0..<length u]"
      unfolding list_all_iff
    proof
      fix k assume "k \<in> set [0..<length u]"
      then have "k < length u" "k \<le> length s" by (simp_all add: ls)
      then show "\<not> take (length ?p) (cstrFrom (s @ [0]) k) = ?p" using no from_k by (simp only: not_False_eq_True)
    qed
    show "take (length ?p) (cstrFrom (s @ [0]) (length u)) = ?p"
      using from_k [of "length u"] by (simp add: assms(2))
  qed
  then show ?thesis
    unfolding stuckAt_def using from_k [of "length u"] assms(2,3) by auto
qed

text \<open>C32: if the first \<open>/..\<close> of a path is followed by another character than a slash, as in
  \<open>/..x\<close> or \<open>/a/...\<close>, normalising it never returns.\<close>

theorem normalise_diverges:
  assumes "0 \<notin> set s" "s = u @ [chSlash, chDot, chDot, y] @ v" "y \<noteq> chSlash"
    and first: "noParent (u @ [chSlash, chDot])"
  shows "normalisePath s = None"
proof -
  have "parentLoop (s @ [0]) 0 False = None"
    using stuckAt_string [OF assms] parentLoop_stuck [of "s @ [0]" 0 False]
    by (cases "parentLoop (s @ [0]) 0 False") blast+
  then show ?thesis by (simp add: normalisePath_def kernelFsPathNormalise_def normaliseLoop.simps [of "s @ [0]"])
qed

theorem normalise_diverges_witness: "normalisePath [47, 97, 47, 46, 46, 120] = None"
proof -
  have "noParent ([47, 97] @ [chSlash, chDot])" by code_simp
  then show ?thesis
    by (intro normalise_diverges [where u = "[47, 97]" and y = 120 and v = "[]"])
      simp_all
qed

end
