(* ===== verification/MiniFsVolume.thy ===== *)
theory MiniFsVolume
  imports Prelude
begin

text \<open>
  What a MiniFs volume means, as functions on its bytes: the list of files in use, the fields, the
  name and the content of each, when a volume is well formed, and the map from names to contents
  that it stands for. The lemmas say which bytes each of them depends on.
\<close>

section \<open>Files of a volume\<close>

definition slots :: "u8 list \<Rightarrow> nat list" where
  "slots v = map unat (take 126 (drop 2 v))"

definition usedFiles :: "u8 list \<Rightarrow> nat list" where
  "usedFiles v = takeWhile (\<lambda>f. f \<noteq> 0) (slots v)"

definition fileTotal :: "u8 list \<Rightarrow> nat \<Rightarrow> nat" where
  "fileTotal v f = 256 * unat (v ! (128 * f)) + unat (v ! (128 * f + 1))"

definition fileUnits :: "u8 list \<Rightarrow> nat \<Rightarrow> nat" where
  "fileUnits v f = unat (v ! (128 * f + 2))"

definition fileName :: "u8 list \<Rightarrow> nat \<Rightarrow> u8 list" where
  "fileName v f = takeWhile (\<lambda>b. b \<noteq> 0) (drop (128 * f + 3) v)"

definition fileContent :: "u8 list \<Rightarrow> nat \<Rightarrow> u8 list" where
  "fileContent v f = drop (4 + length (fileName v f)) (take (fileTotal v f) (drop (128 * f) v))"

definition volUnits :: "u8 list \<Rightarrow> nat" where
  "volUnits v = unat (v ! 1) + 1"

definition fileOk :: "u8 list \<Rightarrow> nat \<Rightarrow> bool" where
  "fileOk v f \<longleftrightarrow> 4 + length (fileName v f) \<le> fileTotal v f \<and> fileTotal v f \<le> 128 * fileUnits v f \<and>
     length (fileName v f) < 127 \<and> f + fileUnits v f \<le> volUnits v"

definition volWf :: "u8 list \<Rightarrow> bool" where
  "volWf v \<longleftrightarrow> 128 * volUnits v \<le> length v \<and> v ! 0 = 53 \<and>
     slots v = usedFiles v @ replicate (126 - length (usedFiles v)) 0 \<and>
     (\<forall>f \<in> set (usedFiles v). fileOk v f) \<and>
     sorted_wrt (\<lambda>f g. f + fileUnits v f \<le> g) (usedFiles v) \<and>
     distinct (map (fileName v) (usedFiles v))"

definition volAbs :: "u8 list \<Rightarrow> (u8 list \<rightharpoonup> u8 list)" where
  "volAbs v = map_of (map (\<lambda>f. (fileName v f, fileContent v f)) (usedFiles v))"

section \<open>Ranges\<close>

lemma volUnits_bounds: "1 \<le> volUnits v" "volUnits v \<le> 256"
  using unat_u8_less [of "v ! 1"] by (simp_all add: volUnits_def del: unat_u8_less)

lemma volWf_length: "volWf v \<Longrightarrow> 128 \<le> length v"
  using volUnits_bounds [of v] by (auto simp: volWf_def)

lemma used_nonzero: "f \<in> set (usedFiles v) \<Longrightarrow> 0 < f"
  by (auto simp: usedFiles_def dest: set_takeWhileD)

lemma used_slot: "f \<in> set (usedFiles v) \<Longrightarrow> f \<in> set (slots v)"
  by (auto simp: usedFiles_def dest: set_takeWhileD)

lemma length_slots: "128 \<le> length v \<Longrightarrow> length (slots v) = 126"
  by (simp add: slots_def)

lemma length_used: "128 \<le> length v \<Longrightarrow> length (usedFiles v) \<le> 126"
  using length_takeWhile_le [of "\<lambda>f. f \<noteq> 0" "slots v"] by (simp add: usedFiles_def length_slots)

lemma nth_slots: "128 \<le> length v \<Longrightarrow> i < 126 \<Longrightarrow> slots v ! i = unat (v ! (2 + i))"
  by (simp add: slots_def)

lemma slots_less: "f \<in> set (slots v) \<Longrightarrow> f < 256"
  by (auto simp: slots_def)

lemma fileOk_units: "fileOk v f \<Longrightarrow> 1 \<le> fileUnits v f"
  by (cases "fileUnits v f") (auto simp: fileOk_def)

lemma fileUnits_less: "fileUnits v f < 256"
  by (simp add: fileUnits_def)

lemma fileOk_end:
  assumes "fileOk v f" "128 * volUnits v \<le> length v"
  shows "128 * f + fileTotal v f \<le> length v"
proof -
  have "128 * f + fileTotal v f \<le> 128 * (f + fileUnits v f)" using assms(1) by (simp add: fileOk_def)
  also have "\<dots> \<le> 128 * volUnits v" using assms(1) by (simp add: fileOk_def)
  finally show ?thesis using assms(2) by simp
qed

text \<open>The name ends with a NUL inside the file.\<close>

lemma fileName_nul:
  assumes "fileOk v f" "128 * volUnits v \<le> length v"
  shows "v ! (128 * f + 3 + length (fileName v f)) = 0"
proof -
  let ?r = "drop (128 * f + 3) v"
  have "length (fileName v f) < length ?r"
    using fileOk_end [OF assms] assms(1) by (auto simp: fileOk_def)
  then have "\<not> ?r ! length (fileName v f) \<noteq> 0"
    unfolding fileName_def by (rule nth_length_takeWhile)
  then show ?thesis using \<open>length (fileName v f) < length ?r\<close> by simp
qed

lemma fileName_nth:
  assumes "i < length (fileName v f)"
  shows "v ! (128 * f + 3 + i) = fileName v f ! i"
proof -
  have "i < length (drop (128 * f + 3) v)"
    using assms length_takeWhile_le [of "\<lambda>b. b \<noteq> 0" "drop (128 * f + 3) v"]
    by (simp add: fileName_def)
  then show ?thesis using assms by (simp add: fileName_def takeWhile_nth)
qed

lemma fileName_no_nul: "0 \<notin> set (fileName v f)"
  by (auto simp: fileName_def dest: set_takeWhileD)

lemma length_fileContent:
  assumes "fileOk v f" "128 * volUnits v \<le> length v"
  shows "length (fileContent v f) = fileTotal v f - 4 - length (fileName v f)"
  using fileOk_end [OF assms] by (simp add: fileContent_def)

section \<open>A file depends on its own units only\<close>

definition region :: "u8 list \<Rightarrow> nat \<Rightarrow> nat \<Rightarrow> u8 list" where
  "region v f n = take (128 * n) (drop (128 * f) v)"

lemma fileName_region:
  assumes "fileOk v f"
  shows "fileName v f = takeWhile (\<lambda>b. b \<noteq> 0) (drop 3 (region v f (fileUnits v f)))"
proof -
  have "length (fileName v f) < 128 * fileUnits v f - 3" using assms by (auto simp: fileOk_def)
  then have "takeWhile (\<lambda>b. b \<noteq> 0) (take (128 * fileUnits v f - 3) (drop (128 * f + 3) v)) = fileName v f"
    unfolding fileName_def by (rule takeWhile_take)
  then show ?thesis by (simp add: region_def drop_take add.commute)
qed

lemma fileContent_region:
  assumes "fileOk v f"
  shows "fileContent v f =
    drop (4 + length (fileName v f)) (take (fileTotal v f) (region v f (fileUnits v f)))"
  using assms by (simp add: fileContent_def region_def fileOk_def min_def)

lemma region_eqI:
  assumes "length v' = length v" "128 * (f + n) \<le> length v"
    and "\<And>i. 128 * f \<le> i \<Longrightarrow> i < 128 * (f + n) \<Longrightarrow> v' ! i = v ! i"
  shows "region v' f n = region v f n"
proof (rule nth_equalityI)
  show "length (region v' f n) = length (region v f n)" using assms(1) by (simp add: region_def)
  fix i assume "i < length (region v' f n)"
  then have "i < 128 * n" "128 * f + i < length v" using assms(1) by (auto simp: region_def)
  then show "region v' f n ! i = region v f n ! i"
    using assms by (simp add: region_def)
qed

lemma file_local:
  assumes ok: "fileOk v f" and len: "length v' = length v" "128 * volUnits v \<le> length v"
    and units: "volUnits v' = volUnits v"
    and same: "\<And>i. 128 * f \<le> i \<Longrightarrow> i < 128 * (f + fileUnits v f) \<Longrightarrow> v' ! i = v ! i"
  shows "fileOk v' f \<and> fileUnits v' f = fileUnits v f \<and> fileName v' f = fileName v f \<and>
    fileTotal v' f = fileTotal v f \<and> fileContent v' f = fileContent v f"
proof -
  let ?n = "fileUnits v f"
  have n: "1 \<le> ?n" using ok by (rule fileOk_units)
  have b: "128 * (f + ?n) \<le> length v" using ok len(2) by (simp add: fileOk_def)
  have u: "fileUnits v' f = ?n" and t: "fileTotal v' f = fileTotal v f"
    using n by (simp_all add: fileUnits_def fileTotal_def same)
  have r: "region v' f ?n = region v f ?n" using len(1) b same by (rule region_eqI)
  have m: "fileName v' f = fileName v f"
  proof -
    let ?P = "\<lambda>b :: u8. b \<noteq> 0"
    let ?w = "drop 3 (region v f ?n)"
    have l: "length (takeWhile ?P ?w) < 128 * ?n - 3"
      using ok by (auto simp: fileName_region [OF ok, symmetric] fileOk_def)
    have lw: "length ?w = 128 * ?n - 3" using b by (simp add: region_def)
    have stop: "\<exists>b \<in> set ?w. \<not> ?P b"
    proof (rule ccontr)
      assume "\<not> (\<exists>b \<in> set ?w. \<not> ?P b)"
      then have "takeWhile ?P ?w = ?w" by (simp only: takeWhile_eq_all_conv) blast
      with l lw show False by simp
    qed
    have "drop (128 * f + 3) v' = ?w @ drop (128 * (f + ?n)) v'"
    proof -
      have e: "128 * (f + ?n) = 128 * ?n + 128 * f" by simp
      have "drop (128 * f) v' = region v' f ?n @ drop (128 * (f + ?n)) v'"
        unfolding region_def e drop_drop [symmetric] by (rule append_take_drop_id [symmetric])
      then have "drop 3 (drop (128 * f) v') = drop 3 (region v f ?n) @ drop (128 * (f + ?n)) v'"
        using b n r by (simp add: region_def)
      then show ?thesis by (simp add: add.commute)
    qed
    then show ?thesis
      using stop by (auto simp: fileName_def [of v'] fileName_region [OF ok] takeWhile_append1)
  qed
  have ok': "fileOk v' f" using ok units by (simp add: fileOk_def u t m)
  show ?thesis
    using ok' by (simp add: u t m fileContent_region [OF ok] fileContent_region [OF ok'] r)
qed

section \<open>The map of a list of files\<close>

lemma files_map_Some:
  "distinct (map nm us) \<Longrightarrow>
   map_of (map (\<lambda>f. (nm f, c f)) us) x = Some y \<longleftrightarrow> (\<exists>f \<in> set us. nm f = x \<and> c f = y)"
  by (subst map_of_eq_Some_iff) (auto simp: comp_def)

lemma files_map_None: "map_of (map (\<lambda>f. (nm f, c f)) us) x = None \<longleftrightarrow> x \<notin> nm ` set us"
  by (auto simp: map_of_eq_None_iff image_image)

lemma map_eq_SomeI: "(\<And>x y. m x = Some y \<longleftrightarrow> m' x = Some y) \<Longrightarrow> m = m'"
  by (rule ext) (metis option.exhaust)

lemma files_map_upd:
  assumes "distinct (map nm us)" "f \<in> set us" "\<And>g. g \<in> set us \<Longrightarrow> g \<noteq> f \<Longrightarrow> c' g = c g"
  shows "map_of (map (\<lambda>g. (nm g, c' g)) us) = (map_of (map (\<lambda>g. (nm g, c g)) us))(nm f \<mapsto> c' f)"
proof (rule map_eq_SomeI)
  fix x y
  have inj: "inj_on nm (set us)" using assms(1) by (simp add: distinct_map)
  show "map_of (map (\<lambda>g. (nm g, c' g)) us) x = Some y \<longleftrightarrow>
    ((map_of (map (\<lambda>g. (nm g, c g)) us))(nm f \<mapsto> c' f)) x = Some y"
    using assms inj by (auto simp: files_map_Some dest: inj_onD) (metis assms(3))
qed

lemma files_map_remove:
  assumes "distinct (map nm us)" "f \<in> set us"
  shows "map_of (map (\<lambda>g. (nm g, c g)) (remove1 f us)) = (map_of (map (\<lambda>g. (nm g, c g)) us))(nm f := None)"
proof (rule map_eq_SomeI)
  fix x y
  have inj: "inj_on nm (set us)" and d: "distinct us" using assms(1) by (simp_all add: distinct_map)
  have "distinct (map nm (remove1 f us))"
    using inj d by (auto simp: distinct_map intro: inj_on_subset)
  then show "map_of (map (\<lambda>g. (nm g, c g)) (remove1 f us)) x = Some y \<longleftrightarrow>
    ((map_of (map (\<lambda>g. (nm g, c g)) us))(nm f := None)) x = Some y"
    using assms inj d by (auto simp: files_map_Some dest: inj_onD)
qed

section \<open>Well-formed volumes\<close>

lemma volWf_used:
  assumes "volWf v" "f \<in> set (usedFiles v)"
  shows "fileOk v f" "0 < f" "128 * (f + fileUnits v f) \<le> length v" "128 \<le> 128 * f"
proof -
  show ok: "fileOk v f" using assms by (simp add: volWf_def)
  show "0 < f" "128 \<le> 128 * f" using used_nonzero [OF assms(2)] by auto
  have "f + fileUnits v f \<le> volUnits v" using ok by (simp add: fileOk_def)
  then show "128 * (f + fileUnits v f) \<le> length v" using assms(1) by (auto simp: volWf_def)
qed

lemma volAbs_Some:
  "volWf v \<Longrightarrow> volAbs v x = Some y \<longleftrightarrow> (\<exists>f \<in> set (usedFiles v). fileName v f = x \<and> fileContent v f = y)"
  unfolding volAbs_def by (rule files_map_Some) (simp add: volWf_def)

lemma volAbs_None: "volAbs v x = None \<longleftrightarrow> x \<notin> fileName v ` set (usedFiles v)"
  unfolding volAbs_def by (rule files_map_None)

lemma sorted_wrt_disjoint:
  "sorted_wrt (\<lambda>f g. f + (n f :: nat) \<le> g) us \<Longrightarrow> f \<in> set us \<Longrightarrow> g \<in> set us \<Longrightarrow> f \<noteq> g \<Longrightarrow>
   f + n f \<le> g \<or> g + n g \<le> f"
  by (induction us) auto

lemma used_disjoint:
  assumes "volWf v" "f \<in> set (usedFiles v)" "g \<in> set (usedFiles v)" "f \<noteq> g"
  shows "f + fileUnits v f \<le> g \<or> g + fileUnits v g \<le> f"
  using assms by (intro sorted_wrt_disjoint [of "fileUnits v"]) (auto simp: volWf_def)

lemma sorted_wrt_units:
  "(\<And>f. f \<in> set us \<Longrightarrow> n' f = (n f :: nat)) \<Longrightarrow>
   sorted_wrt (\<lambda>f g. f + n' f \<le> g) us \<longleftrightarrow> sorted_wrt (\<lambda>f g. f + n f \<le> g) us"
  by (induction us) auto

lemma volWf_intro:
  assumes "128 * volUnits v \<le> length v" "v ! 0 = 53"
    and "slots v = us @ replicate (126 - length us) 0" "0 \<notin> set us"
    and "\<And>f. f \<in> set us \<Longrightarrow> fileOk v f"
    and "sorted_wrt (\<lambda>f g. f + fileUnits v f \<le> g) us" "distinct (map (fileName v) us)"
  shows "volWf v \<and> usedFiles v = us"
proof -
  have "takeWhile (\<lambda>f. f \<noteq> 0) us = us"
    using assms(4) by (metis (mono_tags, lifting) takeWhile_eq_all_conv)
  then have "usedFiles v = us"
    using assms(4) unfolding usedFiles_def assms(3)
    by (subst takeWhile_append2) (auto simp: takeWhile_replicate)
  then show ?thesis using assms by (simp add: volWf_def)
qed

text \<open>A change of the volume outside its first two bytes and outside the units of some of the
  files it had keeps those files.\<close>

lemma files_kept:
  assumes wf: "volWf v" and len: "length v' = length v" and h: "v' ! 1 = v ! 1"
    and f: "f \<in> set (usedFiles v)"
    and same: "\<And>i. 128 * f \<le> i \<Longrightarrow> i < 128 * (f + fileUnits v f) \<Longrightarrow> v' ! i = v ! i"
  shows "fileOk v' f \<and> fileUnits v' f = fileUnits v f \<and> fileName v' f = fileName v f \<and>
    fileContent v' f = fileContent v f"
  using file_local [OF volWf_used(1) [OF wf f] len _ _ same] wf h by (simp add: volWf_def volUnits_def)

lemma units_apart:
  fixes f g :: nat
  assumes "f + n \<le> g \<or> g + m \<le> f" "128 * g \<le> i" "i < 128 * (g + m)"
  shows "128 * (f + n) \<le> i \<or> i < 128 * f"
  using assms(1)
proof
  assume "f + n \<le> g"
  then have "128 * (f + n) \<le> 128 * g" by simp
  with assms(2) show ?thesis by linarith
next
  assume "g + m \<le> f"
  then have "128 * (g + m) \<le> 128 * f" by simp
  with assms(3) show ?thesis by linarith
qed

lemma slots_eqI:
  assumes "length v' = length v" "\<And>i. 2 \<le> i \<Longrightarrow> i < 128 \<Longrightarrow> v' ! i = v ! i"
  shows "slots v' = slots v"
proof -
  have "take 126 (drop 2 v') = take 126 (drop 2 v)"
  proof (rule nth_equalityI)
    fix i assume "i < length (take 126 (drop 2 v'))"
    then have "i < length v - 2 \<and> i < 126" by (simp add: assms(1))
    then have "i < 126" "2 + i < length v" by linarith+
    then show "take 126 (drop 2 v') ! i = take 126 (drop 2 v) ! i" by (simp add: assms)
  qed (simp add: assms(1))
  then show ?thesis by (simp add: slots_def)
qed

text \<open>Overwriting bytes inside the content of a file.\<close>

lemma vol_write_content:
  assumes wf: "volWf v" and f: "f \<in> set (usedFiles v)"
    and d: "off + length d \<le> length (fileContent v f)"
    and v': "v' = splice_at (128 * f + 4 + length (fileName v f) + off) d v"
  shows "volWf v' \<and> usedFiles v' = usedFiles v \<and> length v' = length v \<and>
    volAbs v' = (volAbs v)(fileName v f \<mapsto> splice_at off d (fileContent v f))"
proof -
  let ?a = "128 * f + 4 + length (fileName v f) + off"
  note ok = volWf_used(1) [OF wf f] and end_f = volWf_used(3) [OF wf f]
  have vl: "128 * volUnits v \<le> length v" using wf by (simp add: volWf_def)
  note lc = length_fileContent [OF ok vl] and fe = fileOk_end [OF ok vl]
  have tot: "4 + length (fileName v f) \<le> fileTotal v f" "fileTotal v f \<le> 128 * fileUnits v f"
    using ok by (simp_all add: fileOk_def)
  have top: "?a + length d \<le> 128 * f + fileTotal v f" using d lc tot by linarith
  have inr: "?a + length d \<le> length v" using top fe by linarith
  have f0: "0 < f" using wf f by (rule volWf_used)
  have len: "length v' = length v" unfolding v' using inr by simp
  have nth: "v' ! i = (if ?a \<le> i \<and> i < ?a + length d then d ! (i - ?a) else v ! i)"
    if "i < length v" for i unfolding v' by (rule nth_splice_at [OF inr that])
  have l128: "128 \<le> length v" using wf by (rule volWf_length)
  have low: "v' ! i = v ! i" if "i < 128 * f + 4 + length (fileName v f)" for i
    using that nth [of i] inr by (auto)
  have h: "v' ! 0 = v ! 0" "v' ! 1 = v ! 1" using low f0 by simp_all
  have u: "volUnits v' = volUnits v" by (simp only: volUnits_def h)
  have sl: "slots v' = slots v" using len low f0 by (intro slots_eqI) auto
  then have us: "usedFiles v' = usedFiles v" by (simp add: usedFiles_def)
  have other: "fileOk v' g \<and> fileUnits v' g = fileUnits v g \<and> fileName v' g = fileName v g \<and>
      fileContent v' g = fileContent v g" if g: "g \<in> set (usedFiles v)" "g \<noteq> f" for g
  proof (rule files_kept [OF wf len h(2) g(1)])
    fix i assume i: "128 * g \<le> i" "i < 128 * (g + fileUnits v g)"
    have il: "i < length v" using i(2) volWf_used(3) [OF wf g(1)] by linarith
    have "f + fileUnits v f \<le> g \<or> g + fileUnits v g \<le> f"
      using used_disjoint [OF wf g(1) f g(2)] by blast
    then have "128 * (f + fileUnits v f) \<le> i \<or> i < 128 * f" using i by (rule units_apart)
    then have "\<not> (?a \<le> i \<and> i < ?a + length d)"
    proof
      assume "128 * (f + fileUnits v f) \<le> i"
      then have "?a + length d \<le> i" using top tot unfolding distrib_left by linarith
      then show ?thesis by simp
    next
      assume "i < 128 * f"
      then have "i < ?a" by linarith
      then show ?thesis by simp
    qed
    then show "v' ! i = v ! i" unfolding nth [OF il] by (rule if_not_P)
  qed
  have fu: "fileUnits v' f = fileUnits v f" and ft: "fileTotal v' f = fileTotal v f"
    by (simp_all add: fileUnits_def fileTotal_def low)
  have pre: "take (?a - off) v' = take (?a - off) v" unfolding v' splice_at_def using inr by simp
  have fn: "fileName v' f = fileName v f"
  proof -
    let ?n = "Suc (length (fileName v f))"
    have "take ?n (drop (128 * f + 3) v') = take ?n (drop (128 * f + 3) v)"
      using arg_cong [OF pre, of "drop (128 * f + 3)"] by (simp add: drop_take)
    moreover have "takeWhile (\<lambda>b. b \<noteq> 0) (take ?n (drop (128 * f + 3) v)) = fileName v f"
      unfolding fileName_def by (rule takeWhile_take) (simp add: fileName_def)
    ultimately have *: "takeWhile (\<lambda>b. b \<noteq> 0) (take ?n (drop (128 * f + 3) v')) = fileName v f" by simp
    have "length (takeWhile (\<lambda>b. b \<noteq> 0) (drop (128 * f + 3) v')) < ?n"
    proof -
      have "v' ! (128 * f + 3 + length (fileName v f)) = 0"
        using fileName_nul [OF ok vl] by (simp add: low)
      then have "drop (128 * f + 3) v' ! length (fileName v f) = 0" using len inr by simp
      moreover have "length (fileName v f) < length (drop (128 * f + 3) v')" using len inr by simp
      ultimately show ?thesis
        using length_takeWhile_stop [of "length (fileName v f)" "drop (128 * f + 3) v'" "\<lambda>b. b \<noteq> 0"]
        by simp
    qed
    then show ?thesis using * takeWhile_take unfolding fileName_def [of v'] by metis
  qed
  have fc: "fileContent v' f = splice_at off d (fileContent v f)"
  proof (rule nth_equalityI)
    have okv': "fileOk v' f" using ok by (simp add: fileOk_def fu ft fn u)
    have lc': "length (fileContent v' f) = length (fileContent v f)"
      using length_fileContent [OF okv'] vl len u lc by (simp add: ft fn)
    show "length (fileContent v' f) = length (splice_at off d (fileContent v f))"
      using d lc' by simp
    fix i assume "i < length (fileContent v' f)"
    then have i: "i < length (fileContent v f)" using lc' by simp
    have at: "fileContent w f ! i = w ! (128 * f + 4 + length (fileName v f) + i)"
      if "fileName w f = fileName v f" "fileTotal w f = fileTotal v f" "length w = length v" for w
      using that i lc fe tot by (simp add: fileContent_def add.assoc)
    have il: "128 * f + 4 + length (fileName v f) + i < length v" using i lc fe tot by linarith
    show "fileContent v' f ! i = splice_at off d (fileContent v f) ! i"
      unfolding at [OF fn ft len] nth [OF il] nth_splice_at [OF d i] at [OF refl refl refl] by auto
  qed
  have ok': "fileOk v' f" using ok by (simp add: fileOk_def fu ft fn u)
  have names: "fileName v' g = fileName v g" and units: "fileUnits v' g = fileUnits v g"
    and oks: "fileOk v' g" if "g \<in> set (usedFiles v)" for g
    using other [OF that] fn fu ok' by (cases "g = f"; simp)+
  have wf': "volWf v'"
  proof -
    have "sorted_wrt (\<lambda>f g. f + fileUnits v' f \<le> g) (usedFiles v)"
      using wf sorted_wrt_units [of "usedFiles v" "fileUnits v'" "fileUnits v"] units
      by (simp add: volWf_def)
    moreover have "map (fileName v') (usedFiles v) = map (fileName v) (usedFiles v)"
      using names by simp
    then have "distinct (map (fileName v') (usedFiles v))" using wf unfolding volWf_def by metis
    ultimately show ?thesis using wf oks by (simp add: volWf_def us sl len u h)
  qed
  have "volAbs v' = map_of (map (\<lambda>g. (fileName v g, fileContent v' g)) (usedFiles v))"
    unfolding volAbs_def us using names by (intro arg_cong [of _ _ map_of] map_cong) auto
  also have "\<dots> = (volAbs v)(fileName v f \<mapsto> fileContent v' f)"
    unfolding volAbs_def using wf other f by (intro files_map_upd) (auto simp: volWf_def)
  finally show ?thesis using wf' us len by (simp add: fc)
qed

end
