(* ===== verification/MiniFsStore.thy ===== *)
theory MiniFsStore
  imports MiniFs MiniFsVolume
begin

text \<open>
  The interface between a volume and the store that holds it: the read and write functors of a
  \<open>MiniFs\<close> behave as reads and writes of a byte array. Under it every operation of the code is
  an operation on the volume's bytes, and on a well-formed volume an operation on the map from
  names to contents.
\<close>

section \<open>Addresses\<close>

lemma unat_of_nat16: "a < 65536 \<Longrightarrow> unat (of_nat a :: u16) = a"
  by (simp add: unat_of_nat)

lemma unat_of_nat8: "a < 256 \<Longrightarrow> unat (of_nat a :: u8) = a"
  by (simp add: unat_of_nat)

lemma ucast_of_nat_8_16: "a < 256 \<Longrightarrow> (ucast (of_nat a :: u8) :: u16) = of_nat a"
  by (simp add: unat_eq_iff16 unat_of_nat8 unat_of_nat16)

lemma ucast_u8_u16: "(ucast (b :: u8) :: u16) = of_nat (unat b)"
proof -
  have "unat b < 65536" using unat_u8_less [of b] by linarith
  then show ?thesis by (simp add: unat_eq_iff16 unat_of_nat16)
qed

lemma of_nat_unat16 [simp]: "of_nat (unat (w :: u16)) = w"
  by simp

lemma slotAddr_of_nat: "i < 126 \<Longrightarrow> slotAddr (of_nat i) = of_nat (2 + i)"
  by (simp add: slotAddr_def MINIFSHEADERFILEBASEADDR_def ucast_of_nat_8_16)

lemma units16: "ucast (b :: u8) * of_nat MINIFSFACTOR = (of_nat (128 * unat b) :: u16)"
  unfolding ucast_u8_u16 MINIFSFACTOR_def of_nat_mult [symmetric] by (simp only: mult.commute)

lemma of_nat16_eq_0:
  assumes "a < 65536"
  shows "(of_nat a :: u16) = 0 \<longleftrightarrow> a = 0"
proof
  assume "(of_nat a :: u16) = 0"
  then have "unat (of_nat a :: u16) = unat (0 :: u16)" by (rule arg_cong)
  then show "a = 0" unfolding unat_of_nat16 [OF assms] by simp
qed simp

lemma fileSlots_eq: "fileSlots = map of_nat [0..<126]"
  by (simp add: fileSlots_def MINIFSMAXFILES_def MINIFSFACTOR_def)

lemma MAXFILES8: "(of_nat MINIFSMAXFILES :: u8) = 126"
  by (simp add: MINIFSMAXFILES_def MINIFSFACTOR_def)

section \<open>The interface\<close>

locale byte_store =
  fixes rd :: "'s \<Rightarrow> u16 \<Rightarrow> u16 \<Rightarrow> u8 list"
    and wr :: "'s \<Rightarrow> u16 \<Rightarrow> u8 list \<Rightarrow> u16 \<times> 's"
    and bytes :: "'s \<Rightarrow> u8 list"
    and usable :: "'s \<Rightarrow> bool"
  assumes rd_bytes: "usable s \<Longrightarrow> unat a + unat n \<le> length (bytes s) \<Longrightarrow>
      rd s a n = take (unat n) (drop (unat a) (bytes s))"
    and wr_bytes: "usable s \<Longrightarrow> unat a + length d \<le> length (bytes s) \<Longrightarrow> length d < 65536 \<Longrightarrow>
      fst (wr s a d) = of_nat (length d) \<and> bytes (snd (wr s a d)) = splice_at (unat a) d (bytes s) \<and>
      usable (snd (wr s a d))"
begin

definition mounted :: "'s MiniFs \<Rightarrow> bool" where
  "mounted fs \<longleftrightarrow> mfReadFunctor fs = rd \<and> mfWriteFunctor fs = Some wr \<and> usable (mfUserData fs)"

definition vol :: "'s MiniFs \<Rightarrow> u8 list" where
  "vol fs = bytes (mfUserData fs)"

lemma not_read_only: "mounted fs \<Longrightarrow> \<not> miniFsGetReadOnly fs"
  by (simp add: mounted_def miniFsGetReadOnly_def)

lemma read_bytes:
  "mounted fs \<Longrightarrow> unat a + unat n \<le> length (vol fs) \<Longrightarrow>
   miniFsRead fs a n = take (unat n) (drop (unat a) (vol fs))"
  by (simp add: mounted_def vol_def miniFsRead_def rd_bytes)

lemma read_byte:
  assumes "mounted fs" "a < length (vol fs)" "a < 65536"
  shows "miniFsReadByte fs (of_nat a) = vol fs ! a"
proof -
  have "miniFsRead fs (of_nat a) 1 = take 1 (drop a (vol fs))"
    using read_bytes [OF assms(1), of "of_nat a" 1] assms by (simp add: unat_of_nat16)
  then show ?thesis
    using assms(2) by (simp add: miniFsReadByte_def Cons_nth_drop_Suc [symmetric])
qed

lemma write_bytes:
  assumes "mounted fs" "a + length d \<le> length (vol fs)" "a < 65536" "length d < 65536"
  obtains fs' where "miniFsWrite fs (of_nat a) d = Some (of_nat (length d), fs')" "mounted fs'"
    "vol fs' = splice_at a d (vol fs)"
proof -
  obtain n s where w: "wr (mfUserData fs) (of_nat a) d = (n, s)" by fastforce
  then have "n = of_nat (length d)" "bytes s = splice_at a d (vol fs)" "usable s"
    using wr_bytes [of "mfUserData fs" "of_nat a" d] assms by (auto simp: vol_def unat_of_nat16 mounted_def)
  then show ?thesis
    using assms(1) w by (intro that [of "fs\<lparr>mfUserData := s\<rparr>"])
      (simp_all add: miniFsWrite_def mounted_def vol_def)
qed

lemma write_byte:
  assumes "mounted fs" "a < length (vol fs)" "a < 65536"
  obtains fs' where "miniFsWriteByte fs (of_nat a) b = Some fs'" "mounted fs'"
    "vol fs' = (vol fs)[a := b]"
proof -
  from assms obtain fs' where "miniFsWrite fs (of_nat a) [b] = Some (of_nat (length [b]), fs')"
    "mounted fs'" "vol fs' = splice_at a [b] (vol fs)"
    by (auto intro: write_bytes [of fs a "[b]"])
  then show ?thesis
    using assms(2) by (intro that [of fs']) (simp_all add: miniFsWriteByte_def splice_at_single)
qed

subsection \<open>Reading the header and a file's fields\<close>

lemma slot_read:
  assumes "mounted fs" "128 \<le> length (vol fs)" "i < 126"
  shows "unat (miniFsFileGetBaseOffsetFactorFromIndex fs (of_nat i)) = slots (vol fs) ! i"
proof -
  have "miniFsReadByte fs (of_nat (2 + i)) = vol fs ! (2 + i)"
    using assms by (intro read_byte) auto
  then show ?thesis
    unfolding miniFsFileGetBaseOffsetFactorFromIndex_def slotAddr_of_nat [OF assms(3)]
      nth_slots [OF assms(2,3)] by simp
qed

lemma base_read:
  assumes "mounted fs" "128 \<le> length (vol fs)" "i < 126"
  shows "miniFsFileGetBaseOffsetFromIndex fs (of_nat i) = of_nat (128 * slots (vol fs) ! i)"
  unfolding miniFsFileGetBaseOffsetFromIndex_def units16 slot_read [OF assms] ..

lemma slot_empty:
  assumes "mounted fs" "128 \<le> length (vol fs)" "i < 126"
  shows "miniFsIsFileSlotEmpty fs (of_nat i) \<longleftrightarrow> slots (vol fs) ! i = 0"
  using slot_read [OF assms, symmetric]
  by (simp add: miniFsIsFileSlotEmpty_def miniFsFileGetBaseOffsetFactorFromIndex_def unat_eq_0)

lemma total_units_read:
  assumes "mounted fs" "128 \<le> length (vol fs)"
  shows "unat (miniFsGetTotalSizeFactorMinusOne fs) + 1 = volUnits (vol fs)"
  using read_byte [OF assms(1), of 1] assms(2)
  by (simp add: miniFsGetTotalSizeFactorMinusOne_def MINIFSHEADERTOTALSIZEADDR_def volUnits_def)

lemma name_matches:
  assumes "mounted fs" "a + length (takeWhile (\<lambda>b. b \<noteq> 0) (drop a (vol fs))) < length (vol fs)"
    and "a + length (takeWhile (\<lambda>b. b \<noteq> 0) (drop a (vol fs))) < 65536" "0 \<notin> set cs"
  shows "filenameMatches fs (of_nat a) cs \<longleftrightarrow> takeWhile (\<lambda>b. b \<noteq> 0) (drop a (vol fs)) = cs"
  using assms
proof (induction cs arbitrary: a)
  case Nil
  have d: "drop a (vol fs) = vol fs ! a # drop (Suc a) (vol fs)"
    using Nil.prems by (simp add: Cons_nth_drop_Suc)
  have "miniFsReadByte fs (of_nat a) = vol fs ! a" using Nil.prems by (intro read_byte) auto
  then show ?case unfolding d by simp
next
  case (Cons c cs)
  have d: "drop a (vol fs) = vol fs ! a # drop (Suc a) (vol fs)"
    using Cons.prems by (simp add: Cons_nth_drop_Suc)
  have r: "miniFsReadByte fs (of_nat a) = vol fs ! a" using Cons.prems by (intro read_byte) auto
  show ?case
  proof (cases "vol fs ! a = 0")
    case True
    then show ?thesis using Cons.prems r by (simp add: d)
  next
    case False
    then have "filenameMatches fs (of_nat (Suc a)) cs \<longleftrightarrow>
        takeWhile (\<lambda>b. b \<noteq> 0) (drop (Suc a) (vol fs)) = cs"
      using Cons.prems by (intro Cons.IH) (simp_all add: d)
    then show ?thesis using False r by (simp add: d add.commute)
  qed
qed

lemma name_len:
  assumes "mounted fs" "n \<le> length (takeWhile (\<lambda>b. b \<noteq> 0) (drop a (vol fs)))"
    and "a + length (takeWhile (\<lambda>b. b \<noteq> 0) (drop a (vol fs))) < length (vol fs)"
    and "a + length (takeWhile (\<lambda>b. b \<noteq> 0) (drop a (vol fs))) < 65536"
  shows "filenameLenLoop fs (of_nat a) (of_nat n) =
    Some (of_nat (length (takeWhile (\<lambda>b. b \<noteq> 0) (drop a (vol fs)))))"
  using assms(2)
proof (induction n rule: inc_induct)
  let ?m = "length (takeWhile (\<lambda>b. b \<noteq> 0) (drop a (vol fs)))"
  have r: "n \<le> ?m \<Longrightarrow> miniFsReadByte fs (of_nat a + of_nat n) = vol fs ! (a + n)" for n
    using read_byte [OF assms(1), of "a + n"] assms by simp
  {
    case base
    have "\<not> drop a (vol fs) ! ?m \<noteq> 0" using assms(3) by (intro nth_length_takeWhile) simp
    then have "vol fs ! (a + ?m) = 0" using assms(3) by simp
    then show ?case using r [of ?m] by (subst filenameLenLoop.simps) simp
  next
    case (step n)
    have "takeWhile (\<lambda>b. b \<noteq> 0) (drop a (vol fs)) ! n \<noteq> 0"
      using step(2) by (blast dest: nth_mem set_takeWhileD)
    then have "vol fs ! (a + n) \<noteq> 0" using step(2) assms(3) by (simp add: takeWhile_nth)
    then show ?case using r [of n] step by (subst filenameLenLoop.simps) (simp add: add.commute)
  }
qed

text \<open>The fields of a file in use, read through its base offset.\<close>

lemma file_range:
  assumes "volWf (vol fs)" "f \<in> set (usedFiles (vol fs))"
  shows "128 * f + fileTotal (vol fs) f \<le> length (vol fs)" "128 * f + fileTotal (vol fs) f \<le> 32768"
    "4 + length (fileName (vol fs) f) \<le> fileTotal (vol fs) f" "0 < f"
    "fileTotal (vol fs) f \<le> 128 * fileUnits (vol fs) f" "f < 256"
    "128 * (f + fileUnits (vol fs) f) \<le> 32768"
proof -
  note ok = volWf_used(1) [OF assms]
  have "128 * volUnits (vol fs) \<le> length (vol fs)" using assms(1) by (simp add: volWf_def)
  with ok show "128 * f + fileTotal (vol fs) f \<le> length (vol fs)" by (rule fileOk_end)
  have u: "f + fileUnits (vol fs) f \<le> volUnits (vol fs)" "fileTotal (vol fs) f \<le> 128 * fileUnits (vol fs) f"
    using ok by (simp_all add: fileOk_def)
  then show "128 * (f + fileUnits (vol fs) f) \<le> 32768" using volUnits_bounds(2) [of "vol fs"] by simp
  with u show "128 * f + fileTotal (vol fs) f \<le> 32768" unfolding distrib_left by linarith
  show "4 + length (fileName (vol fs) f) \<le> fileTotal (vol fs) f" using ok by (simp add: fileOk_def)
  show "0 < f" using assms by (rule volWf_used)
  show "fileTotal (vol fs) f \<le> 128 * fileUnits (vol fs) f" by (rule u)
  show "f < 256" using assms(2) by (intro slots_less [of _ "vol fs"] used_slot)
qed

lemma base_nonzero: "0 < f \<Longrightarrow> f < 256 \<Longrightarrow> (of_nat (128 * f) :: u16) \<noteq> 0"
  using of_nat16_eq_0 [of "128 * f"] by simp

lemma file_fields:
  assumes m: "mounted fs" and wf: "volWf (vol fs)" and f: "f \<in> set (usedFiles (vol fs))"
  shows "miniFsFileGetFilenameOffsetFromBaseOffset (of_nat (128 * f)) = of_nat (128 * f + 3)"
    and "unat (miniFsFileGetSizeFactorFromBaseOffset fs (of_nat (128 * f))) = fileUnits (vol fs) f"
    and "miniFsGetFileTotalLengthFromBaseOffset fs (of_nat (128 * f)) = of_nat (fileTotal (vol fs) f)"
    and "miniFsFileGetFilenameLenFromBaseOffset fs (of_nat (128 * f)) =
      Some (of_nat (length (fileName (vol fs) f)))"
proof -
  note r = file_range [OF wf f]
  have nz: "(of_nat (128 * f) :: u16) \<noteq> 0" using r by (intro base_nonzero)
  have rb: "miniFsReadByte fs (of_nat (128 * f + k)) = vol fs ! (128 * f + k)"
    if "k < fileTotal (vol fs) f" for k
    using that r by (intro read_byte [OF m]) linarith+
  show off: "miniFsFileGetFilenameOffsetFromBaseOffset (of_nat (128 * f)) = of_nat (128 * f + 3)"
    using nz by (simp add: miniFsFileGetFilenameOffsetFromBaseOffset_def)
  define b :: u16 where "b = of_nat (128 * f)"
  have b0: "b \<noteq> 0" using nz by (simp add: b_def)
  have b2: "b + 2 \<noteq> 0" using of_nat16_eq_0 [of "128 * f + 2"] r(6) by (simp add: b_def add.commute)
  have rd: "miniFsReadByte fs b = vol fs ! (128 * f)" "miniFsReadByte fs (b + 1) = vol fs ! (128 * f + 1)"
    "miniFsReadByte fs (b + 2) = vol fs ! (128 * f + 2)"
    using rb [of 0] rb [of 1] rb [of 2] r(3) by (simp_all add: b_def add.commute)
  show "unat (miniFsFileGetSizeFactorFromBaseOffset fs (of_nat (128 * f))) = fileUnits (vol fs) f"
    unfolding b_def [symmetric] miniFsFileGetSizeFactorFromBaseOffset_def
      miniFsFileGetSizeFactorOffsetFromBaseOffset_def Let_def fileUnits_def
    by (simp only: if_not_P [OF b0] if_not_P [OF b2] rd)
  have "unat (miniFsGetFileTotalLengthFromBaseOffset fs (of_nat (128 * f))) = fileTotal (vol fs) f"
    unfolding b_def [symmetric] miniFsGetFileTotalLengthFromBaseOffset_def
      miniFsFileGetLengthOffsetFromBaseOffset_def Let_def fileTotal_def
    by (simp only: if_not_P [OF b0] add_0_right rd unat_be16)
  then show "miniFsGetFileTotalLengthFromBaseOffset fs (of_nat (128 * f)) = of_nat (fileTotal (vol fs) f)"
    by (metis of_nat_unat16)
  have "filenameLenLoop fs (of_nat (128 * f + 3)) (of_nat 0) =
      Some (of_nat (length (takeWhile (\<lambda>b. b \<noteq> 0) (drop (128 * f + 3) (vol fs)))))"
    using r unfolding fileName_def by (intro name_len [OF m]) linarith+
  then show "miniFsFileGetFilenameLenFromBaseOffset fs (of_nat (128 * f)) =
      Some (of_nat (length (fileName (vol fs) f)))"
    unfolding miniFsFileGetFilenameLenFromBaseOffset_def off fileName_def by simp
qed

lemma content_fields:
  assumes m: "mounted fs" and wf: "volWf (vol fs)" and f: "f \<in> set (usedFiles (vol fs))"
  shows "miniFsFileGetContentOffsetFromBaseOffset fs (of_nat (128 * f)) =
      Some (of_nat (128 * f + 4 + length (fileName (vol fs) f)))"
    and "miniFsFileGetContentLenFromBaseOffset fs (of_nat (128 * f)) =
      Some (of_nat (length (fileContent (vol fs) f)))"
proof -
  note r = file_range [OF wf f] and ff = file_fields [OF m wf f]
  have "(of_nat (128 * f + 3) :: u16) \<noteq> 0" using of_nat16_eq_0 [of "128 * f + 3"] r(6) by simp
  then show off: "miniFsFileGetContentOffsetFromBaseOffset fs (of_nat (128 * f)) =
      Some (of_nat (128 * f + 4 + length (fileName (vol fs) f)))"
    unfolding miniFsFileGetContentOffsetFromBaseOffset_def ff(1,4) Let_def by simp
  have vl: "128 * volUnits (vol fs) \<le> length (vol fs)" using wf by (simp add: volWf_def)
  have len: "length (fileContent (vol fs) f) + (4 + length (fileName (vol fs) f)) = fileTotal (vol fs) f"
    using length_fileContent [OF volWf_used(1) [OF wf f] vl] r(3) by simp
  have "(of_nat (128 * f) + of_nat (fileTotal (vol fs) f) - of_nat (128 * f + 4 + length (fileName (vol fs) f)) :: u16)
      = of_nat (length (fileContent (vol fs) f))"
    unfolding len [symmetric] by simp
  then show "miniFsFileGetContentLenFromBaseOffset fs (of_nat (128 * f)) =
      Some (of_nat (length (fileContent (vol fs) f)))"
    by (simp add: miniFsFileGetContentLenFromBaseOffset_def Let_def ff(3) off del: of_nat_mult of_nat_add)
qed

subsection \<open>Looking up a name\<close>

lemma used_nth:
  assumes "volWf (vol fs)" "k < 126"
  shows "slots (vol fs) ! k = (if k < length (usedFiles (vol fs)) then usedFiles (vol fs) ! k else 0)"
proof -
  have s: "slots (vol fs) = usedFiles (vol fs) @ replicate (126 - length (usedFiles (vol fs))) 0"
    using assms(1) by (simp add: volWf_def)
  show ?thesis using assms(2) by (subst s) (auto simp: nth_append)
qed

lemma slot_matches:
  assumes m: "mounted fs" and wf: "volWf (vol fs)" and k: "k < length (usedFiles (vol fs))"
    and fn: "0 \<notin> set fn"
  shows "miniFsFileGetBaseOffsetFromIndex fs (of_nat k) = of_nat (128 * (usedFiles (vol fs) ! k))"
    and "(of_nat (128 * (usedFiles (vol fs) ! k)) :: u16) \<noteq> 0"
    and "filenameMatches fs (miniFsFileGetFilenameOffsetFromBaseOffset
        (of_nat (128 * (usedFiles (vol fs) ! k)))) fn \<longleftrightarrow>
      fileName (vol fs) (usedFiles (vol fs) ! k) = fn"
proof -
  let ?f = "usedFiles (vol fs) ! k"
  have f: "?f \<in> set (usedFiles (vol fs))" using k by simp
  note r = file_range [OF wf f]
  have l: "128 \<le> length (vol fs)" using wf by (rule volWf_length)
  have k126: "k < 126" using k length_used [OF l] by simp
  show "miniFsFileGetBaseOffsetFromIndex fs (of_nat k) = of_nat (128 * ?f)"
    unfolding base_read [OF m l k126] used_nth [OF wf k126] using k by simp
  show "(of_nat (128 * ?f) :: u16) \<noteq> 0" using r by (intro base_nonzero)
  show "filenameMatches fs (miniFsFileGetFilenameOffsetFromBaseOffset (of_nat (128 * ?f))) fn \<longleftrightarrow>
      fileName (vol fs) ?f = fn"
    unfolding file_fields(1) [OF m wf f] using r fn unfolding fileName_def
    by (intro name_matches [OF m]) linarith+
qed

lemma index_found:
  assumes m: "mounted fs" and wf: "volWf (vol fs)" and k: "k < length (usedFiles (vol fs))"
  shows "miniFsFilenameToIndex fs (fileName (vol fs) (usedFiles (vol fs) ! k)) =
    (of_nat k, of_nat (128 * (usedFiles (vol fs) ! k)))"
proof -
  let ?us = "usedFiles (vol fs)"
  let ?fn = "fileName (vol fs) (?us ! k)"
  have d: "distinct (map (fileName (vol fs)) ?us)" using wf by (simp add: volWf_def)
  have k126: "k < 126" using k length_used [OF volWf_length [OF wf]] by simp
  have "filenameToIndexLoop fs ?fn (map of_nat [j..<126]) = (of_nat k, of_nat (128 * (?us ! k)))"
    if "j \<le> k" for j
    using that
  proof (induction j rule: inc_induct)
    case base
    then show ?case
      using slot_matches [OF m wf k fileName_no_nul] k126
      by (simp add: upt_conv_Cons Let_def del: of_nat_mult)
  next
    case (step j)
    then have j: "j < length ?us" using k by simp
    have "fileName (vol fs) (?us ! j) \<noteq> ?fn"
      using d step(2) k j nth_eq_iff_index_eq [OF d, of j k] by simp
    then show ?case
      using slot_matches [OF m wf j fileName_no_nul [of "vol fs" "?us ! k"]] step k126
      by (simp add: upt_conv_Cons [of j] Let_def del: of_nat_mult)
  qed
  from this [of 0] show ?thesis
    by (simp add: miniFsFilenameToIndex_def miniFsFilenameToIndexKStr_def fileSlots_eq)
qed

lemma index_missing:
  assumes m: "mounted fs" and wf: "volWf (vol fs)" and fn: "0 \<notin> set fn"
    and no: "fn \<notin> fileName (vol fs) ` set (usedFiles (vol fs))"
  shows "miniFsFilenameToIndex fs fn = (126, 0)"
proof -
  let ?us = "usedFiles (vol fs)"
  have l: "128 \<le> length (vol fs)" using wf by (rule volWf_length)
  have "filenameToIndexLoop fs fn (map of_nat [j..<126]) = (126, 0)" if "j \<le> 126" for j
    using that
  proof (induction j rule: inc_induct)
    case base
    show ?case by (simp add: MAXFILES8)
  next
    case (step j)
    show ?case
    proof (cases "j < length ?us")
      case True
      then have "fileName (vol fs) (?us ! j) \<noteq> fn" using no by auto
      then show ?thesis
        using slot_matches [OF m wf True fn] step
        by (simp add: upt_conv_Cons Let_def del: of_nat_mult)
    next
      case False
      then have "miniFsFileGetBaseOffsetFromIndex fs (of_nat j) = 0"
        using base_read [OF m l step(2)] used_nth [OF wf step(2)] by simp
      then show ?thesis using step(2) by (simp add: upt_conv_Cons Let_def MAXFILES8)
    qed
  qed
  from this [of 0] show ?thesis
    by (simp add: miniFsFilenameToIndex_def miniFsFilenameToIndexKStr_def fileSlots_eq)
qed

text \<open>The two cases of a lookup, for the operations that start with one.\<close>

lemma lookup_cases:
  assumes m: "mounted fs" and wf: "volWf (vol fs)" and fn: "0 \<notin> set fn"
  obtains (missing) "volAbs (vol fs) fn = None" "miniFsFilenameToIndex fs fn = (126, 0)"
  | (found) k f where "volAbs (vol fs) fn = Some (fileContent (vol fs) f)"
      "k < length (usedFiles (vol fs))" "f = usedFiles (vol fs) ! k" "f \<in> set (usedFiles (vol fs))"
      "fileName (vol fs) f = fn" "miniFsFilenameToIndex fs fn = (of_nat k, of_nat (128 * f))"
      "(of_nat k :: u8) \<noteq> 126"
proof (cases "fn \<in> fileName (vol fs) ` set (usedFiles (vol fs))")
  case True
  then obtain k where k: "k < length (usedFiles (vol fs))"
    "fn = fileName (vol fs) (usedFiles (vol fs) ! k)"
    by (auto simp: in_set_conv_nth)
  have "k < 126" using k length_used [OF volWf_length [OF wf]] by simp
  then have "(of_nat k :: u8) \<noteq> 126" using unat_of_nat8 [of k] by (auto simp: unat_eq_iff8)
  then show ?thesis
    using k index_found [OF m wf k(1)] volAbs_Some [OF wf, of fn]
    by (intro found [of "usedFiles (vol fs) ! k" k]) auto
next
  case False
  then show ?thesis
    using index_missing [OF m wf fn] volAbs_None [of "vol fs" fn] by (intro missing) auto
qed

subsection \<open>Reading and writing files\<close>

lemma content_range:
  assumes wf: "volWf (vol fs)" and f: "f \<in> set (usedFiles (vol fs))"
  shows "128 * f + 4 + length (fileName (vol fs) f) + length (fileContent (vol fs) f) \<le> length (vol fs)"
    "128 * f + 4 + length (fileName (vol fs) f) + length (fileContent (vol fs) f) \<le> 32768"
proof -
  have vl: "128 * volUnits (vol fs) \<le> length (vol fs)" using wf by (simp add: volWf_def)
  note r = file_range [OF wf f] and lc = length_fileContent [OF volWf_used(1) [OF wf f] vl]
  show "128 * f + 4 + length (fileName (vol fs) f) + length (fileContent (vol fs) f) \<le> length (vol fs)"
    "128 * f + 4 + length (fileName (vol fs) f) + length (fileContent (vol fs) f) \<le> 32768"
    using r(1-3) lc by linarith+
qed

lemma content_slice:
  assumes wf: "volWf (vol fs)" and f: "f \<in> set (usedFiles (vol fs))"
    and n: "off + n \<le> length (fileContent (vol fs) f)"
  shows "take n (drop (128 * f + 4 + length (fileName (vol fs) f) + off) (vol fs)) =
    take n (drop off (fileContent (vol fs) f))"
proof -
  let ?h = "4 + length (fileName (vol fs) f)"
  have vl: "128 * volUnits (vol fs) \<le> length (vol fs)" using wf by (simp add: volWf_def)
  have t: "n \<le> fileTotal (vol fs) f - (?h + off)"
    using n length_fileContent [OF volWf_used(1) [OF wf f] vl] by linarith
  have "drop off (fileContent (vol fs) f) =
      take (fileTotal (vol fs) f - (?h + off)) (drop (128 * f + ?h + off) (vol fs))"
    by (simp add: fileContent_def drop_take add_ac)
  then show ?thesis using t by (simp add: min_def add.assoc)
qed

lemma FileRead_vol:
  assumes m: "mounted fs" and wf: "volWf (vol fs)" and fn: "0 \<notin> set fn"
  shows "miniFsFileRead fs fn off len =
    Some (case volAbs (vol fs) fn of None \<Rightarrow> [] | Some c \<Rightarrow> take (unat len) (drop (unat off) c))"
  using m wf fn
proof (cases rule: lookup_cases)
  case missing
  then show ?thesis
    by (simp add: miniFsFileRead_def miniFsFileReadKStr_def miniFsFilenameToIndex_def MAXFILES8)
next
  case (found k f)
  let ?c = "fileContent (vol fs) f" and ?a = "128 * f + 4 + length (fileName (vol fs) f)"
  note cr = content_range [OF wf found(4)] and cf = content_fields [OF m wf found(4)]
  have lc: "length ?c < 65536" using cr by linarith
  have k: "miniFsFilenameToIndexKStr fs fn = (of_nat k, of_nat (128 * f))"
    using found by (simp add: miniFsFilenameToIndex_def)
  have a0: "(of_nat ?a :: u16) \<noteq> 0" using of_nat16_eq_0 [of ?a] cr by simp
  show ?thesis
  proof (cases "length ?c \<le> unat off")
    case True
    then have "of_nat (length ?c) \<le> off" using lc by (simp add: word_le_nat_alt unat_of_nat16)
    then show ?thesis
      using True by (simp add: miniFsFileRead_def miniFsFileReadKStr_def k found(7) MAXFILES8 cf found(1)
          del: of_nat_add of_nat_mult)
  next
    case False
    let ?d = "of_nat (length ?c) - off"
    let ?n = "if len > ?d then ?d else len"
    have gt: "\<not> of_nat (length ?c) \<le> off" using False lc by (simp add: word_le_nat_alt unat_of_nat16)
    have "off \<le> of_nat (length ?c)" using gt by simp
    then have d: "unat ?d = length ?c - unat off"
      using lc by (simp add: unat_sub unat_of_nat16)
    have n: "unat ?n = min (unat len) (length ?c - unat off)"
      using d by (simp add: word_less_nat_alt min_def)
    have oa: "of_nat ?a + off = (of_nat (?a + unat off) :: u16)" by simp
    have ua: "unat (of_nat (?a + unat off) :: u16) = ?a + unat off"
      using False cr by (intro unat_of_nat16) linarith
    have "unat ?n \<le> length ?c - unat off" unfolding n by simp
    then have "?a + unat off + unat ?n \<le> length (vol fs)" using False cr(1) by linarith
    then have "miniFsRead fs (of_nat (?a + unat off)) ?n = take (unat ?n) (drop (?a + unat off) (vol fs))"
      using read_bytes [OF m, of "of_nat (?a + unat off)" ?n] unfolding ua by blast
    also have "\<dots> = take (unat ?n) (drop (unat off) ?c)"
      using False n by (intro content_slice [OF wf found(4)]) auto
    also have "\<dots> = take (unat len) (drop (unat off) ?c)" unfolding n by (simp add: min_def)
    finally have rd: "miniFsRead fs (of_nat ?a + off) ?n = take (unat len) (drop (unat off) ?c)"
      unfolding oa .
    show ?thesis
      unfolding miniFsFileRead_def miniFsFileReadKStr_def k prod.case MAXFILES8 if_not_P [OF found(7)]
        cf bind.bind_lunit if_not_P [OF gt] Let_def if_not_P [OF a0] found(1) option.case rd ..
  qed
qed

lemma FileWrite_vol:
  assumes m: "mounted fs" and wf: "volWf (vol fs)" and fn: "0 \<notin> set fn"
    and data: "length data < 65536"
  obtains n fs' where "miniFsFileWrite fs fn off data = Some (n, fs')" "mounted fs'" "volWf (vol fs')"
    "length (vol fs') = length (vol fs)"
    "case volAbs (vol fs) fn of
       None \<Rightarrow> n = 0 \<and> vol fs' = vol fs
     | Some c \<Rightarrow> unat n = min (length data) (length c - unat off) \<and>
         volAbs (vol fs') = (volAbs (vol fs))(fn \<mapsto>
           (if unat off < length c then splice_at (unat off) (take (unat n) data) c else c))"
  using m wf fn
proof (cases rule: lookup_cases)
  case missing
  then have "miniFsFileWrite fs fn off data = Some (0, fs)"
    by (simp add: miniFsFileWrite_def not_read_only [OF m] MAXFILES8)
  then show ?thesis using m wf missing by (intro that [of 0 fs]) auto
next
  case (found k f)
  let ?c = "fileContent (vol fs) f" and ?a = "128 * f + 4 + length (fileName (vol fs) f)"
  note cr = content_range [OF wf found(4)] and cf = content_fields [OF m wf found(4)]
  have lc: "length ?c < 65536" using cr by linarith
  have a0: "(of_nat ?a :: u16) \<noteq> 0" using of_nat16_eq_0 [of ?a] cr by simp
  show ?thesis
  proof (cases "length ?c \<le> unat off")
    case True
    then have "of_nat (length ?c) \<le> off" using lc by (simp add: word_le_nat_alt unat_of_nat16)
    then have "miniFsFileWrite fs fn off data = Some (0, fs)"
      by (simp add: miniFsFileWrite_def not_read_only [OF m] found(6,7) MAXFILES8 cf
          del: of_nat_add of_nat_mult)
    then show ?thesis using m wf found True by (intro that [of 0 fs]) (auto simp: fun_upd_idem)
  next
    case False
    let ?d = "take (length ?c - unat off) data"
    have gt: "\<not> of_nat (length ?c) \<le> off" using False lc by (simp add: word_le_nat_alt unat_of_nat16)
    have "off \<le> of_nat (length ?c)" using gt by simp
    then have d: "unat (of_nat (length ?c) - off) = length ?c - unat off"
      using lc by (simp add: unat_sub unat_of_nat16)
    have oa: "of_nat ?a + off = (of_nat (?a + unat off) :: u16)" by simp
    have ld: "length ?d < 65536" using data by simp
    have inr: "?a + unat off + length ?d \<le> length (vol fs)" using False cr by simp
    obtain fs' where w: "miniFsWrite fs (of_nat (?a + unat off)) ?d = Some (of_nat (length ?d), fs')"
      "mounted fs'" "vol fs' = splice_at (?a + unat off) ?d (vol fs)"
      using False cr ld inr by (elim write_bytes [OF m, rotated -1]) linarith+
    have e: "miniFsFileWrite fs fn off data = Some (of_nat (length ?d), fs')"
      unfolding miniFsFileWrite_def if_not_P [OF not_read_only [OF m]] found(6) prod.case MAXFILES8
        if_not_P [OF found(7)] cf bind.bind_lunit if_not_P [OF gt] Let_def if_not_P [OF a0] d oa
      by (rule w(1))
    have v: "volWf (vol fs') \<and> usedFiles (vol fs') = usedFiles (vol fs) \<and>
        length (vol fs') = length (vol fs) \<and>
        volAbs (vol fs') = (volAbs (vol fs))(fileName (vol fs) f \<mapsto> splice_at (unat off) ?d ?c)"
      using False by (intro vol_write_content [OF wf found(4) _ w(3)]) auto
    have n: "unat (of_nat (length ?d) :: u16) = min (length data) (length ?c - unat off)"
      unfolding unat_of_nat16 [OF ld] by simp
    show ?thesis
      by (rule that [OF e w(2)]) (use v found(1,5) n False in \<open>auto simp: min_def\<close>)
  qed
qed

end

end
