(* ===== verification/MiniFsHeader.thy ===== *)
theory MiniFsHeader
  imports MiniFsStore "HOL-Library.Multiset"
begin

text \<open>
  The sorted list of file starts in the header of a MiniFs volume: the bubble sort that the
  operations end with puts the files in ascending order before the zeros and touches nothing else,
  and the volume's own consistency check accepts every well-formed volume.
\<close>

section \<open>The order of the header\<close>

text \<open>A free slot counts as larger than any file.\<close>

definition slotKey :: "nat \<Rightarrow> nat" where
  "slotKey f = (if f = 0 then 256 else f)"

lemma swap_condition:
  "a < 256 \<Longrightarrow> b < 256 \<Longrightarrow> (b \<noteq> 0 \<and> (a = 0 \<or> a > b)) \<longleftrightarrow> slotKey b < slotKey a"
  by (auto simp: slotKey_def)

lemma sorted_slots_shape:
  assumes "sorted (map slotKey s)" "\<forall>f \<in> set s. f < 256"
  shows "s = sort (filter (\<lambda>f. f \<noteq> 0) s) @ replicate (length s - length (filter (\<lambda>f. f \<noteq> 0) s)) 0"
  using assms
proof (induction s)
  case (Cons x s)
  show ?case
  proof (cases "x = 0")
    case True
    then have "f = 0" if "f \<in> set s" for f
    proof -
      have "256 \<le> slotKey f" using Cons.prems True that by (simp add: slotKey_def)
      then show ?thesis using Cons.prems that by (auto simp: slotKey_def split: if_splits)
    qed
    then have all: "x # s = replicate (length (x # s)) 0" and none: "filter (\<lambda>f. f \<noteq> 0) (x # s) = []"
      using True by (auto simp: replicate_length_same filter_empty_conv)
    show ?thesis using all unfolding none by simp
  next
    case False
    have "x \<le> f" if "f \<in> set (filter (\<lambda>f. f \<noteq> 0) s)" for f
      using that Cons.prems False by (auto simp: slotKey_def split: if_splits)
    then have "sort (filter (\<lambda>f. f \<noteq> 0) (x # s)) = x # sort (filter (\<lambda>f. f \<noteq> 0) s)"
      using False by (simp add: insort_is_Cons)
    then show ?thesis using Cons False by simp
  qed
qed simp

section \<open>One pass and the whole sort\<close>

lemma resortPass_append:
  "resortPass fs (is @ js) c = Option.bind (resortPass fs is c) (\<lambda>(fs', c'). resortPass fs' js c')"
  by (induction fs "is" c rule: resortPass.induct)
    (auto simp: Let_def split: Option.bind_splits)

definition sameBody :: "u8 list \<Rightarrow> u8 list \<Rightarrow> bool" where
  "sameBody v v' \<longleftrightarrow> length v' = length v \<and> (\<forall>i < length v. i < 2 \<or> 128 \<le> i \<longrightarrow> v' ! i = v ! i)"

lemma sameBody_refl [simp]: "sameBody v v"
  by (simp add: sameBody_def)

lemma sameBody_trans: "sameBody v w \<Longrightarrow> sameBody w x \<Longrightarrow> sameBody v x"
  by (simp add: sameBody_def)

lemma slots_update:
  assumes "128 \<le> length v" "i < 126"
  shows "slots (v[2 + i := b]) = (slots v)[i := unat b]" "sameBody v (v[2 + i := b])"
proof -
  show "slots (v[2 + i := b]) = (slots v)[i := unat b]"
    using assms by (simp add: slots_def drop_update_swap take_update_swap map_update)
  show "sameBody v (v[2 + i := b])" using assms by (auto simp: sameBody_def nth_list_update)
qed

lemma mset_swap_list:
  "i < length xs \<Longrightarrow> j < length xs \<Longrightarrow> mset (xs[i := xs ! j, j := xs ! i]) = mset xs"
  by (rule mset_swap)

lemma sorted_wrt_remove1: "sorted_wrt P xs \<Longrightarrow> sorted_wrt P (remove1 x xs)"
  by (induction xs) (auto dest: notin_set_remove1 [THEN contrapos_pp] set_remove1_subset [THEN subsetD])

lemma distinct_mapI: "distinct (map f xs) \<Longrightarrow> distinct xs"
  by (simp add: distinct_map)

lemma used_sorted:
  assumes "volWf v" "i \<le> j" "j < length (usedFiles v)"
  shows "usedFiles v ! i \<le> usedFiles v ! j"
proof (cases "i = j")
  case False
  then have "usedFiles v ! i + fileUnits v (usedFiles v ! i) \<le> usedFiles v ! j"
    using assms sorted_wrt_nth_less [of "\<lambda>f g. f + fileUnits v f \<le> g" "usedFiles v" i j]
    by (simp add: volWf_def)
  then show ?thesis by simp
qed simp

lemma filter_used:
  assumes "volWf v"
  shows "filter (\<lambda>f. f \<noteq> 0) (slots v) = usedFiles v"
proof -
  have "slots v = usedFiles v @ replicate (126 - length (usedFiles v)) 0"
    using assms by (simp add: volWf_def)
  then have "filter (\<lambda>f. f \<noteq> 0) (slots v) =
      filter (\<lambda>f. f \<noteq> 0) (usedFiles v @ replicate (126 - length (usedFiles v)) 0)" by (rule arg_cong)
  also have "\<dots> = filter (\<lambda>f. f \<noteq> 0) (usedFiles v)" by simp
  also have "\<dots> = usedFiles v" using used_nonzero by (intro filter_True) fastforce
  finally show ?thesis .
qed

lemma used_distinct_sorted:
  assumes "volWf v"
  shows "distinct (usedFiles v)" "sorted (usedFiles v)"
proof -
  show "distinct (usedFiles v)" using assms by (auto simp: volWf_def dest: distinct_mapI)
  show "sorted (usedFiles v)"
    using used_sorted [OF assms] by (simp add: sorted_iff_nth_mono)
qed

context byte_store
begin

lemma slot_write:
  assumes "mounted fs" "128 \<le> length (vol fs)" "i < 126"
  obtains fs' where "miniFsWriteByte fs (slotAddr (of_nat i)) b = Some fs'" "mounted fs'"
    "slots (vol fs') = (slots (vol fs))[i := unat b]" "sameBody (vol fs) (vol fs')"
proof -
  obtain fs' where "miniFsWriteByte fs (of_nat (2 + i)) b = Some fs'" "mounted fs'"
    "vol fs' = (vol fs)[2 + i := b]"
    using assms by (elim write_byte [of fs "2 + i"]) linarith+
  then show ?thesis
    using slots_update [OF assms(2,3)] unfolding slotAddr_of_nat [OF assms(3), symmetric]
    by (intro that [of fs']) simp_all
qed

lemma resort_step:
  assumes m: "mounted fs" and l: "128 \<le> length (vol fs)" and i: "0 < i" "i < 126"
  defines "s \<equiv> slots (vol fs)"
  obtains fs' c' where "resortPass fs [of_nat i] c = Some (fs', c')" "mounted fs'"
    "sameBody (vol fs) (vol fs')"
    "slots (vol fs') = (if slotKey (s ! i) < slotKey (s ! (i - 1)) then s[i - 1 := s ! i, i := s ! (i - 1)] else s)"
    "c' = (c \<or> slotKey (s ! i) < slotKey (s ! (i - 1)))" "\<not> c' \<Longrightarrow> fs' = fs"
proof -
  have p: "(of_nat i - 1 :: u8) = of_nat (i - 1)" using i by (simp add: of_nat_diff)
  let ?a = "miniFsFileGetBaseOffsetFactorFromIndex fs (of_nat (i - 1))"
  let ?b = "miniFsFileGetBaseOffsetFactorFromIndex fs (of_nat i)"
  have i1: "i - 1 < 126" using i by simp
  have a: "unat ?a = s ! (i - 1)" and b: "unat ?b = s ! i"
    unfolding s_def using slot_read [OF m l i1] slot_read [OF m l i(2)] by simp_all
  have cond: "(?b \<noteq> 0 \<and> (?a = 0 \<or> ?a > ?b)) \<longleftrightarrow> slotKey (s ! i) < slotKey (s ! (i - 1))"
    using swap_condition [of "s ! (i - 1)" "s ! i"] unfolding a [symmetric] b [symmetric]
    by (simp add: unat_eq_0 word_less_nat_alt)
  show ?thesis
  proof (cases "slotKey (s ! i) < slotKey (s ! (i - 1))")
    case True
    obtain fs1 where f1: "miniFsWriteByte fs (slotAddr (of_nat (i - 1))) ?b = Some fs1" "mounted fs1"
      "slots (vol fs1) = s[i - 1 := s ! i]" "sameBody (vol fs) (vol fs1)"
      using slot_write [OF m l i1, of ?b] unfolding b s_def by blast
    have l1: "128 \<le> length (vol fs1)" using l f1(4) by (simp add: sameBody_def)
    obtain fs2 where f2: "miniFsWriteByte fs1 (slotAddr (of_nat i)) ?a = Some fs2" "mounted fs2"
      "slots (vol fs2) = s[i - 1 := s ! i, i := s ! (i - 1)]" "sameBody (vol fs1) (vol fs2)"
      using slot_write [OF f1(2) l1 i(2), of ?a] unfolding a f1(3) by blast
    show ?thesis
    proof (rule that [of fs2 True])
      show "resortPass fs [of_nat i] c = Some (fs2, True)"
        using True cond f1(1) f2(1) by (simp add: p Let_def)
    qed (use True f1 f2 sameBody_trans in auto)
  next
    case False
    then show ?thesis
      using cond m by (intro that [of fs c]) (auto simp: p Let_def s_def)
  qed
qed

text \<open>After the pass over the first \<open>n\<close> slots the largest of them is the last of them.\<close>

lemma resort_pass:
  assumes m: "mounted fs" and l: "128 \<le> length (vol fs)" and n: "n \<le> 126"
  defines "s \<equiv> slots (vol fs)"
  shows "\<exists>fs' c. resortPass fs (map of_nat [1..<n]) False = Some (fs', c) \<and> mounted fs' \<and>
    sameBody (vol fs) (vol fs') \<and> mset (take n (slots (vol fs'))) = mset (take n s) \<and>
    drop n (slots (vol fs')) = drop n s \<and>
    (\<forall>j < n. slotKey (slots (vol fs') ! j) \<le> slotKey (slots (vol fs') ! (n - 1))) \<and>
    (\<not> c \<longrightarrow> fs' = fs \<and> sorted (map slotKey (take n s)))"
  using n
proof (induction n)
  case 0
  have "resortPass fs (map of_nat [1..<0]) False = Some (fs, False)" by simp
  then show ?case using m by (intro exI [of _ fs] exI [of _ False]) (simp add: s_def)
next
  case (Suc n)
  show ?case
  proof (cases "n = 0")
    case True
    have "0 < length s" using l by (simp add: s_def length_slots)
    then show ?thesis
      using True m by (intro exI [of _ fs] exI [of _ False]) (simp add: s_def take_Suc_conv_app_nth)
  next
    case False
    then have up: "map of_nat [1..<Suc n] = map of_nat [1..<n] @ [of_nat n :: u8]" by simp
    obtain fs1 c1 where 1: "resortPass fs (map of_nat [1..<n]) False = Some (fs1, c1)" "mounted fs1"
      "sameBody (vol fs) (vol fs1)" "mset (take n (slots (vol fs1))) = mset (take n s)"
      "drop n (slots (vol fs1)) = drop n s"
      "\<forall>j < n. slotKey (slots (vol fs1) ! j) \<le> slotKey (slots (vol fs1) ! (n - 1))"
      "\<not> c1 \<longrightarrow> fs1 = fs \<and> sorted (map slotKey (take n s))"
      using Suc by auto
    let ?t = "slots (vol fs1)"
    have l1: "128 \<le> length (vol fs1)" using l 1(3) by (simp add: sameBody_def)
    have lt: "length ?t = 126" "length s = 126" using l l1 by (simp_all add: s_def length_slots)
    have n126: "n < 126" "0 < n" using Suc.prems False by simp_all
    obtain fs2 c2 where 2: "resortPass fs1 [of_nat n] c1 = Some (fs2, c2)" "mounted fs2"
      "sameBody (vol fs1) (vol fs2)"
      "slots (vol fs2) = (if slotKey (?t ! n) < slotKey (?t ! (n - 1))
         then ?t[n - 1 := ?t ! n, n := ?t ! (n - 1)] else ?t)"
      "c2 = (c1 \<or> slotKey (?t ! n) < slotKey (?t ! (n - 1)))" "\<not> c2 \<Longrightarrow> fs2 = fs1"
      using resort_step [OF 1(2) l1 n126(2,1)] by metis
    have run: "resortPass fs (map of_nat [1..<Suc n]) False = Some (fs2, c2)"
      unfolding up resortPass_append 1(1) bind.bind_lunit prod.case by (rule 2(1))
    have tn: "?t ! n = s ! n" using arg_cong [OF 1(5), of hd] lt n126 by (simp add: hd_drop_conv_nth)
    have tk: "mset (take (Suc n) ?t) = mset (take (Suc n) s)"
      using 1(4) lt n126 tn by (simp add: take_Suc_conv_app_nth)
    have dr: "drop (Suc n) ?t = drop (Suc n) s"
      using arg_cong [OF 1(5), of "drop 1"] by (simp add: drop_drop)
    have swap: "take (Suc n) (?t[n - 1 := ?t ! n, n := ?t ! (n - 1)]) =
        (take (Suc n) ?t)[n - 1 := take (Suc n) ?t ! n, n := take (Suc n) ?t ! (n - 1)]"
      using n126 lt by (simp add: take_update_swap)
    have ms: "mset (take (Suc n) (slots (vol fs2))) = mset (take (Suc n) s)"
    proof (cases "slotKey (?t ! n) < slotKey (?t ! (n - 1))")
      case True
      have "mset ((take (Suc n) ?t)[n - 1 := take (Suc n) ?t ! n, n := take (Suc n) ?t ! (n - 1)]) =
          mset (take (Suc n) ?t)"
        using n126 lt by (intro mset_swap_list) simp_all
      then show ?thesis using True 2(4) swap tk by simp
    qed (use 2(4) tk in simp)
    have ds: "drop (Suc n) (slots (vol fs2)) = drop (Suc n) s"
      using 2(4) dr n126 by (simp add: drop_update_cancel)
    have mx: "slotKey (slots (vol fs2) ! j) \<le> slotKey (slots (vol fs2) ! n)" if "j < Suc n" for j
    proof -
      have "slotKey (?t ! j) \<le> slotKey (?t ! (n - 1))" if "j < n" using 1(6) that by blast
      then show ?thesis using that lt n126 2(4) by (auto simp: nth_list_update less_Suc_eq)
    qed
    have st: "fs2 = fs \<and> sorted (map slotKey (take (Suc n) s))" if "\<not> c2"
    proof -
      have c: "\<not> c1" "\<not> slotKey (?t ! n) < slotKey (?t ! (n - 1))" "fs2 = fs1"
        using that 2(5,6) by auto
      then have "fs1 = fs" and so: "sorted (map slotKey (take n s))" using 1(7) by auto
      then have eq: "?t = s" by (simp add: s_def)
      have "slotKey f \<le> slotKey (s ! n)" if "f \<in> set (take n s)" for f
      proof -
        from that obtain j where "j < n" "f = s ! j" using lt n126 by (auto simp: in_set_conv_nth)
        then show ?thesis using 1(6) c(2) unfolding eq by (metis le_trans not_less)
      qed
      then show ?thesis
        using so c(3) \<open>fs1 = fs\<close> lt n126 by (auto simp: take_Suc_conv_app_nth sorted_append)
    qed
    show ?thesis
      using run 2(2) sameBody_trans [OF 1(3) 2(3)] ms ds mx st by auto
  qed
qed

text \<open>A pass over slots that are in order changes nothing, and it is the only one.\<close>

lemma resort_pass_sorted:
  assumes m: "mounted fs" and l: "128 \<le> length (vol fs)" and s: "sorted (map slotKey (slots (vol fs)))"
  shows "n \<le> 126 \<Longrightarrow> resortPass fs (map of_nat [1..<n]) False = Some (fs, False)"
proof (induction n)
  case (Suc n)
  let ?s = "slots (vol fs)"
  show ?case
  proof (cases "n = 0")
    case False
    then have up: "map of_nat [1..<Suc n] = map of_nat [1..<n] @ [of_nat n :: u8]" by simp
    have n: "0 < n" "n < 126" using Suc.prems False by simp_all
    have "length ?s = 126" using l by (rule length_slots)
    then have "slotKey (?s ! (n - 1)) \<le> slotKey (?s ! n)"
      using s n by (auto simp: sorted_iff_nth_mono)
    then have le: "\<not> slotKey (?s ! n) < slotKey (?s ! (n - 1))" by simp
    obtain fs' c' where r: "resortPass fs [of_nat n] False = Some (fs', c')"
      "c' = (False \<or> slotKey (?s ! n) < slotKey (?s ! (n - 1)))" "\<not> c' \<Longrightarrow> fs' = fs"
      using resort_step [OF m l n, of False] by metis
    have "c' = False" using r(2) le by simp
    then have "resortPass fs [of_nat n] False = Some (fs, False)" using r(1,3) by simp
    then show ?thesis
      unfolding up resortPass_append using Suc by (simp del: of_nat_Suc resortPass.simps)
  qed simp
qed simp

lemma resort_sorted:
  assumes "mounted fs" "128 \<le> length (vol fs)" "sorted (map slotKey (slots (vol fs)))"
  shows "miniFsResortFileOffsets fs = Some fs"
  using resort_pass_sorted [OF assms, of 126]
  by (simp add: miniFsResortFileOffsets_def resortLoop.simps [of fs] MINIFSMAXFILES_def MINIFSFACTOR_def)

lemma resort_loop:
  assumes "mounted fs" "128 \<le> length (vol fs)" "n \<le> 126"
    and "\<And>i j. i < j \<Longrightarrow> n \<le> j \<Longrightarrow> j < 126 \<Longrightarrow> slotKey (slots (vol fs) ! i) \<le> slotKey (slots (vol fs) ! j)"
  shows "\<exists>fs'. resortLoop fs n = Some fs' \<and> mounted fs' \<and> sameBody (vol fs) (vol fs') \<and>
    mset (slots (vol fs')) = mset (slots (vol fs)) \<and> sorted (map slotKey (slots (vol fs')))"
  using assms
proof (induction n arbitrary: fs rule: less_induct)
  case (less n)
  let ?s = "slots (vol fs)"
  obtain fs1 c where 1: "resortPass fs (map of_nat [1..<n]) False = Some (fs1, c)" "mounted fs1"
    "sameBody (vol fs) (vol fs1)" "mset (take n (slots (vol fs1))) = mset (take n ?s)"
    "drop n (slots (vol fs1)) = drop n ?s"
    "\<forall>j < n. slotKey (slots (vol fs1) ! j) \<le> slotKey (slots (vol fs1) ! (n - 1))"
    "\<not> c \<longrightarrow> fs1 = fs \<and> sorted (map slotKey (take n ?s))"
    using resort_pass [OF less.prems(1-3)] by auto
  let ?t = "slots (vol fs1)"
  have l1: "128 \<le> length (vol fs1)" using less.prems(2) 1(3) by (simp add: sameBody_def)
  have lt: "length ?t = 126" "length ?s = 126" using less.prems(2) l1 by (simp_all add: length_slots)
  have ms: "mset ?t = mset ?s"
    using 1(4,5) by (metis append_take_drop_id mset_append)
  show ?case
  proof (cases c)
    case False
    then have fs: "fs1 = fs" "sorted (map slotKey (take n ?s))" using 1(7) by auto
    have "sorted (map slotKey ?s)"
    proof (unfold sorted_iff_nth_mono_less, intro allI impI)
      fix i j assume ij: "i < j" "j < length (map slotKey ?s)"
      show "map slotKey ?s ! i \<le> map slotKey ?s ! j"
      proof (cases "n \<le> j")
        case True
        then show ?thesis using less.prems(4) [of i j] ij lt by simp
      next
        case False
        then have "j < length (map slotKey (take n ?s))" using ij by simp
        then have "map slotKey (take n ?s) ! i \<le> map slotKey (take n ?s) ! j"
          using fs(2) ij(1) unfolding sorted_iff_nth_mono_less by blast
        then show ?thesis using False ij by simp
      qed
    qed
    then show ?thesis
      using 1 False fs less.prems(1) by (subst resortLoop.simps) simp
  next
    case True
    have n0: "0 < n" using True 1(1) by (cases n) auto
    have le: "slotKey (?t ! i) \<le> slotKey (?t ! j)" if ij: "i < j" "n - 1 \<le> j" "j < 126" for i j
    proof (cases "j < n")
      case True
      then have "j = n - 1" using ij by simp
      then show ?thesis using 1(6) ij n0 by simp
    next
      case False
      then have tj: "?t ! j = ?s ! j"
        using arg_cong [OF 1(5), of "\<lambda>xs. xs ! (j - n)"] ij lt less.prems(3) by simp
      show ?thesis
      proof (cases "i < n")
        case True
        then have "?t ! i \<in> set (take n ?t)" using lt less.prems(3) by (auto simp: in_set_conv_nth)
        then have "?t ! i \<in> set (take n ?s)" using 1(4) by (metis set_mset_mset)
        then obtain k where "k < n" "?t ! i = ?s ! k" using lt by (auto simp: in_set_conv_nth)
        then show ?thesis using less.prems(4) [of k j] False ij tj by simp
      next
        case i: False
        then have "?t ! i = ?s ! i"
          using arg_cong [OF 1(5), of "\<lambda>xs. xs ! (i - n)"] ij lt less.prems(3) by simp
        then show ?thesis using less.prems(4) [of i j] False ij tj by simp
      qed
    qed
    have n1: "n - 1 < n" "n - 1 \<le> 126" using n0 less.prems(3) by simp_all
    obtain fs2 where "resortLoop fs1 (n - 1) = Some fs2" "mounted fs2" "sameBody (vol fs1) (vol fs2)"
      "mset (slots (vol fs2)) = mset ?t" "sorted (map slotKey (slots (vol fs2)))"
      using less.IH [OF n1(1) 1(2) l1 n1(2) le] by auto
    then show ?thesis
      using 1(1) True sameBody_trans [OF 1(3)] ms by (subst resortLoop.simps) simp
  qed
qed

lemma resort_header:
  assumes m: "mounted fs" and l: "128 \<le> length (vol fs)"
  obtains fs' where "miniFsResortFileOffsets fs = Some fs'" "mounted fs'" "sameBody (vol fs) (vol fs')"
    "slots (vol fs') = sort (filter (\<lambda>f. f \<noteq> 0) (slots (vol fs))) @
       replicate (126 - length (filter (\<lambda>f. f \<noteq> 0) (slots (vol fs)))) 0"
proof -
  obtain fs' where r: "resortLoop fs 126 = Some fs'" "mounted fs'" "sameBody (vol fs) (vol fs')"
    "mset (slots (vol fs')) = mset (slots (vol fs))" "sorted (map slotKey (slots (vol fs')))"
    using resort_loop [OF m l, of 126] by auto
  have "length (slots (vol fs')) = 126" using r(4) l by (metis length_slots size_mset)
  moreover have fm: "mset (filter (\<lambda>f. f \<noteq> 0) (slots (vol fs'))) = mset (filter (\<lambda>f. f \<noteq> 0) (slots (vol fs)))"
    using r(4) by simp
  moreover have "sort (filter (\<lambda>f. f \<noteq> 0) (slots (vol fs'))) = sort (filter (\<lambda>f. f \<noteq> 0) (slots (vol fs)))"
    using fm by (metis mset_sort properties_for_sort sorted_sort)
  moreover have "length (filter (\<lambda>f. f \<noteq> 0) (slots (vol fs'))) = length (filter (\<lambda>f. f \<noteq> 0) (slots (vol fs)))"
    using fm by (metis size_mset)
  ultimately show ?thesis
    using sorted_slots_shape [OF r(5)] slots_less r(1-3)
    by (intro that [of fs']) (auto simp: miniFsResortFileOffsets_def MINIFSMAXFILES_def MINIFSFACTOR_def)
qed

text \<open>A well-formed volume passes the code's own check, so the assertions after each change hold.\<close>

lemma consistent_used:
  assumes m: "mounted fs" and l: "128 \<le> length (vol fs)"
    and sh: "slots (vol fs) = us @ replicate (126 - length us) 0" "0 \<notin> set us" "length us \<le> 126"
    and so: "sorted us" and j: "j \<le> length us"
    and p: "\<forall>k. j \<le> k \<longrightarrow> k < length us \<longrightarrow> unat p \<le> us ! k"
  shows "consistentUsed fs p (map of_nat [j..<126]) = Some (map of_nat [length us..<126])"
  using j p
proof (induction j arbitrary: p rule: inc_induct)
  have at: "slots (vol fs) ! k = (if k < length us then us ! k else 0)" if "k < 126" for k
    using that unfolding sh(1) by (simp add: nth_append)
  {
    case base
    show ?case
    proof (cases "length us < 126")
      case True
      then have "miniFsFileGetBaseOffsetFactorFromIndex fs (of_nat (length us)) = 0"
        using slot_read [OF m l True] at [OF True] by (simp add: unat_eq_0)
      then show ?thesis using True by (simp add: upt_conv_Cons Let_def)
    qed (use sh(3) in simp)
  next
    case (step j)
    let ?f = "miniFsFileGetBaseOffsetFactorFromIndex fs (of_nat j)"
    have j126: "j < 126" using step(2) sh(3) by simp
    have f: "unat ?f = us ! j" using slot_read [OF m l j126] at [OF j126] step(2) by simp
    have "us ! j \<noteq> 0" using sh(2) step(2) by (metis nth_mem)
    then have f0: "?f \<noteq> 0" "\<not> unat ?f < MINIFSFILEMINOFFSETFACTOR"
      using f by (auto simp: minifs_consts)
    have "\<not> ?f < p" using step(2,4) f by (simp add: word_less_nat_alt not_less)
    moreover have "consistentUsed fs ?f (map of_nat [Suc j..<126]) = Some (map of_nat [length us..<126])"
    proof (rule step(3), intro allI impI)
      fix k assume "Suc j \<le> k" "k < length us"
      then show "unat ?f \<le> us ! k" unfolding f using so by (simp add: sorted_nth_mono)
    qed
    ultimately show ?case using f0 j126 by (simp add: upt_conv_Cons Let_def)
  }
qed

lemma consistent_of_header:
  assumes m: "mounted fs" and l: "128 \<le> length (vol fs)" and mg: "vol fs ! 0 = 53"
    and sh: "slots (vol fs) = us @ replicate (126 - length us) 0" "0 \<notin> set us" "length us \<le> 126"
    and so: "sorted us"
  shows "miniFsIsConsistent fs"
proof -
  have at: "slots (vol fs) ! k = (if k < length us then us ! k else 0)" if "k < 126" for k
    using that unfolding sh(1) by (simp add: nth_append)
  have "miniFsReadByte fs MINIFSHEADERMAGICBYTEADDR = MINIFSHEADERMAGICBYTEVALUE"
  proof -
    have "miniFsReadByte fs (of_nat 0) = vol fs ! 0" using l by (intro read_byte [OF m]) auto
    then show ?thesis using mg by (simp add: minifs_consts)
  qed
  moreover have "unat (miniFsGetTotalSize fs) = 128 * volUnits (vol fs)"
  proof -
    let ?x = "miniFsGetTotalSizeFactorMinusOne fs"
    have "(ucast ?x + 1) * of_nat MINIFSFACTOR = (of_nat (128 * (unat ?x + 1)) :: u16)"
      unfolding ucast_u8_u16 MINIFSFACTOR_def by (simp add: mult.commute)
    then show ?thesis
      unfolding miniFsGetTotalSize_def total_units_read [OF m l] using volUnits_bounds(2) [of "vol fs"]
      by (simp add: unat_of_nat16 del: of_nat_mult)
  qed
  moreover have "consistentUsed fs 0 fileSlots = Some (map of_nat [length us..<126])"
    unfolding fileSlots_eq by (intro consistent_used [OF m l sh so]) simp_all
  moreover have "list_all (\<lambda>i. miniFsFileGetBaseOffsetFactorFromIndex fs i = 0) (map of_nat [length us..<126])"
  proof (unfold list_all_iff, intro ballI)
    fix i :: u8 assume "i \<in> set (map of_nat [length us..<126])"
    then obtain k where k: "i = of_nat k" "length us \<le> k" "k < 126" by auto
    then show "miniFsFileGetBaseOffsetFactorFromIndex fs i = 0"
      using slot_read [OF m l k(3)] at [OF k(3)] by (simp add: unat_eq_0)
  qed
  ultimately show ?thesis
    using volUnits_bounds [of "vol fs"] by (simp add: miniFsIsConsistent_def Let_def minifs_consts)
qed

lemma consistent_of_wf:
  assumes m: "mounted fs" and wf: "volWf (vol fs)"
  shows "miniFsIsConsistent fs"
proof (rule consistent_of_header [OF m volWf_length [OF wf]])
  show "vol fs ! 0 = 53"
    "slots (vol fs) = usedFiles (vol fs) @ replicate (126 - length (usedFiles (vol fs))) 0"
    using wf by (simp_all add: volWf_def)
  show "0 \<notin> set (usedFiles (vol fs))" using used_nonzero by blast
  show "length (usedFiles (vol fs)) \<le> 126" using wf by (intro length_used volWf_length)
  show "sorted (usedFiles (vol fs))" using wf by (rule used_distinct_sorted(2))
qed

subsection \<open>Changing the list of files\<close>

text \<open>A well-formed list of files of an old volume, in the header of a volume with the same body.\<close>

lemma new_header_wf:
  assumes wf: "volWf (vol fs)" and b: "sameBody (vol fs) v'"
    and s: "slots v' = us @ replicate (126 - length us) 0" and sub: "set us \<subseteq> set (usedFiles (vol fs))"
    and so: "sorted_wrt (\<lambda>f g. f + fileUnits (vol fs) f \<le> g) us" and d: "distinct us"
  shows "volWf v' \<and> usedFiles v' = us \<and> length v' = length (vol fs) \<and>
    (\<forall>f \<in> set us. fileName v' f = fileName (vol fs) f \<and> fileContent v' f = fileContent (vol fs) f)"
proof -
  let ?v = "vol fs"
  have len: "length v' = length ?v" using b by (simp add: sameBody_def)
  have l: "128 \<le> length ?v" using wf by (rule volWf_length)
  have "v' ! i = ?v ! i" if "i < 2" for i using that b l by (auto simp: sameBody_def)
  from this [of 0] this [of 1] have h: "v' ! 0 = ?v ! 0" "v' ! 1 = ?v ! 1" by simp_all
  have same: "fileOk v' f \<and> fileUnits v' f = fileUnits ?v f \<and> fileName v' f = fileName ?v f \<and>
      fileContent v' f = fileContent ?v f" if "f \<in> set us" for f
  proof -
    have f: "f \<in> set (usedFiles ?v)" using that sub by blast
    show ?thesis
    proof (rule files_kept [OF wf len h(2) f])
      fix i assume "128 * f \<le> i" "i < 128 * (f + fileUnits ?v f)"
      then have "128 \<le> i" "i < length ?v" using volWf_used(3,4) [OF wf f] by linarith+
      then show "v' ! i = ?v ! i" using b by (simp add: sameBody_def)
    qed
  qed
  have u: "volUnits v' = volUnits ?v" by (simp only: volUnits_def h)
  have inj: "inj_on (fileName ?v) (set us)"
    using wf sub by (auto simp: volWf_def distinct_map intro: inj_on_subset)
  have "map (fileName v') us = map (fileName ?v) us" using same by simp
  then have "distinct (map (fileName v') us)" using inj d by (metis distinct_map)
  moreover have "sorted_wrt (\<lambda>f g. f + fileUnits v' f \<le> g) us"
    using so sorted_wrt_units [of us "fileUnits v'" "fileUnits ?v"] same by simp
  moreover have "0 \<notin> set us" using sub used_nonzero by blast
  ultimately have "volWf v' \<and> usedFiles v' = us"
    using wf s same by (intro volWf_intro) (auto simp: volWf_def u len h)
  then show ?thesis using same len by blast
qed

lemma FileDelete_vol:
  assumes m: "mounted fs" and wf: "volWf (vol fs)" and fn: "0 \<notin> set fn"
  obtains fs' where "miniFsFileDelete fs fn = Some (volAbs (vol fs) fn \<noteq> None, fs')" "mounted fs'"
    "volWf (vol fs')" "length (vol fs') = length (vol fs)"
    "volAbs (vol fs') = (volAbs (vol fs))(fn := None)"
  using m wf fn
proof (cases rule: lookup_cases)
  case missing
  then have "miniFsFileDelete fs fn = Some (False, fs)"
    by (simp add: miniFsFileDelete_def not_read_only [OF m] MAXFILES8)
  then show ?thesis using m wf missing by (intro that [of fs]) (auto simp: fun_upd_idem)
next
  case (found k f)
  let ?v = "vol fs" and ?us = "usedFiles (vol fs)"
  have l: "128 \<le> length ?v" using wf by (rule volWf_length)
  have k126: "k < 126" using found(2) length_used [OF l] by simp
  obtain fs1 where 1: "miniFsWriteByte fs (slotAddr (of_nat k)) 0 = Some fs1" "mounted fs1"
    "slots (vol fs1) = (slots ?v)[k := 0]" "sameBody ?v (vol fs1)"
    using slot_write [OF m l k126, of 0] by auto
  have l1: "128 \<le> length (vol fs1)" using l 1(4) by (simp add: sameBody_def)
  note ds = used_distinct_sorted [OF wf]
  have "(slots ?v)[k := 0] = ?us[k := 0] @ replicate (126 - length ?us) 0"
    using wf found(2) by (simp add: volWf_def list_update_append)
  then have "filter (\<lambda>f. f \<noteq> 0) (slots (vol fs1)) = filter (\<lambda>f. f \<noteq> 0) (?us[k := 0])"
    using 1(3) by simp
  also have "\<dots> = remove1 f ?us"
  proof -
    have us: "?us = take k ?us @ f # drop (Suc k) ?us"
      using found(2,3) by (simp add: id_take_nth_drop)
    have nz: "\<forall>g \<in> set ?us. g \<noteq> 0" using used_nonzero by blast
    have nf: "f \<notin> set (take k ?us)" using ds(1) us by (metis distinct_append IntI list.set_intros(1) empty_iff)
    have "filter (\<lambda>f. f \<noteq> 0) (take k ?us) = take k ?us"
      "filter (\<lambda>f. f \<noteq> 0) (drop (Suc k) ?us) = drop (Suc k) ?us"
      using nz by (auto intro!: filter_True dest: in_set_takeD in_set_dropD)
    then have "filter (\<lambda>f. f \<noteq> 0) (?us[k := 0]) = take k ?us @ drop (Suc k) ?us"
      using found(2) by (simp add: upd_conv_take_nth_drop)
    also have "\<dots> = remove1 f (take k ?us @ f # drop (Suc k) ?us)"
      using nf by (simp add: remove1_append)
    finally show ?thesis using us by simp
  qed
  finally have fl: "filter (\<lambda>f. f \<noteq> 0) (slots (vol fs1)) = remove1 f ?us" .
  have "sort (remove1 f ?us) = remove1 f ?us" using ds(2) by (simp add: sorted_remove1 sort_key_id_if_sorted sorted_sort_id)
  then obtain fs2 where 2: "miniFsResortFileOffsets fs1 = Some fs2" "mounted fs2"
    "sameBody (vol fs1) (vol fs2)"
    "slots (vol fs2) = remove1 f ?us @ replicate (126 - length (remove1 f ?us)) 0"
    using resort_header [OF 1(2) l1] unfolding fl by metis
  have so: "sorted_wrt (\<lambda>f g. f + fileUnits ?v f \<le> g) (remove1 f ?us)"
    using wf by (auto simp: volWf_def intro: sorted_wrt_remove1)
  have w: "volWf (vol fs2) \<and> usedFiles (vol fs2) = remove1 f ?us \<and> length (vol fs2) = length ?v \<and>
      (\<forall>g \<in> set (remove1 f ?us). fileName (vol fs2) g = fileName ?v g \<and>
         fileContent (vol fs2) g = fileContent ?v g)"
    using set_remove1_subset [of f ?us] ds(1)
    by (intro new_header_wf [OF wf sameBody_trans [OF 1(4) 2(3)] 2(4) _ so]) simp_all
  have "miniFsFileDelete fs fn = Some (True, fs2)"
    using consistent_of_wf [OF 2(2)] w 1(1) 2(1)
    by (simp add: miniFsFileDelete_def not_read_only [OF m] found(6,7) MAXFILES8
        miniFsClearFileForIndex_def assertConsistent_def)
  moreover have "volAbs (vol fs2) = (volAbs ?v)(fn := None)"
  proof -
    have "volAbs (vol fs2) = map_of (map (\<lambda>g. (fileName ?v g, fileContent ?v g)) (remove1 f ?us))"
      using w unfolding volAbs_def by (intro arg_cong [of _ _ map_of]) simp
    also have "\<dots> = (volAbs ?v)(fileName ?v f := None)"
      unfolding volAbs_def using wf found(4) by (intro files_map_remove) (simp_all add: volWf_def)
    finally show ?thesis using found(5) by simp
  qed
  ultimately show ?thesis using w 2(2) found(1) by (intro that [of fs2]) auto
qed

end

end
