(* ===== verification/MiniFsAlloc.thy ===== *)
theory MiniFsAlloc
  imports MiniFsHeader
begin

text \<open>
  Free space and new files in a MiniFs volume: the search for a free region finds one exactly when
  there is one, a file header written to a free region adds a file without disturbing the others,
  and \<open>miniFsFileCreate\<close> does so.
\<close>

section \<open>Adding a file to a volume\<close>

definition regionFree :: "u8 list \<Rightarrow> nat list \<Rightarrow> nat \<Rightarrow> nat \<Rightarrow> bool" where
  "regionFree v us g n \<longleftrightarrow> 1 \<le> g \<and> g + n \<le> volUnits v \<and>
     (\<forall>f \<in> set us. f + fileUnits v f \<le> g \<or> g + n \<le> f)"

lemma splice_at_Cons:
  assumes "a + 1 + length d \<le> length xs"
  shows "splice_at (Suc a) d (xs[a := x]) = splice_at a (x # d) xs"
  using assms by (simp add: splice_at_def take_Suc_conv_app_nth drop_update_cancel)

lemma sorted_wrt_apart:
  "sorted us \<Longrightarrow> distinct us \<Longrightarrow> (\<And>f g. f \<in> set us \<Longrightarrow> g \<in> set us \<Longrightarrow> f < g \<Longrightarrow> f + n f \<le> g) \<Longrightarrow>
   sorted_wrt (\<lambda>f g. f + (n f :: nat) \<le> g) us"
  by (induction us) (auto simp: order.strict_iff_order)

lemma header_bytes:
  assumes "take (4 + length fn) (drop a v) = [b2, b1, b0] @ fn @ [0]" "a + 4 + length fn \<le> length v"
  shows "v ! a = b2" "v ! (a + 1) = b1" "v ! (a + 2) = b0"
    and "0 \<notin> set fn \<Longrightarrow> takeWhile (\<lambda>b. b \<noteq> 0) (drop (a + 3) v) = fn"
proof -
  let ?t = "take (4 + length fn) (drop a v)"
  have n: "?t ! i = v ! (a + i)" if "i < 4" for i using that assms(2) by simp
  show "v ! a = b2" "v ! (a + 1) = b1" "v ! (a + 2) = b0"
    using n [of 0] n [of 1] n [of 2] unfolding assms(1) by simp_all
  have "drop (a + 3) v = drop 3 ?t @ drop (4 + length fn) (drop a v)"
  proof -
    have "drop 3 (drop a v) = drop 3 (?t @ drop (4 + length fn) (drop a v))"
      by (simp only: append_take_drop_id)
    also have "\<dots> = drop 3 ?t @ drop (4 + length fn) (drop a v)" using assms(2) by simp
    finally show ?thesis by (simp add: add.commute)
  qed
  also have "\<dots> = fn @ 0 # drop (4 + length fn) (drop a v)" unfolding assms(1) by simp
  finally have d: "drop (a + 3) v = fn @ 0 # drop (4 + length fn) (drop a v)" .
  show "takeWhile (\<lambda>b. b \<noteq> 0) (drop (a + 3) v) = fn" if "0 \<notin> set fn"
  proof -
    have "list_all (\<lambda>b. b \<noteq> 0) fn" using that by (auto simp: list_all_iff)
    then show ?thesis unfolding d by (rule takeWhile_append_stop) simp
  qed
qed

lemma vol_insert:
  assumes wf: "volWf v" and len: "length v' = length v" and h: "v' ! 0 = v ! 0" "v' ! 1 = v ! 1"
    and ws: "set ws \<subseteq> set (usedFiles v)" "sorted ws" "distinct ws" "length ws < 126"
    and sl: "slots v' = insort g ws @ replicate (126 - Suc (length ws)) 0"
    and free: "regionFree v ws g n"
    and body: "\<And>i. 128 \<le> i \<Longrightarrow> i < length v \<Longrightarrow> i < 128 * g \<or> 128 * (g + n) \<le> i \<Longrightarrow> v' ! i = v ! i"
    and hdr: "take (4 + length fn) (drop (128 * g) v') = [hi8 t, lo8 t, of_nat n] @ fn @ [0]"
    and t: "4 + length fn \<le> unat t" "unat t \<le> 128 * n" and n: "n < 256"
    and fn: "0 \<notin> set fn" "length fn < 127" "fn \<notin> fileName v ` set ws"
  shows "volWf v' \<and> usedFiles v' = insort g ws \<and> fileName v' g = fn \<and>
    length (fileContent v' g) = unat t - 4 - length fn \<and>
    volAbs v' = (map_of (map (\<lambda>f. (fileName v f, fileContent v f)) ws))(fn \<mapsto> fileContent v' g)"
proof -
  have u: "volUnits v' = volUnits v" by (simp only: volUnits_def h)
  have vl: "128 * volUnits v \<le> length v" using wf by (simp add: volWf_def)
  have g: "1 \<le> g" "g + n \<le> volUnits v" using free by (simp_all add: regionFree_def)
  have n1: "1 \<le> n" using t by (cases n) auto
  have gl: "128 * g + 128 * n \<le> length v" using g(2) vl by simp
  then have hl: "128 * g + 4 + length fn \<le> length v'" using t len by linarith
  note hb = header_bytes [OF hdr hl]
  have gu: "fileUnits v' g = n" using hb(3) n by (simp add: fileUnits_def unat_of_nat8)
  have gt: "fileTotal v' g = unat t"
    unfolding fileTotal_def hb(1,2) using unat_be16 [of "hi8 t" "lo8 t"] by simp
  have gn: "fileName v' g = fn" unfolding fileName_def by (rule hb(4) [OF fn(1)])
  have gok: "fileOk v' g" using t fn(2) g(2) by (simp add: fileOk_def gn gt gu u)
  have kept: "fileOk v' f \<and> fileUnits v' f = fileUnits v f \<and> fileName v' f = fileName v f \<and>
      fileContent v' f = fileContent v f" if "f \<in> set ws" for f
  proof -
    have f: "f \<in> set (usedFiles v)" using that ws(1) by blast
    have apart: "g + n \<le> f \<or> f + fileUnits v f \<le> g" using free that by (auto simp: regionFree_def)
    show ?thesis
    proof (rule files_kept [OF wf len h(2) f])
      fix i assume i: "128 * f \<le> i" "i < 128 * (f + fileUnits v f)"
      then have "128 * (g + n) \<le> i \<or> i < 128 * g" using apart by (intro units_apart)
      then show "v' ! i = v ! i" using i volWf_used(3,4) [OF wf f] by (intro body) auto
    qed
  qed
  have gws: "g \<notin> set ws"
  proof
    assume "g \<in> set ws"
    then have "g + fileUnits v g \<le> g \<or> g + n \<le> g" using free by (auto simp: regionFree_def)
    then show False using n1 kept [OF \<open>g \<in> set ws\<close>] fileOk_units [of v' g] by auto
  qed
  have so: "sorted_wrt (\<lambda>f g. f + fileUnits v' f \<le> g) (insort g ws)"
  proof (rule sorted_wrt_apart)
    show "sorted (insort g ws)" "distinct (insort g ws)"
      using ws(2,3) gws by (simp_all add: sorted_insort distinct_insort)
    fix a b assume ab: "a \<in> set (insort g ws)" "b \<in> set (insort g ws)" "a < b"
    have "a + fileUnits v' a \<le> b \<or> b + fileUnits v' b \<le> a"
    proof -
      consider "a = g" "b \<in> set ws" | "b = g" "a \<in> set ws" | "a \<in> set ws" "b \<in> set ws"
        using ab by (auto simp: set_insort_key)
      then show ?thesis
      proof cases
        case 1
        then show ?thesis using free kept by (auto simp: regionFree_def gu)
      next
        case 2
        then show ?thesis using free kept by (auto simp: regionFree_def gu)
      next
        case 3
        then show ?thesis using used_disjoint [OF wf, of a b] ws(1) ab(3) kept by auto
      qed
    qed
    then show "a + fileUnits v' a \<le> b" using ab(3) by linarith
  qed
  have names: "map (fileName v') ws = map (fileName v) ws" using kept by simp
  have inj: "inj_on (fileName v) (set ws)"
    using wf ws(1) by (auto simp: volWf_def distinct_map intro: inj_on_subset)
  have dn: "distinct (map (fileName v') (insort g ws))"
  proof -
    have "fileName v' ` set ws = fileName v ` set ws" using kept by (intro image_cong) auto
    moreover have "inj_on (fileName v') (set ws)" using inj kept by (auto simp: inj_on_def)
    ultimately show ?thesis
      using ws(3) gws fn(3) by (simp add: distinct_map distinct_insort set_insort_key gn)
  qed
  have wf': "volWf v' \<and> usedFiles v' = insort g ws"
  proof (rule volWf_intro)
    show "128 * volUnits v' \<le> length v'" by (simp add: u len vl)
    show "v' ! 0 = 53" using wf by (simp add: h volWf_def)
    show "slots v' = insort g ws @ replicate (126 - length (insort g ws)) 0" by (simp add: sl)
    show "0 \<notin> set (insort g ws)" using g ws(1) used_nonzero by (fastforce simp: set_insort_key)
    show "fileOk v' f" if "f \<in> set (insort g ws)" for f
      using that gok kept by (auto simp: set_insort_key)
  qed (rule so dn)+
  have lc: "length (fileContent v' g) = unat t - 4 - length fn"
    using length_fileContent [OF gok] vl by (simp add: u len gn gt)
  have "volAbs v' = (map_of (map (\<lambda>f. (fileName v f, fileContent v f)) ws))(fn \<mapsto> fileContent v' g)"
  proof (rule map_eq_SomeI)
    fix x y
    have "distinct (map (fileName v) ws)" using inj ws(3) by (simp add: distinct_map)
    then show "volAbs v' x = Some y \<longleftrightarrow>
      ((map_of (map (\<lambda>f. (fileName v f, fileContent v f)) ws))(fn \<mapsto> fileContent v' g)) x = Some y"
      using wf' kept fn(3) by (auto simp: volAbs_Some files_map_Some set_insort_key gn)
  qed
  then show ?thesis using wf' gn lc by blast
qed

section \<open>The search for a free region\<close>

context byte_store
begin

lemma size_factor_read:
  assumes m: "mounted fs" and wf: "volWf (vol fs)" and k: "k < length (usedFiles (vol fs))"
  shows "unat (miniFsFileGetBaseOffsetFactorFromIndex fs (of_nat k)) = usedFiles (vol fs) ! k"
    and "unat (miniFsFileGetSizeFactorFromIndex fs (of_nat k)) = fileUnits (vol fs) (usedFiles (vol fs) ! k)"
proof -
  have l: "128 \<le> length (vol fs)" using wf by (rule volWf_length)
  have k126: "k < 126" using k length_used [OF l] by simp
  have s: "slots (vol fs) ! k = usedFiles (vol fs) ! k" using used_nth [OF wf k126] k by simp
  show "unat (miniFsFileGetBaseOffsetFactorFromIndex fs (of_nat k)) = usedFiles (vol fs) ! k"
    unfolding slot_read [OF m l k126] s ..
  have f: "usedFiles (vol fs) ! k \<in> set (usedFiles (vol fs))" using k by simp
  show "unat (miniFsFileGetSizeFactorFromIndex fs (of_nat k)) = fileUnits (vol fs) (usedFiles (vol fs) ! k)"
    unfolding miniFsFileGetSizeFactorFromIndex_def base_read [OF m l k126] s by (rule file_fields(2) [OF m wf f])
qed

text \<open>The end of a file, and the end of the gap behind it.\<close>

definition fileEnd :: "u8 list \<Rightarrow> nat \<Rightarrow> nat" where
  "fileEnd v k = usedFiles v ! k + fileUnits v (usedFiles v ! k)"

definition gapEnd :: "u8 list \<Rightarrow> nat \<Rightarrow> nat" where
  "gapEnd v k = (if Suc k < length (usedFiles v) then usedFiles v ! Suc k else volUnits v)"

lemma fileEnd_le: "volWf v \<Longrightarrow> k < length (usedFiles v) \<Longrightarrow> fileEnd v k \<le> volUnits v"
  using volWf_used(1) [of v "usedFiles v ! k"] by (simp add: fileEnd_def fileOk_def)

lemma find_region_step:
  assumes m: "mounted fs" and wf: "volWf (vol fs)" and n: "0 < unat n"
    and k: "k < length (usedFiles (vol fs))"
  shows "findFreeRegionLoop fs n (of_nat k) (map of_nat [Suc k..<126]) =
    (if fileEnd (vol fs) k + unat n \<le> gapEnd (vol fs) k then of_nat (fileEnd (vol fs) k)
     else if Suc k < length (usedFiles (vol fs))
     then findFreeRegionLoop fs n (of_nat (Suc k)) (map of_nat [Suc (Suc k)..<126]) else 0)"
proof -
  let ?v = "vol fs" and ?us = "usedFiles (vol fs)"
  have l: "128 \<le> length ?v" using wf by (rule volWf_length)
  define N where "N = unat n"
  have un: "uint n = int N" unfolding N_def by (rule uint_nat)
  have le: "int N \<le> int a - int b \<longleftrightarrow> b + N \<le> a" for a b by auto
  have e: "uint (miniFsFileGetBaseOffsetFactorFromIndex fs (of_nat k)) +
      uint (miniFsFileGetSizeFactorFromIndex fs (of_nat k)) = int (fileEnd ?v k)"
    unfolding uint_nat size_factor_read [OF m wf k] fileEnd_def by simp
  have tu: "uint (miniFsGetTotalSizeFactorMinusOne fs) + 1 = int (volUnits ?v)"
    unfolding uint_nat total_units_read [OF m l, symmetric] by simp
  note unf = findFreeRegionLoop.simps [of fs n "of_nat k"]
  show ?thesis
  proof (cases "Suc k < 126")
    case True
    then have up: "map of_nat [Suc k..<126] = (of_nat (Suc k) :: u8) # map of_nat [Suc (Suc k)..<126]"
      by (simp add: upt_conv_Cons del: of_nat_Suc)
    have s2: "uint (miniFsFileGetBaseOffsetFactorFromIndex fs (of_nat (Suc k))) = int (slots ?v ! Suc k)"
      unfolding uint_nat slot_read [OF m l True] ..
    have z: "miniFsFileGetBaseOffsetFactorFromIndex fs (of_nat (Suc k)) = 0 \<longleftrightarrow> slots ?v ! Suc k = 0"
      using slot_read [OF m l True, symmetric] by (simp add: unat_eq_0 del: of_nat_Suc)
    show ?thesis
    proof (cases "Suc k < length ?us")
      case t: True
      have nz: "slots ?v ! Suc k \<noteq> 0" and sk: "slots ?v ! Suc k = ?us ! Suc k"
        using used_nth [OF wf True] used_nonzero [of "?us ! Suc k" ?v] t by auto
      show ?thesis
        unfolding unf up list.case Let_def e tu z s2 un gapEnd_def le N_def [symmetric] sk
          if_P [OF t] if_not_P [OF nz [unfolded sk]] by simp
    next
      case False
      then have "slots ?v ! Suc k = 0" using used_nth [OF wf True] by simp
      then show ?thesis
        unfolding unf up list.case Let_def e tu z un gapEnd_def le N_def [symmetric] if_not_P [OF False]
        by simp
    qed
  next
    case False
    then have up: "map of_nat [Suc k..<126] = ([] :: u8 list)" by simp
    have "\<not> Suc k < length ?us" using False length_used [OF l] by simp
    then show ?thesis
      unfolding unf up list.case Let_def e tu un gapEnd_def le N_def [symmetric] by simp
  qed
qed

lemma find_region_loop:
  assumes m: "mounted fs" and wf: "volWf (vol fs)" and n: "0 < unat n"
    and k: "k < length (usedFiles (vol fs))"
    and g: "g = findFreeRegionLoop fs n (of_nat k) (map of_nat [Suc k..<126])"
  shows "(g \<noteq> 0 \<longrightarrow> (\<exists>j < length (usedFiles (vol fs)). unat g = fileEnd (vol fs) j \<and>
      fileEnd (vol fs) j + unat n \<le> gapEnd (vol fs) j)) \<and>
    (g = 0 \<longrightarrow> (\<forall>j. k \<le> j \<longrightarrow> j < length (usedFiles (vol fs)) \<longrightarrow>
      \<not> fileEnd (vol fs) j + unat n \<le> gapEnd (vol fs) j))"
  using k g
proof (induction "length (usedFiles (vol fs)) - k" arbitrary: k)
  case (Suc d)
  let ?v = "vol fs"
  note step = find_region_step [OF m wf n Suc.prems(1)]
  show ?case
  proof (cases "fileEnd ?v k + unat n \<le> gapEnd ?v k")
    case True
    have "gapEnd ?v k \<le> 256"
    proof (cases "Suc k < length (usedFiles ?v)")
      case True
      then have "usedFiles ?v ! Suc k < 256" by (intro slots_less [of _ ?v] used_slot) simp
      then show ?thesis using True by (simp add: gapEnd_def)
    qed (use volUnits_bounds(2) [of ?v] in \<open>simp add: gapEnd_def\<close>)
    then have "fileEnd ?v k < 256" using True n by simp
    moreover have "0 < fileEnd ?v k"
      using used_nonzero [of "usedFiles ?v ! k" ?v] Suc.prems(1) by (simp add: fileEnd_def)
    ultimately have "unat (of_nat (fileEnd ?v k) :: u8) = fileEnd ?v k" "(of_nat (fileEnd ?v k) :: u8) \<noteq> 0"
      using unat_of_nat8 [of "fileEnd ?v k"] by auto
    then show ?thesis using True Suc.prems step by auto
  next
    case False
    show ?thesis
    proof (cases "Suc k < length (usedFiles ?v)")
      case True
      have "d = length (usedFiles ?v) - Suc k" using Suc.hyps(2) by simp
      moreover have "g = findFreeRegionLoop fs n (of_nat (Suc k)) (map of_nat [Suc (Suc k)..<126])"
        using Suc.prems(2) step False True by simp
      ultimately show ?thesis using Suc.hyps(1) [of "Suc k"] True False by (metis Suc_leI le_neq_implies_less)
    next
      case f: False
      then have "g = 0" using Suc.prems(2) step False by simp
      then show ?thesis using False f Suc.prems(1) by (metis Suc_lessI le_neq_implies_less not_less_eq)
    qed
  qed
qed simp

lemma gap_free:
  assumes wf: "volWf v" and j: "j < length (usedFiles v)" and gap: "fileEnd v j + n \<le> gapEnd v j"
  shows "regionFree v (usedFiles v) (fileEnd v j) n"
  unfolding regionFree_def
proof (intro conjI ballI)
  let ?us = "usedFiles v"
  have so: "sorted_wrt (\<lambda>f g. f + fileUnits v f \<le> g) ?us" using wf by (simp add: volWf_def)
  show "1 \<le> fileEnd v j"
    using used_nonzero [of "?us ! j" v] j by (simp add: fileEnd_def)
  have "gapEnd v j \<le> volUnits v"
    using volWf_used(1) [OF wf, of "?us ! Suc j"] by (auto simp: gapEnd_def fileOk_def)
  then show "fileEnd v j + n \<le> volUnits v" using gap by simp
  fix f assume "f \<in> set ?us"
  then obtain i where i: "i < length ?us" "f = ?us ! i" by (auto simp: in_set_conv_nth)
  consider "i < j" | "i = j" | "Suc j = i" | "Suc j < i" by linarith
  then show "f + fileUnits v f \<le> fileEnd v j \<or> fileEnd v j + n \<le> f"
  proof cases
    case 1
    then have "f + fileUnits v f \<le> ?us ! j" using sorted_wrt_nth_less [OF so 1 j] i by simp
    then show ?thesis by (simp add: fileEnd_def)
  next
    case 2
    then show ?thesis using i by (simp add: fileEnd_def)
  next
    case 3
    then show ?thesis using gap i by (auto simp: gapEnd_def)
  next
    case 4
    then have "?us ! Suc j \<le> f" using used_sorted [OF wf, of "Suc j" i] i by simp
    then show ?thesis using gap 4 i by (simp add: gapEnd_def)
  qed
qed

lemma free_gap:
  assumes wf: "volWf v" and free: "regionFree v (usedFiles v) g n" and n: "0 < n"
    and us: "usedFiles v \<noteq> []" and first: "\<not> 1 + n \<le> usedFiles v ! 0"
  shows "\<exists>j < length (usedFiles v). fileEnd v j + n \<le> gapEnd v j"
proof -
  let ?us = "usedFiles v"
  let ?P = "\<lambda>j. j < length ?us \<and> ?us ! j + fileUnits v (?us ! j) \<le> g"
  have apart: "?us ! j + fileUnits v (?us ! j) \<le> g \<or> g + n \<le> ?us ! j" if "j < length ?us" for j
    using free that by (simp add: regionFree_def)
  have 0: "?P 0"
    using apart [of 0] us first free by (auto simp: regionFree_def)
  define j where "j = (GREATEST j. ?P j)"
  have b: "\<forall>k. ?P k \<longrightarrow> k \<le> length ?us" by auto
  have j: "?P j" unfolding j_def by (rule GreatestI_nat [of ?P, OF 0]) (use b in blast)
  have nj: "\<not> ?P (Suc j)"
  proof
    assume "?P (Suc j)"
    then have "Suc j \<le> j" unfolding j_def by (rule Greatest_le_nat [of ?P]) (use b in blast)
    then show False by simp
  qed
  have "fileEnd v j + n \<le> gapEnd v j"
  proof (cases "Suc j < length ?us")
    case True
    then show ?thesis using apart [OF True] nj j by (simp add: fileEnd_def gapEnd_def)
  next
    case False
    then show ?thesis using free j by (simp add: fileEnd_def gapEnd_def regionFree_def)
  qed
  with j show ?thesis by blast
qed

lemma find_region:
  assumes m: "mounted fs" and wf: "volWf (vol fs)" and n: "0 < unat n"
  defines "g \<equiv> miniFsFindFreeRegionFactor fs n"
  shows "(g \<noteq> 0 \<longrightarrow> regionFree (vol fs) (usedFiles (vol fs)) (unat g) (unat n)) \<and>
    (g = 0 \<longrightarrow> (\<forall>g'. \<not> regionFree (vol fs) (usedFiles (vol fs)) g' (unat n)))"
proof -
  let ?v = "vol fs" and ?us = "usedFiles (vol fs)"
  have l: "128 \<le> length ?v" using wf by (rule volWf_length)
  have MIN: "MINIFSFILEMINOFFSETFACTOR = 1" by (simp add: minifs_consts)
  have s0: "unat (miniFsFileGetBaseOffsetFactorFromIndex fs 0) = slots ?v ! 0"
    using slot_read [OF m l, of 0] by simp
  show ?thesis
  proof (cases "?us = []")
    case True
    then have "slots ?v ! 0 = 0" using used_nth [OF wf, of 0] by simp
    then have z: "miniFsFileGetBaseOffsetFactorFromIndex fs 0 = 0" using s0 by (simp add: unat_eq_0)
    have "(ucast (miniFsGetTotalSizeFactorMinusOne fs) - of_nat 1 + 1 :: u32) =
        ucast (miniFsGetTotalSizeFactorMinusOne fs)" by simp
    then have g: "g = (if unat n + 1 > volUnits ?v then 0 else 1)"
      unfolding g_def miniFsFindFreeRegionFactor_def Let_def if_P [OF z] MIN
      using total_units_read [OF m l] by simp
    show ?thesis
      unfolding g regionFree_def True by simp
  next
    case False
    let ?f = "miniFsFileGetBaseOffsetFactorFromIndex fs 0"
    have f: "unat ?f = ?us ! 0" using s0 used_nth [OF wf, of 0] False by simp
    have pos: "0 < ?us ! 0" using used_nonzero [of "?us ! 0" ?v] False by simp
    then have nz: "?f \<noteq> 0" using f by auto
    have sub: "unat (ucast ?f - of_nat 1 :: u32) = ?us ! 0 - 1"
    proof -
      have "(1 :: u32) \<le> ucast ?f" using pos f by (simp add: word_le_nat_alt)
      then show ?thesis using f by (simp add: unat_sub)
    qed
    show ?thesis
    proof (cases "1 + unat n \<le> ?us ! 0")
      case True
      have g: "g = 1"
        unfolding g_def miniFsFindFreeRegionFactor_def Let_def if_not_P [OF nz] MIN sub
        using True by (simp add: le_diff_conv2)
      have "regionFree ?v ?us 1 (unat n)"
        unfolding regionFree_def
      proof (intro conjI ballI)
        show "1 + unat n \<le> volUnits ?v"
          using True volWf_used(1) [OF wf, of "?us ! 0"] False by (simp add: fileOk_def)
        fix f assume "f \<in> set ?us"
        then obtain i where "i < length ?us" "f = ?us ! i" by (auto simp: in_set_conv_nth)
        then have "?us ! 0 \<le> f" using used_sorted [OF wf, of 0 i] by simp
        then show "f + fileUnits ?v f \<le> 1 \<or> 1 + unat n \<le> f" using True by simp
      qed simp
      then show ?thesis by (simp add: g)
    next
      case f: False
      have "g = findFreeRegionLoop fs n 0 (tl fileSlots)"
        unfolding g_def miniFsFindFreeRegionFactor_def Let_def if_not_P [OF nz] MIN sub
        using f pos by (simp add: le_diff_conv2 not_le)
      moreover have "tl fileSlots = map of_nat [Suc 0..<126]" by (simp add: fileSlots_eq upt_conv_Cons)
      ultimately have g: "g = findFreeRegionLoop fs n (of_nat 0) (map of_nat [Suc 0..<126])" by simp
      have 0: "0 < length ?us" using False by simp
      note r = find_region_loop [OF m wf n 0 g]
      show ?thesis
      proof (intro conjI impI allI notI)
        assume nz: "g \<noteq> 0"
        obtain j where "j < length ?us" "unat g = fileEnd ?v j" "fileEnd ?v j + unat n \<le> gapEnd ?v j"
          using conjunct1 [OF r, rule_format, OF nz] by blast
        then show "regionFree ?v ?us (unat g) (unat n)" using gap_free [OF wf] by simp
      next
        fix g' assume z: "g = 0" and h: "regionFree ?v ?us g' (unat n)"
        obtain j where "j < length ?us" "fileEnd ?v j + unat n \<le> gapEnd ?v j"
          using free_gap [OF wf h n False f] by blast
        then show False using conjunct2 [OF r, rule_format, OF z, of j] by simp
      qed
    qed
  qed
qed

section \<open>Creating a file\<close>

lemma size_factor:
  assumes "unat t \<le> 32640"
  shows "unat (miniFsGetSizeFactorForTotalLength t) = (unat t + 127) div 128"
proof -
  have a: "unat (ucast t + of_nat MINIFSFACTOR - 1 :: u32) = unat t + 127"
  proof -
    have "(ucast t + of_nat MINIFSFACTOR - 1 :: u32) = ucast t + 127" by (simp add: MINIFSFACTOR_def)
    moreover have "unat (ucast t + 127 :: u32) = unat t + 127"
      using assms by (simp add: unat_word_ariths)
    ultimately show ?thesis by (simp only:)
  qed
  have "unat ((ucast t + of_nat MINIFSFACTOR - 1 :: u32) div of_nat MINIFSFACTOR) = (unat t + 127) div 128"
    unfolding unat_div a by (simp add: MINIFSFACTOR_def)
  moreover have "(unat t + 127) div 128 < 256" using assms by simp
  ultimately show ?thesis
    unfolding miniFsGetSizeFactorForTotalLength_def by (simp add: unsigned_ucast_eq take_bit_eq_mod)
qed

lemma write_header:
  assumes m: "mounted fs" and r: "128 * unat g + 4 + length fn \<le> length (vol fs)" "length fn < 1000"
  obtains fs' where "writeFileHeader fs g t sz fn = Some (of_nat (128 * unat g + 4 + length fn), fs')"
    "mounted fs'" "vol fs' = splice_at (128 * unat g) ([hi8 t, lo8 t, sz] @ fn @ [0]) (vol fs)"
proof -
  let ?a = "128 * unat g"
  have a: "?a < 65000" using unat_u8_less [of g] by linarith
  obtain fs1 where 1: "miniFsWriteByte fs (of_nat ?a) (hi8 t) = Some fs1" "mounted fs1"
    "vol fs1 = (vol fs)[?a := hi8 t]"
    using r a by (elim write_byte [OF m, rotated -1]) linarith+
  have l1: "length (vol fs1) = length (vol fs)" by (simp add: 1(3))
  obtain fs2 where 2: "miniFsWriteByte fs1 (of_nat (?a + 1)) (lo8 t) = Some fs2" "mounted fs2"
    "vol fs2 = (vol fs1)[?a + 1 := lo8 t]"
    using r a by (elim write_byte [OF 1(2), rotated -1]) (unfold l1, linarith+)
  have l2: "length (vol fs2) = length (vol fs)" by (simp add: 2(3) l1)
  obtain fs3 where 3: "miniFsWriteByte fs2 (of_nat (?a + 2)) sz = Some fs3" "mounted fs3"
    "vol fs3 = (vol fs2)[?a + 2 := sz]"
    using r a by (elim write_byte [OF 2(2), rotated -1]) (unfold l2, linarith+)
  have l3: "length (vol fs3) = length (vol fs)" by (simp add: 3(3) l2)
  have "?a + 3 + length (fn @ [0]) \<le> length (vol fs3)" "?a + 3 < 65536" "length (fn @ [0]) < 65536"
    unfolding l3 using r a by simp_all
  then obtain fs4 where 4: "miniFsWrite fs3 (of_nat (?a + 3)) (fn @ [0]) = Some (of_nat (length (fn @ [0])), fs4)"
    "mounted fs4" "vol fs4 = splice_at (?a + 3) (fn @ [0]) (vol fs3)"
    by (elim write_bytes [OF 3(2), rotated -1])
  have v: "vol fs4 = splice_at ?a ([hi8 t, lo8 t, sz] @ fn @ [0]) (vol fs)"
  proof -
    have e: "?a + 3 = Suc (?a + 2)" "?a + 2 = Suc (?a + 1)" "?a + 1 = Suc ?a" by simp_all
    have "splice_at (Suc (?a + 2)) (fn @ [0]) ((vol fs2)[?a + 2 := sz]) = splice_at (?a + 2) (sz # fn @ [0]) (vol fs2)"
      using r by (intro splice_at_Cons) (simp add: l2)
    also have "\<dots> = splice_at (Suc (?a + 1)) (sz # fn @ [0]) ((vol fs1)[?a + 1 := lo8 t])"
      by (simp only: 2(3) e(2))
    also have "\<dots> = splice_at (?a + 1) (lo8 t # sz # fn @ [0]) (vol fs1)"
      using r by (intro splice_at_Cons) (simp add: l1)
    also have "\<dots> = splice_at (Suc ?a) (lo8 t # sz # fn @ [0]) ((vol fs)[?a := hi8 t])"
      by (simp only: 1(3) e(3))
    also have "\<dots> = splice_at ?a (hi8 t # lo8 t # sz # fn @ [0]) (vol fs)"
      using r by (intro splice_at_Cons) simp
    finally show ?thesis unfolding 4(3) 3(3) e(1) by simp
  qed
  have c: "(of_nat ?a + 1 :: u16) = of_nat (?a + 1)" "(of_nat ?a + 2 :: u16) = of_nat (?a + 2)"
    "(of_nat ?a + 3 :: u16) = of_nat (?a + 3)" by simp_all
  have ret: "of_nat (?a + 3) + (of_nat (length fn) + 1) = (of_nat (?a + 4 + length fn) :: u16)" by simp
  have "writeFileHeader fs g t sz fn = Some (of_nat (?a + 4 + length fn), fs4)"
    unfolding writeFileHeader_def Let_def units16 c 1(1) 2(1) 3(1) 4(1) bind.bind_lunit prod.case ret ..
  then show ?thesis using 4(2) v by (rule that)
qed

lemma find_append_skip: "list_all (\<lambda>x. \<not> P x) xs \<Longrightarrow> P y \<Longrightarrow> List.find P (xs @ y # ys) = Some y"
  by (induction xs) simp_all

lemma empty_index:
  assumes m: "mounted fs" and wf: "volWf (vol fs)"
  shows "miniFsGetEmptyIndex fs = of_nat (length (usedFiles (vol fs)))"
proof -
  let ?n = "length (usedFiles (vol fs))"
  have l: "128 \<le> length (vol fs)" using wf by (rule volWf_length)
  have n: "?n \<le> 126" using l by (rule length_used)
  have e: "miniFsIsFileSlotEmpty fs (of_nat k) \<longleftrightarrow> ?n \<le> k" if "k < 126" for k
    unfolding slot_empty [OF m l that] used_nth [OF wf that]
    using used_nonzero [of "usedFiles (vol fs) ! k" "vol fs"] by (cases "k < ?n") auto
  show ?thesis
  proof (cases "?n < 126")
    case True
    have "[0..<126] = [0..<?n] @ ?n # [Suc ?n..<126]"
      using True by (metis upt_add_eq_append upt_conv_Cons le_add_diff_inverse less_imp_le_nat zero_le)
    then have s: "fileSlots = map of_nat [0..<?n] @ of_nat ?n # map of_nat [Suc ?n..<126]"
      unfolding fileSlots_eq by simp
    have "List.find (miniFsIsFileSlotEmpty fs) fileSlots = Some (of_nat ?n)"
    proof -
      have "list_all (\<lambda>i. \<not> miniFsIsFileSlotEmpty fs i) (map of_nat [0..<?n])"
        using e True by (auto simp: list_all_iff)
      then show ?thesis unfolding s using e [OF True] by (intro find_append_skip) simp_all
    qed
    then show ?thesis by (simp add: miniFsGetEmptyIndex_def)
  next
    case False
    then have n: "?n = 126" using n by simp
    have "List.find (miniFsIsFileSlotEmpty fs) fileSlots = None"
      unfolding fileSlots_eq using e n by (auto simp: find_None_iff)
    then show ?thesis by (simp add: miniFsGetEmptyIndex_def n minifs_consts)
  qed
qed

lemma exists_vol:
  assumes "mounted fs" "volWf (vol fs)" "0 \<notin> set fn"
  shows "miniFsFileExists fs fn \<longleftrightarrow> volAbs (vol fs) fn \<noteq> None"
  using assms
proof (cases rule: lookup_cases)
  case (found k f)
  have "length (usedFiles (vol fs)) \<le> 126" using assms(2) by (intro length_used volWf_length)
  then show ?thesis using found by (simp add: miniFsFileExists_def MAXFILES8)
qed (simp add: miniFsFileExists_def MAXFILES8)

text \<open>The writes of \<open>miniFsFileCreate\<close> once a slot and a region are found.\<close>

lemma create_writes:
  assumes m: "mounted fs" and wf: "volWf (vol fs)" and n126: "length (usedFiles (vol fs)) < 126"
    and free: "regionFree (vol fs) (usedFiles (vol fs)) (unat g) (unat sz)"
    and t: "4 + length fn \<le> unat t" "unat t \<le> 128 * unat sz"
    and fn: "0 \<notin> set fn" "length fn < 127" "volAbs (vol fs) fn = None"
  obtains fs1 fs2 fs3 r where
    "miniFsWriteByte fs (slotAddr (of_nat (length (usedFiles (vol fs))))) g = Some fs1"
    "writeFileHeader fs1 g t sz fn = Some (r, fs2)" "miniFsResortFileOffsets fs2 = Some fs3"
    "mounted fs3" "length (vol fs3) = length (vol fs)" "volWf (vol fs3)"
    "volAbs (vol fs3) = (volAbs (vol fs))(fn \<mapsto> fileContent (vol fs3) (unat g))"
    "length (fileContent (vol fs3) (unat g)) = unat t - 4 - length fn"
proof -
  let ?v = "vol fs" and ?us = "usedFiles (vol fs)"
  define gg where "gg = unat g"
  define n where "n = unat sz"
  have l: "128 \<le> length ?v" using wf by (rule volWf_length)
  have vl: "128 * volUnits ?v \<le> length ?v" using wf by (simp add: volWf_def)
  have g: "1 \<le> gg" "gg + n \<le> volUnits ?v" using free by (simp_all add: regionFree_def gg_def n_def)
  have n256: "n < 256" unfolding n_def by (rule unat_u8_less)
  have gl: "128 * gg + 4 + length fn \<le> length ?v"
    using g(2) vl t unfolding n_def [symmetric] by linarith
  obtain fs1 where 1: "miniFsWriteByte fs (slotAddr (of_nat (length ?us))) g = Some fs1" "mounted fs1"
    "slots (vol fs1) = (slots ?v)[length ?us := gg]" "sameBody ?v (vol fs1)"
    using slot_write [OF m l n126, of g] unfolding gg_def by blast
  have l1: "length (vol fs1) = length ?v" using 1(4) by (simp add: sameBody_def)
  obtain fs2 where 2: "writeFileHeader fs1 g t sz fn = Some (of_nat (128 * gg + 4 + length fn), fs2)"
    "mounted fs2" "vol fs2 = splice_at (128 * gg) ([hi8 t, lo8 t, sz] @ fn @ [0]) (vol fs1)"
    using gl fn(2) unfolding gg_def by (elim write_header [OF 1(2), rotated -1]) (unfold l1, simp_all)
  let ?d = "[hi8 t, lo8 t, sz] @ fn @ [0]"
  have ld: "length ?d = 4 + length fn" by simp
  have inr: "128 * gg + length ?d \<le> length (vol fs1)" using gl by (simp add: l1)
  have l2: "length (vol fs2) = length ?v" unfolding 2(3) using inr l1 by simp
  have nth2: "vol fs2 ! i = (if 128 * gg \<le> i \<and> i < 128 * gg + length ?d then ?d ! (i - 128 * gg) else vol fs1 ! i)"
    if "i < length ?v" for i
    unfolding 2(3) using that l1 by (intro nth_splice_at [OF inr]) simp
  have s2: "slots (vol fs2) = (slots ?v)[length ?us := gg]"
    unfolding 1(3) [symmetric]
  proof (rule slots_eqI)
    show "length (vol fs2) = length (vol fs1)" by (simp add: l1 l2)
    fix i :: nat assume "2 \<le> i" "i < 128"
    then show "vol fs2 ! i = vol fs1 ! i" using l g(1) nth2 [of i] by simp
  qed
  have fl: "filter (\<lambda>f. f \<noteq> 0) (slots (vol fs2)) = ?us @ [gg]"
  proof -
    have r: "replicate (126 - length ?us) (0 :: nat) = 0 # replicate (125 - length ?us) 0"
      using n126 by (simp add: replicate_Suc [symmetric] Suc_diff_le del: replicate_Suc)
    have "slots (vol fs2) = ?us @ gg # replicate (125 - length ?us) 0"
      unfolding s2 using wf n126 r by (simp add: volWf_def list_update_append)
    then have "filter (\<lambda>f. f \<noteq> 0) (slots (vol fs2)) = filter (\<lambda>f. f \<noteq> 0) ?us @ [gg]"
      using g(1) by simp
    also have "filter (\<lambda>f. f \<noteq> 0) ?us = ?us" using used_nonzero by (intro filter_True) fastforce
    finally show ?thesis .
  qed
  note ds = used_distinct_sorted [OF wf]
  have so: "sort (?us @ [gg]) = insort gg ?us"
    by (rule properties_for_sort) (use ds(2) in \<open>simp_all add: sorted_insort\<close>)
  have l2': "128 \<le> length (vol fs2)" using l l2 by simp
  obtain fs3 where 3: "miniFsResortFileOffsets fs2 = Some fs3" "mounted fs3" "sameBody (vol fs2) (vol fs3)"
    "slots (vol fs3) = insort gg ?us @ replicate (126 - Suc (length ?us)) 0"
    using resort_header [OF 2(2) l2'] unfolding fl so by (metis length_append_singleton)
  have l3: "length (vol fs3) = length ?v" using 3(3) l2 by (simp add: sameBody_def)
  have b3: "vol fs3 ! i = vol fs2 ! i" if "i < 2 \<or> 128 \<le> i" "i < length ?v" for i
    using 3(3) that l2 by (auto simp: sameBody_def)
  have b1: "vol fs1 ! i = ?v ! i" if "i < 2 \<or> 128 \<le> i" "i < length ?v" for i
    using 1(4) that by (auto simp: sameBody_def)
  have low: "vol fs3 ! i = ?v ! i" if "i < 2" for i
    using b3 [of i] b1 [of i] nth2 [of i] that g(1) l by simp
  have body: "vol fs3 ! i = ?v ! i"
    if "128 \<le> i" "i < length ?v" "i < 128 * gg \<or> 128 * (gg + n) \<le> i" for i
  proof -
    have "\<not> (128 * gg \<le> i \<and> i < 128 * gg + length ?d)"
      using that(3) t unfolding ld n_def [symmetric] distrib_left by linarith
    then have "vol fs2 ! i = vol fs1 ! i" unfolding nth2 [OF that(2)] by (rule if_not_P)
    then show ?thesis using b3 b1 that by simp
  qed
  have hdr: "take (4 + length fn) (drop (128 * gg) (vol fs3)) = [hi8 t, lo8 t, of_nat n] @ fn @ [0]"
  proof (rule nth_equalityI)
    show "length (take (4 + length fn) (drop (128 * gg) (vol fs3))) = length ([hi8 t, lo8 t, of_nat n] @ fn @ [0])"
      using gl by (simp add: l3)
    fix i assume "i < length (take (4 + length fn) (drop (128 * gg) (vol fs3)))"
    then have i: "i < 4 + length fn" by simp
    then have il: "128 * gg + i < length ?v" using gl by linarith
    have "vol fs3 ! (128 * gg + i) = ?d ! i"
      using b3 [of "128 * gg + i"] nth2 [OF il] il g(1) i by simp
    then show "take (4 + length fn) (drop (128 * gg) (vol fs3)) ! i = ([hi8 t, lo8 t, of_nat n] @ fn @ [0]) ! i"
      using i il by (simp add: l3 n_def)
  qed
  have nin: "fn \<notin> fileName ?v ` set ?us" using fn(3) by (simp add: volAbs_None)
  have "volWf (vol fs3) \<and> usedFiles (vol fs3) = insort gg ?us \<and> fileName (vol fs3) gg = fn \<and>
    length (fileContent (vol fs3) gg) = unat t - 4 - length fn \<and>
    volAbs (vol fs3) = (map_of (map (\<lambda>f. (fileName ?v f, fileContent ?v f)) ?us))(fn \<mapsto> fileContent (vol fs3) gg)"
    using low [of 0] low [of 1] ds n126 free t n256 fn body hdr 3(4) nin
    by (intro vol_insert [OF wf l3, where n = n and t = t]) (simp_all add: gg_def n_def)
  then show ?thesis
    unfolding gg_def volAbs_def [symmetric]
    using 1(1) 2(1) 3(1,2) l3 by (intro that [of fs1 _ fs2 fs3]) simp_all
qed


lemma FileCreate_vol:
  assumes m: "mounted fs" and wf: "volWf (vol fs)" and fn: "0 \<notin> set fn"
    and bound: "4 + length fn + unat sz \<le> 32640"
  defines "n \<equiv> (4 + length fn + unat sz + 127) div 128"
  obtains ok fs' where "miniFsFileCreate fs fn sz = Some (ok, fs')" "mounted fs'"
    "volWf (vol fs')" "length (vol fs') = length (vol fs)"
    "ok \<longleftrightarrow> length fn < 127 \<and> volAbs (vol fs) fn = None \<and> length (usedFiles (vol fs)) < 126 \<and>
       (\<exists>g. regionFree (vol fs) (usedFiles (vol fs)) g n)"
    "ok \<Longrightarrow> \<exists>c. length c = unat sz \<and> volAbs (vol fs') = (volAbs (vol fs))(fn \<mapsto> c)"
    "\<not> ok \<Longrightarrow> fs' = fs"
proof -
  let ?v = "vol fs" and ?us = "usedFiles (vol fs)"
  define t where "t = (3 + of_nat (length fn) + 1 + sz :: u16)"
  have t: "unat t = 4 + length fn + unat sz"
  proof -
    have "t = of_nat (4 + length fn + unat sz)" by (simp add: t_def)
    then show ?thesis using bound by (simp only: unat_of_nat16)
  qed
  have t2: "unat t \<le> 32640" using bound by (simp add: t)
  define s where "s = miniFsGetSizeFactorForTotalLength t"
  have s: "unat s = n" unfolding s_def size_factor [OF t2] n_def t ..
  have s0: "0 < unat s" unfolding s n_def by simp
  have ts: "unat t \<le> 128 * unat s" unfolding s n_def t by simp
  have us: "length ?us \<le> 126" using wf by (intro length_used volWf_length)
  have ln: "unat (of_nat (length fn) :: u16) = length fn" using bound by (intro unat_of_nat16) simp
  have full: "miniFsGetEmptyIndex fs = of_nat MINIFSMAXFILES \<longleftrightarrow> \<not> length ?us < 126"
    unfolding empty_index [OF m wf] MAXFILES8 using us by (auto simp: unat_eq_iff8 unat_of_nat8)
  define g where "g = miniFsFindFreeRegionFactor fs s"
  have fr: "g \<noteq> 0 \<Longrightarrow> regionFree ?v ?us (unat g) n" "g = 0 \<Longrightarrow> \<not> (\<exists>g'. regionFree ?v ?us g' n)"
    using find_region [OF m wf s0] unfolding g_def s by blast+
  note code = miniFsFileCreate_def Let_def exists_vol [OF m wf fn] ln full
    t_def [symmetric] s_def [symmetric] g_def [symmetric]
  show ?thesis
  proof (cases "length fn < 127 \<and> volAbs ?v fn = None \<and> length ?us < 126 \<and> g \<noteq> 0")
    case True
    have free: "regionFree ?v ?us (unat g) (unat s)" using True fr s by simp
    have pre: "length ?us < 126" "4 + length fn \<le> unat t" "length fn < 127" "volAbs ?v fn = None"
      using True t by simp_all
    show ?thesis
    proof (rule create_writes [OF m wf pre(1) free pre(2) ts fn pre(3,4)])
      fix fs1 fs2 fs3 r
      assume c:
        "miniFsWriteByte fs (slotAddr (of_nat (length ?us))) g = Some fs1"
        "writeFileHeader fs1 g t s fn = Some (r, fs2)" "miniFsResortFileOffsets fs2 = Some fs3"
        "mounted fs3" "length (vol fs3) = length ?v" "volWf (vol fs3)"
        "volAbs (vol fs3) = (volAbs ?v)(fn \<mapsto> fileContent (vol fs3) (unat g))"
        "length (fileContent (vol fs3) (unat g)) = unat t - 4 - length fn"
      have "miniFsFileCreate fs fn sz = Some (True, fs3)"
        unfolding code using True c(1-3) consistent_of_wf [OF c(4,6)] empty_index [OF m wf]
        by (simp add: MiniFsPathMax_def MINIFSFACTOR_def assertConsistent_def not_read_only [OF m])
      then show ?thesis
        using c True fr t by (intro that [of True fs3]) auto
    qed
  next
    case False
    have "miniFsFileCreate fs fn sz = Some (False, fs)"
      unfolding code using False by (auto simp: MiniFsPathMax_def MINIFSFACTOR_def not_read_only [OF m])
    then show ?thesis using False m wf fr by (intro that [of False fs]) auto
  qed
qed

end

end
