(* ===== verification/MiniFsResize.thy ===== *)
theory MiniFsResize
  imports MiniFsAlloc
begin

text \<open>
  Resizing a file of a MiniFs volume: in place when the new length fits in front of the next file,
  otherwise by a copy to a free region. Every branch keeps the volume well formed, the other files
  and the common part of the content.
\<close>

section \<open>Replacing a file of a volume\<close>

lemma insort_remove1: "sorted us \<Longrightarrow> f \<in> set us \<Longrightarrow> insort f (remove1 f us) = us"
  by (rule insort_remove1) simp_all

text \<open>A volume in which file \<open>f\<close> has been replaced by a file at \<open>g\<close> of the same name.\<close>

lemma vol_replace:
  assumes wf: "volWf v" and len: "length v' = length v" and h: "v' ! 0 = v ! 0" "v' ! 1 = v ! 1"
    and f: "f \<in> set (usedFiles v)"
    and sl: "slots v' = insort g (remove1 f (usedFiles v)) @ replicate (126 - length (usedFiles v)) 0"
    and free: "regionFree v (remove1 f (usedFiles v)) g n"
    and body: "\<And>i. 128 \<le> i \<Longrightarrow> i < length v \<Longrightarrow> i < 128 * g \<or> 128 * (g + n) \<le> i \<Longrightarrow> v' ! i = v ! i"
    and hdr: "take (4 + length (fileName v f)) (drop (128 * g) v') = [hi8 t, lo8 t, of_nat n] @ fileName v f @ [0]"
    and t: "4 + length (fileName v f) \<le> unat t" "unat t \<le> 128 * n" and n: "n < 256"
  shows "volWf v' \<and> usedFiles v' = insort g (remove1 f (usedFiles v)) \<and> fileName v' g = fileName v f \<and>
    length (fileContent v' g) = unat t - 4 - length (fileName v f) \<and>
    volAbs v' = (volAbs v)(fileName v f \<mapsto> fileContent v' g)"
proof -
  let ?us = "usedFiles v" and ?ws = "remove1 f (usedFiles v)" and ?fn = "fileName v f"
  note ds = used_distinct_sorted [OF wf]
  have lw: "Suc (length ?ws) = length ?us" using f length_pos_if_in_set [OF f] by (simp add: length_remove1)
  have l126: "length ?us \<le> 126" using wf by (intro length_used volWf_length)
  have dn: "distinct (map (fileName v) ?us)" using wf by (simp add: volWf_def)
  have nin: "?fn \<notin> fileName v ` set ?ws"
  proof
    assume "?fn \<in> fileName v ` set ?ws"
    then obtain x where "x \<in> set ?ws" "fileName v x = ?fn" by (metis imageE)
    then have "x \<in> set ?us" "x \<noteq> f" "fileName v x = ?fn" using ds(1) by auto
    then show False using dn f by (auto simp: distinct_map dest: inj_onD)
  qed
  have "volWf v' \<and> usedFiles v' = insort g ?ws \<and> fileName v' g = ?fn \<and>
    length (fileContent v' g) = unat t - 4 - length ?fn \<and>
    volAbs v' = (map_of (map (\<lambda>f. (fileName v f, fileContent v f)) ?ws))(?fn \<mapsto> fileContent v' g)"
  proof (rule vol_insert [OF wf len h _ _ _ _ _ free body hdr t n fileName_no_nul _ nin])
    show "set ?ws \<subseteq> set ?us" by (rule set_remove1_subset)
    show "sorted ?ws" "distinct ?ws" using ds by (simp_all add: sorted_remove1)
    show "length ?ws < 126" using lw l126 by simp
    show "slots v' = insort g ?ws @ replicate (126 - Suc (length ?ws)) 0" unfolding sl lw ..
    show "length ?fn < 127" using volWf_used(1) [OF wf f] by (simp add: fileOk_def)
  qed
  moreover have "map_of (map (\<lambda>f. (fileName v f, fileContent v f)) ?ws) = (volAbs v)(?fn := None)"
    unfolding volAbs_def using dn f by (rule files_map_remove)
  ultimately show ?thesis by simp
qed

text \<open>A change of a free region alone changes no file.\<close>

lemma vol_free_write:
  assumes wf: "volWf v" and len: "length v' = length v" and free: "regionFree v (usedFiles v) g n"
    and same: "\<And>i. i < length v \<Longrightarrow> i < 128 * g \<or> 128 * (g + n) \<le> i \<Longrightarrow> v' ! i = v ! i"
  shows "volWf v' \<and> usedFiles v' = usedFiles v \<and> slots v' = slots v \<and>
    (\<forall>f \<in> set (usedFiles v). fileName v' f = fileName v f \<and> fileContent v' f = fileContent v f)"
proof -
  let ?us = "usedFiles v"
  have g: "1 \<le> g" using free by (simp add: regionFree_def)
  have l: "128 \<le> length v" using wf by (rule volWf_length)
  have h: "v' ! i = v ! i" if "i < 128" for i using that same l g by simp
  have h01: "v' ! 0 = v ! 0" "v' ! 1 = v ! 1" using h by simp_all
  have sl: "slots v' = slots v" using len h by (intro slots_eqI) auto
  have kept: "fileOk v' f \<and> fileUnits v' f = fileUnits v f \<and> fileName v' f = fileName v f \<and>
      fileContent v' f = fileContent v f" if f: "f \<in> set ?us" for f
  proof (rule files_kept [OF wf len h01(2) f])
    fix i assume i: "128 * f \<le> i" "i < 128 * (f + fileUnits v f)"
    have "g + n \<le> f \<or> f + fileUnits v f \<le> g" using free f by (auto simp: regionFree_def)
    then have "128 * (g + n) \<le> i \<or> i < 128 * g" using i by (intro units_apart)
    then show "v' ! i = v ! i" using i volWf_used(3) [OF wf f] by (intro same) auto
  qed
  have u: "volUnits v' = volUnits v" by (simp only: volUnits_def h01)
  have "volWf v' \<and> usedFiles v' = ?us"
  proof (rule volWf_intro)
    show "sorted_wrt (\<lambda>f g. f + fileUnits v' f \<le> g) ?us"
      using wf sorted_wrt_units [of ?us "fileUnits v'" "fileUnits v"] kept by (simp add: volWf_def)
    have "map (fileName v') ?us = map (fileName v) ?us" using kept by simp
    then show "distinct (map (fileName v') ?us)" using wf unfolding volWf_def by metis
    show "slots v' = ?us @ replicate (126 - length ?us) 0" using wf by (simp add: sl volWf_def)
    show "0 \<notin> set ?us" using used_nonzero by blast
  qed (use wf kept in \<open>auto simp: u len h01 volWf_def\<close>)
  then show ?thesis using kept sl by blast
qed

text \<open>The common part of two contents.\<close>

lemma fileContent_nth:
  assumes "i < length (fileContent v f)"
  shows "fileContent v f ! i = v ! (128 * f + 4 + length (fileName v f) + i)"
proof -
  have "4 + length (fileName v f) + i < length (take (fileTotal v f) (drop (128 * f) v))"
    using assms unfolding fileContent_def length_drop less_diff_conv by linarith
  moreover from this have "128 * f \<le> length v" by simp linarith
  ultimately show ?thesis by (simp add: fileContent_def add.assoc)
qed

lemma content_prefix:
  assumes "k \<le> length (fileContent v f)" "k \<le> length (fileContent v' g)"
    and "\<And>i. i < k \<Longrightarrow> v' ! (128 * g + 4 + length (fileName v' g) + i) = v ! (128 * f + 4 + length (fileName v f) + i)"
  shows "take k (fileContent v' g) = take k (fileContent v f)"
  using assms by (intro nth_equalityI) (simp_all add: fileContent_nth)

lemma header_of_file:
  assumes ok: "fileOk v f" and vl: "128 * volUnits v \<le> length v" and len: "length v' = length v"
    and b: "v' ! (128 * f) = b2" "v' ! (128 * f + 1) = b1" "v' ! (128 * f + 2) = b0"
    and same: "\<And>i. 128 * f + 3 \<le> i \<Longrightarrow> i < 128 * f + 4 + length (fileName v f) \<Longrightarrow> v' ! i = v ! i"
  shows "take (4 + length (fileName v f)) (drop (128 * f) v') = [b2, b1, b0] @ fileName v f @ [0]"
proof (rule nth_equalityI)
  let ?fn = "fileName v f"
  have "4 + length ?fn \<le> fileTotal v f" using ok by (simp add: fileOk_def)
  then have r: "128 * f + (4 + length ?fn) \<le> length v" using fileOk_end [OF ok vl] by linarith
  then show "length (take (4 + length ?fn) (drop (128 * f) v')) = length ([b2, b1, b0] @ ?fn @ [0])"
    by (simp add: len)
  fix i assume "i < length (take (4 + length ?fn) (drop (128 * f) v'))"
  then have i: "i < 4 + length ?fn" by simp
  have e: "take (4 + length ?fn) (drop (128 * f) v') ! i = v' ! (128 * f + i)"
    using i r by (simp add: len)
  consider "i = 0" | "i = 1" | "i = 2" | j where "i = 3 + j" "j < length ?fn" | "i = 3 + length ?fn"
  proof -
    have "i < 3 \<or> (\<exists>j. i = 3 + j \<and> j < length ?fn) \<or> i = 3 + length ?fn"
      using i by (cases "i < 3") (auto intro!: exI [of _ "i - 3"])
    then show ?thesis using that by fastforce
  qed
  then have "v' ! (128 * f + i) = ([b2, b1, b0] @ ?fn @ [0]) ! i"
  proof cases
    case (4 j)
    then have "v' ! (128 * f + 3 + j) = ?fn ! j" using same fileName_nth [OF 4(2)] by simp
    then show ?thesis using 4 by (simp add: nth_append add.assoc)
  next
    case 5
    have "v' ! (128 * f + 3 + length ?fn) = 0" using same fileName_nul [OF ok vl] by simp
    then show ?thesis using 5 by (simp add: nth_append add.assoc)
  qed (use b in simp_all)
  then show "take (4 + length ?fn) (drop (128 * f) v') ! i = ([b2, b1, b0] @ ?fn @ [0]) ! i"
    unfolding e .
qed

text \<open>The three header bytes of a file are rewritten in place.\<close>

lemma vol_retouch:
  assumes wf: "volWf v" and f: "f \<in> set (usedFiles v)"
    and v': "v' = v[128 * f := hi8 t, 128 * f + 1 := lo8 t, 128 * f + 2 := of_nat n]"
    and free: "regionFree v (remove1 f (usedFiles v)) f n"
    and t: "4 + length (fileName v f) \<le> unat t" "unat t \<le> 128 * n" and n: "n < 256"
  shows "volWf v' \<and> length v' = length v \<and> (\<exists>c. length c = unat t - 4 - length (fileName v f) \<and>
    volAbs v' = (volAbs v)(fileName v f \<mapsto> c) \<and>
    (\<forall>k \<le> min (length c) (length (fileContent v f)). take k c = take k (fileContent v f)))"
proof -
  let ?us = "usedFiles v"
  note ok = volWf_used(1) [OF wf f] and f0 = volWf_used(2) [OF wf f] and fe = volWf_used(3) [OF wf f]
  have vl: "128 * volUnits v \<le> length v" using wf by (simp add: volWf_def)
  have len: "length v' = length v" by (simp add: v')
  have n1: "1 \<le> fileUnits v f" using ok by (rule fileOk_units)
  then have r: "128 * f + 128 \<le> length v" using fe by simp
  have same: "v' ! i = v ! i" if "i < 128 * f \<or> 128 * f + 3 \<le> i" for i
    using that by (auto simp: v' nth_list_update_neq)
  have b: "v' ! (128 * f) = hi8 t" "v' ! (128 * f + 1) = lo8 t" "v' ! (128 * f + 2) = of_nat n"
    using r by (simp_all add: v')
  have nn: "1 \<le> n" using t by (cases n) auto
  have h: "v' ! i = v ! i" if "i < 128" for i using that f0 by (intro same) simp
  have sl: "slots v' = slots v" using len h by (intro slots_eqI) auto
  note hdr = header_of_file [OF ok vl len b, OF same]
  have ir: "insort f (remove1 f ?us) = ?us"
    using used_distinct_sorted(2) [OF wf] f by (rule insort_remove1)
  have main: "volWf v' \<and> usedFiles v' = insort f (remove1 f ?us) \<and> fileName v' f = fileName v f \<and>
    length (fileContent v' f) = unat t - 4 - length (fileName v f) \<and>
    volAbs v' = (volAbs v)(fileName v f \<mapsto> fileContent v' f)"
  proof (rule vol_replace [OF wf len _ _ f _ free _ _ t n])
    show "v' ! 0 = v ! 0" "v' ! 1 = v ! 1" using h by simp_all
    show "slots v' = insort f (remove1 f ?us) @ replicate (126 - length ?us) 0"
      using wf unfolding ir sl by (simp add: volWf_def)
    show "v' ! i = v ! i" if "i < 128 * f \<or> 128 * (f + n) \<le> i" for i
      using that nn by (intro same) auto
    show "take (4 + length (fileName v f)) (drop (128 * f) v') = [hi8 t, lo8 t, of_nat n] @ fileName v f @ [0]"
      by (rule hdr) simp
  qed
  have "take k (fileContent v' f) = take k (fileContent v f)"
    if "k \<le> min (length (fileContent v' f)) (length (fileContent v f))" for k
    using that main by (intro content_prefix) (auto intro: same)
  then show ?thesis using main len by blast
qed

section \<open>The branches of the resize\<close>

lemma retouch_free:
  assumes wf: "volWf v" and f: "f \<in> set (usedFiles v)" and n: "f + n \<le> volUnits v"
    and after: "\<And>g. g \<in> set (usedFiles v) \<Longrightarrow> f < g \<Longrightarrow> f + n \<le> g"
  shows "regionFree v (remove1 f (usedFiles v)) f n"
  unfolding regionFree_def
proof (intro conjI ballI)
  show "1 \<le> f" using used_nonzero [OF f] by simp
  show "f + n \<le> volUnits v" by (rule n)
  fix g assume "g \<in> set (remove1 f (usedFiles v))"
  then have g: "g \<in> set (usedFiles v)" "g \<noteq> f" using used_distinct_sorted(1) [OF wf] by auto
  show "g + fileUnits v g \<le> f \<or> f + n \<le> g"
  proof (cases "f < g")
    case False
    then show ?thesis using used_disjoint [OF wf g(1) f g(2)] g(2) fileOk_units [OF volWf_used(1) [OF wf f]] by auto
  qed (use after g in blast)
qed

text \<open>The units a file has, or any fewer, are free for it.\<close>

lemma own_units_free:
  assumes wf: "volWf v" and f: "f \<in> set (usedFiles v)" and n: "n \<le> fileUnits v f"
  shows "regionFree v (remove1 f (usedFiles v)) f n"
proof (rule retouch_free [OF wf f])
  show "f + n \<le> volUnits v" using volWf_used(1) [OF wf f] n by (simp add: fileOk_def)
  fix g assume g: "g \<in> set (usedFiles v)" "f < g"
  then have "f + fileUnits v f \<le> g" using used_disjoint [OF wf f g(1)] by auto
  then show "f + n \<le> g" using n by simp
qed

context byte_store
begin

definition resized :: "'s MiniFs \<Rightarrow> u8 list \<Rightarrow> nat \<Rightarrow> 's MiniFs \<Rightarrow> bool" where
  "resized fs fn m fs' \<longleftrightarrow> mounted fs' \<and> volWf (vol fs') \<and> length (vol fs') = length (vol fs) \<and>
     (\<exists>c c'. volAbs (vol fs) fn = Some c \<and> length c' = m \<and> volAbs (vol fs') = (volAbs (vol fs))(fn \<mapsto> c') \<and>
        take (min m (length c)) c' = take (min m (length c)) c)"

lemma abs_used:
  "volWf v \<Longrightarrow> f \<in> set (usedFiles v) \<Longrightarrow> volAbs v (fileName v f) = Some (fileContent v f)"
  by (auto simp: volAbs_Some)

lemma retouch_resized:
  assumes wf: "volWf (vol fs)" and f: "f \<in> set (usedFiles (vol fs))" and m: "mounted fs'"
    and v': "vol fs' = (vol fs)[128 * f := hi8 t, 128 * f + 1 := lo8 t, 128 * f + 2 := of_nat n]"
    and free: "regionFree (vol fs) (remove1 f (usedFiles (vol fs))) f n"
    and t: "unat t = 4 + length (fileName (vol fs) f) + k" "unat t \<le> 128 * n" and n: "n < 256"
  shows "resized fs (fileName (vol fs) f) k fs'"
proof -
  let ?v = "vol fs"
  have t4: "4 + length (fileName ?v f) \<le> unat t" using t(1) by simp
  obtain c where c: "length c = unat t - 4 - length (fileName ?v f)"
    "volAbs (vol fs') = (volAbs ?v)(fileName ?v f \<mapsto> c)"
    "\<forall>j \<le> min (length c) (length (fileContent ?v f)). take j c = take j (fileContent ?v f)"
    and w: "volWf (vol fs')" "length (vol fs') = length ?v"
    using vol_retouch [OF wf f v' free t4 t(2) n] by blast
  have "length c = k" using c(1) t(1) by simp
  then show ?thesis
    unfolding resized_def using m w c abs_used [OF wf f]
    by (intro conjI exI [of _ "fileContent ?v f"] exI [of _ c]) simp_all
qed

lemma file_start:
  assumes wf: "volWf (vol fs)" and f: "f \<in> set (usedFiles (vol fs))"
  shows "128 * f + 128 \<le> length (vol fs)" "128 * f < 65000"
proof -
  show "128 * f + 128 \<le> length (vol fs)"
    using volWf_used(3) [OF wf f] fileOk_units [OF volWf_used(1) [OF wf f]]
    unfolding distrib_left by linarith
  show "128 * f < 65000" using file_range(6) [OF wf f] by simp
qed

text \<open>The writes of the total length, and of the number of units.\<close>

lemma write_total:
  assumes m: "mounted fs" and wf: "volWf (vol fs)" and f: "f \<in> set (usedFiles (vol fs))"
  obtains fs1 fs2 where "miniFsWriteByte fs (of_nat (128 * f)) (hi8 t) = Some fs1"
    "miniFsWriteByte fs1 (of_nat (128 * f) + 1) (lo8 t) = Some fs2"
    "mounted fs2" "vol fs2 = (vol fs)[128 * f := hi8 t, 128 * f + 1 := lo8 t]"
proof -
  define a where "a = 128 * f"
  have r: "a + 128 \<le> length (vol fs)" "a < 65000"
    using file_start [OF wf f] unfolding a_def .
  obtain fs1 where 1: "miniFsWriteByte fs (of_nat a) (hi8 t) = Some fs1" "mounted fs1"
    "vol fs1 = (vol fs)[a := hi8 t]"
    using r by (elim write_byte [OF m, rotated -1]) linarith+
  have l1: "length (vol fs1) = length (vol fs)" by (simp add: 1(3))
  obtain fs2 where 2: "miniFsWriteByte fs1 (of_nat (a + 1)) (lo8 t) = Some fs2" "mounted fs2"
    "vol fs2 = (vol fs1)[a + 1 := lo8 t]"
    using r by (elim write_byte [OF 1(2), rotated -1]) (unfold l1, linarith+)
  have e: "of_nat (a + 1) = (of_nat a + 1 :: u16)" by simp
  have v: "vol fs2 = (vol fs)[a := hi8 t, a + 1 := lo8 t]" by (simp only: 1(3) 2(3))
  show ?thesis
    by (rule that [OF 1(1) [unfolded a_def] 2(1) [unfolded e, unfolded a_def] 2(2) v [unfolded a_def]])
qed

lemma write_units:
  assumes m: "mounted fs" and wf: "volWf (vol fs)" and f: "f \<in> set (usedFiles (vol fs))"
    and m2: "mounted fs2" and l2: "length (vol fs2) = length (vol fs)"
  obtains fs3 where "miniFsWriteByte fs2 (miniFsFileGetSizeFactorOffsetFromBaseOffset (of_nat (128 * f))) s = Some fs3"
    "mounted fs3" "vol fs3 = (vol fs2)[128 * f + 2 := s]"
    "miniFsFileGetSizeFactorOffsetFromBaseOffset (of_nat (128 * f)) \<noteq> 0"
proof -
  define a where "a = 128 * f"
  have r: "a + 128 \<le> length (vol fs2)" "a < 65000"
    using file_start [OF wf f] unfolding a_def l2 .
  have z: "(of_nat a :: u16) \<noteq> 0"
    using base_nonzero [OF used_nonzero [OF f] file_range(6) [OF wf f]] unfolding a_def .
  have e: "miniFsFileGetSizeFactorOffsetFromBaseOffset (of_nat a) = of_nat (a + 2)"
    using z by (simp add: miniFsFileGetSizeFactorOffsetFromBaseOffset_def)
  obtain fs3 where 3: "miniFsWriteByte fs2 (of_nat (a + 2)) s = Some fs3" "mounted fs3"
    "vol fs3 = (vol fs2)[a + 2 := s]"
    using r by (elim write_byte [OF m2, rotated -1]) linarith+
  have nz: "miniFsFileGetSizeFactorOffsetFromBaseOffset (of_nat a) \<noteq> 0"
    unfolding e using r of_nat16_eq_0 [of "a + 2"] by simp
  show ?thesis
    by (rule that [OF 3(1) [folded e, unfolded a_def] 3(2) 3(3) [unfolded a_def] nz [unfolded a_def]])
qed

lemma base_index:
  assumes m: "mounted fs" and wf: "volWf (vol fs)" and k: "k < length (usedFiles (vol fs))"
    and m2: "mounted fs2" and l2: "length (vol fs2) = length (vol fs)"
    and same: "\<And>i. i < 128 \<Longrightarrow> vol fs2 ! i = vol fs ! i"
  shows "miniFsFileGetBaseOffsetFromIndex fs2 (of_nat k) = of_nat (128 * usedFiles (vol fs) ! k)"
proof -
  have l: "128 \<le> length (vol fs)" using wf by (rule volWf_length)
  have k126: "k < 126" using k length_used [OF l] by simp
  have "slots (vol fs2) = slots (vol fs)" using l2 same by (intro slots_eqI) auto
  then have "slots (vol fs2) ! k = usedFiles (vol fs) ! k" using used_nth [OF wf k126] k by simp
  then show ?thesis using base_read [OF m2 _ k126] l l2 by simp
qed

lemma low_bytes:
  "0 < f \<Longrightarrow> i < 128 \<Longrightarrow> v[128 * f := a, 128 * f + 1 := b] ! i = v ! i"
  by simp

lemma shrink_code:
  assumes m: "mounted fs" and wf: "volWf (vol fs)" and k: "k < length (usedFiles (vol fs))"
    and f: "f = usedFiles (vol fs) ! k" and t: "unat t = 4 + length (fileName (vol fs) f) + j"
    and le: "unat t \<le> fileTotal (vol fs) f"
  obtains fs2 fs3 where "miniFsSetFileTotalLengthForIndex fs (of_nat k) t = Some fs2"
    "miniFsSetFileSizeFactorForIndex fs2 (of_nat k) (miniFsGetSizeFactorForTotalLength t) = Some fs3"
    "resized fs (fileName (vol fs) f) j fs3"
proof -
  let ?v = "vol fs" and ?s = "miniFsGetSizeFactorForTotalLength t"
  have fin: "f \<in> set (usedFiles ?v)" using k f by simp
  note fr = file_range [OF wf fin]
  have u: "fileUnits ?v f < 256" by (rule fileUnits_less)
  have "unat t \<le> 32640" using le fr(5) u by linarith
  then have s: "unat ?s = (unat t + 127) div 128" by (rule size_factor)
  have sn: "?s = of_nat (unat ?s)" by simp
  have su: "unat ?s \<le> fileUnits ?v f" using le fr(5) unfolding s by linarith
  have nz: "(of_nat (128 * f) :: u16) \<noteq> 0" using fr(4,6) by (rule base_nonzero)
  obtain fs1 fs2 where w: "miniFsWriteByte fs (of_nat (128 * f)) (hi8 t) = Some fs1"
    "miniFsWriteByte fs1 (of_nat (128 * f) + 1) (lo8 t) = Some fs2"
    "mounted fs2" "vol fs2 = ?v[128 * f := hi8 t, 128 * f + 1 := lo8 t]"
    using write_total [OF m wf fin, of t] by blast
  have l2: "length (vol fs2) = length ?v" by (simp only: w(4) length_list_update)
  obtain fs3 where w3: "miniFsWriteByte fs2 (miniFsFileGetSizeFactorOffsetFromBaseOffset (of_nat (128 * f))) ?s = Some fs3"
    "mounted fs3" "vol fs3 = (vol fs2)[128 * f + 2 := ?s]"
    "miniFsFileGetSizeFactorOffsetFromBaseOffset (of_nat (128 * f)) \<noteq> 0"
    using write_units [OF m wf fin w(3) l2, of ?s] by blast
  have b0: "miniFsFileGetBaseOffsetFromIndex fs (of_nat k) = of_nat (128 * f)"
    using base_index [OF m wf k m] f by simp
  have b2: "miniFsFileGetBaseOffsetFromIndex fs2 (of_nat k) = of_nat (128 * f)"
    unfolding f by (rule base_index [OF m wf k w(3) l2]) (unfold w(4), rule low_bytes [OF fr(4)])
  have c1: "miniFsSetFileTotalLengthForIndex fs (of_nat k) t = Some fs2"
    unfolding miniFsSetFileTotalLengthForIndex_def miniFsFileGetLengthOffsetFromIndex_def b0
      miniFsFileGetLengthOffsetFromBaseOffset_def Let_def if_not_P [OF nz] add_0_right w(1) bind.bind_lunit
    by (rule w(2))
  have c2: "miniFsSetFileSizeFactorForIndex fs2 (of_nat k) ?s = Some fs3"
    unfolding miniFsSetFileSizeFactorForIndex_def miniFsFileGetSizeFactorOffsetFromIndex_def b2
      Let_def if_not_P [OF w3(4)] by (rule w3(1))
  have "resized fs (fileName ?v f) j fs3"
  proof (rule retouch_resized [OF wf fin w3(2) _ own_units_free [OF wf fin su] t])
    show "vol fs3 = ?v[128 * f := hi8 t, 128 * f + 1 := lo8 t, 128 * f + 2 := of_nat (unat ?s)]"
      unfolding w3(3) w(4) sn [symmetric] ..
    show "unat t \<le> 128 * unat ?s" unfolding s by linarith
  qed (rule unat_u8_less)
  then show ?thesis by (rule that [OF c1 c2])
qed

text \<open>Growing into the units the file has, or into the gap behind it.\<close>

lemma size_bytes:
  assumes m: "mounted fs" and wf: "volWf (vol fs)" and f: "f \<in> set (usedFiles (vol fs))"
  shows "unat (miniFsFileGetSizeFromBaseOffset fs (of_nat (128 * f))) = 128 * fileUnits (vol fs) f"
proof -
  let ?s = "miniFsFileGetSizeFactorFromBaseOffset fs (of_nat (128 * f))"
  have s: "unat ?s = fileUnits (vol fs) f" by (rule file_fields(2) [OF m wf f])
  have u: "fileUnits (vol fs) f < 256" by (rule fileUnits_less)
  have "miniFsFileGetSizeFromBaseOffset fs (of_nat (128 * f)) = of_nat (128 * fileUnits (vol fs) f)"
    unfolding miniFsFileGetSizeFromBaseOffset_def Let_def units16 s
    using s by (simp add: ucast_u8_u16)
  then show ?thesis using u by (simp only: unat_of_nat16)
qed

lemma grow_inside:
  assumes m: "mounted fs" and wf: "volWf (vol fs)" and f: "f \<in> set (usedFiles (vol fs))"
    and t: "unat t = 4 + length (fileName (vol fs) f) + j" and le: "unat t \<le> 128 * fileUnits (vol fs) f"
  obtains fs' where "resizeGrow fs fn i (of_nat (128 * f)) t = Some (True, fs')"
    "resized fs (fileName (vol fs) f) j fs'"
proof -
  let ?v = "vol fs"
  obtain fs1 fs2 where w: "miniFsWriteByte fs (of_nat (128 * f)) (hi8 t) = Some fs1"
    "miniFsWriteByte fs1 (of_nat (128 * f) + 1) (lo8 t) = Some fs2"
    "mounted fs2" "vol fs2 = ?v[128 * f := hi8 t, 128 * f + 1 := lo8 t]"
    using write_total [OF m wf f, of t] by blast
  have c: "t \<le> miniFsFileGetSizeFromBaseOffset fs (of_nat (128 * f))"
    unfolding word_le_nat_alt size_bytes [OF m wf f] by (rule le)
  have id: "xs[n := xs ! n] = xs" for xs :: "u8 list" and n by (rule list_update_id)
  have "?v[128 * f := hi8 t, 128 * f + 1 := lo8 t, 128 * f + 2 := of_nat (fileUnits ?v f)] =
      ?v[128 * f := hi8 t, 128 * f + 1 := lo8 t]"
    using id [of "?v[128 * f := hi8 t, 128 * f + 1 := lo8 t]" "128 * f + 2"] by (simp add: fileUnits_def)
  then have v: "vol fs2 = ?v[128 * f := hi8 t, 128 * f + 1 := lo8 t, 128 * f + 2 := of_nat (fileUnits ?v f)]"
    using w(4) by (simp only:)
  have r: "resized fs (fileName ?v f) j fs2"
    by (rule retouch_resized [OF wf f w(3) v own_units_free [OF wf f order.refl] t le fileUnits_less])
  then have k: "miniFsIsConsistent fs2" by (intro consistent_of_wf) (simp_all add: resized_def)
  have "resizeGrow fs fn i (of_nat (128 * f)) t = Some (True, fs2)"
    unfolding resizeGrow_def if_P [OF c] Let_def miniFsFileGetLengthOffsetFromBaseOffset_def w(1,2)
      bind.bind_lunit assertConsistent_def if_P [OF k] ..
  then show ?thesis using r by (rule that)
qed

lemma word_of_nat_unat8: "of_nat (unat (w :: u8)) = w"
  by simp

lemma next_file:
  assumes m: "mounted fs" and wf: "volWf (vol fs)" and k: "k < length (usedFiles (vol fs))"
  shows "nextFileOffsetFactor fs (of_nat k) =
    (if Suc k < length (usedFiles (vol fs)) then Some (of_nat (usedFiles (vol fs) ! Suc k)) else None)"
proof -
  let ?us = "usedFiles (vol fs)" and ?F = "miniFsFileGetBaseOffsetFactorFromIndex fs"
  have l: "128 \<le> length (vol fs)" using wf by (rule volWf_length)
  have k126: "k < 126" using k length_used [OF l] by simp
  have d: "drop (Suc (unat (of_nat k :: u8))) fileSlots = map of_nat [Suc k..<126]"
    using k126 by (simp add: fileSlots_eq drop_map unat_of_nat8)
  have F: "?F (of_nat i) = of_nat (if i < length ?us then ?us ! i else 0)" if "i < 126" for i
  proof -
    have "of_nat (unat (?F (of_nat i))) = (of_nat (slots (vol fs) ! i) :: u8)"
      unfolding slot_read [OF m l that] ..
    then show ?thesis unfolding used_nth [OF wf that] by simp
  qed
  show ?thesis
  proof (cases "Suc k < length ?us")
    case True
    then have "Suc k < 126" using length_used [OF l] by simp
    then have up: "[Suc k..<126] = Suc k # [Suc (Suc k)..<126]" by (simp add: upt_conv_Cons)
    have "?us ! Suc k < 256" using True by (intro slots_less [of _ "vol fs"] used_slot) simp
    moreover have "0 < ?us ! Suc k" using True used_nonzero [of "?us ! Suc k" "vol fs"] by simp
    ultimately have "(of_nat (?us ! Suc k) :: u8) \<noteq> 0"
      using unat_of_nat8 [of "?us ! Suc k"] by (metis neq0_conv unat_0)
    then show ?thesis
      using True F [OF \<open>Suc k < 126\<close>]
      unfolding nextFileOffsetFactor_def d up list.map by (simp del: of_nat_Suc)
  next
    case False
    have "List.find (\<lambda>f. f \<noteq> 0) (map ?F (map of_nat [Suc k..<126])) = None"
      using F False by (auto simp: find_None_iff simp del: of_nat_Suc)
    then show ?thesis using False unfolding nextFileOffsetFactor_def d by simp
  qed
qed

lemma base_factor:
  assumes "f < 256"
  shows "miniFsFileGetBaseOffsetFactorFromBaseOffset (of_nat (128 * f)) = of_nat f"
proof -
  have "unat (of_nat (128 * f) div of_nat MINIFSFACTOR :: u16) = f"
    unfolding unat_div using assms unat_of_nat16 [of "128 * f"] by (simp add: MINIFSFACTOR_def del: of_nat_mult)
  then have "(of_nat (128 * f) div of_nat MINIFSFACTOR :: u16) = of_nat f"
    using assms by (simp only: unat_eq_iff16 unat_of_nat16)
  then show ?thesis
    using assms unfolding miniFsFileGetBaseOffsetFactorFromBaseOffset_def
    by (simp add: unat_eq_iff8 unsigned_ucast_eq take_bit_eq_mod unat_of_nat16 unat_of_nat8 del: of_nat_mult)
qed

lemma max_units:
  assumes m: "mounted fs" and wf: "volWf (vol fs)" and k: "k < length (usedFiles (vol fs))"
    and f: "f = usedFiles (vol fs) ! k"
  shows "unat (case nextFileOffsetFactor fs (of_nat k) of
      Some nxt \<Rightarrow> nxt - of_nat f
    | None \<Rightarrow> miniFsGetTotalSizeFactorMinusOne fs - of_nat f + 1) = gapEnd (vol fs) k - f"
proof -
  let ?v = "vol fs" and ?us = "usedFiles (vol fs)" and ?T = "miniFsGetTotalSizeFactorMinusOne fs"
  have l: "128 \<le> length ?v" using wf by (rule volWf_length)
  have fin: "f \<in> set ?us" using k f by simp
  note fr = file_range [OF wf fin]
  have uf: "unat (of_nat f :: u8) = f" using fr(6) by (rule unat_of_nat8)
  show ?thesis
  proof (cases "Suc k < length ?us")
    case True
    define h where "h = ?us ! Suc k"
    have h: "h < 256" unfolding h_def using True by (intro slots_less [of _ ?v] used_slot) simp
    have fh: "f \<le> h" unfolding f h_def using used_sorted [OF wf _ True, of k] by simp
    have "(of_nat f :: u8) \<le> of_nat h" using fh h fr(6) by (simp add: word_le_nat_alt unat_of_nat8)
    then have "unat (of_nat h - of_nat f :: u8) = h - f"
      using h by (simp add: unat_sub uf unat_of_nat8)
    then show ?thesis
      using True unfolding next_file [OF m wf k] if_P [OF True] option.case gapEnd_def h_def by simp
  next
    case False
    have T: "unat ?T + 1 = volUnits ?v" by (rule total_units_read [OF m l])
    have fl: "f + 1 \<le> volUnits ?v"
      using volWf_used(1) [OF wf fin] fileOk_units [OF volWf_used(1) [OF wf fin]] by (simp add: fileOk_def)
    then have le: "(of_nat f :: u8) \<le> ?T" unfolding word_le_nat_alt uf using T by linarith
    have "?T - of_nat f + 1 = (of_nat (volUnits ?v - f) :: u8)"
    proof -
      have "unat (?T - of_nat f) = unat ?T - f" using unat_sub [OF le] by (simp add: uf)
      then have "of_nat (unat (?T - of_nat f)) = (of_nat (unat ?T - f) :: u8)" by (rule arg_cong)
      then have "?T - of_nat f = of_nat (unat ?T - f)" by (simp only: word_of_nat_unat8)
      moreover have "volUnits ?v - f = (unat ?T - f) + 1" using T fl by linarith
      ultimately show ?thesis by simp
    qed
    moreover have "volUnits ?v - f < 256" using volUnits_bounds(2) [of ?v] fr(4) by linarith
    ultimately have "unat (?T - of_nat f + 1) = volUnits ?v - f" by (simp only: unat_of_nat8)
    then show ?thesis
      unfolding next_file [OF m wf k] if_not_P [OF False] option.case gapEnd_def by (simp add: False)
  qed
qed

lemma grow_gap:
  assumes m: "mounted fs" and wf: "volWf (vol fs)" and k: "k < length (usedFiles (vol fs))"
    and f: "f = usedFiles (vol fs) ! k" and t: "unat t = 4 + length (fileName (vol fs) f) + j"
    and big: "\<not> unat t \<le> 128 * fileUnits (vol fs) f" "unat t \<le> 32640"
    and gap: "f + (unat t + 127) div 128 \<le> gapEnd (vol fs) k"
  obtains fs' where "resizeGrow fs fn (of_nat k) (of_nat (128 * f)) t = Some (True, fs')"
    "resized fs (fileName (vol fs) f) j fs'"
proof -
  let ?v = "vol fs" and ?us = "usedFiles (vol fs)" and ?s = "miniFsGetSizeFactorForTotalLength t"
  have fin: "f \<in> set ?us" using k f by simp
  note fr = file_range [OF wf fin]
  have s: "unat ?s = (unat t + 127) div 128" using big(2) by (rule size_factor)
  have sn: "?s = of_nat (unat ?s)" by simp
  obtain fs1 fs2 where w: "miniFsWriteByte fs (of_nat (128 * f)) (hi8 t) = Some fs1"
    "miniFsWriteByte fs1 (of_nat (128 * f) + 1) (lo8 t) = Some fs2"
    "mounted fs2" "vol fs2 = ?v[128 * f := hi8 t, 128 * f + 1 := lo8 t]"
    using write_total [OF m wf fin, of t] by blast
  have l2: "length (vol fs2) = length ?v" by (simp only: w(4) length_list_update)
  obtain fs3 where w3: "miniFsWriteByte fs2 (miniFsFileGetSizeFactorOffsetFromBaseOffset (of_nat (128 * f))) ?s = Some fs3"
    "mounted fs3" "vol fs3 = (vol fs2)[128 * f + 2 := ?s]"
    using write_units [OF m wf fin w(3) l2, of ?s] by blast
  have c: "\<not> t \<le> miniFsFileGetSizeFromBaseOffset fs (of_nat (128 * f))"
    unfolding word_le_nat_alt size_bytes [OF m wf fin] by (rule big(1))
  have c2: "?s \<le> (case nextFileOffsetFactor fs (of_nat k) of Some nxt \<Rightarrow> nxt - of_nat f
      | None \<Rightarrow> miniFsGetTotalSizeFactorMinusOne fs - of_nat f + 1)"
    unfolding word_le_nat_alt max_units [OF m wf k f] s using gap by simp
  have r: "resized fs (fileName ?v f) j fs3"
  proof (rule retouch_resized [OF wf fin w3(2) _ _ t])
    show "vol fs3 = ?v[128 * f := hi8 t, 128 * f + 1 := lo8 t, 128 * f + 2 := of_nat (unat ?s)]"
      unfolding w3(3) w(4) sn [symmetric] ..
    show "unat t \<le> 128 * unat ?s" unfolding s by linarith
    show "regionFree ?v (remove1 f ?us) f (unat ?s)"
    proof (rule retouch_free [OF wf fin])
      have "gapEnd ?v k \<le> volUnits ?v"
        using volWf_used(1) [OF wf, of "?us ! Suc k"] by (auto simp: gapEnd_def fileOk_def)
      then show "f + unat ?s \<le> volUnits ?v" using gap unfolding s by simp
      fix g assume "g \<in> set ?us" and fg: "f < g"
      then obtain i where i: "i < length ?us" "g = ?us ! i" by (auto simp: in_set_conv_nth)
      have "Suc k \<le> i"
      proof (rule ccontr)
        assume "\<not> Suc k \<le> i"
        then have "g \<le> f" unfolding i(2) f using used_sorted [OF wf _ k, of i] by simp
        then show False using fg by simp
      qed
      then have "gapEnd ?v k \<le> g"
        using used_sorted [OF wf _ i(1), of "Suc k"] i by (simp add: gapEnd_def)
      then show "f + unat ?s \<le> g" using gap unfolding s by simp
    qed
  qed (rule unat_u8_less)
  then have kk: "miniFsIsConsistent fs3" by (intro consistent_of_wf) (simp_all add: resized_def)
  have "resizeGrow fs fn (of_nat k) (of_nat (128 * f)) t = Some (True, fs3)"
    unfolding resizeGrow_def if_not_P [OF c] Let_def base_factor [OF fr(6)] if_P [OF c2]
      miniFsFileGetLengthOffsetFromBaseOffset_def w(1,2) w3(1) bind.bind_lunit assertConsistent_def if_P [OF kk] ..
  then show ?thesis using r by (rule that)
qed

text \<open>The copy to a free region.\<close>

lemma copy_content:
  assumes "mounted fs" "src + n \<le> length (vol fs)" "dest + n \<le> length (vol fs)" "src + n < 65536" "dest + n < 65536"
    and "src + n \<le> dest \<or> dest + n \<le> src"
  shows "\<exists>fs'. copyContent fs (of_nat dest) (of_nat src) n = Some fs' \<and> mounted fs' \<and>
    length (vol fs') = length (vol fs) \<and>
    (\<forall>i < length (vol fs). vol fs' ! i =
       (if dest \<le> i \<and> i < dest + n then vol fs ! (src + (i - dest)) else vol fs ! i))"
  using assms
proof (induction n arbitrary: fs src dest)
  case (Suc n)
  have r: "src < length (vol fs)" "src < 65536" "dest < length (vol fs)" "dest < 65536"
    using Suc.prems by simp_all
  have rb: "miniFsReadByte fs (of_nat src) = vol fs ! src" using Suc.prems(1) r(1,2) by (rule read_byte)
  obtain fs1 where 1: "miniFsWriteByte fs (of_nat dest) (vol fs ! src) = Some fs1" "mounted fs1"
    "vol fs1 = (vol fs)[dest := vol fs ! src]"
    using write_byte [OF Suc.prems(1) r(3,4)] by blast
  have l1: "length (vol fs1) = length (vol fs)" by (simp add: 1(3))
  have "\<exists>fs'. copyContent fs1 (of_nat (Suc dest)) (of_nat (Suc src)) n = Some fs' \<and> mounted fs' \<and>
    length (vol fs') = length (vol fs1) \<and>
    (\<forall>i < length (vol fs1). vol fs' ! i =
       (if Suc dest \<le> i \<and> i < Suc dest + n then vol fs1 ! (Suc src + (i - Suc dest)) else vol fs1 ! i))"
    using Suc.prems 1(2) by (intro Suc.IH) (auto simp: l1)
  then obtain fs' where 2: "copyContent fs1 (of_nat (Suc dest)) (of_nat (Suc src)) n = Some fs'"
    "mounted fs'" "length (vol fs') = length (vol fs)"
    "\<And>i. i < length (vol fs) \<Longrightarrow> vol fs' ! i =
       (if Suc dest \<le> i \<and> i < Suc dest + n then vol fs1 ! (Suc src + (i - Suc dest)) else vol fs1 ! i)"
    unfolding l1 by blast
  have c: "copyContent fs (of_nat dest) (of_nat src) (Suc n) = Some fs'"
    using 2(1) by (simp add: rb 1(1) add.commute)
  have "vol fs' ! i = (if dest \<le> i \<and> i < dest + Suc n then vol fs ! (src + (i - dest)) else vol fs ! i)"
    if i: "i < length (vol fs)" for i
  proof -
    consider "i = dest" | "Suc dest \<le> i" "i < Suc dest + n" | "i < dest \<or> dest + Suc n \<le> i" by linarith
    then show ?thesis
    proof cases
      case 1
      then show ?thesis using 2(4) [OF i] i by (simp add: \<open>vol fs1 = _\<close>)
    next
      case 2
      have e: "src + (i - dest) = Suc src + (i - Suc dest)" using 2 by simp
      have "Suc src + (i - Suc dest) \<noteq> dest" using 2 Suc.prems(6) by linarith
      then show ?thesis using \<open>\<And>i. i < length (vol fs) \<Longrightarrow> vol fs' ! i = _\<close> [OF i] 2 unfolding e by (simp add: 1(3))
    next
      case 3
      then show ?thesis using 2(4) [OF i] by (auto simp: 1(3))
    qed
  qed
  then show ?case using c 2(2,3) by blast
qed auto

lemma take_drop_eqI:
  "a + length d \<le> length v \<Longrightarrow> (\<And>i. i < length d \<Longrightarrow> v ! (a + i) = d ! i) \<Longrightarrow> take (length d) (drop a v) = d"
  by (intro nth_equalityI) simp_all

text \<open>The header and the copied content in the new region.\<close>

lemma move_writes:
  assumes m: "mounted fs" and wf: "volWf (vol fs)" and k: "k < length (usedFiles (vol fs))"
    and f: "f = usedFiles (vol fs) ! k" and fn: "fn = fileName (vol fs) f"
    and t: "unat t = 4 + length fn + j" "unat t \<le> 128 * unat sz"
    and c: "length (fileContent (vol fs) f) \<le> j"
    and free: "regionFree (vol fs) (usedFiles (vol fs)) (unat g) (unat sz)"
  obtains fs1 fs2 where
    "writeFileHeader fs g t sz fn = Some (of_nat (128 * unat g + 4 + length fn), fs1)"
    "miniFsFileGetContentOffsetFromBaseOffset fs1 (of_nat (128 * f)) = Some (of_nat (128 * f + 4 + length fn))"
    "miniFsFileGetContentLenFromIndex fs1 (of_nat k) = Some (of_nat (length (fileContent (vol fs) f)))"
    "copyContent fs1 (of_nat (128 * unat g + 4 + length fn)) (of_nat (128 * f + 4 + length fn))
       (length (fileContent (vol fs) f)) = Some fs2"
    "mounted fs2" "length (vol fs2) = length (vol fs)"
    "\<And>i. i < length (vol fs) \<Longrightarrow> i < 128 * unat g \<or> 128 * (unat g + unat sz) \<le> i \<Longrightarrow> vol fs2 ! i = vol fs ! i"
    "take (4 + length fn) (drop (128 * unat g) (vol fs2)) = [hi8 t, lo8 t, sz] @ fn @ [0]"
    "\<And>i. i < length (fileContent (vol fs) f) \<Longrightarrow>
       vol fs2 ! (128 * unat g + 4 + length fn + i) = vol fs ! (128 * f + 4 + length fn + i)"
proof -
  let ?v = "vol fs" and ?us = "usedFiles (vol fs)"
  define G where "G = unat g"
  define n where "n = unat sz"
  define L where "L = length fn"
  define C where "C = length (fileContent ?v f)"
  have fin: "f \<in> set ?us" using k f by simp
  note fr = file_range [OF wf fin] and ok = volWf_used(1) [OF wf fin]
  have l: "128 \<le> length ?v" using wf by (rule volWf_length)
  have vl: "128 * volUnits ?v \<le> length ?v" using wf by (simp add: volWf_def)
  have k126: "k < 126" using k length_used [OF l] by simp
  note free = free [folded G_def n_def]
  have g: "1 \<le> G" "G + n \<le> volUnits ?v" using free by (simp_all add: regionFree_def)
  have tn: "4 + L + j \<le> 128 * n" using t unfolding n_def L_def by simp
  have L127: "L < 127" using ok by (simp add: fileOk_def L_def fn)
  have gl: "128 * G + 128 * n \<le> length ?v" using g(2) vl by linarith
  have g16: "128 * G + 128 * n \<le> 32768" using g(2) volUnits_bounds(2) [of ?v] by linarith
  have apart: "G + n \<le> f \<or> f + fileUnits ?v f \<le> G" using free fin by (auto simp: regionFree_def)
  have hl: "128 * unat g + 4 + length fn \<le> length ?v" "length fn < 1000"
    using gl tn L127 unfolding G_def L_def by linarith+
  let ?d = "[hi8 t, lo8 t, sz] @ fn @ [0]"
  obtain fs1 where 1: "writeFileHeader fs g t sz fn = Some (of_nat (128 * G + 4 + L), fs1)" "mounted fs1"
    "vol fs1 = splice_at (128 * G) ?d ?v"
    using write_header [OF m hl] unfolding G_def L_def by blast
  have ld: "length ?d = 4 + L" by (simp add: L_def)
  have inr: "128 * G + length ?d \<le> length ?v" unfolding ld using gl tn by linarith
  have l1: "length (vol fs1) = length ?v" unfolding 1(3) using inr by simp
  have n1: "vol fs1 ! i = (if 128 * G \<le> i \<and> i < 128 * G + (4 + L) then ?d ! (i - 128 * G) else ?v ! i)"
    if "i < length ?v" for i
    unfolding 1(3) nth_splice_at [OF inr that] ld ..
  have out1: "vol fs1 ! i = ?v ! i" if "i < length ?v" "i < 128 * G \<or> 128 * (G + n) \<le> i" for i
  proof -
    have "\<not> (128 * G \<le> i \<and> i < 128 * G + (4 + L))" using that(2) tn unfolding distrib_left by linarith
    then show ?thesis unfolding n1 [OF that(1)] by (rule if_not_P)
  qed
  have w1: "volWf (vol fs1)" "usedFiles (vol fs1) = ?us" "slots (vol fs1) = slots ?v"
    "fileName (vol fs1) f = fn" "fileContent (vol fs1) f = fileContent ?v f"
    using vol_free_write [OF wf l1 free out1] fin fn by auto
  have fin1: "f \<in> set (usedFiles (vol fs1))" using fin w1(2) by simp
  have cf: "miniFsFileGetContentOffsetFromBaseOffset fs1 (of_nat (128 * f)) = Some (of_nat (128 * f + 4 + L))"
    "miniFsFileGetContentLenFromBaseOffset fs1 (of_nat (128 * f)) = Some (of_nat C)"
    using content_fields [OF 1(2) w1(1) fin1] unfolding w1(4,5) L_def C_def by simp_all
  have bi: "miniFsFileGetBaseOffsetFromIndex fs1 (of_nat k) = of_nat (128 * f)"
    using base_read [OF 1(2) _ k126] l l1 w1(3) used_nth [OF wf k126] k f by simp
  have cr: "128 * f + 4 + L + C \<le> 128 * f + 128 * fileUnits ?v f" "128 * f + 4 + L + C \<le> length ?v"
    "128 * f + 4 + L + C \<le> 32768"
  proof -
    have "4 + L + C = fileTotal ?v f"
      using length_fileContent [OF ok vl] fr(3) unfolding L_def C_def fn by linarith
    then show "128 * f + 4 + L + C \<le> 128 * f + 128 * fileUnits ?v f" using fr(5) by linarith
    show "128 * f + 4 + L + C \<le> length ?v" "128 * f + 4 + L + C \<le> 32768"
      using content_range [OF wf fin] unfolding L_def C_def fn .
  qed
  have Cj: "C \<le> j" using c by (simp add: C_def)
  have C16: "C < 65536" using cr by linarith
  have "\<exists>fs'. copyContent fs1 (of_nat (128 * G + 4 + L)) (of_nat (128 * f + 4 + L)) C = Some fs' \<and> mounted fs' \<and>
    length (vol fs') = length (vol fs1) \<and>
    (\<forall>i < length (vol fs1). vol fs' ! i =
       (if 128 * G + 4 + L \<le> i \<and> i < 128 * G + 4 + L + C
        then vol fs1 ! (128 * f + 4 + L + (i - (128 * G + 4 + L))) else vol fs1 ! i))"
  proof (rule copy_content [OF 1(2)])
    show "128 * f + 4 + L + C \<le> length (vol fs1)" "128 * f + 4 + L + C < 65536"
      using cr unfolding l1 by linarith+
    show "128 * G + 4 + L + C \<le> length (vol fs1)" "128 * G + 4 + L + C < 65536"
      using gl g16 tn Cj unfolding l1 by linarith+
    show "128 * f + 4 + L + C \<le> 128 * G + 4 + L \<or> 128 * G + 4 + L + C \<le> 128 * f + 4 + L"
      using apart
    proof
      assume "G + n \<le> f"
      then have "128 * G + 128 * n \<le> 128 * f" by linarith
      then have "128 * G + 4 + L + C \<le> 128 * f + 4 + L" using tn Cj by linarith
      then show ?thesis ..
    next
      assume "f + fileUnits ?v f \<le> G"
      then have "128 * f + 128 * fileUnits ?v f \<le> 128 * G" by linarith
      then have "128 * f + 4 + L + C \<le> 128 * G + 4 + L" using cr(1) by linarith
      then show ?thesis ..
    qed
  qed
  then obtain fs2 where 2: "copyContent fs1 (of_nat (128 * G + 4 + L)) (of_nat (128 * f + 4 + L)) C = Some fs2"
    "mounted fs2" "length (vol fs2) = length ?v"
    "\<And>i. i < length ?v \<Longrightarrow> vol fs2 ! i =
       (if 128 * G + 4 + L \<le> i \<and> i < 128 * G + 4 + L + C
        then vol fs1 ! (128 * f + 4 + L + (i - (128 * G + 4 + L))) else vol fs1 ! i)"
    unfolding l1 by blast
  have out2: "vol fs2 ! i = ?v ! i" if "i < length ?v" "i < 128 * G \<or> 128 * (G + n) \<le> i" for i
  proof -
    have "\<not> (128 * G + 4 + L \<le> i \<and> i < 128 * G + 4 + L + C)"
      using that(2) tn Cj unfolding distrib_left by linarith
    then have "vol fs2 ! i = vol fs1 ! i" unfolding 2(4) [OF that(1)] by (rule if_not_P)
    then show ?thesis using out1 [OF that] by simp
  qed
  have hdr: "take (4 + L) (drop (128 * G) (vol fs2)) = ?d"
    unfolding ld [symmetric]
  proof (rule take_drop_eqI)
    show "128 * G + length ?d \<le> length (vol fs2)" using inr by (simp add: 2(3))
    fix i assume "i < length ?d"
    then have i: "i < 4 + L" unfolding ld .
    then have il: "128 * G + i < length ?v" using inr unfolding ld by linarith
    have "\<not> (128 * G + 4 + L \<le> 128 * G + i \<and> 128 * G + i < 128 * G + 4 + L + C)" using i by linarith
    then have "vol fs2 ! (128 * G + i) = vol fs1 ! (128 * G + i)" unfolding 2(4) [OF il] by (rule if_not_P)
    then show "vol fs2 ! (128 * G + i) = ?d ! i" using n1 [OF il] i by simp
  qed
  have cont: "vol fs2 ! (128 * G + 4 + L + i) = ?v ! (128 * f + 4 + L + i)" if i: "i < C" for i
  proof -
    have il: "128 * G + 4 + L + i < length ?v" using i Cj tn gl by linarith
    have il': "128 * f + 4 + L + i < length ?v" using i cr by linarith
    have "vol fs2 ! (128 * G + 4 + L + i) = vol fs1 ! (128 * f + 4 + L + i)"
      using 2(4) [OF il] i by simp
    also have "128 * f + 4 + L + i < 128 * G \<or> 128 * (G + n) \<le> 128 * f + 4 + L + i"
      using apart
    proof
      assume "G + n \<le> f"
      then show ?thesis unfolding distrib_left by (intro disjI2) linarith
    next
      assume "f + fileUnits ?v f \<le> G"
      then have "128 * f + 128 * fileUnits ?v f \<le> 128 * G" by linarith
      then show ?thesis using cr(1) i by (intro disjI1) linarith
    qed
    then have "vol fs1 ! (128 * f + 4 + L + i) = ?v ! (128 * f + 4 + L + i)" by (rule out1 [OF il'])
    finally show ?thesis .
  qed
  have len: "miniFsFileGetContentLenFromIndex fs1 (of_nat k) = Some (of_nat C)"
    unfolding miniFsFileGetContentLenFromIndex_def bi by (rule cf(2))
  show ?thesis
    by (rule that [OF 1(1) [unfolded G_def L_def] cf(1) [unfolded L_def] len [unfolded C_def]
      2(1) [unfolded G_def L_def C_def] 2(2,3) out2 [unfolded G_def n_def] hdr [unfolded G_def L_def]
      cont [unfolded G_def L_def C_def]])
qed

text \<open>The header of the volume after the move, and the whole moving branch.\<close>

lemma filter_replace:
  assumes "distinct us" "k < length us" "0 \<notin> set us" "g \<noteq> 0" "sorted us"
  shows "sort (filter (\<lambda>f. f \<noteq> 0) (us[k := g] @ replicate r 0)) = insort g (remove1 (us ! k) us)"
proof -
  have "filter (\<lambda>f. f \<noteq> 0) (us[k := g]) = us[k := g]"
    using assms set_update_subset_insert [of us k g] by (intro filter_True) fastforce
  moreover have "mset (us[k := g]) = mset (insort g (remove1 (us ! k) us))"
    using assms by (simp add: mset_update)
  ultimately show ?thesis
    using assms(5) by (intro properties_for_sort) (simp_all add: sorted_insort sorted_remove1)
qed

lemma drop_eq_mono: "drop 128 xs = drop 128 ys \<Longrightarrow> 1 \<le> g \<Longrightarrow> drop (128 * g) xs = drop (128 * g) ys"
  for g :: nat
  by (drule arg_cong [of _ _ "drop (128 * (g - 1))"]) (cases g, simp_all add: add.commute)

lemma move_header:
  assumes m: "mounted fs" and wf: "volWf (vol fs)" and k: "k < length (usedFiles (vol fs))"
    and m2: "mounted fs2" and l2: "length (vol fs2) = length (vol fs)"
    and same: "\<And>i. i < 128 \<Longrightarrow> vol fs2 ! i = vol fs ! i" and g: "g \<noteq> 0"
  obtains fs3 fs4 where "miniFsWriteByte fs2 (slotAddr (of_nat k)) g = Some fs3"
    "miniFsResortFileOffsets fs3 = Some fs4" "mounted fs4" "sameBody (vol fs2) (vol fs4)"
    "slots (vol fs4) = insort (unat g) (remove1 (usedFiles (vol fs) ! k) (usedFiles (vol fs))) @
       replicate (126 - length (usedFiles (vol fs))) 0"
proof -
  let ?v = "vol fs" and ?us = "usedFiles (vol fs)"
  have l: "128 \<le> length ?v" using wf by (rule volWf_length)
  have l126: "length ?us \<le> 126" using l by (rule length_used)
  have k126: "k < 126" and l2': "128 \<le> length (vol fs2)" using k l l126 l2 by simp_all
  have s2: "slots (vol fs2) = ?us @ replicate (126 - length ?us) 0"
    using slots_eqI [OF l2] same wf by (simp add: volWf_def)
  obtain fs3 where 3: "miniFsWriteByte fs2 (slotAddr (of_nat k)) g = Some fs3" "mounted fs3"
    "slots (vol fs3) = (slots (vol fs2))[k := unat g]" "sameBody (vol fs2) (vol fs3)"
    using slot_write [OF m2 l2' k126, of g] by blast
  have l3: "128 \<le> length (vol fs3)" using l2' 3(4) by (simp add: sameBody_def)
  have s3: "slots (vol fs3) = ?us[k := unat g] @ replicate (126 - length ?us) 0"
    using k unfolding 3(3) s2 by (simp add: list_update_append)
  have g0: "unat g \<noteq> 0" using g by (simp add: unat_eq_0)
  have so: "sort (filter (\<lambda>f. f \<noteq> 0) (slots (vol fs3))) = insort (unat g) (remove1 (?us ! k) ?us)"
    unfolding s3 using used_distinct_sorted [OF wf] k used_nonzero g0 by (intro filter_replace) auto
  have "length (sort (filter (\<lambda>f. f \<noteq> 0) (slots (vol fs3)))) = length ?us"
    unfolding so using k length_pos_if_in_set [of "?us ! k" ?us] by (simp add: length_remove1)
  then have n: "length (filter (\<lambda>f. f \<noteq> 0) (slots (vol fs3))) = length ?us" by simp
  obtain fs4 where 4: "miniFsResortFileOffsets fs3 = Some fs4" "mounted fs4" "sameBody (vol fs3) (vol fs4)"
    "slots (vol fs4) = insort (unat g) (remove1 (?us ! k) ?us) @ replicate (126 - length ?us) 0"
    using resort_header [OF 3(2) l3] unfolding so n by blast
  show ?thesis by (rule that [OF 3(1) 4(1,2) sameBody_trans [OF 3(4) 4(3)] 4(4)])
qed

lemma move_code:
  assumes m: "mounted fs" and wf: "volWf (vol fs)" and k: "k < length (usedFiles (vol fs))"
    and f: "f = usedFiles (vol fs) ! k" and fn: "fn = fileName (vol fs) f"
    and t: "unat t = 4 + length fn + j" "unat t \<le> 128 * unat sz"
    and c: "length (fileContent (vol fs) f) \<le> j"
    and g: "miniFsFindFreeRegionFactor fs sz = g" "g \<noteq> 0"
  obtains fs' where "resizeMove fs fn (of_nat k) (of_nat (128 * f)) t sz = Some (True, fs')"
    "resized fs fn j fs'"
proof -
  let ?v = "vol fs" and ?us = "usedFiles (vol fs)"
  define C where "C = length (fileContent ?v f)"
  have fin: "f \<in> set ?us" using k f by simp
  have n0: "0 < unat sz" using t by (cases "unat sz") auto
  have free: "regionFree ?v ?us (unat g) (unat sz)" using find_region [OF m wf n0] g by blast
  then have g1: "1 \<le> unat g" and freer: "regionFree ?v (remove1 f ?us) (unat g) (unat sz)"
    using notin_set_remove1 [of _ ?us f] by (auto simp: regionFree_def)
  obtain fs1 fs2 where w:
    "writeFileHeader fs g t sz fn = Some (of_nat (128 * unat g + 4 + length fn), fs1)"
    "miniFsFileGetContentOffsetFromBaseOffset fs1 (of_nat (128 * f)) = Some (of_nat (128 * f + 4 + length fn))"
    "miniFsFileGetContentLenFromIndex fs1 (of_nat k) = Some (of_nat C)"
    "copyContent fs1 (of_nat (128 * unat g + 4 + length fn)) (of_nat (128 * f + 4 + length fn)) C = Some fs2"
    "mounted fs2" "length (vol fs2) = length ?v"
    and out: "\<And>i. i < length ?v \<Longrightarrow> i < 128 * unat g \<or> 128 * (unat g + unat sz) \<le> i \<Longrightarrow> vol fs2 ! i = ?v ! i"
    and hdr: "take (4 + length fn) (drop (128 * unat g) (vol fs2)) = [hi8 t, lo8 t, sz] @ fn @ [0]"
    and cont: "\<And>i. i < C \<Longrightarrow> vol fs2 ! (128 * unat g + 4 + length fn + i) = ?v ! (128 * f + 4 + length fn + i)"
    using move_writes [OF m wf k f fn t c free] unfolding C_def by blast
  have l: "128 \<le> length ?v" using wf by (rule volWf_length)
  have low2: "vol fs2 ! i = ?v ! i" if "i < 128" for i using that g1 l by (intro out) auto
  obtain fs3 fs4 where h: "miniFsWriteByte fs2 (slotAddr (of_nat k)) g = Some fs3"
    "miniFsResortFileOffsets fs3 = Some fs4" "mounted fs4" "sameBody (vol fs2) (vol fs4)"
    "slots (vol fs4) = insort (unat g) (remove1 f ?us) @ replicate (126 - length ?us) 0"
    using move_header [OF m wf k w(5,6) low2 g(2)] unfolding f by blast
  have l4: "length (vol fs4) = length ?v" using h(4) w(6) by (simp add: sameBody_def)
  have b4: "vol fs4 ! i = vol fs2 ! i" if "i < 2 \<or> 128 \<le> i" "i < length ?v" for i
    using h(4) that w(6) by (auto simp: sameBody_def)
  have "drop 128 (vol fs4) = drop 128 (vol fs2)"
    using l4 w(6) b4 by (intro nth_equalityI) simp_all
  then have d: "drop (128 * unat g) (vol fs4) = drop (128 * unat g) (vol fs2)"
    using g1 by (rule drop_eq_mono)
  have r: "volWf (vol fs4) \<and> usedFiles (vol fs4) = insort (unat g) (remove1 f ?us) \<and>
    fileName (vol fs4) (unat g) = fileName ?v f \<and>
    length (fileContent (vol fs4) (unat g)) = unat t - 4 - length (fileName ?v f) \<and>
    volAbs (vol fs4) = (volAbs ?v)(fileName ?v f \<mapsto> fileContent (vol fs4) (unat g))"
  proof (rule vol_replace [OF wf l4 _ _ fin h(5) freer])
    have "0 < length ?v" "1 < length ?v" using l by linarith+
    then show "vol fs4 ! 0 = ?v ! 0" "vol fs4 ! 1 = ?v ! 1" using b4 low2 by simp_all
    show "vol fs4 ! i = ?v ! i" if "128 \<le> i" "i < length ?v" "i < 128 * unat g \<or> 128 * (unat g + unat sz) \<le> i" for i
      using that b4 out by simp
    show "take (4 + length (fileName ?v f)) (drop (128 * unat g) (vol fs4)) =
      [hi8 t, lo8 t, of_nat (unat sz)] @ fileName ?v f @ [0]"
      using hdr unfolding d fn by simp
  qed (use t in \<open>simp_all add: fn\<close>)
  have lj: "length (fileContent (vol fs4) (unat g)) = j" using r t(1) unfolding fn by simp
  have "4 + length fn + j \<le> 128 * unat sz" "128 * unat g + 128 * unat sz \<le> length ?v"
    using t free wf unfolding regionFree_def volWf_def by linarith+
  then have inr: "128 * unat g + 4 + length fn + i < length ?v" if "i < C" for i
    using c that unfolding C_def by linarith
  have p: "take C (fileContent (vol fs4) (unat g)) = take C (fileContent ?v f)"
  proof (rule content_prefix)
    show "C \<le> length (fileContent (vol fs4) (unat g))" using c lj by (simp add: C_def)
    fix i assume i: "i < C"
    then show "vol fs4 ! (128 * unat g + 4 + length (fileName (vol fs4) (unat g)) + i) =
      ?v ! (128 * f + 4 + length (fileName ?v f) + i)"
      using r cont [OF i] b4 [OF _ inr [OF i]] g1 unfolding fn by simp
  qed (simp add: C_def)
  have res: "resized fs fn j fs4"
    unfolding resized_def using h(3) r l4 lj p c abs_used [OF wf fin]
    by (intro conjI exI [of _ "fileContent ?v f"] exI [of _ "fileContent (vol fs4) (unat g)"])
      (simp_all add: C_def fn)
  then have kk: "miniFsIsConsistent fs4" by (intro consistent_of_wf) (simp_all add: resized_def)
  have C16: "unat (of_nat C :: u16) = C"
    using content_range(2) [OF wf fin] unfolding C_def by (intro unat_of_nat16) linarith
  have "resizeMove fs fn (of_nat k) (of_nat (128 * f)) t sz = Some (True, fs4)"
    unfolding resizeMove_def Let_def g(1) if_not_P [OF g(2)] w(1) bind.bind_lunit prod.case w(2,3) C16 w(4)
      h(1,2) assertConsistent_def if_P [OF kk] ..
  then show ?thesis using res by (rule that)
qed

lemma FileResize_vol:
  assumes m: "mounted fs" and wf: "volWf (vol fs)" and fn: "0 \<notin> set fn"
    and bound: "4 + length fn + unat n \<le> 32640"
  obtains ok fs' where "miniFsFileResize fs fn n = Some (ok, fs')"
    "ok \<Longrightarrow> resized fs fn (unat n) fs'" "\<not> ok \<Longrightarrow> fs' = fs"
    "\<And>c. volAbs (vol fs) fn = Some c \<Longrightarrow> unat n \<le> length c \<Longrightarrow> ok"
  using m wf fn
proof (cases rule: lookup_cases)
  case missing
  have "miniFsFileResize fs fn n = Some (False, fs)"
    using missing(2) by (simp add: miniFsFileResize_def not_read_only [OF m] MAXFILES8)
  then show ?thesis using missing(1) by (intro that [of False fs]) simp_all
next
  case (found k f)
  let ?v = "vol fs" and ?us = "usedFiles (vol fs)"
  define c where "c = fileContent ?v f"
  have l: "128 \<le> length ?v" using wf by (rule volWf_length)
  have vl: "128 * volUnits ?v \<le> length ?v" using wf by (simp add: volWf_def)
  have k126: "k < 126" using found(2) length_used [OF l] by simp
  have k8: "(of_nat k :: u8) \<noteq> of_nat MINIFSMAXFILES"
    unfolding MAXFILES8 using k126 by (simp add: unat_eq_iff8 unat_of_nat8)
  note ok = volWf_used(1) [OF wf found(4)] and fr = file_range [OF wf found(4)]
  have tot: "fileTotal ?v f = 4 + length fn + length c"
    using length_fileContent [OF ok vl] fr(3) found(5) unfolding c_def by simp
  have c16: "length c < 65536" using tot fr(2) by linarith
  have cl: "unat (of_nat (length c) :: u16) = length c" using c16 by (rule unat_of_nat16)
  have T: "miniFsGetFileTotalLengthFromBaseOffset fs (of_nat (128 * f)) = of_nat (4 + length fn + length c)"
    unfolding file_fields(3) [OF m wf found(4)] tot ..
  have C: "miniFsFileGetContentLenFromBaseOffset fs (of_nat (128 * f)) = Some (of_nat (length c))"
    unfolding content_fields(2) [OF m wf found(4)] c_def ..
  define t where "t = (of_nat (4 + length fn + unat n) :: u16)"
  have t: "unat t = 4 + length fn + unat n" unfolding t_def using bound by (intro unat_of_nat16) simp
  have ro: "miniFsGetReadOnly fs = False" using not_read_only [OF m] by simp
  note code = miniFsFileResize_def ro if_False found(6) prod.case if_not_P [OF k8] C bind.bind_lunit Let_def T
  show ?thesis
  proof (cases "unat n \<le> length c")
    case True
    then have n: "n \<le> of_nat (length c)" by (simp add: word_le_nat_alt cl)
    have e: "of_nat (4 + length fn + length c) - (of_nat (length c) - n) = t"
      unfolding t_def by simp
    have le: "unat t \<le> fileTotal ?v f" using True unfolding t tot by simp
    obtain fs2 fs3 where w: "miniFsSetFileTotalLengthForIndex fs (of_nat k) t = Some fs2"
      "miniFsSetFileSizeFactorForIndex fs2 (of_nat k) (miniFsGetSizeFactorForTotalLength t) = Some fs3"
      "resized fs fn (unat n) fs3"
      using shrink_code [OF m wf found(2,3) t [folded found(5)] le] unfolding found(5) by blast
    have "miniFsIsConsistent fs3" using w(3) by (intro consistent_of_wf) (simp_all add: resized_def)
    then have "miniFsFileResize fs fn n = Some (True, fs3)"
      unfolding code if_P [OF n] e w(1,2) assertConsistent_def by simp
    then show ?thesis using w(3) by (intro that [of True fs3]) simp_all
  next
    case False
    then have n: "\<not> n \<le> of_nat (length c)" by (simp add: word_le_nat_alt cl)
    have e: "of_nat (4 + length fn + length c) + (n - of_nat (length c)) = t"
      unfolding t_def by simp
    have run: "miniFsFileResize fs fn n = resizeGrow fs fn (of_nat k) (of_nat (128 * f)) t"
      unfolding code if_not_P [OF n] e ..
    have no: "volAbs ?v fn = Some c' \<Longrightarrow> unat n \<le> length c' \<Longrightarrow> P" for c' P
      using False found(1) unfolding c_def by simp
    have t2: "unat t \<le> 32640" using bound by (simp add: t)
    note tf = t [folded found(5)]
    consider (inside) "unat t \<le> 128 * fileUnits ?v f"
      | (gap) "\<not> unat t \<le> 128 * fileUnits ?v f" "f + (unat t + 127) div 128 \<le> gapEnd ?v k"
      | (move) "\<not> unat t \<le> 128 * fileUnits ?v f" "\<not> f + (unat t + 127) div 128 \<le> gapEnd ?v k"
      by blast
    then show ?thesis
    proof cases
      case inside
      show ?thesis
        by (rule grow_inside [OF m wf found(4) tf inside], rule that [of True]) (use run found(5) no in auto)
    next
      case gap
      show ?thesis
        by (rule grow_gap [OF m wf found(2,3) tf gap(1) t2 gap(2)], rule that [of True])
          (use run found(5) no in auto)
    next
      case move
      define s where "s = miniFsGetSizeFactorForTotalLength t"
      have s: "unat s = (unat t + 127) div 128" unfolding s_def using t2 by (rule size_factor)
      have n1: "\<not> t \<le> miniFsFileGetSizeFromBaseOffset fs (of_nat (128 * f))"
        unfolding word_le_nat_alt size_bytes [OF m wf found(4)] by (rule move(1))
      have fg: "f \<le> gapEnd ?v k"
        using used_sorted [OF wf _ , of k "Suc k"] found(3) ok by (simp add: gapEnd_def fileOk_def)
      have n2: "\<not> s \<le> (case nextFileOffsetFactor fs (of_nat k) of Some nxt \<Rightarrow> nxt - of_nat f
          | None \<Rightarrow> miniFsGetTotalSizeFactorMinusOne fs - of_nat f + 1)"
        unfolding word_le_nat_alt max_units [OF m wf found(2,3)] s using move(2) fg by linarith
      have run: "miniFsFileResize fs fn n = resizeMove fs fn (of_nat k) (of_nat (128 * f)) t s"
        unfolding run resizeGrow_def if_not_P [OF n1] Let_def base_factor [OF fr(6)] s_def [symmetric]
          if_not_P [OF n2] ..
      show ?thesis
      proof (cases "miniFsFindFreeRegionFactor fs s = 0")
        case True
        then have "miniFsFileResize fs fn n = Some (False, fs)"
          unfolding run resizeMove_def by simp
        then show ?thesis using no by (intro that [of False fs]) auto
      next
        case g: False
        have ts: "unat t \<le> 128 * unat s" unfolding s by linarith
        have cj: "length (fileContent ?v f) \<le> unat n" using False unfolding c_def by simp
        show ?thesis
          by (rule move_code [OF m wf found(2,3) found(5) [symmetric] t ts cj refl g], rule that [of True])
            (use run no in auto)
      qed
    qed
  qed
qed

end

end
