(* ===== verification/RamVolume.thy ===== *)
theory RamVolume
  imports MiniFsResize
begin

text \<open>
  The volume kept in \<open>kernelRamData\<close>, which the kernel formats at boot and mounts as
  \<open>/tmp\<close>: the functors of \<open>/dev/ram\<close> are a byte store, so the facts proved for any
  store hold of it.
\<close>

section \<open>The functors of the RAM device\<close>

text \<open>\<open>memcpy\<close> in and out of the array. An access beyond its end is undefined in C; here it
  reads and writes only what lies inside, and nothing below depends on that.\<close>

definition kernelRamRead :: "u8 list \<Rightarrow> u16 \<Rightarrow> u16 \<Rightarrow> u8 list" where
  "kernelRamRead ram addr len = take (unat len) (drop (unat addr) ram)"

definition kernelVirtualDevFileDevRamMiniFsWriteFunctor :: "u8 list \<Rightarrow> u16 \<Rightarrow> u8 list \<Rightarrow> u16 \<times> u8 list" where
  "kernelVirtualDevFileDevRamMiniFsWriteFunctor ram addr data =
     (of_nat (length data), take (length ram) (splice_at (unat addr) data ram))"

interpretation ram: byte_store kernelRamRead kernelVirtualDevFileDevRamMiniFsWriteFunctor "\<lambda>ram. ram"
    "\<lambda>_. True"
  by unfold_locales (simp_all add: kernelRamRead_def kernelVirtualDevFileDevRamMiniFsWriteFunctor_def)

section \<open>Formatting\<close>

context byte_store
begin

lemma write_slots:
  assumes "usable s" "128 \<le> length (bytes s)" "n \<le> 126"
  shows "let s' = fold (\<lambda>i s. snd (wr s (slotAddr i) [0])) (map of_nat [0..<n]) s in
    usable s' \<and> length (bytes s') = length (bytes s) \<and>
    (\<forall>i < length (bytes s). bytes s' ! i = (if 2 \<le> i \<and> i < 2 + n then 0 else bytes s ! i))"
  using assms(3)
proof (induction n)
  case (Suc n)
  let ?s = "fold (\<lambda>i s. snd (wr s (slotAddr i) [0])) (map of_nat [0..<n]) s"
  have us: "usable ?s" using Suc by (simp add: Let_def)
  have IH: "length (bytes ?s) = length (bytes s)"
    "\<And>i. i < length (bytes s) \<Longrightarrow> bytes ?s ! i = (if 2 \<le> i \<and> i < 2 + n then 0 else bytes s ! i)"
    using Suc by (simp_all add: Let_def)
  have n126: "n < 126" "2 + n < 65536" using Suc.prems by simp_all
  have a: "unat (slotAddr (of_nat n)) = 2 + n"
    unfolding slotAddr_of_nat [OF n126(1)] using n126(2) by (rule unat_of_nat16)
  have "unat (slotAddr (of_nat n)) + length [0 :: u8] \<le> length (bytes ?s)"
    using Suc.prems assms(2) unfolding a IH(1) by simp
  then have w: "bytes (snd (wr ?s (slotAddr (of_nat n)) [0])) = (bytes ?s)[2 + n := 0]"
    "usable (snd (wr ?s (slotAddr (of_nat n)) [0]))"
    using wr_bytes [of ?s "slotAddr (of_nat n)" "[0]"] Suc.prems assms(2) us
    unfolding a by (simp_all add: splice_at_single IH(1))
  have "fold (\<lambda>i s. snd (wr s (slotAddr i) [0])) (map of_nat [0..<Suc n]) s =
      snd (wr ?s (slotAddr (of_nat n)) [0])"
    by simp
  then show ?case
    using IH Suc.prems assms(2) by (auto simp: Let_def w nth_list_update)
qed (use assms(1) in \<open>auto simp: Let_def\<close>)

lemma write1:
  assumes "usable s" "a < length (bytes s)" "a < 65536"
  shows "bytes (snd (wr s (of_nat a) [b])) = (bytes s)[a := b]" "usable (snd (wr s (of_nat a) [b]))"
  using wr_bytes [of s "of_nat a" "[b]"] assms by (simp_all add: splice_at_single unat_of_nat16)

text \<open>Formatting a store makes it the empty volume of as many units as fit.\<close>

lemma Format_vol:
  assumes us: "usable s" and "128 \<le> unat mx" "unat mx \<le> 32895" "unat mx \<le> length (bytes s)"
  obtains s' where "miniFsFormat wr s mx = (True, s')" "usable s'" "length (bytes s') = length (bytes s)"
    "volWf (bytes s')" "usedFiles (bytes s') = []" "volUnits (bytes s') = unat mx div 128"
proof -
  define k where "k = unat mx div 128"
  have k: "1 \<le> k" "k \<le> 256" "128 * k \<le> unat mx" using assms by (simp_all add: k_def)
  have l: "128 \<le> length (bytes s)" using assms by simp
  define s1 where "s1 = snd (wr s MINIFSHEADERMAGICBYTEADDR [MINIFSHEADERMAGICBYTEVALUE])"
  define s2 where "s2 = snd (wr s1 MINIFSHEADERTOTALSIZEADDR [of_nat k - 1])"
  define s3 where "s3 = fold (\<lambda>i s. snd (wr s (slotAddr i) [0])) fileSlots s2"
  have l0: "0 < length (bytes s)" "1 < length (bytes s)" using l by linarith+
  have b1: "bytes s1 = (bytes s)[0 := 53]" "usable s1"
    using write1 [OF us l0(1), of 53] unfolding s1_def minifs_consts by simp_all
  have b2: "bytes s2 = (bytes s1)[1 := of_nat k - 1]" "usable s2"
    using write1 [of s1 1 "of_nat k - 1"] l0(2) b1 unfolding s2_def minifs_consts by simp_all
  have l2: "128 \<le> length (bytes s2)" "length (bytes s2) = length (bytes s)" using l by (simp_all add: b1 b2)
  have us3: "usable s3"
    using write_slots [OF b2(2) l2(1), of 126] unfolding s3_def fileSlots_eq Let_def by simp
  have b3: "length (bytes s3) = length (bytes s)"
    "\<And>i. i < length (bytes s) \<Longrightarrow> bytes s3 ! i = (if 2 \<le> i \<and> i < 128 then 0 else bytes s2 ! i)"
    using write_slots [OF b2(2) l2(1), of 126] unfolding s3_def fileSlots_eq Let_def l2(2) by simp_all
  have sz: "k * 128 < MINIFSHEADERSIZE \<or> MINIFSMAXSIZE < k * 128 \<longleftrightarrow> False"
    using k by (simp add: minifs_consts)
  have run: "miniFsFormat wr s mx = (True, s3)"
    unfolding miniFsFormat_def Let_def MINIFSFACTOR_def k_def [symmetric] sz if_False s1_def s2_def s3_def ..
  have h: "bytes s3 ! 0 = 53" "bytes s3 ! 1 = of_nat k - 1"
    using b3(2) [OF l0(1)] b3(2) [OF l0(2)] l0 by (simp_all add: b1 b2)
  have "unat (of_nat k - 1 :: u8) = k - 1"
  proof -
    have "(of_nat k - 1 :: u8) = of_nat (k - 1)" using k by (simp add: of_nat_diff)
    moreover have "k - 1 < 256" using k by simp
    ultimately show ?thesis by (simp only: unat_of_nat8)
  qed
  then have u: "volUnits (bytes s3) = k" using k unfolding volUnits_def h by simp
  have sl: "slots (bytes s3) = replicate 126 0"
  proof (rule nth_equalityI)
    show "length (slots (bytes s3)) = length (replicate 126 (0 :: nat))"
      using l b3(1) by (simp add: length_slots)
    fix i assume "i < length (slots (bytes s3))"
    then have i: "i < 126" using l b3(1) by (simp add: length_slots)
    then show "slots (bytes s3) ! i = replicate 126 0 ! i"
      using nth_slots [of "bytes s3" i] l b3 by simp
  qed
  have "volWf (bytes s3) \<and> usedFiles (bytes s3) = []"
    using order.trans [OF k(3) assms(4)] k h sl by (intro volWf_intro) (simp_all add: u b3(1))
  then show ?thesis using run b3(1) u us3 by (intro that [of s3]) (simp_all add: k_def)
qed

end

section \<open>The volume in RAM\<close>

definition ramMiniFs :: "u8 list \<Rightarrow> u8 list MiniFs" where
  "ramMiniFs ram = miniFsMountFast kernelRamRead (Some kernelVirtualDevFileDevRamMiniFsWriteFunctor) ram (\<lambda>_. 0)"

definition ramOk :: "u8 list MiniFs \<Rightarrow> bool" where
  "ramOk fs \<longleftrightarrow> mfReadFunctor fs = kernelRamRead \<and>
     mfWriteFunctor fs = Some kernelVirtualDevFileDevRamMiniFsWriteFunctor \<and> volWf (mfUserData fs)"

text \<open>The contents by name.\<close>

definition ramFiles :: "u8 list MiniFs \<Rightarrow> (u8 list \<rightharpoonup> u8 list)" where
  "ramFiles fs = volAbs (mfUserData fs)"

lemma ramOk_eq: "ramOk fs \<longleftrightarrow> ram.mounted fs \<and> volWf (ram.vol fs)"
  by (simp add: ramOk_def ram.mounted_def ram.vol_def)

lemma ramFiles_eq: "ramFiles fs = volAbs (ram.vol fs)"
  by (simp add: ramFiles_def ram.vol_def)

lemma ramOk_ramMiniFs: "ramOk (ramMiniFs v) \<longleftrightarrow> volWf v"
  by (simp add: ramOk_def ramMiniFs_def miniFsMountFast_def)

text \<open>A volume of three units with one file, \<open>a\<close>, holding 1, 2, 3.\<close>

definition exVol :: "u8 list" where
  "exVol = [53, 2, 1] @ replicate 125 0 @ [0, 8, 1, 97, 0, 1, 2, 3] @ replicate 248 0"

lemma exVol_wf: "volWf exVol"
  by code_simp

lemma exVol_ok: "ramOk (ramMiniFs exVol)"
  by (simp add: ramOk_ramMiniFs exVol_wf)

lemma exVol_files: "ramFiles (ramMiniFs exVol) [97] = Some [1, 2, 3]"
  by code_simp

text \<open>C22: reading a file of a well-formed volume returns the part of its content that lies in the
  range asked for, and nothing for a name that is not there.\<close>

theorem minifs_read_returns_content:
  assumes "ramOk fs" "0 \<notin> set fn"
  shows "miniFsFileRead fs fn off len =
    Some (case ramFiles fs fn of None \<Rightarrow> [] | Some c \<Rightarrow> take (unat len) (drop (unat off) c))"
  using assms unfolding ramOk_eq ramFiles_eq by (intro ram.FileRead_vol) simp_all

theorem minifs_read_returns_content_witness:
  "miniFsFileRead (ramMiniFs exVol) [97] 1 5 = Some [2, 3]"
  using minifs_read_returns_content [OF exVol_ok, of "[97]" 1 5] by (simp add: exVol_files)

text \<open>C21: a write changes the one file named, from the offset on and never past its end, and
  returns the number of bytes it wrote; a name that is not there is refused.\<close>

theorem minifs_write_refines:
  assumes "ramOk fs" "0 \<notin> set fn" "length data < 65536"
  shows "\<exists>n fs'. miniFsFileWrite fs fn off data = Some (n, fs') \<and> ramOk fs' \<and>
    (case ramFiles fs fn of
       None \<Rightarrow> n = 0 \<and> ramFiles fs' = ramFiles fs
     | Some c \<Rightarrow> unat n = min (length data) (length c - unat off) \<and>
         ramFiles fs' = (ramFiles fs)(fn \<mapsto>
           if unat off < length c then splice_at (unat off) (take (unat n) data) c else c))"
proof -
  have m: "ram.mounted fs" and wf: "volWf (ram.vol fs)" using assms(1) by (simp_all add: ramOk_eq)
  show ?thesis
    by (rule ram.FileWrite_vol [OF m wf assms(2,3), of off])
      (auto simp: ramOk_eq ramFiles_eq split: option.splits)
qed

theorem minifs_write_refines_witness:
  "\<exists>n fs'. miniFsFileWrite (ramMiniFs exVol) [97] 1 [7, 8, 9] = Some (n, fs') \<and> ramOk fs' \<and>
     ramFiles fs' [97] = Some [1, 7, 8] \<and> unat n = 2"
  using minifs_write_refines [OF exVol_ok, of "[97]" "[7, 8, 9]" 1]
  by (fastforce simp: exVol_files splice_at_def)

text \<open>C12: creating a file that with its name takes at most 32640 bytes, so that the number of its units fits a
  byte, succeeds exactly when the name fits and is new, a slot is free and some
  region of whole units holds the file; then the volume has one more file of that size and the
  others are as they were, and otherwise nothing has changed.\<close>

theorem minifs_create_refines:
  assumes "ramOk fs" "0 \<notin> set fn" "4 + length fn + unat sz \<le> 32640"
  shows "\<exists>ok fs'. miniFsFileCreate fs fn sz = Some (ok, fs') \<and> ramOk fs' \<and>
    (ok \<longleftrightarrow> length fn < 127 \<and> ramFiles fs fn = None \<and> length (usedFiles (mfUserData fs)) < 126 \<and>
       (\<exists>g. regionFree (mfUserData fs) (usedFiles (mfUserData fs)) g ((4 + length fn + unat sz + 127) div 128))) \<and>
    (if ok then \<exists>c. length c = unat sz \<and> ramFiles fs' = (ramFiles fs)(fn \<mapsto> c) else fs' = fs)"
proof -
  have m: "ram.mounted fs" and wf: "volWf (ram.vol fs)" using assms(1) by (simp_all add: ramOk_eq)
  show ?thesis
    by (rule ram.FileCreate_vol [OF m wf assms(2,3)])
      (intro exI conjI, assumption, auto simp: ramOk_eq ramFiles_eq ram.vol_def)
qed

lemma exVol_room: "regionFree exVol (usedFiles exVol) 2 1"
  by code_simp

theorem minifs_create_refines_witness:
  "\<exists>fs' c. miniFsFileCreate (ramMiniFs exVol) [98] 20 = Some (True, fs') \<and> length c = 20 \<and>
     ramFiles fs' = (ramFiles (ramMiniFs exVol))([98] \<mapsto> c)"
proof -
  have n: "ramFiles (ramMiniFs exVol) [98] = None" "length (usedFiles exVol) < 126" by code_simp+
  have "mfUserData (ramMiniFs exVol) = exVol" by (simp add: ramMiniFs_def miniFsMountFast_def)
  then show ?thesis
    using minifs_create_refines [OF exVol_ok, of "[98]" 20] n exVol_room by (fastforce split: if_splits)
qed

text \<open>C15: deleting a file removes it and nothing else, and reports whether it was there.\<close>

theorem minifs_delete_refines:
  assumes "ramOk fs" "0 \<notin> set fn"
  shows "\<exists>fs'. miniFsFileDelete fs fn = Some (ramFiles fs fn \<noteq> None, fs') \<and> ramOk fs' \<and>
    ramFiles fs' = (ramFiles fs)(fn := None)"
proof -
  have m: "ram.mounted fs" and wf: "volWf (ram.vol fs)" using assms(1) by (simp_all add: ramOk_eq)
  show ?thesis
    by (rule ram.FileDelete_vol [OF m wf assms(2)]) (auto simp: ramOk_eq ramFiles_eq)
qed

theorem minifs_delete_refines_witness:
  "\<exists>fs'. miniFsFileDelete (ramMiniFs exVol) [97] = Some (True, fs') \<and> ramFiles fs' [97] = None"
  using minifs_delete_refines [OF exVol_ok, of "[97]"] by (auto simp: exVol_files)

text \<open>C13: a resize that succeeds, in place or by a move, keeps the common part of the content and
  every other file; one that fails changes nothing, and shrinking never fails.\<close>

theorem minifs_resize_refines:
  assumes "ramOk fs" "0 \<notin> set fn" "4 + length fn + unat n \<le> 32640"
  shows "\<exists>ok fs'. miniFsFileResize fs fn n = Some (ok, fs') \<and> ramOk fs' \<and>
    (if ok then \<exists>c c'. ramFiles fs fn = Some c \<and> length c' = unat n \<and> ramFiles fs' = (ramFiles fs)(fn \<mapsto> c') \<and>
        take (min (unat n) (length c)) c' = take (min (unat n) (length c)) c
     else fs' = fs \<and> (\<forall>c. ramFiles fs fn = Some c \<longrightarrow> length c < unat n))"
proof -
  have m: "ram.mounted fs" and wf: "volWf (ram.vol fs)" using assms(1) by (simp_all add: ramOk_eq)
  obtain ok fs' where r: "miniFsFileResize fs fn n = Some (ok, fs')"
    "ok \<Longrightarrow> ram.resized fs fn (unat n) fs'" "\<not> ok \<Longrightarrow> fs' = fs"
    "\<And>c. volAbs (ram.vol fs) fn = Some c \<Longrightarrow> unat n \<le> length c \<Longrightarrow> ok"
    by (rule ram.FileResize_vol [OF m wf assms(2,3)]) blast
  show ?thesis
  proof (intro exI conjI, rule r(1))
    show "ramOk fs'" using r(2,3) assms(1) by (cases ok) (auto simp: ram.resized_def ramOk_eq)
    show "if ok then \<exists>c c'. ramFiles fs fn = Some c \<and> length c' = unat n \<and> ramFiles fs' = (ramFiles fs)(fn \<mapsto> c') \<and>
        take (min (unat n) (length c)) c' = take (min (unat n) (length c)) c
     else fs' = fs \<and> (\<forall>c. ramFiles fs fn = Some c \<longrightarrow> length c < unat n)"
      using r(2-4) by (auto simp: ram.resized_def ramFiles_eq not_le [symmetric])
  qed
qed

theorem minifs_resize_refines_witness:
  "\<exists>fs' c'. miniFsFileResize (ramMiniFs exVol) [97] 2 = Some (True, fs') \<and>
     ramFiles fs' [97] = Some c' \<and> length c' = 2 \<and> take 2 c' = [1, 2]"
  using minifs_resize_refines [OF exVol_ok, of "[97]" 2] by (fastforce simp: exVol_files split: if_splits)

section \<open>Any sequence of changes\<close>

definition KernelRamSize :: nat where "KernelRamSize = 2 * 1024"

datatype RamOp =
  RamCreate "u8 list" u16 | RamDelete "u8 list" | RamResize "u8 list" u16
| RamWrite "u8 list" u16 "u8 list"

fun ramApply :: "RamOp \<Rightarrow> u8 list MiniFs \<Rightarrow> u8 list MiniFs option" where
  "ramApply (RamCreate fn sz) fs = map_option snd (miniFsFileCreate fs fn sz)"
| "ramApply (RamDelete fn) fs = map_option snd (miniFsFileDelete fs fn)"
| "ramApply (RamResize fn n) fs = map_option snd (miniFsFileResize fs fn n)"
| "ramApply (RamWrite fn off data) fs = map_option snd (miniFsFileWrite fs fn off data)"

fun ramOpOk :: "RamOp \<Rightarrow> bool" where
  "ramOpOk (RamCreate fn sz) \<longleftrightarrow> 0 \<notin> set fn \<and> 4 + length fn + unat sz \<le> 32640"
| "ramOpOk (RamDelete fn) \<longleftrightarrow> 0 \<notin> set fn"
| "ramOpOk (RamResize fn n) \<longleftrightarrow> 0 \<notin> set fn \<and> 4 + length fn + unat n \<le> 32640"
| "ramOpOk (RamWrite fn off data) \<longleftrightarrow> 0 \<notin> set fn \<and> length data < 65536"

fun ramRun :: "RamOp list \<Rightarrow> u8 list MiniFs \<Rightarrow> u8 list MiniFs option" where
  "ramRun [] fs = Some fs"
| "ramRun (op # ops) fs = Option.bind (ramApply op fs) (ramRun ops)"

lemma ramApply_ok:
  assumes "ramOk fs" "ramOpOk op"
  shows "\<exists>fs'. ramApply op fs = Some fs' \<and> ramOk fs'"
proof -
  have m: "ram.mounted fs" and wf: "volWf (ram.vol fs)" using assms(1) by (simp_all add: ramOk_eq)
  show ?thesis
  proof (cases op)
    case (RamCreate fn sz)
    then show ?thesis
      using assms(2) by (auto simp: ramOk_eq elim!: ram.FileCreate_vol [OF m wf, of fn sz])
  next
    case (RamDelete fn)
    then show ?thesis
      using assms(2) by (auto simp: ramOk_eq elim!: ram.FileDelete_vol [OF m wf, of fn])
  next
    case (RamResize fn n)
    then have "0 \<notin> set fn" "4 + length fn + unat n \<le> 32640" using assms(2) by simp_all
    then obtain ok fs' where "miniFsFileResize fs fn n = Some (ok, fs')"
      "ok \<Longrightarrow> ram.resized fs fn (unat n) fs'" "\<not> ok \<Longrightarrow> fs' = fs"
      by (rule ram.FileResize_vol [OF m wf]) blast
    then show ?thesis using RamResize assms(1) by (cases ok) (auto simp: ram.resized_def ramOk_eq)
  next
    case (RamWrite fn off data)
    then show ?thesis
      using assms(2) by (auto simp: ramOk_eq elim!: ram.FileWrite_vol [OF m wf, of fn data off])
  qed
qed

lemma ramRun_ok:
  "ramOk fs \<Longrightarrow> list_all ramOpOk ops \<Longrightarrow> \<exists>fs'. ramRun ops fs = Some fs' \<and> ramOk fs'"
proof (induction ops arbitrary: fs)
  case (Cons op ops)
  obtain fs1 where "ramApply op fs = Some fs1" "ramOk fs1"
    using ramApply_ok [OF Cons.prems(1)] Cons.prems(2) by auto
  then show ?case using Cons.IH [of fs1] Cons.prems(2) by simp
qed simp

text \<open>C14: the kernel's RAM volume, formatted and mounted as at boot, starts empty; no sequence of
  creations, deletions, resizes and writes in which no file is created with or resized to more than 32640 bytes with its
  name, and no write is longer than 65535 bytes, ever fails an assertion, and the
  volume passes the consistency check after it.\<close>

theorem ram_volume_never_inconsistent:
  assumes "length ram = KernelRamSize" "list_all ramOpOk ops"
  shows "\<exists>ram' fs fs'.
    miniFsFormat kernelVirtualDevFileDevRamMiniFsWriteFunctor ram (of_nat KernelRamSize) = (True, ram') \<and>
    miniFsMountSafe kernelRamRead (Some kernelVirtualDevFileDevRamMiniFsWriteFunctor) ram' indet = Some fs \<and>
    ramFiles fs = Map.empty \<and> ramRun ops fs = Some fs' \<and> miniFsIsConsistent fs'"
proof -
  have "128 \<le> unat (of_nat KernelRamSize :: u16)" "unat (of_nat KernelRamSize :: u16) \<le> 32895"
    "unat (of_nat KernelRamSize :: u16) \<le> length ram"
    using assms(1) by (simp_all add: KernelRamSize_def)
  then obtain ram' where f:
    "miniFsFormat kernelVirtualDevFileDevRamMiniFsWriteFunctor ram (of_nat KernelRamSize) = (True, ram')"
    "volWf ram'" "usedFiles ram' = []"
    using ram.Format_vol [OF TrueI] by metis
  define fs where "fs = miniFsMountFast kernelRamRead (Some kernelVirtualDevFileDevRamMiniFsWriteFunctor) ram' indet"
  have ok: "ramOk fs" using f(2) by (simp add: fs_def ramOk_def miniFsMountFast_def)
  have k: "miniFsIsConsistent fs'" if "ramOk fs'" for fs'
    using that by (intro ram.consistent_of_wf) (simp_all add: ramOk_eq)
  have mnt: "miniFsMountSafe kernelRamRead (Some kernelVirtualDevFileDevRamMiniFsWriteFunctor) ram' indet = Some fs"
    using k [OF ok] unfolding miniFsMountSafe_def fs_def [symmetric] Let_def by simp
  have e: "ramFiles fs = Map.empty"
    using f(3) by (simp add: fs_def ramFiles_def volAbs_def miniFsMountFast_def)
  obtain fs' where "ramRun ops fs = Some fs'" "ramOk fs'" using ramRun_ok [OF ok assms(2)] by blast
  then show ?thesis using f(1) mnt e k by blast
qed

theorem ram_volume_never_inconsistent_witness:
  "\<exists>ram' fs fs'.
    miniFsFormat kernelVirtualDevFileDevRamMiniFsWriteFunctor (replicate 2048 0) (of_nat KernelRamSize) = (True, ram') \<and>
    miniFsMountSafe kernelRamRead (Some kernelVirtualDevFileDevRamMiniFsWriteFunctor) ram' (\<lambda>_. 0) = Some fs \<and>
    ramFiles fs = Map.empty \<and>
    ramRun [RamCreate [97] 300, RamWrite [97] 5 [1, 2], RamResize [97] 900, RamDelete [97]] fs = Some fs' \<and>
    miniFsIsConsistent fs'"
  by (rule ram_volume_never_inconsistent) (simp_all add: KernelRamSize_def)

section \<open>Sizes that do not fit\<close>

text \<open>An empty volume of two units, so that one unit is free.\<close>

definition exEmpty :: "u8 list" where "exEmpty = [53, 1] @ replicate 254 0"

text \<open>The size of a file in units is the length rounded up only as far as a byte holds it:
  from 32641 bytes on it is zero.\<close>

lemma size_factor_wraps:
  "unat (miniFsGetSizeFactorForTotalLength t) = (unat t + 127) div 128 mod 256"
proof -
  have b: "unat t < 65536" by (rule unat_u16_less)
  have a: "unat (ucast t + of_nat MINIFSFACTOR - 1 :: u32) = unat t + 127"
  proof -
    have "(ucast t + of_nat MINIFSFACTOR - 1 :: u32) = ucast t + 127" by (simp add: MINIFSFACTOR_def)
    moreover have "unat t + 127 < 4294967296" using b by linarith
    then have "unat (ucast t + 127 :: u32) = unat t + 127"
      by (simp add: unat_word_ariths)
    ultimately show ?thesis by (simp only:)
  qed
  have "unat ((ucast t + of_nat MINIFSFACTOR - 1 :: u32) div of_nat MINIFSFACTOR) = (unat t + 127) div 128"
    unfolding unat_div a by (simp add: MINIFSFACTOR_def)
  then show ?thesis
    unfolding miniFsGetSizeFactorForTotalLength_def by (simp add: unsigned_ucast_eq take_bit_eq_mod)
qed

text \<open>What the volume becomes when a file of 32636 bytes is created in it.\<close>

definition exOver :: "u8 list" where
  "exOver = [53, 1, 1] @ replicate 125 0 @ [127, 129, 0, 97] @ replicate 124 0"

lemma ram_write:
  "miniFsWrite (ramMiniFs v) a d = Some (of_nat (length d), ramMiniFs (take (length v) (splice_at (unat a) d v)))"
  by (simp add: miniFsWrite_def ramMiniFs_def miniFsMountFast_def kernelVirtualDevFileDevRamMiniFsWriteFunctor_def)

lemma ram_write_byte:
  "miniFsWriteByte (ramMiniFs v) a b = Some (ramMiniFs (take (length v) (splice_at (unat a) [b] v)))"
  by (simp add: miniFsWriteByte_def ram_write)

text \<open>Volumes whose header lists unit 1 a number of times.\<close>

lemma ones_header:
  assumes "128 \<le> length v" "v ! 0 = 53" "slots v = replicate n 1 @ replicate (126 - n) 0" "n \<le> 126"
  shows "miniFsResortFileOffsets (ramMiniFs v) = Some (ramMiniFs v)" "miniFsIsConsistent (ramMiniFs v)"
proof -
  have m: "ram.mounted (ramMiniFs v)" and v: "ram.vol (ramMiniFs v) = v"
    by (simp_all add: ramMiniFs_def miniFsMountFast_def ram.mounted_def ram.vol_def)
  show "miniFsResortFileOffsets (ramMiniFs v) = Some (ramMiniFs v)"
    using assms by (intro ram.resort_sorted [OF m]) (auto simp: v slotKey_def sorted_append)
  show "miniFsIsConsistent (ramMiniFs v)"
    using assms by (intro ram.consistent_of_header [OF m, of "replicate n 1"]) (simp_all add: v)
qed

lemma over_created: "miniFsFileCreate (ramMiniFs exEmpty) [97] 32636 = Some (True, ramMiniFs exOver)"
proof -
  define v1 where "v1 = [53, 1, 1] @ replicate 253 (0 :: u8)"
  have w: "take (length exEmpty) (splice_at (unat (slotAddr 0)) [1] exEmpty) = v1"
    unfolding v1_def by code_simp
  have h: "writeFileHeader (ramMiniFs v1) 1 32641 0 [97] = Some (133, ramMiniFs exOver)"
  proof -
    have "take (length v1) (splice_at 128 [127] v1) = [53, 1, 1] @ replicate 125 0 @ 127 # replicate 127 0"
      "take (length v1) (splice_at 129 [129 :: u8] ([53, 1, 1] @ replicate 125 0 @ 127 # replicate 127 0)) =
         [53, 1, 1] @ replicate 125 0 @ [127, 129] @ replicate 126 0"
      "take (length v1) (splice_at 130 [0 :: u8] ([53, 1, 1] @ replicate 125 0 @ [127, 129] @ replicate 126 0)) =
         [53, 1, 1] @ replicate 125 0 @ [127, 129] @ replicate 126 0"
      "take (length v1) (splice_at 131 [97, 0 :: u8] ([53, 1, 1] @ replicate 125 0 @ [127, 129] @ replicate 126 0)) = exOver"
      unfolding v1_def by code_simp+
    moreover have "take 256 exOver = exOver" by code_simp
    ultimately show ?thesis
      by (simp add: writeFileHeader_def ram_write_byte ram_write Let_def MINIFSFACTOR_def hi8_def lo8_def v1_def)
  qed
  have s: "128 \<le> length exOver" "exOver ! 0 = 53" "slots exOver = replicate 1 1 @ replicate (126 - 1) 0" "1 \<le> (126 :: nat)"
    by code_simp+
  note r = ones_header(1) [OF s] and c = ones_header(2) [OF s]
  have e: "miniFsFileExists (ramMiniFs exEmpty) [97] = False" "miniFsGetEmptyIndex (ramMiniFs exEmpty) = 0"
    "miniFsFindFreeRegionFactor (ramMiniFs exEmpty) 0 = 1"
    "miniFsGetSizeFactorForTotalLength 32641 = 0" "miniFsGetReadOnly (ramMiniFs exEmpty) = False"
    by code_simp+
  show ?thesis
    by (simp add: miniFsFileCreate_def e h r c w ram_write_byte assertConsistent_def minifs_consts)
qed

lemma over_len: "miniFsFileGetLen (ramMiniFs exOver) [97] = Some 32636"
  by code_simp

text \<open>A file of five bytes goes to the same unit.\<close>

definition exLost :: "u8 list" where
  "exLost = [53, 1, 1, 1] @ replicate 124 0 @ [0, 10, 1, 98] @ replicate 124 0"

lemma over_lost: "miniFsFileCreate (ramMiniFs exOver) [98] 5 = Some (True, ramMiniFs exLost)"
proof -
  have w: "take (length exOver) (splice_at (unat (slotAddr 1)) [1] exOver) = 53 # 1 # 1 # 1 # drop 4 exOver"
    by code_simp
  have h: "writeFileHeader (ramMiniFs (53 # 1 # 1 # 1 # drop 4 exOver)) 1 10 1 [98] = Some (133, ramMiniFs exLost)"
  proof -
    have "take 256 (splice_at 128 [0] (53 # 1 # 1 # 1 # drop 4 exOver)) =
        [53, 1, 1, 1] @ replicate 124 0 @ [0, 129, 0, 97] @ replicate 124 (0 :: u8)"
      "take 256 (splice_at 129 [10] ([53, 1, 1, 1] @ replicate 124 0 @ [0, 129, 0, 97] @ replicate 124 (0 :: u8))) =
        [53, 1, 1, 1] @ replicate 124 0 @ [0, 10, 0, 97] @ replicate 124 0"
      "take 256 (splice_at 130 [1] ([53, 1, 1, 1] @ replicate 124 0 @ [0, 10, 0, 97] @ replicate 124 (0 :: u8))) =
        [53, 1, 1, 1] @ replicate 124 0 @ [0, 10, 1, 97] @ replicate 124 0"
      "take 256 (splice_at 131 [98, 0] ([53, 1, 1, 1] @ replicate 124 0 @ [0, 10, 1, 97] @ replicate 124 (0 :: u8))) =
        exLost" "length exOver = 256" "take 256 exLost = exLost"
      by code_simp+
    then show ?thesis
      by (simp add: writeFileHeader_def ram_write_byte ram_write Let_def MINIFSFACTOR_def hi8_def lo8_def)
  qed
  have s: "128 \<le> length exLost" "exLost ! 0 = 53" "slots exLost = replicate 2 1 @ replicate (126 - 2) 0" "2 \<le> (126 :: nat)"
    by code_simp+
  note r = ones_header(1) [OF s] and c = ones_header(2) [OF s]
  have e: "miniFsFileExists (ramMiniFs exOver) [98] = False" "miniFsGetEmptyIndex (ramMiniFs exOver) = 1"
    "miniFsFindFreeRegionFactor (ramMiniFs exOver) 1 = 1"
    "miniFsGetSizeFactorForTotalLength 10 = 1" "miniFsGetReadOnly (ramMiniFs exOver) = False"
    by code_simp+
  show ?thesis
    by (simp add: miniFsFileCreate_def e h r c w ram_write_byte assertConsistent_def minifs_consts)
qed

text \<open>So a file larger than any volume is created in a volume with one free unit, and the next
  file that is created takes its place.\<close>

theorem oversized_create_accepted:
  "miniFsFileCreate (ramMiniFs exEmpty) [97] 32636 = Some (True, ramMiniFs exOver) \<and>
   miniFsFileGetLen (ramMiniFs exOver) [97] = Some 32636 \<and>
   miniFsFileCreate (ramMiniFs exOver) [98] 5 = Some (True, ramMiniFs exLost) \<and>
   \<not> miniFsFileExists (ramMiniFs exLost) [97] \<and> miniFsFileExists (ramMiniFs exLost) [98]"
  by (intro conjI over_created over_len over_lost) code_simp+

end
