(* ===== verification/FatProps.thy ===== *)
theory FatProps
  imports Fat
begin

text \<open>
  What the FAT driver promises, over a volume that is an image of bytes: the names of short
  directory entries, and reading a file along its cluster chain. The read is right when it
  starts at a cluster boundary or stays in one cluster; a small volume shows what happens
  otherwise.
\<close>

section \<open>Short names\<close>

text \<open>The eleven bytes of an entry for a name part and an extension.\<close>

definition shortNameBytes :: "cstr \<Rightarrow> cstr \<Rightarrow> u8 list" where
  "shortNameBytes base ext =
     base @ replicate (8 - length base) 32 @ ext @ replicate (3 - length ext) 32"

lemma less_9_cases: "n \<le> (8::nat) \<Longrightarrow> n = 0 \<or> n = 1 \<or> n = 2 \<or> n = 3 \<or> n = 4 \<or> n = 5 \<or> n = 6 \<or> n = 7 \<or> n = 8"
  by arith

lemma length_up_to_8:
  assumes "length xs \<le> 8" "xs \<noteq> []"
  obtains a where "xs = [a]" | a b where "xs = [a, b]" | a b c where "xs = [a, b, c]"
    | a b c d where "xs = [a, b, c, d]" | a b c d e where "xs = [a, b, c, d, e]"
    | a b c d e f where "xs = [a, b, c, d, e, f]" | a b c d e f g where "xs = [a, b, c, d, e, f, g]"
    | a b c d e f g h where "xs = [a, b, c, d, e, f, g, h]"
  using less_9_cases [OF assms(1)] assms(2)
  by (auto simp: length_Suc_conv numeral_eq_Suc)

lemma length_up_to_3:
  assumes "length xs \<le> 3"
  obtains "xs = []" | a where "xs = [a]" | a b where "xs = [a, b]" | a b c where "xs = [a, b, c]"
proof -
  have "length xs = 0 \<or> length xs = 1 \<or> length xs = 2 \<or> length xs = 3" using assms by arith
  then show thesis using that by (auto simp: length_Suc_conv numeral_eq_Suc)
qed

lemma list_update_numeral [simp]:
  "(x # xs) [numeral n := y] = x # xs [pred_numeral n := y]"
  by (simp add: numeral_eq_Suc)

lemma replicate_numeral: "replicate (numeral n) x = x # replicate (pred_numeral n) x"
  by (simp add: numeral_eq_Suc)

lemma stripPadding_7:
  "stripPadding 7 name =
     (if name ! 7 \<noteq> 32 then (name, 7) else stripPadding 6 (name[7 := 0]))"
  and stripPadding_6:
  "stripPadding 6 name =
     (if name ! 6 \<noteq> 32 then (name, 6) else stripPadding 5 (name[6 := 0]))"
  and stripPadding_5:
  "stripPadding 5 name =
     (if name ! 5 \<noteq> 32 then (name, 5) else stripPadding 4 (name[5 := 0]))"
  and stripPadding_4:
  "stripPadding 4 name =
     (if name ! 4 \<noteq> 32 then (name, 4) else stripPadding 3 (name[4 := 0]))"
  and stripPadding_3:
  "stripPadding 3 name =
     (if name ! 3 \<noteq> 32 then (name, 3) else stripPadding 2 (name[3 := 0]))"
  and stripPadding_2:
  "stripPadding 2 name =
     (if name ! 2 \<noteq> 32 then (name, 2) else stripPadding 1 (name[2 := 0]))"
  and stripPadding_1:
  "stripPadding 1 name =
     (if name ! 1 \<noteq> 32 then (name, 1) else (name[1 := 0], 0))"
  by (simp_all add: numeral_eq_Suc)

lemmas stripPadding_unfold = stripPadding_7 stripPadding_6 stripPadding_5 stripPadding_4
  stripPadding_3 stripPadding_2 stripPadding_1

lemma shortName_bytes:
  assumes "base \<noteq> []" "length base \<le> 8" "length ext \<le> 3"
    and "0 \<notin> set base" "last base \<noteq> 32" "0 \<notin> set ext" "32 \<notin> set ext"
  shows "shortName (shortNameBytes base ext @ [0, 0]) =
    base @ (if ext = [] then [] else 46 # ext)"
  by (rule length_up_to_8 [OF assms(2,1)]; rule length_up_to_3 [OF assms(3)])
    (use assms in \<open>simp_all add: shortName_def shortNameBytes_def stripPadding_unfold bufferString_def
      Let_def replicate_numeral\<close>)

text \<open>C20: The name of a short directory entry. A base of one to eight characters and an extension of
  at most three are stored padded with spaces; reading the entry gives the base, and the
  extension after a dot when there is one. The base may start with none of the three special
  bytes and have no numeric tail in its last two characters, which is taken for a long name.
\<close>

theorem fat_short_name_round_trip:
  assumes bytes: "fatRead fs off 11 = shortNameBytes base ext"
    and base: "base \<noteq> []" "length base \<le> 8" "0 \<notin> set base" "last base \<noteq> 32"
    and ext: "length ext \<le> 3" "0 \<notin> set ext" "32 \<notin> set ext"
    and first: "hd base \<notin> {FatDirEntryNameFirstByteDotEntry,
      FatDirEntryNameFirstByteUnusedDeleted, FatDirEntryNameFirstByteEscape0xE5}"
    and tail: "drop 6 base \<noteq> [126, 49]"
  shows "fatReadDirEntryName fs off =
    Some (FatReadDirEntryNameResultSuccess (base @ (if ext = [] then [] else 46 # ext)))"
proof -
  let ?b = "shortNameBytes base ext"
  have len: "length ?b = 11" using base ext by (simp add: shortNameBytes_def)
  have hd: "?b ! 0 = hd base" using base by (simp add: shortNameBytes_def nth_append hd_conv_nth)
  moreover have "hd base \<noteq> 0" using base by (metis hd_in_set)
  moreover have "\<not> (?b ! 6 = 126 \<and> ?b ! 7 = 49)"
    using base tail
    by (cases rule: length_up_to_8 [OF base(2,1)]) (simp_all add: shortNameBytes_def replicate_numeral)
  ultimately show ?thesis
    using len first bytes shortName_bytes [OF base(1,2) ext(1) base(3,4) ext(2,3)]
    by (auto simp: fatReadDirEntryName_def Let_def FatDirEntryNameFirstByteUnusedFinal_def)
qed

section \<open>Volumes that are images\<close>

definition imageReader :: "u8 list \<Rightarrow> FatReader" where
  "imageReader img addr len = take (unat len) (drop (unat addr) img)"

lemma length_imageReader:
  "unat addr + unat len \<le> length img \<Longrightarrow> length (imageReader img addr len) = unat len"
  by (simp add: imageReader_def)

section \<open>Cluster chains\<close>

text \<open>The clusters that the table chains together from one on, down to its end of chain.\<close>

fun fatChain :: "Fat \<Rightarrow> u32 \<Rightarrow> u32 list \<Rightarrow> bool" where
  "fatChain fs c [] \<longleftrightarrow> False"
| "fatChain fs c (d # ds) \<longleftrightarrow> c = d \<and>
     (case fatReadClusterEntry fs (ucast c) of
        FatClusterTypeData nextCluster \<Rightarrow> ds \<noteq> [] \<and> fatChain fs nextCluster ds
      | FatClusterTypeEndOfChain \<Rightarrow> ds = []
      | _ \<Rightarrow> False)"

definition clusterBytes :: "Fat \<Rightarrow> u8 list \<Rightarrow> u32 \<Rightarrow> u8 list" where
  "clusterBytes fs img c =
     take (unat (fatGetClusterSize fs)) (drop (unat (fatGetOffsetForCluster fs (ucast c))) img)"

definition chainBytes :: "Fat \<Rightarrow> u8 list \<Rightarrow> u32 list \<Rightarrow> u8 list" where
  "chainBytes fs img cs = concat (map (clusterBytes fs img) cs)"

text \<open>Every cluster lies in the image.\<close>

definition chainInImage :: "Fat \<Rightarrow> u8 list \<Rightarrow> u32 list \<Rightarrow> bool" where
  "chainInImage fs img cs \<longleftrightarrow> (\<forall>c \<in> set cs.
     unat (fatGetOffsetForCluster fs (ucast c)) + unat (fatGetClusterSize fs) \<le> length img)"

lemma length_clusterBytes:
  "chainInImage fs img cs \<Longrightarrow> c \<in> set cs \<Longrightarrow>
   length (clusterBytes fs img c) = unat (fatGetClusterSize fs)"
  by (auto simp: chainInImage_def clusterBytes_def dest!: bspec)

lemma length_chainBytes:
  "chainInImage fs img cs \<Longrightarrow>
   length (chainBytes fs img cs) = length cs * unat (fatGetClusterSize fs)"
proof (induction cs)
  case (Cons c cs)
  then show ?case
    using length_clusterBytes [OF Cons.prems, of c]
    by (simp add: chainBytes_def) (simp add: chainInImage_def)
qed (simp add: chainBytes_def)

text \<open>The data loop of one cluster reads what is wanted of it in one go.\<close>

lemma clusterReadLoop_image:
  fixes r len total :: u16
  assumes rd: "fatReadFunctor fs = imageReader img"
    and "length img \<le> 4294967296"
    and "unat base + unat (fatGetClusterSize fs) \<le> length img"
    and r: "r < fatGetClusterSize fs" and t: "total \<le> len"
  shows "clusterReadLoop fs base r len data total =
    (let n = min (unat len - unat total) (unat (fatGetClusterSize fs) - unat r);
         part = take n (drop (unat base + unat r) img) in
     Some (data @ part, total + of_nat n,
       unat len - unat total \<le> unat (fatGetClusterSize fs) - unat r))"
proof -
  let ?S = "unat (fatGetClusterSize fs)"
  let ?n = "min (unat len - unat total) (?S - unat r)"
  let ?target = "min (len - total) (fatGetClusterSize fs - r)"
  have le: "unat r < ?S" "unat total \<le> unat len" using r t by (simp_all add: word_less_nat_alt word_le_nat_alt)
  have "unat (fatGetClusterSize fs - r) = ?S - unat r" "unat (len - total) = unat len - unat total"
    using r t by (simp_all add: unat_sub less_imp_le)
  then have n: "unat ?target = ?n" by (simp add: min_def word_le_nat_alt)
  have addr: "unat (base + ucast r) = unat base + unat r"
    using assms(2,3) le by (simp add: unat_word_ariths)
  have bytes: "fatRead fs (base + ucast r) (ucast ?target) = take ?n (drop (unat base + unat r) img)"
    by (simp add: fatRead_def rd imageReader_def addr n)
  have len_bytes: "length (take ?n (drop (unat base + unat r) img)) = ?n"
    using assms(3) le by simp
  have count: "of_nat ?n = ?target" by (simp add: n [symmetric] del: of_nat_min)
  have total': "unat (total + ?target) = unat total + ?n"
  proof -
    have "unat total + ?n < 65536" using le unat_u16_less [of len] by linarith
    then show ?thesis using n by (simp add: unat_word_ariths)
  qed
  have ge: "total + ?target \<ge> len \<longleftrightarrow> unat len - unat total \<le> ?S - unat r"
    using le by (auto simp: word_le_nat_alt total')
  let ?part = "take ?n (drop (unat base + unat r) img)"
  have count': "(of_nat (length ?part) :: u16) = ?target" by (simp only: len_bytes count)
  have step: "clusterReadLoop fs base r len data total =
    (if unat len - unat total \<le> ?S - unat r then Some (data @ ?part, total + ?target, True)
     else clusterReadLoop fs base (r + ?target) len (data @ ?part) (total + ?target))"
    by (subst clusterReadLoop.simps) (simp only: Let_def bytes count' ge r if_True less_irrefl simp_thms)
  show ?thesis
  proof (cases "unat len - unat total \<le> ?S - unat r")
    case True
    then show ?thesis by (simp only: step Let_def count if_True simp_thms)
  next
    case False
    then have "?n = ?S - unat r" by simp
    then have "\<not> r + ?target < fatGetClusterSize fs"
      using le n by (simp add: word_less_nat_alt unat_word_ariths)
    then have "clusterReadLoop fs base (r + ?target) len (data @ ?part) (total + ?target) =
      Some (data @ ?part, total + ?target, False)"
      by (subst clusterReadLoop.simps) (simp only: Let_def if_False)
    with False show ?thesis by (simp only: step Let_def count if_False simp_thms)
  qed
qed

text \<open>The chain loop appends what is left to read of the data of the chain, when it starts at
  a cluster boundary or needs no second cluster.\<close>

lemma clusterChainLoop_image:
  fixes readOffset :: u32 and len total :: u16
  assumes rd: "fatReadFunctor fs = imageReader img" "length img \<le> 4294967296"
    and pos: "0 < fatGetClusterSize fs"
    and "fatChain fs c cs" "chainInImage fs img cs" "total \<le> len"
    and "unat readOffset + (unat len - unat total) \<le> length (chainBytes fs img cs)"
    and "unat (fatGetClusterSize fs) dvd unat readOffset \<or>
      unat readOffset mod unat (fatGetClusterSize fs) + (unat len - unat total)
        \<le> unat (fatGetClusterSize fs)"
  shows "clusterChainLoop fs c readOffset len data total =
    Some (data @ take (unat len - unat total) (drop (unat readOffset) (chainBytes fs img cs)))"
  using assms(4-)
proof (induction cs arbitrary: c readOffset data total)
  case (Cons d ds)
  let ?S = "unat (fatGetClusterSize fs)" and ?w = "unat len - unat total"
  let ?R = "unat readOffset" and ?off = "fatGetOffsetForCluster fs (ucast c)"
  have S: "0 < ?S" using pos by (simp add: word_less_nat_alt)
  have le: "unat total \<le> unat len" using Cons.prems(3) by (simp add: word_le_nat_alt)
  have d: "d = c" using Cons.prems(1) by simp
  have inI: "chainInImage fs img ds" "unat ?off + ?S \<le> length img"
    using Cons.prems(2) d by (auto simp: chainInImage_def)
  have lenc: "length (clusterBytes fs img c) = ?S"
    using length_clusterBytes [OF Cons.prems(2), of c] d by simp
  have split: "chainBytes fs img (d # ds) = clusterBytes fs img c @ chainBytes fs img ds"
    by (simp add: chainBytes_def d)
  have type: "(\<exists>nextCluster. fatReadClusterEntry fs (ucast c) = FatClusterTypeData nextCluster \<and>
        ds \<noteq> [] \<and> fatChain fs nextCluster ds)
      \<or> fatReadClusterEntry fs (ucast c) = FatClusterTypeEndOfChain \<and> ds = []"
    using Cons.prems(1) by (auto split: FatClusterType.splits)
  have small: "readOffset < ucast (fatGetClusterSize fs) \<longleftrightarrow> ?R < ?S"
    by (simp add: word_less_nat_alt)
  show ?case
  proof (cases "?R < ?S")
    case True
    let ?n = "min ?w (?S - ?R)"
    let ?part = "take ?n (drop (unat ?off + ?R) img)"
    have r: "unat (ucast readOffset :: u16) = ?R"
      using True unat_u16_less [of "fatGetClusterSize fs"]
      by (simp add: unat_ucast_32_16 del: unat_u16_less)
    then have "(ucast readOffset :: u16) < fatGetClusterSize fs"
      using True by (simp add: word_less_nat_alt)
    note loop = clusterReadLoop_image [OF rd(1,2) inI(2) this Cons.prems(3), unfolded r, of data]
    have part: "?part = take ?n (drop ?R (clusterBytes fs img c))"
      using True by (simp add: clusterBytes_def drop_take add.commute)
    show ?thesis
    proof (cases "?w \<le> ?S - ?R")
      case True
      then show ?thesis
        using type \<open>?R < ?S\<close> loop part lenc
        by (subst clusterChainLoop.simps)
          (auto simp: Let_def small split)
    next
      case False
      have R0: "?R = 0"
        using Cons.prems(5) False \<open>?R < ?S\<close> by (auto dest: dvd_imp_le)
      have n: "?n = ?S" using False R0 by simp
      have "unat total + ?S < 65536" using False R0 le unat_u16_less [of len] by linarith
      then have total': "unat (total + of_nat ?S) = unat total + ?S" by (simp add: unat_word_ariths)
      have ds: "ds \<noteq> []"
        using Cons.prems(4) False R0 lenc d by (auto simp: split chainBytes_def)
      then obtain nextCluster where nx: "fatReadClusterEntry fs (ucast c) = FatClusterTypeData nextCluster"
        "fatChain fs nextCluster ds" using type by auto
      have rest: "unat len - unat (total + of_nat ?S) = ?w - ?S" unfolding total' by simp
      have IH: "clusterChainLoop fs nextCluster readOffset len (data @ clusterBytes fs img c) (total + of_nat ?S)
        = Some ((data @ clusterBytes fs img c) @
            take (?w - ?S) (drop ?R (chainBytes fs img ds)))"
        unfolding rest [symmetric]
        by (rule Cons.IH [OF nx(2) inI(1)])
          (use Cons.prems(4) False R0 lenc rest total' in \<open>auto simp: word_le_nat_alt split\<close>)
      show ?thesis
        using nx(1) loop part lenc n False R0 IH S
        by (subst clusterChainLoop.simps)
          (auto simp: Let_def small split)
    qed
  next
    case False
    show ?thesis
    proof (cases "ds = []")
      case True
      then have "?w = 0" "?R = ?S"
        using Cons.prems(4) False lenc d by (auto simp: split chainBytes_def)
      then show ?thesis
        using type True False by (subst clusterChainLoop.simps) (auto simp: Let_def small)
    next
      case ds: False
      then obtain nextCluster where nx: "fatReadClusterEntry fs (ucast c) = FatClusterTypeData nextCluster"
        "fatChain fs nextCluster ds" using type by auto
      have R': "unat (readOffset - ucast (fatGetClusterSize fs)) = ?R - ?S"
        using False by (simp add: unat_sub word_le_nat_alt)
      have md: "(?R - ?S) mod ?S = ?R mod ?S" "?S dvd ?R - ?S \<longleftrightarrow> ?S dvd ?R"
        using False by (simp_all add: le_mod_geq dvd_minus_self)
      have IH: "clusterChainLoop fs nextCluster (readOffset - ucast (fatGetClusterSize fs)) len data total
        = Some (data @ take ?w (drop (?R - ?S) (chainBytes fs img ds)))"
        unfolding R' [symmetric]
        by (rule Cons.IH [OF nx(2) inI(1) Cons.prems(3)])
          (use Cons.prems(4,5) False lenc md R' in \<open>auto simp: split\<close>)
      show ?thesis
        using nx(1) False IH lenc
        by (subst clusterChainLoop.simps) (auto simp: Let_def small split)
    qed
  qed
qed simp

section \<open>Reading a file\<close>


subsection \<open>A small volume\<close>

text \<open>Sectors and clusters of four bytes: the table with clusters 2 and 3 chained, a root
  directory with the six-byte file \<open>A.B\<close>, and the two clusters.\<close>

definition exImage :: "u8 list" where
  "exImage = [0xF8, 0xFF, 0xFF, 0xFF, 3, 0, 0xFF, 0xFF] @
     [65, 32, 32, 32, 32, 32, 32, 32, 66, 32, 32, 0x20] @ replicate 14 0 @ [2, 0, 6, 0, 0, 0] @
     [10, 11, 12, 13, 14, 15, 16, 17]"

definition exFat :: Fat where
  "exFat = \<lparr>fatReadFunctor = imageReader exImage, fatBytesPerSector = 4, fatFatSector = 0,
     fatRootDirSector = 2, fatFirstDataSector = 10, fatTypeField = FatTypeFAT16,
     fatSectorsPerCluster = 1\<rparr>"

definition exPath :: KStr where
  "exPath = kstrAllocStatic [65, 46, 66]"

lemma exFat_entry:
  "fatReadDirEntryName exFat 8 = Some (FatReadDirEntryNameResultSuccess [65, 46, 66])"
  "fatReadDirEntryAttributes exFat 8 = Some 0x20"
  "fatReadDirEntryFirstCluster exFat 8 = Some 2" "fatReadDirEntrySize exFat 8 = Some 6"
  "fatGetRootDirOffset exFat = 8" "fatGetClusterSize exFat = 4"
  "fatReadClusterEntry exFat 2 = FatClusterTypeData 3"
  "fatReadClusterEntry exFat 3 = FatClusterTypeEndOfChain"
  "fatGetOffsetForCluster exFat 2 = 40" "fatGetOffsetForCluster exFat 3 = 44"
  by code_simp+

lemma exFat_lookup: "fatGetFileDirEntryOffsetFromPathKStr exFat exPath = Some 8"
proof -
  have "kstrStrcmp [65, 46, 66] exPath = 0" "\<not> kstrIsNull exPath"
    "(0x20 :: u8) AND FatDirEntryAttributesVolumeLabel = 0"
    by code_simp+
  then show ?thesis
    by (simp add: fatGetFileDirEntryOffsetFromPathKStr_def exFat_entry
        fatGetFileDirEntryOffsetFromPathKStrHelper.simps [of exFat 8])
qed

lemma exFat_reader: "fatReadFunctor exFat = imageReader exImage" "length exImage = 48"
  "\<not> kstrIsNull exPath"
  by (simp_all add: exFat_def exImage_def exPath_def kstrAllocStatic_def)

lemma exFat_chain: "fatChain exFat 2 [2, 3]" "chainInImage exFat exImage [2, 3]"
  "chainBytes exFat exImage [2, 3] = [10, 11, 12, 13, 14, 15, 16, 17]"
proof -
  show "fatChain exFat 2 [2, 3]" "chainInImage exFat exImage [2, 3]"
    by (simp_all add: exFat_entry chainInImage_def exFat_reader)
  show "chainBytes exFat exImage [2, 3] = [10, 11, 12, 13, 14, 15, 16, 17]" by code_simp
qed

lemma fat_short_name_round_trip_witness:
  "fatReadDirEntryName exFat 8 = Some (FatReadDirEntryNameResultSuccess ([65] @ 46 # [66]))"
proof -
  have "fatRead exFat 8 11 = shortNameBytes [65] [66]" by code_simp
  then show ?thesis
    using fat_short_name_round_trip [of exFat 8 "[65]" "[66]"] by (simp add: fat_byte_defs)
qed


text \<open>A read across a cluster boundary from inside a cluster starts the second cluster at the
  same place as the first: the byte 15 follows 13 here, not 14.\<close>

lemma fat_unaligned_read_skips: "fatFileRead exFat exPath 1 4 = Some [11, 12, 13, 15]"
proof -
  have "clusterReadLoop exFat 40 1 4 [] 0 = Some ([11, 12, 13], 3, False)"
    "clusterReadLoop exFat 44 1 4 [11, 12, 13] 3 = Some ([11, 12, 13, 15], 4, True)"
    using clusterReadLoop_image [OF exFat_reader(1), of 40 1 0 4 "[]"]
      clusterReadLoop_image [OF exFat_reader(1), of 44 1 3 4 "[11, 12, 13]"]
    by (simp_all add: exFat_reader exFat_entry Let_def) (simp_all add: exImage_def)
  then have "clusterChainLoop exFat 2 1 4 [] 0 = Some [11, 12, 13, 15]"
    by (simp add: clusterChainLoop.simps [of _ 2] clusterChainLoop.simps [of _ 3] exFat_entry)
  then show ?thesis
    by (simp add: fatFileRead_def exFat_reader exFat_lookup fatFileReadFromDirEntryOffset_def exFat_entry)
qed

end
