(* ===== verification/Pins.thy ===== *)
theory Pins
  imports Prelude
begin

text \<open>
  \<open>src/kernel/pins.c\<close>, the host build: which pins exist, which are taken, and their levels.
\<close>

definition PinNB :: nat where "PinNB = 96"
definition PinInvalid :: u8 where "PinInvalid = 127"
definition PinModeInput :: u16 where "PinModeInput = 0"
definition PinModeOutput :: u16 where "PinModeOutput = 1"

definition pinsValidArray :: "u8 list" where
  "pinsValidArray = [0xFF, 0xFF, 0xFF, 0x8F, 0x3B, 0xFF, 0x27, 0x7B, 0x00, 0x03, 0xFF, 0xFF]"

record Pins =
  pinsUsedArray :: "u8 list"
  pinStates :: "bool list"

definition pinsInitial :: Pins where
  "pinsInitial = \<lparr>pinsUsedArray = replicate (PinNB div 8) 0, pinStates = replicate PinNB False\<rparr>"

definition pinIsValid :: "u8 \<Rightarrow> bool" where
  "pinIsValid pinNum =
     (if unat pinNum \<ge> PinNB then False
      else drop_bit (unat pinNum mod 8) (pinsValidArray ! (unat pinNum div 8)) AND 1 \<noteq> 0)"

definition pinInUse :: "u8 \<Rightarrow> Pins \<Rightarrow> bool" where
  "pinInUse pinNum p =
     (if \<not> pinIsValid pinNum then False
      else drop_bit (unat pinNum mod 8) (pinsUsedArray p ! (unat pinNum div 8)) AND 1 \<noteq> 0)"

definition pinGrab :: "u8 \<Rightarrow> Pins \<Rightarrow> bool \<times> Pins" where
  "pinGrab pinNum p =
     (if \<not> pinIsValid pinNum then (False, p)
      else if pinInUse pinNum p then (False, p)
      else let i = unat pinNum div 8 in
        (True, p\<lparr>pinsUsedArray := (pinsUsedArray p)
          [i := pinsUsedArray p ! i OR push_bit (unat pinNum mod 8) 1]\<rparr>))"

definition pinRelease :: "u8 \<Rightarrow> Pins \<Rightarrow> Pins" where
  "pinRelease pinNum p =
     (if \<not> pinIsValid pinNum then p
      else let i = unat pinNum div 8 in
        p\<lparr>pinsUsedArray := (pinsUsedArray p)
          [i := pinsUsedArray p ! i AND NOT (push_bit (unat pinNum mod 8) 1)]\<rparr>)"

text \<open>Nothing happens on the host.\<close>

definition pinSetMode :: "u8 \<Rightarrow> u16 \<Rightarrow> Pins \<Rightarrow> Pins" where
  "pinSetMode pinNum mode p = p"

definition pinRead :: "u8 \<Rightarrow> Pins \<Rightarrow> bool" where
  "pinRead pinNum p = (if \<not> pinIsValid pinNum then False else pinStates p ! unat pinNum)"

definition pinWrite :: "u8 \<Rightarrow> bool \<Rightarrow> Pins \<Rightarrow> bool \<times> Pins" where
  "pinWrite pinNum v p =
     (if \<not> pinIsValid pinNum then (False, p)
      else (True, p\<lparr>pinStates := (pinStates p)[unat pinNum := v]\<rparr>))"

end
