(* ===== verification/KTime.thy ===== *)
theory KTime
  imports Prelude
begin

text \<open>
  \<open>src/kernel/ktime.c\<close>: time since boot, real time and calendar dates. The raw clock, a host
  call, is an argument of the functions that read it.
\<close>

type_synonym KTime = u64

record KTimeState =
  ktimeBootTime :: KTime
  ktimeRealTimeOffset :: KTime

definition ktimeGetMonotonicMs :: "KTime \<Rightarrow> KTimeState \<Rightarrow> KTime" where
  "ktimeGetMonotonicMs raw t = raw - ktimeBootTime t"

definition ktimeGetRealMs :: "KTime \<Rightarrow> KTimeState \<Rightarrow> KTime" where
  "ktimeGetRealMs raw t = ktimeGetMonotonicMs raw t + ktimeRealTimeOffset t"

definition ktimeSetRealMs :: "KTime \<Rightarrow> KTime \<Rightarrow> KTimeState \<Rightarrow> KTimeState" where
  "ktimeSetRealMs ms raw t =
     (let newOffset = ms - ktimeGetMonotonicMs raw t in
      if newOffset = ktimeRealTimeOffset t then t else t\<lparr>ktimeRealTimeOffset := newOffset\<rparr>)"

text \<open>The clock is read three times on the way.\<close>

definition ktimeInit :: "KTime \<Rightarrow> KTime \<Rightarrow> KTime \<Rightarrow> KTimeState \<Rightarrow> KTimeState" where
  "ktimeInit raw1 raw2 raw3 t = ktimeSetRealMs raw2 raw3 (t\<lparr>ktimeBootTime := raw1\<rparr>)"

record KDate =
  kdYear :: u32
  kdMonth :: u8
  kdDay :: u8
  kdHour :: u8
  kdMinute :: u8
  kdSecond :: u8
  kdMs :: u16

text \<open>Days are counted from the first of March of year 0 in eras of 400 years.\<close>

definition ktimeTimeMsToDate :: "KTime \<Rightarrow> KDate" where
  "ktimeTimeMsToDate input =
     (let z = ucast ((input div 1000) div 86400) + 719468 :: u32;
          era = z div 146097;
          doe = z - era * 146097;
          yoe = (doe - doe div 1460 + doe div 36524 - doe div 146096) div 365;
          y = yoe + era * 400;
          doy = doe - (365 * yoe + yoe div 4 - yoe div 100);
          mp = (5 * doy + 2) div 153;
          d = doy - (153 * mp + 2) div 5 + 1;
          m = mp + (if mp < 10 then 3 else - 9);
          y = y + (if m \<le> 2 then 1 else 0)
      in \<lparr>kdYear = y, kdMonth = ucast m, kdDay = ucast d,
          kdHour = ucast ((input div 1000) div 60 div 60 mod 24),
          kdMinute = ucast ((input div 1000) div 60 mod 60),
          kdSecond = ucast ((input div 1000) mod 60),
          kdMs = ucast (input mod 1000)\<rparr>)"

end
