(* ===== verification/KernelGlobals.thy ===== *)
theory KernelGlobals
  imports Tty Pins KTime KernelFsFile
begin

text \<open>
  The global variables of the kernel that the device code works on: the terminal, the pins, the
  clock offsets, the lock of the SPI bus (\<open>kernel.c\<close>), the table of hardware devices
  (\<open>hwdevice.c\<close>, \<open>sd.h\<close>) and the two memories behind volumes. On the host build the EEPROM
  is a file, and other host files can be mounted: \<open>gHostFiles\<close> holds what they contain,
  \<open>None\<close> for one that cannot be opened. \<open>gHost\<close> is the hardware outside the program. The
  members of the union in \<open>HwDevice\<close> are kept side by side; the device's type says which one
  is in use.
\<close>

section \<open>SD cards\<close>

datatype SdType = SdTypeBadCard | SdTypeSdVer2Plus

datatype SdAddressMode = SdAddressModeByte | SdAddressModeBlock

record SdCard =
  sdBlockCount :: u32
  sdType :: SdType
  sdAddressMode :: SdAddressMode
  sdPowerPin :: u8
  sdSlaveSelectPin :: u8

section \<open>Hardware devices\<close>

type_synonym HwDeviceId = u8

record HwDeviceKeypadData =
  kpMountPoint :: KStr
  kpStates :: u16
  kpCircBuf :: CircBuf

record HwDeviceDht22Data =
  dhtLastReadTime :: KTime
  dhtTemperature :: u16
  dhtHumitity :: u16

record HwDeviceSdCardReaderData =
  srMountPoint :: KStr
  srSdCard :: SdCard
  srCache :: "u8 list"
  srCacheIsValid :: bool
  srCacheIsDirty :: bool
  srCacheBlock :: u32

record HwDevice =
  hdType :: u8
  hdPins :: "u8 list"
  hdKeypad :: HwDeviceKeypadData
  hdSdCardReader :: HwDeviceSdCardReaderData
  hdDht22 :: HwDeviceDht22Data

section \<open>The globals\<close>

record 'w Globals =
  gTty :: Tty
  gPins :: Pins
  gTime :: KTimeState
  gSpiLockFd :: KernelFsFd
  gSpiSlaveSelectPin :: u8
  gHwDevices :: "HwDevice list"
  gRamData :: "u8 list"
  gEeprom :: "u8 list"
  gHostFiles :: "u8 list option list"
  gHost :: 'w

text \<open>The hardware: the byte the SPI bus returns for one sent, the level of a pin set as input
  or output, the clock, the passing of time, the random numbers of the C library, and the bytes that
  have arrived on standard input, of which the first can be taken.\<close>

record 'w Hardware =
  hwSpiTransfer :: "u8 \<Rightarrow> 'w \<Rightarrow> u8 \<times> 'w"
  hwPinRead :: "u8 \<Rightarrow> Pins \<Rightarrow> 'w \<Rightarrow> bool"
  hwRawMs :: "'w \<Rightarrow> KTime \<times> 'w"
  hwDelayUs :: "nat \<Rightarrow> 'w \<Rightarrow> 'w"
  hwRand :: "'w \<Rightarrow> nat \<times> 'w"
  hwStdin :: "'w \<Rightarrow> u8 list"
  hwStdinTake :: "nat \<Rightarrow> 'w \<Rightarrow> 'w"

end
