(* ===== verification/KernelMount.thy ===== *)
theory KernelMount
  imports KernelGlobals
begin

text \<open>
  \<open>src/kernel/kernelmount.c\<close> and \<open>ptable.c\<close>: files of the virtual file system mounted
  as devices of it. A mount keeps its backing file open; the device it adds has the functor
  \<open>kernelMountFsFunctor\<close> with that descriptor as user data, and the format is looked up in
  the table of mounts by descriptor. Log messages are left out.
\<close>

section \<open>Partition tables\<close>

record PTableEntry =
  ptAttributes :: u8
  ptPartitionType :: u8
  ptStartSector :: u32
  ptNumSectors :: u32

definition parseEntryBuffer :: "u8 list \<Rightarrow> PTableEntry" where
  "parseEntryBuffer b =
     \<lparr>ptAttributes = b ! 0, ptPartitionType = b ! 4,
      ptStartSector = be32 (b ! 11) (b ! 10) (b ! 9) (b ! 8),
      ptNumSectors = be32 (b ! 15) (b ! 14) (b ! 13) (b ! 12)\<rparr>"

definition pTableParseEntryFd ::
    "'w FsEnv \<Rightarrow> KernelFsFd \<Rightarrow> u32 \<Rightarrow> 'w KernelFs \<Rightarrow> (PTableEntry option \<times> 'w KernelFs) option" where
  "pTableParseEntryFd env fd n st = do {
     (magicBytes, st) \<leftarrow> kernelFsFileReadOffset env fd 510 2 st;
     if length magicBytes \<noteq> 2 then Some (None, st)
     else if magicBytes ! 0 \<noteq> 0x55 \<or> magicBytes ! 1 \<noteq> 0xAA then Some (None, st)
     else do {
       (buffer, st) \<leftarrow> kernelFsFileReadOffset env fd (446 + 16 * n) 16 st;
       if length buffer \<noteq> 16 then Some (None, st) else Some (Some (parseEntryBuffer buffer), st)
     }
   }"

definition pTableParseEntryPath ::
    "'w FsEnv \<Rightarrow> cstr \<Rightarrow> u32 \<Rightarrow> 'w KernelFs \<Rightarrow> (PTableEntry option \<times> 'w KernelFs) option" where
  "pTableParseEntryPath env path n st = do {
     (fd, st) \<leftarrow> kernelFsFileOpen env path KernelFsFdModeRO st;
     if fd = KernelFsFdInvalid then Some (None, st)
     else do {
       (entry, st) \<leftarrow> pTableParseEntryFd env fd n st;
       (_, st) \<leftarrow> kernelFsFileClose fd st;
       Some (entry, st)
     }
   }"

section \<open>The table of mounts\<close>

text \<open>An enum may hold any number the system call hands over, so a format is one.\<close>

type_synonym KernelMountFormat = u16

definition KernelMountFormatMiniFs :: KernelMountFormat where "KernelMountFormatMiniFs = 0"
definition KernelMountFormatFlatFile :: KernelMountFormat where "KernelMountFormatFlatFile = 1"
definition KernelMountFormatPartition1 :: KernelMountFormat where "KernelMountFormatPartition1 = 2"
definition KernelMountFormatPartition2 :: KernelMountFormat where "KernelMountFormatPartition2 = 3"
definition KernelMountFormatPartition3 :: KernelMountFormat where "KernelMountFormatPartition3 = 4"
definition KernelMountFormatPartition4 :: KernelMountFormat where "KernelMountFormatPartition4 = 5"
definition KernelMountFormatCircBuf :: KernelMountFormat where "KernelMountFormatCircBuf = 6"
definition KernelMountFormatFat :: KernelMountFormat where "KernelMountFormatFat = 7"

lemmas mountformat_consts =
  KernelMountFormatMiniFs_def KernelMountFormatFlatFile_def KernelMountFormatPartition1_def
  KernelMountFormatPartition2_def KernelMountFormatPartition3_def KernelMountFormatPartition4_def
  KernelMountFormatCircBuf_def KernelMountFormatFat_def

definition formatIsPartition :: "KernelMountFormat \<Rightarrow> bool" where
  "formatIsPartition format \<longleftrightarrow>
     KernelMountFormatPartition1 \<le> format \<and> format \<le> KernelMountFormatPartition4"

definition kernelMountFormatIsFile :: "KernelMountFormat \<Rightarrow> bool" where
  "kernelMountFormatIsFile format \<longleftrightarrow>
     format = KernelMountFormatFlatFile \<or> formatIsPartition format \<or> format = KernelMountFormatCircBuf"

definition kernelMountFormatIsDir :: "KernelMountFormat \<Rightarrow> bool" where
  "kernelMountFormatIsDir format \<longleftrightarrow>
     format = KernelMountFormatMiniFs \<or> format = KernelMountFormatFat"

record KernelMountDevice =
  kmdFormat :: u8
  kmdFd :: KernelFsFd

definition kernelMountedDevicesMax :: nat where "kernelMountedDevicesMax = 32"

text \<open>The list holds the first \<open>kernelMountedDevicesNext\<close> entries of the array. The
  functors read it, so it is part of the world of the file system.\<close>

record 'w KWorld =
  kwMounts :: "KernelMountDevice list"
  kwGlobals :: "'w Globals"

type_synonym 'w KFs = "'w KWorld KernelFs"
type_synonym 'w KEnv = "'w KWorld FsEnv"

definition globalsOf :: "'w KFs \<Rightarrow> 'w Globals" where
  "globalsOf st = kwGlobals (kfsWorld st)"

definition updGlobals :: "('w Globals \<Rightarrow> 'w Globals) \<Rightarrow> 'w KFs \<Rightarrow> 'w KFs" where
  "updGlobals f st = st\<lparr>kfsWorld := (kfsWorld st)\<lparr>kwGlobals := f (globalsOf st)\<rparr>\<rparr>"

definition mountsOf :: "'w KFs \<Rightarrow> KernelMountDevice list" where
  "mountsOf st = kwMounts (kfsWorld st)"

definition setMounts :: "KernelMountDevice list \<Rightarrow> 'w KFs \<Rightarrow> 'w KFs" where
  "setMounts mounts st = st\<lparr>kfsWorld := (kfsWorld st)\<lparr>kwMounts := mounts\<rparr>\<rparr>"

definition kernelMountGetDeviceFromFd :: "'w KFs \<Rightarrow> KernelFsFd \<Rightarrow> KernelMountDevice option" where
  "kernelMountGetDeviceFromFd st fd = List.find (\<lambda>d. fd = kmdFd d) (mountsOf st)"

text \<open>The identifier that stands for the address of \<open>kernelMountFsFunctor\<close>.\<close>

definition kernelMountFsFunctorId :: nat where "kernelMountFsFunctorId = 1"

section \<open>Circular buffers in a file\<close>

definition KernelFsFileOffsetMax :: u32 where "KernelFsFileOffsetMax = 0xFFFFFFFF"

definition kernelMountCircBufGetBackingSize ::
    "'w KEnv \<Rightarrow> KernelFsFd \<Rightarrow> 'w KFs \<Rightarrow> u32 option" where
  "kernelMountCircBufGetBackingSize env deviceFd st = do {
     pathK \<leftarrow> kernelFsGetFilePath st deviceFd;
     if kstrIsNull pathK \<or> length (kstrBytes pathK) \<ge> KernelFsPathMax then None
     else kernelFsFileGetLen env st (kstrStrcpy [] pathK)
   }"

definition kernelMountCircBufGetOffsetSize :: "'w KEnv \<Rightarrow> KernelFsFd \<Rightarrow> 'w KFs \<Rightarrow> u32 option" where
  "kernelMountCircBufGetOffsetSize env deviceFd st =
     map_option (\<lambda>backingFileSize.
         if backingFileSize < 0x100 then 1 else if backingFileSize < 0x10000 then 2 else 4)
       (kernelMountCircBufGetBackingSize env deviceFd st)"

definition kernelMountCircBufGetBufferSize :: "'w KEnv \<Rightarrow> KernelFsFd \<Rightarrow> 'w KFs \<Rightarrow> u32 option" where
  "kernelMountCircBufGetBufferSize env deviceFd st =
     map_option (\<lambda>backingFileSize.
         if backingFileSize < 0x100 then backingFileSize - 2
         else if backingFileSize < 0x10000 then backingFileSize - 4 else backingFileSize - 8)
       (kernelMountCircBufGetBackingSize env deviceFd st)"

definition kernelMountCircBufIncOffset ::
    "'w KEnv \<Rightarrow> KernelFsFd \<Rightarrow> u32 \<Rightarrow> 'w KFs \<Rightarrow> u32 option" where
  "kernelMountCircBufIncOffset env deviceFd offset st =
     map_option (\<lambda>bufferSize. if offset < bufferSize - 1 then offset + 1 else 0)
       (kernelMountCircBufGetBufferSize env deviceFd st)"

text \<open>The head offset is at the start of the file, the tail offset after it, each in one,
  two or four bytes.\<close>

definition getOffset ::
    "'w KEnv \<Rightarrow> KernelFsFd \<Rightarrow> u32 \<Rightarrow> u32 \<Rightarrow> 'w KFs \<Rightarrow> (u32 \<times> 'w KFs) option" where
  "getOffset env deviceFd offsetSize at st =
     (if offsetSize = 1 then do {
        (v, st) \<leftarrow> kernelFsFileReadByte env deviceFd at st;
        Some (case v of None \<Rightarrow> KernelFsFileOffsetMax | Some v \<Rightarrow> ucast v, st)
      } else if offsetSize = 2 then do {
        (v, st) \<leftarrow> kernelFsFileReadWord env deviceFd at st;
        Some (case v of None \<Rightarrow> KernelFsFileOffsetMax | Some v \<Rightarrow> ucast v, st)
      } else do {
        (v, st) \<leftarrow> kernelFsFileReadDoubleWord env deviceFd at st;
        Some (case v of None \<Rightarrow> KernelFsFileOffsetMax | Some v \<Rightarrow> v, st)
      })"

definition kernelMountCircBufGetHeadOffset ::
    "'w KEnv \<Rightarrow> KernelFsFd \<Rightarrow> 'w KFs \<Rightarrow> (u32 \<times> 'w KFs) option" where
  "kernelMountCircBufGetHeadOffset env deviceFd st = do {
     offsetSize \<leftarrow> kernelMountCircBufGetOffsetSize env deviceFd st;
     getOffset env deviceFd offsetSize 0 st
   }"

definition kernelMountCircBufGetTailOffset ::
    "'w KEnv \<Rightarrow> KernelFsFd \<Rightarrow> 'w KFs \<Rightarrow> (u32 \<times> 'w KFs) option" where
  "kernelMountCircBufGetTailOffset env deviceFd st = do {
     offsetSize \<leftarrow> kernelMountCircBufGetOffsetSize env deviceFd st;
     getOffset env deviceFd offsetSize offsetSize st
   }"

definition setOffset ::
    "'w KEnv \<Rightarrow> KernelFsFd \<Rightarrow> u32 \<Rightarrow> u32 \<Rightarrow> u32 \<Rightarrow> 'w KFs \<Rightarrow> (bool \<times> 'w KFs) option" where
  "setOffset env deviceFd offsetSize at v st =
     (if offsetSize = 1 then kernelFsFileWriteByte env deviceFd at (ucast v) st
      else if offsetSize = 2 then kernelFsFileWriteWord env deviceFd at (ucast v) st
      else kernelFsFileWriteDoubleWord env deviceFd at v st)"

definition kernelMountCircBufSetHeadOffset ::
    "'w KEnv \<Rightarrow> KernelFsFd \<Rightarrow> u32 \<Rightarrow> 'w KFs \<Rightarrow> (bool \<times> 'w KFs) option" where
  "kernelMountCircBufSetHeadOffset env deviceFd headOffset st = do {
     offsetSize \<leftarrow> kernelMountCircBufGetOffsetSize env deviceFd st;
     setOffset env deviceFd offsetSize 0 headOffset st
   }"

definition kernelMountCircBufSetTailOffset ::
    "'w KEnv \<Rightarrow> KernelFsFd \<Rightarrow> u32 \<Rightarrow> 'w KFs \<Rightarrow> (bool \<times> 'w KFs) option" where
  "kernelMountCircBufSetTailOffset env deviceFd tailOffset st = do {
     offsetSize \<leftarrow> kernelMountCircBufGetOffsetSize env deviceFd st;
     setOffset env deviceFd offsetSize offsetSize tailOffset st
   }"

section \<open>The functor of a mounted device\<close>

text \<open>Every operation first finds the mount of the descriptor, and aborts if there is none or
  the format is of the other kind of device.\<close>

definition mountFormatOf :: "'w KFs \<Rightarrow> KernelFsFd \<Rightarrow> KernelMountFormat option" where
  "mountFormatOf st deviceFd =
     (if unat deviceFd < KernelFsFdMax
      then map_option (\<lambda>d. ucast (kmdFormat d)) (kernelMountGetDeviceFromFd st deviceFd) else None)"

definition kernelMountCommonFlushFunctor ::
    "'w KEnv \<Rightarrow> KernelFsFd \<Rightarrow> 'w KFs \<Rightarrow> (bool \<times> 'w KFs) option" where
  "kernelMountCommonFlushFunctor env deviceFd st = do {
     pathK \<leftarrow> kernelFsGetFilePath st deviceFd;
     if kstrIsNull pathK then Some (False, st)
     else if length (kstrBytes pathK) < KernelFsPathMax
     then kernelFsFileFlush env (kstrStrcpy [] pathK) st else None
   }"

definition sectorOffset :: "u32 \<Rightarrow> u32" where
  "sectorOffset sectors = (if sectors < 8388607 then sectors else 8388607) * 512"

definition kernelMountBlockReadFunctor ::
    "'w KEnv \<Rightarrow> u32 \<Rightarrow> u32 \<Rightarrow> KernelFsFd \<Rightarrow> 'w KFs \<Rightarrow>
     (u8 list \<times> 'w KFs) option" where
  "kernelMountBlockReadFunctor env addr len deviceFd st = do {
     format \<leftarrow> mountFormatOf st deviceFd;
     if format = KernelMountFormatMiniFs \<or> format = KernelMountFormatFlatFile \<or>
        format = KernelMountFormatFat
     then kernelFsFileReadOffset env deviceFd addr len st
     else if formatIsPartition format then do {
       (entry, st) \<leftarrow> pTableParseEntryFd env deviceFd (ucast (format - KernelMountFormatPartition1)) st;
       case entry of
         None \<Rightarrow> Some ([], st)
       | Some entry \<Rightarrow>
           kernelFsFileReadOffset env deviceFd (addr + sectorOffset (ptStartSector entry)) len st
     } else None
   }"

definition kernelMountBlockWriteFunctor ::
    "'w KEnv \<Rightarrow> u32 \<Rightarrow> u8 list \<Rightarrow> KernelFsFd \<Rightarrow> 'w KFs \<Rightarrow>
     (u32 \<times> 'w KFs) option" where
  "kernelMountBlockWriteFunctor env addr data deviceFd st = do {
     format \<leftarrow> mountFormatOf st deviceFd;
     if format = KernelMountFormatMiniFs \<or> format = KernelMountFormatFlatFile \<or>
        format = KernelMountFormatFat
     then kernelFsFileWriteOffset env deviceFd addr data st
     else if formatIsPartition format then do {
       (entry, st) \<leftarrow> pTableParseEntryFd env deviceFd (ucast (format - KernelMountFormatPartition1)) st;
       case entry of
         None \<Rightarrow> Some (0, st)
       | Some entry \<Rightarrow>
           kernelFsFileWriteOffset env deviceFd (addr + sectorOffset (ptStartSector entry)) data st
     } else None
   }"

definition kernelMountCharacterReadFunctor ::
    "'w KEnv \<Rightarrow> KernelFsFd \<Rightarrow> 'w KFs \<Rightarrow> (int \<times> 'w KFs) option" where
  "kernelMountCharacterReadFunctor env deviceFd st = do {
     format \<leftarrow> mountFormatOf st deviceFd;
     if format = KernelMountFormatFat then Some (-1, st)
     else if format \<noteq> KernelMountFormatCircBuf then None
     else do {
       offsetSize \<leftarrow> kernelMountCircBufGetOffsetSize env deviceFd st;
       (headOffset, st) \<leftarrow> kernelMountCircBufGetHeadOffset env deviceFd st;
       (tailOffset, st) \<leftarrow> kernelMountCircBufGetTailOffset env deviceFd st;
       if headOffset = tailOffset then Some (-1, st)
       else do {
         (result, st) \<leftarrow> kernelFsFileReadByte env deviceFd (2 * offsetSize + headOffset) st;
         case result of
           None \<Rightarrow> Some (-1, st)
         | Some result \<Rightarrow> do {
             headOffset \<leftarrow> kernelMountCircBufIncOffset env deviceFd headOffset st;
             (ok, st) \<leftarrow> kernelMountCircBufSetHeadOffset env deviceFd headOffset st;
             Some (if ok then uint result else -1, st)
           }
       }
     }
   }"

definition kernelMountCharacterCanReadFunctor ::
    "'w KEnv \<Rightarrow> KernelFsFd \<Rightarrow> 'w KFs \<Rightarrow> (bool \<times> 'w KFs) option" where
  "kernelMountCharacterCanReadFunctor env deviceFd st = do {
     format \<leftarrow> mountFormatOf st deviceFd;
     if format = KernelMountFormatFat then Some (False, st)
     else if format \<noteq> KernelMountFormatCircBuf then None
     else do {
       (headOffset, st) \<leftarrow> kernelMountCircBufGetHeadOffset env deviceFd st;
       (tailOffset, st) \<leftarrow> kernelMountCircBufGetTailOffset env deviceFd st;
       Some (if headOffset = KernelFsFileOffsetMax \<or> tailOffset = KernelFsFileOffsetMax then False
             else headOffset \<noteq> tailOffset, st)
     }
   }"

fun circBufWriteLoop ::
    "'w KEnv \<Rightarrow> KernelFsFd \<Rightarrow> u32 \<Rightarrow> u32 \<Rightarrow> u32 \<Rightarrow> u32 \<Rightarrow> u8 list \<Rightarrow> 'w KFs \<Rightarrow>
     ((u32 \<times> u32) option \<times> 'w KFs) option" where
  "circBufWriteLoop env deviceFd offsetSize headOffset tailOffset written [] st =
     Some (Some (tailOffset, written), st)"
| "circBufWriteLoop env deviceFd offsetSize headOffset tailOffset written (b # bs) st =
     (case kernelMountCircBufIncOffset env deviceFd tailOffset st of
        None \<Rightarrow> None
      | Some newTailOffset \<Rightarrow>
          if newTailOffset = headOffset then Some (Some (tailOffset, written), st)
          else (case kernelFsFileWriteByte env deviceFd (2 * offsetSize + tailOffset) b st of
              None \<Rightarrow> None
            | Some (ok, st') \<Rightarrow>
                if \<not> ok then Some (None, st')
                else circBufWriteLoop env deviceFd offsetSize headOffset newTailOffset (written + 1) bs st'))"

definition kernelMountCharacterWriteFunctor ::
    "'w KEnv \<Rightarrow> KernelFsFd \<Rightarrow> u8 list \<Rightarrow> 'w KFs \<Rightarrow>
     (u32 \<times> 'w KFs) option" where
  "kernelMountCharacterWriteFunctor env deviceFd data st = do {
     format \<leftarrow> mountFormatOf st deviceFd;
     if format = KernelMountFormatFat then Some (0, st)
     else if format \<noteq> KernelMountFormatCircBuf then None
     else do {
       offsetSize \<leftarrow> kernelMountCircBufGetOffsetSize env deviceFd st;
       (headOffset, st) \<leftarrow> kernelMountCircBufGetHeadOffset env deviceFd st;
       (tailOffset, st) \<leftarrow> kernelMountCircBufGetTailOffset env deviceFd st;
       (res, st) \<leftarrow> circBufWriteLoop env deviceFd offsetSize headOffset tailOffset 0 data st;
       case res of
         None \<Rightarrow> Some (0, st)
       | Some (tailOffset, written) \<Rightarrow> do {
           (ok, st) \<leftarrow> kernelMountCircBufSetTailOffset env deviceFd tailOffset st;
           Some (if ok then written else 0, st)
         }
     }
   }"

definition kernelMountCharacterCanWriteFunctor ::
    "'w KEnv \<Rightarrow> KernelFsFd \<Rightarrow> 'w KFs \<Rightarrow> (bool \<times> 'w KFs) option" where
  "kernelMountCharacterCanWriteFunctor env deviceFd st = do {
     format \<leftarrow> mountFormatOf st deviceFd;
     if format = KernelMountFormatFat then Some (False, st)
     else if format \<noteq> KernelMountFormatCircBuf then None
     else do {
       (headOffset, st) \<leftarrow> kernelMountCircBufGetHeadOffset env deviceFd st;
       (tailOffset, st) \<leftarrow> kernelMountCircBufGetTailOffset env deviceFd st;
       if headOffset = KernelFsFileOffsetMax \<or> tailOffset = KernelFsFileOffsetMax then Some (False, st)
       else do {
         newTailOffset \<leftarrow> kernelMountCircBufIncOffset env deviceFd tailOffset st;
         Some (newTailOffset \<noteq> headOffset, st)
       }
     }
   }"

section \<open>Mounting and unmounting\<close>

text \<open>The part of \<open>kernelMount\<close> that depends on the format; a format that is none of the
  enumerators runs into no case and counts as success.\<close>

definition mountBlockDevice ::
    "'w KEnv \<Rightarrow> cstr \<Rightarrow> KernelFsFd \<Rightarrow> KernelFsBlockDeviceFormat \<Rightarrow> u32 \<Rightarrow> 'w KFs \<Rightarrow>
     (bool \<times> 'w KFs) option" where
  "mountBlockDevice env dirPath deviceFd format sz st =
     kernelFsAddBlockDeviceFile env (kstrAllocCopy dirPath) kernelMountFsFunctorId (unat deviceFd)
       format sz True st"

definition mountCircBuf ::
    "'w KEnv \<Rightarrow> cstr \<Rightarrow> cstr \<Rightarrow> KernelFsFd \<Rightarrow> 'w KFs \<Rightarrow> (bool \<times> 'w KFs) option" where
  "mountCircBuf env devicePath dirPath deviceFd st = do {
     len \<leftarrow> kernelFsFileGetLen env st devicePath;
     if len < 4 then Some (False, st)
     else do {
       (added, st) \<leftarrow> kernelFsAddCharacterDeviceFile env (kstrAllocCopy dirPath)
         kernelMountFsFunctorId (unat deviceFd) True True st;
       if \<not> added then Some (False, st)
       else do {
         (ok, st) \<leftarrow> kernelMountCircBufSetHeadOffset env deviceFd 0 st;
         if \<not> ok then Some (False, st) else kernelMountCircBufSetTailOffset env deviceFd 0 st
       }
     }
   }"

definition mountFormat ::
    "'w KEnv \<Rightarrow> KernelMountFormat \<Rightarrow> cstr \<Rightarrow> cstr \<Rightarrow> KernelFsFd \<Rightarrow> 'w KFs \<Rightarrow>
     (bool \<times> 'w KFs) option" where
  "mountFormat env format devicePath dirPath deviceFd st =
     (if format = KernelMountFormatMiniFs then do {
        sz \<leftarrow> kernelFsFileGetLen env st devicePath;
        mountBlockDevice env dirPath deviceFd KernelFsBlockDeviceFormatCustomMiniFs sz st
      } else if format = KernelMountFormatFlatFile then do {
        sz \<leftarrow> kernelFsFileGetLen env st devicePath;
        mountBlockDevice env dirPath deviceFd KernelFsBlockDeviceFormatFlatFile sz st
      } else if formatIsPartition format then do {
        (entry, st) \<leftarrow> pTableParseEntryFd env deviceFd (ucast (format - KernelMountFormatPartition1)) st;
        case entry of
          None \<Rightarrow> Some (False, st)
        | Some entry \<Rightarrow>
            mountBlockDevice env dirPath deviceFd KernelFsBlockDeviceFormatFlatFile
              (sectorOffset (ptNumSectors entry)) st
      } else if format = KernelMountFormatCircBuf then mountCircBuf env devicePath dirPath deviceFd st
      else if format = KernelMountFormatFat then do {
        sz \<leftarrow> kernelFsFileGetLen env st devicePath;
        mountBlockDevice env dirPath deviceFd KernelFsBlockDeviceFormatFat sz st
      } else Some (True, st))"

definition kernelMount ::
    "'w KEnv \<Rightarrow> KernelMountFormat \<Rightarrow> cstr \<Rightarrow> cstr \<Rightarrow> 'w KFs \<Rightarrow> (bool \<times> 'w KFs) option" where
  "kernelMount env format devicePath dirPath st =
     (if \<not> kernelFsPathIsValid devicePath \<or> \<not> kernelFsPathIsValid dirPath then Some (False, st)
      else if length (mountsOf st) \<ge> kernelMountedDevicesMax then Some (False, st)
      else do {
        (deviceFd, st) \<leftarrow> kernelFsFileOpen env devicePath KernelFsFdModeRW st;
        if deviceFd = KernelFsFdInvalid then Some (False, st)
        else do {
          let mounts = mountsOf st;
          let st = setMounts (mounts @ [\<lparr>kmdFormat = ucast format, kmdFd = deviceFd\<rparr>]) st;
          (ok, st) \<leftarrow> mountFormat env format devicePath dirPath deviceFd st;
          if ok then Some (True, st)
          else do {
            (_, st) \<leftarrow> kernelFsFileClose deviceFd (setMounts (butlast (mountsOf st)) st);
            Some (False, st)
          }
        }
      })"

text \<open>The last entry moves into the slot of the removed one.\<close>

definition removeMount :: "nat \<Rightarrow> KernelMountDevice list \<Rightarrow> KernelMountDevice list" where
  "removeMount i mounts = butlast (mounts[i := last mounts])"

text \<open>The descriptor is the user data of whatever device is at the path, null when there is
  none, cut to eight bits.\<close>

definition mountFdAt :: "'w KFs \<Rightarrow> cstr \<Rightarrow> KernelFsFd" where
  "mountFdAt st dirPath =
     (case kernelFsDeviceFileGetUserData st dirPath of None \<Rightarrow> 0 | Some u \<Rightarrow> of_nat u)"

definition kernelUnmount :: "cstr \<Rightarrow> 'w KFs \<Rightarrow> 'w KFs option" where
  "kernelUnmount dirPath st =
     (if \<not> kernelFsPathIsValid dirPath then Some st
      else let deviceFd = mountFdAt st dirPath in
        case List.find (\<lambda>i. deviceFd = kmdFd (mountsOf st ! i)) [0..<length (mountsOf st)] of
          None \<Rightarrow> Some st
        | Some i \<Rightarrow> do {
            (_, st) \<leftarrow> kernelFsFileClose deviceFd (kernelFsRemoveDeviceFile dirPath st);
            Some (setMounts (removeMount i (mountsOf st)) st)
          })"

section \<open>Remounting\<close>

text \<open>The volumes behind the two descriptors, over the state of the file system. The wrappers
  assert a descriptor that is not zero, which both are.\<close>

definition fdMiniFs :: "'w KEnv \<Rightarrow> KernelFsFd \<Rightarrow> 'w KFs \<Rightarrow> ('w KFs) MiniFs" where
  "fdMiniFs env fd st =
     miniFsMountFast
       (\<lambda>st addr len. case kernelFsFdMiniFsReadWrapper env fd addr len st of
          None \<Rightarrow> [] | Some (bs, _) \<Rightarrow> bs)
       (Some (\<lambda>st addr data. case kernelFsFdMiniFsWriteWrapper env fd addr data st of
          None \<Rightarrow> (0, st) | Some r \<Rightarrow> r))
       st (envIndet env)"

definition kernelRemountCopyBufferSize :: u16 where "kernelRemountCopyBufferSize = 256"

text \<open>The copy loop of one file. The offset has 16 bits, so past a length above
  65280 it would start again.\<close>

partial_function (option) remountCopyFile ::
    "'w KEnv \<Rightarrow> KernelFsFd \<Rightarrow> KernelFsFd \<Rightarrow> cstr \<Rightarrow> u16 \<Rightarrow> u16 \<Rightarrow> 'w KFs \<Rightarrow> (bool \<times> 'w KFs) option" where
  "remountCopyFile env oldFd newFd path childLen offset st =
     (if offset < childLen then do {
        let chunkSize = (if childLen - offset > kernelRemountCopyBufferSize
          then kernelRemountCopyBufferSize else childLen - offset);
        bs \<leftarrow> miniFsFileRead (fdMiniFs env oldFd st) path offset chunkSize;
        if of_nat (length bs) \<noteq> chunkSize then Some (False, st)
        else do {
          (n, fs) \<leftarrow> miniFsFileWrite (fdMiniFs env newFd st) path offset bs;
          if n \<noteq> chunkSize then Some (False, mfUserData fs)
          else remountCopyFile env oldFd newFd path childLen (offset + kernelRemountCopyBufferSize)
                 (mfUserData fs)
        }
      }
      else Some (True, st))"

fun remountCopyChildren ::
    "'w KEnv \<Rightarrow> KernelFsFd \<Rightarrow> KernelFsFd \<Rightarrow> nat list \<Rightarrow> 'w KFs \<Rightarrow> (bool \<times> 'w KFs) option" where
  "remountCopyChildren env oldFd newFd [] st = Some (True, st)"
| "remountCopyChildren env oldFd newFd (child # children) st = do {
     name \<leftarrow> miniFsGetChildN (fdMiniFs env oldFd st) child;
     case name of
       None \<Rightarrow> remountCopyChildren env oldFd newFd children st
     | Some path \<Rightarrow> do {
         childLen \<leftarrow> miniFsFileGetLen (fdMiniFs env oldFd st) path;
         (created, fs) \<leftarrow> miniFsFileCreate (fdMiniFs env newFd st) path childLen;
         if \<not> created then Some (False, mfUserData fs)
         else do {
           (copied, st) \<leftarrow> remountCopyFile env oldFd newFd path childLen 0 (mfUserData fs);
           if \<not> copied then Some (False, st)
           else remountCopyChildren env oldFd newFd children st
         }
       }
   }"

text \<open>The case of a MiniFs volume: the new file is formatted, and the files of the old volume
  are created and copied one after the other.\<close>

definition remountMiniFs ::
    "'w KEnv \<Rightarrow> KernelFsFd \<Rightarrow> KernelFsFd \<Rightarrow> u32 \<Rightarrow> 'w KFs \<Rightarrow> (bool \<times> 'w KFs) option" where
  "remountMiniFs env oldFd newFd newDeviceLen st =
     (let (formatted, st) = miniFsFormat
            (\<lambda>st addr data. case kernelFsFdMiniFsWriteWrapper env newFd addr data st of
               None \<Rightarrow> (0, st) | Some r \<Rightarrow> r) st (ucast newDeviceLen) in
      if \<not> formatted then Some (False, st)
      else remountCopyChildren env oldFd newFd
             [0..<unat (miniFsGetChildCount (fdMiniFs env oldFd st))] st)"

text \<open>A format that is none of the enumerators passes both switches; the FAT case returns with
  the new descriptor still open.\<close>

definition kernelRemountWithBuffers ::
    "'w KEnv \<Rightarrow> KernelMountFormat \<Rightarrow> cstr \<Rightarrow> cstr \<Rightarrow> 'w KFs \<Rightarrow> (bool \<times> 'w KFs) option" where
  "kernelRemountWithBuffers env newFormat newDevicePath dirPath st =
     (if \<not> kernelFsPathIsValid dirPath then Some (False, st)
      else let oldDeviceFd = mountFdAt st dirPath in
        case List.find (\<lambda>i. oldDeviceFd = kmdFd (mountsOf st ! i)) [0..<length (mountsOf st)] of
          None \<Rightarrow> Some (False, st)
        | Some i \<Rightarrow>
            let oldFormat = kmdFormat (mountsOf st ! i) in
            if kernelMountFormatIsDir newFormat \<noteq> kernelMountFormatIsDir (ucast oldFormat)
            then Some (False, st)
            else do {
              (newDeviceFd, st) \<leftarrow> kernelFsFileOpen env newDevicePath KernelFsFdModeRW st;
              if newDeviceFd = KernelFsFdInvalid then Some (False, st)
              else do {
                newDeviceLen \<leftarrow> kernelFsFileGetLen env st newDevicePath;
                let update = (\<lambda>st. setMounts ((mountsOf st)
                      [i := \<lparr>kmdFormat = ucast newFormat, kmdFd = newDeviceFd\<rparr>]) st);
                if newFormat = KernelMountFormatMiniFs then do {
                  (copied, st) \<leftarrow> remountMiniFs env oldDeviceFd newDeviceFd newDeviceLen st;
                  if \<not> copied then map_option (\<lambda>(_, st). (False, st)) (kernelFsFileClose newDeviceFd st)
                  else do {
                    (updated, st) \<leftarrow> kernelFsUpdateBlockDeviceFile env (kstrAllocCopy dirPath)
                      kernelMountFsFunctorId (unat newDeviceFd) KernelFsBlockDeviceFormatCustomMiniFs
                      newDeviceLen True (update st);
                    if updated
                    then map_option (\<lambda>(_, st). (True, st)) (kernelFsFileClose oldDeviceFd st)
                    else do {
                      (_, st) \<leftarrow> kernelFsFileClose newDeviceFd st;
                      Some (False, setMounts ((mountsOf st)
                        [i := \<lparr>kmdFormat = oldFormat, kmdFd = oldDeviceFd\<rparr>]) st)
                    }
                  }
                }
                else if newFormat = KernelMountFormatFlatFile \<or> formatIsPartition newFormat \<or>
                     newFormat = KernelMountFormatCircBuf
                then map_option (\<lambda>(_, st). (False, st)) (kernelFsFileClose newDeviceFd st)
                else if newFormat = KernelMountFormatFat then Some (False, st)
                else map_option (\<lambda>(_, st). (True, st)) (kernelFsFileClose oldDeviceFd (update st))
              }
            })"

definition kernelRemount ::
    "'w KEnv \<Rightarrow> KernelMountFormat \<Rightarrow> cstr \<Rightarrow> cstr \<Rightarrow> 'w KFs \<Rightarrow> (bool \<times> 'w KFs) option" where
  "kernelRemount env newFormat newDevicePath dirPath st =
     kernelRemountWithBuffers env newFormat newDevicePath dirPath st"

end
