(* ===== verification/Sd.thy ===== *)
theory Sd
  imports KernelMount
begin

text \<open>
  \<open>src/kernel/sd.c\<close>, \<open>spi.c\<close> and the bus lock of \<open>kernel.c\<close>: SD cards on the SPI
  bus. Every byte sent returns one from the hardware. The kernel holds the bus by keeping
  \<open>/dev/spi\<close>, which can be opened once, open. A loop that waits for the card for ever has
  the value \<open>None\<close>, like a failed assertion of the file system below.
\<close>

section \<open>The bus\<close>

definition SpiPinMiso :: u8 where "SpiPinMiso = 11"
definition SpiPinMosi :: u8 where "SpiPinMosi = 10"
definition SpiPinSck :: u8 where "SpiPinSck = 9"
definition SpiPinSlaveSelect :: u8 where "SpiPinSlaveSelect = 8"

text \<open>The pins are grabbed in turn, up to the first that is taken.\<close>

fun grabPins :: "u8 list \<Rightarrow> Pins \<Rightarrow> bool \<times> Pins" where
  "grabPins [] p = (True, p)"
| "grabPins (n # ns) p = (case pinGrab n p of (ok, p) \<Rightarrow> if ok then grabPins ns p else (False, p))"

definition spiInit :: "Pins \<Rightarrow> bool \<times> Pins" where
  "spiInit p =
     (case grabPins [SpiPinMiso, SpiPinMosi, SpiPinSck, SpiPinSlaveSelect] p of (ok, p) \<Rightarrow>
        if \<not> ok then (False, p)
        else (True, snd (pinWrite SpiPinSlaveSelect True (pinSetMode SpiPinSlaveSelect PinModeOutput p))))"

definition spiTransmitByte :: "'w Hardware \<Rightarrow> u8 \<Rightarrow> 'w KFs \<Rightarrow> u8 \<times> 'w KFs" where
  "spiTransmitByte hw v st =
     (case hwSpiTransfer hw v (gHost (globalsOf st)) of (b, w) \<Rightarrow>
        (b, updGlobals (\<lambda>g. g\<lparr>gHost := w\<rparr>) st))"

definition spiReadByte :: "'w Hardware \<Rightarrow> 'w KFs \<Rightarrow> u8 \<times> 'w KFs" where
  "spiReadByte hw st = spiTransmitByte hw 0xFF st"

definition spiWriteByte :: "'w Hardware \<Rightarrow> u8 \<Rightarrow> 'w KFs \<Rightarrow> 'w KFs" where
  "spiWriteByte hw v st = snd (spiTransmitByte hw v st)"

definition spiWriteBlock :: "'w Hardware \<Rightarrow> u8 list \<Rightarrow> 'w KFs \<Rightarrow> 'w KFs" where
  "spiWriteBlock hw data st = fold (spiWriteByte hw) data st"

definition kPinWrite :: "u8 \<Rightarrow> bool \<Rightarrow> 'w KFs \<Rightarrow> 'w KFs" where
  "kPinWrite pinNum v st = updGlobals (\<lambda>g. g\<lparr>gPins := snd (pinWrite pinNum v (gPins g))\<rparr>) st"

definition kDelayUs :: "'w Hardware \<Rightarrow> nat \<Rightarrow> 'w KFs \<Rightarrow> 'w KFs" where
  "kDelayUs hw us st = updGlobals (\<lambda>g. g\<lparr>gHost := hwDelayUs hw us (gHost g)\<rparr>) st"

subsection \<open>The lock\<close>

text \<open>\<open>/dev/spi\<close>\<close>

definition spiPath :: cstr where "spiPath = [47, 100, 101, 118, 47, 115, 112, 105]"

definition kernelSpiGrabLock :: "'w KEnv \<Rightarrow> u8 \<Rightarrow> 'w KFs \<Rightarrow> (bool \<times> 'w KFs) option" where
  "kernelSpiGrabLock env slaveSelectPin st =
     (if gSpiLockFd (globalsOf st) \<noteq> KernelFsFdInvalid then Some (False, st)
      else do {
        (fd, st) \<leftarrow> kernelFsFileOpen env spiPath KernelFsFdModeRW st;
        let st = updGlobals (\<lambda>g. g\<lparr>gSpiLockFd := fd\<rparr>) st;
        if fd = KernelFsFdInvalid then Some (False, st)
        else case pinWrite slaveSelectPin False (gPins (globalsOf st)) of (ok, p) \<Rightarrow>
          if \<not> ok then do {
            (_, st) \<leftarrow> kernelFsFileClose fd st;
            Some (False, updGlobals (\<lambda>g. g\<lparr>gSpiLockFd := KernelFsFdInvalid\<rparr>) st)
          }
          else Some (True, updGlobals (\<lambda>g. g\<lparr>gPins := p, gSpiSlaveSelectPin := slaveSelectPin\<rparr>) st)
      })"

definition kernelSpiGrabLockNoSlaveSelect :: "'w KEnv \<Rightarrow> 'w KFs \<Rightarrow> (bool \<times> 'w KFs) option" where
  "kernelSpiGrabLockNoSlaveSelect env st =
     (if gSpiLockFd (globalsOf st) \<noteq> KernelFsFdInvalid then Some (False, st)
      else do {
        (fd, st) \<leftarrow> kernelFsFileOpen env spiPath KernelFsFdModeRW st;
        let st = updGlobals (\<lambda>g. g\<lparr>gSpiLockFd := fd\<rparr>) st;
        if fd = KernelFsFdInvalid then Some (False, st)
        else Some (True, updGlobals (\<lambda>g. g\<lparr>gSpiSlaveSelectPin := 255\<rparr>) st)
      })"

definition kernelSpiReleaseLock :: "'w KFs \<Rightarrow> 'w KFs option" where
  "kernelSpiReleaseLock st =
     (let g = globalsOf st in
      if gSpiLockFd g = KernelFsFdInvalid then Some st
      else do {
        let st = (if gSpiSlaveSelectPin g \<noteq> 255 then kPinWrite (gSpiSlaveSelectPin g) True st else st);
        (_, st) \<leftarrow> kernelFsFileClose (gSpiLockFd g) st;
        Some (updGlobals (\<lambda>g. g\<lparr>gSpiLockFd := KernelFsFdInvalid\<rparr>) st)
      })"

section \<open>Talking to a card\<close>

definition SdBlockSizeBits :: nat where "SdBlockSizeBits = 9"
definition SdBlockSize :: nat where "SdBlockSize = 2 ^ SdBlockSizeBits"

text \<open>The bytes after the first are sent up to the first that is \<open>0xFF\<close> or more.\<close>

definition sdWriteCommand :: "'w Hardware \<Rightarrow> u8 list \<Rightarrow> 'w KFs \<Rightarrow> 'w KFs" where
  "sdWriteCommand hw bytes st = spiWriteBlock hw bytes st"

partial_function (option) sdWriteDummyBytes :: "'w Hardware \<Rightarrow> 'w KFs \<Rightarrow> 'w KFs option" where
  "sdWriteDummyBytes hw st =
     (case spiReadByte hw st of (b, st) \<Rightarrow> if b \<noteq> 0xFF then sdWriteDummyBytes hw st else Some st)"

definition sdWriteDummyBytesN :: "'w Hardware \<Rightarrow> nat \<Rightarrow> 'w KFs \<Rightarrow> 'w KFs" where
  "sdWriteDummyBytesN hw count st = (spiWriteByte hw 0xFF ^^ count) st"

fun sdWaitForResponse :: "'w Hardware \<Rightarrow> nat \<Rightarrow> 'w KFs \<Rightarrow> u8 \<times> 'w KFs" where
  "sdWaitForResponse hw 0 st = (0xFF, st)"
| "sdWaitForResponse hw (Suc n) st =
     (case spiReadByte hw st of (b, st) \<Rightarrow> if b \<noteq> 0xFF then (b, st) else sdWaitForResponse hw n st)"

fun spiReadBytes :: "'w Hardware \<Rightarrow> nat \<Rightarrow> 'w KFs \<Rightarrow> u8 list \<times> 'w KFs" where
  "spiReadBytes hw 0 st = ([], st)"
| "spiReadBytes hw (Suc n) st =
     (case spiReadByte hw st of (b, st) \<Rightarrow>
      case spiReadBytes hw n st of (bs, st) \<Rightarrow> (b # bs, st))"

fun waitForResponses :: "'w Hardware \<Rightarrow> nat \<Rightarrow> 'w KFs \<Rightarrow> u8 list \<times> 'w KFs" where
  "waitForResponses hw 0 st = ([], st)"
| "waitForResponses hw (Suc n) st =
     (case sdWaitForResponse hw 16 st of (b, st) \<Rightarrow>
      case waitForResponses hw n st of (bs, st) \<Rightarrow> (b # bs, st))"

section \<open>Initialising a card\<close>

datatype SdInitResult = SdInitResultOk | SdInitResultSpiLockFail | SdInitResultCouldNotReset
  | SdInitResultBadCard | SdInitResultUnsupportedCard

text \<open>Each stage returns \<open>SdInitResultOk\<close>, or the result to fail with. CMD0:\<close>

definition sdSoftwareReset :: "'w Hardware \<Rightarrow> 'w KFs \<Rightarrow> (SdInitResult \<times> 'w KFs) option" where
  "sdSoftwareReset hw st =
     (case sdWaitForResponse hw 16 (sdWriteCommand hw [0x40, 0, 0, 0, 0, 0x95] st) of (r, st) \<Rightarrow>
        if r \<noteq> 0x01 then Some (SdInitResultCouldNotReset, st)
        else map_option (\<lambda>st. (SdInitResultOk, st)) (sdWriteDummyBytes hw st))"

text \<open>CMD8:\<close>

definition sdCheckVoltage :: "'w Hardware \<Rightarrow> 'w KFs \<Rightarrow> (SdInitResult \<times> 'w KFs) option" where
  "sdCheckVoltage hw st =
     (case sdWaitForResponse hw 16 (sdWriteCommand hw [0x48, 0, 0, 1, 0xAA, 0x87] st) of (r, st) \<Rightarrow>
        if r \<noteq> 0x01
        then map_option (\<lambda>st. (SdInitResultUnsupportedCard, st)) (sdWriteDummyBytes hw st)
        else case waitForResponses hw 4 st of (responseR7, st) \<Rightarrow> do {
          st \<leftarrow> sdWriteDummyBytes hw st;
          Some (if responseR7 \<noteq> [0x00, 0x00, 0x01, 0xAA] then SdInitResultBadCard else SdInitResultOk, st)
        })"

text \<open>CMD55 and ACMD41, at most 1024 times:\<close>

fun sdInitialiseLoop :: "'w Hardware \<Rightarrow> nat \<Rightarrow> 'w KFs \<Rightarrow> (SdInitResult \<times> 'w KFs) option" where
  "sdInitialiseLoop hw 0 st = Some (SdInitResultBadCard, st)"
| "sdInitialiseLoop hw (Suc n) st =
     (case sdWaitForResponse hw 16 (sdWriteCommand hw [0x77, 0, 0, 0, 0, 0x65] st) of (r, st) \<Rightarrow> do {
        st \<leftarrow> sdWriteDummyBytes hw st;
        if r = 0x05 then Some (SdInitResultUnsupportedCard, st)
        else if r \<noteq> 0x01 then Some (SdInitResultBadCard, st)
        else case sdWaitForResponse hw 16 (sdWriteCommand hw [0x69, 0x40, 0, 0, 0, 0x77] st) of (r, st) \<Rightarrow> do {
          st \<leftarrow> sdWriteDummyBytes hw st;
          if r = 0x01 then sdInitialiseLoop hw n st
          else if r = 0x00 then Some (SdInitResultOk, st)
          else Some (SdInitResultBadCard, st)
        }
      })"

text \<open>CMD58, and CMD16 for a card addressed by bytes:\<close>

definition sdReadOcr :: "'w Hardware \<Rightarrow> SdCard \<Rightarrow> 'w KFs \<Rightarrow> (SdInitResult \<times> SdCard \<times> 'w KFs) option" where
  "sdReadOcr hw sd st =
     (case sdWaitForResponse hw 16 (sdWriteCommand hw [0x7A, 0, 0, 0, 0, 0x01] st) of (r, st) \<Rightarrow>
        if r \<noteq> 0x00
        then map_option (\<lambda>st. (SdInitResultBadCard, sd, st)) (sdWriteDummyBytes hw st)
        else case waitForResponses hw 4 st of (responseR3, st) \<Rightarrow> do {
          st \<leftarrow> sdWriteDummyBytes hw st;
          let sd = sd\<lparr>sdAddressMode :=
            (if responseR3 ! 0 AND 0x40 \<noteq> 0 then SdAddressModeBlock else SdAddressModeByte)\<rparr>;
          if sdAddressMode sd = SdAddressModeByte then
            (case sdWaitForResponse hw 16 (sdWriteCommand hw [0x50, 0, 0, 2, 0, 0x01] st) of (r, st) \<Rightarrow> do {
               st \<leftarrow> sdWriteDummyBytes hw st;
               Some (if r \<noteq> 0x00 then SdInitResultBadCard else SdInitResultOk, sd, st)
             })
          else Some (SdInitResultOk, sd, st)
        })"

text \<open>The data of the CSD register, read byte by byte: after a bad read block length the rest
  is not read.\<close>

definition csdVersion1 :: "'w Hardware \<Rightarrow> SdCard \<Rightarrow> 'w KFs \<Rightarrow> SdInitResult \<times> SdCard \<times> 'w KFs" where
  "csdVersion1 hw sd st =
     (case spiReadBytes hw 5 st of (bs, st) \<Rightarrow>
        let readBlLen = unat (bs ! 4 AND 0x0F) in
        if readBlLen < SdBlockSizeBits - 2 then (SdInitResultBadCard, sd, st)
        else case spiReadBytes hw 10 st of (cs, st) \<Rightarrow>
          let cSize = push_bit 10 (ucast (cs ! 0 AND 3)) OR push_bit 2 (ucast (cs ! 1))
                OR (ucast (drop_bit 6 (cs ! 2)) :: u16);
              cSizeMult = push_bit 1 (cs ! 3 AND 3) OR drop_bit 7 (cs ! 4)
          in (SdInitResultOk,
              sd\<lparr>sdBlockCount := (ucast cSize + 1) *
                push_bit (unat cSizeMult + 2 + readBlLen - SdBlockSizeBits) 1\<rparr>, st))"

definition csdVersion2 :: "'w Hardware \<Rightarrow> SdCard \<Rightarrow> 'w KFs \<Rightarrow> SdInitResult \<times> SdCard \<times> 'w KFs" where
  "csdVersion2 hw sd st =
     (case spiReadBytes hw 5 st of (bs, st) \<Rightarrow>
        let readBlLen = unat (bs ! 4 AND 0x0F) in
        if readBlLen \<noteq> SdBlockSizeBits then (SdInitResultBadCard, sd, st)
        else case spiReadBytes hw 10 st of (cs, st) \<Rightarrow>
          let cSize = push_bit 16 (ucast (cs ! 1 AND 0x3F)) OR push_bit 8 (ucast (cs ! 2))
                OR (ucast (cs ! 3) :: u32);
              cSizeMax = 2 ^ 22 - 1;
              cSize = (if cSize \<ge> cSizeMax then cSizeMax - 1 else cSize)
          in (SdInitResultOk, sd\<lparr>sdBlockCount := (cSize + 1) * 1024\<rparr>, st))"

text \<open>CMD9:\<close>

definition sdReadCsd :: "'w Hardware \<Rightarrow> SdCard \<Rightarrow> 'w KFs \<Rightarrow> (SdInitResult \<times> SdCard \<times> 'w KFs) option" where
  "sdReadCsd hw sd st =
     (case sdWaitForResponse hw 16 (sdWriteCommand hw [0x49, 0, 0, 0, 0, 0x01] st) of (r, st) \<Rightarrow> do {
        st \<leftarrow> sdWriteDummyBytes hw st;
        if r \<noteq> 0x00 then Some (SdInitResultBadCard, sd, st)
        else case sdWaitForResponse hw 1024 st of (token, st) \<Rightarrow>
          if token \<noteq> 0xFE then Some (SdInitResultBadCard, sd, st)
          else case spiReadByte hw st of (b, st) \<Rightarrow>
            let version = unat (drop_bit 6 b);
                (result, sd, st) =
                  (if version = 0 then csdVersion1 hw sd st
                   else if version = 1 then csdVersion2 hw sd st
                   else (SdInitResultBadCard, sd, st))
            in if result \<noteq> SdInitResultOk then Some (result, sd, st)
               else case spiReadBytes hw 2 st of (_, st) \<Rightarrow>
                 map_option (\<lambda>st. (SdInitResultOk, sd, st)) (sdWriteDummyBytes hw st)
      })"

text \<open>The stages after power on, in order. The type of the card is set once it has initialised,
  and keeps that value when a later stage fails.\<close>

definition sdInitStages :: "'w Hardware \<Rightarrow> SdCard \<Rightarrow> 'w KFs \<Rightarrow> (SdInitResult \<times> SdCard \<times> 'w KFs) option" where
  "sdInitStages hw sd st = do {
     (result, st) \<leftarrow> sdSoftwareReset hw st;
     if result \<noteq> SdInitResultOk then Some (result, sd, st)
     else do {
       (result, st) \<leftarrow> sdCheckVoltage hw st;
       if result \<noteq> SdInitResultOk then Some (result, sd, st)
       else do {
         (result, st) \<leftarrow> sdInitialiseLoop hw 1024 st;
         if result \<noteq> SdInitResultOk then Some (result, sd, st)
         else do {
           let sd = sd\<lparr>sdType := SdTypeSdVer2Plus\<rparr>;
           (result, sd, st) \<leftarrow> sdReadOcr hw sd st;
           if result \<noteq> SdInitResultOk then Some (result, sd, st)
           else sdReadCsd hw sd st
         }
       }
     }
   }"

definition sdInit ::
    "'w KEnv \<Rightarrow> 'w Hardware \<Rightarrow> u8 \<Rightarrow> u8 \<Rightarrow> 'w KFs \<Rightarrow> (SdInitResult \<times> SdCard \<times> 'w KFs) option" where
  "sdInit env hw powerPin slaveSelectPin st =
     (let sd = \<lparr>sdBlockCount = 0, sdType = SdTypeBadCard, sdAddressMode = SdAddressModeByte,
            sdPowerPin = powerPin, sdSlaveSelectPin = slaveSelectPin\<rparr> in do {
        (locked, st) \<leftarrow> kernelSpiGrabLockNoSlaveSelect env st;
        if \<not> locked then Some (SdInitResultSpiLockFail, sd, st)
        else do {
          let st = spiWriteByte hw 0xFF st;
          let st = kPinWrite powerPin True st;
          let st = kDelayUs hw 10000 st;
          let st = sdWriteDummyBytesN hw 200 st;
          let st = kPinWrite slaveSelectPin False st;
          (result, sd, st) \<leftarrow> sdInitStages hw sd st;
          let st = kPinWrite slaveSelectPin True st;
          let st = (if result \<noteq> SdInitResultOk then kPinWrite powerPin False st else st);
          st \<leftarrow> kernelSpiReleaseLock st;
          Some (result, sd, st)
        }
      })"

definition sdQuit :: "SdCard \<Rightarrow> 'w KFs \<Rightarrow> SdCard \<times> 'w KFs" where
  "sdQuit sd st =
     (if sdType sd = SdTypeBadCard then (sd, st)
      else (sd\<lparr>sdType := SdTypeBadCard\<rparr>, kPinWrite (sdPowerPin sd) False st))"

section \<open>Blocks\<close>

definition sdBlockAddr :: "SdCard \<Rightarrow> u32 \<Rightarrow> u32" where
  "sdBlockAddr sd block =
     (if sdAddressMode sd = SdAddressModeBlock then block else block * of_nat SdBlockSize)"

definition sdBlockCommand :: "'w Hardware \<Rightarrow> u8 \<Rightarrow> u32 \<Rightarrow> 'w KFs \<Rightarrow> 'w KFs" where
  "sdBlockCommand hw command addr st = spiWriteBlock hw (command # be32_bytes addr @ [0x01]) st"

text \<open>The selected card is deselected and the bus released on every way out.\<close>

definition sdFinish :: "SdCard \<Rightarrow> 'a \<Rightarrow> 'w KFs \<Rightarrow> ('a \<times> 'w KFs) option" where
  "sdFinish sd result st =
     map_option (Pair result) (kernelSpiReleaseLock (kPinWrite (sdSlaveSelectPin sd) True st))"

text \<open>The 512 bytes of the block, or \<open>None\<close> inside the result when it could not be read, in
  which case the buffer is as it was.\<close>

definition sdReadBlock ::
    "'w KEnv \<Rightarrow> 'w Hardware \<Rightarrow> SdCard \<Rightarrow> u32 \<Rightarrow> 'w KFs \<Rightarrow> (u8 list option \<times> 'w KFs) option" where
  "sdReadBlock env hw sd block st =
     (if block \<ge> sdBlockCount sd then Some (None, st)
      else do {
        (locked, st) \<leftarrow> kernelSpiGrabLockNoSlaveSelect env st;
        if \<not> locked then Some (None, st)
        else do {
          st \<leftarrow> sdWriteDummyBytes hw st;
          let st = kPinWrite (sdSlaveSelectPin sd) False st;
          let st = sdBlockCommand hw 0x51 (sdBlockAddr sd block) st;
          case sdWaitForResponse hw 16 st of (response, st) \<Rightarrow>
            if response \<noteq> 0x00 then sdFinish sd None st
            else case sdWaitForResponse hw 1024 st of (token, st) \<Rightarrow>
              if token \<noteq> 0xFE then sdFinish sd None st
              else case spiReadBytes hw SdBlockSize st of (data, st) \<Rightarrow>
                case spiReadBytes hw 2 st of (_, st) \<Rightarrow> do {
                  st \<leftarrow> sdWriteDummyBytes hw st;
                  sdFinish sd (Some data) st
                }
        }
      })"

definition sdWriteBlock ::
    "'w KEnv \<Rightarrow> 'w Hardware \<Rightarrow> SdCard \<Rightarrow> u32 \<Rightarrow> u8 list \<Rightarrow> 'w KFs \<Rightarrow> (bool \<times> 'w KFs) option" where
  "sdWriteBlock env hw sd block data st =
     (if block \<ge> sdBlockCount sd then Some (False, st)
      else do {
        (locked, st) \<leftarrow> kernelSpiGrabLockNoSlaveSelect env st;
        if \<not> locked then Some (False, st)
        else do {
          st \<leftarrow> sdWriteDummyBytes hw st;
          let st = kPinWrite (sdSlaveSelectPin sd) False st;
          let st = sdBlockCommand hw 0x58 (sdBlockAddr sd block) st;
          case sdWaitForResponse hw 16 st of (response, st) \<Rightarrow>
            if response \<noteq> 0x00 then sdFinish sd False st
            else do {
              st \<leftarrow> sdWriteDummyBytes hw st;
              let st = spiWriteByte hw 0xFE st;
              let st = spiWriteBlock hw (take SdBlockSize data) st;
              let st = spiWriteBlock hw [0x01, 0x01] st;
              st \<leftarrow> sdWriteDummyBytes hw st;
              sdFinish sd True st
            }
        }
      })"

end
