(* ===== verification/HwDevice.thy ===== *)
theory HwDevice
  imports Sd
begin

text \<open>
  \<open>src/kernel/hwdevice.c\<close>: the table of hardware devices a program may register, keypads, SD
  card readers and DHT22 sensors, with the pins they take, the files they are mounted as and the
  functors behind those files. An SD card reader keeps one block of the card in a cache that is
  written back when another block is needed, on a flush and on unmounting. A type is the number
  the system call hands over: it is stored in eight bits while the setup looks at all of it.
\<close>

section \<open>Devices and their pins\<close>

definition HwDevicePinsMax :: nat where "HwDevicePinsMax = 8"
definition HwDeviceIdMax :: nat where "HwDeviceIdMax = 4"

type_synonym HwDeviceType = u16

definition HwDeviceTypeUnused :: HwDeviceType where "HwDeviceTypeUnused = 0"
definition HwDeviceTypeKeypad :: HwDeviceType where "HwDeviceTypeKeypad = 1"
definition HwDeviceTypeSdCardReader :: HwDeviceType where "HwDeviceTypeSdCardReader = 2"
definition HwDeviceTypeDht22 :: HwDeviceType where "HwDeviceTypeDht22 = 3"

lemmas hwtype_consts = HwDeviceTypeUnused_def HwDeviceTypeKeypad_def HwDeviceTypeSdCardReader_def
  HwDeviceTypeDht22_def

definition hwDeviceTypeGetPinCount :: "HwDeviceType \<Rightarrow> u16" where
  "hwDeviceTypeGetPinCount type =
     (if type = HwDeviceTypeKeypad then 8
      else if type = HwDeviceTypeSdCardReader then 2
      else if type = HwDeviceTypeDht22 then 2
      else 0)"

definition hwDeviceOf :: "'w KFs \<Rightarrow> HwDeviceId \<Rightarrow> HwDevice" where
  "hwDeviceOf st devId = gHwDevices (globalsOf st) ! unat devId"

definition updHwDevice :: "HwDeviceId \<Rightarrow> (HwDevice \<Rightarrow> HwDevice) \<Rightarrow> 'w KFs \<Rightarrow> 'w KFs" where
  "updHwDevice devId f st =
     updGlobals (\<lambda>g. g\<lparr>gHwDevices := (gHwDevices g)[unat devId := f (gHwDevices g ! unat devId)]\<rparr>) st"

definition updKeypad :: "HwDeviceId \<Rightarrow> (HwDeviceKeypadData \<Rightarrow> HwDeviceKeypadData) \<Rightarrow> 'w KFs \<Rightarrow> 'w KFs" where
  "updKeypad devId f = updHwDevice devId (\<lambda>d. d\<lparr>hdKeypad := f (hdKeypad d)\<rparr>)"

definition updReader ::
    "HwDeviceId \<Rightarrow> (HwDeviceSdCardReaderData \<Rightarrow> HwDeviceSdCardReaderData) \<Rightarrow> 'w KFs \<Rightarrow> 'w KFs" where
  "updReader devId f = updHwDevice devId (\<lambda>d. d\<lparr>hdSdCardReader := f (hdSdCardReader d)\<rparr>)"

definition kPinGrab :: "u8 \<Rightarrow> 'w KFs \<Rightarrow> bool \<times> 'w KFs" where
  "kPinGrab pinNum st =
     (case pinGrab pinNum (gPins (globalsOf st)) of (ok, p) \<Rightarrow> (ok, updGlobals (\<lambda>g. g\<lparr>gPins := p\<rparr>) st))"

definition kPinRelease :: "u8 \<Rightarrow> 'w KFs \<Rightarrow> 'w KFs" where
  "kPinRelease pinNum st = updGlobals (\<lambda>g. g\<lparr>gPins := pinRelease pinNum (gPins g)\<rparr>) st"

definition kPinSetMode :: "u8 \<Rightarrow> u16 \<Rightarrow> 'w KFs \<Rightarrow> 'w KFs" where
  "kPinSetMode pinNum mode st = updGlobals (\<lambda>g. g\<lparr>gPins := pinSetMode pinNum mode (gPins g)\<rparr>) st"

definition kPinRead :: "'w Hardware \<Rightarrow> u8 \<Rightarrow> 'w KFs \<Rightarrow> bool" where
  "kPinRead hw pinNum st =
     (pinIsValid pinNum \<and> hwPinRead hw pinNum (gPins (globalsOf st)) (gHost (globalsOf st)))"

text \<open>Output, low: what a pin that nobody uses is set to.\<close>

definition pinToDefault :: "u8 \<Rightarrow> 'w KFs \<Rightarrow> 'w KFs" where
  "pinToDefault pinNum st = kPinSetMode pinNum PinModeOutput (kPinWrite pinNum False st)"

definition hwDeviceInit :: "'w KFs \<Rightarrow> 'w KFs" where
  "hwDeviceInit st =
     (let st = fold (\<lambda>pinNum st.
            if \<not> pinIsValid pinNum \<or> pinInUse pinNum (gPins (globalsOf st)) then st
            else pinToDefault pinNum st) (map of_nat [0..<PinNB]) st
      in updGlobals (\<lambda>g. g\<lparr>gHwDevices := map (\<lambda>d. d\<lparr>hdType := ucast HwDeviceTypeUnused\<rparr>) (gHwDevices g)\<rparr>) st)"

definition hwDeviceGetType :: "HwDeviceId \<Rightarrow> 'w KFs \<Rightarrow> HwDeviceType" where
  "hwDeviceGetType devId st =
     (if unat devId \<ge> HwDeviceIdMax then HwDeviceTypeUnused else ucast (hdType (hwDeviceOf st devId)))"

definition hwDeviceGetPinN :: "HwDeviceId \<Rightarrow> nat \<Rightarrow> 'w KFs \<Rightarrow> u8" where
  "hwDeviceGetPinN devId n st =
     (if unat devId \<ge> HwDeviceIdMax then PinInvalid
      else if n \<ge> unat (hwDeviceTypeGetPinCount (ucast (hdType (hwDeviceOf st devId)))) then PinInvalid
      else hdPins (hwDeviceOf st devId) ! n)"

definition hwDeviceKeypadGetRowPin :: "HwDeviceId \<Rightarrow> nat \<Rightarrow> 'w KFs \<Rightarrow> u8" where
  "hwDeviceKeypadGetRowPin devId n st =
     (if unat devId \<ge> HwDeviceIdMax \<or> hwDeviceGetType devId st \<noteq> HwDeviceTypeKeypad then PinInvalid
      else hwDeviceGetPinN devId (4 + n) st)"

definition hwDeviceKeypadGetColumnPin :: "HwDeviceId \<Rightarrow> nat \<Rightarrow> 'w KFs \<Rightarrow> u8" where
  "hwDeviceKeypadGetColumnPin devId n st =
     (if unat devId \<ge> HwDeviceIdMax \<or> hwDeviceGetType devId st \<noteq> HwDeviceTypeKeypad then PinInvalid
      else hwDeviceGetPinN devId n st)"

definition hwDeviceSdCardReaderGetPowerPin :: "HwDeviceId \<Rightarrow> 'w KFs \<Rightarrow> u8" where
  "hwDeviceSdCardReaderGetPowerPin devId st = hwDeviceGetPinN devId 0 st"

definition hwDeviceSdCardReaderGetSlaveSelectPin :: "HwDeviceId \<Rightarrow> 'w KFs \<Rightarrow> u8" where
  "hwDeviceSdCardReaderGetSlaveSelectPin devId st = hwDeviceGetPinN devId 1 st"

definition hwDeviceDht22GetPowerPin :: "HwDeviceId \<Rightarrow> 'w KFs \<Rightarrow> u8" where
  "hwDeviceDht22GetPowerPin devId st = hwDeviceGetPinN devId 0 st"

definition hwDeviceDht22GetDataPin :: "HwDeviceId \<Rightarrow> 'w KFs \<Rightarrow> u8" where
  "hwDeviceDht22GetDataPin devId st = hwDeviceGetPinN devId 1 st"

section \<open>Registering\<close>

text \<open>The loop that grabs the pins; the index is that of the first pin of the list.\<close>

fun registerPins :: "HwDeviceId \<Rightarrow> nat \<Rightarrow> u8 list \<Rightarrow> 'w KFs \<Rightarrow> bool \<times> 'w KFs" where
  "registerPins devId i [] st = (True, st)"
| "registerPins devId i (pin # pins) st =
     (case kPinGrab pin st of (ok, st) \<Rightarrow>
        if \<not> ok then (False, st)
        else let st = updHwDevice devId (\<lambda>d. d\<lparr>hdPins := (hdPins d)[i := pin]\<rparr>) st
          in registerPins devId (Suc i) pins (pinToDefault pin st))"

definition releasePins :: "u8 list \<Rightarrow> 'w KFs \<Rightarrow> 'w KFs" where
  "releasePins pins st =
     fold (\<lambda>pin st. if pin = PinInvalid then st else kPinRelease pin (pinToDefault pin st)) pins st"

definition HwDeviceKeypadCircBufSize :: u8 where "HwDeviceKeypadCircBufSize = 8"

definition setupKeypad :: "HwDeviceId \<Rightarrow> 'w KFs \<Rightarrow> 'w KFs" where
  "setupKeypad devId st =
     (let st = updKeypad devId (\<lambda>k. k\<lparr>kpMountPoint := kstrNull, kpStates := 0, kpCircBuf :=
            circBufInit (replicate (unat HwDeviceKeypadCircBufSize) 0) HwDeviceKeypadCircBufSize\<rparr>) st;
          st = fold (\<lambda>i st. let rowPin = hwDeviceKeypadGetRowPin devId i st in
            kPinWrite rowPin True (kPinSetMode rowPin PinModeInput st)) [0..<4] st
      in fold (\<lambda>i st. kPinWrite (hwDeviceKeypadGetColumnPin devId i st) True st) [0..<4] st)"

definition setupReader :: "HwDeviceId \<Rightarrow> 'w KFs \<Rightarrow> 'w KFs" where
  "setupReader devId st =
     updReader devId (\<lambda>r. r\<lparr>srCache := replicate SdBlockSize 0,
       srSdCard := (srSdCard r)\<lparr>sdType := SdTypeBadCard\<rparr>\<rparr>) st"

definition setupDht22 :: "HwDeviceId \<Rightarrow> 'w KFs \<Rightarrow> 'w KFs" where
  "setupDht22 devId st =
     (let st = kPinWrite (hwDeviceDht22GetDataPin devId st) False st;
          st = kPinSetMode (hwDeviceDht22GetDataPin devId st) PinModeInput st;
          st = kPinWrite (hwDeviceDht22GetPowerPin devId st) True st
      in updHwDevice devId (\<lambda>d. d\<lparr>hdDht22 :=
           \<lparr>dhtLastReadTime = 0, dhtTemperature = 0, dhtHumitity = 0\<rparr>\<rparr>) st)"

text \<open>A caller that gives fewer pins than the stored type has, which the system call does for a
  type above 255, has the rest read from memory it never wrote: no result.\<close>

definition hwDeviceRegister ::
    "HwDeviceId \<Rightarrow> HwDeviceType \<Rightarrow> u8 list \<Rightarrow> 'w KFs \<Rightarrow> (bool \<times> 'w KFs) option" where
  "hwDeviceRegister devId type pins st =
     (if unat devId \<ge> HwDeviceIdMax \<or> type = HwDeviceTypeUnused then Some (False, st)
      else if hdType (hwDeviceOf st devId) \<noteq> ucast HwDeviceTypeUnused then Some (False, st)
      else
        let st = updHwDevice devId (\<lambda>d. d\<lparr>hdType := ucast type\<rparr>) st;
            pinCount = unat (hwDeviceTypeGetPinCount (ucast (hdType (hwDeviceOf st devId))));
            st = updHwDevice devId (\<lambda>d. d\<lparr>hdPins := replicate pinCount PinInvalid @ drop pinCount (hdPins d)\<rparr>) st;
            (ok, st) = registerPins devId 0 (take pinCount pins) st
        in if length pins < pinCount then None
           else if \<not> ok
           then Some (False, releasePins (take pinCount (hdPins (hwDeviceOf st devId)))
                  (updHwDevice devId (\<lambda>d. d\<lparr>hdType := ucast HwDeviceTypeUnused\<rparr>) st))
           else Some (True,
             if type = HwDeviceTypeKeypad then setupKeypad devId st
             else if type = HwDeviceTypeSdCardReader then setupReader devId st
             else if type = HwDeviceTypeDht22 then setupDht22 devId st
             else st))"

section \<open>Keypads\<close>

definition hwDeviceKeypadFsFunctorId :: nat where "hwDeviceKeypadFsFunctorId = 2"

definition hwDeviceKeypadMapping :: "u8 list" where
  "hwDeviceKeypadMapping =
     [49, 50, 51, 70, 52, 53, 54, 69, 55, 56, 57, 68, 65, 48, 66, 67]"

definition hwDeviceKeypadMount :: "'w KEnv \<Rightarrow> HwDeviceId \<Rightarrow> cstr \<Rightarrow> 'w KFs \<Rightarrow> (bool \<times> 'w KFs) option" where
  "hwDeviceKeypadMount env devId mountPoint st =
     (if unat devId \<ge> HwDeviceIdMax then Some (False, st)
      else if hwDeviceGetType devId st \<noteq> HwDeviceTypeKeypad then Some (False, st)
      else if \<not> kstrIsNull (kpMountPoint (hdKeypad (hwDeviceOf st devId))) then Some (False, st)
      else do {
        (added, st) \<leftarrow> kernelFsAddCharacterDeviceFile env (kstrAllocCopy mountPoint)
          hwDeviceKeypadFsFunctorId (unat devId) False False st;
        if \<not> added then Some (False, st)
        else Some (True, updKeypad devId (\<lambda>k. k\<lparr>kpMountPoint := kstrAllocCopy mountPoint\<rparr>) st)
      })"

definition hwDeviceKeypadUnmount :: "'w KEnv \<Rightarrow> HwDeviceId \<Rightarrow> 'w KFs \<Rightarrow> 'w KFs option" where
  "hwDeviceKeypadUnmount env devId st =
     (if unat devId \<ge> HwDeviceIdMax then Some st
      else if hwDeviceGetType devId st \<noteq> HwDeviceTypeKeypad then Some st
      else
        let mountPoint = kpMountPoint (hdKeypad (hwDeviceOf st devId)) in
        if kstrIsNull mountPoint then Some st
        else do {
          (_, st) \<leftarrow> kernelFsFileDelete env (kstrStrcpy [] mountPoint) st;
          Some (updKeypad devId (\<lambda>k. k\<lparr>kpMountPoint := kstrFree (kpMountPoint k)\<rparr>) st)
        })"

definition keypadMounted :: "HwDeviceId \<Rightarrow> 'w KFs \<Rightarrow> bool" where
  "keypadMounted devId st \<longleftrightarrow> unat devId < HwDeviceIdMax \<and> hwDeviceGetType devId st = HwDeviceTypeKeypad \<and>
     \<not> kstrIsNull (kpMountPoint (hdKeypad (hwDeviceOf st devId)))"

text \<open>The cases of \<open>hwDeviceKeypadFsFunctor\<close>; nothing is written and a flush succeeds.\<close>

definition hwDeviceKeypadFsRead :: "HwDeviceId \<Rightarrow> 'w KFs \<Rightarrow> int \<times> 'w KFs" where
  "hwDeviceKeypadFsRead devId st =
     (if \<not> keypadMounted devId st then (-1, st)
      else case circBufPop (kpCircBuf (hdKeypad (hwDeviceOf st devId))) of
        (Some keyChar, cb) \<Rightarrow> (uint keyChar, updKeypad devId (\<lambda>k. k\<lparr>kpCircBuf := cb\<rparr>) st)
      | (None, cb) \<Rightarrow> (-1, st))"

definition hwDeviceKeypadFsCanRead :: "HwDeviceId \<Rightarrow> 'w KFs \<Rightarrow> bool" where
  "hwDeviceKeypadFsCanRead devId st \<longleftrightarrow> keypadMounted devId st \<and>
     \<not> circBufIsEmpty (kpCircBuf (hdKeypad (hwDeviceOf st devId)))"

definition hwDeviceKeypadIsPressed :: "HwDeviceId \<Rightarrow> nat \<Rightarrow> nat \<Rightarrow> 'w KFs \<Rightarrow> bool" where
  "hwDeviceKeypadIsPressed devId col row st \<longleftrightarrow>
     drop_bit (row * 4 + col) (kpStates (hdKeypad (hwDeviceOf st devId))) AND 1 \<noteq> 0"

definition hwDeviceKeypadSetPressed :: "HwDeviceId \<Rightarrow> nat \<Rightarrow> nat \<Rightarrow> bool \<Rightarrow> 'w KFs \<Rightarrow> 'w KFs" where
  "hwDeviceKeypadSetPressed devId col row pressed st =
     (let mask = push_bit (row * 4 + col) 1 in
      updKeypad devId (\<lambda>k. k\<lparr>kpStates :=
        (if pressed then kpStates k OR mask else kpStates k AND NOT mask)\<rparr>) st)"

text \<open>One key: a change of its level is recorded, and a press is queued if there is room.\<close>

definition keypadReadKey :: "'w Hardware \<Rightarrow> HwDeviceId \<Rightarrow> nat \<Rightarrow> nat \<Rightarrow> 'w KFs \<Rightarrow> 'w KFs" where
  "keypadReadKey hw devId col row st =
     (let pressed = (\<not> kPinRead hw (hwDeviceKeypadGetRowPin devId row st) st) in
      if pressed = hwDeviceKeypadIsPressed devId col row st then st
      else
        let st = hwDeviceKeypadSetPressed devId col row pressed st in
        if pressed
        then updKeypad devId (\<lambda>k. k\<lparr>kpCircBuf :=
               snd (circBufPush (kpCircBuf k) (hwDeviceKeypadMapping ! (row * 4 + col)))\<rparr>) st
        else st)"

definition hwDeviceKeypadRead :: "'w Hardware \<Rightarrow> HwDeviceId \<Rightarrow> 'w KFs \<Rightarrow> 'w KFs" where
  "hwDeviceKeypadRead hw devId st =
     (if unat devId \<ge> HwDeviceIdMax \<or> hwDeviceGetType devId st \<noteq> HwDeviceTypeKeypad then st
      else fold (\<lambda>col st.
        let colPin = hwDeviceKeypadGetColumnPin devId col st;
            st = kDelayUs hw 3000 (kPinWrite colPin False st);
            st = fold (\<lambda>row st. keypadReadKey hw devId col row st) [0..<4] st
        in kDelayUs hw 3000 (kPinWrite colPin True st)) [0..<4] st)"

section \<open>SD card readers\<close>

definition hwDeviceSdCardReaderFsFunctorId :: nat where "hwDeviceSdCardReaderFsFunctorId = 3"

abbreviation readerOf :: "'w KFs \<Rightarrow> HwDeviceId \<Rightarrow> HwDeviceSdCardReaderData" where
  "readerOf st devId \<equiv> hdSdCardReader (hwDeviceOf st devId)"

text \<open>The size of the device: the blocks that 32-bit addresses reach.\<close>

definition sdReaderSize :: "SdCard \<Rightarrow> u32" where
  "sdReaderSize sd =
     (let maxBlockCount = (2 ^ (32 - SdBlockSizeBits) :: u32) in
      (if sdBlockCount sd \<ge> maxBlockCount then maxBlockCount - 1 else sdBlockCount sd) * of_nat SdBlockSize)"

definition hwDeviceSdCardReaderMount ::
    "'w KEnv \<Rightarrow> 'w Hardware \<Rightarrow> HwDeviceId \<Rightarrow> cstr \<Rightarrow> 'w KFs \<Rightarrow> (bool \<times> 'w KFs) option" where
  "hwDeviceSdCardReaderMount env hw devId mountPoint st =
     (if unat devId \<ge> HwDeviceIdMax then Some (False, st)
      else if hwDeviceGetType devId st \<noteq> HwDeviceTypeSdCardReader then Some (False, st)
      else if sdType (srSdCard (readerOf st devId)) \<noteq> SdTypeBadCard then Some (False, st)
      else do {
        (result, sd, st) \<leftarrow> sdInit env hw (hwDeviceSdCardReaderGetPowerPin devId st)
          (hwDeviceSdCardReaderGetSlaveSelectPin devId st) st;
        let st = updReader devId (\<lambda>r. r\<lparr>srSdCard := sd\<rparr>) st;
        if result \<noteq> SdInitResultOk then Some (False, st)
        else do {
          let st = updReader devId (\<lambda>r. r\<lparr>srCacheIsValid := False\<rparr>) st;
          (added, st) \<leftarrow> kernelFsAddBlockDeviceFile env (kstrAllocCopy mountPoint)
            hwDeviceSdCardReaderFsFunctorId (unat devId) KernelFsBlockDeviceFormatFlatFile
            (sdReaderSize sd) True st;
          if \<not> added then
            (case sdQuit (srSdCard (readerOf st devId)) st of (sd, st) \<Rightarrow>
               Some (False, updReader devId (\<lambda>r. r\<lparr>srSdCard := sd\<rparr>) st))
          else Some (True, updReader devId (\<lambda>r. r\<lparr>srMountPoint := kstrAllocCopy mountPoint\<rparr>) st)
        }
      })"

definition hwDeviceSdCardReaderUnmount ::
    "'w KEnv \<Rightarrow> 'w Hardware \<Rightarrow> HwDeviceId \<Rightarrow> 'w KFs \<Rightarrow> 'w KFs option" where
  "hwDeviceSdCardReaderUnmount env hw devId st =
     (if unat devId \<ge> HwDeviceIdMax then Some st
      else if hwDeviceGetType devId st \<noteq> HwDeviceTypeSdCardReader then Some st
      else
        let r = readerOf st devId in
        if sdType (srSdCard r) = SdTypeBadCard then Some st
        else do {
          (_, st) \<leftarrow>
            (if srCacheIsValid r \<and> srCacheIsDirty r
             then sdWriteBlock env hw (srSdCard r) (srCacheBlock r) (srCache r) st
             else Some (True, st));
          (_, st) \<leftarrow> kernelFsFileDelete env (kstrStrcpy [] (srMountPoint r)) st;
          case sdQuit (srSdCard (readerOf st devId)) st of (sd, st) \<Rightarrow>
            Some (updReader devId (\<lambda>r. r\<lparr>srSdCard := sd, srMountPoint := kstrFree (srMountPoint r)\<rparr>) st)
        })"

definition readerMounted :: "HwDeviceId \<Rightarrow> 'w KFs \<Rightarrow> bool" where
  "readerMounted devId st \<longleftrightarrow> unat devId < HwDeviceIdMax \<and>
     hwDeviceGetType devId st = HwDeviceTypeSdCardReader \<and>
     sdType (srSdCard (readerOf st devId)) \<noteq> SdTypeBadCard"

definition hwDeviceSdCardReaderFlushFunctor ::
    "'w KEnv \<Rightarrow> 'w Hardware \<Rightarrow> HwDeviceId \<Rightarrow> 'w KFs \<Rightarrow> (bool \<times> 'w KFs) option" where
  "hwDeviceSdCardReaderFlushFunctor env hw devId st =
     (let r = readerOf st devId in
      if \<not> readerMounted devId st then Some (False, st)
      else if \<not> srCacheIsValid r \<or> \<not> srCacheIsDirty r then Some (True, st)
      else do {
        (ok, st) \<leftarrow> sdWriteBlock env hw (srSdCard r) (srCacheBlock r) (srCache r) st;
        if \<not> ok then Some (False, st)
        else Some (True, updReader devId (\<lambda>r. r\<lparr>srCacheIsDirty := False\<rparr>) st)
      })"

text \<open>What the read and the write loop share: another block than the cached one is needed, so a
  dirty block is written back, and the block wanted is read.\<close>

definition readerWriteBack ::
    "'w KEnv \<Rightarrow> 'w Hardware \<Rightarrow> HwDeviceId \<Rightarrow> u32 \<Rightarrow> 'w KFs \<Rightarrow> (bool \<times> 'w KFs) option" where
  "readerWriteBack env hw devId block st =
     (let r = readerOf st devId in
      if srCacheIsValid r \<and> block \<noteq> srCacheBlock r \<and> srCacheIsDirty r then do {
        (ok, st) \<leftarrow> sdWriteBlock env hw (srSdCard r) (srCacheBlock r) (srCache r) st;
        if \<not> ok then Some (False, st)
        else Some (True, updReader devId (\<lambda>r. r\<lparr>srCacheIsDirty := False\<rparr>) st)
      }
      else Some (True, st))"

definition readerLoad ::
    "'w KEnv \<Rightarrow> 'w Hardware \<Rightarrow> HwDeviceId \<Rightarrow> u32 \<Rightarrow> 'w KFs \<Rightarrow> (bool \<times> 'w KFs) option" where
  "readerLoad env hw devId block st =
     (let r = readerOf st devId in
      if \<not> srCacheIsValid r \<or> block \<noteq> srCacheBlock r then do {
        (data, st) \<leftarrow> sdReadBlock env hw (srSdCard r) block st;
        case data of
          None \<Rightarrow> Some (False, updReader devId (\<lambda>r. r\<lparr>srCacheIsValid := False\<rparr>) st)
        | Some bs \<Rightarrow> Some (True, updReader devId (\<lambda>r. r\<lparr>srCache := bs, srCacheIsValid := True,
            srCacheIsDirty := False, srCacheBlock := block\<rparr>) st)
      }
      else Some (True, st))"

definition readerGetBlock ::
    "'w KEnv \<Rightarrow> 'w Hardware \<Rightarrow> HwDeviceId \<Rightarrow> u32 \<Rightarrow> 'w KFs \<Rightarrow> (bool \<times> 'w KFs) option" where
  "readerGetBlock env hw devId block st = do {
     (ok, st) \<leftarrow> readerWriteBack env hw devId block st;
     if \<not> ok then Some (False, st) else readerLoad env hw devId block st
   }"

definition blockOf :: "u32 \<Rightarrow> u32" where
  "blockOf addr = addr div of_nat SdBlockSize"

definition blockOffset :: "u32 \<Rightarrow> nat" where
  "blockOffset addr = unat (addr - blockOf addr * of_nat SdBlockSize)"

fun readerReadLoop ::
    "'w KEnv \<Rightarrow> 'w Hardware \<Rightarrow> HwDeviceId \<Rightarrow> u32 \<Rightarrow> nat \<Rightarrow> u8 list \<Rightarrow> 'w KFs \<Rightarrow>
     (u8 list \<times> 'w KFs) option" where
  "readerReadLoop env hw devId addr 0 data st = Some (data, st)"
| "readerReadLoop env hw devId addr (Suc n) data st = do {
     (ok, st) \<leftarrow> readerGetBlock env hw devId (blockOf addr) st;
     if \<not> ok then Some (data, st)
     else if srCacheBlock (readerOf st devId) \<noteq> blockOf addr then None
     else readerReadLoop env hw devId (addr + 1) n
            (data @ [srCache (readerOf st devId) ! blockOffset addr]) st
   }"

definition hwDeviceSdCardReaderReadFunctor ::
    "'w KEnv \<Rightarrow> 'w Hardware \<Rightarrow> HwDeviceId \<Rightarrow> u32 \<Rightarrow> u32 \<Rightarrow> 'w KFs \<Rightarrow> (u8 list \<times> 'w KFs) option" where
  "hwDeviceSdCardReaderReadFunctor env hw devId addr len st =
     (if \<not> readerMounted devId st then Some ([], st)
      else readerReadLoop env hw devId addr (unat len) [] st)"

text \<open>The loop copies up to the end of a block at a time; the count of bytes written is kept.\<close>

lemma blockOffset_less: "blockOffset addr < SdBlockSize"
proof -
  have "addr - addr div 512 * 512 = addr mod 512" by (simp add: minus_div_mult_eq_mod)
  then have "blockOffset addr = unat addr mod 512"
    by (simp add: blockOffset_def blockOf_def SdBlockSize_def SdBlockSizeBits_def unat_mod_distrib)
  then show ?thesis by (simp add: SdBlockSize_def SdBlockSizeBits_def)
qed

function readerWriteLoop ::
    "'w KEnv \<Rightarrow> 'w Hardware \<Rightarrow> HwDeviceId \<Rightarrow> u32 \<Rightarrow> u8 list \<Rightarrow> u32 \<Rightarrow> 'w KFs \<Rightarrow>
     (u32 \<times> 'w KFs) option" where
  "readerWriteLoop env hw devId addr data writeCount st =
     (if data = [] then Some (writeCount, st)
      else do {
        (ok, st) \<leftarrow> readerGetBlock env hw devId (blockOf addr) st;
        if \<not> ok then Some (writeCount, st)
        else if \<not> srCacheIsValid (readerOf st devId) \<or> srCacheBlock (readerOf st devId) \<noteq> blockOf addr
        then None
        else
          let offset = blockOffset addr;
              loopWriteLen = min (SdBlockSize - offset) (length data);
              st = updReader devId (\<lambda>r. r\<lparr>srCache := splice_at offset (take loopWriteLen data) (srCache r),
                     srCacheIsDirty := True\<rparr>) st
          in readerWriteLoop env hw devId (addr + of_nat loopWriteLen) (drop loopWriteLen data)
               (writeCount + of_nat loopWriteLen) st
      })"
  by pat_completeness auto
termination
  by (relation "measure (\<lambda>(env, hw, devId, addr, data, n, st). length data)")
    (auto simp: blockOffset_less)

declare readerWriteLoop.simps [simp del]

definition hwDeviceSdCardReaderWriteFunctor ::
    "'w KEnv \<Rightarrow> 'w Hardware \<Rightarrow> HwDeviceId \<Rightarrow> u32 \<Rightarrow> u8 list \<Rightarrow> 'w KFs \<Rightarrow> (u32 \<times> 'w KFs) option" where
  "hwDeviceSdCardReaderWriteFunctor env hw devId addr data st =
     (if \<not> readerMounted devId st then Some (0, st)
      else readerWriteLoop env hw devId addr data 0 st)"

section \<open>DHT22 sensors\<close>

definition hwDeviceDht22GetTemperature :: "HwDeviceId \<Rightarrow> 'w KFs \<Rightarrow> u16" where
  "hwDeviceDht22GetTemperature devId st =
     (if unat devId \<ge> HwDeviceIdMax \<or> hwDeviceGetType devId st \<noteq> HwDeviceTypeDht22 then 0
      else dhtTemperature (hdDht22 (hwDeviceOf st devId)))"

definition hwDeviceDht22GetHumidity :: "HwDeviceId \<Rightarrow> 'w KFs \<Rightarrow> u16" where
  "hwDeviceDht22GetHumidity devId st =
     (if unat devId \<ge> HwDeviceIdMax \<or> hwDeviceGetType devId st \<noteq> HwDeviceTypeDht22 then 0
      else dhtHumitity (hdDht22 (hwDeviceOf st devId)))"

definition hwDeviceDht22GetLastReadTime :: "HwDeviceId \<Rightarrow> 'w KFs \<Rightarrow> u32" where
  "hwDeviceDht22GetLastReadTime devId st =
     (if unat devId \<ge> HwDeviceIdMax \<or> hwDeviceGetType devId st \<noteq> HwDeviceTypeDht22 then 0
      else ucast (dhtLastReadTime (hdDht22 (hwDeviceOf st devId))))"

text \<open>Waiting for the end of a level: at most \<open>n\<close> rounds of two microseconds, of which the last
  gives up.\<close>

fun dhtWait :: "'w Hardware \<Rightarrow> u8 \<Rightarrow> bool \<Rightarrow> nat \<Rightarrow> 'w KFs \<Rightarrow> bool \<times> 'w KFs" where
  "dhtWait hw pin level 0 st = (False, st)"
| "dhtWait hw pin level (Suc n) st =
     (if kPinRead hw pin st \<noteq> level then (True, st)
      else let st = kDelayUs hw 2 st in if n = 0 then (False, st) else dhtWait hw pin level n st)"

text \<open>\<open>n\<close> bits, the highest first; \<open>None\<close> is a time-out.\<close>

fun dhtReadBits :: "'w Hardware \<Rightarrow> u8 \<Rightarrow> nat \<Rightarrow> u8 \<Rightarrow> 'w KFs \<Rightarrow> u8 option \<times> 'w KFs" where
  "dhtReadBits hw pin 0 inByte st = (Some inByte, st)"
| "dhtReadBits hw pin (Suc n) inByte st =
     (case dhtWait hw pin True 27 st of (ok, st) \<Rightarrow>
        if \<not> ok then (None, st)
        else case dhtWait hw pin False 30 (kDelayUs hw 5 st) of (ok, st) \<Rightarrow>
          if \<not> ok then (None, st)
          else let st = kDelayUs hw 50 st in
            dhtReadBits hw pin n
              (if kPinRead hw pin st then push_bit 1 inByte OR 1 else push_bit 1 inByte) st)"

fun dhtReadBytes :: "'w Hardware \<Rightarrow> u8 \<Rightarrow> nat \<Rightarrow> 'w KFs \<Rightarrow> u8 list option \<times> 'w KFs" where
  "dhtReadBytes hw pin 0 st = (Some [], st)"
| "dhtReadBytes hw pin (Suc n) st =
     (case dhtReadBits hw pin 8 0 st of
        (None, st) \<Rightarrow> (None, st)
      | (Some b, st) \<Rightarrow>
          (case dhtReadBytes hw pin n st of (bs, st) \<Rightarrow> (map_option (Cons b) bs, st)))"

definition kMonotonicMs :: "'w Hardware \<Rightarrow> 'w KFs \<Rightarrow> KTime \<times> 'w KFs" where
  "kMonotonicMs hw st =
     (case hwRawMs hw (gHost (globalsOf st)) of (raw, w) \<Rightarrow>
        (ktimeGetMonotonicMs raw (gTime (globalsOf st)), updGlobals (\<lambda>g. g\<lparr>gHost := w\<rparr>) st))"

text \<open>The values of a frame whose checksum holds.\<close>

definition dhtStore :: "'w Hardware \<Rightarrow> HwDeviceId \<Rightarrow> u8 list \<Rightarrow> 'w KFs \<Rightarrow> bool \<times> 'w KFs" where
  "dhtStore hw devId buffer st =
     (if buffer ! 4 \<noteq> buffer ! 0 + buffer ! 1 + buffer ! 2 + buffer ! 3 then (False, st)
      else case kMonotonicMs hw st of (now, st) \<Rightarrow>
        (True, updHwDevice devId (\<lambda>d. d\<lparr>hdDht22 :=
           \<lparr>dhtLastReadTime = now, dhtTemperature = be16 (buffer ! 2) (buffer ! 3),
            dhtHumitity = be16 (buffer ! 0) (buffer ! 1)\<rparr>\<rparr>) st))"

definition hwDeviceDht22Read :: "'w Hardware \<Rightarrow> HwDeviceId \<Rightarrow> 'w KFs \<Rightarrow> bool \<times> 'w KFs" where
  "hwDeviceDht22Read hw devId st =
     (if unat devId \<ge> HwDeviceIdMax \<or> hwDeviceGetType devId st \<noteq> HwDeviceTypeDht22 then (False, st)
      else
        let pin = hwDeviceDht22GetDataPin devId st;
            st = kDelayUs hw 600 (kPinSetMode pin PinModeOutput (kPinWrite pin False st));
            st = kDelayUs hw 70 (kPinSetMode pin PinModeInput st)
        in if kPinRead hw pin st then (False, st)
           else let st = kDelayUs hw 80 st in
             if \<not> kPinRead hw pin st then (False, st)
             else case dhtReadBytes hw pin 5 st of
               (None, st) \<Rightarrow> (False, st)
             | (Some buffer, st) \<Rightarrow> dhtStore hw devId buffer st)"

section \<open>All devices\<close>

definition hwDeviceTickOne :: "'w Hardware \<Rightarrow> HwDeviceId \<Rightarrow> 'w KFs \<Rightarrow> 'w KFs" where
  "hwDeviceTickOne hw devId st =
     (if hwDeviceGetType devId st = HwDeviceTypeKeypad then hwDeviceKeypadRead hw devId st
      else if hwDeviceGetType devId st = HwDeviceTypeDht22 then
        (case kMonotonicMs hw st of (now, st) \<Rightarrow>
           if now - dhtLastReadTime (hdDht22 (hwDeviceOf st devId)) < 2000 then st
           else snd (hwDeviceDht22Read hw devId st))
      else st)"

definition hwDeviceTick :: "'w Hardware \<Rightarrow> 'w KFs \<Rightarrow> 'w KFs" where
  "hwDeviceTick hw st = fold (hwDeviceTickOne hw) (map of_nat [0..<HwDeviceIdMax]) st"

definition hwDeviceDeregister ::
    "'w KEnv \<Rightarrow> 'w Hardware \<Rightarrow> HwDeviceId \<Rightarrow> 'w KFs \<Rightarrow> 'w KFs option" where
  "hwDeviceDeregister env hw devId st =
     (if unat devId \<ge> HwDeviceIdMax then Some st
      else if hdType (hwDeviceOf st devId) = ucast HwDeviceTypeUnused then Some st
      else do {
        st \<leftarrow>
          (if hwDeviceGetType devId st = HwDeviceTypeKeypad then hwDeviceKeypadUnmount env devId st
           else if hwDeviceGetType devId st = HwDeviceTypeSdCardReader
           then hwDeviceSdCardReaderUnmount env hw devId st
           else Some st);
        let pinCount = unat (hwDeviceTypeGetPinCount (hwDeviceGetType devId st));
        let st = releasePins (map (\<lambda>n. hwDeviceGetPinN devId n st) [0..<pinCount]) st;
        Some (updHwDevice devId (\<lambda>d. d\<lparr>hdType := ucast HwDeviceTypeUnused\<rparr>) st)
      })"

end
