(* ===== verification/SdCache.thy ===== *)
theory SdCache
  imports HwDevice
begin

text \<open>
  The block cache of an SD card reader is transparent. The contract of the card is a locale over
  \<open>sdReadBlock\<close> and \<open>sdWriteBlock\<close>: a read returns the block or fails, a write stores the
  block or fails and changes nothing, and a reliable card does not fail on a block it has. Over any
  such card the functors of the reader work on the logical contents, which are those of the
  card with the cached block in front, whatever fails on the way.
\<close>

section \<open>The globals\<close>

lemma globalsOf_updGlobals [simp]: "globalsOf (updGlobals f st) = f (globalsOf st)"
  by (simp add: globalsOf_def updGlobals_def)

lemma updGlobals_keeps [simp]:
  "kfsFdt (updGlobals f st) = kfsFdt st" "kfsDevices (updGlobals f st) = kfsDevices st"
  "kwMounts (kfsWorld (updGlobals f st)) = kwMounts (kfsWorld st)"
  by (simp_all add: updGlobals_def)

lemma updGlobals_updGlobals [simp]: "updGlobals f (updGlobals g st) = updGlobals (\<lambda>x. f (g x)) st"
  by (simp add: updGlobals_def globalsOf_def)

lemma hwDeviceOf_cong: "gHwDevices (globalsOf st') = gHwDevices (globalsOf st) \<Longrightarrow> hwDeviceOf st' d = hwDeviceOf st d"
  by (simp add: hwDeviceOf_def)

lemma hwDeviceOf_upd [simp]:
  "unat d < length (gHwDevices (globalsOf st)) \<Longrightarrow> hwDeviceOf (updHwDevice d f st) d = f (hwDeviceOf st d)"
  by (simp add: hwDeviceOf_def updHwDevice_def)

lemma length_devices_upd [simp]:
  "length (gHwDevices (globalsOf (updHwDevice d f st))) = length (gHwDevices (globalsOf st))"
  by (simp add: updHwDevice_def)

section \<open>Blocks and offsets\<close>

lemma unat_blockOf: "unat (blockOf a) = unat a div 512"
  and blockOffset_mod: "blockOffset a = unat a mod 512"
proof -
  show "unat (blockOf a) = unat a div 512"
    by (simp add: blockOf_def SdBlockSize_def SdBlockSizeBits_def unat_div_distrib)
  have "a - a div 512 * 512 = a mod 512" by (simp add: minus_div_mult_eq_mod)
  then show "blockOffset a = unat a mod 512"
    by (simp add: blockOffset_def blockOf_def SdBlockSize_def SdBlockSizeBits_def unat_mod_distrib)
qed

lemma blockOf_eq: "blockOf a = blockOf b \<longleftrightarrow> unat a div 512 = unat b div 512"
  unfolding word_unat_eq_iff unat_blockOf ..

lemma same_block:
  assumes "(q :: nat) div 512 = p div 512"
  shows "p \<le> q \<longleftrightarrow> p mod 512 \<le> q mod 512" "q < p + k \<longleftrightarrow> q mod 512 < p mod 512 + k"
proof -
  have "p = 512 * u + r \<Longrightarrow> q = 512 * u + s \<Longrightarrow> (p \<le> q \<longleftrightarrow> r \<le> s) \<and> (q < p + k \<longleftrightarrow> s < r + k)" for u r s
    by simp
  from this [of "p div 512" "p mod 512" "q mod 512"] assms
  show "p \<le> q \<longleftrightarrow> p mod 512 \<le> q mod 512" "q < p + k \<longleftrightarrow> q mod 512 < p mod 512 + k"
    by (metis mult_div_mod_eq)+
qed

lemma other_block:
  assumes "(p :: nat) mod 512 + k \<le> 512" "p div 512 \<noteq> q div 512" "p \<le> q"
  shows "\<not> q < p + k"
proof
  assume "q < p + k"
  moreover have "p = 512 * u + r \<Longrightarrow> r + k \<le> 512 \<Longrightarrow> p + k \<le> (u + 1) * 512" for u r by simp
  from this [of "p div 512" "p mod 512"] assms(1) have "p + k \<le> (p div 512 + 1) * 512" by simp
  ultimately have "q div 512 < p div 512 + 1" by (intro less_mult_imp_div_less) (rule less_le_trans)
  then show False using div_le_mono [OF assms(3), of 512] assms(2) by simp
qed

text \<open>The addresses of \<open>k\<close> bytes from one that stay in its block.\<close>

lemma in_block:
  assumes "k \<le> 512 - blockOffset addr"
  shows "unat addr \<le> unat a \<and> unat a < unat addr + k \<longleftrightarrow>
    blockOf a = blockOf addr \<and> blockOffset addr \<le> blockOffset a \<and> blockOffset a < blockOffset addr + k"
proof (cases "blockOf a = blockOf addr")
  case True
  then show ?thesis
    using same_block [of "unat a" "unat addr"] by (simp add: blockOf_eq blockOffset_mod)
next
  case False
  have "unat addr mod 512 + k \<le> 512" using assms mod_less_divisor [of 512 "unat addr"] by (simp add: blockOffset_mod)
  moreover have "unat addr div 512 \<noteq> unat a div 512" using False by (simp add: blockOf_eq)
  ultimately have "\<not> (unat addr \<le> unat a \<and> unat a < unat addr + k)"
    using other_block by blast
  then show ?thesis using False by simp
qed

section \<open>The contract of a card\<close>

text \<open>What is assumed of the card behind \<open>sdReadBlock\<close> and \<open>sdWriteBlock\<close>. Each of them may fail
  unless the card is reliable. A read that does not fail returns the block, and a write that
  does not fail has stored it: \<open>sd.c\<close> sees that the card accepts the command but never looks at
  the token the card answers the data with, so the second is a property of the card and not of the
  code. \<open>SdSim\<close> gives cards that have it, one of them refusing any of the commands it is
  sent, and one that takes the data and rejects it, where a write reports a success that is none.\<close>

locale block_card =
  fixes env :: "'w KEnv" and hw :: "'w Hardware" and sd :: SdCard
    and inv :: "'w KFs \<Rightarrow> bool" and blk :: "'w KFs \<Rightarrow> u32 \<Rightarrow> u8 list" and reliable :: bool
  assumes read_block: "inv st \<Longrightarrow> b < sdBlockCount sd \<Longrightarrow> \<exists>r st'. sdReadBlock env hw sd b st = Some (r, st') \<and>
      inv st' \<and> blk st' = blk st \<and> gHwDevices (globalsOf st') = gHwDevices (globalsOf st) \<and>
      (r = None \<and> \<not> reliable \<or> r = Some (blk st b))"
    and write_block: "inv st \<Longrightarrow> b < sdBlockCount sd \<Longrightarrow> length data = SdBlockSize \<Longrightarrow>
      \<exists>ok st'. sdWriteBlock env hw sd b data st = Some (ok, st') \<and> inv st' \<and>
      blk st' = (if ok then (blk st)(b := data) else blk st) \<and>
      gHwDevices (globalsOf st') = gHwDevices (globalsOf st) \<and> (reliable \<longrightarrow> ok)"
    and inv_upd: "inv st \<Longrightarrow> inv (updHwDevice d f st)"
    and blk_upd: "blk (updHwDevice d f st) = blk st"
    and blk_length: "inv st \<Longrightarrow> length (blk st b) = SdBlockSize"
begin

text \<open>A reader with the card mounted: a valid cache holds a block of the card, and one that is not
  dirty holds what is on the card.\<close>

definition readerOk :: "HwDeviceId \<Rightarrow> 'w KFs \<Rightarrow> bool" where
  "readerOk d st \<longleftrightarrow> inv st \<and> unat d < HwDeviceIdMax \<and> unat d < length (gHwDevices (globalsOf st)) \<and>
     hdType (hwDeviceOf st d) = ucast HwDeviceTypeSdCardReader \<and> sdType sd \<noteq> SdTypeBadCard \<and>
     srSdCard (readerOf st d) = sd \<and>
     (srCacheIsValid (readerOf st d) \<longrightarrow> length (srCache (readerOf st d)) = SdBlockSize \<and>
        srCacheBlock (readerOf st d) < sdBlockCount sd \<and>
        (\<not> srCacheIsDirty (readerOf st d) \<longrightarrow> srCache (readerOf st d) = blk st (srCacheBlock (readerOf st d))))"

text \<open>The logical contents.\<close>

definition lblk :: "HwDeviceId \<Rightarrow> 'w KFs \<Rightarrow> u32 \<Rightarrow> u8 list" where
  "lblk d st b = (if srCacheIsValid (readerOf st d) \<and> srCacheBlock (readerOf st d) = b
     then srCache (readerOf st d) else blk st b)"

definition lbyte :: "HwDeviceId \<Rightarrow> 'w KFs \<Rightarrow> u32 \<Rightarrow> u8" where
  "lbyte d st a = lblk d st (blockOf a) ! blockOffset a"

lemma readerOk_mounted: "readerOk d st \<Longrightarrow> readerMounted d st"
  by (auto simp: readerOk_def readerMounted_def hwDeviceGetType_def hwtype_consts)

lemma length_lblk: "readerOk d st \<Longrightarrow> length (lblk d st b) = SdBlockSize"
  by (auto simp: readerOk_def lblk_def blk_length)

lemma writeBack:
  assumes "readerOk d st"
  shows "\<exists>ok st'. readerWriteBack env hw d b st = Some (ok, st') \<and> readerOk d st' \<and> lblk d st' = lblk d st \<and>
    (reliable \<longrightarrow> ok) \<and> (ok \<longrightarrow> (srCacheIsValid (readerOf st' d) \<and> b \<noteq> srCacheBlock (readerOf st' d) \<longrightarrow>
      \<not> srCacheIsDirty (readerOf st' d)))"
proof (cases "srCacheIsValid (readerOf st d) \<and> b \<noteq> srCacheBlock (readerOf st d) \<and> srCacheIsDirty (readerOf st d)")
  case True
  let ?r = "readerOf st d"
  from assms True have w: "inv st" "srCacheBlock ?r < sdBlockCount sd" "length (srCache ?r) = SdBlockSize"
    "srSdCard ?r = sd" by (auto simp: readerOk_def)
  from write_block [OF w(1-3)] obtain ok st1 where 1: "sdWriteBlock env hw sd (srCacheBlock ?r) (srCache ?r) st = Some (ok, st1)"
    "inv st1" "blk st1 = (if ok then (blk st)(srCacheBlock ?r := srCache ?r) else blk st)"
    "gHwDevices (globalsOf st1) = gHwDevices (globalsOf st)" "reliable \<longrightarrow> ok" by blast
  note same = hwDeviceOf_cong [OF 1(4)]
  show ?thesis
  proof (cases ok)
    case False
    then have "readerOk d st1" "lblk d st1 = lblk d st"
      using assms 1 by (auto simp: readerOk_def lblk_def same)
    then show ?thesis
      using True False 1 w by (intro exI [of _ False] exI [of _ st1]) (simp add: readerWriteBack_def)
  next
    case ok: True
    let ?st2 = "updReader d (\<lambda>r. r\<lparr>srCacheIsDirty := False\<rparr>) st1"
    have len: "unat d < length (gHwDevices (globalsOf st1))" using assms 1(4) by (simp add: readerOk_def)
    have "readerOk d ?st2" "lblk d ?st2 = lblk d st"
      using assms 1 len ok True
      by (auto simp: readerOk_def lblk_def updReader_def same inv_upd blk_upd)
    then show ?thesis
      using True ok 1 w len
      by (intro exI [of _ True] exI [of _ ?st2]) (simp add: readerWriteBack_def Let_def, simp add: updReader_def)
  qed
qed (use assms in \<open>auto simp: readerWriteBack_def\<close>)

lemma load:
  assumes "readerOk d st" "srCacheIsValid (readerOf st d) \<and> b \<noteq> srCacheBlock (readerOf st d) \<longrightarrow>
    \<not> srCacheIsDirty (readerOf st d)"
  shows "\<exists>ok st'. readerLoad env hw d b st = Some (ok, st') \<and> readerOk d st' \<and> lblk d st' = lblk d st \<and>
    (ok \<longrightarrow> srCacheIsValid (readerOf st' d) \<and> srCacheBlock (readerOf st' d) = b) \<and>
    (reliable \<and> b < sdBlockCount sd \<longrightarrow> ok)"
proof (cases "\<not> srCacheIsValid (readerOf st d) \<or> b \<noteq> srCacheBlock (readerOf st d)")
  case True
  let ?r = "readerOf st d"
  have sd: "srSdCard ?r = sd" "inv st" "unat d < length (gHwDevices (globalsOf st))"
    using assms(1) by (auto simp: readerOk_def)
  have lblk: "lblk d st = blk st"
    using assms True by (auto simp: readerOk_def lblk_def fun_eq_iff)
  obtain r st1 where 1: "sdReadBlock env hw sd b st = Some (r, st1)" "inv st1" "blk st1 = blk st"
    "gHwDevices (globalsOf st1) = gHwDevices (globalsOf st)"
    "r = None \<and> \<not> (reliable \<and> b < sdBlockCount sd) \<or> r = Some (blk st b) \<and> b < sdBlockCount sd"
  proof (cases "b < sdBlockCount sd")
    case True
    with read_block [OF sd(2) True] show thesis using that by blast
  next
    case False
    then have "sdReadBlock env hw sd b st = Some (None, st)" by (simp add: sdReadBlock_def not_less)
    then show thesis using False that [of None st] sd by simp
  qed
  note same = hwDeviceOf_cong [OF 1(4)]
  have len: "unat d < length (gHwDevices (globalsOf st1))" using sd 1(4) by simp
  show ?thesis
  proof (cases r)
    case None
    let ?st2 = "updReader d (\<lambda>r. r\<lparr>srCacheIsValid := False\<rparr>) st1"
    have "readerOk d ?st2" "lblk d ?st2 = lblk d st"
      using assms(1) 1 len lblk
      by (auto simp: readerOk_def lblk_def updReader_def same inv_upd blk_upd fun_eq_iff)
    then show ?thesis using True 1 sd None by (auto simp: readerLoad_def)
  next
    case (Some bs)
    let ?st2 = "updReader d (\<lambda>r. r\<lparr>srCache := bs, srCacheIsValid := True, srCacheIsDirty := False,
      srCacheBlock := b\<rparr>) st1"
    have "readerOk d ?st2" "lblk d ?st2 = lblk d st" "srCacheIsValid (readerOf ?st2 d)" "srCacheBlock (readerOf ?st2 d) = b"
      using assms(1) 1 len lblk Some sd(2)
      by (auto simp: readerOk_def lblk_def updReader_def same inv_upd blk_upd fun_eq_iff blk_length)
    then show ?thesis using True 1 sd Some by (auto simp: readerLoad_def)
  qed
qed (use assms in \<open>auto simp: readerLoad_def\<close>)

lemma getBlock:
  assumes "readerOk d st"
  obtains ok st' where "readerGetBlock env hw d b st = Some (ok, st')" "readerOk d st'" "lblk d st' = lblk d st"
    "ok \<Longrightarrow> srCacheIsValid (readerOf st' d)" "ok \<Longrightarrow> srCacheBlock (readerOf st' d) = b"
    "reliable \<Longrightarrow> b < sdBlockCount sd \<Longrightarrow> ok"
proof -
  from writeBack [OF assms, of b] obtain ok1 st1 where 1: "readerWriteBack env hw d b st = Some (ok1, st1)"
    "readerOk d st1" "lblk d st1 = lblk d st" "reliable \<longrightarrow> ok1"
    "ok1 \<longrightarrow> (srCacheIsValid (readerOf st1 d) \<and> b \<noteq> srCacheBlock (readerOf st1 d) \<longrightarrow>
      \<not> srCacheIsDirty (readerOf st1 d))" by blast
  show thesis
  proof (cases ok1)
    case False
    then show thesis using 1 that [of False st1] by (simp add: readerGetBlock_def)
  next
    case True
    with load [OF 1(2), of b] 1(5) obtain ok st2 where "readerLoad env hw d b st1 = Some (ok, st2)"
      "readerOk d st2" "lblk d st2 = lblk d st1"
      "ok \<longrightarrow> srCacheIsValid (readerOf st2 d) \<and> srCacheBlock (readerOf st2 d) = b"
      "reliable \<and> b < sdBlockCount sd \<longrightarrow> ok" by blast
    then show thesis using 1 True that [of ok st2] by (simp add: readerGetBlock_def)
  qed
qed

lemma readLoop:
  assumes "readerOk d st"
  shows "\<exists>bs st'. readerReadLoop env hw d addr n data st = Some (data @ bs, st') \<and> readerOk d st' \<and>
    lblk d st' = lblk d st \<and> length bs \<le> n \<and> bs = map (\<lambda>i. lbyte d st (addr + of_nat i)) [0..<length bs] \<and>
    (reliable \<and> (\<forall>i < n. blockOf (addr + of_nat i) < sdBlockCount sd) \<longrightarrow> length bs = n)"
  using assms
proof (induction n arbitrary: addr data st)
  case (Suc n)
  obtain ok st1 where 1: "readerGetBlock env hw d (blockOf addr) st = Some (ok, st1)" "readerOk d st1"
    "lblk d st1 = lblk d st" "ok \<Longrightarrow> srCacheIsValid (readerOf st1 d)"
    "ok \<Longrightarrow> srCacheBlock (readerOf st1 d) = blockOf addr"
    "reliable \<Longrightarrow> blockOf addr < sdBlockCount sd \<Longrightarrow> ok"
    using getBlock [OF Suc.prems, of "blockOf addr"] by blast
  show ?case
  proof (cases ok)
    case False
    then have "\<not> (reliable \<and> blockOf addr < sdBlockCount sd)" using 1(6) by auto
    then show ?thesis
      using 1 False by (intro exI [of _ "[]"] exI [of _ st1]) (auto dest: spec [of _ "0 :: nat"])
  next
    case True
    let ?b = "srCache (readerOf st1 d) ! blockOffset addr"
    have b: "?b = lbyte d st addr"
      using 1 True by (simp add: lbyte_def 1(3) [symmetric]) (simp add: lblk_def)
    obtain bs st2 where 2: "readerReadLoop env hw d (addr + 1) n (data @ [?b]) st1 = Some ((data @ [?b]) @ bs, st2)"
      "readerOk d st2" "lblk d st2 = lblk d st" "length bs \<le> n"
      "bs = map (\<lambda>i. lbyte d st (addr + 1 + of_nat i)) [0..<length bs]"
      "reliable \<and> (\<forall>i < n. blockOf (addr + 1 + of_nat i) < sdBlockCount sd) \<longrightarrow> length bs = n"
      using Suc.IH [OF 1(2), of "addr + 1" "data @ [?b]"] 1(3) by (auto simp: lbyte_def)
    have "map (\<lambda>i. lbyte d st (addr + of_nat i)) [0..<length (?b # bs)] =
        lbyte d st addr # map (\<lambda>i. lbyte d st (addr + 1 + of_nat i)) [0..<length bs]"
      by (simp only: length_Cons map_upt_Suc) (simp add: add.assoc)
    then have "?b # bs = map (\<lambda>i. lbyte d st (addr + of_nat i)) [0..<length (?b # bs)]"
      using 2(5) b by simp
    moreover have "reliable \<and> (\<forall>i < Suc n. blockOf (addr + of_nat i) < sdBlockCount sd) \<longrightarrow> length bs = n"
      using 2(6) by (metis Suc_less_eq add.assoc of_nat_Suc)
    ultimately show ?thesis
      using 1 2 True by (intro exI [of _ "?b # bs"] exI [of _ st2]) auto
  qed
qed simp

text \<open>Bytes put into the cached block.\<close>

lemma put:
  assumes "readerOk d st" "srCacheIsValid (readerOf st d)" "srCacheBlock (readerOf st d) = blockOf addr"
    and "length bs \<le> SdBlockSize - blockOffset addr"
    and st': "st' = updReader d (\<lambda>r. r\<lparr>srCache := splice_at (blockOffset addr) bs (srCache r), srCacheIsDirty := True\<rparr>) st"
  shows "readerOk d st'" "lbyte d st' a = (if unat addr \<le> unat a \<and> unat a < unat addr + length bs
    then bs ! (unat a - unat addr) else lbyte d st a)"
proof -
  have len: "unat d < length (gHwDevices (globalsOf st))" "length (srCache (readerOf st d)) = 512"
    "blockOffset addr + length bs \<le> 512"
    using assms blockOffset_less [of addr] by (auto simp: readerOk_def SdBlockSize_def SdBlockSizeBits_def)
  show "readerOk d st'"
    using assms(1-3) len unfolding st'
    by (auto simp: readerOk_def updReader_def inv_upd blk_upd SdBlockSize_def SdBlockSizeBits_def)
  have "lbyte d st' a = (if blockOf a = blockOf addr
      then splice_at (blockOffset addr) bs (srCache (readerOf st d)) ! blockOffset a else lbyte d st a)"
    using assms(2,3) len unfolding st'
    by (auto simp: lbyte_def lblk_def updReader_def blk_upd)
  moreover have "lbyte d st a = srCache (readerOf st d) ! blockOffset a" if "blockOf a = blockOf addr"
    using assms(2,3) that by (simp add: lbyte_def lblk_def)
  moreover have "unat a - unat addr = blockOffset a - blockOffset addr" if "blockOf a = blockOf addr"
    using that unfolding blockOf_eq blockOffset_mod by (metis add_diff_cancel_left div_mult_mod_eq)
  ultimately show "lbyte d st' a = (if unat addr \<le> unat a \<and> unat a < unat addr + length bs
    then bs ! (unat a - unat addr) else lbyte d st a)"
    using len in_block [of "length bs" addr a] blockOffset_less [of a]
    by (auto simp: nth_splice_at SdBlockSize_def SdBlockSizeBits_def)
qed

lemma writeLoop:
  assumes "readerOk d st" "unat addr + length data \<le> 4294967296"
  shows "\<exists>n st'. readerWriteLoop env hw d addr data count st = Some (count + of_nat n, st') \<and> readerOk d st' \<and>
    n \<le> length data \<and>
    (\<forall>a. lbyte d st' a = (if unat addr \<le> unat a \<and> unat a < unat addr + n
      then data ! (unat a - unat addr) else lbyte d st a)) \<and>
    (reliable \<and> (\<forall>i < length data. blockOf (addr + of_nat i) < sdBlockCount sd) \<longrightarrow> n = length data)"
  using assms
proof (induction "length data" arbitrary: addr data count st rule: less_induct)
  case less
  show ?case
  proof (cases "data = []")
    case True
    then show ?thesis using less.prems by (subst readerWriteLoop.simps) auto
  next
    case False
    obtain ok st1 where 1: "readerGetBlock env hw d (blockOf addr) st = Some (ok, st1)" "readerOk d st1"
      "lblk d st1 = lblk d st" "ok \<Longrightarrow> srCacheIsValid (readerOf st1 d)"
      "ok \<Longrightarrow> srCacheBlock (readerOf st1 d) = blockOf addr"
      "reliable \<Longrightarrow> blockOf addr < sdBlockCount sd \<Longrightarrow> ok"
      using getBlock [OF less.prems(1), of "blockOf addr"] by blast
    have lb: "lbyte d st1 = lbyte d st" using 1(3) by (simp add: lbyte_def fun_eq_iff)
    show ?thesis
    proof (cases ok)
      case notok: False
      then have "\<not> (reliable \<and> blockOf addr < sdBlockCount sd)" using 1(6) by auto
      then show ?thesis
        using 1 notok False lb
        by (subst readerWriteLoop.simps, intro exI [of _ 0] exI [of _ st1]) (auto dest: spec [of _ "0 :: nat"])
    next
      case True
      define k where "k = min (SdBlockSize - blockOffset addr) (length data)"
      define bs where "bs = take k data"
      define st2 where "st2 = updReader d (\<lambda>r. r\<lparr>srCache := splice_at (blockOffset addr) bs (srCache r),
        srCacheIsDirty := True\<rparr>) st1"
      have k: "0 < k" "k \<le> length data" "length bs = k" "k \<le> SdBlockSize - blockOffset addr"
        using False blockOffset_less [of addr] by (auto simp: k_def bs_def)
      note put = put [OF 1(2) 1(4,5) [OF True] _ st2_def, unfolded k, OF k(4)]
      have step: "readerWriteLoop env hw d addr data count st =
          readerWriteLoop env hw d (addr + of_nat k) (drop k data) (count + of_nat k) st2"
        using 1 True False
        by (subst readerWriteLoop.simps)
          (simp add: Let_def k_def [symmetric] bs_def [symmetric] st2_def del: min.absorb1 min.absorb2)
      have addr': "drop k data = [] \<or> unat (addr + of_nat k :: u32) = unat addr + k"
      proof (cases "drop k data = []")
        case False
        then have "unat addr + k < 4294967296" "k < 4294967296" using less.prems(2) by simp_all
        then show ?thesis by (simp add: unat_word_ariths unat_of_nat)
      qed simp
      have bound: "unat (addr + of_nat k :: u32) + length (drop k data) \<le> 4294967296"
        using addr' less.prems(2) k unat_u32_less [of "addr + of_nat k"] by (auto simp del: unat_u32_less)
      obtain n st' where 2: "readerWriteLoop env hw d (addr + of_nat k) (drop k data) (count + of_nat k) st2 =
          Some (count + of_nat k + of_nat n, st')" "readerOk d st'" "n \<le> length (drop k data)"
        "\<And>a. lbyte d st' a = (if unat (addr + of_nat k) \<le> unat a \<and> unat a < unat (addr + of_nat k) + n
          then drop k data ! (unat a - unat (addr + of_nat k)) else lbyte d st2 a)"
        "reliable \<and> (\<forall>i < length (drop k data). blockOf (addr + of_nat k + of_nat i) < sdBlockCount sd) \<longrightarrow>
          n = length (drop k data)"
        using less.hyps [of "drop k data" st2 "addr + of_nat k" "count + of_nat k"] k put(1) bound False
        by auto
      have bytes: "lbyte d st' a = (if unat addr \<le> unat a \<and> unat a < unat addr + (k + n)
          then data ! (unat a - unat addr) else lbyte d st a)" for a
      proof (cases "drop k data = []")
        case True
        then show ?thesis using 2(3,4) put(2) lb by (auto simp: bs_def)
      next
        case False
        then have "unat (addr + of_nat k :: u32) = unat addr + k" using addr' by simp
        then show ?thesis using 2(3,4) put(2) lb k by (auto simp: bs_def)
      qed
      have all: "k + n = length data"
        if "reliable" "\<forall>i < length data. blockOf (addr + of_nat i) < sdBlockCount sd"
      proof -
        have "blockOf (addr + of_nat k + of_nat i) < sdBlockCount sd" if "i < length (drop k data)" for i
          using \<open>\<forall>i < length data. _\<close> [rule_format, of "k + i"] that by (simp add: add.assoc)
        then show ?thesis using 2(5) that(1) k by auto
      qed
      show ?thesis
        using 2(1,2,3) k bytes all unfolding step
        by (intro exI [of _ "k + n"] exI [of _ st']) (auto simp: add.assoc)
    qed
  qed
qed

lemma flush:
  assumes "readerOk d st"
  shows "\<exists>ok st'. hwDeviceSdCardReaderFlushFunctor env hw d st = Some (ok, st') \<and> readerOk d st' \<and>
    lblk d st' = lblk d st \<and> (ok \<longrightarrow> blk st' = lblk d st) \<and> (reliable \<longrightarrow> ok)"
proof (cases "srCacheIsValid (readerOf st d) \<and> srCacheIsDirty (readerOf st d)")
  case False
  then have clean: "blk st = lblk d st"
    using assms by (intro ext) (auto simp: lblk_def readerOk_def)
  show ?thesis
    using False assms readerOk_mounted [OF assms] clean
    by (intro exI [of _ True] exI [of _ st]) (auto simp: hwDeviceSdCardReaderFlushFunctor_def)
next
  case True
  let ?r = "readerOf st d"
  from assms True have w: "inv st" "srCacheBlock ?r < sdBlockCount sd" "length (srCache ?r) = SdBlockSize"
    "srSdCard ?r = sd" by (auto simp: readerOk_def)
  from write_block [OF w(1-3)] obtain ok st1 where 1: "sdWriteBlock env hw sd (srCacheBlock ?r) (srCache ?r) st = Some (ok, st1)"
    "inv st1" "blk st1 = (if ok then (blk st)(srCacheBlock ?r := srCache ?r) else blk st)"
    "gHwDevices (globalsOf st1) = gHwDevices (globalsOf st)" "reliable \<longrightarrow> ok" by blast
  note same = hwDeviceOf_cong [OF 1(4)]
  have len: "unat d < length (gHwDevices (globalsOf st1))" using assms 1(4) by (simp add: readerOk_def)
  let ?st2 = "if ok then updReader d (\<lambda>r. r\<lparr>srCacheIsDirty := False\<rparr>) st1 else st1"
  have "readerOk d ?st2" "lblk d ?st2 = lblk d st" "ok \<longrightarrow> blk ?st2 = lblk d st"
    using assms 1 len True
    by (auto simp: readerOk_def lblk_def updReader_def same inv_upd blk_upd fun_eq_iff)
  then show ?thesis
    using True 1 w readerOk_mounted [OF assms]
    by (intro exI [of _ ok] exI [of _ ?st2]) (simp add: hwDeviceSdCardReaderFlushFunctor_def)
qed

end

end
