(* ===== verification/SdSim.thy ===== *)
theory SdSim
  imports SdCache
begin

text \<open>
  A card on the SPI bus, as the SD specification has it answer the block commands, and the proof
  that \<open>sdReadBlock\<close> and \<open>sdWriteBlock\<close> over that bus meet the contract of
  \<open>block_card\<close>. The card takes commands of six bytes, answers a read with its response, the data
  token, the block and a checksum, and takes a block after the data token, which it answers; it returns
  \<open>0xFF\<close> when it has nothing to send. It may refuse any command, fail to read a block, and reject
  the data of a block. The contract holds as long as it rejects no data: the answer to the data is never
  looked at, so a block it rejects counts as written.
\<close>

section \<open>The card\<close>

datatype CardFault = CardAccepts | CardRefuses | CardDataError

text \<open>The faults of the next commands to read and to write; \<open>scData\<close> is the block that is
  received, with no number when it will be rejected.\<close>

record SpiCard =
  scBlocks :: "u32 \<Rightarrow> u8 list"
  scCommand :: "u8 list"
  scAnswer :: "u8 list"
  scData :: "(u32 option \<times> u8 list option) option"
  scReadFaults :: "CardFault list"
  scWriteFaults :: "CardFault list"

definition nextFault :: "CardFault list \<Rightarrow> CardFault" where
  "nextFault fs = (case fs of [] \<Rightarrow> CardAccepts | f # _ \<Rightarrow> f)"

definition cardExecute :: "u8 list \<Rightarrow> SpiCard \<Rightarrow> SpiCard" where
  "cardExecute cmd c =
     (let b = be32 (cmd ! 1) (cmd ! 2) (cmd ! 3) (cmd ! 4) in
      if cmd ! 0 = 0x51 then
        (case nextFault (scReadFaults c) of
           CardAccepts \<Rightarrow> c\<lparr>scReadFaults := tl (scReadFaults c), scAnswer := [0x00, 0xFE] @ scBlocks c b @ [0x12, 0x34]\<rparr>
         | CardRefuses \<Rightarrow> c\<lparr>scReadFaults := tl (scReadFaults c), scAnswer := [0x04]\<rparr>
         | CardDataError \<Rightarrow> c\<lparr>scReadFaults := tl (scReadFaults c), scAnswer := [0x00, 0x04]\<rparr>)
      else if cmd ! 0 = 0x58 then
        (case nextFault (scWriteFaults c) of
           CardAccepts \<Rightarrow> c\<lparr>scWriteFaults := tl (scWriteFaults c), scAnswer := [0x00], scData := Some (Some b, None)\<rparr>
         | CardRefuses \<Rightarrow> c\<lparr>scWriteFaults := tl (scWriteFaults c), scAnswer := [0x04]\<rparr>
         | CardDataError \<Rightarrow> c\<lparr>scWriteFaults := tl (scWriteFaults c), scAnswer := [0x00], scData := Some (None, None)\<rparr>)
      else c\<lparr>scAnswer := [0x04]\<rparr>)"

definition cardReceive :: "u8 \<Rightarrow> SpiCard \<Rightarrow> SpiCard" where
  "cardReceive v c =
     (case scData c of
        Some (b, None) \<Rightarrow> if v = 0xFE then c\<lparr>scData := Some (b, Some [])\<rparr> else c
      | Some (b, Some bs) \<Rightarrow>
          if length bs < 513 then c\<lparr>scData := Some (b, Some (bs @ [v]))\<rparr>
          else (case b of
              Some b \<Rightarrow> c\<lparr>scBlocks := (scBlocks c)(b := take 512 bs), scData := None, scAnswer := [0x05, 0x00]\<rparr>
            | None \<Rightarrow> c\<lparr>scData := None, scAnswer := [0x0D]\<rparr>)
      | None \<Rightarrow>
          if scCommand c = [] \<and> v = 0xFF then c
          else if length (scCommand c) < 5 then c\<lparr>scCommand := scCommand c @ [v]\<rparr>
          else cardExecute (scCommand c @ [v]) (c\<lparr>scCommand := []\<rparr>))"

definition cardTransfer :: "u8 \<Rightarrow> SpiCard \<Rightarrow> u8 \<times> SpiCard" where
  "cardTransfer v c =
     (case scAnswer c of
        [] \<Rightarrow> (0xFF, cardReceive v c)
      | b # bs \<Rightarrow> (b, cardReceive v (c\<lparr>scAnswer := bs\<rparr>)))"

definition cardHw :: "SpiCard Hardware" where
  "cardHw = \<lparr>hwSpiTransfer = cardTransfer, hwPinRead = \<lambda>pin p w. pinRead pin p, hwRawMs = \<lambda>w. (0, w),
     hwDelayUs = \<lambda>_ w. w, hwRand = \<lambda>w. (0, w), hwStdin = \<lambda>_. [],
     hwStdinTake = \<lambda>_ w. w\<rparr>"

definition cardIdle :: "SpiCard \<Rightarrow> bool" where
  "cardIdle c \<longleftrightarrow> scCommand c = [] \<and> scAnswer c = [] \<and> scData c = None"

section \<open>Bytes on the bus\<close>

definition withCard :: "SpiCard \<Rightarrow> SpiCard KFs \<Rightarrow> SpiCard KFs" where
  "withCard c st = updGlobals (\<lambda>g. g\<lparr>gHost := c\<rparr>) st"

lemma withCard_simps [simp]:
  "withCard c (withCard c' st) = withCard c st" "gHost (globalsOf (withCard c st)) = c"
  "kfsFdt (withCard c st) = kfsFdt st" "kfsDevices (withCard c st) = kfsDevices st"
  "gHwDevices (globalsOf (withCard c st)) = gHwDevices (globalsOf st)"
  "gSpiLockFd (globalsOf (withCard c st)) = gSpiLockFd (globalsOf st)"
  by (simp_all add: withCard_def)

lemma card_update_self [simp]:
  "scAnswer c = a \<Longrightarrow> c\<lparr>scAnswer := a\<rparr> = c" "scData c = x \<Longrightarrow> c\<lparr>scData := x\<rparr> = c"
  "scCommand c = a \<Longrightarrow> c\<lparr>scCommand := a\<rparr> = c"
  by (cases c, simp)+

lemma withCard_self: "withCard (gHost (globalsOf st)) st = st"
  by (simp add: withCard_def updGlobals_def globalsOf_def)

lemma transmit [simp]:
  "spiTransmitByte cardHw v (withCard c st) =
     (fst (cardTransfer v c), withCard (snd (cardTransfer v c)) st)"
  by (simp add: spiTransmitByte_def cardHw_def split: prod.split)
    (simp add: withCard_def)

lemma writeByte [simp]: "spiWriteByte cardHw v (withCard c st) = withCard (snd (cardTransfer v c)) st"
  by (simp add: spiWriteByte_def)

lemma readByte_answer [simp]:
  "scCommand c = [] \<Longrightarrow> scData c = None \<Longrightarrow> scAnswer c = b # bs \<Longrightarrow>
   spiReadByte cardHw (withCard c st) = (b, withCard (c\<lparr>scAnswer := bs\<rparr>) st)"
  by (simp add: spiReadByte_def cardTransfer_def cardReceive_def)

lemma readByte_idle [simp]: "cardIdle c \<Longrightarrow> spiReadByte cardHw (withCard c st) = (0xFF, withCard c st)"
  by (simp add: spiReadByte_def cardTransfer_def cardReceive_def cardIdle_def)

lemma readBytes_answer:
  "scCommand c = [] \<Longrightarrow> scData c = None \<Longrightarrow> scAnswer c = bs @ rest \<Longrightarrow>
   spiReadBytes cardHw (length bs) (withCard c st) = (bs, withCard (c\<lparr>scAnswer := rest\<rparr>) st)"
proof (induction bs arbitrary: c)
  case (Cons b bs)
  then show ?case by simp
qed simp

lemma waitForResponse_answer:
  "scCommand c = [] \<Longrightarrow> scData c = None \<Longrightarrow> scAnswer c = b # bs \<Longrightarrow> b \<noteq> 0xFF \<Longrightarrow>
   sdWaitForResponse cardHw (Suc n) (withCard c st) = (b, withCard (c\<lparr>scAnswer := bs\<rparr>) st)"
  by simp

lemma dummy_idle: "cardIdle c \<Longrightarrow> sdWriteDummyBytes cardHw (withCard c st) = Some (withCard c st)"
  by (subst sdWriteDummyBytes.simps) simp

lemma be32_bytes_be32:
  assumes "be32_bytes a = [x, y, z, w]"
  shows "be32 x y z w = a"
  using be32_be32_bytes [OF assms] .

text \<open>A command of six bytes sent to an idle card.\<close>

lemma blockCommand:
  assumes "cardIdle c" "cmd \<noteq> 0xFF"
  shows "sdBlockCommand cardHw cmd addr (withCard c st) =
    withCard (cardExecute (cmd # be32_bytes addr @ [0x01]) c) st"
proof -
  obtain x y z w where b: "be32_bytes addr = [x, y, z, w]" by (simp add: be32_bytes_def)
  have c: "scCommand c = []" "scAnswer c = []" "scData c = None" "c\<lparr>scCommand := []\<rparr> = c"
    using assms(1) by (simp_all add: cardIdle_def)
  show ?thesis
    using assms(2) c
    by (simp add: sdBlockCommand_def spiWriteBlock_def b cardTransfer_def cardReceive_def)
qed

text \<open>The bytes of a block sent after the token.\<close>

lemma sendBytes:
  "scAnswer c = [] \<Longrightarrow> scData c = Some (b, Some bs) \<Longrightarrow> length bs + length data \<le> 513 \<Longrightarrow>
   spiWriteBlock cardHw data (withCard c st) = withCard (c\<lparr>scData := Some (b, Some (bs @ data))\<rparr>) st"
proof (induction data arbitrary: c bs)
  case Nil
  then show ?case by (simp add: spiWriteBlock_def)
next
  case (Cons v data)
  then show ?case
    using Cons.IH [of "c\<lparr>scData := Some (b, Some (bs @ [v]))\<rparr>" "bs @ [v]"]
    by (simp add: spiWriteBlock_def cardTransfer_def cardReceive_def)
qed

section \<open>The lock\<close>

text \<open>A file system whose only device is \<open>/dev/spi\<close>, with no file open.\<close>

definition spiEnv :: "SpiCard KEnv" where
  "spiEnv = \<lparr>fnFlush = \<lambda>f u st. Some (True, st), fnCharacterRead = \<lambda>f u st. Some (0, st),
     fnCharacterCanRead = \<lambda>f u st. Some True, fnCharacterWrite = \<lambda>f u data st. Some (of_nat (length data), st),
     fnCharacterCanWrite = \<lambda>f u st. Some True, fnBlockRead = \<lambda>f u st addr len. Some ([], st),
     fnBlockWrite = \<lambda>f u addr data st. Some (0, st), envIndet = \<lambda>_. 0\<rparr>"

definition spiDevices :: "KernelFsDevice list" where
  "spiDevices = unusedDevice\<lparr>devMountPoint := KStrTypeStatic 0 spiPath, devFunctor := Some 6, devUserData := 3,
     devType := KernelFsDeviceTypeCharacter, devWritable := True\<rparr> # replicate 127 unusedDevice"

definition spiFdt :: "KernelFsFdtEntry list" where
  "spiFdt = replicate 64 closedEntry"

definition spiOpenFdt :: "KernelFsFdtEntry list" where
  "spiOpenFdt = spiFdt[63 := \<lparr>fdtPath = KStrTypeHeap 7 spiPath, fdtDeviceIndex = 0\<rparr>]"

lemma open_spi:
  "kernelFsFileOpen spiEnv spiPath KernelFsFdModeRW \<lparr>kfsFdt = spiFdt, kfsDevices = spiDevices, kfsWorld = w\<rparr> =
     Some (63, \<lparr>kfsFdt = spiOpenFdt, kfsDevices = spiDevices, kfsWorld = w\<rparr>)"
  by code_simp

lemma close_spi:
  "kernelFsFileClose 63 \<lparr>kfsFdt = spiOpenFdt, kfsDevices = spiDevices, kfsWorld = w :: SpiCard KWorld\<rparr> =
     Some (0, \<lparr>kfsFdt = spiFdt, kfsDevices = spiDevices, kfsWorld = w\<rparr>)"
  by code_simp

definition spiFree :: "SpiCard KFs \<Rightarrow> bool" where
  "spiFree st \<longleftrightarrow> kfsFdt st = spiFdt \<and> kfsDevices st = spiDevices \<and>
     gSpiLockFd (globalsOf st) = KernelFsFdInvalid"

definition spiHeld :: "SpiCard KFs \<Rightarrow> bool" where
  "spiHeld st \<longleftrightarrow> kfsFdt st = spiOpenFdt \<and> kfsDevices st = spiDevices \<and>
     gSpiLockFd (globalsOf st) = 63 \<and> gSpiSlaveSelectPin (globalsOf st) = 255"

lemma grab_free:
  assumes "spiFree st"
  obtains st' where "kernelSpiGrabLockNoSlaveSelect spiEnv st = Some (True, st')" "spiHeld st'"
    "gHost (globalsOf st') = gHost (globalsOf st)" "gHwDevices (globalsOf st') = gHwDevices (globalsOf st)"
proof -
  obtain w where st: "st = \<lparr>kfsFdt = spiFdt, kfsDevices = spiDevices, kfsWorld = w\<rparr>"
    using assms by (cases st) (auto simp: spiFree_def)
  let ?st1 = "\<lparr>kfsFdt = spiOpenFdt, kfsDevices = spiDevices, kfsWorld = w\<rparr>"
  let ?st2 = "updGlobals (\<lambda>g. g\<lparr>gSpiLockFd := 63, gSpiSlaveSelectPin := 255\<rparr>) ?st1"
  have g: "globalsOf ?st1 = globalsOf st" by (simp add: st globalsOf_def)
  have "kernelSpiGrabLockNoSlaveSelect spiEnv st = Some (True, ?st2)"
    using assms by (simp add: kernelSpiGrabLockNoSlaveSelect_def spiFree_def st open_spi KernelFsFdInvalid_def)
  then show thesis
    by (rule that) (simp_all add: spiHeld_def g)
qed

lemma release_held:
  assumes "spiHeld st"
  obtains st' where "kernelSpiReleaseLock st = Some st'" "spiFree st'"
    "gHost (globalsOf st') = gHost (globalsOf st)" "gHwDevices (globalsOf st') = gHwDevices (globalsOf st)"
proof -
  obtain w where st: "st = \<lparr>kfsFdt = spiOpenFdt, kfsDevices = spiDevices, kfsWorld = w\<rparr>"
    using assms by (cases st) (auto simp: spiHeld_def)
  let ?st1 = "\<lparr>kfsFdt = spiFdt, kfsDevices = spiDevices, kfsWorld = w\<rparr>"
  let ?st2 = "updGlobals (\<lambda>g. g\<lparr>gSpiLockFd := KernelFsFdInvalid\<rparr>) ?st1"
  have g: "globalsOf ?st1 = globalsOf st" by (simp add: st globalsOf_def)
  have "kernelSpiReleaseLock st = Some ?st2"
    using assms by (simp add: kernelSpiReleaseLock_def spiHeld_def Let_def st close_spi KernelFsFdInvalid_def)
  then show thesis
    by (rule that) (simp_all add: spiFree_def g)
qed

lemma held_simps [simp]:
  "spiHeld (withCard c st) = spiHeld st" "spiHeld (kPinWrite pin v st) = spiHeld st"
  "kPinWrite pin v (withCard c st) = withCard c (kPinWrite pin v st)"
  "gHost (globalsOf (kPinWrite pin v st)) = gHost (globalsOf st)"
  "gHwDevices (globalsOf (kPinWrite pin v st)) = gHwDevices (globalsOf st)"
proof -
  have swap: "(\<lambda>g. g\<lparr>gHost := c, gPins := snd (pinWrite pin v (gPins g))\<rparr>) =
      (\<lambda>g :: SpiCard Globals. g\<lparr>gPins := snd (pinWrite pin v (gPins g)), gHost := c\<rparr>)" by (simp add: fun_eq_iff)
  show "spiHeld (withCard c st) = spiHeld st" "spiHeld (kPinWrite pin v st) = spiHeld st"
    "kPinWrite pin v (withCard c st) = withCard c (kPinWrite pin v st)"
    "gHost (globalsOf (kPinWrite pin v st)) = gHost (globalsOf st)"
    "gHwDevices (globalsOf (kPinWrite pin v st)) = gHwDevices (globalsOf st)"
    by (simp_all add: spiHeld_def withCard_def kPinWrite_def swap)
qed

lemma finish_held:
  assumes "spiHeld st"
  obtains st' where "sdFinish sd r (withCard c st) = Some (r, st')" "spiFree st'"
    "gHost (globalsOf st') = c" "gHwDevices (globalsOf st') = gHwDevices (globalsOf st)"
proof -
  have "spiHeld (withCard c (kPinWrite (sdSlaveSelectPin sd) True st))" using assms by simp
  from release_held [OF this] obtain st' where
    "kernelSpiReleaseLock (withCard c (kPinWrite (sdSlaveSelectPin sd) True st)) = Some st'" "spiFree st'"
    "gHost (globalsOf st') = c" "gHwDevices (globalsOf st') = gHwDevices (globalsOf st)" by auto
  then show thesis
    by (intro that [of st']) (simp_all add: sdFinish_def)
qed

section \<open>The block commands meet the contract\<close>

definition cardSd :: SdCard where
  "cardSd = \<lparr>sdBlockCount = 8, sdType = SdTypeSdVer2Plus, sdAddressMode = SdAddressModeBlock,
     sdPowerPin = 2, sdSlaveSelectPin = 3\<rparr>"

definition cardBase :: "SpiCard KFs \<Rightarrow> bool" where
  "cardBase st \<longleftrightarrow> spiFree st \<and> cardIdle (gHost (globalsOf st)) \<and>
     (\<forall>b. length (scBlocks (gHost (globalsOf st)) b) = SdBlockSize)"

text \<open>A card that rejects no data, and one that has no fault at all.\<close>

definition cardInv :: "SpiCard KFs \<Rightarrow> bool" where
  "cardInv st \<longleftrightarrow> cardBase st \<and> CardDataError \<notin> set (scWriteFaults (gHost (globalsOf st)))"

definition faultless :: "SpiCard KFs \<Rightarrow> bool" where
  "faultless st \<longleftrightarrow> scReadFaults (gHost (globalsOf st)) = [] \<and> scWriteFaults (gHost (globalsOf st)) = []"

definition cardBlocks :: "SpiCard KFs \<Rightarrow> u32 \<Rightarrow> u8 list" where
  "cardBlocks st = scBlocks (gHost (globalsOf st))"

lemma cardExecute_block:
  assumes "be32_bytes b = [x, y, z, w]"
  shows "cardExecute (cmd # be32_bytes b @ [0x01]) c =
    (if cmd = 0x51 then
        (case nextFault (scReadFaults c) of
           CardAccepts \<Rightarrow> c\<lparr>scReadFaults := tl (scReadFaults c), scAnswer := [0x00, 0xFE] @ scBlocks c b @ [0x12, 0x34]\<rparr>
         | CardRefuses \<Rightarrow> c\<lparr>scReadFaults := tl (scReadFaults c), scAnswer := [0x04]\<rparr>
         | CardDataError \<Rightarrow> c\<lparr>scReadFaults := tl (scReadFaults c), scAnswer := [0x00, 0x04]\<rparr>)
      else if cmd = 0x58 then
        (case nextFault (scWriteFaults c) of
           CardAccepts \<Rightarrow> c\<lparr>scWriteFaults := tl (scWriteFaults c), scAnswer := [0x00], scData := Some (Some b, None)\<rparr>
         | CardRefuses \<Rightarrow> c\<lparr>scWriteFaults := tl (scWriteFaults c), scAnswer := [0x04]\<rparr>
         | CardDataError \<Rightarrow> c\<lparr>scWriteFaults := tl (scWriteFaults c), scAnswer := [0x00], scData := Some (None, None)\<rparr>)
      else c\<lparr>scAnswer := [0x04]\<rparr>)"
  using be32_be32_bytes [OF assms] by (simp add: cardExecute_def assms)

lemma idle_blocks [simp]:
  "cardIdle (c\<lparr>scBlocks := bs\<rparr>) = cardIdle c" "cardIdle (c\<lparr>scReadFaults := fs\<rparr>) = cardIdle c"
  "cardIdle (c\<lparr>scWriteFaults := fs\<rparr>) = cardIdle c"
  by (simp_all add: cardIdle_def)

text \<open>Every command starts the same way: the lock is taken and the command sent to the idle card.\<close>

lemma block_begin:
  assumes "cardBase st"
  obtains st1 st2 where "kernelSpiGrabLockNoSlaveSelect spiEnv st = Some (True, st1)"
    "sdWriteDummyBytes cardHw st1 = Some st1" "kPinWrite (sdSlaveSelectPin cardSd) False st1 = st2"
    "spiHeld st2" "gHwDevices (globalsOf st2) = gHwDevices (globalsOf st)"
    "\<And>cmd b. cmd \<noteq> 0xFF \<Longrightarrow> sdBlockCommand cardHw cmd (sdBlockAddr cardSd b) st2 =
       withCard (cardExecute (cmd # be32_bytes b @ [0x01]) (gHost (globalsOf st))) st2"
proof -
  define c where "c = gHost (globalsOf st)"
  have inv: "spiFree st" "cardIdle c" using assms(1) by (simp_all add: cardBase_def c_def)
  from grab_free [OF inv(1)] obtain st1 where 1: "kernelSpiGrabLockNoSlaveSelect spiEnv st = Some (True, st1)"
    "spiHeld st1" "gHost (globalsOf st1) = c" "gHwDevices (globalsOf st1) = gHwDevices (globalsOf st)"
    unfolding c_def by blast
  define st2 where "st2 = kPinWrite (sdSlaveSelectPin cardSd) False st1"
  have self: "withCard c st1 = st1" "withCard c st2 = st2"
    using withCard_self [of st1] withCard_self [of st2] 1(3) by (simp_all add: st2_def)
  have "sdWriteDummyBytes cardHw st1 = Some st1" using dummy_idle [OF inv(2), of st1] self by simp
  moreover have "sdBlockCommand cardHw cmd (sdBlockAddr cardSd b) st2 =
      withCard (cardExecute (cmd # be32_bytes b @ [0x01]) c) st2" if "cmd \<noteq> 0xFF" for cmd b
    using blockCommand [OF inv(2) that, of b st2] self by (simp add: sdBlockAddr_def cardSd_def)
  ultimately show thesis
    using 1 by (intro that [of st1 st2]) (simp_all add: st2_def c_def)
qed

text \<open>A command the card refuses.\<close>

lemma response_refused:
  assumes "cardIdle d"
  shows "sdWaitForResponse cardHw 16 (withCard (d\<lparr>scAnswer := [0x04]\<rparr>) st) = (0x04, withCard d st)"
  using waitForResponse_answer [of "d\<lparr>scAnswer := [0x04]\<rparr>" "0x04" "[]" 15 st] assms by (simp add: cardIdle_def)

lemma card_reads:
  assumes "cardBase st" "b < sdBlockCount cardSd"
  shows "\<exists>st'. sdReadBlock spiEnv cardHw cardSd b st =
      Some (if nextFault (scReadFaults (gHost (globalsOf st))) = CardAccepts then Some (cardBlocks st b) else None, st') \<and>
    cardBase st' \<and> cardBlocks st' = cardBlocks st \<and> gHwDevices (globalsOf st') = gHwDevices (globalsOf st) \<and>
    scReadFaults (gHost (globalsOf st')) = tl (scReadFaults (gHost (globalsOf st))) \<and>
    scWriteFaults (gHost (globalsOf st')) = scWriteFaults (gHost (globalsOf st))"
proof -
  define c where "c = gHost (globalsOf st)"
  define d where "d = c\<lparr>scReadFaults := tl (scReadFaults c)\<rparr>"
  have inv: "cardIdle d" "\<And>b. length (scBlocks c b) = SdBlockSize"
    using assms(1) by (simp_all add: cardBase_def c_def d_def)
  then have parts: "scCommand d = []" "scAnswer d = []" "scData d = None" by (simp_all add: cardIdle_def)
  obtain x y z w where b: "be32_bytes b = [x, y, z, w]" by (simp add: be32_bytes_def)
  from block_begin [OF assms(1)] obtain st1 st2 where 1: "kernelSpiGrabLockNoSlaveSelect spiEnv st = Some (True, st1)"
    "sdWriteDummyBytes cardHw st1 = Some st1" "kPinWrite (sdSlaveSelectPin cardSd) False st1 = st2"
    "spiHeld st2" "gHwDevices (globalsOf st2) = gHwDevices (globalsOf st)"
    "\<And>cmd b. cmd \<noteq> 0xFF \<Longrightarrow> sdBlockCommand cardHw cmd (sdBlockAddr cardSd b) st2 =
       withCard (cardExecute (cmd # be32_bytes b @ [0x01]) c) st2" unfolding c_def by metis
  let ?r = "if nextFault (scReadFaults c) = CardAccepts then Some (scBlocks c b) else None"
  from finish_held [OF 1(4), of cardSd ?r d] obtain st' where 2: "sdFinish cardSd ?r (withCard d st2) = Some (?r, st')"
    "spiFree st'" "gHost (globalsOf st') = d" "gHwDevices (globalsOf st') = gHwDevices (globalsOf st2)" by blast
  have command: "sdBlockCommand cardHw 0x51 (sdBlockAddr cardSd b) st2 = withCard
      (case nextFault (scReadFaults c) of
         CardAccepts \<Rightarrow> d\<lparr>scAnswer := [0x00, 0xFE] @ scBlocks c b @ [0x12, 0x34]\<rparr>
       | CardRefuses \<Rightarrow> d\<lparr>scAnswer := [0x04]\<rparr>
       | CardDataError \<Rightarrow> d\<lparr>scAnswer := [0x00, 0x04]\<rparr>) st2"
    using 1(6) [of "0x51" b] by (simp add: cardExecute_block [OF b] d_def split: CardFault.split)
  have answer: "sdWaitForResponse cardHw 16 (withCard (d\<lparr>scAnswer := 0x00 # rest\<rparr>) st2) =
      (0x00, withCard (d\<lparr>scAnswer := rest\<rparr>) st2)" for rest
    using waitForResponse_answer [of "d\<lparr>scAnswer := 0x00 # rest\<rparr>" "0x00" rest 15 st2] parts by simp
  have token: "sdWaitForResponse cardHw 1024 (withCard (d\<lparr>scAnswer := t # rest\<rparr>) st2) =
      (t, withCard (d\<lparr>scAnswer := rest\<rparr>) st2)" if "t \<noteq> 0xFF" for t rest
    using waitForResponse_answer [of "d\<lparr>scAnswer := t # rest\<rparr>" t rest 1023 st2] parts that by simp
  have data: "spiReadBytes cardHw SdBlockSize (withCard (d\<lparr>scAnswer := scBlocks c b @ [0x12, 0x34]\<rparr>) st2) =
      (scBlocks c b, withCard (d\<lparr>scAnswer := [0x12, 0x34]\<rparr>) st2)"
    using readBytes_answer [of "d\<lparr>scAnswer := scBlocks c b @ [0x12, 0x34]\<rparr>" "scBlocks c b" "[0x12, 0x34]" st2]
      parts inv(2) by simp
  have crc: "spiReadBytes cardHw 2 (withCard (d\<lparr>scAnswer := [0x12, 0x34]\<rparr>) st2) = ([0x12, 0x34], withCard d st2)"
    using readBytes_answer [of "d\<lparr>scAnswer := [0x12, 0x34]\<rparr>" "[0x12, 0x34]" "[]" st2] parts
    by (simp del: spiReadBytes.simps add: numeral_2_eq_2)
  have none: "d\<lparr>scAnswer := []\<rparr> = d" using parts by simp
  have "sdReadBlock spiEnv cardHw cardSd b st = Some (?r, st')"
    using assms(2) 1(1,2) 2(1) response_refused [OF inv(1), of st2] dummy_idle [OF inv(1), of st2] answer token data crc none
    unfolding sdReadBlock_def Let_def 1(3)
    by (cases "nextFault (scReadFaults c)")
      (simp_all add: 1(3) command not_le del: sdWaitForResponse.simps spiReadBytes.simps)
  then show ?thesis
    using 1(5) 2(2-4) inv by (intro exI [of _ st']) (simp add: cardBlocks_def cardBase_def c_def [symmetric] d_def)
qed

lemma card_writes:
  assumes "cardBase st" "b < sdBlockCount cardSd" "length data = SdBlockSize"
  shows "\<exists>st'. sdWriteBlock spiEnv cardHw cardSd b data st =
      Some (nextFault (scWriteFaults (gHost (globalsOf st))) \<noteq> CardRefuses, st') \<and>
    cardBase st' \<and> cardBlocks st' = (if nextFault (scWriteFaults (gHost (globalsOf st))) = CardAccepts
      then (cardBlocks st)(b := data) else cardBlocks st) \<and>
    gHwDevices (globalsOf st') = gHwDevices (globalsOf st) \<and>
    scReadFaults (gHost (globalsOf st')) = scReadFaults (gHost (globalsOf st)) \<and>
    scWriteFaults (gHost (globalsOf st')) = tl (scWriteFaults (gHost (globalsOf st)))"
proof -
  define c where "c = gHost (globalsOf st)"
  define d where "d = c\<lparr>scWriteFaults := tl (scWriteFaults c)\<rparr>"
  have inv: "cardIdle d" "\<And>b. length (scBlocks c b) = SdBlockSize"
    using assms(1) by (simp_all add: cardBase_def c_def d_def)
  then have parts: "scCommand d = []" "scAnswer d = []" "scData d = None" by (simp_all add: cardIdle_def)
  have len: "length data = 512" using assms(3) by (simp add: SdBlockSize_def SdBlockSizeBits_def)
  obtain x y z w where b: "be32_bytes b = [x, y, z, w]" by (simp add: be32_bytes_def)
  from block_begin [OF assms(1)] obtain st1 st2 where 1: "kernelSpiGrabLockNoSlaveSelect spiEnv st = Some (True, st1)"
    "sdWriteDummyBytes cardHw st1 = Some st1" "kPinWrite (sdSlaveSelectPin cardSd) False st1 = st2"
    "spiHeld st2" "gHwDevices (globalsOf st2) = gHwDevices (globalsOf st)"
    "\<And>cmd b. cmd \<noteq> 0xFF \<Longrightarrow> sdBlockCommand cardHw cmd (sdBlockAddr cardSd b) st2 =
       withCard (cardExecute (cmd # be32_bytes b @ [0x01]) c) st2" unfolding c_def by metis
  have blocks: "scBlocks d = scBlocks c" by (simp add: d_def)
  let ?f = "nextFault (scWriteFaults c)"
  let ?e = "if ?f = CardAccepts then d\<lparr>scBlocks := (scBlocks c)(b := data)\<rparr> else d"
  from finish_held [OF 1(4), of cardSd "?f \<noteq> CardRefuses" ?e] obtain st' where
    2: "sdFinish cardSd (?f \<noteq> CardRefuses) (withCard ?e st2) = Some (?f \<noteq> CardRefuses, st')"
    "spiFree st'" "gHost (globalsOf st') = ?e" "gHwDevices (globalsOf st') = gHwDevices (globalsOf st2)" by blast
  have command: "sdBlockCommand cardHw 0x58 (sdBlockAddr cardSd b) st2 = withCard
      (case ?f of
         CardAccepts \<Rightarrow> d\<lparr>scAnswer := [0x00], scData := Some (Some b, None)\<rparr>
       | CardRefuses \<Rightarrow> d\<lparr>scAnswer := [0x04]\<rparr>
       | CardDataError \<Rightarrow> d\<lparr>scAnswer := [0x00], scData := Some (None, None)\<rparr>) st2"
    using 1(6) [of "0x58" b] by (simp add: cardExecute_block [OF b] d_def split: CardFault.split)
  have "spiReadByte cardHw (withCard (d\<lparr>scAnswer := [0x00], scData := Some (k, None)\<rparr>) st2) =
      (0x00, withCard (d\<lparr>scData := Some (k, None)\<rparr>) st2)" for k
    using parts by (simp add: spiReadByte_def cardTransfer_def cardReceive_def)
  then have "sdWaitForResponse cardHw (Suc 15) (withCard (d\<lparr>scAnswer := [0x00], scData := Some (k, None)\<rparr>) st2) =
      (0x00, withCard (d\<lparr>scData := Some (k, None)\<rparr>) st2)" for k
    by (simp only: sdWaitForResponse.simps prod.case) simp
  then have response: "sdWaitForResponse cardHw 16 (withCard (d\<lparr>scAnswer := [0x00], scData := Some (k, None)\<rparr>) st2) =
      (0x00, withCard (d\<lparr>scData := Some (k, None)\<rparr>) st2)" for k by simp
  have wait: "sdWriteDummyBytes cardHw (withCard (d\<lparr>scData := Some (k, None)\<rparr>) st2) =
      Some (withCard (d\<lparr>scData := Some (k, None)\<rparr>) st2)" for k
    using parts by (subst sdWriteDummyBytes.simps) (simp add: spiReadByte_def cardTransfer_def cardReceive_def)
  have token: "spiWriteByte cardHw 0xFE (withCard (d\<lparr>scData := Some (k, None)\<rparr>) st2) =
      withCard (d\<lparr>scData := Some (k, Some [])\<rparr>) st2" for k
    using parts by (simp add: cardTransfer_def cardReceive_def)
  have block: "spiWriteBlock cardHw data (withCard (d\<lparr>scData := Some (k, Some [])\<rparr>) st2) =
      withCard (d\<lparr>scData := Some (k, Some data)\<rparr>) st2" for k
    using sendBytes [of "d\<lparr>scData := Some (k, Some [])\<rparr>" k "[]" data st2] parts len by simp
  have crc: "spiWriteBlock cardHw [0x01, 0x01] (withCard (d\<lparr>scData := Some (k, Some data)\<rparr>) st2) =
      withCard (case k of Some b \<Rightarrow> d\<lparr>scBlocks := (scBlocks d)(b := data), scAnswer := [0x05, 0x00]\<rparr>
        | None \<Rightarrow> d\<lparr>scAnswer := [0x0D]\<rparr>) st2" for k
    using parts len by (simp add: spiWriteBlock_def cardTransfer_def cardReceive_def split: option.split)
  have "sdWriteDummyBytes cardHw (withCard (e\<lparr>scAnswer := [0x05, 0x00]\<rparr>) st2) = Some (withCard e st2)"
    "sdWriteDummyBytes cardHw (withCard (e\<lparr>scAnswer := [0x0D]\<rparr>) st2) = Some (withCard e st2)"
    if "cardIdle e" for e
  proof -
    have e: "scCommand e = []" "scAnswer e = []" "scData e = None" using that by (simp_all add: cardIdle_def)
    have one: "sdWriteDummyBytes cardHw (withCard (e\<lparr>scAnswer := v # rest\<rparr>) st2) =
        sdWriteDummyBytes cardHw (withCard (e\<lparr>scAnswer := rest\<rparr>) st2)" if "v \<noteq> 0xFF" for v rest
      using e that by (subst sdWriteDummyBytes.simps) simp
    show "sdWriteDummyBytes cardHw (withCard (e\<lparr>scAnswer := [0x05, 0x00]\<rparr>) st2) = Some (withCard e st2)"
      "sdWriteDummyBytes cardHw (withCard (e\<lparr>scAnswer := [0x0D]\<rparr>) st2) = Some (withCard e st2)"
      using e dummy_idle [OF that] by (simp_all add: one)
  qed
  note dummy = this(1) [of "d\<lparr>scBlocks := (scBlocks c)(b := data)\<rparr>"] this(2) [OF inv(1)]
  have "sdWriteBlock spiEnv cardHw cardSd b data st = Some (?f \<noteq> CardRefuses, st')"
    using assms(2) 1(1,2) 2(1) response_refused [OF inv(1), of st2] dummy inv(1) len
    unfolding sdWriteBlock_def Let_def 1(3)
    by (cases ?f)
      (simp_all add: 1(3) command response wait token block crc blocks not_le SdBlockSize_def SdBlockSizeBits_def
        del: sdWaitForResponse.simps writeByte)
  then show ?thesis
    using 1(5) 2(2-4) inv assms(3)
    by (intro exI [of _ st']) (simp add: cardBlocks_def cardBase_def c_def [symmetric] d_def)
qed

lemma cardInv_upd: "cardInv st \<Longrightarrow> cardInv (updHwDevice d f st)" "cardBlocks (updHwDevice d f st) = cardBlocks st"
  "faultless (updHwDevice d f st) = faultless st"
  by (simp_all add: cardInv_def cardBase_def cardBlocks_def faultless_def spiFree_def updHwDevice_def)

lemma nextFault_mem: "nextFault fs = f \<Longrightarrow> f \<noteq> CardAccepts \<Longrightarrow> f \<in> set fs"
  by (auto simp: nextFault_def split: list.splits)

lemma faults_tl: "f \<notin> set fs \<Longrightarrow> f \<notin> set (tl fs)"
  by (cases fs) simp_all

text \<open>The contract for a card that may refuse commands and fail to read, and for one without faults.\<close>

interpretation faulty: block_card spiEnv cardHw cardSd cardInv cardBlocks False
proof unfold_locales
  show "\<exists>r st'. sdReadBlock spiEnv cardHw cardSd b st = Some (r, st') \<and> cardInv st' \<and> cardBlocks st' = cardBlocks st \<and>
      gHwDevices (globalsOf st') = gHwDevices (globalsOf st) \<and> (r = None \<and> \<not> False \<or> r = Some (cardBlocks st b))"
    if "cardInv st" "b < sdBlockCount cardSd" for st b
    using card_reads [of st b] that by (auto simp: cardInv_def)
  show "\<exists>ok st'. sdWriteBlock spiEnv cardHw cardSd b data st = Some (ok, st') \<and> cardInv st' \<and>
      cardBlocks st' = (if ok then (cardBlocks st)(b := data) else cardBlocks st) \<and>
      gHwDevices (globalsOf st') = gHwDevices (globalsOf st) \<and> (False \<longrightarrow> ok)"
    if "cardInv st" "b < sdBlockCount cardSd" "length data = SdBlockSize" for st b data
  proof -
    let ?f = "nextFault (scWriteFaults (gHost (globalsOf st)))"
    have "?f \<noteq> CardDataError" using that(1) nextFault_mem [of _ CardDataError] by (auto simp: cardInv_def)
    then have "?f \<noteq> CardRefuses \<longleftrightarrow> ?f = CardAccepts" by (cases ?f) simp_all
    then show ?thesis
      using card_writes [of st b data] that by (auto simp: cardInv_def faults_tl)
  qed
  show "length (cardBlocks st b) = SdBlockSize" if "cardInv st" for st b
    using that by (simp add: cardInv_def cardBase_def cardBlocks_def)
qed (simp_all add: cardInv_upd)

lemma faultless_next:
  "faultless st \<Longrightarrow> nextFault (scReadFaults (gHost (globalsOf st))) = CardAccepts"
  "faultless st \<Longrightarrow> nextFault (scWriteFaults (gHost (globalsOf st))) = CardAccepts"
  by (simp_all add: faultless_def nextFault_def)

interpretation card: block_card spiEnv cardHw cardSd "\<lambda>st. cardInv st \<and> faultless st" cardBlocks True
proof unfold_locales
  show "\<exists>r st'. sdReadBlock spiEnv cardHw cardSd b st = Some (r, st') \<and> (cardInv st' \<and> faultless st') \<and>
      cardBlocks st' = cardBlocks st \<and>
      gHwDevices (globalsOf st') = gHwDevices (globalsOf st) \<and> (r = None \<and> \<not> True \<or> r = Some (cardBlocks st b))"
    if st: "cardInv st \<and> faultless st" and b: "b < sdBlockCount cardSd" for st b
  proof -
    have c: "cardBase st" "CardDataError \<notin> set (scWriteFaults (gHost (globalsOf st)))" "faultless st"
      using st by (simp_all add: cardInv_def)
    from card_reads [OF c(1) b] faultless_next(1) [OF c(3)] obtain st' where
      "sdReadBlock spiEnv cardHw cardSd b st = Some (Some (cardBlocks st b), st')" "cardBase st'"
      "cardBlocks st' = cardBlocks st" "gHwDevices (globalsOf st') = gHwDevices (globalsOf st)"
      "scReadFaults (gHost (globalsOf st')) = tl (scReadFaults (gHost (globalsOf st)))"
      "scWriteFaults (gHost (globalsOf st')) = scWriteFaults (gHost (globalsOf st))" by auto
    with c show ?thesis by (intro exI [of _ "Some (cardBlocks st b)"] exI [of _ st']) (simp add: cardInv_def faultless_def)
  qed
  show "\<exists>ok st'. sdWriteBlock spiEnv cardHw cardSd b data st = Some (ok, st') \<and> (cardInv st' \<and> faultless st') \<and>
      cardBlocks st' = (if ok then (cardBlocks st)(b := data) else cardBlocks st) \<and>
      gHwDevices (globalsOf st') = gHwDevices (globalsOf st) \<and> (True \<longrightarrow> ok)"
    if st: "cardInv st \<and> faultless st" and b: "b < sdBlockCount cardSd" "length data = SdBlockSize" for st b data
  proof -
    have c: "cardBase st" "CardDataError \<notin> set (scWriteFaults (gHost (globalsOf st)))" "faultless st"
      using st by (simp_all add: cardInv_def)
    from card_writes [OF c(1) b] faultless_next(2) [OF c(3)] obtain st' where
      "sdWriteBlock spiEnv cardHw cardSd b data st = Some (True, st')" "cardBase st'"
      "cardBlocks st' = (cardBlocks st)(b := data)" "gHwDevices (globalsOf st') = gHwDevices (globalsOf st)"
      "scReadFaults (gHost (globalsOf st')) = scReadFaults (gHost (globalsOf st))"
      "scWriteFaults (gHost (globalsOf st')) = tl (scWriteFaults (gHost (globalsOf st)))" by auto
    with c show ?thesis by (intro exI [of _ True] exI [of _ st']) (simp add: cardInv_def faultless_def)
  qed
  show "length (cardBlocks st b) = SdBlockSize" if "cardInv st \<and> faultless st" for st b
    using that by (simp add: cardInv_def cardBase_def cardBlocks_def)
qed (simp_all add: cardInv_upd)

lemma faultless_reader: "card.readerOk d st \<longleftrightarrow> faulty.readerOk d st \<and> faultless st"
  unfolding card.readerOk_def faulty.readerOk_def by auto

section \<open>The reader\<close>




text \<open>C38: A card that answers the data of a block with an error has not stored it, but \<open>sdWriteBlock\<close> reports success,
  because it never looks at that answer. So a flush of a dirty block reports success too and takes the cache
  for clean, while the block on the card is what it was.
\<close>

theorem sd_rejected_block_counts_as_written:
  assumes card: "cardBase st" "nextFault (scWriteFaults (gHost (globalsOf st))) = CardDataError"
    and reader: "readerMounted d st" "unat d < length (gHwDevices (globalsOf st))" "srSdCard (readerOf st d) = cardSd"
    and cache: "srCacheIsValid (readerOf st d)" "srCacheIsDirty (readerOf st d)"
      "srCacheBlock (readerOf st d) < sdBlockCount cardSd" "length (srCache (readerOf st d)) = SdBlockSize"
  shows "\<exists>st'. hwDeviceSdCardReaderFlushFunctor spiEnv cardHw d st = Some (True, st') \<and>
    cardBlocks st' = cardBlocks st \<and> \<not> srCacheIsDirty (readerOf st' d)"
proof -
  let ?r = "readerOf st d"
  obtain st1 where 1: "sdWriteBlock spiEnv cardHw cardSd (srCacheBlock ?r) (srCache ?r) st = Some (True, st1)"
    "cardBlocks st1 = cardBlocks st" "gHwDevices (globalsOf st1) = gHwDevices (globalsOf st)"
    using card_writes [OF card(1) cache(3,4)] card(2) by auto
  let ?st' = "updReader d (\<lambda>r. r\<lparr>srCacheIsDirty := False\<rparr>) st1"
  have "hwDeviceSdCardReaderFlushFunctor spiEnv cardHw d st = Some (True, ?st')"
    using reader cache 1(1) by (simp add: hwDeviceSdCardReaderFlushFunctor_def)
  moreover have "cardBlocks ?st' = cardBlocks st" using 1(2) by (simp add: updReader_def cardInv_upd)
  moreover have "\<not> srCacheIsDirty (readerOf ?st' d)" using reader(2) 1(3) by (simp add: updReader_def)
  ultimately show ?thesis by blast
qed

subsection \<open>On the card above\<close>

definition exReader :: HwDevice where
  "exReader = \<lparr>hdType = 2, hdPins = [2, 3],
     hdKeypad = \<lparr>kpMountPoint = kstrNull, kpStates = 0, kpCircBuf = circBufInit [] 0\<rparr>,
     hdSdCardReader = \<lparr>srMountPoint = kstrNull, srSdCard = cardSd, srCache = replicate 512 7,
       srCacheIsValid = True, srCacheIsDirty = True, srCacheBlock = 1\<rparr>,
     hdDht22 = \<lparr>dhtLastReadTime = 0, dhtTemperature = 0, dhtHumitity = 0\<rparr>\<rparr>"

definition exCardFs :: "CardFault list \<Rightarrow> CardFault list \<Rightarrow> SpiCard KFs" where
  "exCardFs readFaults writeFaults = \<lparr>kfsFdt = spiFdt, kfsDevices = spiDevices, kfsWorld = \<lparr>kwMounts = [],
     kwGlobals = \<lparr>gTty = ttyInit, gPins = pinsInitial, gTime = \<lparr>ktimeBootTime = 0, ktimeRealTimeOffset = 0\<rparr>,
       gSpiLockFd = KernelFsFdInvalid, gSpiSlaveSelectPin = 255, gHwDevices = [exReader], gRamData = [],
       gEeprom = [], gHostFiles = [], gHost = \<lparr>scBlocks = \<lambda>b. replicate 512 (ucast b), scCommand = [], scAnswer = [],
         scData = None, scReadFaults = readFaults, scWriteFaults = writeFaults\<rparr>\<rparr>\<rparr>\<rparr>"

lemma exCard_base: "cardBase (exCardFs rs ws)"
  by (simp add: exCardFs_def cardBase_def spiFree_def globalsOf_def cardIdle_def SdBlockSize_def SdBlockSizeBits_def)

lemma exCard_reader: "readerOf (exCardFs rs ws) 0 = hdSdCardReader exReader"
  "gHwDevices (globalsOf (exCardFs rs ws)) = [exReader]" "hwDeviceOf (exCardFs rs ws) 0 = exReader"
  "gHost (globalsOf (exCardFs rs ws)) = \<lparr>scBlocks = \<lambda>b. replicate 512 (ucast b), scCommand = [], scAnswer = [],
         scData = None, scReadFaults = rs, scWriteFaults = ws\<rparr>"
  by (simp_all add: exCardFs_def globalsOf_def hwDeviceOf_def)

lemma exCard_faulty: "CardDataError \<notin> set ws \<Longrightarrow> faulty.readerOk 0 (exCardFs rs ws)"
  unfolding faulty.readerOk_def
  by (simp add: cardInv_def exCard_base exCard_reader exReader_def cardSd_def HwDeviceIdMax_def hwtype_consts
      SdBlockSize_def SdBlockSizeBits_def)

lemma exCard_ok: "card.readerOk 0 (exCardFs [] [])"
  unfolding faultless_reader using exCard_faulty [of "[]" "[]"] by (simp add: faultless_def exCard_reader)

lemma exCard_byte: "faulty.lbyte 0 (exCardFs rs ws) a = (if blockOf a = 1 then 7 else ucast (blockOf a))"
  using blockOffset_less [of a]
  by (auto simp: faulty.lbyte_def faulty.lblk_def exCard_reader exReader_def
      cardBlocks_def SdBlockSize_def SdBlockSizeBits_def)




lemma sd_rejected_block_counts_as_written_witness:
  "\<exists>st'. hwDeviceSdCardReaderFlushFunctor spiEnv cardHw 0 (exCardFs [] [CardDataError]) = Some (True, st') \<and>
    cardBlocks st' 1 = replicate 512 1 \<and> srCache (hdSdCardReader exReader) = replicate 512 7"
proof -
  have m: "readerMounted 0 (exCardFs [] [CardDataError])"
    by (simp add: readerMounted_def hwDeviceGetType_def exCard_reader exReader_def cardSd_def HwDeviceIdMax_def
        hwtype_consts)
  show ?thesis
    using sd_rejected_block_counts_as_written [OF exCard_base _ m]
    by (auto simp: exCard_reader exReader_def nextFault_def cardBlocks_def cardSd_def SdBlockSize_def SdBlockSizeBits_def)
qed

end
