(* ===== verification/ProcMan.thy ===== *)
theory ProcMan
  imports KernelMount Bytecode Util
begin

text \<open>
  \<open>src/kernel/procman.c\<close>, first part: the process table, the data each process keeps in a
  file of its own, and the memory a program sees. Addresses below \<open>BytecodeMemoryRamAddr\<close>
  read the executable; above it they read and write the process' ram file, whose first bytes hold
  the arguments and environment and show again in the last kilobyte of the address space.

  A process is named by its index in the table. \<open>None\<close> is a failed assertion or undefined
  behaviour; a C function that returns false has the value \<open>False\<close> or an inner
  \<open>None\<close>, with the state it leaves. Log messages and the profiling counters of the host build
  are left out.
\<close>

section \<open>Data\<close>

definition procManProcessInstructionCounterMax :: u16 where
  "procManProcessInstructionCounterMax = 65500"
definition procManProcessInstructionsPerTick :: nat where "procManProcessInstructionsPerTick = 160"
definition procManTicksPerInstructionCounterReset :: u16 where
  "procManTicksPerInstructionCounterReset =
     procManProcessInstructionCounterMax div of_nat procManProcessInstructionsPerTick"

definition ProcManSignalHandlerInvalid :: u8 where "ProcManSignalHandlerInvalid = 0"
definition ProcManArgLenMax :: nat where "ProcManArgLenMax = 64"
definition ProcManEnvVarPathMax :: nat where "ProcManEnvVarPathMax = 128"
definition ProcManPipeSize :: u32 where "ProcManPipeSize = 128"
definition ProcManMaxPipes :: nat where "ProcManMaxPipes = 64"
definition ProcManEnvVarsVirtualOffset :: u16 where "ProcManEnvVarsVirtualOffset = 64512"
definition ProcManPidMax :: nat where "ProcManPidMax = 16"
definition ProcManLocalFdInvalid :: u8 where "ProcManLocalFdInvalid = 0"
definition ProcManMaxFds :: nat where "ProcManMaxFds = 9"
definition ARGVMAX :: u8 where "ARGVMAX = 255"

type_synonym ProcManPid = u8
type_synonym ProcManLocalFd = u8
type_synonym ProcManExitStatus = u16

definition ProcManExitStatusSuccess :: ProcManExitStatus where "ProcManExitStatusSuccess = 0"
definition ProcManExitStatusInterrupted :: ProcManExitStatus where "ProcManExitStatusInterrupted = 65531"
definition ProcManExitStatusNoProcess :: ProcManExitStatus where "ProcManExitStatusNoProcess = 65532"
definition ProcManExitStatusKilled :: ProcManExitStatus where "ProcManExitStatusKilled = 65534"
definition ProcManExitStatusTimeout :: ProcManExitStatus where "ProcManExitStatusTimeout = 65535"

text \<open>The union of state data is only read in the state it was written for, so it is the
  argument of that state. A time out is kept in 48 bits.\<close>

datatype ProcManProcessState =
    ProcManProcessStateUnused
  | ProcManProcessStateActive
  | ProcManProcessStateWaitingWaitpid u8 "48 word"
  | ProcManProcessStateWaitingRead KernelFsFd
  | ProcManProcessStateWaitingRead32 KernelFsFd
  | ProcManProcessStateWaitingWrite KernelFsFd
  | ProcManProcessStateWaitingWrite32 KernelFsFd
  | ProcManProcessStateExiting

record ProcManProcess =
  prInstructionCounter :: u16
  prProgmemFd :: KernelFsFd
  prProcFd :: KernelFsFd
  prState :: ProcManProcessState

record ProcManProcessProcData =
  pdRegs :: "u16 list"
  pdSignalHandlers :: "u8 list"
  pdRamLen :: u16
  pdEnvVarDataLen :: u8
  pdRamFd :: KernelFsFd
  pdFds :: "KernelFsFd list"
  pdArgc :: u8
  pdPadding :: u8
  pdPwd :: u16
  pdPath :: u16

text \<open>The states of \<open>kernel.h\<close>.\<close>

datatype KernelRunState =
    KernelStateInvalid | KernelStateBooting | KernelStateRunning | KernelStateShuttingDownWaitAll
  | KernelStateShuttingDownWaitInit | KernelStateShuttingDownFinal | KernelStateShutdown

text \<open>The process table and its tick counter, with the globals of \<open>kernel.c\<close> and
  \<open>log.c\<close> that the system calls use.\<close>

record 'w ProcMan =
  kFs :: "'w KFs"
  pmProcesses :: "ProcManProcess list"
  pmTicks :: u16
  pmKernelState :: KernelRunState
  pmKernelStateTime :: KTime
  pmLogLevel :: u16

definition onFs :: "('w KFs \<Rightarrow> ('a \<times> 'w KFs) option) \<Rightarrow> 'w ProcMan \<Rightarrow> ('a \<times> 'w ProcMan) option" where
  "onFs f st = map_option (\<lambda>(r, fs). (r, st\<lparr>kFs := fs\<rparr>)) (f (kFs st))"

definition procOf :: "'w ProcMan \<Rightarrow> ProcManPid \<Rightarrow> ProcManProcess" where
  "procOf st pid = pmProcesses st ! unat pid"

definition updProc :: "ProcManPid \<Rightarrow> (ProcManProcess \<Rightarrow> ProcManProcess) \<Rightarrow> 'w ProcMan \<Rightarrow> 'w ProcMan" where
  "updProc pid f st = st\<lparr>pmProcesses := (pmProcesses st)[unat pid := f (procOf st pid)]\<rparr>"

definition getReg :: "ProcManProcessProcData \<Rightarrow> u8 \<Rightarrow> u16" where
  "getReg pd r = pdRegs pd ! unat r"

definition setReg :: "u8 \<Rightarrow> u16 \<Rightarrow> ProcManProcessProcData \<Rightarrow> ProcManProcessProcData" where
  "setReg r v pd = pd\<lparr>pdRegs := (pdRegs pd)[unat r := v]\<rparr>"

subsection \<open>The table\<close>

definition unusedProcess :: "ProcManProcess \<Rightarrow> ProcManProcess" where
  "unusedProcess p = p\<lparr>prState := ProcManProcessStateUnused, prProgmemFd := KernelFsFdInvalid,
     prProcFd := KernelFsFdInvalid, prInstructionCounter := 0\<rparr>"

definition procManInit :: "'w ProcMan \<Rightarrow> 'w ProcMan" where
  "procManInit st = st\<lparr>pmProcesses := map unusedProcess (pmProcesses st), pmTicks := 0\<rparr>"

definition procManGetProcessByPid :: "'w ProcMan \<Rightarrow> ProcManPid \<Rightarrow> ProcManPid option" where
  "procManGetProcessByPid st pid =
     (if unat pid \<ge> ProcManPidMax then None
      else if prProgmemFd (procOf st pid) = KernelFsFdInvalid then None
      else Some pid)"

definition procManProcessExists :: "'w ProcMan \<Rightarrow> ProcManPid \<Rightarrow> bool" where
  "procManProcessExists st pid \<longleftrightarrow> procManGetProcessByPid st pid \<noteq> None"

definition allPids :: "ProcManPid list" where
  "allPids = map of_nat [0..<ProcManPidMax]"

definition procManGetProcessCount :: "'w ProcMan \<Rightarrow> u8" where
  "procManGetProcessCount st = of_nat (length (filter (procManProcessExists st) allPids))"

definition procManFindUnusedPid :: "'w ProcMan \<Rightarrow> ProcManPid" where
  "procManFindUnusedPid st =
     (case List.find (\<lambda>pid. prState (procOf st pid) = ProcManProcessStateUnused) allPids of
        None \<Rightarrow> of_nat ProcManPidMax | Some pid \<Rightarrow> pid)"

definition procManResetInstructionCounters :: "'w ProcMan \<Rightarrow> 'w ProcMan" where
  "procManResetInstructionCounters st =
     st\<lparr>pmProcesses := map (\<lambda>p. p\<lparr>prInstructionCounter := 0\<rparr>) (pmProcesses st)\<rparr>"

section \<open>The process data file\<close>

text \<open>The code copies the struct itself to the file and back. What the file then holds is the
  layout of the struct in the memory of the host build, little-endian words and one byte of padding
  before the last two; the program has no function for it.\<close>

definition le16_bytes :: "u16 \<Rightarrow> u8 list" where
  "le16_bytes w = [lo8 w, hi8 w]"

definition procDataBytes :: "ProcManProcessProcData \<Rightarrow> u8 list" where
  "procDataBytes pd =
     concat (map le16_bytes (pdRegs pd)) @ pdSignalHandlers pd @ le16_bytes (pdRamLen pd) @
     [pdEnvVarDataLen pd, pdRamFd pd] @ pdFds pd @ [pdArgc pd, pdPadding pd] @
     le16_bytes (pdPwd pd) @ le16_bytes (pdPath pd)"

definition procDataSize :: nat where "procDataSize = 38"
definition procDataOffsetRamLen :: u32 where "procDataOffsetRamLen = 20"
definition procDataOffsetEnvVarDataLen :: u32 where "procDataOffsetEnvVarDataLen = 22"
definition procDataOffsetRamFd :: u32 where "procDataOffsetRamFd = 23"

definition procDataOfBytes :: "u8 list \<Rightarrow> ProcManProcessProcData" where
  "procDataOfBytes b =
     \<lparr>pdRegs = map (\<lambda>i. be16 (b ! (2 * i + 1)) (b ! (2 * i))) [0..<8],
      pdSignalHandlers = take 4 (drop 16 b),
      pdRamLen = be16 (b ! 21) (b ! 20),
      pdEnvVarDataLen = b ! 22,
      pdRamFd = b ! 23,
      pdFds = take 8 (drop 24 b),
      pdArgc = b ! 32,
      pdPadding = b ! 33,
      pdPwd = be16 (b ! 35) (b ! 34),
      pdPath = be16 (b ! 37) (b ! 36)\<rparr>"

definition procManProcessLoadProcData ::
    "'w KEnv \<Rightarrow> ProcManPid \<Rightarrow> 'w ProcMan \<Rightarrow> (ProcManProcessProcData option \<times> 'w ProcMan) option" where
  "procManProcessLoadProcData env process st = do {
     (bytes, st) \<leftarrow> onFs (kernelFsFileReadOffset env (prProcFd (procOf st process)) 0
       (of_nat procDataSize)) st;
     Some (if length bytes = procDataSize then Some (procDataOfBytes bytes) else None, st)
   }"

definition procManProcessStoreProcData ::
    "'w KEnv \<Rightarrow> ProcManPid \<Rightarrow> ProcManProcessProcData \<Rightarrow> 'w ProcMan \<Rightarrow> (bool \<times> 'w ProcMan) option" where
  "procManProcessStoreProcData env process pd st = do {
     (n, st) \<leftarrow> onFs (kernelFsFileWriteOffset env (prProcFd (procOf st process)) 0
       (procDataBytes pd)) st;
     Some (n = of_nat procDataSize, st)
   }"

definition procManProcessLoadProcDataRamLen ::
    "'w KEnv \<Rightarrow> ProcManPid \<Rightarrow> 'w ProcMan \<Rightarrow> (u16 option \<times> 'w ProcMan) option" where
  "procManProcessLoadProcDataRamLen env process st =
     (if prProcFd (procOf st process) = KernelFsFdInvalid then Some (None, st)
      else do {
        (b, st) \<leftarrow> onFs (kernelFsFileReadOffset env (prProcFd (procOf st process))
          procDataOffsetRamLen 2) st;
        Some (if length b = 2 then Some (be16 (b ! 1) (b ! 0)) else None, st)
      })"

definition procManProcessLoadProcDataEnvVarDataLen ::
    "'w KEnv \<Rightarrow> ProcManPid \<Rightarrow> 'w ProcMan \<Rightarrow> (u8 option \<times> 'w ProcMan) option" where
  "procManProcessLoadProcDataEnvVarDataLen env process st =
     (if prProcFd (procOf st process) = KernelFsFdInvalid then Some (None, st)
      else do {
        (b, st) \<leftarrow> onFs (kernelFsFileReadOffset env (prProcFd (procOf st process))
          procDataOffsetEnvVarDataLen 1) st;
        Some (if length b = 1 then Some (b ! 0) else None, st)
      })"

definition procManProcessLoadProcDataRamFd ::
    "'w KEnv \<Rightarrow> ProcManPid \<Rightarrow> 'w ProcMan \<Rightarrow> (KernelFsFd option \<times> 'w ProcMan) option" where
  "procManProcessLoadProcDataRamFd env process st =
     (if prProcFd (procOf st process) = KernelFsFdInvalid then Some (None, st)
      else do {
        (b, st) \<leftarrow> onFs (kernelFsFileReadOffset env (prProcFd (procOf st process))
          procDataOffsetRamFd 1) st;
        Some (if length b = 1 then Some (b ! 0) else None, st)
      })"

definition procManProcessSaveProcDataReg ::
    "'w KEnv \<Rightarrow> ProcManPid \<Rightarrow> u8 \<Rightarrow> u16 \<Rightarrow> 'w ProcMan \<Rightarrow> (bool \<times> 'w ProcMan) option" where
  "procManProcessSaveProcDataReg env process reg v st =
     (if prProcFd (procOf st process) = KernelFsFdInvalid then Some (False, st)
      else do {
        (n, st) \<leftarrow> onFs (kernelFsFileWriteOffset env (prProcFd (procOf st process))
          (2 * ucast reg) (le16_bytes v)) st;
        Some (n = 2, st)
      })"

section \<open>Reading memory\<close>

definition readExactly ::
    "'w KEnv \<Rightarrow> KernelFsFd \<Rightarrow> u32 \<Rightarrow> u16 \<Rightarrow> 'w ProcMan \<Rightarrow> (u8 list option \<times> 'w ProcMan) option" where
  "readExactly env fd offset len st = do {
     (bytes, st) \<leftarrow> onFs (kernelFsFileReadOffset env fd offset (ucast len)) st;
     Some (if length bytes = unat len then Some bytes else None, st)
   }"

text \<open>A block that would end exactly at the start of ram is refused, and so is the last byte
  of the executable's half.\<close>

definition procManProcessMemoryReadBlock ::
    "'w KEnv \<Rightarrow> ProcManPid \<Rightarrow> ProcManProcessProcData \<Rightarrow> u16 \<Rightarrow> u16 \<Rightarrow> 'w ProcMan \<Rightarrow>
     (u8 list option \<times> 'w ProcMan) option" where
  "procManProcessMemoryReadBlock env process pd addr len st =
     (if unat addr + unat len < unat BytecodeMemoryRamAddr then
        readExactly env (prProgmemFd (procOf st process)) (ucast addr) len st
      else if addr \<ge> BytecodeMemoryRamAddr then
        let ramIndex = addr - BytecodeMemoryRamAddr in
        if ramIndex < pdRamLen pd then
          readExactly env (pdRamFd pd) (ucast ramIndex + ucast (pdEnvVarDataLen pd)) len st
        else if addr \<ge> ProcManEnvVarsVirtualOffset then
          let offset = addr - ProcManEnvVarsVirtualOffset in
          if offset < ucast (pdEnvVarDataLen pd) then readExactly env (pdRamFd pd) (ucast offset) len st
          else Some (None, st)
        else Some (None, st)
      else Some (None, st))"

definition procManProcessMemoryReadByte ::
    "'w KEnv \<Rightarrow> ProcManPid \<Rightarrow> ProcManProcessProcData \<Rightarrow> u16 \<Rightarrow> 'w ProcMan \<Rightarrow>
     (u8 option \<times> 'w ProcMan) option" where
  "procManProcessMemoryReadByte env process pd addr st =
     map_option (\<lambda>(b, st). (map_option (\<lambda>b. b ! 0) b, st))
       (procManProcessMemoryReadBlock env process pd addr 1 st)"

definition procManProcessMemoryReadWord ::
    "'w KEnv \<Rightarrow> ProcManPid \<Rightarrow> ProcManProcessProcData \<Rightarrow> u16 \<Rightarrow> 'w ProcMan \<Rightarrow>
     (u16 option \<times> 'w ProcMan) option" where
  "procManProcessMemoryReadWord env process pd addr st =
     map_option (\<lambda>(b, st). (map_option (\<lambda>b. be16 (b ! 0) (b ! 1)) b, st))
       (procManProcessMemoryReadBlock env process pd addr 2 st)"

definition procManProcessMemoryReadDoubleWord ::
    "'w KEnv \<Rightarrow> ProcManPid \<Rightarrow> ProcManProcessProcData \<Rightarrow> u16 \<Rightarrow> 'w ProcMan \<Rightarrow>
     (u32 option \<times> 'w ProcMan) option" where
  "procManProcessMemoryReadDoubleWord env process pd addr st =
     map_option (\<lambda>(b, st). (map_option (\<lambda>b. be32 (b ! 0) (b ! 1) (b ! 2) (b ! 3)) b, st))
       (procManProcessMemoryReadBlock env process pd addr 4 st)"

text \<open>The bytes copied, the NUL included if one was met within \<open>len\<close> bytes.\<close>

primrec procManProcessMemoryReadStr ::
    "'w KEnv \<Rightarrow> ProcManPid \<Rightarrow> ProcManProcessProcData \<Rightarrow> u16 \<Rightarrow> nat \<Rightarrow> 'w ProcMan \<Rightarrow>
     (u8 list option \<times> 'w ProcMan) option" where
  "procManProcessMemoryReadStr env process pd addr 0 st = Some (Some [], st)"
| "procManProcessMemoryReadStr env process pd addr (Suc len) st =
     (case procManProcessMemoryReadByte env process pd addr st of
        None \<Rightarrow> None
      | Some (None, st') \<Rightarrow> Some (None, st')
      | Some (Some c, st') \<Rightarrow>
          if c = 0 then Some (Some [c], st')
          else map_option (\<lambda>(s, st''). (map_option (Cons c) s, st''))
            (procManProcessMemoryReadStr env process pd (addr + 1) len st'))"

section \<open>Writing memory\<close>

definition writeExactly ::
    "'w KEnv \<Rightarrow> KernelFsFd \<Rightarrow> u32 \<Rightarrow> u8 list \<Rightarrow> 'w ProcMan \<Rightarrow> (bool \<times> 'w ProcMan) option" where
  "writeExactly env fd offset data st = do {
     (n, st) \<leftarrow> onFs (kernelFsFileWriteOffset env fd offset data) st;
     Some (n = of_nat (length data), st)
   }"

text \<open>The search for a new size of the ram file: up to 15 bytes more than needed, then
  half as many, and the file is deleted when not even the least size can be had.\<close>

fun growRamLoop ::
    "'w KEnv \<Rightarrow> cstr \<Rightarrow> u16 \<Rightarrow> u16 \<Rightarrow> u16 list \<Rightarrow> 'w ProcMan \<Rightarrow> (u16 option \<times> 'w ProcMan) option" where
  "growRamLoop env ramFdPath lenMin totalMin [] st = Some (None, st)"
| "growRamLoop env ramFdPath lenMin totalMin (extra # rest) st =
     (case onFs (kernelFsFileResize env ramFdPath (ucast (totalMin + extra - 1))) st of
        None \<Rightarrow> None
      | Some (ok, st') \<Rightarrow>
          if ok then Some (Some (lenMin + extra - 1), st')
          else if extra \<le> 1 then
            map_option (\<lambda>(_, st''). (None, st'')) (onFs (kernelFsFileDelete env ramFdPath) st')
          else growRamLoop env ramFdPath lenMin totalMin rest st')"

text \<open>The path of an unused descriptor is null, and the buffer it would be copied to is not
  initialised.\<close>

definition growRam ::
    "'w KEnv \<Rightarrow> u16 \<Rightarrow> u8 list \<Rightarrow> ProcManProcessProcData \<Rightarrow> 'w ProcMan \<Rightarrow>
     (bool \<times> ProcManProcessProcData \<times> 'w ProcMan) option" where
  "growRam env ramIndex data pd st = do {
     pathK \<leftarrow> kernelFsGetFilePath (kFs st) (pdRamFd pd);
     if kstrIsNull pathK then None
     else do {
       let ramFdPath = kstrStrcpy [] pathK;
       (_, st) \<leftarrow> onFs (kernelFsFileClose (pdRamFd pd)) st;
       let pd = pd\<lparr>pdRamFd := KernelFsFdInvalid\<rparr>;
       let lenMin = ramIndex + of_nat (length data);
       let totalMin = ucast (pdEnvVarDataLen pd) + lenMin;
       (newRamLen, st) \<leftarrow> growRamLoop env ramFdPath lenMin totalMin [16, 8, 4, 2, 1] st;
       case newRamLen of
         None \<Rightarrow> Some (False, pd, st)
       | Some newRamLen \<Rightarrow> do {
           (ramFd, st) \<leftarrow> onFs (kernelFsFileOpen env ramFdPath KernelFsFdModeRW) st;
           let pd = pd\<lparr>pdRamFd := ramFd\<rparr>;
           if ramFd = KernelFsFdInvalid then do {
             (_, st) \<leftarrow> onFs (kernelFsFileDelete env ramFdPath) st;
             Some (False, pd, st)
           } else do {
             let pd = pd\<lparr>pdRamLen := newRamLen\<rparr>;
             (ok, st) \<leftarrow> writeExactly env ramFd (ucast (pdEnvVarDataLen pd) + ucast ramIndex) data st;
             Some (ok, pd, st)
           }
         }
     }
   }"

definition procManProcessMemoryWriteBlock ::
    "'w KEnv \<Rightarrow> ProcManPid \<Rightarrow> u16 \<Rightarrow> u8 list \<Rightarrow> ProcManProcessProcData \<Rightarrow> 'w ProcMan \<Rightarrow>
     (bool \<times> ProcManProcessProcData \<times> 'w ProcMan) option" where
  "procManProcessMemoryWriteBlock env process addr data pd st =
     (let len = length data; ramIndex = addr - BytecodeMemoryRamAddr in
      if addr < BytecodeMemoryRamAddr \<and> unat addr + len \<ge> unat BytecodeMemoryRamAddr then
        Some (False, pd, st)
      else if unat addr + len < unat BytecodeMemoryRamAddr then Some (False, pd, st)
      else if unat ramIndex + len < unat (pdRamLen pd) then do {
        (ok, st) \<leftarrow> writeExactly env (pdRamFd pd) (ucast (pdEnvVarDataLen pd) + ucast ramIndex) data st;
        Some (ok, pd, st)
      } else if addr \<ge> ProcManEnvVarsVirtualOffset then do {
        (ok, st) \<leftarrow> writeExactly env (pdRamFd pd) (ucast (addr - ProcManEnvVarsVirtualOffset)) data st;
        Some (ok, pd, st)
      } else do {
        (ok, pd, st) \<leftarrow> growRam env ramIndex data pd st;
        if ok then Some (True, pd, st)
        else do {
          (_, st) \<leftarrow> procManProcessStoreProcData env process pd st;
          Some (False, pd, st)
        }
      })"

definition procManProcessMemoryWriteByte ::
    "'w KEnv \<Rightarrow> ProcManPid \<Rightarrow> u16 \<Rightarrow> u8 \<Rightarrow> ProcManProcessProcData \<Rightarrow> 'w ProcMan \<Rightarrow>
     (bool \<times> ProcManProcessProcData \<times> 'w ProcMan) option" where
  "procManProcessMemoryWriteByte env process addr v = procManProcessMemoryWriteBlock env process addr [v]"

definition procManProcessMemoryWriteWord ::
    "'w KEnv \<Rightarrow> ProcManPid \<Rightarrow> u16 \<Rightarrow> u16 \<Rightarrow> ProcManProcessProcData \<Rightarrow> 'w ProcMan \<Rightarrow>
     (bool \<times> ProcManProcessProcData \<times> 'w ProcMan) option" where
  "procManProcessMemoryWriteWord env process addr v =
     procManProcessMemoryWriteBlock env process addr [hi8 v, lo8 v]"

definition procManProcessMemoryWriteDoubleWord ::
    "'w KEnv \<Rightarrow> ProcManPid \<Rightarrow> u16 \<Rightarrow> u32 \<Rightarrow> ProcManProcessProcData \<Rightarrow> 'w ProcMan \<Rightarrow>
     (bool \<times> ProcManProcessProcData \<times> 'w ProcMan) option" where
  "procManProcessMemoryWriteDoubleWord env process addr v =
     procManProcessMemoryWriteBlock env process addr (be32_bytes v)"

definition procManProcessMemoryWriteStr ::
    "'w KEnv \<Rightarrow> ProcManPid \<Rightarrow> u16 \<Rightarrow> cstr \<Rightarrow> ProcManProcessProcData \<Rightarrow> 'w ProcMan \<Rightarrow>
     (bool \<times> ProcManProcessProcData \<times> 'w ProcMan) option" where
  "procManProcessMemoryWriteStr env process addr str =
     procManProcessMemoryWriteBlock env process addr (str @ [0])"

end
