(* ===== verification/ProcManCpu.thy ===== *)
theory ProcManCpu
  imports ProcMan
begin

text \<open>
  \<open>src/kernel/procman.c\<close>, second part: the arguments of a process, the cache of prefetched
  code bytes, and the execution of the memory and ALU instructions. A result \<open>False\<close> has the
  process killed by the caller. The product of two 16 bit registers is computed in a signed
  \<open>int\<close> by the source; it is taken to wrap.
\<close>

section \<open>Arguments\<close>

lemma ReadByte_last_of_progmem:
  "procManProcessMemoryReadByte env process pd 0x7FFF st = Some (None, st)"
  by (simp add: procManProcessMemoryReadByte_def procManProcessMemoryReadBlock_def
      BytecodeMemoryRamAddr_def BytecodeMemoryProgmemAddr_def BytecodeMemoryProgmemSize_def)

lemma unat_countdown:
  "(a :: 'a::len word) \<noteq> b \<Longrightarrow> unat (b - (a + 1)) < unat (b - a)"
proof -
  assume "a \<noteq> b"
  then have nz: "b - a \<noteq> 0" by simp
  have "b - (a + 1) = (b - a) - 1" by simp
  moreover have "unat (b - a - 1) < unat (b - a)" using nz by (rule measure_unat)
  ultimately show ?thesis by (simp only:)
qed

text \<open>The scan over the arguments before the one sought. It ends because the last byte of
  the executable's half is never readable.\<close>

function argvSkip ::
    "'w KEnv \<Rightarrow> ProcManPid \<Rightarrow> ProcManProcessProcData \<Rightarrow> u8 \<Rightarrow> u16 \<Rightarrow> 'w ProcMan \<Rightarrow>
     (bool \<times> u16 \<times> 'w ProcMan) option" where
  "argvSkip env process pd n addr st =
     (if n = 0 then Some (True, addr, st)
      else case procManProcessMemoryReadByte env process pd addr st of
        None \<Rightarrow> None
      | Some (None, st') \<Rightarrow> Some (False, addr + 1, st')
      | Some (Some c, st') \<Rightarrow> argvSkip env process pd (if c = 0 then n - 1 else n) (addr + 1) st')"
  by pat_completeness auto

termination
proof (relation "measure (\<lambda>(env, process, pd, n, addr, st). unat (0x7FFF - addr))")
  fix env :: "'w KEnv" and process pd n and addr :: u16 and st :: "'w ProcMan" and x a b x2
  assume "procManProcessMemoryReadByte env process pd addr st = Some x" "(a, b) = x" "a = Some x2"
  then have "addr \<noteq> 0x7FFF" by (auto simp: ReadByte_last_of_progmem)
  then show "((env, process, pd, if x2 = 0 then n - 1 else n, addr + 1, b), env, process, pd, n, addr, st)
      \<in> measure (\<lambda>(env, process, pd, n, addr, st). unat (0x7FFF - addr))"
    using unat_countdown [of addr "0x7FFF"] by simp
qed simp

declare argvSkip.simps [simp del]

definition procManProcessGetArgvNAddr ::
    "'w KEnv \<Rightarrow> ProcManPid \<Rightarrow> ProcManProcessProcData \<Rightarrow> u8 \<Rightarrow> 'w ProcMan \<Rightarrow>
     (bool \<times> u16 \<times> 'w ProcMan) option" where
  "procManProcessGetArgvNAddr env process pd n st =
     (if n \<ge> ARGVMAX \<or> n \<ge> pdArgc pd then Some (True, 0, st)
      else argvSkip env process pd n ProcManEnvVarsVirtualOffset st)"

definition procManProcessGetArgvNStr ::
    "'w KEnv \<Rightarrow> ProcManPid \<Rightarrow> ProcManProcessProcData \<Rightarrow> u8 \<Rightarrow> 'w ProcMan \<Rightarrow>
     (u8 list option \<times> 'w ProcMan) option" where
  "procManProcessGetArgvNStr env process pd n st =
     (if n \<ge> ARGVMAX \<or> n \<ge> pdArgc pd then Some (Some [0], st)
      else do {
        (ok, addr, st) \<leftarrow> argvSkip env process pd n ProcManEnvVarsVirtualOffset st;
        if \<not> ok then Some (None, st) else procManProcessMemoryReadStr env process pd addr 65535 st
      })"

section \<open>Fetching instructions\<close>

definition ProcManPrefetchDataBufferSize :: nat where "ProcManPrefetchDataBufferSize = 32"

record ProcManPrefetchData =
  pfBuffer :: "u8 list"
  pfBaseAddr :: u16
  pfLen :: u16

definition procManPrefetchDataClear :: "ProcManPrefetchData \<Rightarrow> ProcManPrefetchData" where
  "procManPrefetchDataClear pf = pf\<lparr>pfLen := 0\<rparr>"

text \<open>The largest block of 32, 16, 8, 4, 2 or 1 bytes that can be read from an address.\<close>

fun prefetchFill ::
    "'w KEnv \<Rightarrow> ProcManPid \<Rightarrow> ProcManProcessProcData \<Rightarrow> u16 \<Rightarrow> u16 list \<Rightarrow>
     'w ProcMan \<Rightarrow> (u8 list \<times> 'w ProcMan) option" where
  "prefetchFill env process pd addr [] st = Some ([], st)"
| "prefetchFill env process pd addr (len # rest) st =
     (case procManProcessMemoryReadBlock env process pd addr len st of
        None \<Rightarrow> None
      | Some (Some bytes, st') \<Rightarrow> Some (bytes, st')
      | Some (None, st') \<Rightarrow> prefetchFill env process pd addr rest st')"

definition procManPrefetchDataReadByte ::
    "'w KEnv \<Rightarrow> ProcManPid \<Rightarrow> ProcManProcessProcData \<Rightarrow> u16 \<Rightarrow> ProcManPrefetchData \<Rightarrow>
     'w ProcMan \<Rightarrow> (u8 option \<times> ProcManPrefetchData \<times> 'w ProcMan) option" where
  "procManPrefetchDataReadByte env process pd addr pf st =
     (if addr < pfBaseAddr pf \<or> unat addr \<ge> unat (pfBaseAddr pf) + unat (pfLen pf) then do {
        (bytes, st) \<leftarrow> prefetchFill env process pd addr [32, 16, 8, 4, 2, 1] st;
        if bytes = [] then Some (None, pf\<lparr>pfLen := 0\<rparr>, st)
        else Some (Some (bytes ! 0),
               \<lparr>pfBuffer = bytes, pfBaseAddr = addr, pfLen = of_nat (length bytes)\<rparr>, st)
      } else Some (Some (pfBuffer pf ! unat (addr - pfBaseAddr pf)), pf, st))"

text \<open>The next code byte: the instruction pointer moves on even if the byte cannot be
  read.\<close>

definition fetchByte ::
    "'w KEnv \<Rightarrow> ProcManPid \<Rightarrow> ProcManProcessProcData \<Rightarrow> ProcManPrefetchData \<Rightarrow> 'w ProcMan \<Rightarrow>
     (u8 option \<times> ProcManProcessProcData \<times> ProcManPrefetchData \<times> 'w ProcMan) option" where
  "fetchByte env process pd pf st = do {
     let ip = getReg pd BytecodeRegisterIP;
     let pd = setReg BytecodeRegisterIP (ip + 1) pd;
     (b, pf, st) \<leftarrow> procManPrefetchDataReadByte env process pd ip pf st;
     Some (b, pd, pf, st)
   }"

text \<open>Bytes past the length of the instruction stay uninitialised.\<close>

definition procManProcessGetInstruction ::
    "'w KEnv \<Rightarrow> ProcManPid \<Rightarrow> ProcManProcessProcData \<Rightarrow> ProcManPrefetchData \<Rightarrow> 'w ProcMan \<Rightarrow>
     (instr3 option \<times> ProcManProcessProcData \<times> ProcManPrefetchData \<times> 'w ProcMan) option" where
  "procManProcessGetInstruction env process pd pf st = do {
     (b0, pd, pf, st) \<leftarrow> fetchByte env process pd pf st;
     case b0 of None \<Rightarrow> Some (None, pd, pf, st)
     | Some b0 \<Rightarrow>
       let len = bytecodeInstructionParseLength (b0, envIndet env 1, envIndet env 2) in
       if len = BytecodeInstructionLength1Byte
       then Some (Some (b0, envIndet env 1, envIndet env 2), pd, pf, st)
       else do {
         (b1, pd, pf, st) \<leftarrow> fetchByte env process pd pf st;
         case b1 of None \<Rightarrow> Some (None, pd, pf, st)
         | Some b1 \<Rightarrow>
           if len = BytecodeInstructionLength2Byte
           then Some (Some (b0, b1, envIndet env 2), pd, pf, st)
           else do {
             (b2, pd, pf, st) \<leftarrow> fetchByte env process pd pf st;
             Some (map_option (\<lambda>b2. (b0, b1, b2)) b2, pd, pf, st)
           }
       }
   }"

section \<open>Memory instructions\<close>

definition procManProcessExecInstructionMemory ::
    "'w KEnv \<Rightarrow> ProcManPid \<Rightarrow> BytecodeInstructionMemoryInfo \<Rightarrow> ProcManProcessProcData \<Rightarrow> 'w ProcMan \<Rightarrow>
     (bool \<times> ProcManProcessProcData \<times> 'w ProcMan) option" where
  "procManProcessExecInstructionMemory env process info pd st =
     (case memType info of
        BytecodeInstructionMemoryTypeStore8 \<Rightarrow>
          procManProcessMemoryWriteByte env process (getReg pd (memDestReg info))
            (ucast (getReg pd (memSrcReg info))) pd st
      | BytecodeInstructionMemoryTypeLoad8 \<Rightarrow> do {
          (v, st) \<leftarrow> procManProcessMemoryReadByte env process pd (getReg pd (memSrcReg info)) st;
          case v of
            None \<Rightarrow> Some (False, pd, st)
          | Some v \<Rightarrow> Some (True, setReg (memDestReg info) (ucast v) pd, st)
        }
      | BytecodeInstructionMemoryTypeSet4 \<Rightarrow>
          Some (True, setReg (memDestReg info) (ucast (memSet4Value info)) pd, st)
      | BytecodeInstructionMemoryTypeOther \<Rightarrow> Some (False, pd, st))"

section \<open>ALU instructions\<close>

definition cmpBits :: "u16 \<Rightarrow> u16 \<Rightarrow> u16" where
  "cmpBits opA opB =
     push_bit 0 (of_bool (opA = opB)) OR push_bit 1 (of_bool (opA = 0)) OR
     push_bit 2 (of_bool (opA \<noteq> opB)) OR push_bit 3 (of_bool (opA \<noteq> 0)) OR
     push_bit 4 (of_bool (opA < opB)) OR push_bit 5 (of_bool (opA \<le> opB)) OR
     push_bit 6 (of_bool (opA > opB)) OR push_bit 7 (of_bool (opA \<ge> opB))"

primrec skipInstructions ::
    "'w KEnv \<Rightarrow> ProcManPid \<Rightarrow> nat \<Rightarrow> ProcManProcessProcData \<Rightarrow> ProcManPrefetchData \<Rightarrow> 'w ProcMan \<Rightarrow>
     (bool \<times> ProcManProcessProcData \<times> ProcManPrefetchData \<times> 'w ProcMan) option" where
  "skipInstructions env process 0 pd pf st = Some (True, pd, pf, st)"
| "skipInstructions env process (Suc n) pd pf st =
     (case procManProcessGetInstruction env process pd pf st of
        None \<Rightarrow> None
      | Some (None, pd', pf', st') \<Rightarrow> Some (False, pd', pf', st')
      | Some (Some _, pd', pf', st') \<Rightarrow> skipInstructions env process n pd' pf' st')"

definition aluExtra ::
    "'w KEnv \<Rightarrow> ProcManPid \<Rightarrow> BytecodeInstructionAluInfo \<Rightarrow> ProcManProcessProcData \<Rightarrow> 'w ProcMan \<Rightarrow>
     (bool \<times> ProcManProcessProcData \<times> 'w ProcMan) option" where
  "aluExtra env process info pd st =
     (let dest = aluDestReg info; opAReg = aluOpAReg info; opA = getReg pd opAReg in
      case aluExtraTypeOfNat (unat (aluOpBReg info)) of
        None \<Rightarrow> Some (False, pd, st)
      | Some BytecodeInstructionAluExtraTypeNot \<Rightarrow> Some (True, setReg dest (NOT opA) pd, st)
      | Some BytecodeInstructionAluExtraTypeStore16 \<Rightarrow>
          procManProcessMemoryWriteWord env process (getReg pd dest) opA pd st
      | Some BytecodeInstructionAluExtraTypeLoad16 \<Rightarrow> do {
          (v, st) \<leftarrow> procManProcessMemoryReadWord env process pd opA st;
          case v of None \<Rightarrow> Some (False, pd, st) | Some v \<Rightarrow> Some (True, setReg dest v pd, st)
        }
      | Some BytecodeInstructionAluExtraTypePush16 \<Rightarrow> do {
          (ok, pd, st) \<leftarrow> procManProcessMemoryWriteWord env process (getReg pd dest) opA pd st;
          if \<not> ok then Some (False, pd, st)
          else Some (True, setReg dest (getReg pd dest + 2) pd, st)
        }
      | Some BytecodeInstructionAluExtraTypePop16 \<Rightarrow> do {
          let pd = setReg opAReg (opA - 2) pd;
          (v, st) \<leftarrow> procManProcessMemoryReadWord env process pd (getReg pd opAReg) st;
          case v of None \<Rightarrow> Some (False, pd, st) | Some v \<Rightarrow> Some (True, setReg dest v pd, st)
        }
      | Some BytecodeInstructionAluExtraTypeCall \<Rightarrow> do {
          (ok, pd, st) \<leftarrow> procManProcessMemoryWriteWord env process opA (getReg pd BytecodeRegisterIP) pd st;
          if \<not> ok then Some (False, pd, st)
          else do {
            let pd = setReg opAReg (getReg pd opAReg + 2) pd;
            Some (True, setReg BytecodeRegisterIP (getReg pd dest) pd, st)
          }
        }
      | Some BytecodeInstructionAluExtraTypeXchg8 \<Rightarrow> do {
          (memValue, st) \<leftarrow> procManProcessMemoryReadByte env process pd (getReg pd dest) st;
          case memValue of
            None \<Rightarrow> Some (False, pd, st)
          | Some memValue \<Rightarrow> do {
              (ok, pd, st) \<leftarrow> procManProcessMemoryWriteByte env process (getReg pd dest)
                (ucast (opA AND 255)) pd st;
              if \<not> ok then Some (False, pd, st)
              else Some (True, setReg opAReg (ucast memValue) pd, st)
            }
        }
      | Some BytecodeInstructionAluExtraTypeClz \<Rightarrow>
          Some (True, setReg dest (of_int (clz16 opA)) pd, st))"

text \<open>The instructions that only change a register, \<open>None\<close> for a division by zero.\<close>

definition aluResult :: "BytecodeInstructionAluType \<Rightarrow> u16 \<Rightarrow> u16 \<Rightarrow> u16 \<Rightarrow> u16 \<Rightarrow> u16 option" where
  "aluResult t d incDecValue opA opB =
     (case t of
        BytecodeInstructionAluTypeInc \<Rightarrow> Some (d + incDecValue)
      | BytecodeInstructionAluTypeDec \<Rightarrow> Some (d - incDecValue)
      | BytecodeInstructionAluTypeAdd \<Rightarrow> Some (opA + opB)
      | BytecodeInstructionAluTypeSub \<Rightarrow> Some (opA - opB)
      | BytecodeInstructionAluTypeMul \<Rightarrow> Some (opA * opB)
      | BytecodeInstructionAluTypeDiv \<Rightarrow> (if opB = 0 then None else Some (opA div opB))
      | BytecodeInstructionAluTypeXor \<Rightarrow> Some (opA XOR opB)
      | BytecodeInstructionAluTypeOr \<Rightarrow> Some (opA OR opB)
      | BytecodeInstructionAluTypeAnd \<Rightarrow> Some (opA AND opB)
      | BytecodeInstructionAluTypeCmp \<Rightarrow> Some (cmpBits opA opB)
      | BytecodeInstructionAluTypeShiftLeft \<Rightarrow> Some (if opB < 16 then push_bit (unat opB) opA else 0)
      | BytecodeInstructionAluTypeShiftRight \<Rightarrow> Some (if opB < 16 then drop_bit (unat opB) opA else 0)
      | _ \<Rightarrow> None)"

definition procManProcessExecInstructionAlu ::
    "'w KEnv \<Rightarrow> ProcManPid \<Rightarrow> BytecodeInstructionAluInfo \<Rightarrow> ProcManProcessProcData \<Rightarrow>
     ProcManPrefetchData \<Rightarrow> 'w ProcMan \<Rightarrow>
     (bool \<times> ProcManProcessProcData \<times> ProcManPrefetchData \<times> 'w ProcMan) option" where
  "procManProcessExecInstructionAlu env process info pd pf st =
     (let dest = aluDestReg info; opA = getReg pd (aluOpAReg info); opB = getReg pd (aluOpBReg info) in
      case aluType info of
        BytecodeInstructionAluTypeSkip \<Rightarrow>
          (if getReg pd dest AND push_bit (unat (aluOpAReg info)) 1 \<noteq> 0
           then skipInstructions env process (unat (aluOpBReg info) + 1) pd pf st
           else Some (True, pd, pf, st))
      | BytecodeInstructionAluTypeExtra \<Rightarrow>
          map_option (\<lambda>(ok, pd, st). (ok, pd, pf, st)) (aluExtra env process info pd st)
      | t \<Rightarrow>
          (case aluResult t (getReg pd dest) (ucast (aluIncDecValue info)) opA opB of
             None \<Rightarrow> Some (False, pd, pf, st)
           | Some v \<Rightarrow> Some (True, setReg dest v pd, pf, st)))"

end
