(* ===== verification/ProcManFile.thy ===== *)
theory ProcManFile
  imports ProcManCpu
begin

text \<open>
  \<open>src/kernel/procman.c\<close>, third part: the table of open files of a process, whose indexes
  are the descriptors a program sees, and the transfers between files and memory. The last
  reference to a pipe's device file takes the pipe down.
\<close>

section \<open>C strings\<close>

text \<open>A string that fills the buffer it was read into has no NUL; what follows reads past
  it.\<close>

definition terminatedStr :: "u8 list \<Rightarrow> cstr option" where
  "terminatedStr s = (if 0 \<in> set s then Some (takeWhile (\<lambda>b. b \<noteq> 0) s) else None)"

section \<open>The table of open files\<close>

definition getFd :: "ProcManProcessProcData \<Rightarrow> ProcManLocalFd \<Rightarrow> KernelFsFd" where
  "getFd pd localFd = pdFds pd ! (unat localFd - 1)"

definition setFd :: "ProcManLocalFd \<Rightarrow> KernelFsFd \<Rightarrow> ProcManProcessProcData \<Rightarrow> ProcManProcessProcData" where
  "setFd localFd fd pd = pd\<lparr>pdFds := (pdFds pd)[unat localFd - 1 := fd]\<rparr>"

definition localFds :: "ProcManLocalFd list" where
  "localFds = map of_nat [1..<ProcManMaxFds]"

text \<open>The test for a full table compares with the last valid descriptor: that slot is never
  used, and with all slots taken the entry past the table is written.\<close>

definition procManProcessOpenFile ::
    "'w KEnv \<Rightarrow> cstr \<Rightarrow> KernelFsFdMode \<Rightarrow> ProcManProcessProcData \<Rightarrow> 'w ProcMan \<Rightarrow>
     (ProcManLocalFd \<times> ProcManProcessProcData \<times> 'w ProcMan) option" where
  "procManProcessOpenFile env path mode pd st =
     (if mode = KernelFsFdModeNone \<or> unat mode \<ge> KernelFsFdModeMax then
        Some (ProcManLocalFdInvalid, pd, st)
      else case List.find (\<lambda>localFd. getFd pd localFd = KernelFsFdInvalid) localFds of
        None \<Rightarrow> None
      | Some localFd \<Rightarrow>
          if unat localFd = ProcManMaxFds - 1 then Some (ProcManLocalFdInvalid, pd, st)
          else do {
            (fd, st) \<leftarrow> onFs (kernelFsFileOpen env path mode) st;
            let pd = setFd localFd fd pd;
            Some (if fd = KernelFsFdInvalid then ProcManLocalFdInvalid else localFd, pd, st)
          })"

definition pipeIdOf :: "cstr \<Rightarrow> u32" where
  "pipeIdOf path = (if take 9 path = bytesOf ''/dev/pipe'' then of_int (atoi (drop 9 path)) else 0)"

definition pipeBackingPath :: "u32 \<Rightarrow> cstr" where
  "pipeBackingPath pipeId = bytesOf ''/tmp/pipe'' @ decimalBytes (unat pipeId)"

definition closePipe ::
    "'w KEnv \<Rightarrow> cstr \<Rightarrow> u32 \<Rightarrow> 'w ProcMan \<Rightarrow> 'w ProcMan option" where
  "closePipe env path pipeId st = do {
     fs \<leftarrow> kernelUnmount path (kFs st);
     (_, st) \<leftarrow> onFs (kernelFsFileDelete env (pipeBackingPath pipeId)) (st\<lparr>kFs := fs\<rparr>);
     Some st
   }"

definition procManProcessCloseFile ::
    "'w KEnv \<Rightarrow> ProcManLocalFd \<Rightarrow> ProcManProcessProcData \<Rightarrow> 'w ProcMan \<Rightarrow>
     (ProcManProcessProcData \<times> 'w ProcMan) option" where
  "procManProcessCloseFile env localFd pd st =
     (if localFd = ProcManLocalFdInvalid \<or> unat localFd \<ge> ProcManMaxFds then Some (pd, st)
      else if getFd pd localFd = KernelFsFdInvalid then Some (pd, st)
      else do {
        pathK \<leftarrow> kernelFsGetFilePath (kFs st) (getFd pd localFd);
        if kstrIsNull pathK then Some (setFd localFd KernelFsFdInvalid pd, st)
        else if length (kstrBytes pathK) \<ge> KernelFsPathMax then None
        else do {
          let path = kstrStrcpy [] pathK;
          (_, st) \<leftarrow> onFs (kernelFsFileClose (getFd pd localFd)) st;
          let pipeId = pipeIdOf path;
          st \<leftarrow> (if pipeId > 0 \<and> \<not> kernelFsFileIsOpen (kFs st) path
                then closePipe env path pipeId st else Some st);
          Some (setFd localFd KernelFsFdInvalid pd, st)
        }
      })"

definition procManProcessGetGlobalFdFromLocal ::
    "ProcManProcessProcData \<Rightarrow> ProcManLocalFd \<Rightarrow> 'w ProcMan \<Rightarrow> KernelFsFd option" where
  "procManProcessGetGlobalFdFromLocal pd localFd st =
     (if localFd = ProcManLocalFdInvalid \<or> unat localFd \<ge> ProcManMaxFds then Some KernelFsFdInvalid
      else do {
        let globalFd = getFd pd localFd;
        isOpen \<leftarrow> kernelFsFileIsOpenByFd (kFs st) globalFd;
        if \<not> isOpen then Some KernelFsFdInvalid
        else if globalFd \<noteq> KernelFsFdInvalid \<and> unat globalFd < KernelFsFdMax then Some globalFd else None
      })"

definition procManProcessGetGlobalFdFromLocalWithPid ::
    "'w KEnv \<Rightarrow> ProcManPid \<Rightarrow> ProcManLocalFd \<Rightarrow> 'w ProcMan \<Rightarrow> (KernelFsFd \<times> 'w ProcMan) option" where
  "procManProcessGetGlobalFdFromLocalWithPid env pid localFd st =
     (if unat pid < ProcManPidMax \<and> unat localFd < ProcManMaxFds then
        (if localFd = ProcManLocalFdInvalid then Some (KernelFsFdInvalid, st)
         else case procManGetProcessByPid st pid of
           None \<Rightarrow> Some (KernelFsFdInvalid, st)
         | Some process \<Rightarrow> do {
             (pd, st) \<leftarrow> procManProcessLoadProcData env process st;
             Some (case pd of None \<Rightarrow> KernelFsFdInvalid | Some pd \<Rightarrow> getFd pd localFd, st)
           })
      else None)"

definition procManProcessGetOpenGlobalFds ::
    "'w KEnv \<Rightarrow> ProcManPid \<Rightarrow> 'w ProcMan \<Rightarrow> (KernelFsFd list option \<times> 'w ProcMan) option" where
  "procManProcessGetOpenGlobalFds env pid st =
     (case procManGetProcessByPid st pid of
        None \<Rightarrow> Some (None, st)
      | Some process \<Rightarrow> do {
          (pd, st) \<leftarrow> procManProcessLoadProcData env process st;
          Some (map_option (\<lambda>pd. KernelFsFdInvalid # pdFds pd) pd, st)
        })"

section \<open>Reading files into memory\<close>

text \<open>The loops move up to 256 bytes at a time.\<close>

definition chunkSize :: "u16 \<Rightarrow> u16 \<Rightarrow> u16" where
  "chunkSize sz i = min (sz - i) 256"

partial_function (option) readLoop ::
    "'w KEnv \<Rightarrow> ProcManPid \<Rightarrow> KernelFsFd \<Rightarrow> u32 \<Rightarrow> u16 \<Rightarrow> u16 \<Rightarrow> u16 \<Rightarrow> ProcManProcessProcData \<Rightarrow>
     'w ProcMan \<Rightarrow> (u16 option \<times> ProcManProcessProcData \<times> 'w ProcMan) option" where
  "readLoop env process globalFd offset bufAddr len i pd st =
     (if i \<ge> len then Some (Some i, pd, st)
      else case onFs (kernelFsFileReadOffset env globalFd (offset + ucast i) (ucast (chunkSize len i))) st of
        None \<Rightarrow> None
      | Some (bytes, st) \<Rightarrow>
          let read = of_nat (length bytes) in
          if read = 0 then Some (Some i, pd, st)
          else case procManProcessMemoryWriteBlock env process (bufAddr + i) bytes pd st of
            None \<Rightarrow> None
          | Some (ok, pd, st) \<Rightarrow>
              if \<not> ok then Some (None, pd, st)
              else if read < chunkSize len i then Some (Some (i + read), pd, st)
              else readLoop env process globalFd offset bufAddr len (i + read) pd st)"

declare readLoop.simps [code]

definition procManProcessReadCommon ::
    "'w KEnv \<Rightarrow> ProcManPid \<Rightarrow> u32 \<Rightarrow> ProcManProcessProcData \<Rightarrow> 'w ProcMan \<Rightarrow>
     (bool \<times> ProcManProcessProcData \<times> 'w ProcMan) option" where
  "procManProcessReadCommon env process offset pd st = do {
     globalFd \<leftarrow> procManProcessGetGlobalFdFromLocal pd (ucast (getReg pd 1)) st;
     if globalFd = KernelFsFdInvalid then Some (False, pd, st)
     else do {
       (i, pd, st) \<leftarrow> readLoop env process globalFd offset (getReg pd 3) (getReg pd 4) 0 pd st;
       Some (case i of None \<Rightarrow> (False, pd, st) | Some i \<Rightarrow> (True, setReg 0 i pd, st))
     }
   }"

definition procManProcessRead ::
    "'w KEnv \<Rightarrow> ProcManPid \<Rightarrow> ProcManProcessProcData \<Rightarrow> 'w ProcMan \<Rightarrow>
     (bool \<times> ProcManProcessProcData \<times> 'w ProcMan) option" where
  "procManProcessRead env process pd st =
     procManProcessReadCommon env process (ucast (getReg pd 2)) pd st"

definition procManProcessRead32 ::
    "'w KEnv \<Rightarrow> ProcManPid \<Rightarrow> ProcManProcessProcData \<Rightarrow> 'w ProcMan \<Rightarrow>
     (bool \<times> ProcManProcessProcData \<times> 'w ProcMan) option" where
  "procManProcessRead32 env process pd st = do {
     (offset, st) \<leftarrow> procManProcessMemoryReadDoubleWord env process pd (getReg pd 2) st;
     case offset of
       None \<Rightarrow> Some (False, pd, st)
     | Some offset \<Rightarrow> procManProcessReadCommon env process offset pd st
   }"

section \<open>Writing memory to files\<close>

partial_function (option) writeLoop ::
    "'w KEnv \<Rightarrow> ProcManPid \<Rightarrow> KernelFsFd \<Rightarrow> u32 \<Rightarrow> u16 \<Rightarrow> u32 \<Rightarrow> u32 \<Rightarrow> ProcManProcessProcData \<Rightarrow>
     'w ProcMan \<Rightarrow> (u32 option \<times> 'w ProcMan) option" where
  "writeLoop env process globalFd offset bufAddr len i pd st =
     (if i \<ge> len then Some (Some i, st)
      else let chunk = min (len - i) 256 in
        case procManProcessMemoryReadBlock env process pd (bufAddr + ucast i) (ucast chunk) st of
          None \<Rightarrow> None
        | Some (None, st) \<Rightarrow> Some (None, st)
        | Some (Some bytes, st) \<Rightarrow>
            case onFs (kernelFsFileWriteOffset env globalFd (offset + i) bytes) st of
              None \<Rightarrow> None
            | Some (written, st) \<Rightarrow>
                if written < chunk then Some (Some (i + written), st)
                else writeLoop env process globalFd offset bufAddr len (i + written) pd st)"

declare writeLoop.simps [code]

definition procManProcessWriteCommon ::
    "'w KEnv \<Rightarrow> ProcManPid \<Rightarrow> u32 \<Rightarrow> ProcManProcessProcData \<Rightarrow> 'w ProcMan \<Rightarrow>
     (bool \<times> ProcManProcessProcData \<times> 'w ProcMan) option" where
  "procManProcessWriteCommon env process offset pd st = do {
     globalFd \<leftarrow> procManProcessGetGlobalFdFromLocal pd (ucast (getReg pd 1)) st;
     if globalFd = KernelFsFdInvalid then Some (False, pd, st)
     else do {
       (i, st) \<leftarrow> writeLoop env process globalFd offset (getReg pd 3) (ucast (getReg pd 4)) 0 pd st;
       Some (case i of None \<Rightarrow> (False, pd, st) | Some i \<Rightarrow> (True, setReg 0 (ucast i) pd, st))
     }
   }"

definition procManProcessWrite ::
    "'w KEnv \<Rightarrow> ProcManPid \<Rightarrow> ProcManProcessProcData \<Rightarrow> 'w ProcMan \<Rightarrow>
     (bool \<times> ProcManProcessProcData \<times> 'w ProcMan) option" where
  "procManProcessWrite env process pd st =
     procManProcessWriteCommon env process (ucast (getReg pd 2)) pd st"

definition procManProcessWrite32 ::
    "'w KEnv \<Rightarrow> ProcManPid \<Rightarrow> ProcManProcessProcData \<Rightarrow> 'w ProcMan \<Rightarrow>
     (bool \<times> ProcManProcessProcData \<times> 'w ProcMan) option" where
  "procManProcessWrite32 env process pd st = do {
     (offset, st) \<leftarrow> procManProcessMemoryReadDoubleWord env process pd (getReg pd 2) st;
     case offset of
       None \<Rightarrow> Some (False, pd, st)
     | Some offset \<Rightarrow> procManProcessWriteCommon env process offset pd st
   }"

section \<open>Moving and measuring memory\<close>

lemma chunk_less_min:
  fixes i sz m :: "'a::len word"
  assumes "i < sz" "0 < m"
  shows "unat (sz - (i + min (sz - i) m)) < unat (sz - i)"
proof -
  let ?c = "min (sz - i) m"
  have "sz - i \<noteq> 0" using assms(1) by auto
  then have c: "0 < unat ?c" "?c \<le> sz - i"
    using assms(2) by (auto simp: min_def unat_gt_0)
  have "sz - (i + ?c) = (sz - i) - ?c" by simp
  then have "unat (sz - (i + ?c)) = unat (sz - i) - unat ?c"
    using c(2) by (simp only: unat_sub)
  then show ?thesis using c by (simp add: word_le_nat_alt)
qed

lemma chunk_less: "i < sz \<Longrightarrow> unat (sz - (i + chunkSize sz i)) < unat (sz - i)"
  unfolding chunkSize_def by (rule chunk_less_min) simp_all

function memmoveUp ::
    "'w KEnv \<Rightarrow> ProcManPid \<Rightarrow> u16 \<Rightarrow> u16 \<Rightarrow> u16 \<Rightarrow> u16 \<Rightarrow> ProcManProcessProcData \<Rightarrow> 'w ProcMan \<Rightarrow>
     (bool \<times> ProcManProcessProcData \<times> 'w ProcMan) option" where
  "memmoveUp env process destAddr srcAddr sz i pd st =
     (if i \<ge> sz then Some (True, pd, st)
      else case procManProcessMemoryReadBlock env process pd (srcAddr + i) (chunkSize sz i) st of
        None \<Rightarrow> None
      | Some (None, st) \<Rightarrow> Some (False, pd, st)
      | Some (Some bytes, st) \<Rightarrow>
          case procManProcessMemoryWriteBlock env process (destAddr + i) bytes pd st of
            None \<Rightarrow> None
          | Some (ok, pd, st) \<Rightarrow>
              if \<not> ok then Some (False, pd, st)
              else memmoveUp env process destAddr srcAddr sz (i + chunkSize sz i) pd st)"
  by pat_completeness auto
termination
  by (relation "measure (\<lambda>(env, process, destAddr, srcAddr, sz, i, pd, st). unat (sz - i))")
    (auto intro: chunk_less)

function memmoveDown ::
    "'w KEnv \<Rightarrow> ProcManPid \<Rightarrow> u16 \<Rightarrow> u16 \<Rightarrow> u16 \<Rightarrow> u16 \<Rightarrow> ProcManProcessProcData \<Rightarrow> 'w ProcMan \<Rightarrow>
     (bool \<times> ProcManProcessProcData \<times> 'w ProcMan) option" where
  "memmoveDown env process destAddr srcAddr sz i pd st =
     (if i \<ge> sz then Some (True, pd, st)
      else let chunk = chunkSize sz i in
        case procManProcessMemoryReadBlock env process pd (srcAddr + (sz - chunk) - i) chunk st of
          None \<Rightarrow> None
        | Some (None, st) \<Rightarrow> Some (False, pd, st)
        | Some (Some bytes, st) \<Rightarrow>
            case procManProcessMemoryWriteBlock env process (destAddr + (sz - chunk) - i) bytes pd st of
              None \<Rightarrow> None
            | Some (ok, pd, st) \<Rightarrow>
                if \<not> ok then Some (False, pd, st)
                else memmoveDown env process destAddr srcAddr sz (i + chunk) pd st)"
  by pat_completeness auto
termination
  by (relation "measure (\<lambda>(env, process, destAddr, srcAddr, sz, i, pd, st). unat (sz - i))")
    (auto intro: chunk_less)

declare memmoveUp.simps [simp del] memmoveDown.simps [simp del]

definition procManProcessMemmove ::
    "'w KEnv \<Rightarrow> ProcManPid \<Rightarrow> u16 \<Rightarrow> u16 \<Rightarrow> u16 \<Rightarrow> ProcManProcessProcData \<Rightarrow> 'w ProcMan \<Rightarrow>
     (bool \<times> ProcManProcessProcData \<times> 'w ProcMan) option" where
  "procManProcessMemmove env process destAddr srcAddr sz pd st =
     (if destAddr < srcAddr then memmoveUp env process destAddr srcAddr sz 0 pd st
      else memmoveDown env process destAddr srcAddr sz 0 pd st)"

lemma ReadByte_countdown:
  "procManProcessMemoryReadByte env process pd addr st = Some (Some c, st') \<Longrightarrow>
   unat (0x7FFF - (addr + 1)) < unat (0x7FFF - addr)"
  by (rule unat_countdown) (auto simp: ReadByte_last_of_progmem)

function strlenLoop ::
    "'w KEnv \<Rightarrow> ProcManPid \<Rightarrow> ProcManProcessProcData \<Rightarrow> u16 \<Rightarrow> u16 \<Rightarrow> 'w ProcMan \<Rightarrow>
     (u16 option \<times> 'w ProcMan) option" where
  "strlenLoop env process pd strAddr len st =
     (case procManProcessMemoryReadByte env process pd strAddr st of
        None \<Rightarrow> None
      | Some (None, st') \<Rightarrow> Some (None, st')
      | Some (Some c, st') \<Rightarrow>
          if c = 0 then Some (Some len, st') else strlenLoop env process pd (strAddr + 1) (len + 1) st')"
  by pat_completeness auto

termination
  by (relation "measure (\<lambda>(env, process, pd, strAddr, len, st). unat (0x7FFF - strAddr))")
    (auto dest: ReadByte_countdown)

declare strlenLoop.simps [simp del]

definition procManProcessMemoryStrlen ::
    "'w KEnv \<Rightarrow> ProcManPid \<Rightarrow> ProcManProcessProcData \<Rightarrow> u16 \<Rightarrow> 'w ProcMan \<Rightarrow>
     (u16 option \<times> 'w ProcMan) option" where
  "procManProcessMemoryStrlen env process pd strAddr st = strlenLoop env process pd strAddr 0 st"

end
