(* ===== verification/ProcManExec.thy ===== *)
theory ProcManExec
  imports ProcManFile
begin

text \<open>
  \<open>src/kernel/procman.c\<close>, fourth part: argument strings, loading an executable with its
  interpreters, and \<open>exec\<close>. The path and argument buffers are strings with their sizes
  checked where the source copies into them: an overrun is \<open>None\<close>, and so is the use of a
  buffer that was filled without a terminating NUL.
\<close>

section \<open>Argument strings\<close>

text \<open>The arguments follow each other, each with its NUL. Reading past the buffer is
  \<open>None\<close>.\<close>

fun skipArgs :: "nat \<Rightarrow> u8 list \<Rightarrow> u8 list option" where
  "skipArgs 0 s = Some s"
| "skipArgs (Suc n) [] = None"
| "skipArgs (Suc n) (b # s) = skipArgs (if b = 0 then n else Suc n) s"

definition procManArgvStringGetArgN :: "u8 \<Rightarrow> u8 list \<Rightarrow> u8 \<Rightarrow> u8 list option option" where
  "procManArgvStringGetArgN argc argv n =
     (if n \<ge> argc then Some None else map_option Some (skipArgs (unat n) argv))"

definition procManArgvStringGetTotalSize :: "u8 \<Rightarrow> u8 list \<Rightarrow> nat option" where
  "procManArgvStringGetTotalSize argc argv =
     map_option (\<lambda>rest. length argv - length rest) (skipArgs (unat argc) argv)"

definition argString :: "u8 list \<Rightarrow> cstr" where
  "argString argv = takeWhile (\<lambda>b. b \<noteq> 0) argv"

definition procManArgvStringPathNormaliseArg0 :: "u8 \<Rightarrow> u8 list \<Rightarrow> u8 list option" where
  "procManArgvStringPathNormaliseArg0 argc argv =
     (if argc < 1 then Some argv
      else do {
        preTotalSize \<leftarrow> procManArgvStringGetTotalSize argc argv;
        let preSize = length (argString argv) + 1;
        path \<leftarrow> normalisePath (argString argv);
        let postSize = length path + 1;
        if postSize > preSize then None
        else Some (path @ [0] @ take (preTotalSize - preSize) (drop preSize argv))
      })"

text \<open>Everything after the first argument is dropped: the interpreter gets the name of the
  file and nothing else.\<close>

definition procManArgvUpdateForInterpreter :: "nat \<Rightarrow> u8 list \<Rightarrow> cstr \<Rightarrow> (u8 \<times> u8 list) option" where
  "procManArgvUpdateForInterpreter capacity argv interpreterPath =
     (let argv' = interpreterPath @ [0] @ argString argv @ [0] in
      if length argv' \<le> capacity then Some (2, argv') else None)"

section \<open>Finding and opening the executable\<close>

text \<open>A string copied into a buffer of a path's size.\<close>

definition inPathBuffer :: "cstr \<Rightarrow> cstr option" where
  "inPathBuffer s = (if length s < KernelFsPathMax then Some s else None)"

text \<open>The search through \<open>PATH\<close>: parts end at a colon or at the end, empty ones are
  passed over. Without a match the name is left as it was.\<close>

function searchPath ::
    "'w KEnv \<Rightarrow> 'w KFs \<Rightarrow> cstr \<Rightarrow> cstr \<Rightarrow> cstr \<Rightarrow> cstr option" where
  "searchPath env st arg0 original envPath =
     (if envPath = [] then Some original
      else let part = takeWhile (\<lambda>b. b \<noteq> 58) envPath; rest = drop (length part + 1) envPath in
        if length part \<ge> KernelFsPathMax then None
        else if part = [] then searchPath env st arg0 part rest
        else if length (part @ [chSlash] @ arg0) \<ge> KernelFsPathMax then None
        else case normalisePath (part @ [chSlash] @ arg0) of
          None \<Rightarrow> None
        | Some path \<Rightarrow>
            (case kernelFsFileExists env st path of
               None \<Rightarrow> None
             | Some True \<Rightarrow> Some path
             | Some False \<Rightarrow>
                 (case normalisePath arg0 of
                    None \<Rightarrow> None
                  | Some path \<Rightarrow> searchPath env st arg0 path rest)))"
  by pat_completeness auto
termination
  by (relation "measure (\<lambda>(env, st, arg0, original, envPath). length envPath)") auto

declare searchPath.simps [simp del]

definition execPath ::
    "'w KEnv \<Rightarrow> 'w KFs \<Rightarrow> cstr \<Rightarrow> cstr option \<Rightarrow> cstr option \<Rightarrow> cstr option" where
  "execPath env st arg0 envPath envPwd = do {
     original \<leftarrow> inPathBuffer arg0;
     original \<leftarrow> normalisePath original;
     original \<leftarrow> (case envPath of
         Some envPath \<Rightarrow>
           (if chSlash \<notin> set original then searchPath env st arg0 original envPath else Some original)
       | None \<Rightarrow> Some original);
     case envPwd of
       Some envPwd \<Rightarrow>
         (if charAt original 0 \<noteq> chSlash then do {
            path \<leftarrow> inPathBuffer (envPwd @ [chSlash] @ arg0);
            normalisePath path
          } else Some original)
     | None \<Rightarrow> Some original
   }"

text \<open>The interpreter named after \<open>#!\<close>: the last byte read is overwritten with a NUL, and
  the name must end with a newline before it. With nothing read the write would be out of
  bounds.\<close>

definition interpreterOf :: "u8 list \<Rightarrow> cstr option option" where
  "interpreterOf bytes =
     (if bytes = [] then None
      else let s = takeWhile (\<lambda>b. b \<noteq> 0) (butlast bytes) in
        if 10 \<notin> set s then Some None
        else map_option Some (normalisePath (takeWhile (\<lambda>b. b \<noteq> 10) s)))"

text \<open>At most eight files are tried, each the interpreter of the one before.\<close>

primrec magicLoop ::
    "'w KEnv \<Rightarrow> nat \<Rightarrow> nat \<Rightarrow> cstr \<Rightarrow> u8 \<Rightarrow> u8 list \<Rightarrow> 'w KFs \<Rightarrow>
     (KernelFsFd \<times> u8 \<times> u8 list \<times> 'w KFs) option" where
  "magicLoop env capacity 0 loopExecFile argc argv st = Some (KernelFsFdInvalid, argc, argv, st)"
| "magicLoop env capacity (Suc n) loopExecFile argc argv st = do {
     (fd, st) \<leftarrow> kernelFsFileOpen env loopExecFile KernelFsFdModeRO st;
     if fd = KernelFsFdInvalid then Some (KernelFsFdInvalid, argc, argv, st)
     else do {
       (magicBytes, st) \<leftarrow> kernelFsFileRead env fd 2 st;
       if length magicBytes = 2 \<and> magicBytes ! 0 = chSlash \<and> magicBytes ! 1 = chSlash
       then Some (fd, argc, argv, st)
       else if length magicBytes = 2 \<and> magicBytes ! 0 = 35 \<and> magicBytes ! 1 = 33 then do {
         (bytes, st) \<leftarrow> kernelFsFileReadOffset env fd 2 (of_nat KernelFsPathMax) st;
         interpreter \<leftarrow> interpreterOf bytes;
         (_, st) \<leftarrow> kernelFsFileClose fd st;
         case interpreter of
           None \<Rightarrow> Some (KernelFsFdInvalid, argc, argv, st)
         | Some interpreter \<Rightarrow> do {
             (argc, argv) \<leftarrow> procManArgvUpdateForInterpreter capacity argv interpreter;
             magicLoop env capacity n interpreter argc argv st
           }
       } else do {
         (_, st) \<leftarrow> kernelFsFileClose fd st;
         Some (KernelFsFdInvalid, argc, argv, st)
       }
     }
   }"

definition procManProcessLoadProgmemFile ::
    "'w KEnv \<Rightarrow> nat \<Rightarrow> u8 \<Rightarrow> u8 list \<Rightarrow> cstr option \<Rightarrow> cstr option \<Rightarrow> 'w KFs \<Rightarrow>
     (KernelFsFd \<times> u8 \<times> u8 list \<times> 'w KFs) option" where
  "procManProcessLoadProgmemFile env capacity argc argv envPath envPwd st = do {
     path \<leftarrow> execPath env st (argString argv) envPath envPwd;
     if \<not> kernelFsPathIsValid path then Some (KernelFsFdInvalid, argc, argv, st)
     else do {
       isDir \<leftarrow> kernelFsFileIsDir env st path;
       if isDir then Some (KernelFsFdInvalid, argc, argv, st)
       else magicLoop env capacity 8 path argc argv st
     }
   }"

section \<open>exec\<close>

definition ramPathOf :: "ProcManPid \<Rightarrow> cstr" where
  "ramPathOf pid = bytesOf ''/tmp/ram'' @ decimalBytes (unat pid)"

definition procPathOf :: "ProcManPid \<Rightarrow> cstr" where
  "procPathOf pid = bytesOf ''/tmp/proc'' @ decimalBytes (unat pid)"

text \<open>The process' data with the arguments and the two variables at the start of the ram
  file; the sum of their sizes is kept in eight bits.\<close>

definition execProcData ::
    "u8 \<Rightarrow> nat \<Rightarrow> nat \<Rightarrow> nat \<Rightarrow> ProcManProcessProcData \<Rightarrow> ProcManProcessProcData" where
  "execProcData argc argvSize pwdLen pathLen pd =
     (let len1 = of_nat argvSize; len2 = len1 + of_nat (pwdLen + 1); len3 = len2 + of_nat (pathLen + 1) in
      (setReg BytecodeRegisterIP 0 pd)\<lparr>pdArgc := argc,
        pdPwd := ProcManEnvVarsVirtualOffset + ucast len1,
        pdPath := ProcManEnvVarsVirtualOffset + ucast len2,
        pdEnvVarDataLen := len3, pdRamLen := 0\<rparr>)"

definition writeEnvVars ::
    "'w KEnv \<Rightarrow> u8 list \<Rightarrow> cstr \<Rightarrow> cstr \<Rightarrow> ProcManProcessProcData \<Rightarrow> 'w ProcMan \<Rightarrow>
     (bool \<times> 'w ProcMan) option" where
  "writeEnvVars env argv pwd path pd st = do {
     (ok, st) \<leftarrow> writeExactly env (pdRamFd pd) 0 argv st;
     if \<not> ok then Some (False, st)
     else do {
       (ok, st) \<leftarrow> writeExactly env (pdRamFd pd) (ucast (pdPwd pd - ProcManEnvVarsVirtualOffset))
         (pwd @ [0]) st;
       if \<not> ok then Some (False, st)
       else writeExactly env (pdRamFd pd) (ucast (pdPath pd - ProcManEnvVarsVirtualOffset)) (path @ [0]) st
     }
   }"

text \<open>A path read from memory into a path buffer, and normalised.\<close>

definition readPathStr ::
    "'w KEnv \<Rightarrow> ProcManPid \<Rightarrow> ProcManProcessProcData \<Rightarrow> u16 \<Rightarrow> 'w ProcMan \<Rightarrow>
     (u8 list option \<times> 'w ProcMan) option" where
  "readPathStr env process pd addr st = procManProcessMemoryReadStr env process pd addr KernelFsPathMax st"

definition normaliseBuffer :: "u8 list \<Rightarrow> cstr option" where
  "normaliseBuffer s = do { s \<leftarrow> terminatedStr s; normalisePath s }"

definition readPath ::
    "'w KEnv \<Rightarrow> ProcManPid \<Rightarrow> ProcManProcessProcData \<Rightarrow> u16 \<Rightarrow> 'w ProcMan \<Rightarrow>
     (cstr option \<times> 'w ProcMan) option" where
  "readPath env process pd addr st = do {
     (s, st) \<leftarrow> readPathStr env process pd addr st;
     case s of
       None \<Rightarrow> Some (None, st)
     | Some s \<Rightarrow> do {
         s \<leftarrow> normaliseBuffer s;
         Some (Some s, st)
       }
   }"

text \<open>From the new executable on: the old one is closed, the ram file shrunk to the variables
  and written, the signal handlers cleared and the data stored.\<close>

definition execReplace ::
    "'w KEnv \<Rightarrow> ProcManPid \<Rightarrow> KernelFsFd \<Rightarrow> u8 \<Rightarrow> u8 list \<Rightarrow> cstr \<Rightarrow> cstr \<Rightarrow>
     ProcManProcessProcData \<Rightarrow> 'w ProcMan \<Rightarrow> (bool \<times> ProcManProcessProcData \<times> 'w ProcMan) option" where
  "execReplace env process newProgmemFd argc argv pwd path pd st = do {
     argvSize \<leftarrow> procManArgvStringGetTotalSize argc argv;
     (_, st) \<leftarrow> onFs (kernelFsFileClose (prProgmemFd (procOf st process))) st;
     let st = updProc process (\<lambda>p. p\<lparr>prProgmemFd := newProgmemFd\<rparr>) st;
     let pd = execProcData argc argvSize (length pwd) (length path) pd;
     (_, st) \<leftarrow> onFs (kernelFsFileClose (pdRamFd pd)) st;
     (ok, st) \<leftarrow> onFs (kernelFsFileResize env (ramPathOf process) (ucast (pdEnvVarDataLen pd))) st;
     if \<not> ok then Some (False, pd, st)
     else do {
       (ramFd, st) \<leftarrow> onFs (kernelFsFileOpen env (ramPathOf process) KernelFsFdModeRW) st;
       if ramFd = KernelFsFdInvalid then None
       else do {
         let pd = pd\<lparr>pdRamFd := ramFd\<rparr>;
         (ok, st) \<leftarrow> writeEnvVars env (take argvSize argv) pwd path pd st;
         if \<not> ok then Some (False, pd, st)
         else do {
           let pd = pd\<lparr>pdSignalHandlers := map (\<lambda>_. ProcManSignalHandlerInvalid) (pdSignalHandlers pd)\<rparr>;
           (ok, st) \<leftarrow> procManProcessStoreProcData env process pd st;
           Some (ok, pd, st)
         }
       }
     }
   }"

text \<open>The buffer \<open>argv\<close> has 256 bytes.\<close>

definition procManProcessExecCommon ::
    "'w KEnv \<Rightarrow> ProcManPid \<Rightarrow> u8 \<Rightarrow> u8 list \<Rightarrow> ProcManProcessProcData \<Rightarrow> 'w ProcMan \<Rightarrow>
     (bool \<times> ProcManProcessProcData \<times> 'w ProcMan) option" where
  "procManProcessExecCommon env process argc argv pd st = do {
     (pwd, st) \<leftarrow> readPath env process pd (pdPwd pd) st;
     case pwd of
       None \<Rightarrow> Some (False, pd, st)
     | Some pwd \<Rightarrow> do {
         (path, st) \<leftarrow> readPath env process pd (pdPath pd) st;
         case path of
           None \<Rightarrow> Some (False, pd, st)
         | Some path \<Rightarrow> do {
             let pathSearchFlag = (getReg pd 3 \<noteq> 0);
             (fd, argc, argv, fs) \<leftarrow> procManProcessLoadProgmemFile env 256 argc argv
               (if pathSearchFlag then Some path else None) (if pathSearchFlag then Some pwd else None)
               (kFs st);
             let st = st\<lparr>kFs := fs\<rparr>;
             if fd = KernelFsFdInvalid then Some (True, pd, st)
             else execReplace env process fd argc argv pwd path pd st
           }
       }
   }"

text \<open>The arguments are read one by one to the end of those before; each may have 63
  characters.\<close>

primrec readArgs ::
    "'w KEnv \<Rightarrow> ProcManPid \<Rightarrow> ProcManProcessProcData \<Rightarrow> u16 \<Rightarrow> nat \<Rightarrow> u8 list \<Rightarrow> 'w ProcMan \<Rightarrow>
     (u8 list option \<times> 'w ProcMan) option" where
  "readArgs env process pd argvPtr 0 argv st = Some (Some argv, st)"
| "readArgs env process pd argvPtr (Suc n) argv st = do {
     (s, st) \<leftarrow> procManProcessMemoryReadStr env process pd (argvPtr + of_nat (length argv))
       KernelFsPathMax st;
     case s of
       None \<Rightarrow> Some (None, st)
     | Some s \<Rightarrow> do {
         arg \<leftarrow> terminatedStr s;
         if length (argv @ arg @ [0]) \<le> 256 then readArgs env process pd argvPtr n (argv @ arg @ [0]) st
         else None
       }
   }"

definition procManProcessExec ::
    "'w KEnv \<Rightarrow> ProcManPid \<Rightarrow> ProcManProcessProcData \<Rightarrow> 'w ProcMan \<Rightarrow>
     (bool \<times> ProcManProcessProcData \<times> 'w ProcMan) option" where
  "procManProcessExec env process pd st =
     (let argc = ucast (getReg pd 1) :: u8 in
      if argc < 1 then Some (False, pd, st)
      else do {
        (argv, st) \<leftarrow> readArgs env process pd (getReg pd 2) (unat argc) [] st;
        case argv of
          None \<Rightarrow> Some (False, pd, st)
        | Some argv \<Rightarrow> procManProcessExecCommon env process argc argv pd st
      })"

primrec copyArgs ::
    "'w KEnv \<Rightarrow> ProcManPid \<Rightarrow> ProcManProcessProcData \<Rightarrow> u8 \<Rightarrow> nat \<Rightarrow> u8 list \<Rightarrow> 'w ProcMan \<Rightarrow>
     (u8 list option \<times> 'w ProcMan) option" where
  "copyArgs env process pd start 0 argv st = Some (Some argv, st)"
| "copyArgs env process pd start (Suc n) argv st = do {
     (s, st) \<leftarrow> procManProcessGetArgvNStr env process pd start st;
     case s of
       None \<Rightarrow> Some (None, st)
     | Some s \<Rightarrow> do {
         arg \<leftarrow> terminatedStr s;
         if length (argv @ arg @ [0]) \<le> 256 then copyArgs env process pd (start + 1) n (argv @ arg @ [0]) st
         else None
       }
   }"

definition procManProcessExec2 ::
    "'w KEnv \<Rightarrow> ProcManPid \<Rightarrow> ProcManProcessProcData \<Rightarrow> 'w ProcMan \<Rightarrow>
     (bool \<times> ProcManProcessProcData \<times> 'w ProcMan) option" where
  "procManProcessExec2 env process pd st =
     (let start = ucast (getReg pd 1) :: u8; argc = ucast (getReg pd 2) :: u8 in
      if start \<ge> pdArgc pd \<or> argc < 1 then Some (True, pd, st)
      else do {
        let argc = (if unat start + unat argc > unat (pdArgc pd) then pdArgc pd - start else argc);
        (argv, st) \<leftarrow> copyArgs env process pd start (unat argc) [] st;
        case argv of
          None \<Rightarrow> Some (False, pd, st)
        | Some argv \<Rightarrow> procManProcessExecCommon env process argc argv pd st
      })"

end
