(* ===== verification/ProcManProcess.thy ===== *)
theory ProcManProcess
  imports ProcManExec
begin

text \<open>
  \<open>src/kernel/procman.c\<close>, fifth part: the life of a process. Creation, \<open>fork\<close>, killing
  with the wake-up of the processes waiting for it, and signals.
\<close>

section \<open>Creation\<close>

text \<open>The local struct is not initialised: the fields not assigned have any content.\<close>

definition indetProcData :: "'w KEnv \<Rightarrow> ProcManProcessProcData" where
  "indetProcData env = procDataOfBytes (map (\<lambda>i. envIndet env (of_nat i)) [0..<procDataSize])"

definition initialPath :: cstr where
  "initialPath = bytesOf ''/usr/games:/usr/bin:/bin:''"

definition newProcData ::
    "'w KEnv \<Rightarrow> u8 \<Rightarrow> nat \<Rightarrow> nat \<Rightarrow> KernelFsFd \<Rightarrow> ProcManProcessProcData" where
  "newProcData env argc argvSize pwdLen ramFd =
     (let len1 = of_nat argvSize; len2 = len1 + of_nat (pwdLen + 1);
          len3 = len2 + of_nat (length initialPath + 1) in
      (setReg BytecodeRegisterIP 0 (indetProcData env))\<lparr>pdArgc := argc,
        pdPwd := ProcManEnvVarsVirtualOffset + ucast (len1 :: u8),
        pdPath := ProcManEnvVarsVirtualOffset + ucast len2,
        pdSignalHandlers := replicate BytecodeSignalIdNB ProcManSignalHandlerInvalid,
        pdFds := replicate (ProcManMaxFds - 1) ProcManLocalFdInvalid,
        pdEnvVarDataLen := len3, pdRamLen := 0, pdRamFd := ramFd\<rparr>)"

text \<open>Closing and deleting whatever the files of the new process are called, present or
  not.\<close>

definition newProcessError ::
    "'w KEnv \<Rightarrow> ProcManPid \<Rightarrow> KernelFsFd \<Rightarrow> 'w ProcMan \<Rightarrow> (ProcManPid \<times> 'w ProcMan) option" where
  "newProcessError env pid ramFd st = do {
     (_, st) \<leftarrow> onFs (kernelFsFileClose (prProgmemFd (procOf st pid))) st;
     let st = updProc pid (\<lambda>p. p\<lparr>prProgmemFd := KernelFsFdInvalid\<rparr>) st;
     (_, st) \<leftarrow> onFs (kernelFsFileClose (prProcFd (procOf st pid))) st;
     let st = updProc pid (\<lambda>p. p\<lparr>prProcFd := KernelFsFdInvalid\<rparr>) st;
     (_, st) \<leftarrow> onFs (kernelFsFileDelete env (procPathOf pid)) st;
     (_, st) \<leftarrow> onFs (kernelFsFileClose ramFd) st;
     (_, st) \<leftarrow> onFs (kernelFsFileDelete env (ramPathOf pid)) st;
     Some (of_nat ProcManPidMax,
       updProc pid (\<lambda>p. p\<lparr>prState := ProcManProcessStateUnused, prInstructionCounter := 0\<rparr>) st)
   }"

text \<open>Once both files are open: the state, the environment in the ram file and the data.\<close>

definition newProcessStart ::
    "'w KEnv \<Rightarrow> ProcManPid \<Rightarrow> KernelFsFd \<Rightarrow> u8 list \<Rightarrow> ProcManProcessProcData \<Rightarrow> 'w ProcMan \<Rightarrow>
     (ProcManPid \<times> 'w ProcMan) option" where
  "newProcessStart env pid ramFd envVarData pd st = do {
     let st = updProc pid (\<lambda>p. p\<lparr>prState := ProcManProcessStateActive, prInstructionCounter := 0\<rparr>) st;
     (ok, st) \<leftarrow> writeExactly env ramFd 0 (take (unat (pdEnvVarDataLen pd)) envVarData) st;
     if \<not> ok then newProcessError env pid ramFd st
     else do {
       (ok, st) \<leftarrow> procManProcessStoreProcData env pid pd st;
       if \<not> ok then newProcessError env pid ramFd st else Some (pid, st)
     }
   }"

definition newProcessFiles ::
    "'w KEnv \<Rightarrow> ProcManPid \<Rightarrow> u8 \<Rightarrow> u8 list \<Rightarrow> cstr \<Rightarrow> 'w ProcMan \<Rightarrow> (ProcManPid \<times> 'w ProcMan) option" where
  "newProcessFiles env pid argc argv pwd st = do {
     let envVarData = argv @ pwd @ [0] @ initialPath @ [0];
     let pd = newProcData env argc (length argv) (length pwd) KernelFsFdInvalid;
     (ok, st) \<leftarrow> onFs (kernelFsFileCreateWithSize env (procPathOf pid) (of_nat procDataSize)) st;
     if \<not> ok then newProcessError env pid KernelFsFdInvalid st
     else do {
       (ok, st) \<leftarrow> onFs (kernelFsFileCreateWithSize env (ramPathOf pid) (ucast (pdEnvVarDataLen pd))) st;
       if \<not> ok then newProcessError env pid KernelFsFdInvalid st
       else do {
         (procFd, st) \<leftarrow> onFs (kernelFsFileOpen env (procPathOf pid) KernelFsFdModeRW) st;
         let st = updProc pid (\<lambda>p. p\<lparr>prProcFd := procFd\<rparr>) st;
         if procFd = KernelFsFdInvalid then newProcessError env pid KernelFsFdInvalid st
         else do {
           (ramFd, st) \<leftarrow> onFs (kernelFsFileOpen env (ramPathOf pid) KernelFsFdModeRW) st;
           if ramFd = KernelFsFdInvalid then newProcessError env pid KernelFsFdInvalid st
           else newProcessStart env pid ramFd envVarData (pd\<lparr>pdRamFd := ramFd\<rparr>) st
         }
       }
     }
   }"

text \<open>The argument buffer holds two paths, the environment buffer 256 bytes.\<close>

definition procManProcessNew ::
    "'w KEnv \<Rightarrow> cstr \<Rightarrow> 'w ProcMan \<Rightarrow> (ProcManPid \<times> 'w ProcMan) option" where
  "procManProcessNew env programPath st = do {
     let pid = procManFindUnusedPid st;
     if unat pid = ProcManPidMax then Some (pid, st)
     else if length programPath \<ge> 2 * KernelFsPathMax then None
     else do {
       (fd, argc, argv, fs) \<leftarrow> procManProcessLoadProgmemFile env (2 * KernelFsPathMax) 1
         (programPath @ [0]) None None (kFs st);
       let st = updProc pid (\<lambda>p. p\<lparr>prProgmemFd := fd\<rparr>) (st\<lparr>kFs := fs\<rparr>);
       if fd = KernelFsFdInvalid then newProcessError env pid KernelFsFdInvalid st
       else do {
         argvSize \<leftarrow> procManArgvStringGetTotalSize argc argv;
         programPath \<leftarrow> inPathBuffer programPath;
         (dirname, basename) \<leftarrow> kernelFsPathSplit programPath;
         newProcessFiles env pid argc (take argvSize argv) dirname st
       }
     }
   }"

section \<open>Killing\<close>

text \<open>The processes waiting for the dead one get its exit status.\<close>

fun wakeWaiters ::
    "'w KEnv \<Rightarrow> ProcManPid \<Rightarrow> ProcManExitStatus \<Rightarrow> ProcManPid list \<Rightarrow> 'w ProcMan \<Rightarrow> 'w ProcMan option" where
  "wakeWaiters env pid exitStatus [] st = Some st"
| "wakeWaiters env pid exitStatus (waiter # rest) st =
     (case (procManGetProcessByPid st waiter, prState (procOf st waiter)) of
        (Some _, ProcManProcessStateWaitingWaitpid waitPid timeoutTime) \<Rightarrow>
          if waitPid = pid then
            (case procManProcessSaveProcDataReg env waiter 0 exitStatus st of
               None \<Rightarrow> None
             | Some (ok, st') \<Rightarrow>
                 wakeWaiters env pid exitStatus rest
                   (if ok then updProc waiter (\<lambda>p. p\<lparr>prState := ProcManProcessStateActive\<rparr>) st' else st'))
          else wakeWaiters env pid exitStatus rest st
      | _ \<Rightarrow> wakeWaiters env pid exitStatus rest st)"

fun closeFds ::
    "'w KEnv \<Rightarrow> ProcManLocalFd list \<Rightarrow> ProcManProcessProcData \<Rightarrow> 'w ProcMan \<Rightarrow>
     (ProcManProcessProcData \<times> 'w ProcMan) option" where
  "closeFds env [] pd st = Some (pd, st)"
| "closeFds env (localFd # rest) pd st =
     (if getFd pd localFd = KernelFsFdInvalid then closeFds env rest pd st
      else case procManProcessCloseFile env localFd pd st of
        None \<Rightarrow> None
      | Some (pd', st') \<Rightarrow> closeFds env rest pd' st')"

definition closeAndDelete ::
    "'w KEnv \<Rightarrow> KernelFsFd \<Rightarrow> 'w ProcMan \<Rightarrow> 'w ProcMan option" where
  "closeAndDelete env fd st = do {
     pathK \<leftarrow> kernelFsGetFilePath (kFs st) fd;
     if kstrIsNull pathK \<or> length (kstrBytes pathK) \<ge> KernelFsPathMax then None
     else do {
       (_, st) \<leftarrow> onFs (kernelFsFileClose fd) st;
       (_, st) \<leftarrow> onFs (kernelFsFileDelete env (kstrStrcpy [] pathK)) st;
       Some st
     }
   }"

text \<open>The descriptor of the ram file is taken from the data file, whatever the caller's data
  say.\<close>

definition removeProcFiles :: "'w KEnv \<Rightarrow> ProcManPid \<Rightarrow> 'w ProcMan \<Rightarrow> 'w ProcMan option" where
  "removeProcFiles env pid st =
     (if prProcFd (procOf st pid) = KernelFsFdInvalid then Some st
      else do {
        (ramFd, st) \<leftarrow> procManProcessLoadProcDataRamFd env pid st;
        st \<leftarrow> (case ramFd of
            Some ramFd \<Rightarrow> (if ramFd \<noteq> KernelFsFdInvalid then closeAndDelete env ramFd st else Some st)
          | None \<Rightarrow> Some st);
        st \<leftarrow> closeAndDelete env (prProcFd (procOf st pid)) st;
        Some (updProc pid (\<lambda>p. p\<lparr>prProcFd := KernelFsFdInvalid\<rparr>) st)
      })"

definition procManProcessKill ::
    "'w KEnv \<Rightarrow> ProcManPid \<Rightarrow> ProcManExitStatus \<Rightarrow> ProcManProcessProcData option \<Rightarrow> 'w ProcMan \<Rightarrow>
     (ProcManProcessProcData option \<times> 'w ProcMan) option" where
  "procManProcessKill env pid exitStatus procDataGiven st =
     (if unat pid \<ge> ProcManPidMax then None
      else if procManGetProcessByPid st pid = None then Some (procDataGiven, st)
      else do {
        (pd, st) \<leftarrow> (case procDataGiven of
            Some pd \<Rightarrow> Some (Some pd, st)
          | None \<Rightarrow> procManProcessLoadProcData env pid st);
        (pd, st) \<leftarrow> (case pd of
            None \<Rightarrow> Some (None, st)
          | Some pd \<Rightarrow> map_option (\<lambda>(pd, st). (Some pd, st)) (closeFds env localFds pd st));
        (_, st) \<leftarrow> onFs (kernelFsFileClose (prProgmemFd (procOf st pid))) st;
        let st = updProc pid (\<lambda>p. p\<lparr>prProgmemFd := KernelFsFdInvalid\<rparr>) st;
        st \<leftarrow> removeProcFiles env pid st;
        let st = updProc pid
          (\<lambda>p. p\<lparr>prState := ProcManProcessStateUnused, prInstructionCounter := 0\<rparr>) st;
        st \<leftarrow> wakeWaiters env pid exitStatus allPids st;
        Some (if procDataGiven = None then None else pd, st)
      })"

primrec killEach ::
    "'w KEnv \<Rightarrow> ProcManPid list \<Rightarrow> 'w ProcMan \<Rightarrow> 'w ProcMan option" where
  "killEach env [] st = Some st"
| "killEach env (pid # rest) st =
     (if procManProcessExists st pid then do {
        (_, st) \<leftarrow> procManProcessKill env pid ProcManExitStatusKilled None st;
        killEach env rest st
      } else killEach env rest st)"

definition procManKillAll :: "'w KEnv \<Rightarrow> 'w ProcMan \<Rightarrow> 'w ProcMan option" where
  "procManKillAll env st = killEach env allPids st"

definition procManQuit :: "'w KEnv \<Rightarrow> 'w ProcMan \<Rightarrow> 'w ProcMan option" where
  "procManQuit env st = procManKillAll env st"

section \<open>Signals\<close>

text \<open>A waiting process becomes active again with the result of an interrupted call.\<close>

fun interruptState :: "ProcManProcessState \<Rightarrow> ProcManProcessProcData \<Rightarrow> ProcManProcessProcData option" where
  "interruptState ProcManProcessStateUnused pd = None"
| "interruptState ProcManProcessStateActive pd = Some pd"
| "interruptState (ProcManProcessStateWaitingWaitpid p t) pd =
     Some (setReg 0 ProcManExitStatusInterrupted pd)"
| "interruptState (ProcManProcessStateWaitingRead fd) pd = Some (setReg 0 0 pd)"
| "interruptState (ProcManProcessStateWaitingRead32 fd) pd = Some (setReg 0 0 pd)"
| "interruptState (ProcManProcessStateWaitingWrite fd) pd = Some (setReg 0 0 pd)"
| "interruptState (ProcManProcessStateWaitingWrite32 fd) pd = Some (setReg 0 0 pd)"
| "interruptState ProcManProcessStateExiting pd = None"

definition callHandler ::
    "'w KEnv \<Rightarrow> ProcManPid \<Rightarrow> u8 \<Rightarrow> ProcManProcessProcData \<Rightarrow> 'w ProcMan \<Rightarrow> 'w ProcMan option" where
  "callHandler env pid handlerAddr pd st = do {
     (_, pd, st) \<leftarrow> procManProcessMemoryWriteWord env pid (getReg pd BytecodeRegisterSP)
       (getReg pd BytecodeRegisterIP) pd st;
     let pd = setReg BytecodeRegisterSP (getReg pd BytecodeRegisterSP + 2) pd;
     let pd = setReg BytecodeRegisterIP (ucast handlerAddr) pd;
     (_, st) \<leftarrow> procManProcessStoreProcData env pid pd st;
     Some st
   }"

text \<open>The identifier is compared with one more than the table has; that one is read past
  it.\<close>

definition procManProcessSendSignal ::
    "'w KEnv \<Rightarrow> ProcManPid \<Rightarrow> u16 \<Rightarrow> 'w ProcMan \<Rightarrow> 'w ProcMan option" where
  "procManProcessSendSignal env pid signalId st =
     (if unat pid > ProcManPidMax then Some st
      else if unat signalId > BytecodeSignalIdNB then Some st
      else if procManGetProcessByPid st pid = None then Some st
      else do {
        (pd, st) \<leftarrow> procManProcessLoadProcData env pid st;
        case pd of
          None \<Rightarrow> Some st
        | Some pd \<Rightarrow>
            if unat signalId = BytecodeSignalIdNB then None
            else let handlerAddr = pdSignalHandlers pd ! unat signalId in
              if handlerAddr = 0 then Some st
              else if prState (procOf st pid) = ProcManProcessStateExiting then Some st
              else (case interruptState (prState (procOf st pid)) pd of
                  None \<Rightarrow> None
                | Some pd \<Rightarrow>
                    callHandler env pid handlerAddr pd
                      (updProc pid (\<lambda>p. p\<lparr>prState := ProcManProcessStateActive\<rparr>) st))
      })"

section \<open>fork\<close>

text \<open>The ram files are copied in blocks of 256 bytes and then byte by byte.\<close>

primrec copyBlocks ::
    "'w KEnv \<Rightarrow> KernelFsFd \<Rightarrow> KernelFsFd \<Rightarrow> u16 \<Rightarrow> u32 \<Rightarrow> nat \<Rightarrow> 'w ProcMan \<Rightarrow>
     (bool \<times> 'w ProcMan) option" where
  "copyBlocks env src dest blockLen i 0 st = Some (True, st)"
| "copyBlocks env src dest blockLen i (Suc n) st = do {
     (bytes, st) \<leftarrow> readExactly env src i blockLen st;
     case bytes of
       None \<Rightarrow> Some (False, st)
     | Some bytes \<Rightarrow> do {
         (ok, st) \<leftarrow> writeExactly env dest i bytes st;
         if ok then copyBlocks env src dest blockLen (i + ucast blockLen) n st else Some (False, st)
       }
   }"

definition copyRam ::
    "'w KEnv \<Rightarrow> KernelFsFd \<Rightarrow> KernelFsFd \<Rightarrow> u16 \<Rightarrow> 'w ProcMan \<Rightarrow> (bool \<times> 'w ProcMan) option" where
  "copyRam env src dest totalLen st = do {
     let blocks = unat totalLen div 256;
     (ok, st) \<leftarrow> copyBlocks env src dest 256 0 blocks st;
     if \<not> ok then Some (False, st)
     else copyBlocks env src dest 1 (of_nat (256 * blocks)) (unat totalLen mod 256) st
   }"

text \<open>Each open file is shared with the child or opened again for it.\<close>

fun dupeFds ::
    "'w KEnv \<Rightarrow> ProcManLocalFd list \<Rightarrow> ProcManProcessProcData \<Rightarrow> ProcManProcessProcData \<Rightarrow> 'w ProcMan \<Rightarrow>
     (bool \<times> ProcManProcessProcData \<times> 'w ProcMan) option" where
  "dupeFds env [] pd child st = Some (True, child, st)"
| "dupeFds env (localFd # rest) pd child st =
     (if getFd pd localFd = KernelFsFdInvalid then dupeFds env rest pd child st
      else case kernelFsGetFilePath (kFs st) (getFd pd localFd) of
        None \<Rightarrow> None
      | Some pathK \<Rightarrow>
          if kstrIsNull pathK \<or> length (kstrBytes pathK) \<ge> KernelFsPathMax then None
          else (case onFs (kernelFsFileDupeOrOpen env (getFd pd localFd)) st of
              None \<Rightarrow> None
            | Some (fd, st') \<Rightarrow>
                if fd = KernelFsFdInvalid then Some (False, setFd localFd fd child, st')
                else dupeFds env rest pd (setFd localFd fd child) st'))"

text \<open>The steps up to the first failure, with the child's data so far.\<close>

definition forkFiles ::
    "'w KEnv \<Rightarrow> ProcManPid \<Rightarrow> ProcManPid \<Rightarrow> ProcManProcessProcData \<Rightarrow> ProcManProcessProcData \<Rightarrow>
     'w ProcMan \<Rightarrow> (bool \<times> ProcManProcessProcData \<times> 'w ProcMan) option" where
  "forkFiles env parentPid childPid pd child st = do {
     (ok, st) \<leftarrow> onFs (kernelFsFileCreateWithSize env (procPathOf childPid) (of_nat procDataSize)) st;
     if \<not> ok then Some (False, child, st)
     else do {
       (procFd, st) \<leftarrow> onFs (kernelFsFileOpen env (procPathOf childPid) KernelFsFdModeRW) st;
       let st = updProc childPid (\<lambda>p. p\<lparr>prProcFd := procFd\<rparr>) st;
       if procFd = KernelFsFdInvalid then Some (False, child, st)
       else do {
         let ramTotalSize = ucast (pdEnvVarDataLen pd) + pdRamLen pd;
         (ok, st) \<leftarrow> onFs (kernelFsFileCreateWithSize env (ramPathOf childPid) (ucast ramTotalSize)) st;
         if \<not> ok then Some (False, child, st)
         else do {
           (ramFd, st) \<leftarrow> onFs (kernelFsFileOpen env (ramPathOf childPid) KernelFsFdModeRW) st;
           let child = child\<lparr>pdRamFd := ramFd\<rparr>;
           if ramFd = KernelFsFdInvalid then Some (False, child, st)
           else do {
             let st = updProc childPid (\<lambda>p. p\<lparr>prState := ProcManProcessStateActive\<rparr>) st;
             (progmemFd, st) \<leftarrow> onFs (kernelFsFileDupeOrOpen env (prProgmemFd (procOf st parentPid))) st;
             let st = updProc childPid (\<lambda>p. p\<lparr>prProgmemFd := progmemFd\<rparr>) st;
             if progmemFd = KernelFsFdInvalid then Some (False, child, st)
             else do {
               (ok, child, st) \<leftarrow> dupeFds env localFds pd child st;
               if \<not> ok then Some (False, child, st)
               else do {
                 (ok, st) \<leftarrow> procManProcessStoreProcData env childPid child st;
                 if \<not> ok then Some (False, child, st)
                 else do {
                   (ok, st) \<leftarrow> copyRam env (pdRamFd pd) ramFd ramTotalSize st;
                   Some (ok, child, st)
                 }
               }
             }
           }
         }
       }
     }
   }"

primrec closeGlobalFds :: "KernelFsFd list \<Rightarrow> 'w ProcMan \<Rightarrow> 'w ProcMan option" where
  "closeGlobalFds [] st = Some st"
| "closeGlobalFds (fd # rest) st = do {
     (_, st) \<leftarrow> onFs (kernelFsFileClose fd) st;
     closeGlobalFds rest st
   }"

definition forkError ::
    "'w KEnv \<Rightarrow> ProcManPid \<Rightarrow> ProcManProcessProcData \<Rightarrow> 'w ProcMan \<Rightarrow> 'w ProcMan option" where
  "forkError env childPid child st = do {
     st \<leftarrow> closeGlobalFds (pdFds child) st;
     (_, st) \<leftarrow> newProcessError env childPid (pdRamFd child) st;
     Some st
   }"

definition procManProcessFork ::
    "'w KEnv \<Rightarrow> ProcManPid \<Rightarrow> ProcManProcessProcData \<Rightarrow> 'w ProcMan \<Rightarrow>
     (ProcManProcessProcData \<times> 'w ProcMan) option" where
  "procManProcessFork env parentPid pd st = do {
     let child = (setReg 0 0 pd)\<lparr>pdRamFd := KernelFsFdInvalid,
       pdFds := map (\<lambda>_. KernelFsFdInvalid) (pdFds pd)\<rparr>;
     let childPid = procManFindUnusedPid st;
     if unat childPid = ProcManPidMax then Some (setReg 0 (of_nat ProcManPidMax) pd, st)
     else do {
       let st = updProc childPid unusedProcess st;
       (ok, child, st) \<leftarrow> forkFiles env parentPid childPid pd child st;
       if ok then Some (setReg 0 (ucast childPid) pd, st)
       else do {
         st \<leftarrow> forkError env childPid child st;
         Some (setReg 0 (of_nat ProcManPidMax) pd, st)
       }
     }
   }"

end
