(* ===== verification/ProcManSyscall.thy ===== *)
theory ProcManSyscall
  imports ProcManProcess HwDevice
begin

text \<open>
  \<open>src/kernel/procman.c\<close>, sixth part: the system calls on processes, the environment, time
  and the kernel. A call reads its arguments from the registers, changes the state and leaves its
  result in \<open>r0\<close>; \<open>False\<close> has the process killed. \<open>SysEnv\<close> holds the functors of the
  file system and the hardware.
\<close>

section \<open>What the system calls use\<close>

type_synonym 'w SysResult = "(bool \<times> ProcManProcessProcData \<times> 'w ProcMan) option"

record 'w SysEnv =
  seFs :: "'w KEnv"
  seHw :: "'w Hardware"

definition worldOf :: "'w ProcMan \<Rightarrow> 'w Globals" where
  "worldOf st = globalsOf (kFs st)"

definition updWorld :: "('w Globals \<Rightarrow> 'w Globals) \<Rightarrow> 'w ProcMan \<Rightarrow> 'w ProcMan" where
  "updWorld f st = st\<lparr>kFs := updGlobals f (kFs st)\<rparr>"

definition rawMs :: "'w SysEnv \<Rightarrow> 'w ProcMan \<Rightarrow> KTime \<times> 'w ProcMan" where
  "rawMs sys st =
     (case hwRawMs (seHw sys) (gHost (worldOf st)) of (raw, w) \<Rightarrow> (raw, updWorld (\<lambda>g. g\<lparr>gHost := w\<rparr>) st))"

definition getMonotonicMs :: "'w SysEnv \<Rightarrow> 'w ProcMan \<Rightarrow> KTime \<times> 'w ProcMan" where
  "getMonotonicMs sys st =
     (case rawMs sys st of (raw, st) \<Rightarrow> (ktimeGetMonotonicMs raw (gTime (worldOf st)), st))"

definition getRealMs :: "'w SysEnv \<Rightarrow> 'w ProcMan \<Rightarrow> KTime \<times> 'w ProcMan" where
  "getRealMs sys st =
     (case rawMs sys st of (raw, st) \<Rightarrow> (ktimeGetRealMs raw (gTime (worldOf st)), st))"

section \<open>Processes\<close>

definition sysExit :: "ProcManPid \<Rightarrow> ProcManProcessProcData \<Rightarrow> 'w ProcMan \<Rightarrow> ProcManExitStatus \<times> 'w ProcMan" where
  "sysExit process pd st =
     (getReg pd 1, updProc process (\<lambda>p. p\<lparr>prState := ProcManProcessStateExiting\<rparr>) st)"

definition sysGetPid :: "ProcManPid \<Rightarrow> ProcManProcessProcData \<Rightarrow> 'w ProcMan \<Rightarrow> 'w SysResult" where
  "sysGetPid process pd st = Some (True, setReg 0 (ucast process) pd, st)"

definition sysGetArgC :: "ProcManProcessProcData \<Rightarrow> 'w ProcMan \<Rightarrow> 'w SysResult" where
  "sysGetArgC pd st = Some (True, setReg 0 (ucast (pdArgc pd)) pd, st)"

definition sysGetArgVN ::
    "'w SysEnv \<Rightarrow> ProcManPid \<Rightarrow> ProcManProcessProcData \<Rightarrow> 'w ProcMan \<Rightarrow> 'w SysResult" where
  "sysGetArgVN sys process pd st = do {
     (ok, addr, st) \<leftarrow> procManProcessGetArgvNAddr (seFs sys) process pd (ucast (getReg pd 1)) st;
     Some (ok, setReg 0 addr pd, st)
   }"

definition sysFork ::
    "'w SysEnv \<Rightarrow> ProcManPid \<Rightarrow> ProcManProcessProcData \<Rightarrow> 'w ProcMan \<Rightarrow> 'w SysResult" where
  "sysFork sys process pd st =
     map_option (\<lambda>(pd, st). (True, pd, st)) (procManProcessFork (seFs sys) process pd st)"

definition sysWaitPid ::
    "'w SysEnv \<Rightarrow> ProcManPid \<Rightarrow> ProcManProcessProcData \<Rightarrow> 'w ProcMan \<Rightarrow> 'w SysResult" where
  "sysWaitPid sys process pd st =
     (let waitPid = getReg pd 1; timeout = getReg pd 2 in
      if unat waitPid \<ge> ProcManPidMax \<or> procManGetProcessByPid st (ucast waitPid) = None then
        Some (True, setReg 0 ProcManExitStatusNoProcess pd, st)
      else
        let (timeoutTime, st) = (if timeout > 0 then
               (case getMonotonicMs sys st of (ms, st) \<Rightarrow> (ms + ucast timeout * 1000, st))
             else (0, st)) in
        Some (True, pd, updProc process
          (\<lambda>p. p\<lparr>prState := ProcManProcessStateWaitingWaitpid (ucast waitPid) (ucast timeoutTime)\<rparr>) st))"

text \<open>The executable's path; a null path is passed on as a null pointer.\<close>

definition procManGetExecPathFromProcess :: "ProcManPid \<Rightarrow> 'w ProcMan \<Rightarrow> cstr option option" where
  "procManGetExecPathFromProcess process st = do {
     pathK \<leftarrow> kernelFsGetFilePath (kFs st) (prProgmemFd (procOf st process));
     if kstrIsNull pathK then Some None
     else if length (kstrBytes pathK) < KernelFsPathMax then Some (Some (kstrStrcpy [] pathK)) else None
   }"

definition sysGetPidPath ::
    "'w SysEnv \<Rightarrow> ProcManPid \<Rightarrow> ProcManProcessProcData \<Rightarrow> 'w ProcMan \<Rightarrow> 'w SysResult" where
  "sysGetPidPath sys process pd st =
     (case procManGetProcessByPid st (ucast (getReg pd 1)) of
        None \<Rightarrow> Some (True, setReg 0 0 pd, st)
      | Some q \<Rightarrow> do {
          execPath \<leftarrow> procManGetExecPathFromProcess q st;
          execPath \<leftarrow> execPath;
          (ok, pd, st) \<leftarrow> procManProcessMemoryWriteStr (seFs sys) process (getReg pd 2) execPath pd st;
          Some (if ok then (True, setReg 0 1 pd, st) else (False, pd, st))
        })"

fun stateName :: "ProcManProcessState \<Rightarrow> cstr" where
  "stateName ProcManProcessStateUnused = bytesOf ''unused''"
| "stateName ProcManProcessStateActive = bytesOf ''active''"
| "stateName ProcManProcessStateExiting = bytesOf ''exiting''"
| "stateName _ = bytesOf ''waiting''"

definition sysGetPidState ::
    "'w SysEnv \<Rightarrow> ProcManPid \<Rightarrow> ProcManProcessProcData \<Rightarrow> 'w ProcMan \<Rightarrow> 'w SysResult" where
  "sysGetPidState sys process pd st =
     (case procManGetProcessByPid st (ucast (getReg pd 1)) of
        None \<Rightarrow> Some (True, setReg 0 0 pd, st)
      | Some q \<Rightarrow> do {
          (ok, pd, st) \<leftarrow> procManProcessMemoryWriteStr (seFs sys) process (getReg pd 2)
            (stateName (prState (procOf st q))) pd st;
          Some (if ok then (True, setReg 0 1 pd, st) else (False, pd, st))
        })"

fun cpuCountsLoop ::
    "'w KEnv \<Rightarrow> ProcManPid \<Rightarrow> u16 \<Rightarrow> ProcManPid list \<Rightarrow> ProcManProcessProcData \<Rightarrow> 'w ProcMan \<Rightarrow>
     'w SysResult" where
  "cpuCountsLoop env process bufAddr [] pd st = Some (True, pd, st)"
| "cpuCountsLoop env process bufAddr (i # rest) pd st =
     (let v = (if procManGetProcessByPid st i = None then 0 else prInstructionCounter (procOf st i)) in
      case procManProcessMemoryWriteWord env process bufAddr v pd st of
        None \<Rightarrow> None
      | Some (ok, pd', st') \<Rightarrow>
          if ok then cpuCountsLoop env process (bufAddr + 2) rest pd' st' else Some (False, pd', st'))"

definition sysGetAllCpuCounts ::
    "'w SysEnv \<Rightarrow> ProcManPid \<Rightarrow> ProcManProcessProcData \<Rightarrow> 'w ProcMan \<Rightarrow> 'w SysResult" where
  "sysGetAllCpuCounts sys process pd st = cpuCountsLoop (seFs sys) process (getReg pd 1) allPids pd st"

definition sysKill ::
    "'w SysEnv \<Rightarrow> ProcManPid \<Rightarrow> ProcManProcessProcData \<Rightarrow> 'w ProcMan \<Rightarrow> 'w SysResult" where
  "sysKill sys process pd st =
     (let pid = ucast (getReg pd 1) in
      if pid = 0 then Some (True, pd, st)
      else do {
        (pd', st) \<leftarrow> procManProcessKill (seFs sys) pid ProcManExitStatusKilled
          (if pid = process then Some pd else None) st;
        Some (True, case pd' of None \<Rightarrow> pd | Some pd' \<Rightarrow> pd', st)
      })"

definition BytecodeSignalIdSuicideCode :: u16 where "BytecodeSignalIdSuicideCode = 3"

definition sysSignal ::
    "'w SysEnv \<Rightarrow> ProcManProcessProcData \<Rightarrow> 'w ProcMan \<Rightarrow> 'w SysResult" where
  "sysSignal sys pd st =
     (let targetPid = ucast (getReg pd 1); signalId = getReg pd 2 in
      if targetPid = 0 \<and> signalId = BytecodeSignalIdSuicideCode then Some (True, pd, st)
      else map_option (\<lambda>st. (True, pd, st)) (procManProcessSendSignal (seFs sys) targetPid signalId st))"

definition sysGetPidFdN ::
    "'w SysEnv \<Rightarrow> ProcManPid \<Rightarrow> ProcManProcessProcData \<Rightarrow> 'w ProcMan \<Rightarrow> 'w SysResult" where
  "sysGetPidFdN sys process pd st =
     (let pid = ucast (getReg pd 1); localFd = ucast (getReg pd 2) in
      if unat pid \<ge> ProcManPidMax \<or> localFd = ProcManLocalFdInvalid \<or> unat localFd \<ge> ProcManMaxFds then
        Some (True, setReg 0 (ucast KernelFsFdInvalid) pd, st)
      else if pid = process then Some (True, setReg 0 (ucast (getFd pd localFd)) pd, st)
      else do {
        (fd, st) \<leftarrow> procManProcessGetGlobalFdFromLocalWithPid (seFs sys) pid localFd st;
        Some (True, setReg 0 (ucast fd) pd, st)
      })"

text \<open>The process identifier is cut to eight bits when the process is looked up.\<close>

definition sysGetPidRam ::
    "'w SysEnv \<Rightarrow> ProcManProcessProcData \<Rightarrow> 'w ProcMan \<Rightarrow> 'w SysResult" where
  "sysGetPidRam sys pd st =
     (case procManGetProcessByPid st (ucast (getReg pd 1)) of
        None \<Rightarrow> Some (True, setReg 0 0 pd, st)
      | Some q \<Rightarrow> do {
          (envVarDataLen, st) \<leftarrow> procManProcessLoadProcDataEnvVarDataLen (seFs sys) q st;
          case envVarDataLen of
            None \<Rightarrow> Some (True, setReg 0 0 pd, st)
          | Some envVarDataLen \<Rightarrow> do {
              (ramLen, st) \<leftarrow> procManProcessLoadProcDataRamLen (seFs sys) q st;
              case ramLen of
                None \<Rightarrow> Some (True, setReg 0 0 pd, st)
              | Some ramLen \<Rightarrow>
                  Some (True, setReg 0 (of_nat procDataSize + ucast envVarDataLen + ramLen) pd, st)
            }
        })"

section \<open>Environment, signal handlers and log level\<close>

definition sysEnvGetPwd :: "ProcManProcessProcData \<Rightarrow> 'w ProcMan \<Rightarrow> 'w SysResult" where
  "sysEnvGetPwd pd st = Some (True, setReg 0 (pdPwd pd) pd, st)"

definition sysEnvSetPwd :: "ProcManProcessProcData \<Rightarrow> 'w ProcMan \<Rightarrow> 'w SysResult" where
  "sysEnvSetPwd pd st = Some (True, pd\<lparr>pdPwd := getReg pd 1\<rparr>, st)"

definition sysEnvGetPath :: "ProcManProcessProcData \<Rightarrow> 'w ProcMan \<Rightarrow> 'w SysResult" where
  "sysEnvGetPath pd st = Some (True, setReg 0 (pdPath pd) pd, st)"

definition sysEnvSetPath :: "ProcManProcessProcData \<Rightarrow> 'w ProcMan \<Rightarrow> 'w SysResult" where
  "sysEnvSetPath pd st = Some (True, pd\<lparr>pdPath := getReg pd 1\<rparr>, st)"

definition sysRegisterSignalHandler :: "ProcManProcessProcData \<Rightarrow> 'w ProcMan \<Rightarrow> 'w SysResult" where
  "sysRegisterSignalHandler pd st =
     (let signalId = getReg pd 1; handlerAddr = getReg pd 2 in
      if unat signalId \<ge> BytecodeSignalIdNB \<or> handlerAddr \<ge> 256 then Some (True, pd, st)
      else Some (True, pd\<lparr>pdSignalHandlers :=
        (pdSignalHandlers pd)[unat signalId := ucast handlerAddr]\<rparr>, st))"

definition LogLevelNone :: u16 where "LogLevelNone = 3"

definition sysGetLogLevel :: "ProcManProcessProcData \<Rightarrow> 'w ProcMan \<Rightarrow> 'w SysResult" where
  "sysGetLogLevel pd st = Some (True, setReg 0 (pmLogLevel st) pd, st)"

definition sysSetLogLevel :: "ProcManProcessProcData \<Rightarrow> 'w ProcMan \<Rightarrow> 'w SysResult" where
  "sysSetLogLevel pd st =
     Some (True, pd, st\<lparr>pmLogLevel := (if getReg pd 1 \<le> LogLevelNone then getReg pd 1 else LogLevelNone)\<rparr>)"

section \<open>Time\<close>

definition sysTimeMonotonic16s ::
    "'w SysEnv \<Rightarrow> ProcManProcessProcData \<Rightarrow> 'w ProcMan \<Rightarrow> 'w SysResult" where
  "sysTimeMonotonic16s sys pd st =
     (case getMonotonicMs sys st of (ms, st) \<Rightarrow> Some (True, setReg 0 (ucast (ms div 1000)) pd, st))"

definition sysTimeMonotonic16ms ::
    "'w SysEnv \<Rightarrow> ProcManProcessProcData \<Rightarrow> 'w ProcMan \<Rightarrow> 'w SysResult" where
  "sysTimeMonotonic16ms sys pd st =
     (case getMonotonicMs sys st of (ms, st) \<Rightarrow> Some (True, setReg 0 (ucast ms) pd, st))"

definition sysTimeMonotonic32s ::
    "'w SysEnv \<Rightarrow> ProcManPid \<Rightarrow> ProcManProcessProcData \<Rightarrow> 'w ProcMan \<Rightarrow> 'w SysResult" where
  "sysTimeMonotonic32s sys process pd st =
     (case getMonotonicMs sys st of (ms, st) \<Rightarrow>
        procManProcessMemoryWriteDoubleWord (seFs sys) process (getReg pd 1) (ucast (ms div 1000)) pd st)"

definition sysTimeMonotonic32ms ::
    "'w SysEnv \<Rightarrow> ProcManPid \<Rightarrow> ProcManProcessProcData \<Rightarrow> 'w ProcMan \<Rightarrow> 'w SysResult" where
  "sysTimeMonotonic32ms sys process pd st =
     (case getMonotonicMs sys st of (ms, st) \<Rightarrow>
        procManProcessMemoryWriteDoubleWord (seFs sys) process (getReg pd 1) (ucast ms) pd st)"

definition sysTimeReal32s ::
    "'w SysEnv \<Rightarrow> ProcManPid \<Rightarrow> ProcManProcessProcData \<Rightarrow> 'w ProcMan \<Rightarrow> 'w SysResult" where
  "sysTimeReal32s sys process pd st =
     (case getRealMs sys st of (ms, st) \<Rightarrow>
        procManProcessMemoryWriteDoubleWord (seFs sys) process (getReg pd 1) (ucast (ms div 1000)) pd st)"

fun writeBytes ::
    "'w KEnv \<Rightarrow> ProcManPid \<Rightarrow> u16 \<Rightarrow> u8 list \<Rightarrow> ProcManProcessProcData \<Rightarrow> 'w ProcMan \<Rightarrow> 'w SysResult" where
  "writeBytes env process addr [] pd st = Some (True, pd, st)"
| "writeBytes env process addr (b # bs) pd st =
     (case procManProcessMemoryWriteByte env process addr b pd st of
        None \<Rightarrow> None
      | Some (ok, pd', st') \<Rightarrow>
          if ok then writeBytes env process (addr + 1) bs pd' st' else Some (False, pd', st'))"

definition sysTimeToDate32s ::
    "'w SysEnv \<Rightarrow> ProcManPid \<Rightarrow> ProcManProcessProcData \<Rightarrow> 'w ProcMan \<Rightarrow> 'w SysResult" where
  "sysTimeToDate32s sys process pd st = do {
     let destDatePtr = getReg pd 1;
     (srcTime, st) \<leftarrow> procManProcessMemoryReadDoubleWord (seFs sys) process pd (getReg pd 2) st;
     case srcTime of
       None \<Rightarrow> Some (False, pd, st)
     | Some srcTime \<Rightarrow> do {
         let date = ktimeTimeMsToDate (ucast srcTime * 1000);
         (ok, pd, st) \<leftarrow> procManProcessMemoryWriteWord (seFs sys) process destDatePtr (ucast (kdYear date)) pd st;
         if \<not> ok then Some (False, pd, st)
         else writeBytes (seFs sys) process (destDatePtr + 2)
           [kdMonth date, kdDay date, kdHour date, kdMinute date, kdSecond date] pd st
       }
   }"

section \<open>The kernel\<close>

fun stateCode :: "KernelRunState \<Rightarrow> nat" where
  "stateCode KernelStateInvalid = 0"
| "stateCode KernelStateBooting = 1"
| "stateCode KernelStateRunning = 2"
| "stateCode KernelStateShuttingDownWaitAll = 3"
| "stateCode KernelStateShuttingDownWaitInit = 4"
| "stateCode KernelStateShuttingDownFinal = 5"
| "stateCode KernelStateShutdown = 6"

definition kernelSetState :: "'w SysEnv \<Rightarrow> KernelRunState \<Rightarrow> 'w ProcMan \<Rightarrow> 'w ProcMan" where
  "kernelSetState sys newState st =
     (case getMonotonicMs sys (st\<lparr>pmKernelState := newState\<rparr>) of
        (ms, st) \<Rightarrow> st\<lparr>pmKernelStateTime := ms\<rparr>)"

fun signalEach ::
    "'w KEnv \<Rightarrow> u16 \<Rightarrow> ProcManPid list \<Rightarrow> 'w ProcMan \<Rightarrow> 'w ProcMan option" where
  "signalEach env signalId [] st = Some st"
| "signalEach env signalId (pid # rest) st =
     (if \<not> procManProcessExists st pid then signalEach env signalId rest st
      else case procManProcessSendSignal env pid signalId st of
        None \<Rightarrow> None | Some st' \<Rightarrow> signalEach env signalId rest st')"

definition kernelShutdownBegin :: "'w SysEnv \<Rightarrow> 'w ProcMan \<Rightarrow> 'w ProcMan option" where
  "kernelShutdownBegin sys st =
     (if stateCode (pmKernelState st) > stateCode KernelStateRunning then Some st
      else signalEach (seFs sys) BytecodeSignalIdSuicideCode (tl allPids)
        (kernelSetState sys KernelStateShuttingDownWaitAll st))"

definition kernelShutdownNext :: "'w SysEnv \<Rightarrow> 'w ProcMan \<Rightarrow> 'w ProcMan option" where
  "kernelShutdownNext sys st =
     (if pmKernelState st \<noteq> KernelStateShuttingDownWaitAll then None
      else do {
        st \<leftarrow> killEach (seFs sys) (tl allPids) st;
        procManProcessSendSignal (seFs sys) 0 BytecodeSignalIdSuicideCode
          (kernelSetState sys KernelStateShuttingDownWaitInit st)
      })"

definition sysShutdown :: "'w SysEnv \<Rightarrow> ProcManProcessProcData \<Rightarrow> 'w ProcMan \<Rightarrow> 'w SysResult" where
  "sysShutdown sys pd st = map_option (\<lambda>st. (True, pd, st)) (kernelShutdownBegin sys st)"

text \<open>Two paths from memory: both are read before either is normalised.\<close>

definition readTwoPaths ::
    "'w KEnv \<Rightarrow> ProcManPid \<Rightarrow> ProcManProcessProcData \<Rightarrow> u16 \<Rightarrow> u16 \<Rightarrow> 'w ProcMan \<Rightarrow>
     ((cstr \<times> cstr) option \<times> 'w ProcMan) option" where
  "readTwoPaths env process pd addr1 addr2 st = do {
     (s1, st) \<leftarrow> readPathStr env process pd addr1 st;
     case s1 of
       None \<Rightarrow> Some (None, st)
     | Some s1 \<Rightarrow> do {
         (s2, st) \<leftarrow> readPathStr env process pd addr2 st;
         case s2 of
           None \<Rightarrow> Some (None, st)
         | Some s2 \<Rightarrow> do {
             p1 \<leftarrow> normaliseBuffer s1;
             p2 \<leftarrow> normaliseBuffer s2;
             Some (Some (p1, p2), st)
           }
       }
   }"

definition sysMount ::
    "'w SysEnv \<Rightarrow> ProcManPid \<Rightarrow> ProcManProcessProcData \<Rightarrow> 'w ProcMan \<Rightarrow> 'w SysResult" where
  "sysMount sys process pd st = do {
     (paths, st) \<leftarrow> readTwoPaths (seFs sys) process pd (getReg pd 2) (getReg pd 3) st;
     case paths of
       None \<Rightarrow> Some (False, pd, st)
     | Some (devicePath, dirPath) \<Rightarrow> do {
         (ok, st) \<leftarrow> onFs (kernelMount (seFs sys) (getReg pd 1) devicePath dirPath) st;
         Some (True, setReg 0 (of_bool ok) pd, st)
       }
   }"

definition sysRemount ::
    "'w SysEnv \<Rightarrow> ProcManPid \<Rightarrow> ProcManProcessProcData \<Rightarrow> 'w ProcMan \<Rightarrow> 'w SysResult" where
  "sysRemount sys process pd st = do {
     (paths, st) \<leftarrow> readTwoPaths (seFs sys) process pd (getReg pd 2) (getReg pd 3) st;
     case paths of
       None \<Rightarrow> Some (False, pd, st)
     | Some (newDevicePath, dirPath) \<Rightarrow> do {
         (ok, st) \<leftarrow> onFs (kernelRemount (seFs sys) (getReg pd 1) newDevicePath dirPath) st;
         Some (True, setReg 0 (of_bool ok) pd, st)
       }
   }"

definition sysUnmount ::
    "'w SysEnv \<Rightarrow> ProcManPid \<Rightarrow> ProcManProcessProcData \<Rightarrow> 'w ProcMan \<Rightarrow> 'w SysResult" where
  "sysUnmount sys process pd st = do {
     (dirPath, st) \<leftarrow> readPath (seFs sys) process pd (getReg pd 1) st;
     case dirPath of
       None \<Rightarrow> Some (False, pd, st)
     | Some dirPath \<Rightarrow> map_option (\<lambda>fs. (True, pd, st\<lparr>kFs := fs\<rparr>)) (kernelUnmount dirPath (kFs st))
   }"

end
