(* ===== verification/ProcManSyscallFs.thy ===== *)
theory ProcManSyscallFs
  imports ProcManSyscall
begin

text \<open>
  \<open>src/kernel/procman.c\<close>, seventh part: the system calls on files, directories, devices and
  pipes. Reading and writing wait when the device behind the descriptor is not ready.
\<close>

section \<open>Reading and writing\<close>

definition sysRead ::
    "'w SysEnv \<Rightarrow> ProcManPid \<Rightarrow> ProcManProcessProcData \<Rightarrow> 'w ProcMan \<Rightarrow> 'w SysResult" where
  "sysRead sys process pd st = do {
     globalFd \<leftarrow> procManProcessGetGlobalFdFromLocal pd (ucast (getReg pd 1)) st;
     if globalFd = KernelFsFdInvalid then Some (True, setReg 0 0 pd, st)
     else do {
       ready \<leftarrow> kernelFsFileCanRead (seFs sys) globalFd (kFs st);
       if \<not> ready
       then Some (True, pd, updProc process (\<lambda>p. p\<lparr>prState := ProcManProcessStateWaitingRead globalFd\<rparr>) st)
       else procManProcessRead (seFs sys) process pd st
     }
   }"

definition sysWrite ::
    "'w SysEnv \<Rightarrow> ProcManPid \<Rightarrow> ProcManProcessProcData \<Rightarrow> 'w ProcMan \<Rightarrow> 'w SysResult" where
  "sysWrite sys process pd st = do {
     globalFd \<leftarrow> procManProcessGetGlobalFdFromLocal pd (ucast (getReg pd 1)) st;
     if globalFd = KernelFsFdInvalid then Some (True, setReg 0 0 pd, st)
     else do {
       ready \<leftarrow> kernelFsFileCanWrite (seFs sys) globalFd (kFs st);
       if \<not> ready
       then Some (True, pd, updProc process (\<lambda>p. p\<lparr>prState := ProcManProcessStateWaitingWrite globalFd\<rparr>) st)
       else procManProcessWrite (seFs sys) process pd st
     }
   }"

definition sysRead32 ::
    "'w SysEnv \<Rightarrow> ProcManPid \<Rightarrow> ProcManProcessProcData \<Rightarrow> 'w ProcMan \<Rightarrow> 'w SysResult" where
  "sysRead32 sys process pd st = do {
     globalFd \<leftarrow> procManProcessGetGlobalFdFromLocal pd (ucast (getReg pd 1)) st;
     if globalFd = KernelFsFdInvalid then Some (True, setReg 0 0 pd, st)
     else do {
       ready \<leftarrow> kernelFsFileCanRead (seFs sys) globalFd (kFs st);
       if \<not> ready
       then Some (True, pd, updProc process (\<lambda>p. p\<lparr>prState := ProcManProcessStateWaitingRead32 globalFd\<rparr>) st)
       else procManProcessRead32 (seFs sys) process pd st
     }
   }"

definition sysWrite32 ::
    "'w SysEnv \<Rightarrow> ProcManPid \<Rightarrow> ProcManProcessProcData \<Rightarrow> 'w ProcMan \<Rightarrow> 'w SysResult" where
  "sysWrite32 sys process pd st = do {
     globalFd \<leftarrow> procManProcessGetGlobalFdFromLocal pd (ucast (getReg pd 1)) st;
     if globalFd = KernelFsFdInvalid then Some (True, setReg 0 0 pd, st)
     else do {
       ready \<leftarrow> kernelFsFileCanWrite (seFs sys) globalFd (kFs st);
       if \<not> ready
       then Some (True, pd, updProc process (\<lambda>p. p\<lparr>prState := ProcManProcessStateWaitingWrite32 globalFd\<rparr>) st)
       else procManProcessWrite32 (seFs sys) process pd st
     }
   }"

text \<open>The terminal is switched to not waiting for a newline during the read.\<close>

definition sysTryReadByte ::
    "'w SysEnv \<Rightarrow> ProcManProcessProcData \<Rightarrow> 'w ProcMan \<Rightarrow> 'w SysResult" where
  "sysTryReadByte sys pd st = do {
     let setBlocking = (\<lambda>b. updWorld (\<lambda>g. g\<lparr>gTty := ttySetBlocking b (gTty g)\<rparr>));
     globalFd \<leftarrow> procManProcessGetGlobalFdFromLocal pd (ucast (getReg pd 1)) st;
     if globalFd = KernelFsFdInvalid then Some (True, setReg 0 256 pd, st)
     else do {
       let prevBlocking = ttyGetBlocking (gTty (worldOf st));
       let st = setBlocking False st;
       (bytes, st) \<leftarrow> onFs (kernelFsFileReadOffset (seFs sys) globalFd 0 1) st;
       let st = setBlocking prevBlocking st;
       Some (True, setReg 0 (if length bytes = 1 then ucast (bytes ! 0) else 256) pd, st)
     }
   }"

definition sysTryWriteByte ::
    "'w SysEnv \<Rightarrow> ProcManProcessProcData \<Rightarrow> 'w ProcMan \<Rightarrow> 'w SysResult" where
  "sysTryWriteByte sys pd st = do {
     globalFd \<leftarrow> procManProcessGetGlobalFdFromLocal pd (ucast (getReg pd 1)) st;
     if globalFd = KernelFsFdInvalid then Some (True, setReg 0 0 pd, st)
     else do {
       (n, st) \<leftarrow> onFs (kernelFsFileWriteOffset (seFs sys) globalFd 0 [ucast (getReg pd 2)]) st;
       Some (True, setReg 0 (ucast n) pd, st)
     }
   }"

section \<open>Opening, closing and asking\<close>

definition sysOpen ::
    "'w SysEnv \<Rightarrow> ProcManPid \<Rightarrow> ProcManProcessProcData \<Rightarrow> 'w ProcMan \<Rightarrow> 'w SysResult" where
  "sysOpen sys process pd st =
     (let mode = getReg pd 2 in
      if mode = ucast KernelFsFdModeNone \<or> unat mode \<ge> KernelFsFdModeMax then
        Some (True, setReg 0 (ucast ProcManLocalFdInvalid) pd, st)
      else do {
        (path, st) \<leftarrow> readPath (seFs sys) process pd (getReg pd 1) st;
        case path of
          None \<Rightarrow> Some (False, pd, st)
        | Some path \<Rightarrow> do {
            (localFd, pd, st) \<leftarrow> procManProcessOpenFile (seFs sys) path (ucast mode) pd st;
            Some (True, setReg 0 (ucast localFd) pd, st)
          }
      })"

definition sysClose ::
    "'w SysEnv \<Rightarrow> ProcManProcessProcData \<Rightarrow> 'w ProcMan \<Rightarrow> 'w SysResult" where
  "sysClose sys pd st =
     map_option (\<lambda>(pd, st). (True, pd, st))
       (procManProcessCloseFile (seFs sys) (ucast (getReg pd 1)) pd st)"

definition sysDirGetChildN ::
    "'w SysEnv \<Rightarrow> ProcManPid \<Rightarrow> ProcManProcessProcData \<Rightarrow> 'w ProcMan \<Rightarrow> 'w SysResult" where
  "sysDirGetChildN sys process pd st = do {
     globalFd \<leftarrow> procManProcessGetGlobalFdFromLocal pd (ucast (getReg pd 1)) st;
     if globalFd = KernelFsFdInvalid then Some (True, setReg 0 0 pd, st)
     else do {
       let bufAddr = getReg pd 3;
       childPath \<leftarrow> kernelFsDirectoryGetChild (seFs sys) globalFd (unat (getReg pd 2)) (kFs st);
       case childPath of
         None \<Rightarrow> Some (True, setReg 0 0 pd, st)
       | Some childPath \<Rightarrow>
           procManProcessMemoryWriteStr (seFs sys) process bufAddr childPath (setReg 0 1 pd) st
     }
   }"

definition sysGetPath ::
    "'w SysEnv \<Rightarrow> ProcManPid \<Rightarrow> ProcManProcessProcData \<Rightarrow> 'w ProcMan \<Rightarrow> 'w SysResult" where
  "sysGetPath sys process pd st = do {
     globalFd \<leftarrow> procManProcessGetGlobalFdFromLocal pd (ucast (getReg pd 1)) st;
     if globalFd = KernelFsFdInvalid then Some (True, setReg 0 0 pd, st)
     else do {
       pathK \<leftarrow> kernelFsGetFilePath (kFs st) globalFd;
       if kstrIsNull pathK \<or> length (kstrBytes pathK) \<ge> KernelFsPathMax then None
       else do {
         (ok, pd, st) \<leftarrow> procManProcessMemoryWriteStr (seFs sys) process (getReg pd 2)
           (kstrStrcpy [] pathK) pd st;
         Some (if ok then (True, setReg 0 1 pd, st) else (False, pd, st))
       }
     }
   }"

text \<open>Any number may be asked for here, and one that is no descriptor of the table fails the
  assertion of \<open>kernelFsGetFilePath\<close>.\<close>

definition sysGetPathGlobal ::
    "'w SysEnv \<Rightarrow> ProcManPid \<Rightarrow> ProcManProcessProcData \<Rightarrow> 'w ProcMan \<Rightarrow> 'w SysResult" where
  "sysGetPathGlobal sys process pd st = do {
     pathK \<leftarrow> kernelFsGetFilePath (kFs st) (ucast (getReg pd 1));
     if kstrIsNull pathK then Some (True, setReg 0 0 pd, st)
     else if length (kstrBytes pathK) \<ge> KernelFsPathMax then None
     else do {
       (ok, pd, st) \<leftarrow> procManProcessMemoryWriteStr (seFs sys) process (getReg pd 2)
         (kstrStrcpy [] pathK) pd st;
       Some (if ok then (True, setReg 0 1 pd, st) else (False, pd, st))
     }
   }"

definition resizeOrCreate ::
    "'w KEnv \<Rightarrow> cstr \<Rightarrow> u32 \<Rightarrow> 'w ProcMan \<Rightarrow> (bool \<times> 'w ProcMan) option" where
  "resizeOrCreate env path newSize st =
     (if \<not> kernelFsPathIsValid path then Some (False, st)
      else do {
        exists \<leftarrow> kernelFsFileExists env (kFs st) path;
        if exists then onFs (kernelFsFileResize env path newSize) st
        else onFs (kernelFsFileCreateWithSize env path newSize) st
      })"

definition sysResizeFile ::
    "'w SysEnv \<Rightarrow> ProcManPid \<Rightarrow> ProcManProcessProcData \<Rightarrow> 'w ProcMan \<Rightarrow> 'w SysResult" where
  "sysResizeFile sys process pd st = do {
     (path, st) \<leftarrow> readPath (seFs sys) process pd (getReg pd 1) st;
     case path of
       None \<Rightarrow> Some (False, pd, st)
     | Some path \<Rightarrow> do {
         (ok, st) \<leftarrow> resizeOrCreate (seFs sys) path (ucast (getReg pd 2)) st;
         Some (True, setReg 0 (of_bool ok) pd, st)
       }
   }"

definition sysResizeFile32 ::
    "'w SysEnv \<Rightarrow> ProcManPid \<Rightarrow> ProcManProcessProcData \<Rightarrow> 'w ProcMan \<Rightarrow> 'w SysResult" where
  "sysResizeFile32 sys process pd st = do {
     (path, st) \<leftarrow> readPath (seFs sys) process pd (getReg pd 1) st;
     case path of
       None \<Rightarrow> Some (False, pd, st)
     | Some path \<Rightarrow> do {
         (newSize, st) \<leftarrow> procManProcessMemoryReadDoubleWord (seFs sys) process pd (getReg pd 2) st;
         case newSize of
           None \<Rightarrow> Some (False, pd, st)
         | Some newSize \<Rightarrow> do {
             (ok, st) \<leftarrow> resizeOrCreate (seFs sys) path newSize st;
             Some (True, setReg 0 (of_bool ok) pd, st)
           }
       }
   }"

definition fileLenOrZero :: "'w KEnv \<Rightarrow> 'w ProcMan \<Rightarrow> cstr \<Rightarrow> u32 option" where
  "fileLenOrZero env st path =
     (if kernelFsPathIsValid path then kernelFsFileGetLen env (kFs st) path else Some 0)"

definition sysGetFileLen ::
    "'w SysEnv \<Rightarrow> ProcManPid \<Rightarrow> ProcManProcessProcData \<Rightarrow> 'w ProcMan \<Rightarrow> 'w SysResult" where
  "sysGetFileLen sys process pd st = do {
     (path, st) \<leftarrow> readPath (seFs sys) process pd (getReg pd 1) st;
     case path of
       None \<Rightarrow> Some (False, pd, st)
     | Some path \<Rightarrow> do {
         len \<leftarrow> fileLenOrZero (seFs sys) st path;
         Some (True, setReg 0 (ucast (if len > 65535 then 65535 else len)) pd, st)
       }
   }"

definition sysGetFileLen32 ::
    "'w SysEnv \<Rightarrow> ProcManPid \<Rightarrow> ProcManProcessProcData \<Rightarrow> 'w ProcMan \<Rightarrow> 'w SysResult" where
  "sysGetFileLen32 sys process pd st = do {
     (path, st) \<leftarrow> readPath (seFs sys) process pd (getReg pd 1) st;
     case path of
       None \<Rightarrow> Some (False, pd, st)
     | Some path \<Rightarrow> do {
         len \<leftarrow> fileLenOrZero (seFs sys) st path;
         procManProcessMemoryWriteDoubleWord (seFs sys) process (getReg pd 2) len pd st
       }
   }"

definition sysIsDir ::
    "'w SysEnv \<Rightarrow> ProcManPid \<Rightarrow> ProcManProcessProcData \<Rightarrow> 'w ProcMan \<Rightarrow> 'w SysResult" where
  "sysIsDir sys process pd st = do {
     (path, st) \<leftarrow> readPath (seFs sys) process pd (getReg pd 1) st;
     case path of
       None \<Rightarrow> Some (False, pd, st)
     | Some path \<Rightarrow> do {
         isDir \<leftarrow> kernelFsFileIsDir (seFs sys) (kFs st) path;
         Some (True, setReg 0 (of_bool isDir) pd, st)
       }
   }"

definition sysFileExists ::
    "'w SysEnv \<Rightarrow> ProcManPid \<Rightarrow> ProcManProcessProcData \<Rightarrow> 'w ProcMan \<Rightarrow> 'w SysResult" where
  "sysFileExists sys process pd st = do {
     (path, st) \<leftarrow> readPath (seFs sys) process pd (getReg pd 1) st;
     case path of
       None \<Rightarrow> Some (False, pd, st)
     | Some path \<Rightarrow> do {
         exists \<leftarrow> (if kernelFsPathIsValid path then kernelFsFileExists (seFs sys) (kFs st) path
                   else Some False);
         Some (True, setReg 0 (of_bool exists) pd, st)
       }
   }"

definition sysDelete ::
    "'w SysEnv \<Rightarrow> ProcManPid \<Rightarrow> ProcManProcessProcData \<Rightarrow> 'w ProcMan \<Rightarrow> 'w SysResult" where
  "sysDelete sys process pd st = do {
     (path, st) \<leftarrow> readPath (seFs sys) process pd (getReg pd 1) st;
     case path of
       None \<Rightarrow> Some (False, pd, st)
     | Some path \<Rightarrow> do {
         (ok, st) \<leftarrow> (if kernelFsPathIsValid path then onFs (kernelFsFileDelete (seFs sys) path) st
                     else Some (False, st));
         Some (True, setReg 0 (of_bool ok) pd, st)
       }
   }"

definition sysFlush ::
    "'w SysEnv \<Rightarrow> ProcManPid \<Rightarrow> ProcManProcessProcData \<Rightarrow> 'w ProcMan \<Rightarrow> 'w SysResult" where
  "sysFlush sys process pd st = do {
     (path, st) \<leftarrow> readPath (seFs sys) process pd (getReg pd 1) st;
     case path of
       None \<Rightarrow> Some (False, pd, st)
     | Some path \<Rightarrow>
         if \<not> kernelFsPathIsValid path then Some (True, setReg 0 0 pd, st)
         else do {
           (ok, st) \<leftarrow> onFs (kernelFsFileFlush (seFs sys) path) st;
           Some (True, setReg 0 (of_bool ok) pd, st)
         }
   }"

section \<open>Appending\<close>

text \<open>The result is that of the call: not to return at all, a failed read of memory, which
  has the process killed, or the value of \<open>r0\<close>.\<close>

function appendLoop ::
    "'w KEnv \<Rightarrow> ProcManPid \<Rightarrow> KernelFsFd \<Rightarrow> u32 \<Rightarrow> u16 \<Rightarrow> u16 \<Rightarrow> u16 \<Rightarrow> ProcManProcessProcData \<Rightarrow>
     'w ProcMan \<Rightarrow> (bool option \<times> 'w ProcMan) option" where
  "appendLoop env process fd oldFileLen dataAddr dataLen i pd st =
     (if i \<ge> dataLen then Some (Some True, st)
      else case procManProcessMemoryReadBlock env process pd (dataAddr + i) (chunkSize dataLen i) st of
        None \<Rightarrow> None
      | Some (None, st) \<Rightarrow> Some (None, st)
      | Some (Some bytes, st) \<Rightarrow>
          case writeExactly env fd (oldFileLen + ucast i) bytes st of
            None \<Rightarrow> None
          | Some (ok, st) \<Rightarrow>
              if \<not> ok then Some (Some False, st)
              else appendLoop env process fd oldFileLen dataAddr dataLen (i + chunkSize dataLen i) pd st)"
  by pat_completeness auto
termination
  by (relation "measure (\<lambda>(env, process, fd, oldFileLen, dataAddr, dataLen, i, pd, st). unat (dataLen - i))")
    (auto intro: chunk_less)

declare appendLoop.simps [simp del]

definition appendData ::
    "'w KEnv \<Rightarrow> ProcManPid \<Rightarrow> cstr \<Rightarrow> u32 \<Rightarrow> u16 \<Rightarrow> u16 \<Rightarrow> ProcManProcessProcData \<Rightarrow> 'w ProcMan \<Rightarrow>
     'w SysResult" where
  "appendData env process path oldFileLen dataAddr dataLen pd st = do {
     (fd, st) \<leftarrow> onFs (kernelFsFileOpen env path KernelFsFdModeWO) st;
     if fd = KernelFsFdInvalid then Some (True, setReg 0 0 pd, st)
     else do {
       (res, st) \<leftarrow> appendLoop env process fd oldFileLen dataAddr dataLen 0 pd st;
       (_, st) \<leftarrow> onFs (kernelFsFileClose fd) st;
       Some (case res of None \<Rightarrow> (False, pd, st) | Some ok \<Rightarrow> (True, setReg 0 (of_bool ok) pd, st))
     }
   }"

definition sysAppend ::
    "'w SysEnv \<Rightarrow> ProcManPid \<Rightarrow> ProcManProcessProcData \<Rightarrow> 'w ProcMan \<Rightarrow> 'w SysResult" where
  "sysAppend sys process pd st = do {
     let env = seFs sys;
     let dataLen = getReg pd 3;
     (path, st) \<leftarrow> readPath env process pd (getReg pd 1) st;
     case path of
       None \<Rightarrow> Some (False, pd, st)
     | Some path \<Rightarrow>
         if \<not> kernelFsPathIsValid path then Some (True, setReg 0 0 pd, st)
         else do {
           oldFileLen \<leftarrow> kernelFsFileGetLen env (kFs st) path;
           let newFileLen = oldFileLen + ucast dataLen;
           (_, st) \<leftarrow> (if oldFileLen = 0 then onFs (kernelFsFileCreateWithSize env path newFileLen) st
                      else Some (True, st));
           (ok, st) \<leftarrow> (if kernelFsFileIsCharacter (kFs st) path then Some (True, st)
                       else onFs (kernelFsFileResize env path newFileLen) st);
           if \<not> ok then Some (True, setReg 0 0 pd, st)
           else appendData env process path oldFileLen (getReg pd 2) dataLen pd st
         }
   }"

section \<open>Devices\<close>

definition ioctlPin :: "'w SysEnv \<Rightarrow> cstr \<Rightarrow> u16 \<Rightarrow> u16 \<Rightarrow> 'w ProcMan \<Rightarrow> 'w ProcMan" where
  "ioctlPin sys path command data st =
     (let pinNum = of_int (atoi (drop 8 path)) in
      if command \<noteq> 1 then st
      else if pinInUse pinNum (gPins (worldOf st)) then st
      else updWorld (\<lambda>g. g\<lparr>gPins := pinSetMode pinNum
        (if data = PinModeInput then PinModeInput else PinModeOutput) (gPins g)\<rparr>) st)"

definition sysIoctl :: "'w SysEnv \<Rightarrow> ProcManProcessProcData \<Rightarrow> 'w ProcMan \<Rightarrow> 'w SysResult" where
  "sysIoctl sys pd st = do {
     let command = getReg pd 2;
     let data = getReg pd 3;
     globalFd \<leftarrow> procManProcessGetGlobalFdFromLocal pd (ucast (getReg pd 1)) st;
     if globalFd = KernelFsFdInvalid then Some (True, pd, st)
     else do {
       pathK \<leftarrow> kernelFsGetFilePath (kFs st) globalFd;
       if kstrIsNull pathK \<or> length (kstrBytes pathK) \<ge> KernelFsPathMax then None
       else let path = kstrStrcpy [] pathK in
         if path = bytesOf ''/dev/ttyS0'' then
           Some (True, pd, if command = 0
             then updWorld (\<lambda>g. g\<lparr>gTty := ttySetEcho (data \<noteq> 0) (gTty g)\<rparr>) st else st)
         else if take 8 path = bytesOf ''/dev/pin'' then Some (True, pd, ioctlPin sys path command data st)
         else Some (True, pd, st)
     }
   }"

section \<open>Pipes\<close>

definition pipeDevicePath :: "u32 \<Rightarrow> cstr" where
  "pipeDevicePath pipeId = bytesOf ''/dev/pipe'' @ decimalBytes (unat pipeId)"

text \<open>The first number for which neither file exists.\<close>

fun freePipeId :: "'w KEnv \<Rightarrow> 'w KFs \<Rightarrow> nat list \<Rightarrow> nat option option" where
  "freePipeId env st [] = Some None"
| "freePipeId env st (i # rest) =
     (case kernelFsFileExists env st (pipeBackingPath (of_nat i)) of
        None \<Rightarrow> None
      | Some True \<Rightarrow> freePipeId env st rest
      | Some False \<Rightarrow>
          (case kernelFsFileExists env st (pipeDevicePath (of_nat i)) of
             None \<Rightarrow> None
           | Some True \<Rightarrow> freePipeId env st rest
           | Some False \<Rightarrow> Some (Some i)))"

definition undoPipe ::
    "'w KEnv \<Rightarrow> u32 \<Rightarrow> ProcManLocalFd \<Rightarrow> ProcManLocalFd \<Rightarrow> ProcManProcessProcData \<Rightarrow> 'w ProcMan \<Rightarrow>
     (ProcManProcessProcData \<times> 'w ProcMan) option" where
  "undoPipe env pipeId readFd writeFd pd st = do {
     (pd, st) \<leftarrow> procManProcessCloseFile env readFd pd st;
     (pd, st) \<leftarrow> procManProcessCloseFile env writeFd pd st;
     fs \<leftarrow> kernelUnmount (pipeDevicePath pipeId) (kFs st);
     (_, st) \<leftarrow> onFs (kernelFsFileDelete env (pipeBackingPath pipeId)) (st\<lparr>kFs := fs\<rparr>);
     Some (setReg 0 0 pd, st)
   }"

definition openPipe ::
    "'w KEnv \<Rightarrow> ProcManPid \<Rightarrow> u32 \<Rightarrow> ProcManProcessProcData \<Rightarrow> 'w ProcMan \<Rightarrow> 'w SysResult" where
  "openPipe env process pipeId pd st = do {
     let readFdPtr = getReg pd 1;
     let writeFdPtr = getReg pd 2;
     (readFd, pd, st) \<leftarrow> procManProcessOpenFile env (pipeDevicePath pipeId) KernelFsFdModeRO pd st;
     (writeFd, pd, st) \<leftarrow> procManProcessOpenFile env (pipeDevicePath pipeId) KernelFsFdModeWO pd st;
     if readFd = ProcManLocalFdInvalid \<or> writeFd = ProcManLocalFdInvalid then do {
       (pd, st) \<leftarrow> undoPipe env pipeId readFd writeFd pd st;
       Some (True, pd, st)
     } else do {
       (ok, pd, st) \<leftarrow> procManProcessMemoryWriteByte env process readFdPtr readFd pd st;
       (ok, pd, st) \<leftarrow> (if ok then procManProcessMemoryWriteByte env process writeFdPtr writeFd pd st
                       else Some (False, pd, st));
       if ok then Some (True, setReg 0 1 pd, st)
       else do {
         (pd, st) \<leftarrow> undoPipe env pipeId readFd writeFd pd st;
         Some (False, pd, st)
       }
     }
   }"

definition sysPipeOpen ::
    "'w SysEnv \<Rightarrow> ProcManPid \<Rightarrow> ProcManProcessProcData \<Rightarrow> 'w ProcMan \<Rightarrow> 'w SysResult" where
  "sysPipeOpen sys process pd st = do {
     let env = seFs sys;
     i \<leftarrow> freePipeId env (kFs st) [1..<ProcManMaxPipes];
     case i of
       None \<Rightarrow> Some (True, setReg 0 0 pd, st)
     | Some i \<Rightarrow> do {
         let pipeId = of_nat i;
         (ok, st) \<leftarrow> onFs (kernelFsFileCreateWithSize env (pipeBackingPath pipeId) ProcManPipeSize) st;
         if \<not> ok then Some (True, setReg 0 0 pd, st)
         else do {
           (ok, st) \<leftarrow> onFs (kernelMount env KernelMountFormatCircBuf (pipeBackingPath pipeId)
             (pipeDevicePath pipeId)) st;
           if \<not> ok then do {
             (_, st) \<leftarrow> onFs (kernelFsFileDelete env (pipeBackingPath pipeId)) st;
             Some (True, setReg 0 0 pd, st)
           } else openPipe env process pipeId pd st
         }
       }
   }"

end
