(* ===== verification/ProcManSyscallMem.thy ===== *)
theory ProcManSyscallMem
  imports ProcManSyscall
begin

text \<open>
  \<open>src/kernel/procman.c\<close>, eighth part: the system calls that work on the strings and the 32
  bit integers of a program's memory, and those on hardware devices. The result of
  \<open>memcmp\<close> and \<open>strncmp\<close> is taken to be -1, 0 or 1.
\<close>

section \<open>Strings\<close>

text \<open>The searches end because the last byte of the executable's half cannot be read. A
  failed read gives the position or the last match so far, which is what \<open>r0\<close> holds.\<close>

function strchrLoop ::
    "'w KEnv \<Rightarrow> ProcManPid \<Rightarrow> ProcManProcessProcData \<Rightarrow> u16 \<Rightarrow> u16 \<Rightarrow> 'w ProcMan \<Rightarrow>
     (u16 option \<times> 'w ProcMan) option" where
  "strchrLoop env process pd c strAddr st =
     (case procManProcessMemoryReadByte env process pd strAddr st of
        None \<Rightarrow> None
      | Some (None, st') \<Rightarrow> Some (None, st')
      | Some (Some v, st') \<Rightarrow>
          if ucast v = c then Some (Some strAddr, st')
          else if v = 0 then Some (Some 0, st')
          else strchrLoop env process pd c (strAddr + 1) st')"
  by pat_completeness auto
termination
  by (relation "measure (\<lambda>(env, process, pd, c, strAddr, st). unat (0x7FFF - strAddr))")
    (auto dest: ReadByte_countdown)

definition sysStrchr ::
    "'w SysEnv \<Rightarrow> ProcManPid \<Rightarrow> ProcManProcessProcData \<Rightarrow> 'w ProcMan \<Rightarrow> 'w SysResult" where
  "sysStrchr sys process pd st = do {
     let strAddr = getReg pd 1;
     let c = getReg pd 2;
     let pd = setReg 0 0 pd;
     (res, st) \<leftarrow> strchrLoop (seFs sys) process pd c strAddr st;
     Some (case res of None \<Rightarrow> (False, pd, st) | Some addr \<Rightarrow> (True, setReg 0 addr pd, st))
   }"

function strchrnulLoop ::
    "'w KEnv \<Rightarrow> ProcManPid \<Rightarrow> ProcManProcessProcData \<Rightarrow> u16 \<Rightarrow> u16 \<Rightarrow> 'w ProcMan \<Rightarrow>
     (bool \<times> u16 \<times> 'w ProcMan) option" where
  "strchrnulLoop env process pd c strAddr st =
     (case procManProcessMemoryReadByte env process pd strAddr st of
        None \<Rightarrow> None
      | Some (None, st') \<Rightarrow> Some (False, strAddr, st')
      | Some (Some v, st') \<Rightarrow>
          if ucast v = c \<or> v = 0 then Some (True, strAddr, st')
          else strchrnulLoop env process pd c (strAddr + 1) st')"
  by pat_completeness auto
termination
  by (relation "measure (\<lambda>(env, process, pd, c, strAddr, st). unat (0x7FFF - strAddr))")
    (auto dest: ReadByte_countdown)

definition sysStrchrnul ::
    "'w SysEnv \<Rightarrow> ProcManPid \<Rightarrow> ProcManProcessProcData \<Rightarrow> 'w ProcMan \<Rightarrow> 'w SysResult" where
  "sysStrchrnul sys process pd st = do {
     (ok, addr, st) \<leftarrow> strchrnulLoop (seFs sys) process pd (getReg pd 2) (getReg pd 1) st;
     Some (ok, setReg 0 addr pd, st)
   }"

function strrchrLoop ::
    "'w KEnv \<Rightarrow> ProcManPid \<Rightarrow> ProcManProcessProcData \<Rightarrow> u16 \<Rightarrow> u16 \<Rightarrow> u16 \<Rightarrow> 'w ProcMan \<Rightarrow>
     (bool \<times> u16 \<times> 'w ProcMan) option" where
  "strrchrLoop env process pd c found strAddr st =
     (case procManProcessMemoryReadByte env process pd strAddr st of
        None \<Rightarrow> None
      | Some (None, st') \<Rightarrow> Some (False, found, st')
      | Some (Some v, st') \<Rightarrow>
          let found = (if ucast v = c then strAddr else found) in
          if v = 0 then Some (True, found, st')
          else strrchrLoop env process pd c found (strAddr + 1) st')"
  by pat_completeness auto
termination
  by (relation "measure (\<lambda>(env, process, pd, c, found, strAddr, st). unat (0x7FFF - strAddr))")
    (auto dest: ReadByte_countdown)

declare strchrLoop.simps [simp del] strchrnulLoop.simps [simp del] strrchrLoop.simps [simp del]

definition sysStrrchr ::
    "'w SysEnv \<Rightarrow> ProcManPid \<Rightarrow> ProcManProcessProcData \<Rightarrow> 'w ProcMan \<Rightarrow> 'w SysResult" where
  "sysStrrchr sys process pd st = do {
     (ok, addr, st) \<leftarrow> strrchrLoop (seFs sys) process pd (getReg pd 2) 0 (getReg pd 1) st;
     Some (ok, setReg 0 addr pd, st)
   }"

text \<open>Strings are compared 128 bytes at a time until one chunk differs or has the end of the
  first string.\<close>

partial_function (option) strcmpLoop ::
    "'w KEnv \<Rightarrow> ProcManPid \<Rightarrow> ProcManProcessProcData \<Rightarrow> u16 \<Rightarrow> u16 \<Rightarrow> 'w ProcMan \<Rightarrow>
     (int option \<times> 'w ProcMan) option" where
  "strcmpLoop env process pd p1Addr p2Addr st =
     (case procManProcessMemoryReadStr env process pd p1Addr 128 st of
        None \<Rightarrow> None
      | Some (None, st) \<Rightarrow> Some (None, st)
      | Some (Some s1, st) \<Rightarrow>
          (case procManProcessMemoryReadStr env process pd p2Addr 128 st of
             None \<Rightarrow> None
           | Some (None, st) \<Rightarrow> Some (None, st)
           | Some (Some s2, st) \<Rightarrow>
               let res = cstrcmp (takeWhile (\<lambda>b. b \<noteq> 0) s1) (takeWhile (\<lambda>b. b \<noteq> 0) s2) in
               if res \<noteq> 0 \<or> 0 \<in> set s1 then Some (Some res, st)
               else strcmpLoop env process pd (p1Addr + 128) (p2Addr + 128) st))"

declare strcmpLoop.simps [code]

definition sysStrcmp ::
    "'w SysEnv \<Rightarrow> ProcManPid \<Rightarrow> ProcManProcessProcData \<Rightarrow> 'w ProcMan \<Rightarrow> 'w SysResult" where
  "sysStrcmp sys process pd st = do {
     let p1Addr = getReg pd 1;
     let p2Addr = getReg pd 2;
     let pd = setReg 0 0 pd;
     (res, st) \<leftarrow> strcmpLoop (seFs sys) process pd p1Addr p2Addr st;
     Some (case res of None \<Rightarrow> (False, pd, st) | Some res \<Rightarrow> (True, setReg 0 (of_int res) pd, st))
   }"

section \<open>Blocks of memory\<close>

definition sysMemmove ::
    "'w SysEnv \<Rightarrow> ProcManPid \<Rightarrow> ProcManProcessProcData \<Rightarrow> 'w ProcMan \<Rightarrow> 'w SysResult" where
  "sysMemmove sys process pd st =
     procManProcessMemmove (seFs sys) process (getReg pd 1) (getReg pd 2) (getReg pd 3) pd st"

function memcmpLoop ::
    "'w KEnv \<Rightarrow> ProcManPid \<Rightarrow> ProcManProcessProcData \<Rightarrow> u16 \<Rightarrow> u16 \<Rightarrow> u16 \<Rightarrow> u16 \<Rightarrow> 'w ProcMan \<Rightarrow>
     (int option \<times> 'w ProcMan) option" where
  "memcmpLoop env process pd p1Addr p2Addr sz i st =
     (if i \<ge> sz then Some (Some 0, st)
      else case procManProcessMemoryReadBlock env process pd (p1Addr + i) (min (sz - i) 128) st of
        None \<Rightarrow> None
      | Some (None, st) \<Rightarrow> Some (None, st)
      | Some (Some b1, st) \<Rightarrow>
          case procManProcessMemoryReadBlock env process pd (p2Addr + i) (min (sz - i) 128) st of
            None \<Rightarrow> None
          | Some (None, st) \<Rightarrow> Some (None, st)
          | Some (Some b2, st) \<Rightarrow>
              if cstrcmp b1 b2 \<noteq> 0 then Some (Some (cstrcmp b1 b2), st)
              else memcmpLoop env process pd p1Addr p2Addr sz (i + min (sz - i) 128) st)"
  by pat_completeness auto
termination
  by (relation "measure (\<lambda>(env, process, pd, p1Addr, p2Addr, sz, i, st). unat (sz - i))")
    (auto intro: chunk_less_min)

definition sysMemcmp ::
    "'w SysEnv \<Rightarrow> ProcManPid \<Rightarrow> ProcManProcessProcData \<Rightarrow> 'w ProcMan \<Rightarrow> 'w SysResult" where
  "sysMemcmp sys process pd st = do {
     let p1Addr = getReg pd 1;
     let p2Addr = getReg pd 2;
     let sz = getReg pd 3;
     let pd = setReg 0 0 pd;
     (res, st) \<leftarrow> memcmpLoop (seFs sys) process pd p1Addr p2Addr sz 0 st;
     Some (case res of None \<Rightarrow> (False, pd, st) | Some res \<Rightarrow> (True, setReg 0 (of_int res) pd, st))
   }"

lemma count_less: "(i :: 'a::len word) < sz \<Longrightarrow> unat (sz - (i + 1)) < unat (sz - i)"
  by (rule unat_countdown) auto

function memchrLoop ::
    "'w KEnv \<Rightarrow> ProcManPid \<Rightarrow> ProcManProcessProcData \<Rightarrow> u16 \<Rightarrow> u16 \<Rightarrow> u16 \<Rightarrow> u16 \<Rightarrow> 'w ProcMan \<Rightarrow>
     (u16 option \<times> 'w ProcMan) option" where
  "memchrLoop env process pd dataAddr c sz i st =
     (if i \<ge> sz then Some (Some 0, st)
      else case procManProcessMemoryReadByte env process pd (dataAddr + i) st of
        None \<Rightarrow> None
      | Some (None, st) \<Rightarrow> Some (None, st)
      | Some (Some v, st) \<Rightarrow>
          if ucast v = c then Some (Some (dataAddr + i), st)
          else memchrLoop env process pd dataAddr c sz (i + 1) st)"
  by pat_completeness auto

termination
  by (relation "measure (\<lambda>(env, process, pd, dataAddr, c, sz, i, st). unat (sz - i))")
    (auto intro: count_less)

declare memcmpLoop.simps [simp del] memchrLoop.simps [simp del]

definition sysMemchr ::
    "'w SysEnv \<Rightarrow> ProcManPid \<Rightarrow> ProcManProcessProcData \<Rightarrow> 'w ProcMan \<Rightarrow> 'w SysResult" where
  "sysMemchr sys process pd st = do {
     let dataAddr = getReg pd 1;
     let c = getReg pd 2;
     let sz = getReg pd 3;
     let pd = setReg 0 0 pd;
     (res, st) \<leftarrow> memchrLoop (seFs sys) process pd dataAddr c sz 0 st;
     Some (case res of None \<Rightarrow> (False, pd, st) | Some addr \<Rightarrow> (True, setReg 0 addr pd, st))
   }"

section \<open>Replacing in a string\<close>

text \<open>The length of the needle if it is at the start of the haystack.\<close>

function needleLoop ::
    "'w KEnv \<Rightarrow> ProcManPid \<Rightarrow> ProcManProcessProcData \<Rightarrow> u16 \<Rightarrow> u16 \<Rightarrow> u16 \<Rightarrow> 'w ProcMan \<Rightarrow>
     (u16 option option \<times> 'w ProcMan) option" where
  "needleLoop env process pd haystackAddr needleAddr j st =
     (case procManProcessMemoryReadByte env process pd needleAddr st of
        None \<Rightarrow> None
      | Some (None, st') \<Rightarrow> Some (None, st')
      | Some (Some needleChar, st') \<Rightarrow>
          if needleChar = 0 then Some (Some (Some j), st')
          else (case procManProcessMemoryReadByte env process pd haystackAddr st' of
              None \<Rightarrow> None
            | Some (None, st'') \<Rightarrow> Some (None, st'')
            | Some (Some haystackChar, st'') \<Rightarrow>
                if haystackChar \<noteq> needleChar then Some (Some None, st'')
                else needleLoop env process pd (haystackAddr + 1) (needleAddr + 1) (j + 1) st''))"
  by pat_completeness auto
termination
  by (relation "measure (\<lambda>(env, process, pd, haystackAddr, needleAddr, j, st). unat (0x7FFF - needleAddr))")
    (auto dest: ReadByte_countdown)

declare needleLoop.simps [simp del]

definition replaceAt ::
    "'w KEnv \<Rightarrow> ProcManPid \<Rightarrow> u16 \<Rightarrow> u16 \<Rightarrow> u16 \<Rightarrow> u16 \<Rightarrow> ProcManProcessProcData \<Rightarrow> 'w ProcMan \<Rightarrow>
     'w SysResult" where
  "replaceAt env process addr needleLen replaceAddr replaceLen pd st = do {
     (ok, pd, st) \<leftarrow> procManProcessMemmove env process addr replaceAddr replaceLen pd st;
     if \<not> ok then Some (False, pd, st)
     else do {
       (remainingLen, st) \<leftarrow> procManProcessMemoryStrlen env process pd (addr + needleLen) st;
       case remainingLen of
         None \<Rightarrow> Some (False, pd, st)
       | Some remainingLen \<Rightarrow> do {
           (ok, pd, st) \<leftarrow> procManProcessMemmove env process (addr + replaceLen) (addr + needleLen)
             (remainingLen + 1) pd st;
           Some (if ok then (True, setReg 0 1 pd, st) else (False, pd, st))
         }
     }
   }"

partial_function (option) strreplaceLoop ::
    "'w KEnv \<Rightarrow> ProcManPid \<Rightarrow> u16 \<Rightarrow> u16 \<Rightarrow> u16 \<Rightarrow> u16 \<Rightarrow> ProcManProcessProcData \<Rightarrow> 'w ProcMan \<Rightarrow>
     'w SysResult" where
  "strreplaceLoop env process haystackAddr needleAddr replaceAddr replaceLen pd st =
     (case procManProcessMemoryReadByte env process pd haystackAddr st of
        None \<Rightarrow> None
      | Some (None, st) \<Rightarrow> Some (False, pd, st)
      | Some (Some haystackChar, st) \<Rightarrow>
          if haystackChar = 0 then Some (True, pd, st)
          else (case needleLoop env process pd haystackAddr needleAddr 0 st of
              None \<Rightarrow> None
            | Some (None, st) \<Rightarrow> Some (False, pd, st)
            | Some (Some None, st) \<Rightarrow>
                strreplaceLoop env process (haystackAddr + 1) needleAddr replaceAddr replaceLen pd st
            | Some (Some (Some needleLen), st) \<Rightarrow>
                (case replaceAt env process haystackAddr needleLen replaceAddr replaceLen pd st of
                   None \<Rightarrow> None
                 | Some (ok, pd, st) \<Rightarrow>
                     if ok
                     then strreplaceLoop env process (haystackAddr + 1) needleAddr replaceAddr replaceLen pd st
                     else Some (False, pd, st))))"

declare strreplaceLoop.simps [code]

definition sysStrreplace ::
    "'w SysEnv \<Rightarrow> ProcManPid \<Rightarrow> ProcManProcessProcData \<Rightarrow> 'w ProcMan \<Rightarrow> 'w SysResult" where
  "sysStrreplace sys process pd st = do {
     let haystackAddr = getReg pd 1;
     let needleAddr = getReg pd 2;
     let replaceAddr = getReg pd 3;
     (replaceLen, st) \<leftarrow> procManProcessMemoryStrlen (seFs sys) process pd replaceAddr st;
     case replaceLen of
       None \<Rightarrow> Some (False, pd, st)
     | Some replaceLen \<Rightarrow>
         strreplaceLoop (seFs sys) process haystackAddr needleAddr replaceAddr replaceLen (setReg 0 0 pd) st
   }"

definition sysPathNormalise ::
    "'w SysEnv \<Rightarrow> ProcManPid \<Rightarrow> ProcManProcessProcData \<Rightarrow> 'w ProcMan \<Rightarrow> 'w SysResult" where
  "sysPathNormalise sys process pd st = do {
     let pathAddr = getReg pd 1;
     (path, st) \<leftarrow> readPath (seFs sys) process pd pathAddr st;
     case path of
       None \<Rightarrow> Some (False, pd, st)
     | Some path \<Rightarrow> procManProcessMemoryWriteStr (seFs sys) process pathAddr path pd st
   }"

section \<open>32 bit integers\<close>

text \<open>The operand in memory is replaced by the result, the other operand is a register or a
  second place in memory.\<close>

definition int32Op16 ::
    "(u32 \<Rightarrow> u16 \<Rightarrow> u32) \<Rightarrow> 'w SysEnv \<Rightarrow> ProcManPid \<Rightarrow> ProcManProcessProcData \<Rightarrow> 'w ProcMan \<Rightarrow>
     'w SysResult" where
  "int32Op16 f sys process pd st = do {
     let aPtr = getReg pd 1;
     (aValue, st) \<leftarrow> procManProcessMemoryReadDoubleWord (seFs sys) process pd aPtr st;
     case aValue of
       None \<Rightarrow> Some (False, pd, st)
     | Some aValue \<Rightarrow>
         procManProcessMemoryWriteDoubleWord (seFs sys) process aPtr (f aValue (getReg pd 2)) pd st
   }"

definition readTwoDoubleWords ::
    "'w SysEnv \<Rightarrow> ProcManPid \<Rightarrow> ProcManProcessProcData \<Rightarrow> 'w ProcMan \<Rightarrow>
     ((u32 \<times> u32) option \<times> 'w ProcMan) option" where
  "readTwoDoubleWords sys process pd st = do {
     (aValue, st) \<leftarrow> procManProcessMemoryReadDoubleWord (seFs sys) process pd (getReg pd 1) st;
     case aValue of
       None \<Rightarrow> Some (None, st)
     | Some aValue \<Rightarrow> do {
         (bValue, st) \<leftarrow> procManProcessMemoryReadDoubleWord (seFs sys) process pd (getReg pd 2) st;
         Some (map_option (\<lambda>bValue. (aValue, bValue)) bValue, st)
       }
   }"

definition int32Op32 ::
    "(u32 \<Rightarrow> u32 \<Rightarrow> u32) \<Rightarrow> 'w SysEnv \<Rightarrow> ProcManPid \<Rightarrow> ProcManProcessProcData \<Rightarrow> 'w ProcMan \<Rightarrow>
     'w SysResult" where
  "int32Op32 f sys process pd st = do {
     (values, st) \<leftarrow> readTwoDoubleWords sys process pd st;
     case values of
       None \<Rightarrow> Some (False, pd, st)
     | Some (aValue, bValue) \<Rightarrow>
         procManProcessMemoryWriteDoubleWord (seFs sys) process (getReg pd 1) (f aValue bValue) pd st
   }"

definition sysInt32Add16 ::
    "'w SysEnv \<Rightarrow> ProcManPid \<Rightarrow> ProcManProcessProcData \<Rightarrow> 'w ProcMan \<Rightarrow> 'w SysResult" where
  "sysInt32Add16 = int32Op16 (\<lambda>a b. a + ucast b)"

definition sysInt32Add32 ::
    "'w SysEnv \<Rightarrow> ProcManPid \<Rightarrow> ProcManProcessProcData \<Rightarrow> 'w ProcMan \<Rightarrow> 'w SysResult" where
  "sysInt32Add32 = int32Op32 (\<lambda>a b. a + b)"

definition sysInt32Sub16 ::
    "'w SysEnv \<Rightarrow> ProcManPid \<Rightarrow> ProcManProcessProcData \<Rightarrow> 'w ProcMan \<Rightarrow> 'w SysResult" where
  "sysInt32Sub16 = int32Op16 (\<lambda>a b. a - ucast b)"

definition sysInt32Sub32 ::
    "'w SysEnv \<Rightarrow> ProcManPid \<Rightarrow> ProcManProcessProcData \<Rightarrow> 'w ProcMan \<Rightarrow> 'w SysResult" where
  "sysInt32Sub32 = int32Op32 (\<lambda>a b. a - b)"

definition sysInt32Mul16 ::
    "'w SysEnv \<Rightarrow> ProcManPid \<Rightarrow> ProcManProcessProcData \<Rightarrow> 'w ProcMan \<Rightarrow> 'w SysResult" where
  "sysInt32Mul16 = int32Op16 (\<lambda>a b. a * ucast b)"

definition sysInt32Mul32 ::
    "'w SysEnv \<Rightarrow> ProcManPid \<Rightarrow> ProcManProcessProcData \<Rightarrow> 'w ProcMan \<Rightarrow> 'w SysResult" where
  "sysInt32Mul32 = int32Op32 (\<lambda>a b. a * b)"

definition sysInt32Div16 ::
    "'w SysEnv \<Rightarrow> ProcManPid \<Rightarrow> ProcManProcessProcData \<Rightarrow> 'w ProcMan \<Rightarrow> 'w SysResult" where
  "sysInt32Div16 sys process pd st = do {
     let aPtr = getReg pd 1;
     let bValue = getReg pd 2;
     (aValue, st) \<leftarrow> procManProcessMemoryReadDoubleWord (seFs sys) process pd aPtr st;
     case aValue of
       None \<Rightarrow> Some (False, pd, st)
     | Some aValue \<Rightarrow>
         if bValue = 0 then Some (False, pd, st)
         else do {
           let quotient = aValue div ucast bValue;
           (ok, pd, st) \<leftarrow> procManProcessMemoryWriteDoubleWord (seFs sys) process aPtr quotient pd st;
           Some (if ok then (True, setReg 0 (ucast (aValue - quotient * ucast bValue)) pd, st)
                 else (False, pd, st))
         }
   }"

definition sysInt32Div32 ::
    "'w SysEnv \<Rightarrow> ProcManPid \<Rightarrow> ProcManProcessProcData \<Rightarrow> 'w ProcMan \<Rightarrow> 'w SysResult" where
  "sysInt32Div32 sys process pd st = do {
     let aPtr = getReg pd 1;
     let rPtr = getReg pd 3;
     (values, st) \<leftarrow> readTwoDoubleWords sys process pd st;
     case values of
       None \<Rightarrow> Some (False, pd, st)
     | Some (aValue, bValue) \<Rightarrow>
         if bValue = 0 then Some (False, pd, st)
         else do {
           let quotient = aValue div bValue;
           (ok, pd, st) \<leftarrow> procManProcessMemoryWriteDoubleWord (seFs sys) process aPtr quotient pd st;
           if \<not> ok then Some (False, pd, st)
           else procManProcessMemoryWriteDoubleWord (seFs sys) process rPtr
             (aValue - quotient * bValue) pd st
         }
   }"

text \<open>A shift by the width or more is undefined.\<close>

definition int32Shift ::
    "(nat \<Rightarrow> u32 \<Rightarrow> u32) \<Rightarrow> 'w SysEnv \<Rightarrow> ProcManPid \<Rightarrow> ProcManProcessProcData \<Rightarrow> 'w ProcMan \<Rightarrow>
     'w SysResult" where
  "int32Shift f sys process pd st = do {
     let aPtr = getReg pd 1;
     let bValue = getReg pd 2;
     (aValue, st) \<leftarrow> procManProcessMemoryReadDoubleWord (seFs sys) process pd aPtr st;
     case aValue of
       None \<Rightarrow> Some (False, pd, st)
     | Some aValue \<Rightarrow>
         if bValue \<ge> 32 then None
         else procManProcessMemoryWriteDoubleWord (seFs sys) process aPtr (f (unat bValue) aValue) pd st
   }"

definition sysInt32Shl ::
    "'w SysEnv \<Rightarrow> ProcManPid \<Rightarrow> ProcManProcessProcData \<Rightarrow> 'w ProcMan \<Rightarrow> 'w SysResult" where
  "sysInt32Shl = int32Shift push_bit"

definition sysInt32Shr ::
    "'w SysEnv \<Rightarrow> ProcManPid \<Rightarrow> ProcManProcessProcData \<Rightarrow> 'w ProcMan \<Rightarrow> 'w SysResult" where
  "sysInt32Shr = int32Shift drop_bit"

section \<open>Hardware devices\<close>

definition sysHwDeviceRegister ::
    "'w SysEnv \<Rightarrow> ProcManPid \<Rightarrow> ProcManProcessProcData \<Rightarrow> 'w ProcMan \<Rightarrow> 'w SysResult" where
  "sysHwDeviceRegister sys process pd st = do {
     let deviceType = getReg pd 2;
     (pins, st) \<leftarrow> procManProcessMemoryReadBlock (seFs sys) process pd (getReg pd 3)
       (hwDeviceTypeGetPinCount deviceType) st;
     case pins of
       None \<Rightarrow> Some (False, pd, st)
     | Some pins \<Rightarrow> do {
         (ok, st) \<leftarrow> onFs (hwDeviceRegister (ucast (getReg pd 1)) deviceType pins) st;
         Some (True, setReg 0 (of_bool ok) pd, st)
       }
   }"

definition onFsResult ::
    "('w KFs \<Rightarrow> 'w KFs option) \<Rightarrow> ProcManProcessProcData \<Rightarrow> 'w ProcMan \<Rightarrow> 'w SysResult" where
  "onFsResult f pd st = map_option (\<lambda>fs. (True, pd, st\<lparr>kFs := fs\<rparr>)) (f (kFs st))"

definition sysHwDeviceDeregister :: "'w SysEnv \<Rightarrow> ProcManProcessProcData \<Rightarrow> 'w ProcMan \<Rightarrow> 'w SysResult" where
  "sysHwDeviceDeregister sys pd st =
     onFsResult (hwDeviceDeregister (seFs sys) (seHw sys) (ucast (getReg pd 1))) pd st"

definition sysHwDeviceGetType :: "'w SysEnv \<Rightarrow> ProcManProcessProcData \<Rightarrow> 'w ProcMan \<Rightarrow> 'w SysResult" where
  "sysHwDeviceGetType sys pd st =
     Some (True, setReg 0 (hwDeviceGetType (ucast (getReg pd 1)) (kFs st)) pd, st)"

definition mountHw ::
    "(u8 \<Rightarrow> cstr \<Rightarrow> 'w KFs \<Rightarrow> (bool \<times> 'w KFs) option) \<Rightarrow> 'w SysEnv \<Rightarrow> ProcManPid \<Rightarrow>
     ProcManProcessProcData \<Rightarrow> 'w ProcMan \<Rightarrow> 'w SysResult" where
  "mountHw mount sys process pd st = do {
     (mountPoint, st) \<leftarrow> readPath (seFs sys) process pd (getReg pd 2) st;
     case mountPoint of
       None \<Rightarrow> Some (False, pd, st)
     | Some mountPoint \<Rightarrow> do {
         (ok, st) \<leftarrow> onFs (mount (ucast (getReg pd 1)) mountPoint) st;
         Some (True, setReg 0 (of_bool ok) pd, st)
       }
   }"

definition sysHwDeviceSdCardReaderMount ::
    "'w SysEnv \<Rightarrow> ProcManPid \<Rightarrow> ProcManProcessProcData \<Rightarrow> 'w ProcMan \<Rightarrow> 'w SysResult" where
  "sysHwDeviceSdCardReaderMount sys = mountHw (hwDeviceSdCardReaderMount (seFs sys) (seHw sys)) sys"

definition sysHwDeviceSdCardReaderUnmount ::
    "'w SysEnv \<Rightarrow> ProcManProcessProcData \<Rightarrow> 'w ProcMan \<Rightarrow> 'w SysResult" where
  "sysHwDeviceSdCardReaderUnmount sys pd st =
     onFsResult (hwDeviceSdCardReaderUnmount (seFs sys) (seHw sys) (ucast (getReg pd 1))) pd st"

definition sysHwDeviceDht22GetTemperature ::
    "'w SysEnv \<Rightarrow> ProcManProcessProcData \<Rightarrow> 'w ProcMan \<Rightarrow> 'w SysResult" where
  "sysHwDeviceDht22GetTemperature sys pd st =
     Some (True, setReg 0 (hwDeviceDht22GetTemperature (ucast (getReg pd 1)) (kFs st)) pd, st)"

definition sysHwDeviceDht22GetHumidity ::
    "'w SysEnv \<Rightarrow> ProcManProcessProcData \<Rightarrow> 'w ProcMan \<Rightarrow> 'w SysResult" where
  "sysHwDeviceDht22GetHumidity sys pd st =
     Some (True, setReg 0 (hwDeviceDht22GetHumidity (ucast (getReg pd 1)) (kFs st)) pd, st)"

definition sysHwDeviceKeypadMount ::
    "'w SysEnv \<Rightarrow> ProcManPid \<Rightarrow> ProcManProcessProcData \<Rightarrow> 'w ProcMan \<Rightarrow> 'w SysResult" where
  "sysHwDeviceKeypadMount sys = mountHw (hwDeviceKeypadMount (seFs sys)) sys"

definition sysHwDeviceKeypadUnmount ::
    "'w SysEnv \<Rightarrow> ProcManProcessProcData \<Rightarrow> 'w ProcMan \<Rightarrow> 'w SysResult" where
  "sysHwDeviceKeypadUnmount sys pd st =
     onFsResult (hwDeviceKeypadUnmount (seFs sys) (ucast (getReg pd 1))) pd st"

end
