(* ===== verification/SyscallId.thy ===== *)
theory SyscallId
  imports Prelude
begin

text \<open>The numbers of the system calls, \<open>src/kernel/bytecode.h\<close>: the group in the upper
  byte, the call in the lower.\<close>

definition syscallM :: "u16 \<Rightarrow> u16 \<Rightarrow> u16" where "syscallM a b = a * 256 OR b"

definition BytecodeSyscallIdExit :: u16 where "BytecodeSyscallIdExit = syscallM 0 0"
definition BytecodeSyscallIdGetPid :: u16 where "BytecodeSyscallIdGetPid = syscallM 0 1"
definition BytecodeSyscallIdGetArgC :: u16 where "BytecodeSyscallIdGetArgC = syscallM 0 2"
definition BytecodeSyscallIdGetArgVN :: u16 where "BytecodeSyscallIdGetArgVN = syscallM 0 3"
definition BytecodeSyscallIdFork :: u16 where "BytecodeSyscallIdFork = syscallM 0 4"
definition BytecodeSyscallIdExec :: u16 where "BytecodeSyscallIdExec = syscallM 0 5"
definition BytecodeSyscallIdWaitPid :: u16 where "BytecodeSyscallIdWaitPid = syscallM 0 6"
definition BytecodeSyscallIdGetPidPath :: u16 where "BytecodeSyscallIdGetPidPath = syscallM 0 7"
definition BytecodeSyscallIdGetPidState :: u16 where "BytecodeSyscallIdGetPidState = syscallM 0 8"
definition BytecodeSyscallIdGetAllCpuCounts :: u16 where "BytecodeSyscallIdGetAllCpuCounts = syscallM 0 9"
definition BytecodeSyscallIdKill :: u16 where "BytecodeSyscallIdKill = syscallM 0 10"
definition BytecodeSyscallIdGetPidRam :: u16 where "BytecodeSyscallIdGetPidRam = syscallM 0 11"
definition BytecodeSyscallIdSignal :: u16 where "BytecodeSyscallIdSignal = syscallM 0 12"
definition BytecodeSyscallIdGetPidFdN :: u16 where "BytecodeSyscallIdGetPidFdN = syscallM 0 13"
definition BytecodeSyscallIdExec2 :: u16 where "BytecodeSyscallIdExec2 = syscallM 0 14"
definition BytecodeSyscallIdRead :: u16 where "BytecodeSyscallIdRead = syscallM 1 0"
definition BytecodeSyscallIdWrite :: u16 where "BytecodeSyscallIdWrite = syscallM 1 1"
definition BytecodeSyscallIdOpen :: u16 where "BytecodeSyscallIdOpen = syscallM 1 2"
definition BytecodeSyscallIdClose :: u16 where "BytecodeSyscallIdClose = syscallM 1 3"
definition BytecodeSyscallIdDirGetChildN :: u16 where "BytecodeSyscallIdDirGetChildN = syscallM 1 4"
definition BytecodeSyscallIdGetPath :: u16 where "BytecodeSyscallIdGetPath = syscallM 1 5"
definition BytecodeSyscallIdResizeFile :: u16 where "BytecodeSyscallIdResizeFile = syscallM 1 6"
definition BytecodeSyscallIdGetFileLen :: u16 where "BytecodeSyscallIdGetFileLen = syscallM 1 7"
definition BytecodeSyscallIdTryReadByte :: u16 where "BytecodeSyscallIdTryReadByte = syscallM 1 8"
definition BytecodeSyscallIdIsDir :: u16 where "BytecodeSyscallIdIsDir = syscallM 1 9"
definition BytecodeSyscallIdFileExists :: u16 where "BytecodeSyscallIdFileExists = syscallM 1 10"
definition BytecodeSyscallIdDelete :: u16 where "BytecodeSyscallIdDelete = syscallM 1 11"
definition BytecodeSyscallIdRead32 :: u16 where "BytecodeSyscallIdRead32 = syscallM 1 12"
definition BytecodeSyscallIdWrite32 :: u16 where "BytecodeSyscallIdWrite32 = syscallM 1 13"
definition BytecodeSyscallIdResizeFile32 :: u16 where "BytecodeSyscallIdResizeFile32 = syscallM 1 14"
definition BytecodeSyscallIdGetFileLen32 :: u16 where "BytecodeSyscallIdGetFileLen32 = syscallM 1 15"
definition BytecodeSyscallIdAppend :: u16 where "BytecodeSyscallIdAppend = syscallM 1 16"
definition BytecodeSyscallIdFlush :: u16 where "BytecodeSyscallIdFlush = syscallM 1 17"
definition BytecodeSyscallIdTryWriteByte :: u16 where "BytecodeSyscallIdTryWriteByte = syscallM 1 18"
definition BytecodeSyscallIdGetPathGlobal :: u16 where "BytecodeSyscallIdGetPathGlobal = syscallM 1 19"
definition BytecodeSyscallIdEnvGetPwd :: u16 where "BytecodeSyscallIdEnvGetPwd = syscallM 2 2"
definition BytecodeSyscallIdEnvSetPwd :: u16 where "BytecodeSyscallIdEnvSetPwd = syscallM 2 3"
definition BytecodeSyscallIdEnvGetPath :: u16 where "BytecodeSyscallIdEnvGetPath = syscallM 2 4"
definition BytecodeSyscallIdEnvSetPath :: u16 where "BytecodeSyscallIdEnvSetPath = syscallM 2 5"
definition BytecodeSyscallIdTimeMonotonic16s :: u16 where "BytecodeSyscallIdTimeMonotonic16s = syscallM 3 0"
definition BytecodeSyscallIdTimeMonotonic16ms :: u16 where "BytecodeSyscallIdTimeMonotonic16ms = syscallM 3 1"
definition BytecodeSyscallIdTimeMonotonic32s :: u16 where "BytecodeSyscallIdTimeMonotonic32s = syscallM 3 2"
definition BytecodeSyscallIdTimeMonotonic32ms :: u16 where "BytecodeSyscallIdTimeMonotonic32ms = syscallM 3 3"
definition BytecodeSyscallIdTimeReal32s :: u16 where "BytecodeSyscallIdTimeReal32s = syscallM 3 4"
definition BytecodeSyscallIdTimeToDate32s :: u16 where "BytecodeSyscallIdTimeToDate32s = syscallM 3 5"
definition BytecodeSyscallIdRegisterSignalHandler :: u16 where "BytecodeSyscallIdRegisterSignalHandler = syscallM 4 0"
definition BytecodeSyscallIdShutdown :: u16 where "BytecodeSyscallIdShutdown = syscallM 5 0"
definition BytecodeSyscallIdMount :: u16 where "BytecodeSyscallIdMount = syscallM 5 1"
definition BytecodeSyscallIdUnmount :: u16 where "BytecodeSyscallIdUnmount = syscallM 5 2"
definition BytecodeSyscallIdIoctl :: u16 where "BytecodeSyscallIdIoctl = syscallM 5 3"
definition BytecodeSyscallIdGetLogLevel :: u16 where "BytecodeSyscallIdGetLogLevel = syscallM 5 4"
definition BytecodeSyscallIdSetLogLevel :: u16 where "BytecodeSyscallIdSetLogLevel = syscallM 5 5"
definition BytecodeSyscallIdPipeOpen :: u16 where "BytecodeSyscallIdPipeOpen = syscallM 5 6"
definition BytecodeSyscallIdRemount :: u16 where "BytecodeSyscallIdRemount = syscallM 5 7"
definition BytecodeSyscallIdStrchr :: u16 where "BytecodeSyscallIdStrchr = syscallM 6 0"
definition BytecodeSyscallIdStrchrnul :: u16 where "BytecodeSyscallIdStrchrnul = syscallM 6 1"
definition BytecodeSyscallIdMemmove :: u16 where "BytecodeSyscallIdMemmove = syscallM 6 2"
definition ByteCodeSyscallIdMemcmp :: u16 where "ByteCodeSyscallIdMemcmp = syscallM 6 3"
definition ByteCodeSyscallIdStrrchr :: u16 where "ByteCodeSyscallIdStrrchr = syscallM 6 4"
definition ByteCodeSyscallIdStrcmp :: u16 where "ByteCodeSyscallIdStrcmp = syscallM 6 5"
definition ByteCodeSyscallIdMemchr :: u16 where "ByteCodeSyscallIdMemchr = syscallM 6 6"
definition ByteCodeSyscallIdStrreplace :: u16 where "ByteCodeSyscallIdStrreplace = syscallM 6 7"
definition ByteCodeSyscallIdPathNormalise :: u16 where "ByteCodeSyscallIdPathNormalise = syscallM 6 8"
definition BytecodeSyscallIdHwDeviceRegister :: u16 where "BytecodeSyscallIdHwDeviceRegister = syscallM 7 0"
definition BytecodeSyscallIdHwDeviceDeregister :: u16 where "BytecodeSyscallIdHwDeviceDeregister = syscallM 7 1"
definition BytecodeSyscallIdHwDeviceGetType :: u16 where "BytecodeSyscallIdHwDeviceGetType = syscallM 7 2"
definition BytecodeSyscallIdHwDeviceSdCardReaderMount :: u16 where "BytecodeSyscallIdHwDeviceSdCardReaderMount = syscallM 7 3"
definition BytecodeSyscallIdHwDeviceSdCardReaderUnmount :: u16 where "BytecodeSyscallIdHwDeviceSdCardReaderUnmount = syscallM 7 4"
definition BytecodeSyscallIdHwDeviceDht22GetTemperature :: u16 where "BytecodeSyscallIdHwDeviceDht22GetTemperature = syscallM 7 5"
definition BytecodeSyscallIdHwDeviceDht22GetHumidity :: u16 where "BytecodeSyscallIdHwDeviceDht22GetHumidity = syscallM 7 6"
definition BytecodeSyscallIdHwDeviceKeypadMount :: u16 where "BytecodeSyscallIdHwDeviceKeypadMount = syscallM 7 7"
definition BytecodeSyscallIdHwDeviceKeypadUnmount :: u16 where "BytecodeSyscallIdHwDeviceKeypadUnmount = syscallM 7 8"
definition ByteCodeSyscallIdInt32Add16 :: u16 where "ByteCodeSyscallIdInt32Add16 = syscallM 8 0"
definition ByteCodeSyscallIdInt32Add32 :: u16 where "ByteCodeSyscallIdInt32Add32 = syscallM 8 1"
definition ByteCodeSyscallIdInt32Sub16 :: u16 where "ByteCodeSyscallIdInt32Sub16 = syscallM 8 2"
definition ByteCodeSyscallIdInt32Sub32 :: u16 where "ByteCodeSyscallIdInt32Sub32 = syscallM 8 3"
definition ByteCodeSyscallIdInt32Mul16 :: u16 where "ByteCodeSyscallIdInt32Mul16 = syscallM 8 4"
definition ByteCodeSyscallIdInt32Mul32 :: u16 where "ByteCodeSyscallIdInt32Mul32 = syscallM 8 5"
definition ByteCodeSyscallIdInt32Div16 :: u16 where "ByteCodeSyscallIdInt32Div16 = syscallM 8 6"
definition ByteCodeSyscallIdInt32Div32 :: u16 where "ByteCodeSyscallIdInt32Div32 = syscallM 8 7"
definition ByteCodeSyscallIdInt32Shl :: u16 where "ByteCodeSyscallIdInt32Shl = syscallM 8 8"
definition ByteCodeSyscallIdInt32Shr :: u16 where "ByteCodeSyscallIdInt32Shr = syscallM 8 9"

lemmas syscall_ids = syscallM_def
  BytecodeSyscallIdExit_def BytecodeSyscallIdGetPid_def
  BytecodeSyscallIdGetArgC_def BytecodeSyscallIdGetArgVN_def
  BytecodeSyscallIdFork_def BytecodeSyscallIdExec_def
  BytecodeSyscallIdWaitPid_def BytecodeSyscallIdGetPidPath_def
  BytecodeSyscallIdGetPidState_def BytecodeSyscallIdGetAllCpuCounts_def
  BytecodeSyscallIdKill_def BytecodeSyscallIdGetPidRam_def
  BytecodeSyscallIdSignal_def BytecodeSyscallIdGetPidFdN_def
  BytecodeSyscallIdExec2_def BytecodeSyscallIdRead_def
  BytecodeSyscallIdWrite_def BytecodeSyscallIdOpen_def
  BytecodeSyscallIdClose_def BytecodeSyscallIdDirGetChildN_def
  BytecodeSyscallIdGetPath_def BytecodeSyscallIdResizeFile_def
  BytecodeSyscallIdGetFileLen_def BytecodeSyscallIdTryReadByte_def
  BytecodeSyscallIdIsDir_def BytecodeSyscallIdFileExists_def
  BytecodeSyscallIdDelete_def BytecodeSyscallIdRead32_def
  BytecodeSyscallIdWrite32_def BytecodeSyscallIdResizeFile32_def
  BytecodeSyscallIdGetFileLen32_def BytecodeSyscallIdAppend_def
  BytecodeSyscallIdFlush_def BytecodeSyscallIdTryWriteByte_def
  BytecodeSyscallIdGetPathGlobal_def BytecodeSyscallIdEnvGetPwd_def
  BytecodeSyscallIdEnvSetPwd_def BytecodeSyscallIdEnvGetPath_def
  BytecodeSyscallIdEnvSetPath_def BytecodeSyscallIdTimeMonotonic16s_def
  BytecodeSyscallIdTimeMonotonic16ms_def BytecodeSyscallIdTimeMonotonic32s_def
  BytecodeSyscallIdTimeMonotonic32ms_def BytecodeSyscallIdTimeReal32s_def
  BytecodeSyscallIdTimeToDate32s_def BytecodeSyscallIdRegisterSignalHandler_def
  BytecodeSyscallIdShutdown_def BytecodeSyscallIdMount_def
  BytecodeSyscallIdUnmount_def BytecodeSyscallIdIoctl_def
  BytecodeSyscallIdGetLogLevel_def BytecodeSyscallIdSetLogLevel_def
  BytecodeSyscallIdPipeOpen_def BytecodeSyscallIdRemount_def
  BytecodeSyscallIdStrchr_def BytecodeSyscallIdStrchrnul_def
  BytecodeSyscallIdMemmove_def ByteCodeSyscallIdMemcmp_def
  ByteCodeSyscallIdStrrchr_def ByteCodeSyscallIdStrcmp_def
  ByteCodeSyscallIdMemchr_def ByteCodeSyscallIdStrreplace_def
  ByteCodeSyscallIdPathNormalise_def BytecodeSyscallIdHwDeviceRegister_def
  BytecodeSyscallIdHwDeviceDeregister_def BytecodeSyscallIdHwDeviceGetType_def
  BytecodeSyscallIdHwDeviceSdCardReaderMount_def BytecodeSyscallIdHwDeviceSdCardReaderUnmount_def
  BytecodeSyscallIdHwDeviceDht22GetTemperature_def BytecodeSyscallIdHwDeviceDht22GetHumidity_def
  BytecodeSyscallIdHwDeviceKeypadMount_def BytecodeSyscallIdHwDeviceKeypadUnmount_def
  ByteCodeSyscallIdInt32Add16_def ByteCodeSyscallIdInt32Add32_def
  ByteCodeSyscallIdInt32Sub16_def ByteCodeSyscallIdInt32Sub32_def
  ByteCodeSyscallIdInt32Mul16_def ByteCodeSyscallIdInt32Mul32_def
  ByteCodeSyscallIdInt32Div16_def ByteCodeSyscallIdInt32Div32_def
  ByteCodeSyscallIdInt32Shl_def ByteCodeSyscallIdInt32Shr_def

end
