(* ===== verification/ProcManTick.thy ===== *)
theory ProcManTick
  imports ProcManSyscallFs ProcManSyscallMem SyscallId
begin

text \<open>
  \<open>src/kernel/procman.c\<close>, last part: the choice of the system call, the execution of an
  instruction and the scheduler, which gives each process up to 160 instructions in turn.
\<close>

section \<open>System calls\<close>

text \<open>The calls on processes, after \<open>Exit\<close>; \<open>None\<close> for a number of another group.\<close>

definition procSyscall ::
    "'w SysEnv \<Rightarrow> ProcManPid \<Rightarrow> u16 \<Rightarrow> ProcManProcessProcData \<Rightarrow> 'w ProcMan \<Rightarrow> 'w SysResult option" where
  "procSyscall sys process syscallId pd st =
     (if syscallId = BytecodeSyscallIdGetPid then Some (sysGetPid process pd st)
      else if syscallId = BytecodeSyscallIdGetArgC then Some (sysGetArgC pd st)
      else if syscallId = BytecodeSyscallIdGetArgVN then Some (sysGetArgVN sys process pd st)
      else if syscallId = BytecodeSyscallIdFork then Some (sysFork sys process pd st)
      else if syscallId = BytecodeSyscallIdExec then Some (procManProcessExec (seFs sys) process pd st)
      else if syscallId = BytecodeSyscallIdWaitPid then Some (sysWaitPid sys process pd st)
      else if syscallId = BytecodeSyscallIdGetPidPath then Some (sysGetPidPath sys process pd st)
      else if syscallId = BytecodeSyscallIdGetPidState then Some (sysGetPidState sys process pd st)
      else if syscallId = BytecodeSyscallIdGetAllCpuCounts then Some (sysGetAllCpuCounts sys process pd st)
      else if syscallId = BytecodeSyscallIdKill then Some (sysKill sys process pd st)
      else if syscallId = BytecodeSyscallIdGetPidRam then Some (sysGetPidRam sys pd st)
      else if syscallId = BytecodeSyscallIdSignal then Some (sysSignal sys pd st)
      else if syscallId = BytecodeSyscallIdGetPidFdN then Some (sysGetPidFdN sys process pd st)
      else if syscallId = BytecodeSyscallIdExec2 then Some (procManProcessExec2 (seFs sys) process pd st)
      else None)"

definition fsSyscall ::
    "'w SysEnv \<Rightarrow> ProcManPid \<Rightarrow> u16 \<Rightarrow> ProcManProcessProcData \<Rightarrow> 'w ProcMan \<Rightarrow> 'w SysResult option" where
  "fsSyscall sys process syscallId pd st =
     (if syscallId = BytecodeSyscallIdRead then Some (sysRead sys process pd st)
      else if syscallId = BytecodeSyscallIdWrite then Some (sysWrite sys process pd st)
      else if syscallId = BytecodeSyscallIdOpen then Some (sysOpen sys process pd st)
      else if syscallId = BytecodeSyscallIdClose then Some (sysClose sys pd st)
      else if syscallId = BytecodeSyscallIdDirGetChildN then Some (sysDirGetChildN sys process pd st)
      else if syscallId = BytecodeSyscallIdGetPath then Some (sysGetPath sys process pd st)
      else if syscallId = BytecodeSyscallIdResizeFile then Some (sysResizeFile sys process pd st)
      else if syscallId = BytecodeSyscallIdGetFileLen then Some (sysGetFileLen sys process pd st)
      else if syscallId = BytecodeSyscallIdTryReadByte then Some (sysTryReadByte sys pd st)
      else if syscallId = BytecodeSyscallIdIsDir then Some (sysIsDir sys process pd st)
      else if syscallId = BytecodeSyscallIdFileExists then Some (sysFileExists sys process pd st)
      else if syscallId = BytecodeSyscallIdDelete then Some (sysDelete sys process pd st)
      else if syscallId = BytecodeSyscallIdRead32 then Some (sysRead32 sys process pd st)
      else if syscallId = BytecodeSyscallIdWrite32 then Some (sysWrite32 sys process pd st)
      else if syscallId = BytecodeSyscallIdResizeFile32 then Some (sysResizeFile32 sys process pd st)
      else if syscallId = BytecodeSyscallIdGetFileLen32 then Some (sysGetFileLen32 sys process pd st)
      else if syscallId = BytecodeSyscallIdAppend then Some (sysAppend sys process pd st)
      else if syscallId = BytecodeSyscallIdFlush then Some (sysFlush sys process pd st)
      else if syscallId = BytecodeSyscallIdTryWriteByte then Some (sysTryWriteByte sys pd st)
      else if syscallId = BytecodeSyscallIdGetPathGlobal then Some (sysGetPathGlobal sys process pd st)
      else None)"

definition kernelSyscall ::
    "'w SysEnv \<Rightarrow> ProcManPid \<Rightarrow> u16 \<Rightarrow> ProcManProcessProcData \<Rightarrow> 'w ProcMan \<Rightarrow> 'w SysResult option" where
  "kernelSyscall sys process syscallId pd st =
     (if syscallId = BytecodeSyscallIdEnvGetPwd then Some (sysEnvGetPwd pd st)
      else if syscallId = BytecodeSyscallIdEnvSetPwd then Some (sysEnvSetPwd pd st)
      else if syscallId = BytecodeSyscallIdEnvGetPath then Some (sysEnvGetPath pd st)
      else if syscallId = BytecodeSyscallIdEnvSetPath then Some (sysEnvSetPath pd st)
      else if syscallId = BytecodeSyscallIdTimeMonotonic16s then Some (sysTimeMonotonic16s sys pd st)
      else if syscallId = BytecodeSyscallIdTimeMonotonic16ms then Some (sysTimeMonotonic16ms sys pd st)
      else if syscallId = BytecodeSyscallIdTimeMonotonic32s then Some (sysTimeMonotonic32s sys process pd st)
      else if syscallId = BytecodeSyscallIdTimeMonotonic32ms then Some (sysTimeMonotonic32ms sys process pd st)
      else if syscallId = BytecodeSyscallIdTimeReal32s then Some (sysTimeReal32s sys process pd st)
      else if syscallId = BytecodeSyscallIdTimeToDate32s then Some (sysTimeToDate32s sys process pd st)
      else if syscallId = BytecodeSyscallIdRegisterSignalHandler then Some (sysRegisterSignalHandler pd st)
      else if syscallId = BytecodeSyscallIdShutdown then Some (sysShutdown sys pd st)
      else if syscallId = BytecodeSyscallIdMount then Some (sysMount sys process pd st)
      else if syscallId = BytecodeSyscallIdUnmount then Some (sysUnmount sys process pd st)
      else if syscallId = BytecodeSyscallIdIoctl then Some (sysIoctl sys pd st)
      else if syscallId = BytecodeSyscallIdGetLogLevel then Some (sysGetLogLevel pd st)
      else if syscallId = BytecodeSyscallIdSetLogLevel then Some (sysSetLogLevel pd st)
      else if syscallId = BytecodeSyscallIdPipeOpen then Some (sysPipeOpen sys process pd st)
      else if syscallId = BytecodeSyscallIdRemount then Some (sysRemount sys process pd st)
      else None)"

definition memSyscall ::
    "'w SysEnv \<Rightarrow> ProcManPid \<Rightarrow> u16 \<Rightarrow> ProcManProcessProcData \<Rightarrow> 'w ProcMan \<Rightarrow> 'w SysResult option" where
  "memSyscall sys process syscallId pd st =
     (if syscallId = BytecodeSyscallIdStrchr then Some (sysStrchr sys process pd st)
      else if syscallId = BytecodeSyscallIdStrchrnul then Some (sysStrchrnul sys process pd st)
      else if syscallId = BytecodeSyscallIdMemmove then Some (sysMemmove sys process pd st)
      else if syscallId = ByteCodeSyscallIdMemcmp then Some (sysMemcmp sys process pd st)
      else if syscallId = ByteCodeSyscallIdStrrchr then Some (sysStrrchr sys process pd st)
      else if syscallId = ByteCodeSyscallIdStrcmp then Some (sysStrcmp sys process pd st)
      else if syscallId = ByteCodeSyscallIdMemchr then Some (sysMemchr sys process pd st)
      else if syscallId = ByteCodeSyscallIdStrreplace then Some (sysStrreplace sys process pd st)
      else if syscallId = ByteCodeSyscallIdPathNormalise then Some (sysPathNormalise sys process pd st)
      else if syscallId = ByteCodeSyscallIdInt32Add16 then Some (sysInt32Add16 sys process pd st)
      else if syscallId = ByteCodeSyscallIdInt32Add32 then Some (sysInt32Add32 sys process pd st)
      else if syscallId = ByteCodeSyscallIdInt32Sub16 then Some (sysInt32Sub16 sys process pd st)
      else if syscallId = ByteCodeSyscallIdInt32Sub32 then Some (sysInt32Sub32 sys process pd st)
      else if syscallId = ByteCodeSyscallIdInt32Mul16 then Some (sysInt32Mul16 sys process pd st)
      else if syscallId = ByteCodeSyscallIdInt32Mul32 then Some (sysInt32Mul32 sys process pd st)
      else if syscallId = ByteCodeSyscallIdInt32Div16 then Some (sysInt32Div16 sys process pd st)
      else if syscallId = ByteCodeSyscallIdInt32Div32 then Some (sysInt32Div32 sys process pd st)
      else if syscallId = ByteCodeSyscallIdInt32Shl then Some (sysInt32Shl sys process pd st)
      else if syscallId = ByteCodeSyscallIdInt32Shr then Some (sysInt32Shr sys process pd st)
      else None)"

definition hwSyscall ::
    "'w SysEnv \<Rightarrow> ProcManPid \<Rightarrow> u16 \<Rightarrow> ProcManProcessProcData \<Rightarrow> 'w ProcMan \<Rightarrow> 'w SysResult option" where
  "hwSyscall sys process syscallId pd st =
     (if syscallId = BytecodeSyscallIdHwDeviceRegister then Some (sysHwDeviceRegister sys process pd st)
      else if syscallId = BytecodeSyscallIdHwDeviceDeregister then Some (sysHwDeviceDeregister sys pd st)
      else if syscallId = BytecodeSyscallIdHwDeviceGetType then Some (sysHwDeviceGetType sys pd st)
      else if syscallId = BytecodeSyscallIdHwDeviceSdCardReaderMount
        then Some (sysHwDeviceSdCardReaderMount sys process pd st)
      else if syscallId = BytecodeSyscallIdHwDeviceSdCardReaderUnmount
        then Some (sysHwDeviceSdCardReaderUnmount sys pd st)
      else if syscallId = BytecodeSyscallIdHwDeviceDht22GetTemperature
        then Some (sysHwDeviceDht22GetTemperature sys pd st)
      else if syscallId = BytecodeSyscallIdHwDeviceDht22GetHumidity
        then Some (sysHwDeviceDht22GetHumidity sys pd st)
      else if syscallId = BytecodeSyscallIdHwDeviceKeypadMount
        then Some (sysHwDeviceKeypadMount sys process pd st)
      else if syscallId = BytecodeSyscallIdHwDeviceKeypadUnmount
        then Some (sysHwDeviceKeypadUnmount sys pd st)
      else None)"

definition procManProcessExecSyscall ::
    "'w SysEnv \<Rightarrow> ProcManPid \<Rightarrow> ProcManExitStatus \<Rightarrow> ProcManProcessProcData \<Rightarrow> 'w ProcMan \<Rightarrow>
     (bool \<times> ProcManExitStatus \<times> ProcManProcessProcData \<times> 'w ProcMan) option" where
  "procManProcessExecSyscall sys process exitStatus pd st =
     (let syscallId = getReg pd 0;
          pass = map_option (\<lambda>(ok, pd, st). (ok, exitStatus, pd, st)) in
      if syscallId = BytecodeSyscallIdExit then
        (case sysExit process pd st of (status, st) \<Rightarrow> Some (False, status, pd, st))
      else case procSyscall sys process syscallId pd st of Some r \<Rightarrow> pass r
      | None \<Rightarrow> (case fsSyscall sys process syscallId pd st of Some r \<Rightarrow> pass r
      | None \<Rightarrow> (case kernelSyscall sys process syscallId pd st of Some r \<Rightarrow> pass r
      | None \<Rightarrow> (case memSyscall sys process syscallId pd st of Some r \<Rightarrow> pass r
      | None \<Rightarrow> (case hwSyscall sys process syscallId pd st of Some r \<Rightarrow> pass r
      | None \<Rightarrow> Some (False, exitStatus, pd, st))))))"

section \<open>Instructions\<close>

text \<open>The decoder leaves fields of its result unassigned; what they hold is not determined,
  and a register number out of range is outside the array.\<close>

definition indetInfo :: "'w KEnv \<Rightarrow> BytecodeInstructionInfo" where
  "indetInfo env =
     \<lparr>infoType = BytecodeInstructionTypeMisc,
      infoMemory = \<lparr>memType = BytecodeInstructionMemoryTypeOther, memDestReg = envIndet env 3,
        memSrcReg = envIndet env 4, memSet4Value = envIndet env 5\<rparr>,
      infoAlu = \<lparr>aluType = BytecodeInstructionAluTypeOther 15, aluDestReg = envIndet env 6,
        aluOpAReg = envIndet env 7, aluOpBReg = envIndet env 8, aluIncDecValue = envIndet env 9\<rparr>,
      infoMisc = \<lparr>miscType = BytecodeInstructionMiscTypeOther 15,
        miscSet8 = \<lparr>set8DestReg = envIndet env 10, set8Value = envIndet env 11\<rparr>,
        miscSet16 = \<lparr>set16DestReg = envIndet env 12, set16Value = ucast (envIndet env 13)\<rparr>\<rparr>\<rparr>"

definition procManProcessExecInstructionMisc ::
    "'w SysEnv \<Rightarrow> ProcManPid \<Rightarrow> BytecodeInstructionMiscInfo \<Rightarrow> ProcManExitStatus \<Rightarrow>
     ProcManProcessProcData \<Rightarrow> ProcManPrefetchData \<Rightarrow> 'w ProcMan \<Rightarrow>
     (bool \<times> ProcManExitStatus \<times> ProcManProcessProcData \<times> ProcManPrefetchData \<times> 'w ProcMan) option" where
  "procManProcessExecInstructionMisc sys process info exitStatus pd pf st =
     (case miscType info of
        BytecodeInstructionMiscTypeNop \<Rightarrow> Some (True, exitStatus, pd, pf, st)
      | BytecodeInstructionMiscTypeSyscall \<Rightarrow>
          map_option (\<lambda>(ok, exitStatus, pd, st). (ok, exitStatus, pd, pf, st))
            (procManProcessExecSyscall sys process exitStatus pd st)
      | BytecodeInstructionMiscTypeIllegal \<Rightarrow> Some (False, exitStatus, pd, pf, st)
      | BytecodeInstructionMiscTypeClearInstructionCache \<Rightarrow>
          Some (True, exitStatus, pd, procManPrefetchDataClear pf, st)
      | BytecodeInstructionMiscTypeDebug \<Rightarrow> Some (True, exitStatus, pd, pf, st)
      | BytecodeInstructionMiscTypeSet8 \<Rightarrow>
          (let r = set8DestReg (miscSet8 info) in
           if r < BytecodeRegisterNB
           then Some (True, exitStatus, setReg r (ucast (set8Value (miscSet8 info))) pd, pf, st) else None)
      | BytecodeInstructionMiscTypeSet16 \<Rightarrow>
          (let r = set16DestReg (miscSet16 info) in
           if r < BytecodeRegisterNB
           then Some (True, exitStatus, setReg r (set16Value (miscSet16 info)) pd, pf, st) else None)
      | BytecodeInstructionMiscTypeOther n \<Rightarrow> Some (False, exitStatus, pd, pf, st))"

definition procManProcessExecInstruction ::
    "'w SysEnv \<Rightarrow> ProcManPid \<Rightarrow> instr3 \<Rightarrow> ProcManExitStatus \<Rightarrow> ProcManProcessProcData \<Rightarrow>
     ProcManPrefetchData \<Rightarrow> 'w ProcMan \<Rightarrow>
     (bool \<times> ProcManExitStatus \<times> ProcManProcessProcData \<times> ProcManPrefetchData \<times> 'w ProcMan) option" where
  "procManProcessExecInstruction sys process instruction exitStatus pd pf st =
     (let info = bytecodeInstructionParse (indetInfo (seFs sys)) instruction in
      case infoType info of
        BytecodeInstructionTypeMemory \<Rightarrow>
          map_option (\<lambda>(ok, pd, st). (ok, exitStatus, pd, pf, st))
            (procManProcessExecInstructionMemory (seFs sys) process (infoMemory info) pd st)
      | BytecodeInstructionTypeAlu \<Rightarrow>
          map_option (\<lambda>(ok, pd, pf, st). (ok, exitStatus, pd, pf, st))
            (procManProcessExecInstructionAlu (seFs sys) process (infoAlu info) pd pf st)
      | BytecodeInstructionTypeMisc \<Rightarrow>
          procManProcessExecInstructionMisc sys process (infoMisc info) exitStatus pd pf st)"

section \<open>Ticks\<close>

text \<open>Up to \<open>n\<close> instructions: \<open>False\<close> when the process is to be killed, \<open>True\<close> at
  the end of its turn or when it stops being active.\<close>

primrec runInstructions ::
    "'w SysEnv \<Rightarrow> ProcManPid \<Rightarrow> nat \<Rightarrow> ProcManExitStatus \<Rightarrow> ProcManProcessProcData \<Rightarrow>
     ProcManPrefetchData \<Rightarrow> 'w ProcMan \<Rightarrow>
     (bool \<times> ProcManExitStatus \<times> ProcManProcessProcData \<times> 'w ProcMan) option" where
  "runInstructions sys pid 0 exitStatus pd pf st = Some (True, exitStatus, pd, st)"
| "runInstructions sys pid (Suc n) exitStatus pd pf st = do {
     (instruction, pd, pf, st) \<leftarrow> procManProcessGetInstruction (seFs sys) pid pd pf st;
     case instruction of
       None \<Rightarrow> Some (False, exitStatus, pd, st)
     | Some instruction \<Rightarrow> do {
         (ok, exitStatus, pd, pf, st) \<leftarrow>
           procManProcessExecInstruction sys pid instruction exitStatus pd pf st;
         if \<not> ok then Some (False, exitStatus, pd, st)
         else if prInstructionCounter (procOf st pid) \<ge> procManProcessInstructionCounterMax then None
         else do {
           let st = updProc pid (\<lambda>p. p\<lparr>prInstructionCounter := prInstructionCounter p + 1\<rparr>) st;
           if prState (procOf st pid) \<noteq> ProcManProcessStateActive then Some (True, exitStatus, pd, st)
           else runInstructions sys pid n exitStatus pd pf st
         }
       }
   }"

text \<open>What a tick does first, by the state of the process: stay as it is, be killed with the
  stored data, or run on with data that were loaded.\<close>

datatype TickStart = TickStay | TickKill | TickRun ProcManProcessProcData

definition tickLoad ::
    "'w SysEnv \<Rightarrow> ProcManPid \<Rightarrow> 'w ProcMan \<Rightarrow> (TickStart \<times> 'w ProcMan) option" where
  "tickLoad sys pid st =
     map_option (\<lambda>(pd, st). (case pd of None \<Rightarrow> TickKill | Some pd \<Rightarrow> TickRun pd, st))
       (procManProcessLoadProcData (seFs sys) pid st)"

definition tickResume ::
    "'w SysEnv \<Rightarrow> ProcManPid \<Rightarrow>
     ('w KEnv \<Rightarrow> ProcManPid \<Rightarrow> ProcManProcessProcData \<Rightarrow> 'w ProcMan \<Rightarrow> 'w SysResult) \<Rightarrow>
     bool \<Rightarrow> 'w ProcMan \<Rightarrow> (TickStart \<times> 'w ProcMan) option" where
  "tickResume sys pid transfer ready st =
     (if \<not> ready then Some (TickStay, st)
      else do {
        (start, st) \<leftarrow> tickLoad sys pid st;
        case start of
          TickRun pd \<Rightarrow> do {
            (ok, pd, st) \<leftarrow> transfer (seFs sys) pid pd
              (updProc pid (\<lambda>p. p\<lparr>prState := ProcManProcessStateActive\<rparr>) st);
            Some (if ok then TickRun pd else TickKill, st)
          }
        | _ \<Rightarrow> Some (start, st)
      })"

definition tickTimeout ::
    "'w SysEnv \<Rightarrow> ProcManPid \<Rightarrow> 48 word \<Rightarrow> 'w ProcMan \<Rightarrow> (TickStart \<times> 'w ProcMan) option" where
  "tickTimeout sys pid timeoutTime st =
     (if timeoutTime = 0 then Some (TickStay, st)
      else case getMonotonicMs sys st of (ms, st) \<Rightarrow>
        if ms < ucast timeoutTime then Some (TickStay, st)
        else do {
          (start, st) \<leftarrow> tickLoad sys pid st;
          Some (case start of
              TickRun pd \<Rightarrow> (TickRun (setReg 0 ProcManExitStatusTimeout pd),
                updProc pid (\<lambda>p. p\<lparr>prState := ProcManProcessStateActive\<rparr>) st)
            | _ \<Rightarrow> (start, st))
        })"

definition tickStart ::
    "'w SysEnv \<Rightarrow> ProcManPid \<Rightarrow> 'w ProcMan \<Rightarrow> (TickStart \<times> 'w ProcMan) option" where
  "tickStart sys pid st =
     (case prState (procOf st pid) of
        ProcManProcessStateUnused \<Rightarrow> Some (TickStay, st)
      | ProcManProcessStateActive \<Rightarrow> tickLoad sys pid st
      | ProcManProcessStateWaitingWaitpid waitPid timeoutTime \<Rightarrow> tickTimeout sys pid timeoutTime st
      | ProcManProcessStateWaitingRead globalFd \<Rightarrow> do {
          ready \<leftarrow> kernelFsFileCanRead (seFs sys) globalFd (kFs st);
          tickResume sys pid procManProcessRead ready st
        }
      | ProcManProcessStateWaitingRead32 globalFd \<Rightarrow> do {
          ready \<leftarrow> kernelFsFileCanRead (seFs sys) globalFd (kFs st);
          tickResume sys pid procManProcessRead32 ready st
        }
      | ProcManProcessStateWaitingWrite globalFd \<Rightarrow> do {
          ready \<leftarrow> kernelFsFileCanWrite (seFs sys) globalFd (kFs st);
          tickResume sys pid procManProcessWrite ready st
        }
      | ProcManProcessStateWaitingWrite32 globalFd \<Rightarrow> do {
          ready \<leftarrow> kernelFsFileCanWrite (seFs sys) globalFd (kFs st);
          tickResume sys pid procManProcessWrite32 ready st
        }
      | ProcManProcessStateExiting \<Rightarrow> Some (TickKill, st))"

definition emptyPrefetch :: ProcManPrefetchData where
  "emptyPrefetch = \<lparr>pfBuffer = [], pfBaseAddr = 0, pfLen = 0\<rparr>"

definition procManProcessTick :: "'w SysEnv \<Rightarrow> ProcManPid \<Rightarrow> 'w ProcMan \<Rightarrow> 'w ProcMan option" where
  "procManProcessTick sys pid st =
     (if unat pid \<ge> ProcManPidMax then None
      else if procManGetProcessByPid st pid = None then Some st
      else do {
        (start, st) \<leftarrow> tickStart sys pid st;
        case start of
          TickStay \<Rightarrow> Some st
        | TickKill \<Rightarrow>
            map_option snd (procManProcessKill (seFs sys) pid ProcManExitStatusKilled None st)
        | TickRun pd \<Rightarrow> do {
            (ok, exitStatus, pd, st) \<leftarrow> runInstructions sys pid procManProcessInstructionsPerTick
              ProcManExitStatusKilled pd (procManPrefetchDataClear emptyPrefetch) st;
            (ok, st) \<leftarrow> (if ok then procManProcessStoreProcData (seFs sys) pid pd st else Some (False, st));
            if ok then Some st
            else map_option snd (procManProcessKill (seFs sys) pid exitStatus (Some pd) st)
          }
      })"

primrec tickEach :: "'w SysEnv \<Rightarrow> ProcManPid list \<Rightarrow> 'w ProcMan \<Rightarrow> 'w ProcMan option" where
  "tickEach sys [] st = Some st"
| "tickEach sys (pid # rest) st = do {
     st \<leftarrow> procManProcessTick sys pid st;
     tickEach sys rest st
   }"

definition procManTickAll :: "'w SysEnv \<Rightarrow> 'w ProcMan \<Rightarrow> 'w ProcMan option" where
  "procManTickAll sys st = do {
     st \<leftarrow> tickEach sys allPids st;
     let st = st\<lparr>pmTicks := pmTicks st + 1\<rparr>;
     Some (if pmTicks st \<ge> procManTicksPerInstructionCounterReset
           then procManResetInstructionCounters (st\<lparr>pmTicks := 0\<rparr>) else st)
   }"

end
