(* ===== verification/ProcManKeeps.thy ===== *)
theory ProcManKeeps
  imports ProcManTick
begin

text \<open>
  What the process manager's operations on memory, instructions and files leave alone: the process
  table, and the shape of a process' data. The lemmas are weakest precondition rules for
  computations that may fail, collected in \<open>wp\<close>, so that each is proved from those of the
  operations it calls.
\<close>

section \<open>Results of fallible steps\<close>

definition post :: "('a \<Rightarrow> bool) \<Rightarrow> 'a option \<Rightarrow> bool" where
  "post Q r \<longleftrightarrow> (\<forall>x. r = Some x \<longrightarrow> Q x)"

named_theorems wp

lemma post_simps [simp]:
  "post Q None" "post Q (Some x) \<longleftrightarrow> Q x"
  "post Q (r \<bind> f) \<longleftrightarrow> post (\<lambda>x. post Q (f x)) r"
  "post Q (map_option g r) \<longleftrightarrow> post (\<lambda>x. Q (g x)) r"
  "post Q (case r of None \<Rightarrow> None | Some x \<Rightarrow> h x) \<longleftrightarrow> post (\<lambda>x. post Q (h x)) r"
  "post Q (if b then r1 else r2) \<longleftrightarrow> (if b then post Q r1 else post Q r2)"
  by (auto simp: post_def bind_eq_Some_conv split: option.splits)

lemma post_weaken: "post P r \<Longrightarrow> (\<And>x. P x \<Longrightarrow> Q x) \<Longrightarrow> post Q r"
  by (simp add: post_def)

lemma post_D: "post Q r \<Longrightarrow> r = Some x \<Longrightarrow> Q x"
  by (simp add: post_def)

definition tbl :: "'w ProcMan \<Rightarrow> ProcManProcess list \<times> u16" where
  "tbl st = (pmProcesses st, pmTicks st)"

definition pdWf :: "ProcManProcessProcData \<Rightarrow> bool" where
  "pdWf pd \<longleftrightarrow> length (pdRegs pd) = 8 \<and> length (pdSignalHandlers pd) = 4 \<and> length (pdFds pd) = 8"

definition keepSt :: "'w ProcMan \<Rightarrow> ('a \<times> 'w ProcMan) option \<Rightarrow> bool" where
  "keepSt st r \<longleftrightarrow> post (\<lambda>(a, st'). tbl st' = tbl st) r"

definition keepPd :: "ProcManProcessProcData \<Rightarrow> 'w ProcMan \<Rightarrow>
    ('a \<times> ProcManProcessProcData \<times> 'w ProcMan) option \<Rightarrow> bool" where
  "keepPd pd st r \<longleftrightarrow> post (\<lambda>(a, pd', st'). tbl st' = tbl st \<and> (pdWf pd \<longrightarrow> pdWf pd')) r"

lemma keepSt_wp: "keepSt st r \<Longrightarrow> (\<And>a st'. tbl st' = tbl st \<Longrightarrow> Q (a, st')) \<Longrightarrow> post Q r"
  unfolding keepSt_def by (erule post_weaken) auto

lemma keepPd_wp:
  "keepPd pd st r \<Longrightarrow> (\<And>a pd' st'. tbl st' = tbl st \<Longrightarrow> (pdWf pd \<Longrightarrow> pdWf pd') \<Longrightarrow> Q (a, pd', st')) \<Longrightarrow> post Q r"
  unfolding keepPd_def by (erule post_weaken) auto

lemma onFs_keeps [THEN keepSt_wp, wp]: "keepSt st (onFs f st)"
  by (auto simp: keepSt_def onFs_def tbl_def post_def)

text \<open>Steps that only look.\<close>

lemma any_wp: "(\<And>x. Q x) \<Longrightarrow> post Q r"
  by (simp add: post_def)

lemmas lookup_wp [wp] =
  any_wp [where r = "kernelFsGetFilePath fs fd" for fs fd]
  any_wp [where r = "kernelFsFileIsOpenByFd fs fd" for fs fd]
  any_wp [where r = "kernelFsFileCanRead env fd fs" for env fd fs]
  any_wp [where r = "kernelFsFileCanWrite env fd fs" for env fd fs]
  any_wp [where r = "kernelFsDirectoryGetChild env fd n fs" for env fd n fs]
  any_wp [where r = "kernelFsFileExists env fs path" for env fs path]
  any_wp [where r = "kernelFsFileIsDir env fs path" for env fs path]
  any_wp [where r = "kernelFsFileGetLen env fs path" for env fs path]
  any_wp [where r = "kernelUnmount path fs" for path fs]
  any_wp [where r = "List.find P xs" for P xs]
  any_wp [where r = "terminatedStr s" for s]
  any_wp [where r = "normaliseBuffer s" for s]
  any_wp [where r = "procManArgvStringGetTotalSize argc argv" for argc argv]
  any_wp [where r = "procManProcessGetGlobalFdFromLocal pd l st" for pd l st]
  any_wp [where r = "procManProcessLoadProgmemFile env n argc argv p q fs" for env n argc argv p q fs]
  any_wp [where r = "inPathBuffer s" for s]
  any_wp [where r = "kernelFsPathSplit s" for s]
  any_wp [where r = "freePipeId env fs xs" for env fs xs]
  any_wp [where r = "procManGetExecPathFromProcess p st" for p st]

lemma pdWf_updates [simp]:
  "pdWf (setReg r v pd) = pdWf pd"
  "pdWf (setFd l fd pd) = pdWf pd"
  "pdWf (pd\<lparr>pdRamFd := x\<rparr>) = pdWf pd" "pdWf (pd\<lparr>pdRamLen := y\<rparr>) = pdWf pd"
  "pdWf (pd\<lparr>pdPwd := y\<rparr>) = pdWf pd" "pdWf (pd\<lparr>pdPath := y\<rparr>) = pdWf pd"
  "pdWf (pd\<lparr>pdArgc := z\<rparr>) = pdWf pd" "pdWf (pd\<lparr>pdEnvVarDataLen := z\<rparr>) = pdWf pd"
  by (simp_all add: pdWf_def setReg_def setFd_def)

section \<open>Memory\<close>

lemma readExactly_keeps [THEN keepSt_wp, wp]: "keepSt st (readExactly env fd off len st)"
  unfolding keepSt_def readExactly_def by (auto intro!: wp)

lemma writeExactly_keeps [THEN keepSt_wp, wp]: "keepSt st (writeExactly env fd off data st)"
  unfolding keepSt_def writeExactly_def by (auto intro!: wp)

lemma ReadBlock_keeps [THEN keepSt_wp, wp]: "keepSt st (procManProcessMemoryReadBlock env p pd a len st)"
  unfolding keepSt_def procManProcessMemoryReadBlock_def Let_def by (auto intro!: wp)

lemma Store_keeps [THEN keepSt_wp, wp]: "keepSt st (procManProcessStoreProcData env p pd st)"
  unfolding keepSt_def procManProcessStoreProcData_def by (auto intro!: wp)

lemma growRamLoop_wp [wp]:
  "(\<And>a st'. tbl st' = tbl st \<Longrightarrow> Q (a, st')) \<Longrightarrow> post Q (growRamLoop env path m t xs st)"
proof (induction xs arbitrary: st)
  case (Cons x xs)
  then show ?case by (auto intro!: wp Cons.IH)
qed simp

lemma growRam_keeps [THEN keepPd_wp, wp]: "keepPd pd st (growRam env i data pd st)"
  unfolding keepPd_def growRam_def Let_def by (auto intro!: wp split: option.splits)

lemma WriteBlock_keeps [THEN keepPd_wp, wp]: "keepPd pd st (procManProcessMemoryWriteBlock env p a data pd st)"
  unfolding keepPd_def procManProcessMemoryWriteBlock_def Let_def by (auto intro!: wp)

lemma LoadProcData_keeps [THEN keepSt_wp, wp]: "keepSt st (procManProcessLoadProcData env p st)"
  unfolding keepSt_def procManProcessLoadProcData_def Let_def by (auto intro!: wp split: option.splits)

lemma LoadProcDataRamLen_keeps [THEN keepSt_wp, wp]: "keepSt st (procManProcessLoadProcDataRamLen env p st)"
  unfolding keepSt_def procManProcessLoadProcDataRamLen_def Let_def by (auto intro!: wp split: option.splits)

lemma LoadProcDataEnvVarDataLen_keeps [THEN keepSt_wp, wp]: "keepSt st (procManProcessLoadProcDataEnvVarDataLen env p st)"
  unfolding keepSt_def procManProcessLoadProcDataEnvVarDataLen_def Let_def by (auto intro!: wp split: option.splits)

lemma LoadProcDataRamFd_keeps [THEN keepSt_wp, wp]: "keepSt st (procManProcessLoadProcDataRamFd env p st)"
  unfolding keepSt_def procManProcessLoadProcDataRamFd_def Let_def by (auto intro!: wp split: option.splits)

lemma SaveProcDataReg_keeps [THEN keepSt_wp, wp]: "keepSt st (procManProcessSaveProcDataReg env p r v st)"
  unfolding keepSt_def procManProcessSaveProcDataReg_def Let_def by (auto intro!: wp split: option.splits)

lemma ReadByte_keeps [THEN keepSt_wp, wp]: "keepSt st (procManProcessMemoryReadByte env p pd a st)"
  unfolding keepSt_def procManProcessMemoryReadByte_def Let_def by (auto intro!: wp split: option.splits)

lemma ReadWord_keeps [THEN keepSt_wp, wp]: "keepSt st (procManProcessMemoryReadWord env p pd a st)"
  unfolding keepSt_def procManProcessMemoryReadWord_def Let_def by (auto intro!: wp split: option.splits)

lemma ReadDoubleWord_keeps [THEN keepSt_wp, wp]: "keepSt st (procManProcessMemoryReadDoubleWord env p pd a st)"
  unfolding keepSt_def procManProcessMemoryReadDoubleWord_def Let_def by (auto intro!: wp split: option.splits)

lemma ReadStr_wp [wp]:
  "(\<And>a st'. tbl st' = tbl st \<Longrightarrow> Q (a, st')) \<Longrightarrow> post Q (procManProcessMemoryReadStr env p pd a n st)"
proof (induction n arbitrary: a st Q)
  case (Suc n)
  show ?case by (auto intro!: wp Suc.IH Suc.prems split: option.splits)
qed simp

lemma WriteByte_keeps [THEN keepPd_wp, wp]: "keepPd pd st (procManProcessMemoryWriteByte env p a v pd st)"
  unfolding keepPd_def procManProcessMemoryWriteByte_def by (auto intro!: wp)

lemma WriteWord_keeps [THEN keepPd_wp, wp]: "keepPd pd st (procManProcessMemoryWriteWord env p a v pd st)"
  unfolding keepPd_def procManProcessMemoryWriteWord_def by (auto intro!: wp)

lemma WriteDoubleWord_keeps [THEN keepPd_wp, wp]: "keepPd pd st (procManProcessMemoryWriteDoubleWord env p a v pd st)"
  unfolding keepPd_def procManProcessMemoryWriteDoubleWord_def by (auto intro!: wp)

lemma WriteStr_keeps [THEN keepPd_wp, wp]: "keepPd pd st (procManProcessMemoryWriteStr env p a v pd st)"
  unfolding keepPd_def procManProcessMemoryWriteStr_def by (auto intro!: wp)

section \<open>Instructions\<close>

text \<open>For recursions that use the outcome of a read to terminate.\<close>

lemma post_eq_wp: "(\<And>x. r = Some x \<Longrightarrow> P x \<Longrightarrow> Q x) \<Longrightarrow> post P r \<Longrightarrow> post Q r"
  by (simp add: post_def)

lemma ReadByte_eq_wp:
  "(\<And>a st'. procManProcessMemoryReadByte env p pd addr st = Some (a, st') \<Longrightarrow> tbl st' = tbl st \<Longrightarrow> Q (a, st')) \<Longrightarrow>
   post Q (procManProcessMemoryReadByte env p pd addr st)"
  by (rule post_eq_wp [where P = "\<lambda>(a, st'). tbl st' = tbl st"]) (auto intro!: wp)

lemma argvSkip_wp [wp]:
  "(\<And>a b st'. tbl st' = tbl st \<Longrightarrow> Q (a, b, st')) \<Longrightarrow> post Q (argvSkip env p pd n addr st)"
proof (induction "unat (0x7FFF - addr)" arbitrary: addr n st rule: less_induct)
  case less
  show ?case
    by (subst argvSkip.simps)
      (auto intro!: ReadByte_eq_wp less.hyps less.prems ReadByte_countdown split: option.splits)
qed

lemma GetArgvNAddr_wp [wp]:
  "(\<And>a b st'. tbl st' = tbl st \<Longrightarrow> Q (a, b, st')) \<Longrightarrow> post Q (procManProcessGetArgvNAddr env p pd n st)"
  unfolding procManProcessGetArgvNAddr_def by (auto intro!: wp)

lemma GetArgvNStr_keeps [THEN keepSt_wp, wp]: "keepSt st (procManProcessGetArgvNStr env p pd n st)"
  unfolding keepSt_def procManProcessGetArgvNStr_def Let_def by (auto intro!: wp split: option.splits)

lemma prefetchFill_wp [wp]:
  "(\<And>a st'. tbl st' = tbl st \<Longrightarrow> Q (a, st')) \<Longrightarrow> post Q (prefetchFill env p pd addr lens st)"
proof (induction lens arbitrary: st)
  case (Cons l lens)
  show ?case by (auto intro!: wp Cons.IH Cons.prems split: option.splits)
qed simp

lemma PrefetchReadByte_wp [wp]:
  "(\<And>a pf' st'. tbl st' = tbl st \<Longrightarrow> Q (a, pf', st')) \<Longrightarrow>
   post Q (procManPrefetchDataReadByte env p pd addr pf st)"
  unfolding procManPrefetchDataReadByte_def by (auto intro!: wp simp del: prefetchFill.simps)

lemma fetchByte_wp [wp]:
  "(\<And>a pd' pf' st'. tbl st' = tbl st \<Longrightarrow> (pdWf pd \<Longrightarrow> pdWf pd') \<Longrightarrow> Q (a, pd', pf', st')) \<Longrightarrow>
   post Q (fetchByte env p pd pf st)"
  unfolding fetchByte_def Let_def by (auto intro!: wp)

lemma GetInstruction_wp [wp]:
  "(\<And>a pd' pf' st'. tbl st' = tbl st \<Longrightarrow> (pdWf pd \<Longrightarrow> pdWf pd') \<Longrightarrow> Q (a, pd', pf', st')) \<Longrightarrow>
   post Q (procManProcessGetInstruction env p pd pf st)"
  unfolding procManProcessGetInstruction_def Let_def by (auto intro!: wp split: option.splits)

lemma ExecInstructionMemory_keeps [THEN keepPd_wp, wp]:
  "keepPd pd st (procManProcessExecInstructionMemory env p info pd st)"
  unfolding keepPd_def procManProcessExecInstructionMemory_def
  by (cases "memType info") (auto intro!: wp split: option.splits)

lemma skipInstructions_wp [wp]:
  "(\<And>a pd' pf' st'. tbl st' = tbl st \<Longrightarrow> (pdWf pd \<Longrightarrow> pdWf pd') \<Longrightarrow> Q (a, pd', pf', st')) \<Longrightarrow>
   post Q (skipInstructions env p n pd pf st)"
proof (induction n arbitrary: pd pf st)
  case (Suc n)
  show ?case by (auto intro!: wp Suc.IH Suc.prems split: option.splits)
qed simp

lemma aluExtra_keeps [THEN keepPd_wp, wp]: "keepPd pd st (aluExtra env p info pd st)"
  unfolding keepPd_def aluExtra_def Let_def
  by (auto intro!: wp split: option.splits BytecodeInstructionAluExtraType.splits)

lemma ExecInstructionAlu_wp [wp]:
  "(\<And>a pd' pf' st'. tbl st' = tbl st \<Longrightarrow> (pdWf pd \<Longrightarrow> pdWf pd') \<Longrightarrow> Q (a, pd', pf', st')) \<Longrightarrow>
   post Q (procManProcessExecInstructionAlu env p info pd pf st)"
  unfolding procManProcessExecInstructionAlu_def Let_def
  by (cases "aluType info") (auto intro!: wp split: option.splits)

section \<open>Files\<close>

lemma tbl_kFs [simp]: "tbl (st\<lparr>kFs := fs\<rparr>) = tbl st"
  by (simp add: tbl_def)

lemma closePipe_wp [wp]: "(\<And>st'. tbl st' = tbl st \<Longrightarrow> Q st') \<Longrightarrow> post Q (closePipe env path i st)"
  unfolding closePipe_def by (auto intro!: wp)

lemma OpenFile_keeps [THEN keepPd_wp, wp]: "keepPd pd st (procManProcessOpenFile env path mode pd st)"
  unfolding keepPd_def procManProcessOpenFile_def Let_def by (auto intro!: wp split: option.splits)

lemma CloseFile_wp [wp]:
  "(\<And>pd' st'. tbl st' = tbl st \<Longrightarrow> (pdWf pd \<Longrightarrow> pdWf pd') \<Longrightarrow> Q (pd', st')) \<Longrightarrow>
   post Q (procManProcessCloseFile env l pd st)"
  unfolding procManProcessCloseFile_def Let_def by (auto intro!: wp)

lemma GetGlobalFdWithPid_keeps [THEN keepSt_wp, wp]: "keepSt st (procManProcessGetGlobalFdFromLocalWithPid env p l st)"
  unfolding keepSt_def procManProcessGetGlobalFdFromLocalWithPid_def Let_def by (auto intro!: wp split: option.splits)

lemma readLoop_result:
  assumes "readLoop env p fd off buf len i pd st = Some r"
  shows "tbl (snd (snd r)) = tbl st \<and> (pdWf pd \<longrightarrow> pdWf (fst (snd r)))"
proof (rule readLoop.raw_induct [where P = "\<lambda>env p fd off buf len i pd st r.
    tbl (snd (snd r)) = tbl st \<and> (pdWf pd \<longrightarrow> pdWf (fst (snd r)))", OF _ assms], goal_cases)
  case IH: (1 rl env p fd off buf len i pd st r)
  have "post (\<lambda>r. tbl (snd (snd r)) = tbl st \<and> (pdWf pd \<longrightarrow> pdWf (fst (snd r))))
    (rl env p fd off buf len i' pd' st')" if "tbl st' = tbl st" "pdWf pd \<longrightarrow> pdWf pd'" for i' pd' st'
    using IH(1) [of env p fd off buf len i' pd' st'] that by (auto simp: post_def)
  then have "post (\<lambda>r. tbl (snd (snd r)) = tbl st \<and> (pdWf pd \<longrightarrow> pdWf (fst (snd r)))) (Some r)"
    unfolding IH(2) [symmetric] Let_def by (auto intro!: wp)
  then show ?case by simp
qed

lemma readLoop_keeps [THEN keepPd_wp, wp]: "keepPd pd st (readLoop env p fd off buf len i pd st)"
  using readLoop_result by (fastforce simp: keepPd_def post_def)

lemma ReadCommon_keeps [THEN keepPd_wp, wp]: "keepPd pd st (procManProcessReadCommon env p off pd st)"
  unfolding keepPd_def procManProcessReadCommon_def Let_def by (auto intro!: wp split: option.splits)

lemma Read_keeps [THEN keepPd_wp, wp]: "keepPd pd st (procManProcessRead env p pd st)"
  unfolding keepPd_def procManProcessRead_def Let_def by (auto intro!: wp split: option.splits)

lemma Read32_keeps [THEN keepPd_wp, wp]: "keepPd pd st (procManProcessRead32 env p pd st)"
  unfolding keepPd_def procManProcessRead32_def Let_def by (auto intro!: wp split: option.splits)

lemma writeLoop_result:
  assumes "writeLoop env p fd off buf len i pd st = Some r"
  shows "tbl (snd r) = tbl st"
proof (rule writeLoop.raw_induct [where P = "\<lambda>env p fd off buf len i pd st r. tbl (snd r) = tbl st",
    OF _ assms], goal_cases)
  case IH: (1 wl env p fd off buf len i pd st r)
  have "post (\<lambda>r. tbl (snd r) = tbl st) (wl env p fd off buf len i' pd st')" if "tbl st' = tbl st" for i' st'
    using IH(1) [of env p fd off buf len i' pd st'] that by (auto simp: post_def)
  then have "post (\<lambda>r. tbl (snd r) = tbl st) (Some r)"
    unfolding IH(2) [symmetric] Let_def by (auto intro!: wp split: option.splits)
  then show ?case by simp
qed

lemma writeLoop_keeps [THEN keepSt_wp, wp]: "keepSt st (writeLoop env p fd off buf len i pd st)"
  using writeLoop_result by (fastforce simp: keepSt_def post_def)

lemma WriteCommon_keeps [THEN keepPd_wp, wp]: "keepPd pd st (procManProcessWriteCommon env p off pd st)"
  unfolding keepPd_def procManProcessWriteCommon_def Let_def by (auto intro!: wp split: option.splits)

lemma Write_keeps [THEN keepPd_wp, wp]: "keepPd pd st (procManProcessWrite env p pd st)"
  unfolding keepPd_def procManProcessWrite_def Let_def by (auto intro!: wp split: option.splits)

lemma Write32_keeps [THEN keepPd_wp, wp]: "keepPd pd st (procManProcessWrite32 env p pd st)"
  unfolding keepPd_def procManProcessWrite32_def Let_def by (auto intro!: wp split: option.splits)

lemma memmoveUp_wp [wp]:
  "(\<And>a pd' st'. tbl st' = tbl st \<Longrightarrow> (pdWf pd \<Longrightarrow> pdWf pd') \<Longrightarrow> Q (a, pd', st')) \<Longrightarrow>
   post Q (memmoveUp env p d s sz i pd st)"
proof (induction "unat (sz - i)" arbitrary: i pd st rule: less_induct)
  case less
  show ?case
    by (subst memmoveUp.simps)
      (auto intro!: wp less.hyps less.prems chunk_less simp: Let_def not_le split: option.splits)
qed

lemma memmoveDown_wp [wp]:
  "(\<And>a pd' st'. tbl st' = tbl st \<Longrightarrow> (pdWf pd \<Longrightarrow> pdWf pd') \<Longrightarrow> Q (a, pd', st')) \<Longrightarrow>
   post Q (memmoveDown env p d s sz i pd st)"
proof (induction "unat (sz - i)" arbitrary: i pd st rule: less_induct)
  case less
  show ?case
    by (subst memmoveDown.simps)
      (auto intro!: wp less.hyps less.prems chunk_less simp: Let_def not_le split: option.splits)
qed

lemma Memmove_keeps [THEN keepPd_wp, wp]: "keepPd pd st (procManProcessMemmove env p d s sz pd st)"
  unfolding keepPd_def procManProcessMemmove_def Let_def by (auto intro!: wp split: option.splits)

lemma strlenLoop_wp [wp]:
  "(\<And>a st'. tbl st' = tbl st \<Longrightarrow> Q (a, st')) \<Longrightarrow> post Q (strlenLoop env p pd addr n st)"
proof (induction "unat (0x7FFF - addr)" arbitrary: addr n st rule: less_induct)
  case less
  show ?case
    by (subst strlenLoop.simps)
      (auto intro!: ReadByte_eq_wp less.hyps less.prems ReadByte_countdown split: option.splits)
qed

lemma Strlen_keeps [THEN keepSt_wp, wp]: "keepSt st (procManProcessMemoryStrlen env p pd a st)"
  unfolding keepSt_def procManProcessMemoryStrlen_def Let_def by (auto intro!: wp split: option.splits)

end
