(* ===== verification/ProcManCalls.thy ===== *)
theory ProcManCalls
  imports ProcManKeeps
begin

text \<open>
  The system calls that leave the process table alone, with the operations they use: all of them
  except those on processes and the four that wait for a device.
\<close>

section \<open>Strings and paths from memory\<close>

lemma readPathStr_keeps [THEN keepSt_wp, wp]: "keepSt st (readPathStr env p pd addr st)"
  unfolding keepSt_def readPathStr_def by (auto intro!: wp)

lemma readPath_keeps [THEN keepSt_wp, wp]: "keepSt st (readPath env p pd addr st)"
  unfolding keepSt_def readPath_def by (auto intro!: wp split: option.splits)

lemma readTwoPaths_keeps [THEN keepSt_wp, wp]: "keepSt st (readTwoPaths env p pd a1 a2 st)"
  unfolding keepSt_def readTwoPaths_def by (auto intro!: wp split: option.splits)

lemma writeEnvVars_keeps [THEN keepSt_wp, wp]: "keepSt st (writeEnvVars env argv pwd path pd st)"
  unfolding keepSt_def writeEnvVars_def by (auto intro!: wp)

lemma readArgs_wp [wp]:
  "(\<And>a st'. tbl st' = tbl st \<Longrightarrow> Q (a, st')) \<Longrightarrow> post Q (readArgs env p pd ptr n argv st)"
proof (induction n arbitrary: argv st)
  case (Suc n)
  show ?case by (auto intro!: wp Suc.IH Suc.prems split: option.splits)
qed simp

lemma copyArgs_wp [wp]:
  "(\<And>a st'. tbl st' = tbl st \<Longrightarrow> Q (a, st')) \<Longrightarrow> post Q (copyArgs env p pd start n argv st)"
proof (induction n arbitrary: start argv st)
  case (Suc n)
  show ?case by (auto intro!: wp Suc.IH Suc.prems split: option.splits)
qed simp

section \<open>System calls\<close>

lemma tbl_updates [simp]:
  "tbl (updWorld f st) = tbl st" "tbl (st\<lparr>pmLogLevel := l\<rparr>) = tbl st"
  "tbl (st\<lparr>pmKernelState := ks\<rparr>) = tbl st" "tbl (st\<lparr>pmKernelStateTime := t\<rparr>) = tbl st"
  by (simp_all add: tbl_def updWorld_def)

lemma rawMs_tbl [simp]: "rawMs sys st = (ms, st') \<Longrightarrow> tbl st' = tbl st"
  by (auto simp: rawMs_def split: prod.splits)

lemma getMonotonicMs_tbl [simp]: "getMonotonicMs sys st = (ms, st') \<Longrightarrow> tbl st' = tbl st"
  by (auto simp: getMonotonicMs_def split: prod.splits)

lemma getRealMs_tbl [simp]: "getRealMs sys st = (ms, st') \<Longrightarrow> tbl st' = tbl st"
  by (auto simp: getRealMs_def split: prod.splits)

lemma kernelSetState_tbl [simp]: "tbl (kernelSetState sys ks st) = tbl st"
  by (auto simp: kernelSetState_def dest!: getMonotonicMs_tbl split: prod.splits)

named_theorems sys_defs

lemmas [sys_defs] = sysGetPid_def sysGetArgC_def sysGetArgVN_def sysGetPidPath_def sysGetPidState_def
  sysGetPidFdN_def sysGetPidRam_def sysEnvGetPwd_def sysEnvSetPwd_def sysEnvGetPath_def sysEnvSetPath_def
  sysRegisterSignalHandler_def sysGetLogLevel_def sysSetLogLevel_def sysTimeMonotonic16s_def
  sysTimeMonotonic16ms_def sysTimeMonotonic32s_def sysTimeMonotonic32ms_def sysTimeReal32s_def

lemma sysGetPid_keeps [THEN keepPd_wp, wp]: "keepPd pd st (sysGetPid p pd st)"
  unfolding keepPd_def sys_defs by (auto intro!: wp)

lemma sysGetArgC_keeps [THEN keepPd_wp, wp]: "keepPd pd st (sysGetArgC pd st)"
  unfolding keepPd_def sys_defs by (auto intro!: wp)

lemma sysGetArgVN_keeps [THEN keepPd_wp, wp]: "keepPd pd st (sysGetArgVN sys p pd st)"
  unfolding keepPd_def sys_defs by (auto intro!: wp)

lemma cstr_option_wp: "(\<And>x. Q x) \<Longrightarrow> post Q (r :: cstr option)"
  by (rule any_wp)

lemma sysGetPidPath_keeps [THEN keepPd_wp, wp]: "keepPd pd st (sysGetPidPath sys p pd st)"
  unfolding keepPd_def sys_defs by (auto intro!: wp cstr_option_wp split: option.splits)

lemma sysGetPidState_keeps [THEN keepPd_wp, wp]: "keepPd pd st (sysGetPidState sys p pd st)"
  unfolding keepPd_def sys_defs by (auto intro!: wp split: option.splits)

lemma cpuCountsLoop_wp [wp]:
  "(\<And>a pd' st'. tbl st' = tbl st \<Longrightarrow> (pdWf pd \<Longrightarrow> pdWf pd') \<Longrightarrow> Q (a, pd', st')) \<Longrightarrow>
   post Q (cpuCountsLoop env p addr xs pd st)"
proof (induction xs arbitrary: addr pd st)
  case (Cons x xs)
  show ?case by (auto intro!: wp Cons.IH Cons.prems)
qed simp

lemma sysGetAllCpuCounts_keeps [THEN keepPd_wp, wp]: "keepPd pd st (sysGetAllCpuCounts sys p pd st)"
  unfolding keepPd_def sysGetAllCpuCounts_def by (auto intro!: wp simp del: cpuCountsLoop.simps)

lemma sysGetPidFdN_keeps [THEN keepPd_wp, wp]: "keepPd pd st (sysGetPidFdN sys p pd st)"
  unfolding keepPd_def sys_defs Let_def by (auto intro!: wp)

lemma sysGetPidRam_keeps [THEN keepPd_wp, wp]: "keepPd pd st (sysGetPidRam sys pd st)"
  unfolding keepPd_def sys_defs by (auto intro!: wp split: option.splits)

lemma sysEnvGetPwd_keeps [THEN keepPd_wp, wp]: "keepPd pd st (sysEnvGetPwd pd st)"
  unfolding keepPd_def sysEnvGetPwd_def Let_def by (auto intro!: wp split: option.splits)

lemma sysEnvSetPwd_keeps [THEN keepPd_wp, wp]: "keepPd pd st (sysEnvSetPwd pd st)"
  unfolding keepPd_def sysEnvSetPwd_def Let_def by (auto intro!: wp split: option.splits)

lemma sysEnvGetPath_keeps [THEN keepPd_wp, wp]: "keepPd pd st (sysEnvGetPath pd st)"
  unfolding keepPd_def sysEnvGetPath_def Let_def by (auto intro!: wp split: option.splits)

lemma sysEnvSetPath_keeps [THEN keepPd_wp, wp]: "keepPd pd st (sysEnvSetPath pd st)"
  unfolding keepPd_def sysEnvSetPath_def Let_def by (auto intro!: wp split: option.splits)

lemma sysGetLogLevel_keeps [THEN keepPd_wp, wp]: "keepPd pd st (sysGetLogLevel pd st)"
  unfolding keepPd_def sysGetLogLevel_def Let_def by (auto intro!: wp split: option.splits)

lemma sysSetLogLevel_keeps [THEN keepPd_wp, wp]: "keepPd pd st (sysSetLogLevel pd st)"
  unfolding keepPd_def sysSetLogLevel_def Let_def by (auto intro!: wp split: option.splits)

lemma sysTimeMonotonic16s_keeps [THEN keepPd_wp, wp]: "keepPd pd st (sysTimeMonotonic16s sys pd st)"
  unfolding keepPd_def sysTimeMonotonic16s_def Let_def by (auto intro!: wp split: prod.splits)

lemma sysTimeMonotonic16ms_keeps [THEN keepPd_wp, wp]: "keepPd pd st (sysTimeMonotonic16ms sys pd st)"
  unfolding keepPd_def sysTimeMonotonic16ms_def Let_def by (auto intro!: wp split: prod.splits)

lemma sysRegisterSignalHandler_keeps [THEN keepPd_wp, wp]: "keepPd pd st (sysRegisterSignalHandler pd st)"
  by (auto simp: keepPd_def sysRegisterSignalHandler_def Let_def pdWf_def)

lemma sysTimeMonotonic32s_keeps [THEN keepPd_wp, wp]: "keepPd pd st (sysTimeMonotonic32s sys p pd st)"
  unfolding keepPd_def sysTimeMonotonic32s_def Let_def by (auto intro!: wp split: prod.splits)

lemma sysTimeMonotonic32ms_keeps [THEN keepPd_wp, wp]: "keepPd pd st (sysTimeMonotonic32ms sys p pd st)"
  unfolding keepPd_def sysTimeMonotonic32ms_def Let_def by (auto intro!: wp split: prod.splits)

lemma sysTimeReal32s_keeps [THEN keepPd_wp, wp]: "keepPd pd st (sysTimeReal32s sys p pd st)"
  unfolding keepPd_def sysTimeReal32s_def Let_def by (auto intro!: wp split: prod.splits)

lemma writeBytes_wp [wp]:
  "(\<And>a pd' st'. tbl st' = tbl st \<Longrightarrow> (pdWf pd \<Longrightarrow> pdWf pd') \<Longrightarrow> Q (a, pd', st')) \<Longrightarrow>
   post Q (writeBytes env p addr bs pd st)"
proof (induction bs arbitrary: addr pd st)
  case (Cons b bs)
  show ?case by (auto intro!: wp Cons.IH Cons.prems)
qed simp

lemma sysTimeToDate32s_keeps [THEN keepPd_wp, wp]: "keepPd pd st (sysTimeToDate32s sys p pd st)"
  unfolding keepPd_def sysTimeToDate32s_def Let_def
  by (auto intro!: wp simp del: writeBytes.simps split: option.splits)

lemma onFsResult_keeps [THEN keepPd_wp, wp]: "keepPd pd st (onFsResult f pd st)"
  by (auto simp: keepPd_def onFsResult_def tbl_def post_def)

lemma sysMount_keeps [THEN keepPd_wp, wp]: "keepPd pd st (sysMount sys p pd st)"
  unfolding keepPd_def sysMount_def Let_def by (auto intro!: wp split: option.splits)

lemma sysUnmount_keeps [THEN keepPd_wp, wp]: "keepPd pd st (sysUnmount sys p pd st)"
  unfolding keepPd_def sysUnmount_def Let_def by (auto intro!: wp split: option.splits)

lemma sysRemount_keeps [THEN keepPd_wp, wp]: "keepPd pd st (sysRemount sys p pd st)"
  unfolding keepPd_def sysRemount_def Let_def by (auto intro!: wp split: option.splits)

section \<open>System calls on files\<close>

lemma sysTryReadByte_keeps [THEN keepPd_wp, wp]: "keepPd pd st (sysTryReadByte sys pd st)"
  unfolding keepPd_def sysTryReadByte_def Let_def by (auto intro!: wp split: option.splits)

lemma sysTryWriteByte_keeps [THEN keepPd_wp, wp]: "keepPd pd st (sysTryWriteByte sys pd st)"
  unfolding keepPd_def sysTryWriteByte_def Let_def by (auto intro!: wp split: option.splits)

lemma sysOpen_keeps [THEN keepPd_wp, wp]: "keepPd pd st (sysOpen sys p pd st)"
  unfolding keepPd_def sysOpen_def Let_def by (auto intro!: wp split: option.splits)

lemma sysClose_keeps [THEN keepPd_wp, wp]: "keepPd pd st (sysClose sys pd st)"
  unfolding keepPd_def sysClose_def Let_def by (auto intro!: wp split: option.splits)

lemma sysDirGetChildN_keeps [THEN keepPd_wp, wp]: "keepPd pd st (sysDirGetChildN sys p pd st)"
  unfolding keepPd_def sysDirGetChildN_def Let_def by (auto intro!: wp split: option.splits)

lemma sysGetPath_keeps [THEN keepPd_wp, wp]: "keepPd pd st (sysGetPath sys p pd st)"
  unfolding keepPd_def sysGetPath_def Let_def by (auto intro!: wp split: option.splits)

lemma sysGetPathGlobal_keeps [THEN keepPd_wp, wp]: "keepPd pd st (sysGetPathGlobal sys p pd st)"
  unfolding keepPd_def sysGetPathGlobal_def Let_def by (auto intro!: wp split: option.splits)

lemma resizeOrCreate_keeps [THEN keepSt_wp, wp]: "keepSt st (resizeOrCreate env path n st)"
  unfolding keepSt_def resizeOrCreate_def by (auto intro!: wp)

lemma fileLenOrZero_wp [wp]: "(\<And>x. Q x) \<Longrightarrow> post Q (fileLenOrZero env st path)"
  by (rule any_wp)

lemma sysResizeFile_keeps [THEN keepPd_wp, wp]: "keepPd pd st (sysResizeFile sys p pd st)"
  unfolding keepPd_def sysResizeFile_def Let_def by (auto intro!: wp split: option.splits)

lemma sysResizeFile32_keeps [THEN keepPd_wp, wp]: "keepPd pd st (sysResizeFile32 sys p pd st)"
  unfolding keepPd_def sysResizeFile32_def Let_def by (auto intro!: wp split: option.splits)

lemma sysGetFileLen_keeps [THEN keepPd_wp, wp]: "keepPd pd st (sysGetFileLen sys p pd st)"
  unfolding keepPd_def sysGetFileLen_def Let_def by (auto intro!: wp split: option.splits)

lemma sysGetFileLen32_keeps [THEN keepPd_wp, wp]: "keepPd pd st (sysGetFileLen32 sys p pd st)"
  unfolding keepPd_def sysGetFileLen32_def Let_def by (auto intro!: wp split: option.splits)

lemma sysIsDir_keeps [THEN keepPd_wp, wp]: "keepPd pd st (sysIsDir sys p pd st)"
  unfolding keepPd_def sysIsDir_def Let_def by (auto intro!: wp split: option.splits)

lemma sysFileExists_keeps [THEN keepPd_wp, wp]: "keepPd pd st (sysFileExists sys p pd st)"
  unfolding keepPd_def sysFileExists_def Let_def by (auto intro!: wp split: option.splits)

lemma sysDelete_keeps [THEN keepPd_wp, wp]: "keepPd pd st (sysDelete sys p pd st)"
  unfolding keepPd_def sysDelete_def Let_def by (auto intro!: wp split: option.splits)

lemma sysFlush_keeps [THEN keepPd_wp, wp]: "keepPd pd st (sysFlush sys p pd st)"
  unfolding keepPd_def sysFlush_def Let_def by (auto intro!: wp split: option.splits)

lemma appendLoop_wp [wp]:
  "(\<And>a st'. tbl st' = tbl st \<Longrightarrow> Q (a, st')) \<Longrightarrow> post Q (appendLoop env p fd old d sz i pd st)"
proof (induction "unat (sz - i)" arbitrary: i st rule: less_induct)
  case less
  show ?case
    by (subst appendLoop.simps)
      (auto intro!: wp less.hyps less.prems chunk_less simp: not_le split: option.splits)
qed

lemma appendData_keeps [THEN keepPd_wp, wp]: "keepPd pd st (appendData env p path old d n pd st)"
  unfolding keepPd_def appendData_def by (auto intro!: wp split: option.splits)

lemma sysAppend_keeps [THEN keepPd_wp, wp]: "keepPd pd st (sysAppend sys p pd st)"
  unfolding keepPd_def sysAppend_def Let_def by (auto intro!: wp split: option.splits)

lemma ioctlPin_tbl [simp]: "tbl (ioctlPin sys path c d st) = tbl st"
  by (simp add: ioctlPin_def Let_def)

lemma sysIoctl_keeps [THEN keepPd_wp, wp]: "keepPd pd st (sysIoctl sys pd st)"
  unfolding keepPd_def sysIoctl_def Let_def by (auto intro!: wp split: option.splits)

lemma undoPipe_wp [wp]:
  "(\<And>pd' st'. tbl st' = tbl st \<Longrightarrow> (pdWf pd \<Longrightarrow> pdWf pd') \<Longrightarrow> Q (pd', st')) \<Longrightarrow>
   post Q (undoPipe env i r w pd st)"
  unfolding undoPipe_def by (auto intro!: wp)

lemma openPipe_keeps [THEN keepPd_wp, wp]: "keepPd pd st (openPipe env p i pd st)"
  unfolding keepPd_def openPipe_def Let_def by (auto intro!: wp split: option.splits)

lemma sysPipeOpen_keeps [THEN keepPd_wp, wp]: "keepPd pd st (sysPipeOpen sys p pd st)"
  unfolding keepPd_def sysPipeOpen_def Let_def by (auto intro!: wp split: option.splits)

section \<open>System calls on memory\<close>

lemma strchrLoop_wp [wp]:
  "(\<And>a st'. tbl st' = tbl st \<Longrightarrow> Q (a, st')) \<Longrightarrow> post Q (strchrLoop env p pd c addr st)"
proof (induction "unat (0x7FFF - addr)" arbitrary: addr st rule: less_induct)
  case less
  show ?case
    by (subst strchrLoop.simps)
      (auto intro!: ReadByte_eq_wp less.hyps less.prems ReadByte_countdown simp: Let_def split: option.splits)
qed

lemma strchrnulLoop_wp [wp]:
  "(\<And>a b st'. tbl st' = tbl st \<Longrightarrow> Q (a, b, st')) \<Longrightarrow> post Q (strchrnulLoop env p pd c addr st)"
proof (induction "unat (0x7FFF - addr)" arbitrary: addr st rule: less_induct)
  case less
  show ?case
    by (subst strchrnulLoop.simps)
      (auto intro!: ReadByte_eq_wp less.hyps less.prems ReadByte_countdown simp: Let_def split: option.splits)
qed

lemma strrchrLoop_wp [wp]:
  "(\<And>a b st'. tbl st' = tbl st \<Longrightarrow> Q (a, b, st')) \<Longrightarrow> post Q (strrchrLoop env p pd c f addr st)"
proof (induction "unat (0x7FFF - addr)" arbitrary: addr c f st rule: less_induct)
  case less
  show ?case
    by (subst strrchrLoop.simps)
      (auto intro!: ReadByte_eq_wp less.hyps less.prems ReadByte_countdown simp: Let_def split: option.splits)
qed

lemma sysStrchr_keeps [THEN keepPd_wp, wp]: "keepPd pd st (sysStrchr sys p pd st)"
  unfolding keepPd_def sysStrchr_def Let_def by (auto intro!: wp split: option.splits)

lemma sysStrchrnul_keeps [THEN keepPd_wp, wp]: "keepPd pd st (sysStrchrnul sys p pd st)"
  unfolding keepPd_def sysStrchrnul_def Let_def by (auto intro!: wp split: option.splits)

lemma sysStrrchr_keeps [THEN keepPd_wp, wp]: "keepPd pd st (sysStrrchr sys p pd st)"
  unfolding keepPd_def sysStrrchr_def Let_def by (auto intro!: wp split: option.splits)

lemma strcmpLoop_result:
  assumes "strcmpLoop env p pd a b st = Some r"
  shows "tbl (snd r) = tbl st"
proof (rule strcmpLoop.raw_induct [where P = "\<lambda>env p pd a b st r. tbl (snd r) = tbl st",
    OF _ assms], goal_cases)
  case IH: (1 cl env p pd a b st r)
  have "post (\<lambda>r. tbl (snd r) = tbl st) (cl env p pd a' b' st')" if "tbl st' = tbl st" for a' b' st'
    using IH(1) [of env p pd a' b' st'] that by (auto simp: post_def)
  then have "post (\<lambda>r. tbl (snd r) = tbl st) (Some r)"
    unfolding IH(2) [symmetric] Let_def by (auto intro!: wp split: option.splits)
  then show ?case by simp
qed

lemma strcmpLoop_keeps [THEN keepSt_wp, wp]: "keepSt st (strcmpLoop env p pd a b st)"
  using strcmpLoop_result by (fastforce simp: keepSt_def post_def)

lemma sysStrcmp_keeps [THEN keepPd_wp, wp]: "keepPd pd st (sysStrcmp sys p pd st)"
  unfolding keepPd_def sysStrcmp_def Let_def by (auto intro!: wp split: option.splits)

lemma sysMemmove_keeps [THEN keepPd_wp, wp]: "keepPd pd st (sysMemmove sys p pd st)"
  unfolding keepPd_def sysMemmove_def Let_def by (auto intro!: wp split: option.splits)

lemma memcmpLoop_wp [wp]:
  "(\<And>a st'. tbl st' = tbl st \<Longrightarrow> Q (a, st')) \<Longrightarrow> post Q (memcmpLoop env p pd a1 a2 sz i st)"
proof (induction "unat (sz - i)" arbitrary: i st rule: less_induct)
  case less
  show ?case
    by (subst memcmpLoop.simps)
      (auto intro!: wp less.hyps less.prems chunk_less_min simp: not_le split: option.splits)
qed

lemma memchrLoop_wp [wp]:
  "(\<And>a st'. tbl st' = tbl st \<Longrightarrow> Q (a, st')) \<Longrightarrow> post Q (memchrLoop env p pd d c sz i st)"
proof (induction "unat (sz - i)" arbitrary: i st rule: less_induct)
  case less
  show ?case
    by (subst memchrLoop.simps)
      (auto intro!: wp less.hyps less.prems count_less simp: not_le split: option.splits)
qed

lemma sysMemcmp_keeps [THEN keepPd_wp, wp]: "keepPd pd st (sysMemcmp sys p pd st)"
  unfolding keepPd_def sysMemcmp_def Let_def by (auto intro!: wp split: option.splits)

lemma sysMemchr_keeps [THEN keepPd_wp, wp]: "keepPd pd st (sysMemchr sys p pd st)"
  unfolding keepPd_def sysMemchr_def Let_def by (auto intro!: wp split: option.splits)

lemma needleLoop_wp [wp]:
  "(\<And>a st'. tbl st' = tbl st \<Longrightarrow> Q (a, st')) \<Longrightarrow> post Q (needleLoop env p pd h addr j st)"
proof (induction "unat (0x7FFF - addr)" arbitrary: addr h j st rule: less_induct)
  case less
  show ?case
    by (subst needleLoop.simps, simp, rule ReadByte_eq_wp)
      (auto intro!: wp less.hyps less.prems dest: ReadByte_countdown split: option.splits)
qed

lemma replaceAt_keeps [THEN keepPd_wp, wp]: "keepPd pd st (replaceAt env p a n r l pd st)"
  unfolding keepPd_def replaceAt_def Let_def by (auto intro!: wp split: option.splits)

lemma strreplaceLoop_result:
  assumes "strreplaceLoop env p h n r l pd st = Some x"
  shows "tbl (snd (snd x)) = tbl st \<and> (pdWf pd \<longrightarrow> pdWf (fst (snd x)))"
proof (rule strreplaceLoop.raw_induct [where P = "\<lambda>env p h n r l pd st x.
    tbl (snd (snd x)) = tbl st \<and> (pdWf pd \<longrightarrow> pdWf (fst (snd x)))", OF _ assms], goal_cases)
  case IH: (1 rl env p h n r l pd st x)
  have "post (\<lambda>x. tbl (snd (snd x)) = tbl st \<and> (pdWf pd \<longrightarrow> pdWf (fst (snd x))))
    (rl env p h' n r l pd' st')" if "tbl st' = tbl st" "pdWf pd \<longrightarrow> pdWf pd'" for h' pd' st'
    using IH(1) [of env p h' n r l pd' st'] that by (auto simp: post_def)
  then have "post (\<lambda>x. tbl (snd (snd x)) = tbl st \<and> (pdWf pd \<longrightarrow> pdWf (fst (snd x)))) (Some x)"
    unfolding IH(2) [symmetric] Let_def by (auto intro!: wp split: option.splits)
  then show ?case by simp
qed

lemma strreplaceLoop_keeps [THEN keepPd_wp, wp]: "keepPd pd st (strreplaceLoop env p h n r l pd st)"
  using strreplaceLoop_result by (fastforce simp: keepPd_def post_def)

lemma sysStrreplace_keeps [THEN keepPd_wp, wp]: "keepPd pd st (sysStrreplace sys p pd st)"
  unfolding keepPd_def sysStrreplace_def Let_def by (auto intro!: wp split: option.splits)

lemma sysPathNormalise_keeps [THEN keepPd_wp, wp]: "keepPd pd st (sysPathNormalise sys p pd st)"
  unfolding keepPd_def sysPathNormalise_def Let_def by (auto intro!: wp split: option.splits)

lemma int32Op16_keeps [THEN keepPd_wp, wp]: "keepPd pd st (int32Op16 f sys p pd st)"
  unfolding keepPd_def int32Op16_def Let_def by (auto intro!: wp split: option.splits)

lemma readTwoDoubleWords_keeps [THEN keepSt_wp, wp]: "keepSt st (readTwoDoubleWords sys p pd st)"
  unfolding keepSt_def readTwoDoubleWords_def by (auto intro!: wp split: option.splits)

lemma int32Op32_keeps [THEN keepPd_wp, wp]: "keepPd pd st (int32Op32 f sys p pd st)"
  unfolding keepPd_def int32Op32_def Let_def by (auto intro!: wp split: option.splits)

lemma sysInt32Div16_keeps [THEN keepPd_wp, wp]: "keepPd pd st (sysInt32Div16 sys p pd st)"
  unfolding keepPd_def sysInt32Div16_def Let_def by (auto intro!: wp split: option.splits)

lemma sysInt32Div32_keeps [THEN keepPd_wp, wp]: "keepPd pd st (sysInt32Div32 sys p pd st)"
  unfolding keepPd_def sysInt32Div32_def Let_def by (auto intro!: wp split: option.splits)

lemma int32Shift_keeps [THEN keepPd_wp, wp]: "keepPd pd st (int32Shift f sys p pd st)"
  unfolding keepPd_def int32Shift_def Let_def by (auto intro!: wp split: option.splits)

section \<open>System calls on hardware devices\<close>

lemma sysHwDeviceRegister_keeps [THEN keepPd_wp, wp]: "keepPd pd st (sysHwDeviceRegister sys p pd st)"
  unfolding keepPd_def sysHwDeviceRegister_def Let_def by (auto intro!: wp split: option.splits)

lemma sysHwDeviceDeregister_keeps [THEN keepPd_wp, wp]: "keepPd pd st (sysHwDeviceDeregister sys pd st)"
  unfolding keepPd_def sysHwDeviceDeregister_def Let_def by (auto intro!: wp split: option.splits)

lemma sysHwDeviceSdCardReaderMount_keeps [THEN keepPd_wp, wp]: "keepPd pd st (sysHwDeviceSdCardReaderMount sys p pd st)"
  unfolding keepPd_def sysHwDeviceSdCardReaderMount_def mountHw_def Let_def by (auto intro!: wp split: option.splits)

lemma sysHwDeviceKeypadMount_keeps [THEN keepPd_wp, wp]: "keepPd pd st (sysHwDeviceKeypadMount sys p pd st)"
  unfolding keepPd_def sysHwDeviceKeypadMount_def mountHw_def Let_def by (auto intro!: wp split: option.splits)

lemma sysHwDeviceSdCardReaderUnmount_keeps [THEN keepPd_wp, wp]: "keepPd pd st (sysHwDeviceSdCardReaderUnmount sys pd st)"
  unfolding keepPd_def sysHwDeviceSdCardReaderUnmount_def Let_def by (auto intro!: wp split: option.splits)

lemma sysHwDeviceKeypadUnmount_keeps [THEN keepPd_wp, wp]: "keepPd pd st (sysHwDeviceKeypadUnmount sys pd st)"
  unfolding keepPd_def sysHwDeviceKeypadUnmount_def Let_def by (auto intro!: wp split: option.splits)

lemma sysHwDeviceGetType_keeps [THEN keepPd_wp, wp]: "keepPd pd st (sysHwDeviceGetType sys pd st)"
  unfolding keepPd_def sysHwDeviceGetType_def Let_def by (auto intro!: wp split: option.splits)

lemma sysHwDeviceDht22GetTemperature_keeps [THEN keepPd_wp, wp]: "keepPd pd st (sysHwDeviceDht22GetTemperature sys pd st)"
  unfolding keepPd_def sysHwDeviceDht22GetTemperature_def Let_def by (auto intro!: wp split: option.splits)

lemma sysHwDeviceDht22GetHumidity_keeps [THEN keepPd_wp, wp]: "keepPd pd st (sysHwDeviceDht22GetHumidity sys pd st)"
  unfolding keepPd_def sysHwDeviceDht22GetHumidity_def Let_def by (auto intro!: wp split: option.splits)

end
