(* ===== verification/ProcManTable.thy ===== *)
theory ProcManTable
  imports ProcManCalls
begin

text \<open>
  The process table: its invariant, and exactly what creating, killing, signalling, forking and
  replacing a process do to it. Killing frees the slot and wakes the processes that wait for it,
  each after its result was written to its data file; everything else is as before.
\<close>

definition slotOk :: "ProcManProcess \<Rightarrow> bool" where
  "slotOk p \<longleftrightarrow>
     (prState p = ProcManProcessStateUnused \<longleftrightarrow> prProgmemFd p = KernelFsFdInvalid) \<and>
     (prState p = ProcManProcessStateUnused \<longleftrightarrow> prProcFd p = KernelFsFdInvalid)"

definition tableOk :: "nat set \<Rightarrow> (nat \<Rightarrow> nat) \<Rightarrow> ProcManProcess list \<Rightarrow> bool" where
  "tableOk A c ps \<longleftrightarrow> length ps = ProcManPidMax \<and>
     (\<forall>i < ProcManPidMax. slotOk (ps ! i) \<and> unat (prInstructionCounter (ps ! i)) \<le> c i \<and>
        (prState (ps ! i) = ProcManProcessStateExiting \<longrightarrow> i \<in> A))"

abbreviation procs :: "'w ProcMan \<Rightarrow> ProcManProcess list" where
  "procs st \<equiv> fst (tbl st)"

lemma tbl_access:
  "procOf st pid = procs st ! unat pid"
  "pmProcesses st = procs st" "pmTicks st = snd (tbl st)"
  by (simp_all add: procOf_def tbl_def)

lemma tbl_updProc [simp]:
  "tbl (updProc pid f st) = ((procs st)[unat pid := f (procs st ! unat pid)], snd (tbl st))"
  by (simp add: updProc_def tbl_def procOf_def)

lemma closeGlobalFds_wp [wp]:
  "(\<And>st'. tbl st' = tbl st \<Longrightarrow> Q st') \<Longrightarrow> post Q (closeGlobalFds fds st)"
proof (induction fds arbitrary: st)
  case (Cons fd fds)
  show ?case by (auto intro!: wp Cons.IH Cons.prems)
qed simp

abbreviation unused :: ProcManProcess where
  "unused \<equiv> \<lparr>prInstructionCounter = 0, prProgmemFd = KernelFsFdInvalid, prProcFd = KernelFsFdInvalid,
     prState = ProcManProcessStateUnused\<rparr>"

lemma unusedProcess_eq [simp]: "unusedProcess p = unused"
  by (cases p) (simp add: unusedProcess_def)

lemma all_fields_set [simp]:
  "p\<lparr>prProgmemFd := a, prProcFd := b, prState := s, prInstructionCounter := n\<rparr> =
     \<lparr>prInstructionCounter = n, prProgmemFd = a, prProcFd = b, prState = s\<rparr>"
  by (cases p) simp

definition freed :: "ProcManPid \<Rightarrow> ProcManProcess list \<Rightarrow> ProcManProcess list" where
  "freed pid ps = ps[unat pid := unused]"

definition started :: "ProcManPid \<Rightarrow> KernelFsFd \<Rightarrow> KernelFsFd \<Rightarrow> ProcManProcess list \<Rightarrow> ProcManProcess list" where
  "started pid fd procFd ps = ps[unat pid := \<lparr>prInstructionCounter = 0, prProgmemFd = fd, prProcFd = procFd,
     prState = ProcManProcessStateActive\<rparr>]"

lemma started_update [simp]: "started pid fd procFd (ps[unat pid := p]) = started pid fd procFd ps"
  by (simp add: started_def)

lemma newProcessError_wp [wp]:
  assumes "\<And>st'. tbl st' = (freed pid (procs st), snd (tbl st)) \<Longrightarrow> Q (of_nat ProcManPidMax, st')"
    and "length (procs st) = ProcManPidMax" "unat pid < ProcManPidMax"
  shows "post Q (newProcessError env pid ramFd st)"
  unfolding newProcessError_def Let_def
  by (auto intro!: wp assms(1) simp: assms(2,3) freed_def)

lemma newProcessStart_wp [wp]:
  assumes "\<And>st'. tbl st' = ((procs st)[unat pid := (procs st ! unat pid)
      \<lparr>prState := ProcManProcessStateActive, prInstructionCounter := 0\<rparr>], snd (tbl st)) \<Longrightarrow> Q (pid, st')"
    and "\<And>st'. tbl st' = (freed pid (procs st), snd (tbl st)) \<Longrightarrow> Q (of_nat ProcManPidMax, st')"
    and "length (procs st) = ProcManPidMax" "unat pid < ProcManPidMax"
  shows "post Q (newProcessStart env pid ramFd ev pd st)"
  unfolding newProcessStart_def Let_def
  by (auto intro!: wp assms(1,2) simp: assms(3,4) freed_def)


text \<open>The outcome of creating a process: the slot is freed again, or taken by an active one.\<close>

lemma newProcessFiles_effect:
  assumes "length (procs st) = ProcManPidMax" "unat pid < ProcManPidMax"
  shows "post (\<lambda>(r, st'). snd (tbl st') = snd (tbl st) \<and>
      (r = pid \<and> (\<exists>procFd. procFd \<noteq> KernelFsFdInvalid \<and>
         procs st' = started pid (prProgmemFd (procs st ! unat pid)) procFd (procs st)) \<or>
       r = of_nat ProcManPidMax \<and> procs st' = freed pid (procs st)))
    (newProcessFiles env pid argc argv pwd st)"
proof -
  have [simp]: "p\<lparr>prProcFd := b, prState := ProcManProcessStateActive, prInstructionCounter := 0\<rparr> =
     \<lparr>prInstructionCounter = 0, prProgmemFd = prProgmemFd p, prProcFd = b, prState = ProcManProcessStateActive\<rparr>" for p b
    by (cases p) simp
  show ?thesis
    unfolding newProcessFiles_def Let_def
    by (auto intro!: wp simp: assms freed_def simp flip: started_def) blast+
qed

lemma newProcessFiles_wp [wp]:
  assumes "\<And>r st'. snd (tbl st') = snd (tbl st) \<Longrightarrow>
      (r = pid \<and> (\<exists>procFd. procFd \<noteq> KernelFsFdInvalid \<and>
         procs st' = started pid (prProgmemFd (procs st ! unat pid)) procFd (procs st)) \<or>
       r = of_nat ProcManPidMax \<and> procs st' = freed pid (procs st)) \<Longrightarrow> Q (r, st')"
    and "length (procs st) = ProcManPidMax" "unat pid < ProcManPidMax"
  shows "post Q (newProcessFiles env pid argc argv pwd st)"
  by (rule post_weaken [OF newProcessFiles_effect [OF assms(2,3)]]) (auto intro: assms(1))

lemma find_pids: "List.find P allPids = Some pid \<Longrightarrow> unat pid < ProcManPidMax \<and> P pid"
  by (auto simp: find_Some_iff allPids_def ProcManPidMax_def unat_of_nat)

lemma findUnused:
  "unat (procManFindUnusedPid st) \<noteq> ProcManPidMax \<Longrightarrow>
   unat (procManFindUnusedPid st) < ProcManPidMax \<and>
   prState (procs st ! unat (procManFindUnusedPid st)) = ProcManProcessStateUnused"
  by (auto simp: procManFindUnusedPid_def tbl_access ProcManPidMax_def dest: find_pids split: option.splits)

lemma unat_pidMax: "unat (of_nat ProcManPidMax :: u8) = ProcManPidMax"
  by (simp add: ProcManPidMax_def)

definition newEffect :: "ProcManPid \<Rightarrow> ProcManProcess list \<Rightarrow> ProcManProcess list \<Rightarrow> bool" where
  "newEffect pid ps ps' \<longleftrightarrow>
     (unat pid < ProcManPidMax \<and> prState (ps ! unat pid) = ProcManProcessStateUnused \<and>
        (\<exists>fd procFd. fd \<noteq> KernelFsFdInvalid \<and> procFd \<noteq> KernelFsFdInvalid \<and> ps' = started pid fd procFd ps)) \<or>
     (unat pid = ProcManPidMax \<and>
        (ps' = ps \<or> (\<exists>q. unat q < ProcManPidMax \<and> prState (ps ! unat q) = ProcManProcessStateUnused \<and>
           ps' = freed q ps)))"

lemma newEffect_intros:
  "unat pid < ProcManPidMax \<Longrightarrow> prState (ps ! unat pid) = ProcManProcessStateUnused \<Longrightarrow>
     fd \<noteq> KernelFsFdInvalid \<Longrightarrow> procFd \<noteq> KernelFsFdInvalid \<Longrightarrow> newEffect pid ps (started pid fd procFd ps)"
  "unat (q :: ProcManPid) < ProcManPidMax \<Longrightarrow> prState (ps ! unat q) = ProcManProcessStateUnused \<Longrightarrow>
     newEffect (of_nat ProcManPidMax) ps (ps[unat q := unused])"
  "unat pid = ProcManPidMax \<Longrightarrow> newEffect pid ps ps"
  unfolding newEffect_def freed_def started_def
  by (blast, use unat_pidMax in blast, simp)

lemma ProcessNew_effect:
  assumes "length (procs st) = ProcManPidMax"
  shows "post (\<lambda>(pid, st'). newEffect pid (procs st) (procs st') \<and> snd (tbl st') = snd (tbl st))
    (procManProcessNew env path st)"
proof (cases "unat (procManFindUnusedPid st) = ProcManPidMax")
  case True
  then show ?thesis by (auto simp: procManProcessNew_def intro: newEffect_intros)
next
  case False
  note q = findUnused [OF False]
  show ?thesis
    unfolding procManProcessNew_def Let_def
    using q by (auto intro!: wp newEffect_intros simp: assms False freed_def simp flip: started_def)
qed


section \<open>Killing\<close>

definition woken ::
    "'w KEnv \<Rightarrow> ProcManPid \<Rightarrow> ProcManExitStatus \<Rightarrow> ProcManPid \<Rightarrow> ProcManProcess \<Rightarrow> ProcManProcess \<Rightarrow> bool" where
  "woken env pid exitStatus i p p' \<longleftrightarrow>
     (if prProgmemFd p \<noteq> KernelFsFdInvalid \<and> (\<exists>t. prState p = ProcManProcessStateWaitingWaitpid pid t)
      then \<exists>st ok st'. procOf st i = p \<and>
        procManProcessSaveProcDataReg env i 0 exitStatus (st :: 'w ProcMan) = Some (ok, st') \<and>
        p' = (if ok then p\<lparr>prState := ProcManProcessStateActive\<rparr> else p)
      else p' = p)"

lemma getProcess_tbl:
  "procManGetProcessByPid st pid =
     (if unat pid \<ge> ProcManPidMax \<or> prProgmemFd (procs st ! unat pid) = KernelFsFdInvalid then None else Some pid)"
  by (simp add: procManGetProcessByPid_def tbl_access)

lemma SaveReg_eq_wp:
  "(\<And>a st'. procManProcessSaveProcDataReg env p r v st = Some (a, st') \<Longrightarrow> tbl st' = tbl st \<Longrightarrow> Q (a, st')) \<Longrightarrow>
   post Q (procManProcessSaveProcDataReg env p r v st)"
  by (rule post_eq_wp [where P = "\<lambda>(a, st'). tbl st' = tbl st"]) (auto intro!: wp)

lemma woken_intros:
  "procManProcessSaveProcDataReg env i 0 es st = Some (True, st') \<Longrightarrow> procs st ! unat i = p \<Longrightarrow>
     prProgmemFd p \<noteq> KernelFsFdInvalid \<Longrightarrow> prState p = ProcManProcessStateWaitingWaitpid pid t \<Longrightarrow>
     woken env pid es i p (p\<lparr>prState := ProcManProcessStateActive\<rparr>)"
  "procManProcessSaveProcDataReg env i 0 es st = Some (False, st') \<Longrightarrow> procs st ! unat i = p \<Longrightarrow>
     prProgmemFd p \<noteq> KernelFsFdInvalid \<Longrightarrow> prState p = ProcManProcessStateWaitingWaitpid pid t \<Longrightarrow>
     woken env pid es i p p"
  unfolding woken_def by (auto simp: tbl_access intro: exI [of _ st])

definition wakeEffect ::
    "'w KEnv \<Rightarrow> ProcManPid \<Rightarrow> ProcManExitStatus \<Rightarrow> ProcManPid set \<Rightarrow> ProcManProcess list \<Rightarrow>
     ProcManProcess list \<Rightarrow> bool" where
  "wakeEffect env pid exitStatus W ps ps' \<longleftrightarrow> length ps' = length ps \<and>
     (\<forall>i. unat i < ProcManPidMax \<longrightarrow>
        (if i \<in> W then woken env pid exitStatus i (ps ! unat i) (ps' ! unat i) else ps' ! unat i = ps ! unat i))"

lemma wakeEffect_refl: "wakeEffect env pid es {} ps ps"
  by (simp add: wakeEffect_def)

lemma wakeEffect_step:
  assumes "wakeEffect env pid es W (ps[unat i := p]) ps'" "woken env pid es i (ps ! unat i) p"
    "i \<notin> W" "unat i < ProcManPidMax" "length ps = ProcManPidMax"
  shows "wakeEffect env pid es (insert i W) ps ps'"
  unfolding wakeEffect_def
proof (intro conjI allI impI)
  show "length ps' = length ps" using assms(1) by (simp add: wakeEffect_def)
next
  fix j :: ProcManPid
  assume j: "unat j < ProcManPidMax"
  then have "if j \<in> W then woken env pid es j (ps[unat i := p] ! unat j) (ps' ! unat j)
      else ps' ! unat j = ps[unat i := p] ! unat j"
    using assms(1) by (simp add: wakeEffect_def)
  then show "if j \<in> insert i W then woken env pid es j (ps ! unat j) (ps' ! unat j) else ps' ! unat j = ps ! unat j"
    using assms(2-5) j by (cases "j = i") (auto simp: nth_list_update simp flip: word_unat_eq_iff)
qed

lemma wakeWaiters_effect:
  assumes "length (procs st) = ProcManPidMax" "distinct ws" "\<forall>w \<in> set ws. unat w < ProcManPidMax"
  shows "post (\<lambda>st'. snd (tbl st') = snd (tbl st) \<and> wakeEffect env pid es (set ws) (procs st) (procs st'))
    (wakeWaiters env pid es ws st)"
  using assms
proof (induction ws arbitrary: st)
  case Nil
  then show ?case by (simp add: wakeEffect_refl)
next
  case (Cons w ws)
  let ?p = "procs st ! unat w"
  have IH: "post (\<lambda>st'. snd (tbl st') = snd (tbl st) \<and>
      wakeEffect env pid es (insert w (set ws)) (procs st) (procs st')) (wakeWaiters env pid es ws st1)"
    if "procs st1 = (procs st)[unat w := procs st1 ! unat w]" "snd (tbl st1) = snd (tbl st)"
      "woken env pid es w ?p (procs st1 ! unat w)" for st1
  proof -
    have "length (procs st1) = ProcManPidMax"
      using arg_cong [OF that(1), of length] Cons.prems(1) by simp
    then have "post (\<lambda>st'. snd (tbl st') = snd (tbl st1) \<and> wakeEffect env pid es (set ws) (procs st1) (procs st'))
      (wakeWaiters env pid es ws st1)"
      using Cons.IH Cons.prems by simp
    then show ?thesis
      using wakeEffect_step [OF _ that(3), of "set ws"] that(1,2) Cons.prems by (auto elim!: post_weaken)
  qed
  show ?case
  proof (cases "prProgmemFd ?p \<noteq> KernelFsFdInvalid \<and> (\<exists>t. prState ?p = ProcManProcessStateWaitingWaitpid pid t)")
    case True
    then show ?thesis
      using Cons.prems
      by (auto simp: getProcess_tbl tbl_access intro!: SaveReg_eq_wp IH)
        (erule woken_intros, simp, assumption, assumption)+
  next
    case False
    have "woken env pid es w ?p ?p" unfolding woken_def if_not_P [OF False] by (rule refl)
    then have "post (\<lambda>st'. snd (tbl st') = snd (tbl st) \<and>
      wakeEffect env pid es (insert w (set ws)) (procs st) (procs st')) (wakeWaiters env pid es ws st)"
      by (intro IH) simp_all
    moreover have "wakeWaiters env pid es (w # ws) st = wakeWaiters env pid es ws st"
      using False by (auto simp: getProcess_tbl tbl_access split: ProcManProcessState.split)
    ultimately show ?thesis by simp
  qed
qed

lemma closeFds_wp [wp]:
  "(\<And>pd' st'. tbl st' = tbl st \<Longrightarrow> (pdWf pd \<Longrightarrow> pdWf pd') \<Longrightarrow> Q (pd', st')) \<Longrightarrow>
   post Q (closeFds env fds pd st)"
proof (induction fds arbitrary: pd st)
  case (Cons fd fds)
  show ?case by (auto intro!: wp Cons.IH Cons.prems)
qed simp

lemma closeAndDelete_wp [wp]: "(\<And>st'. tbl st' = tbl st \<Longrightarrow> Q st') \<Longrightarrow> post Q (closeAndDelete env fd st)"
  unfolding closeAndDelete_def by (auto intro!: wp)

lemma removeProcFiles_wp [wp]:
  assumes "\<And>st'. tbl st' = ((procs st)[unat pid := (procs st ! unat pid)\<lparr>prProcFd := KernelFsFdInvalid\<rparr>], snd (tbl st)) \<Longrightarrow> Q st'"
  shows "post Q (removeProcFiles env pid st)"
proof -
  have "(procs st)[unat pid := (procs st ! unat pid)\<lparr>prProcFd := KernelFsFdInvalid\<rparr>] = procs st"
    if "prProcFd (procs st ! unat pid) = KernelFsFdInvalid"
  proof -
    have "(procs st ! unat pid)\<lparr>prProcFd := KernelFsFdInvalid\<rparr> = procs st ! unat pid"
      using that by (cases "procs st ! unat pid") simp
    then show ?thesis by simp
  qed
  then show ?thesis
    unfolding removeProcFiles_def by (auto intro!: wp assms simp: tbl_access split: option.splits)
qed

definition killEffect ::
    "'w KEnv \<Rightarrow> ProcManPid \<Rightarrow> ProcManExitStatus \<Rightarrow> ProcManProcess list \<Rightarrow> ProcManProcess list \<Rightarrow> bool" where
  "killEffect env pid exitStatus ps ps' \<longleftrightarrow> length ps' = length ps \<and> ps' ! unat pid = unused \<and>
     (\<forall>i. i \<noteq> pid \<longrightarrow> unat i < ProcManPidMax \<longrightarrow> woken env pid exitStatus i (ps ! unat i) (ps' ! unat i))"

lemma allPids_set: "w \<in> set allPids \<longleftrightarrow> unat w < ProcManPidMax"
proof -
  have "w \<in> of_nat ` {0..<ProcManPidMax}" if "unat w < ProcManPidMax"
    by (rule image_eqI [of _ _ "unat w"]) (use that in simp_all)
  then show ?thesis by (auto simp: allPids_def ProcManPidMax_def unat_of_nat)
qed

lemma allPids_distinct: "distinct allPids"
  by (simp add: allPids_def ProcManPidMax_def upt_rec)

lemma wakeEffect_kill:
  assumes "wakeEffect env pid es (set allPids) (freed pid ps) ps'"
    "length ps = ProcManPidMax" "unat pid < ProcManPidMax"
  shows "killEffect env pid es ps ps'"
  unfolding killEffect_def
proof (intro conjI allI impI)
  have at: "woken env pid es i (freed pid ps ! unat i) (ps' ! unat i)" if "unat i < ProcManPidMax" for i
    using assms(1) that by (simp add: wakeEffect_def allPids_set)
  show "length ps' = length ps" using assms(1) by (simp add: wakeEffect_def freed_def)
  show "ps' ! unat pid = unused"
    using at [OF assms(3)] assms(2,3) by (simp add: freed_def woken_def)
  show "woken env pid es i (ps ! unat i) (ps' ! unat i)" if "i \<noteq> pid" "unat i < ProcManPidMax" for i
    using at [OF that(2)] that assms(2) by (simp add: freed_def nth_list_update flip: word_unat_eq_iff)
qed

lemma Kill_effect:
  assumes "length (procs st) = ProcManPidMax" "procManGetProcessByPid st pid \<noteq> None"
  shows "post (\<lambda>(pd', st'). snd (tbl st') = snd (tbl st) \<and> killEffect env pid es (procs st) (procs st') \<and>
      (\<forall>pd. procDataGiven = Some pd \<longrightarrow> pdWf pd \<longrightarrow> (\<exists>pd''. pd' = Some pd'' \<and> pdWf pd'')) \<and>
      (procDataGiven = None \<longrightarrow> pd' = None))
    (procManProcessKill env pid es procDataGiven st)"
proof -
  have pid: "unat pid < ProcManPidMax" using assms(2) by (auto simp: getProcess_tbl split: if_splits)
  have wake: "post (\<lambda>st'. Q st') (wakeWaiters env pid es allPids st1)"
    if "tbl st1 = (freed pid (procs st), snd (tbl st))"
      "\<And>st'. snd (tbl st') = snd (tbl st) \<Longrightarrow> killEffect env pid es (procs st) (procs st') \<Longrightarrow> Q st'" for st1 Q
    using wakeWaiters_effect [of st1 allPids env pid es] that(1) assms(1) pid
    by (auto elim!: post_weaken intro!: that(2) wakeEffect_kill simp: allPids_set allPids_distinct freed_def)
  show ?thesis
    unfolding procManProcessKill_def Let_def
    using assms pid
    by (auto intro!: wp wake simp: freed_def split: option.splits)
qed

section \<open>Signals\<close>

lemma callHandler_wp [wp]: "(\<And>st'. tbl st' = tbl st \<Longrightarrow> Q st') \<Longrightarrow> post Q (callHandler env pid h pd st)"
  unfolding callHandler_def Let_def by (auto intro!: wp)

definition signalEffect :: "ProcManPid \<Rightarrow> ProcManProcess list \<Rightarrow> ProcManProcess list \<Rightarrow> bool" where
  "signalEffect pid ps ps' \<longleftrightarrow> ps' = ps \<or>
     (unat pid < ProcManPidMax \<and> prProgmemFd (ps ! unat pid) \<noteq> KernelFsFdInvalid \<and>
      prState (ps ! unat pid) \<notin> {ProcManProcessStateUnused, ProcManProcessStateExiting} \<and>
      ps' = ps[unat pid := (ps ! unat pid)\<lparr>prState := ProcManProcessStateActive\<rparr>])"

lemma interruptState_states:
  "interruptState s pd = Some pd' \<Longrightarrow> s \<notin> {ProcManProcessStateUnused, ProcManProcessStateExiting}"
  by (cases s) auto

lemma interruptState_wp:
  "(\<And>pd'. s \<notin> {ProcManProcessStateUnused, ProcManProcessStateExiting} \<Longrightarrow> Q pd') \<Longrightarrow> post Q (interruptState s pd)"
  by (auto simp: post_def dest: interruptState_states)

lemma SendSignal_effect:
  "post (\<lambda>st'. snd (tbl st') = snd (tbl st) \<and> signalEffect pid (procs st) (procs st'))
    (procManProcessSendSignal env pid sig st)"
  unfolding procManProcessSendSignal_def Let_def
  by (auto intro!: wp interruptState_wp simp: tbl_access getProcess_tbl signalEffect_def split: option.splits if_splits)

section \<open>fork\<close>

lemma dupeFds_wp [wp]:
  "(\<And>a pd' st'. tbl st' = tbl st \<Longrightarrow> Q (a, pd', st')) \<Longrightarrow> post Q (dupeFds env fds pd child st)"
proof (induction fds arbitrary: child st)
  case (Cons fd fds)
  show ?case by (auto intro!: wp Cons.IH Cons.prems)
qed simp

lemma copyBlocks_wp [wp]:
  "(\<And>a st'. tbl st' = tbl st \<Longrightarrow> Q (a, st')) \<Longrightarrow> post Q (copyBlocks env src dest n i k st)"
proof (induction k arbitrary: i st)
  case (Suc k)
  show ?case by (auto intro!: wp Suc.IH Suc.prems split: option.splits)
qed simp

lemma copyRam_keeps [THEN keepSt_wp, wp]: "keepSt st (copyRam env src dest n st)"
  unfolding keepSt_def copyRam_def Let_def by (auto intro!: wp)

definition onlyAt :: "ProcManPid \<Rightarrow> ProcManProcess list \<Rightarrow> ProcManProcess list \<Rightarrow> bool" where
  "onlyAt pid ps ps' \<longleftrightarrow> (\<exists>p. ps' = ps[unat pid := p])"

definition startedAt :: "ProcManPid \<Rightarrow> ProcManProcess list \<Rightarrow> ProcManProcess list \<Rightarrow> bool" where
  "startedAt pid ps ps' \<longleftrightarrow> (\<exists>fd procFd. fd \<noteq> KernelFsFdInvalid \<and> procFd \<noteq> KernelFsFdInvalid \<and>
     ps' = started pid fd procFd ps)"

lemma onlyAt_simps [simp]: "onlyAt pid ps (ps[unat pid := p])" "onlyAt pid ps ps"
  by (auto simp: onlyAt_def intro: exI [of _ p] exI [of _ "ps ! unat pid"])

lemma onlyAt_freed: "onlyAt pid ps ps' \<Longrightarrow> ps'[unat pid := p] = ps[unat pid := p]"
  by (auto simp: onlyAt_def)

lemma startedAt_simp [simp]:
  "fd \<noteq> KernelFsFdInvalid \<Longrightarrow> procFd \<noteq> KernelFsFdInvalid \<Longrightarrow>
   startedAt pid ps (ps[unat pid := \<lparr>prInstructionCounter = 0, prProgmemFd = fd, prProcFd = procFd,
     prState = ProcManProcessStateActive\<rparr>])"
  by (auto simp: startedAt_def started_def)

lemma onlyAt_update [simp]: "onlyAt pid (ps[unat pid := p]) ps' = onlyAt pid ps ps'"
  by (simp add: onlyAt_def)

lemma startedAt_update [simp]: "startedAt pid (ps[unat pid := p]) ps' = startedAt pid ps ps'"
  by (simp add: startedAt_def)

lemma forkFiles_effect:
  assumes "length (procs st) = ProcManPidMax" "unat childPid < ProcManPidMax" "procs st ! unat childPid = unused"
  shows "post (\<lambda>(ok, child', st'). snd (tbl st') = snd (tbl st) \<and> onlyAt childPid (procs st) (procs st') \<and>
      (ok \<longrightarrow> startedAt childPid (procs st) (procs st')))
    (forkFiles env parentPid childPid pd child st)"
  unfolding forkFiles_def Let_def by (auto intro!: wp simp: assms tbl_access)

lemma forkError_wp:
  assumes "\<And>st'. tbl st' = (freed pid (procs st), snd (tbl st)) \<Longrightarrow> Q st'"
    "length (procs st) = ProcManPidMax" "unat pid < ProcManPidMax"
  shows "post Q (forkError env pid child st)"
  unfolding forkError_def by (auto intro!: wp assms(1) simp: assms(2,3))

lemma Fork_effect:
  assumes "length (procs st) = ProcManPidMax"
  shows "post (\<lambda>(pd', st'). snd (tbl st') = snd (tbl st) \<and>
      (\<exists>r. pd' = setReg 0 (ucast r) pd \<and> newEffect r (procs st) (procs st')))
    (procManProcessFork env parentPid pd st)"
proof (cases "unat (procManFindUnusedPid st) = ProcManPidMax")
  case True
  show ?thesis
    using True by (auto simp: procManProcessFork_def ProcManPidMax_def intro!: exI [of _ 16] newEffect_intros)
next
  case False
  let ?c = "procManFindUnusedPid st"
  note q = findUnused [OF False]
  have fork: "post Q (forkFiles env parentPid ?c pd child st1)"
    if "tbl st1 = ((procs st)[unat ?c := unused], snd (tbl st))"
      "\<And>a child' st'. snd (tbl st') = snd (tbl st) \<Longrightarrow> onlyAt ?c (procs st) (procs st') \<Longrightarrow>
         (a \<Longrightarrow> startedAt ?c (procs st) (procs st')) \<Longrightarrow> Q (a, child', st')" for Q child st1
    using forkFiles_effect [of st1 ?c env parentPid pd child] that(1) assms q
    by (auto elim!: post_weaken intro!: that(2))
  have "\<exists>r. setReg 0 (ucast ?c) pd = setReg 0 (ucast r) pd \<and> newEffect r (procs st) (procs st')"
    if "startedAt ?c (procs st) (procs st')" for st'
    using that q by (intro exI [of _ ?c]) (auto simp: newEffect_def startedAt_def)
  moreover have "\<exists>r. setReg 0 (of_nat ProcManPidMax) pd = setReg 0 (ucast r) pd \<and>
      newEffect r (procs st) ((procs st)[unat ?c := unused])"
    using newEffect_intros(2) [of ?c "procs st"] q
    by (intro exI [of _ "of_nat ProcManPidMax"]) (simp add: ProcManPidMax_def)
  moreover have "length ps' = ProcManPidMax" if "onlyAt ?c (procs st) ps'" for ps'
    using that assms by (auto simp: onlyAt_def)
  ultimately show ?thesis
    unfolding procManProcessFork_def Let_def
    using q by (auto intro!: fork forkError_wp simp: False assms freed_def onlyAt_freed)
      blast+
qed

section \<open>exec\<close>

definition execEffect :: "ProcManPid \<Rightarrow> ProcManProcess list \<Rightarrow> ProcManProcess list \<Rightarrow> bool" where
  "execEffect pid ps ps' \<longleftrightarrow> ps' = ps \<or>
     (\<exists>fd. fd \<noteq> KernelFsFdInvalid \<and> ps' = ps[unat pid := (ps ! unat pid)\<lparr>prProgmemFd := fd\<rparr>])"

lemma execEffect_intros [simp]:
  "execEffect pid ps ps"
  "fd \<noteq> KernelFsFdInvalid \<Longrightarrow> execEffect pid ps (ps[unat pid := (ps ! unat pid)\<lparr>prProgmemFd := fd\<rparr>])"
  by (auto simp: execEffect_def)

lemma pdWf_handlers [simp]:
  "length hs = length (pdSignalHandlers pd) \<Longrightarrow> pdWf (pd\<lparr>pdSignalHandlers := hs\<rparr>) = pdWf pd"
  by (simp add: pdWf_def)

lemma pdWf_execProcData [simp]: "pdWf (execProcData argc a b c pd) = pdWf pd"
  by (simp add: execProcData_def Let_def)

definition execPost where
  "execPost pid pd st = (\<lambda>(a :: bool, pd', st'). snd (tbl st') = snd (tbl st) \<and>
     execEffect pid (procs st) (procs st') \<and> (pdWf pd \<longrightarrow> pdWf pd'))"

lemma execPost_I:
  "snd (tbl st') = snd (tbl st) \<Longrightarrow> execEffect pid (procs st) (procs st') \<Longrightarrow> (pdWf pd \<Longrightarrow> pdWf pd') \<Longrightarrow>
   execPost pid pd st (a, pd', st')"
  by (simp add: execPost_def)

lemma execReplace_effect:
  "fd \<noteq> KernelFsFdInvalid \<Longrightarrow> post (execPost p pd st) (execReplace env p fd argc argv pwd path pd st)"
  unfolding execReplace_def Let_def
  by (auto intro!: wp execPost_I simp: tbl_access)

lemma ExecCommon_effect:
  "post (execPost p pd st) (procManProcessExecCommon env p argc argv pd st)"
proof -
  have r: "post (execPost p pd st) (execReplace env p fd argc argv pwd path pd st1)"
    if "tbl st1 = tbl st" "fd \<noteq> KernelFsFdInvalid" for fd argc argv pwd path st1
    using execReplace_effect [OF that(2), of p pd st1] that(1) by (simp add: execPost_def)
  show ?thesis
    unfolding procManProcessExecCommon_def Let_def
    by (auto intro!: wp r execPost_I split: option.splits)
qed

lemma ExecCommon_at:
  "tbl st1 = tbl st \<Longrightarrow> post (execPost p pd st) (procManProcessExecCommon env p argc argv pd st1)"
  using ExecCommon_effect [of p pd st1] by (simp add: execPost_def)

lemma Exec_effect: "post (execPost p pd st) (procManProcessExec env p pd st)"
  unfolding procManProcessExec_def Let_def
  by (auto intro!: wp ExecCommon_at execPost_I split: option.splits)

lemma Exec2_effect: "post (execPost p pd st) (procManProcessExec2 env p pd st)"
  unfolding procManProcessExec2_def Let_def
  by (auto intro!: wp ExecCommon_at execPost_I split: option.splits)

section \<open>The invariant of the table\<close>

lemma tableOk_update:
  assumes "tableOk A c ps" "unat i < ProcManPidMax" "slotOk p" "unat (prInstructionCounter p) \<le> c (unat i)"
    "prState p = ProcManProcessStateExiting \<Longrightarrow> unat i \<in> A"
  shows "tableOk A c (ps[unat i := p])"
  using assms by (auto simp: tableOk_def nth_list_update)

lemma tableOk_slot:
  "tableOk A c ps \<Longrightarrow> unat i < ProcManPidMax \<Longrightarrow> slotOk (ps ! unat i) \<and>
     unat (prInstructionCounter (ps ! unat i)) \<le> c (unat i) \<and>
     (prState (ps ! unat i) = ProcManProcessStateExiting \<longrightarrow> unat i \<in> A)"
  by (simp add: tableOk_def)

lemma tableOk_length: "tableOk A c ps \<Longrightarrow> length ps = ProcManPidMax"
  by (simp add: tableOk_def)

lemma slotOk_unused [simp]: "slotOk unused"
  by (simp add: slotOk_def)

lemma tableOk_started:
  "tableOk A c ps \<Longrightarrow> unat i < ProcManPidMax \<Longrightarrow> fd \<noteq> KernelFsFdInvalid \<Longrightarrow> procFd \<noteq> KernelFsFdInvalid \<Longrightarrow>
   tableOk A c (started i fd procFd ps)"
  unfolding started_def by (rule tableOk_update) (auto simp: slotOk_def)

lemma tableOk_freed: "tableOk A c ps \<Longrightarrow> unat i < ProcManPidMax \<Longrightarrow> tableOk A c (freed i ps)"
  unfolding freed_def by (rule tableOk_update) auto

lemma tableOk_new: "tableOk A c ps \<Longrightarrow> newEffect pid ps ps' \<Longrightarrow> tableOk A c ps'"
  by (auto simp: newEffect_def intro: tableOk_started tableOk_freed)

lemma tableOk_state:
  assumes "tableOk A c ps" "unat i < ProcManPidMax" "prState (ps ! unat i) \<noteq> ProcManProcessStateUnused"
    "s \<noteq> ProcManProcessStateUnused" "s = ProcManProcessStateExiting \<Longrightarrow> unat i \<in> A"
  shows "tableOk A c (ps[unat i := (ps ! unat i)\<lparr>prState := s\<rparr>])"
  by (rule tableOk_update [OF assms(1,2)])
    (use tableOk_slot [OF assms(1,2)] assms(3-5) in \<open>auto simp: slotOk_def\<close>)

lemma tableOk_signal: "tableOk A c ps \<Longrightarrow> signalEffect pid ps ps' \<Longrightarrow> tableOk A c ps'"
  by (auto simp: signalEffect_def intro: tableOk_state)

lemma tableOk_exec:
  "tableOk A c ps \<Longrightarrow> unat pid < ProcManPidMax \<Longrightarrow> prState (ps ! unat pid) \<noteq> ProcManProcessStateUnused \<Longrightarrow>
   execEffect pid ps ps' \<Longrightarrow> tableOk A c ps'"
  unfolding execEffect_def using tableOk_slot [of A c ps pid]
  by (auto simp: slotOk_def intro!: tableOk_update)

lemma woken_cases:
  assumes "woken env pid es i p p'"
  obtains "p' = p" | t where "prState p = ProcManProcessStateWaitingWaitpid pid t"
    "p' = p\<lparr>prState := ProcManProcessStateActive\<rparr>"
  using assms by (auto simp: woken_def split: if_splits)

lemma tableOk_kill:
  assumes "tableOk A c ps" "unat pid < ProcManPidMax" "killEffect env pid es ps ps'"
  shows "tableOk (A - {unat pid}) c ps'"
  unfolding tableOk_def
proof (intro conjI allI impI)
  show "length ps' = ProcManPidMax" using assms by (simp add: killEffect_def tableOk_def)
  fix i
  assume i: "i < ProcManPidMax"
  then have u: "unat (of_nat i :: ProcManPid) = i" by (simp add: ProcManPidMax_def unat_of_nat)
  have "slotOk (ps' ! i) \<and> unat (prInstructionCounter (ps' ! i)) \<le> c i \<and>
      (prState (ps' ! i) = ProcManProcessStateExiting \<longrightarrow> i \<in> A - {unat pid})"
  proof (cases "of_nat i = pid")
    case True
    then show ?thesis using assms(3) u by (auto simp: killEffect_def)
  next
    case False
    then have "woken env pid es (of_nat i) (ps ! i) (ps' ! i)"
      using assms(3) u i by (auto simp: killEffect_def)
    moreover have "i \<noteq> unat pid" using False by auto
    ultimately show ?thesis
      using assms(1) i by (auto simp: tableOk_def slotOk_def elim!: woken_cases)
  qed
  then show "slotOk (ps' ! i)" "unat (prInstructionCounter (ps' ! i)) \<le> c i"
    "prState (ps' ! i) = ProcManProcessStateExiting \<Longrightarrow> i \<in> A - {unat pid}" by simp_all
qed

end
