(* ===== verification/ProcManRun.thy ===== *)
theory ProcManRun
  imports ProcManTable
begin

text \<open>
  The process that runs: each system call and each instruction keeps the invariant of the process
  table and the shape of the process' data, only \<open>Exit\<close> leaves a process exiting, and a turn of
  \<open>n\<close> instructions raises the counter of the one process by at most \<open>n\<close>.
\<close>

section \<open>System calls on processes\<close>

definition runPost where
  "runPost pid c pd st = (\<lambda>(a :: bool, pd', st'). snd (tbl st') = snd (tbl st) \<and>
     tableOk {} c (procs st') \<and> (pdWf pd \<longrightarrow> pdWf pd'))"

definition running :: "ProcManPid \<Rightarrow> (nat \<Rightarrow> nat) \<Rightarrow> 'w ProcMan \<Rightarrow> bool" where
  "running pid c st \<longleftrightarrow> unat pid < ProcManPidMax \<and> tableOk {} c (procs st) \<and>
     prState (procs st ! unat pid) = ProcManProcessStateActive"

lemma runPost_I:
  "snd (tbl st') = snd (tbl st) \<Longrightarrow> tableOk {} c (procs st') \<Longrightarrow> (pdWf pd \<Longrightarrow> pdWf pd') \<Longrightarrow>
   runPost pid c pd st (a, pd', st')"
  by (simp add: runPost_def)

lemma runPost_keep:
  "running pid c st \<Longrightarrow> tbl st' = tbl st \<Longrightarrow> (pdWf pd \<Longrightarrow> pdWf pd') \<Longrightarrow> runPost pid c pd st (a, pd', st')"
  by (simp add: runPost_def running_def)

lemma running_state:
  "running pid c st \<Longrightarrow> s \<noteq> ProcManProcessStateUnused \<Longrightarrow> s \<noteq> ProcManProcessStateExiting \<Longrightarrow>
   tbl st1 = tbl st \<Longrightarrow> (pdWf pd \<Longrightarrow> pdWf pd') \<Longrightarrow>
   runPost pid c pd st (a, pd', updProc pid (\<lambda>p. p\<lparr>prState := s\<rparr>) st1)"
  by (auto simp: running_def intro!: runPost_I tableOk_state)

lemma keepPd_run: "keepPd pd st r \<Longrightarrow> running pid c st \<Longrightarrow> post (runPost pid c pd st) r"
  by (erule keepPd_wp) (rule runPost_keep)

lemma execPost_run: "running pid c st \<Longrightarrow> execPost pid pd st x \<Longrightarrow> runPost pid c pd st x"
  by (auto simp: execPost_def runPost_def running_def intro: tableOk_exec)

lemma Exec_run: "running pid c st \<Longrightarrow> post (runPost pid c pd st) (procManProcessExec env pid pd st)"
  by (rule post_weaken [OF Exec_effect]) (rule execPost_run)

lemma Exec2_run: "running pid c st \<Longrightarrow> post (runPost pid c pd st) (procManProcessExec2 env pid pd st)"
  by (rule post_weaken [OF Exec2_effect]) (rule execPost_run)

lemma running_length: "running pid c st \<Longrightarrow> length (procs st) = ProcManPidMax"
  by (auto simp: running_def dest: tableOk_length)

lemma sysFork_run: "running pid c st \<Longrightarrow> post (runPost pid c pd st) (sysFork sys pid pd st)"
  unfolding sysFork_def post_simps
  by (rule post_weaken [OF Fork_effect [OF running_length]], assumption)
    (auto simp: running_def runPost_def intro: tableOk_new)

lemma sysWaitPid_run: "running pid c st \<Longrightarrow> post (runPost pid c pd st) (sysWaitPid sys pid pd st)"
  unfolding sysWaitPid_def Let_def
  by (auto intro!: running_state intro: runPost_keep split: prod.splits)

lemma tableOk_mono: "tableOk A c ps \<Longrightarrow> A \<subseteq> B \<Longrightarrow> tableOk B c ps"
  by (auto simp: tableOk_def)

lemma Kill_run:
  assumes "tableOk A c (procs st)"
  shows "post (\<lambda>(pd', st'). snd (tbl st') = snd (tbl st) \<and> tableOk A c (procs st') \<and>
      (procManGetProcessByPid st pid \<noteq> None \<longrightarrow> tableOk (A - {unat pid}) c (procs st')) \<and>
      (\<forall>pd. g = Some pd \<longrightarrow> pdWf pd \<longrightarrow> (\<exists>pd''. pd' = Some pd'' \<and> pdWf pd'')) \<and>
      (g = None \<longrightarrow> pd' = None)) (procManProcessKill env pid es g st)"
proof (cases "procManGetProcessByPid st pid = None")
  case True
  then show ?thesis using assms by (auto simp: procManProcessKill_def)
next
  case False
  then have "unat pid < ProcManPidMax" by (auto simp: getProcess_tbl split: if_splits)
  then have "tableOk (A - {unat pid}) c ps'" if "killEffect env pid es (procs st) ps'" for ps'
    using tableOk_kill [OF assms _ that] by simp
  then show ?thesis
    by (intro post_weaken [OF Kill_effect [OF tableOk_length [OF assms] False]])
      (auto intro: tableOk_mono)
qed

lemma sysKill_run: "running pid c st \<Longrightarrow> post (runPost pid c pd st) (sysKill sys pid pd st)"
proof -
  assume r: "running pid c st"
  have k: "post (\<lambda>x. post (runPost pid c pd st) (case x of (pd', st') \<Rightarrow>
        Some (True, case pd' of None \<Rightarrow> pd | Some pd' \<Rightarrow> pd', st')))
      (procManProcessKill (seFs sys) q ProcManExitStatusKilled (if q = pid then Some pd else None) st)" for q
    by (rule post_weaken [OF Kill_run [where A = "{}" and c = c]])
      (use r in \<open>auto simp: running_def runPost_def split: option.splits if_splits\<close>)
  show ?thesis
    using r k [of "ucast (getReg pd 1)"]
    unfolding sysKill_def Let_def by (auto intro: runPost_keep)
qed

lemma SendSignal_wp [wp]:
  assumes "tableOk A c (procs st)"
    "\<And>st'. snd (tbl st') = snd (tbl st) \<Longrightarrow> tableOk A c (procs st') \<Longrightarrow> Q st'"
  shows "post Q (procManProcessSendSignal env pid sig st)"
  by (rule post_weaken [OF SendSignal_effect]) (auto intro: assms tableOk_signal)

lemma sysSignal_run: "running pid c st \<Longrightarrow> post (runPost pid c pd st) (sysSignal sys pd st)"
  unfolding sysSignal_def Let_def
  by (auto intro!: SendSignal_wp [where A = "{}" and c = c] runPost_I simp: running_def
      intro: runPost_keep)

lemma signalEach_wp:
  assumes "tableOk A c (procs st)"
    "\<And>st'. snd (tbl st') = snd (tbl st) \<Longrightarrow> tableOk A c (procs st') \<Longrightarrow> Q st'"
  shows "post Q (signalEach env sig pids st)"
  using assms
proof (induction pids arbitrary: st)
  case (Cons pid pids)
  have "post Q (signalEach env sig pids st1)"
    if "snd (tbl st1) = snd (tbl st)" "tableOk A c (procs st1)" for st1
    by (rule Cons.IH [OF that(2)]) (simp add: Cons.prems(2) that(1))
  then show ?case
    using Cons.prems(1) by (auto intro!: SendSignal_wp [OF Cons.prems(1)])
qed simp

lemma sysShutdown_run: "running pid c st \<Longrightarrow> post (runPost pid c pd st) (sysShutdown sys pd st)"
  unfolding sysShutdown_def kernelShutdownBegin_def
  by (auto intro!: signalEach_wp [where A = "{}" and c = c] runPost_I simp: running_def intro: runPost_keep)

lemma sysRead_run: "running pid c st \<Longrightarrow> post (runPost pid c pd st) (sysRead sys pid pd st)"
  unfolding sysRead_def Let_def
  by (auto intro!: wp running_state intro: runPost_keep)

lemma sysWrite_run: "running pid c st \<Longrightarrow> post (runPost pid c pd st) (sysWrite sys pid pd st)"
  unfolding sysWrite_def Let_def
  by (auto intro!: wp running_state intro: runPost_keep)

lemma sysRead32_run: "running pid c st \<Longrightarrow> post (runPost pid c pd st) (sysRead32 sys pid pd st)"
  unfolding sysRead32_def Let_def
  by (auto intro!: wp running_state intro: runPost_keep)

lemma sysWrite32_run: "running pid c st \<Longrightarrow> post (runPost pid c pd st) (sysWrite32 sys pid pd st)"
  unfolding sysWrite32_def Let_def
  by (auto intro!: wp running_state intro: runPost_keep)

section \<open>The choice of the system call\<close>

definition grpPost :: "('a \<Rightarrow> bool) \<Rightarrow> 'a option option \<Rightarrow> bool" where
  "grpPost P g \<longleftrightarrow> (\<forall>r. g = Some r \<longrightarrow> post P r)"

lemma grpPost_intros:
  "post P r \<Longrightarrow> grpPost P g \<Longrightarrow> grpPost P (if b then Some r else g)" "grpPost P None"
  by (simp_all add: grpPost_def)

lemma grpPost_D: "grpPost P g \<Longrightarrow> g = Some r \<Longrightarrow> post P r"
  by (simp add: grpPost_def)

named_theorems run

lemmas [run] = Exec_run Exec2_run sysFork_run sysWaitPid_run sysKill_run sysSignal_run sysShutdown_run
  sysRead_run sysWrite_run sysRead32_run sysWrite32_run

lemma procSyscall_run:
  "running pid c st \<Longrightarrow> grpPost (runPost pid c pd st) (procSyscall sys pid n pd st)"
  unfolding procSyscall_def
  by (intro grpPost_intros) (auto intro!: run wp intro: runPost_keep)

lemma fsSyscall_run:
  "running pid c st \<Longrightarrow> grpPost (runPost pid c pd st) (fsSyscall sys pid n pd st)"
  unfolding fsSyscall_def
  by (intro grpPost_intros) (auto intro!: run wp intro: runPost_keep)

lemma kernelSyscall_run:
  "running pid c st \<Longrightarrow> grpPost (runPost pid c pd st) (kernelSyscall sys pid n pd st)"
  unfolding kernelSyscall_def
  by (intro grpPost_intros) (auto intro!: run wp intro: runPost_keep)

lemmas int32_defs = sysInt32Add16_def sysInt32Add32_def sysInt32Sub16_def sysInt32Sub32_def
  sysInt32Mul16_def sysInt32Mul32_def sysInt32Shl_def sysInt32Shr_def

lemma memSyscall_run:
  "running pid c st \<Longrightarrow> grpPost (runPost pid c pd st) (memSyscall sys pid n pd st)"
  unfolding memSyscall_def int32_defs
  by (intro grpPost_intros) (auto intro!: run wp intro: runPost_keep)

lemma hwSyscall_run:
  "running pid c st \<Longrightarrow> grpPost (runPost pid c pd st) (hwSyscall sys pid n pd st)"
  unfolding hwSyscall_def
  by (intro grpPost_intros) (auto intro!: run wp intro: runPost_keep)

text \<open>A call that is to have its process killed may leave it exiting.\<close>

definition runPostX where
  "runPostX pid c pd st = (\<lambda>(ok :: bool, es :: ProcManExitStatus, pd', st'). snd (tbl st') = snd (tbl st) \<and>
     tableOk (if ok then {} else {unat pid}) c (procs st') \<and> (pdWf pd \<longrightarrow> pdWf pd'))"

lemma runPostX_I: "runPost pid c pd st (ok, pd', st') \<Longrightarrow> runPostX pid c pd st (ok, es, pd', st')"
  by (auto simp: runPost_def runPostX_def intro: tableOk_mono)

lemma ExecSyscall_run:
  assumes "running pid c st"
  shows "post (runPostX pid c pd st) (procManProcessExecSyscall sys pid es pd st)"
proof -
  have pass: "post (runPostX pid c pd st) (map_option (\<lambda>(ok, pd, st). (ok, es, pd, st)) r)"
    if "post (runPost pid c pd st) r" for r
    using that by (auto simp: post_def intro: runPostX_I)
  have exit: "runPostX pid c pd st (False, getReg pd 1, pd,
      updProc pid (\<lambda>p. p\<lparr>prState := ProcManProcessStateExiting\<rparr>) st)"
    using assms(1) by (auto simp: running_def runPostX_def intro!: tableOk_state intro: tableOk_mono)
  note groups = procSyscall_run [OF assms(1), THEN grpPost_D] fsSyscall_run [OF assms(1), THEN grpPost_D]
    kernelSyscall_run [OF assms, THEN grpPost_D] memSyscall_run [OF assms(1), THEN grpPost_D]
    hwSyscall_run [OF assms, THEN grpPost_D]
  have none: "runPostX pid c pd st (False, es, pd, st)"
    using assms(1) by (simp add: runPostX_I runPost_keep)
  show ?thesis
    unfolding procManProcessExecSyscall_def Let_def
    by (auto simp: sysExit_def exit none pass groups simp del: post_simps(4) split: option.split)
qed

section \<open>Instructions\<close>

definition runPostI where
  "runPostI pid c pd st = (\<lambda>(ok, es, pd', pf :: ProcManPrefetchData, st'). runPostX pid c pd st (ok, es, pd', st'))"

lemma runPostI_keep:
  "running pid c st \<Longrightarrow> tbl st' = tbl st \<Longrightarrow> (pdWf pd \<Longrightarrow> pdWf pd') \<Longrightarrow> runPostI pid c pd st (ok, es, pd', pf, st')"
  by (simp add: runPostI_def runPostX_I runPost_keep)

lemma ExecInstructionMisc_run:
  assumes "running pid c st"
  shows "post (runPostI pid c pd st) (procManProcessExecInstructionMisc sys pid info es pd pf st)"
proof -
  have [simp]: "runPostI pid c pd st (case x of (ok, es, pd, st) \<Rightarrow> (ok, es, pd, pf, st)) = runPostX pid c pd st x" for x
    by (simp add: runPostI_def split: prod.split)
  show ?thesis
    using assms unfolding procManProcessExecInstructionMisc_def Let_def
    by (cases "miscType info") (auto intro: runPostI_keep simp: ExecSyscall_run)
qed

lemma ExecInstruction_run:
  assumes "running pid c st"
  shows "post (runPostI pid c pd st) (procManProcessExecInstruction sys pid instr es pd pf st)"
  unfolding procManProcessExecInstruction_def Let_def
  by (auto intro!: wp ExecInstructionMisc_run [OF assms] intro: runPostI_keep [OF assms(1)]
      split: BytecodeInstructionType.split)

section \<open>Turns\<close>

text \<open>Each instruction adds at most one to the counter of the process that runs.\<close>

definition bump :: "nat \<Rightarrow> nat \<Rightarrow> (nat \<Rightarrow> nat) \<Rightarrow> nat \<Rightarrow> nat" where
  "bump i n c = c(i := c i + n)"

lemma bump_bump [simp]: "bump i n (bump i m c) = bump i (m + n) c" and bump_0 [simp]: "bump i 0 c = c"
  by (simp_all add: bump_def add.assoc)

lemma tableOk_bump: "tableOk A c ps \<Longrightarrow> tableOk A (bump i n c) ps"
  by (auto simp: tableOk_def bump_def le_SucI trans_le_add1)

lemma tableOk_count:
  assumes "tableOk A c ps" "unat i < ProcManPidMax" "prInstructionCounter (ps ! unat i) < procManProcessInstructionCounterMax"
  shows "tableOk A (bump (unat i) 1 c)
    (ps[unat i := (ps ! unat i)\<lparr>prInstructionCounter := prInstructionCounter (ps ! unat i) + 1\<rparr>])"
proof (rule tableOk_update [OF tableOk_bump [OF assms(1)] assms(2)])
  have "unat (prInstructionCounter (ps ! unat i)) < 65500"
    using assms(3) by (simp add: procManProcessInstructionCounterMax_def word_less_nat_alt)
  then have "unat (prInstructionCounter (ps ! unat i) + 1) = unat (prInstructionCounter (ps ! unat i)) + 1"
    by (simp add: unat_word_ariths)
  then show "unat (prInstructionCounter ((ps ! unat i)
      \<lparr>prInstructionCounter := prInstructionCounter (ps ! unat i) + 1\<rparr>)) \<le> bump (unat i) 1 c (unat i)"
    using tableOk_slot [OF assms(1,2)] by (simp add: bump_def)
qed (use tableOk_slot [OF assms(1,2)] in \<open>auto simp: slotOk_def\<close>)

lemma runInstructions_run:
  assumes "running pid c st"
  shows "post (runPostX pid (bump (unat pid) n c) pd st) (runInstructions sys pid n es pd pf st)"
  using assms(1)
proof (induction n arbitrary: c es pd pf st)
  case 0
  then show ?case by (simp add: runPostX_I runPost_keep)
next
  case (Suc n)
  let ?c = "bump (unat pid) (Suc n) c"
  have pid: "unat pid < ProcManPidMax" using Suc.prems by (simp add: running_def)
  have stay: "runPostX pid ?c pd st (False, es, pd', st')"
    if "tbl st' = tbl st" "pdWf pd \<Longrightarrow> pdWf pd'" for es pd' st'
    using that Suc.prems by (auto simp: runPostX_def running_def intro: tableOk_bump tableOk_mono)
  have fail: "runPostX pid ?c pd st (False, es, pd', st')"
    if "runPostX pid c pd1 st1 (False, es, pd', st')" "tbl st1 = tbl st" "pdWf pd \<Longrightarrow> pdWf pd1"
    for es pd1 st1 pd' st'
    using that by (auto simp: runPostX_def intro: tableOk_bump)
  have go: "post (runPostX pid ?c pd st) (
          let st = updProc pid (\<lambda>p. p\<lparr>prInstructionCounter := prInstructionCounter p + 1\<rparr>) st' in
          if prState (procOf st pid) \<noteq> ProcManProcessStateActive then Some (True, es, pd', st)
          else runInstructions sys pid n es pd' pf' st)"
    if True: "\<not> procManProcessInstructionCounterMax \<le> prInstructionCounter (procOf st' pid)" and ok: "runPostX pid c pd1 st1 (True, es, pd', st')" "tbl st1 = tbl st" "pdWf pd \<Longrightarrow> pdWf pd1"
    for es pd1 st1 pd' pf' st'
  proof -
    let ?st = "updProc pid (\<lambda>p. p\<lparr>prInstructionCounter := prInstructionCounter p + 1\<rparr>) st'"
    have t: "tableOk {} (bump (unat pid) 1 c) (procs ?st)"
      using tableOk_count [OF _ pid, of "{}" c "procs st'"] True ok(1) by (simp add: runPostX_def tbl_access not_le)
    have here: "runPostX pid ?c pd st (True, es, pd', ?st)"
      using tableOk_bump [OF t, of "unat pid" n] ok by (simp add: runPostX_def)
    have "post (runPostX pid ?c pd st) (runInstructions sys pid n es pd' pf' ?st)"
      if "prState (procs ?st ! unat pid) = ProcManProcessStateActive"
    proof (rule post_weaken)
      show "post (runPostX pid (bump (unat pid) n (bump (unat pid) 1 c)) pd' ?st) (runInstructions sys pid n es pd' pf' ?st)"
        using t pid that by (intro Suc.IH) (simp add: running_def)
      show "runPostX pid ?c pd st x"
        if "runPostX pid (bump (unat pid) n (bump (unat pid) 1 c)) pd' ?st x" for x
        using that ok by (auto simp: runPostX_def)
    qed
    then show ?thesis
      using here by (simp add: tbl_access Let_def)
  qed
  have exec: "post (\<lambda>x. post (runPostX pid ?c pd st) (case x of (ok, es, pd, pf, st) \<Rightarrow>
        if \<not> ok then Some (False, es, pd, st)
        else if prInstructionCounter (procOf st pid) \<ge> procManProcessInstructionCounterMax then None
        else do {
          let st = updProc pid (\<lambda>p. p\<lparr>prInstructionCounter := prInstructionCounter p + 1\<rparr>) st;
          if prState (procOf st pid) \<noteq> ProcManProcessStateActive then Some (True, es, pd, st)
          else runInstructions sys pid n es pd pf st
        })) (procManProcessExecInstruction sys pid instr es pd1 pf1 st1)"
    if "tbl st1 = tbl st" "pdWf pd \<Longrightarrow> pdWf pd1" for instr pd1 pf1 st1
  proof -
    have "running pid c st1" using Suc.prems that by (simp add: running_def)
    from ExecInstruction_run [OF this] show ?thesis
      by (rule post_weaken) (use that in \<open>auto simp: runPostI_def split: prod.split intro: fail go\<close>)
  qed
  show ?case
    by (auto intro!: wp intro: stay exec split: option.splits)
qed

end
