(* ===== verification/ProcManReach.thy ===== *)
theory ProcManReach
  imports ProcManRun
begin

text \<open>
  The scheduler: what a tick does to the process table, and the invariant of every state the
  kernel can reach. Between ticks no process is exiting, a slot is in use exactly when it has its
  two files, and no instruction counter exceeds 160 for each tick since the counters were last
  reset, which keeps the assertion on the counters from failing.
\<close>

section \<open>A tick of one process\<close>

lemma procDataOfBytes_wf: "length b = procDataSize \<Longrightarrow> pdWf (procDataOfBytes b)"
  by (simp add: procDataOfBytes_def pdWf_def procDataSize_def)

lemma LoadProcData_post:
  "post (\<lambda>(pd, st'). tbl st' = tbl st \<and> (\<forall>p. pd = Some p \<longrightarrow> pdWf p)) (procManProcessLoadProcData env pid st)"
  unfolding procManProcessLoadProcData_def by (auto intro!: wp procDataOfBytes_wf)

lemma LoadProcData_wf:
  "(\<And>pd st'. tbl st' = tbl st \<Longrightarrow> \<forall>p. pd = Some p \<longrightarrow> pdWf p \<Longrightarrow> Q (pd, st')) \<Longrightarrow>
   post Q (procManProcessLoadProcData env pid st)"
  by (rule post_weaken [OF LoadProcData_post]) auto

definition startPost where
  "startPost pid c st = (\<lambda>(start, st'). snd (tbl st') = snd (tbl st) \<and> tableOk {} c (procs st') \<and>
     (\<forall>pd. start = TickRun pd \<longrightarrow> running pid c st' \<and> pdWf pd))"

definition ready :: "ProcManPid \<Rightarrow> (nat \<Rightarrow> nat) \<Rightarrow> 'w ProcMan \<Rightarrow> bool" where
  "ready pid c st \<longleftrightarrow> unat pid < ProcManPidMax \<and> tableOk {} c (procs st) \<and>
     prState (procs st ! unat pid) \<noteq> ProcManProcessStateUnused"

lemma ready_active:
  "ready pid c st \<Longrightarrow> tbl st1 = tbl st \<Longrightarrow>
   running pid c (updProc pid (\<lambda>p. p\<lparr>prState := ProcManProcessStateActive\<rparr>) st1)"
  unfolding running_def ready_def by (auto intro!: tableOk_state dest: tableOk_length)

lemma tickLoad_wp:
  "(\<And>start st'. tbl st' = tbl st \<Longrightarrow> \<forall>pd. start = TickRun pd \<longrightarrow> pdWf pd \<Longrightarrow> Q (start, st')) \<Longrightarrow>
   post Q (tickLoad sys pid st)"
  unfolding tickLoad_def by (auto intro!: LoadProcData_wf split: option.splits)

lemma startPost_stay: "ready pid c st \<Longrightarrow> tbl st' = tbl st \<Longrightarrow> (\<And>pd. start \<noteq> TickRun pd) \<Longrightarrow> startPost pid c st (start, st')"
  by (simp add: startPost_def ready_def)

lemma startPost_run:
  "running pid c st' \<Longrightarrow> snd (tbl st') = snd (tbl st) \<Longrightarrow> pdWf pd \<Longrightarrow> startPost pid c st (TickRun pd, st')"
  by (simp add: startPost_def running_def)

lemma tickResume_start:
  assumes "ready pid c st"
    and transfer: "\<And>pd st1. post (\<lambda>(a, pd', st'). tbl st' = tbl st1 \<and> (pdWf pd \<longrightarrow> pdWf pd')) (transfer (seFs sys) pid pd st1)"
  shows "post (startPost pid c st) (tickResume sys pid transfer b st)"
proof -
  have t: "post (\<lambda>x. post (startPost pid c st) (case x of (ok, pd, st) \<Rightarrow> Some (if ok then TickRun pd else TickKill, st)))
      (transfer (seFs sys) pid pd (updProc pid (\<lambda>p. p\<lparr>prState := ProcManProcessStateActive\<rparr>) st1))"
    if "tbl st1 = tbl st" "pdWf pd" for st1 pd
    using ready_active [OF assms(1) that(1)] that
    by (intro post_weaken [OF transfer]) (auto simp: startPost_def running_def)
  show ?thesis
    unfolding tickResume_def
    using assms(1)
    by (auto intro!: tickLoad_wp t intro: startPost_stay split: TickStart.split)
qed

lemma tickTimeout_start:
  assumes "ready pid c st"
  shows "post (startPost pid c st) (tickTimeout sys pid t st)"
  unfolding tickTimeout_def
  using assms ready_active [OF assms]
  by (auto intro!: tickLoad_wp startPost_run intro: startPost_stay split: TickStart.split prod.split)

lemma tickStart_start:
  assumes "ready pid c st"
  shows "post (startPost pid c st) (tickStart sys pid st)"
proof (cases "prState (procs st ! unat pid)")
  case ProcManProcessStateActive
  then show ?thesis
    using assms by (auto simp: tickStart_def tbl_access ready_def running_def startPost_def intro!: tickLoad_wp)
next
  case ProcManProcessStateUnused
  then show ?thesis using assms by (simp add: ready_def)
next
  case ProcManProcessStateExiting
  then show ?thesis using assms by (simp add: tickStart_def tbl_access startPost_stay)
qed (use assms in \<open>auto simp: tickStart_def tbl_access intro!: wp tickResume_start tickTimeout_start\<close>)

lemma unused_iff_progmem:
  "tableOk A c ps \<Longrightarrow> unat pid < ProcManPidMax \<Longrightarrow>
   prProgmemFd (ps ! unat pid) = KernelFsFdInvalid \<longleftrightarrow> prState (ps ! unat pid) = ProcManProcessStateUnused"
  using tableOk_slot [of A c ps pid] by (simp add: slotOk_def)

lemma tableOk_not_exiting:
  "tableOk {unat pid} c ps \<Longrightarrow> unat pid < ProcManPidMax \<Longrightarrow>
   prProgmemFd (ps ! unat pid) = KernelFsFdInvalid \<Longrightarrow> tableOk {} c ps"
  unfolding tableOk_def
proof (elim conjE, intro conjI allI impI)
  fix i
  assume ok: "\<forall>i<ProcManPidMax. slotOk (ps ! i) \<and> unat (prInstructionCounter (ps ! i)) \<le> c i \<and>
      (prState (ps ! i) = ProcManProcessStateExiting \<longrightarrow> i \<in> {unat pid})"
    and "prProgmemFd (ps ! unat pid) = KernelFsFdInvalid" "i < ProcManPidMax"
  then show "slotOk (ps ! i)" "unat (prInstructionCounter (ps ! i)) \<le> c i" by simp_all
  assume "prState (ps ! i) = ProcManProcessStateExiting"
  with ok \<open>i < ProcManPidMax\<close> have "i = unat pid" "slotOk (ps ! i)" by simp_all
  then show "i \<in> {}"
    using \<open>prState (ps ! i) = _\<close> \<open>prProgmemFd _ = _\<close> by (simp add: slotOk_def)
qed

text \<open>Killing the process whose turn it is leaves no process exiting.\<close>

lemma Kill_end:
  assumes "tableOk {unat pid} c (procs st)" "unat pid < ProcManPidMax"
  shows "post (\<lambda>(pd', st'). snd (tbl st') = snd (tbl st) \<and> tableOk {} c (procs st'))
    (procManProcessKill env pid es g st)"
proof (cases "procManGetProcessByPid st pid = None")
  case True
  then have "tableOk {} c (procs st)"
    using tableOk_not_exiting [OF assms] assms(2) by (auto simp: getProcess_tbl split: if_splits)
  then show ?thesis using True assms(2) by (simp add: procManProcessKill_def)
next
  case False
  then show ?thesis
    using Kill_run [OF assms(1), where pid = pid and g = g and env = env and es = es] by (auto elim!: post_weaken)
qed

definition tickPost :: "(nat \<Rightarrow> nat) \<Rightarrow> 'w ProcMan \<Rightarrow> 'w ProcMan \<Rightarrow> bool" where
  "tickPost c st st' \<longleftrightarrow> snd (tbl st') = snd (tbl st) \<and> tableOk {} c (procs st')"

lemma tickPost_I: "snd (tbl st') = snd (tbl st) \<Longrightarrow> tableOk {} c (procs st') \<Longrightarrow> tickPost c st st'"
  by (simp add: tickPost_def)

lemma Kill_tick:
  assumes "tableOk {unat pid} c (procs st1)" "unat pid < ProcManPidMax" "snd (tbl st1) = snd (tbl st)"
  shows "post (\<lambda>x. tickPost c st (snd x)) (procManProcessKill env pid es g st1)"
  using Kill_end [OF assms(1,2), where g = g and env = env and es = es] assms(3)
  by (auto simp: tickPost_def elim!: post_weaken)

lemma turn_tick:
  assumes "running pid c st1" "snd (tbl st1) = snd (tbl st)"
  shows "post (tickPost (bump (unat pid) n c) st) (do {
      (ok, exitStatus, pd, st) \<leftarrow> runInstructions sys pid n es pd pf st1;
      (ok, st) \<leftarrow> (if ok then procManProcessStoreProcData (seFs sys) pid pd st else Some (False, st));
      if ok then Some st
      else map_option snd (procManProcessKill (seFs sys) pid exitStatus (Some pd) st)
    })"
proof -
  have pid: "unat pid < ProcManPidMax" using assms(1) by (simp add: running_def)
  have t: "tableOk {unat pid} (bump (unat pid) n c) ps" if "tableOk {} (bump (unat pid) n c) ps" for ps
    using that by (rule tableOk_mono) simp
  show ?thesis
    unfolding post_simps
    by (rule post_weaken [OF runInstructions_run [OF assms(1)]],
      use assms(2) pid in \<open>auto simp: runPostX_def intro!: wp tickPost_I\<close>)
      (rule Kill_tick, (assumption | simp add: t)+)+
qed

lemma ProcessTick_post:
  assumes "tableOk {} c (procs st)" "unat pid < ProcManPidMax"
  shows "post (tickPost (bump (unat pid) procManProcessInstructionsPerTick c) st) (procManProcessTick sys pid st)"
proof (cases "procManGetProcessByPid st pid = None")
  case True
  then show ?thesis using assms tableOk_bump [OF assms(1)] by (simp add: procManProcessTick_def tickPost_def)
next
  case False
  then have r: "ready pid c st"
    using assms unused_iff_progmem [OF assms(1,2)] by (auto simp: ready_def getProcess_tbl split: if_splits)
  let ?c = "bump (unat pid) procManProcessInstructionsPerTick c"
  have stay: "tickPost ?c st st'" if "startPost pid c st (start, st')" for start st'
    using that tableOk_bump by (auto simp: startPost_def tickPost_def)
  have kill: "post (\<lambda>x. tickPost ?c st (snd x)) (procManProcessKill env pid es g st')"
    if "startPost pid c st (start, st')" for env es g start st'
    using that assms(2) tableOk_mono [of "{}", OF tableOk_bump]
    by (intro Kill_tick) (auto simp: startPost_def)
  have turn: "running pid c st' \<and> snd (tbl st') = snd (tbl st)" if "startPost pid c st (TickRun pd, st')" for pd st'
    using that by (simp add: startPost_def)
  have each: "post (tickPost ?c st) (case start of
        TickStay \<Rightarrow> Some st'
      | TickKill \<Rightarrow> map_option snd (procManProcessKill (seFs sys) pid ProcManExitStatusKilled None st')
      | TickRun pd \<Rightarrow> do {
          (ok, exitStatus, pd, st) \<leftarrow> runInstructions sys pid procManProcessInstructionsPerTick
            ProcManExitStatusKilled pd (procManPrefetchDataClear emptyPrefetch) st';
          (ok, st) \<leftarrow> (if ok then procManProcessStoreProcData (seFs sys) pid pd st else Some (False, st));
          if ok then Some st
          else map_option snd (procManProcessKill (seFs sys) pid exitStatus (Some pd) st)
        })" if "startPost pid c st (start, st')" for start st'
  proof (cases start)
    case (TickRun pd)
    then show ?thesis using turn [of pd st'] that turn_tick [of pid c st' st _ sys] by simp
  qed (use that stay kill in auto)
  have "procManProcessTick sys pid st = tickStart sys pid st \<bind> (\<lambda>(start, st'). case start of
        TickStay \<Rightarrow> Some st'
      | TickKill \<Rightarrow> map_option snd (procManProcessKill (seFs sys) pid ProcManExitStatusKilled None st')
      | TickRun pd \<Rightarrow> do {
          (ok, exitStatus, pd, st) \<leftarrow> runInstructions sys pid procManProcessInstructionsPerTick
            ProcManExitStatusKilled pd (procManPrefetchDataClear emptyPrefetch) st';
          (ok, st) \<leftarrow> (if ok then procManProcessStoreProcData (seFs sys) pid pd st else Some (False, st));
          if ok then Some st
          else map_option snd (procManProcessKill (seFs sys) pid exitStatus (Some pd) st)
        })"
    using assms(2) by (simp add: procManProcessTick_def if_not_P [OF False])
  also have "post (tickPost ?c st) \<dots>"
    unfolding post_simps(3)
    by (rule post_weaken [OF tickStart_start [OF r]]) (auto simp del: post_simps split: prod.split intro: each)
  finally show ?thesis .
qed

section \<open>A tick of all processes\<close>

lemma tickEach_post:
  assumes "\<forall>pid \<in> set pids. unat pid < ProcManPidMax" "tableOk {} c (procs st)"
  shows "post (tickPost (fold (\<lambda>pid. bump (unat pid) procManProcessInstructionsPerTick) pids c) st) (tickEach sys pids st)"
  using assms(1,2)
proof (induction pids arbitrary: c st)
  case Nil
  then show ?case by (simp add: tickPost_def)
next
  case (Cons pid pids)
  let ?c = "bump (unat pid) procManProcessInstructionsPerTick c"
  have "post (tickPost (fold (\<lambda>pid. bump (unat pid) procManProcessInstructionsPerTick) pids ?c) st) (tickEach sys pids st1)"
    if "tickPost ?c st st1" for st1
    using Cons.IH [of ?c st1] Cons.prems(1) that by (auto simp: tickPost_def elim!: post_weaken)
  then show ?case
    using post_weaken [OF ProcessTick_post [OF Cons.prems(2), of pid]] Cons.prems(1) by simp
qed

lemma fold_bump_other: "unat ` set pids \<inter> {i} = {} \<Longrightarrow> fold (\<lambda>pid. bump (unat pid) n) pids c i = c i"
  by (induction pids arbitrary: c) (auto simp: bump_def)

lemma fold_bump: "distinct (map unat pids) \<Longrightarrow> fold (\<lambda>pid. bump (unat pid) n) pids c i \<le> c i + n"
proof (induction pids arbitrary: c)
  case (Cons pid pids)
  show ?case
  proof (cases "unat pid = i")
    case True
    then have "unat ` set pids \<inter> {i} = {}" using Cons.prems by auto
    then show ?thesis using True by (simp add: fold_bump_other) (simp add: bump_def)
  next
    case False
    then show ?thesis
      using Cons.IH [of "bump (unat pid) n c"] Cons.prems by (simp add: bump_def)
  qed
qed simp

lemma tableOk_weaken: "tableOk A c ps \<Longrightarrow> (\<And>i. c i \<le> c' i) \<Longrightarrow> tableOk A c' ps"
  by (auto simp: tableOk_def intro: order_trans)

text \<open>The invariant between ticks.\<close>

definition procManOk :: "'w ProcMan \<Rightarrow> bool" where
  "procManOk st \<longleftrightarrow> pmTicks st < procManTicksPerInstructionCounterReset \<and>
     tableOk {} (\<lambda>_. procManProcessInstructionsPerTick * unat (pmTicks st)) (pmProcesses st)"

lemma tableOk_reset:
  "tableOk A c ps \<Longrightarrow> tableOk A (\<lambda>_. 0) (map (\<lambda>p. p\<lparr>prInstructionCounter := 0\<rparr>) ps)"
  by (auto simp: tableOk_def slotOk_def)

lemma TickAll_ok:
  assumes "procManOk st"
  shows "post procManOk (procManTickAll sys st)"
proof -
  let ?I = procManProcessInstructionsPerTick
  let ?c = "\<lambda>_ :: nat. ?I * unat (pmTicks st)"
  have t: "pmTicks st < 409"
    using assms(1) by (simp add: procManOk_def procManTicksPerInstructionCounterReset_def
        procManProcessInstructionCounterMax_def procManProcessInstructionsPerTick_def)
  then have next_tick: "unat (pmTicks st + 1) = unat (pmTicks st) + 1"
    by (simp add: word_less_nat_alt unat_word_ariths)
  have fold: "tableOk {} (\<lambda>_. ?I * (unat (pmTicks st) + 1)) ps"
    if "tableOk {} (fold (\<lambda>pid. bump (unat pid) ?I) allPids ?c) ps" for ps
    using that
  proof (rule tableOk_weaken)
    have "distinct (map unat allPids)"
      by (simp add: distinct_map allPids_distinct inj_on_def flip: word_unat_eq_iff)
    from fold_bump [OF this, of ?I ?c]
    show "fold (\<lambda>pid. bump (unat pid) ?I) allPids ?c i \<le> ?I * (unat (pmTicks st) + 1)" for i
      by (simp add: algebra_simps)
  qed
  have "post procManOk (Some (if pmTicks st' + 1 \<ge> procManTicksPerInstructionCounterReset
      then procManResetInstructionCounters (st'\<lparr>pmTicks := pmTicks st' + 1, pmTicks := 0\<rparr>) else st'\<lparr>pmTicks := pmTicks st' + 1\<rparr>))"
    if "tickPost (fold (\<lambda>pid. bump (unat pid) ?I) allPids ?c) st st'" for st'
  proof -
    from that have "pmTicks st' = pmTicks st" "tableOk {} (\<lambda>_. ?I * (unat (pmTicks st) + 1)) (pmProcesses st')"
      using fold by (simp_all add: tickPost_def tbl_def)
    then show ?thesis
      using next_tick
      by (auto simp: procManOk_def procManResetInstructionCounters_def not_le
          procManTicksPerInstructionCounterReset_def procManProcessInstructionCounterMax_def
          procManProcessInstructionsPerTick_def intro: tableOk_reset [THEN tableOk_weaken])
  qed
  moreover have "tableOk {} ?c (procs st)" using assms(1) by (simp add: procManOk_def tbl_def)
  ultimately show ?thesis
    unfolding procManTickAll_def post_simps(3)
    by (intro post_weaken [OF tickEach_post]) (auto simp: allPids_set Let_def split del: if_split)
qed

section \<open>Reachable states\<close>

text \<open>What the kernel does with the process manager after \<open>procManInit\<close>: it starts processes,
  ticks, shuts down, and everything else runs without touching the table.\<close>

inductive procManStep :: "'w SysEnv \<Rightarrow> 'w ProcMan \<Rightarrow> 'w ProcMan \<Rightarrow> bool" for sys where
  TickAll: "procManTickAll sys st = Some st' \<Longrightarrow> procManStep sys st st'"
| New: "procManProcessNew (seFs sys) path st = Some (pid, st') \<Longrightarrow> procManStep sys st st'"
| Signal: "procManProcessSendSignal (seFs sys) pid signalId st = Some st' \<Longrightarrow> procManStep sys st st'"
| KillAll: "procManKillAll (seFs sys) st = Some st' \<Longrightarrow> procManStep sys st st'"
| ShutdownBegin: "kernelShutdownBegin sys st = Some st' \<Longrightarrow> procManStep sys st st'"
| ShutdownNext: "kernelShutdownNext sys st = Some st' \<Longrightarrow> procManStep sys st st'"
| Rest: "pmProcesses st' = pmProcesses st \<Longrightarrow> pmTicks st' = pmTicks st \<Longrightarrow> procManStep sys st st'"

inductive procManReachable :: "'w SysEnv \<Rightarrow> 'w ProcMan \<Rightarrow> bool" for sys where
  Init: "length (pmProcesses st) = ProcManPidMax \<Longrightarrow> procManReachable sys (procManInit st)"
| Step: "procManReachable sys st \<Longrightarrow> procManStep sys st st' \<Longrightarrow> procManReachable sys st'"

lemma killEach_ok:
  "tableOk {} c (procs st) \<Longrightarrow> post (tickPost c st) (killEach env pids st)"
proof (induction pids arbitrary: st)
  case Nil
  then show ?case by (simp add: tickPost_def)
next
  case (Cons pid pids)
  have IH: "post (tickPost c st) (killEach env pids st1)" if "tickPost c st st1" for st1
    using Cons.IH [of st1] that by (auto simp: tickPost_def elim!: post_weaken)
  have "post (\<lambda>(pd', st'). tickPost c st st') (procManProcessKill env pid es None st)" for es
    using Kill_run [OF Cons.prems, of pid None env es] by (auto simp: tickPost_def elim!: post_weaken)
  then have "post (\<lambda>x. post (tickPost c st) (case x of (_, st') \<Rightarrow> killEach env pids st'))
      (procManProcessKill env pid ProcManExitStatusKilled None st)"
    by (rule post_weaken) (auto intro: IH)
  moreover have "tickPost c st st" using Cons.prems by (simp add: tickPost_def)
  ultimately show ?case by (simp add: IH)
qed

lemma procManOk_tbl:
  "procManOk st \<longleftrightarrow> snd (tbl st) < procManTicksPerInstructionCounterReset \<and>
     tableOk {} (\<lambda>_. procManProcessInstructionsPerTick * unat (snd (tbl st))) (procs st)"
  by (simp add: procManOk_def tbl_def)

lemma tickPost_ok:
  "tickPost (\<lambda>_. procManProcessInstructionsPerTick * unat (snd (tbl st))) st st' \<Longrightarrow> procManOk st \<Longrightarrow> procManOk st'"
  by (simp add: procManOk_tbl tickPost_def)

lemma procManInit_ok: "length (pmProcesses st) = ProcManPidMax \<Longrightarrow> procManOk (procManInit st)"
  by (simp add: procManOk_def procManInit_def tableOk_def procManTicksPerInstructionCounterReset_def
      procManProcessInstructionCounterMax_def procManProcessInstructionsPerTick_def)

lemma procManStep_ok:
  assumes "procManStep sys st st'" "procManOk st"
  shows "procManOk st'"
proof -
  let ?c = "\<lambda>_ :: nat. procManProcessInstructionsPerTick * unat (snd (tbl st))"
  have t: "tableOk {} ?c (procs st)" using assms(2) by (simp add: procManOk_tbl)
  have ok: "procManOk st'" if "post (tickPost ?c st) r" "r = Some st'" for r
    using post_D [OF that] assms(2) by (rule tickPost_ok)
  show ?thesis
    using assms(1)
  proof cases
    case TickAll
    then show ?thesis using post_D [OF TickAll_ok [OF assms(2)]] by simp
  next
    case (New path pid)
    then show ?thesis
      using post_D [OF ProcessNew_effect [OF tableOk_length [OF t]] New] t assms(2)
      by (auto simp: procManOk_tbl intro: tableOk_new)
  next
    case (Signal pid signalId)
    then show ?thesis
      by (intro ok [OF _ Signal] SendSignal_wp [OF t] tickPost_I)
  next
    case KillAll
    then show ?thesis
      by (intro ok [OF killEach_ok [OF t] KillAll [unfolded procManKillAll_def]])
  next
    case ShutdownBegin
    have "post (tickPost ?c st) (kernelShutdownBegin sys st)"
      unfolding kernelShutdownBegin_def
      by (auto intro!: signalEach_wp [where A = "{}" and c = ?c] tickPost_I simp: t)
    then show ?thesis by (rule ok [OF _ ShutdownBegin])
  next
    case ShutdownNext
    have "post (tickPost ?c st) (procManProcessSendSignal (seFs sys) 0 sig (kernelSetState sys ks st1))"
      if "tickPost ?c st st1" for st1 sig ks
      using that by (intro SendSignal_wp [where A = "{}" and c = ?c]) (simp_all add: tickPost_def)
    then have "post (tickPost ?c st) (kernelShutdownNext sys st)"
      unfolding kernelShutdownNext_def
      using killEach_ok [OF t, where env = "seFs sys" and pids = "tl allPids"]
      by (auto elim!: post_weaken)
    then show ?thesis by (rule ok [OF _ ShutdownNext])
  next
    case Rest
    then show ?thesis using assms(2) by (simp add: procManOk_def)
  qed
qed

lemma reachable_ok: "procManReachable sys st \<Longrightarrow> procManOk st"
  by (induction rule: procManReachable.induct) (auto intro: procManInit_ok procManStep_ok)

end
