(* ===== verification/ProcManProps.thy ===== *)
theory ProcManProps
  imports ProcManReach
begin

text \<open>
  The properties of the process manager, each with an application to a small system whose only
  file is a character device.
\<close>

section \<open>A small system\<close>

text \<open>Two character devices that take what is written: \<open>/d\<close> always reads as the byte \<open>b\<close> and
  serves as the program, \<open>/e\<close> reads as zero and serves as the data.\<close>

definition exK :: "u8 \<Rightarrow> unit KEnv" where
  "exK b = \<lparr>fnFlush = \<lambda>f u st. Some (True, st), fnCharacterRead = \<lambda>f u st. Some (if u = 0 then uint b else 0, st),
     fnCharacterCanRead = \<lambda>f u st. Some True, fnCharacterWrite = \<lambda>f u data st. Some (of_nat (length data), st),
     fnCharacterCanWrite = \<lambda>f u st. Some True, fnBlockRead = \<lambda>f u st addr len. Some ([], st),
     fnBlockWrite = \<lambda>f u addr data st. Some (0, st),
     envIndet = \<lambda>_. 0\<rparr>"

definition exHw :: "unit Hardware" where
  "exHw = \<lparr>hwSpiTransfer = \<lambda>_ w. (0, w), hwPinRead = \<lambda>pin p w. pinRead pin p, hwRawMs = \<lambda>w. (0, w),
     hwDelayUs = \<lambda>_ w. w, hwRand = \<lambda>w. (0, w), hwStdin = \<lambda>_. [],
     hwStdinTake = \<lambda>_ w. w\<rparr>"

definition exSys :: "u8 \<Rightarrow> unit SysEnv" where
  "exSys b = \<lparr>seFs = exK b, seHw = exHw\<rparr>"

definition exGlobals :: "unit Globals" where
  "exGlobals = \<lparr>gTty = ttyInit, gPins = pinsInitial, gTime = \<lparr>ktimeBootTime = 0, ktimeRealTimeOffset = 0\<rparr>,
     gSpiLockFd = KernelFsFdInvalid, gSpiSlaveSelectPin = 0, gHwDevices = [], gRamData = [], gEeprom = [], gHostFiles = [],
     gHost = ()\<rparr>"

definition exDevice :: "u8 list \<Rightarrow> nat \<Rightarrow> KernelFsDevice" where
  "exDevice path u = unusedDevice\<lparr>devMountPoint := KStrTypeStatic 0 path, devFunctor := Some 7, devUserData := u,
     devType := KernelFsDeviceTypeCharacter, devCanOpenMany := True, devWritable := True\<rparr>"

definition exOpenFile :: "u8 list \<Rightarrow> u8 \<Rightarrow> KernelFsFdtEntry" where
  "exOpenFile path i = \<lparr>fdtPath = KStrTypeHeap 7 path, fdtDeviceIndex = i\<rparr>"

definition exDisk :: "unit KFs" where
  "exDisk = (kernelFsInit \<lparr>kwMounts = [], kwGlobals = exGlobals\<rparr>)\<lparr>
     kfsDevices := [exDevice [47, 100] 0, exDevice [47, 101] 1] @ replicate 126 unusedDevice,
     kfsFdt := [closedEntry, exOpenFile [47, 100] 0, exOpenFile [47, 101] 1, exOpenFile [47, 100] 0,
       exOpenFile [47, 101] 1, exOpenFile [47, 100] 0, exOpenFile [47, 101] 1] @ replicate 57 closedEntry\<rparr>"

definition exProc :: "KernelFsFd \<Rightarrow> ProcManProcessState \<Rightarrow> ProcManProcess" where
  "exProc fd s = \<lparr>prInstructionCounter = 0, prProgmemFd = fd, prProcFd = fd + 1, prState = s\<rparr>"

definition exProcMan :: "ProcManProcess list \<Rightarrow> unit ProcMan" where
  "exProcMan ps = \<lparr>kFs = exDisk, pmProcesses = ps @ replicate (ProcManPidMax - length ps) unused, pmTicks = 0,
     pmKernelState = KernelStateRunning, pmKernelStateTime = 0,
     pmLogLevel = 0\<rparr>"

definition exWaiting :: "unit ProcMan" where
  "exWaiting = exProcMan [exProc 1 ProcManProcessStateActive,
     exProc 3 (ProcManProcessStateWaitingWaitpid 2 0), exProc 5 ProcManProcessStateActive]"

section \<open>The process table\<close>

text \<open>C1: Whatever the kernel does after \<open>procManInit\<close>, between ticks a slot of the process table is
  in use exactly when its program file is open and exactly when its data file is, and no process
  is still exiting: an exit, a failed instruction or a kill frees the slot within the same
  tick. No process has run more than 160 instructions for each tick since the last
  reset.\<close>

theorem process_table_invariant:
  assumes "procManReachable sys st" "i < ProcManPidMax"
  shows "(prState (pmProcesses st ! i) = ProcManProcessStateUnused \<longleftrightarrow>
      prProgmemFd (pmProcesses st ! i) = KernelFsFdInvalid) \<and>
    (prState (pmProcesses st ! i) = ProcManProcessStateUnused \<longleftrightarrow>
      prProcFd (pmProcesses st ! i) = KernelFsFdInvalid) \<and>
    prState (pmProcesses st ! i) \<noteq> ProcManProcessStateExiting \<and>
    unat (prInstructionCounter (pmProcesses st ! i)) \<le> procManProcessInstructionsPerTick * unat (pmTicks st)"
  using reachable_ok [OF assms(1)] assms(2) unfolding procManOk_def tableOk_def slotOk_def by blast

theorem process_table_invariant_witness:
  "\<exists>st'. procManTickAll (exSys 0) (procManInit (exProcMan [])) = Some st' \<and>
     prState (pmProcesses st' ! 3) \<noteq> ProcManProcessStateExiting"
proof -
  have "procManTickAll (exSys 0) (procManInit (exProcMan [])) \<noteq> None" by code_simp
  then obtain st' where st': "procManTickAll (exSys 0) (procManInit (exProcMan [])) = Some st'" by auto
  have "procManReachable (exSys 0) (procManInit (exProcMan []))"
    by (rule Init) (simp add: exProcMan_def)
  then have "procManReachable (exSys 0) st'"
    by (rule Step) (rule TickAll [OF st'])
  from process_table_invariant [OF this, of 3] st' show ?thesis
    by (simp add: ProcManPidMax_def)
qed

subsection \<open>The assertion on the instruction counters\<close>

text \<open>The scheduler without that assertion: the same turn, tick and round, only that the counter is raised
  unchecked.\<close>

primrec runUnchecked ::
    "'w SysEnv \<Rightarrow> ProcManPid \<Rightarrow> nat \<Rightarrow> ProcManExitStatus \<Rightarrow> ProcManProcessProcData \<Rightarrow>
     ProcManPrefetchData \<Rightarrow> 'w ProcMan \<Rightarrow>
     (bool \<times> ProcManExitStatus \<times> ProcManProcessProcData \<times> 'w ProcMan) option" where
  "runUnchecked sys pid 0 exitStatus pd pf st = Some (True, exitStatus, pd, st)"
| "runUnchecked sys pid (Suc n) exitStatus pd pf st = do {
     (instruction, pd, pf, st) \<leftarrow> procManProcessGetInstruction (seFs sys) pid pd pf st;
     case instruction of
       None \<Rightarrow> Some (False, exitStatus, pd, st)
     | Some instruction \<Rightarrow> do {
         (ok, exitStatus, pd, pf, st) \<leftarrow>
           procManProcessExecInstruction sys pid instruction exitStatus pd pf st;
         if \<not> ok then Some (False, exitStatus, pd, st)
         else do {
           let st = updProc pid (\<lambda>p. p\<lparr>prInstructionCounter := prInstructionCounter p + 1\<rparr>) st;
           if prState (procOf st pid) \<noteq> ProcManProcessStateActive then Some (True, exitStatus, pd, st)
           else runUnchecked sys pid n exitStatus pd pf st
         }
       }
   }"

definition tickUnchecked :: "'w SysEnv \<Rightarrow> ProcManPid \<Rightarrow> 'w ProcMan \<Rightarrow> 'w ProcMan option" where
  "tickUnchecked sys pid st =
     (if unat pid \<ge> ProcManPidMax then None
      else if procManGetProcessByPid st pid = None then Some st
      else do {
        (start, st) \<leftarrow> tickStart sys pid st;
        case start of
          TickStay \<Rightarrow> Some st
        | TickKill \<Rightarrow>
            map_option snd (procManProcessKill (seFs sys) pid ProcManExitStatusKilled None st)
        | TickRun pd \<Rightarrow> do {
            (ok, exitStatus, pd, st) \<leftarrow> runUnchecked sys pid procManProcessInstructionsPerTick
              ProcManExitStatusKilled pd (procManPrefetchDataClear emptyPrefetch) st;
            (ok, st) \<leftarrow> (if ok then procManProcessStoreProcData (seFs sys) pid pd st else Some (False, st));
            if ok then Some st
            else map_option snd (procManProcessKill (seFs sys) pid exitStatus (Some pd) st)
          }
      })"

primrec tickEachUnchecked :: "'w SysEnv \<Rightarrow> ProcManPid list \<Rightarrow> 'w ProcMan \<Rightarrow> 'w ProcMan option" where
  "tickEachUnchecked sys [] st = Some st"
| "tickEachUnchecked sys (pid # rest) st = do {
     st \<leftarrow> tickUnchecked sys pid st;
     tickEachUnchecked sys rest st
   }"

definition tickAllUnchecked :: "'w SysEnv \<Rightarrow> 'w ProcMan \<Rightarrow> 'w ProcMan option" where
  "tickAllUnchecked sys st = do {
     st \<leftarrow> tickEachUnchecked sys allPids st;
     let st = st\<lparr>pmTicks := pmTicks st + 1\<rparr>;
     Some (if pmTicks st \<ge> procManTicksPerInstructionCounterReset
           then procManResetInstructionCounters (st\<lparr>pmTicks := 0\<rparr>) else st)
   }"

lemma bind_post_cong: "post P r \<Longrightarrow> (\<And>x. P x \<Longrightarrow> f x = g x) \<Longrightarrow> (r \<bind> f) = (r \<bind> g)"
  by (cases r) (simp_all add: post_def)

lemma run_unchecked:
  "running pid c st \<Longrightarrow> c (unat pid) + n \<le> 65500 \<Longrightarrow>
   runInstructions sys pid n es pd pf st = runUnchecked sys pid n es pd pf st"
proof (induction n arbitrary: c es pd pf st)
  case (Suc n)
  have pid: "unat pid < ProcManPidMax" using Suc.prems by (simp add: running_def)
  have keep: "post (\<lambda>(i, pd', pf', st'). tbl st' = tbl st) (procManProcessGetInstruction (seFs sys) pid pd pf st)"
    by (rule GetInstruction_wp) simp
  have after: "(if \<not> ok then Some (False, es', pd', st')
         else if prInstructionCounter (procOf st' pid) \<ge> procManProcessInstructionCounterMax then None
         else do {
           let st = updProc pid (\<lambda>p. p\<lparr>prInstructionCounter := prInstructionCounter p + 1\<rparr>) st';
           if prState (procOf st pid) \<noteq> ProcManProcessStateActive then Some (True, es', pd', st)
           else runInstructions sys pid n es' pd' pf' st
         }) =
        (if \<not> ok then Some (False, es', pd', st')
         else do {
           let st = updProc pid (\<lambda>p. p\<lparr>prInstructionCounter := prInstructionCounter p + 1\<rparr>) st';
           if prState (procOf st pid) \<noteq> ProcManProcessStateActive then Some (True, es', pd', st)
           else runUnchecked sys pid n es' pd' pf' st
         })" if r: "runPostX pid c pd1 st1 (ok, es', pd', st')" for ok es' pd' pf' st' pd1 st1
  proof (cases ok)
    case True
    have t: "tableOk {} c (procs st')" using r True by (simp add: runPostX_def)
    have "unat (prInstructionCounter (procs st' ! unat pid)) \<le> c (unat pid)" using tableOk_slot [OF t pid] by simp
    then have below: "prInstructionCounter (procs st' ! unat pid) < procManProcessInstructionCounterMax"
      using Suc.prems(2) by (simp add: procManProcessInstructionCounterMax_def word_less_nat_alt)
    let ?st = "updProc pid (\<lambda>p. p\<lparr>prInstructionCounter := prInstructionCounter p + 1\<rparr>) st'"
    have "tableOk {} (bump (unat pid) 1 c) (procs ?st)"
      using tableOk_count [OF t pid below] by (simp add: tbl_access)
    then have "(if prState (procOf ?st pid) \<noteq> ProcManProcessStateActive then Some (True, es', pd', ?st)
        else runInstructions sys pid n es' pd' pf' ?st) =
      (if prState (procOf ?st pid) \<noteq> ProcManProcessStateActive then Some (True, es', pd', ?st)
        else runUnchecked sys pid n es' pd' pf' ?st)"
      using Suc.prems(2) pid
      by (intro if_cong refl Suc.IH [where c = "bump (unat pid) 1 c"]) (simp add: running_def tbl_access, simp add: bump_def)
    moreover have "\<not> prInstructionCounter (procOf st' pid) \<ge> procManProcessInstructionCounterMax"
      using below by (simp add: tbl_access not_le)
    ultimately show ?thesis using True by (simp only: Let_def not_True_eq_False if_False)
  qed simp
  show ?case
    unfolding runInstructions.simps runUnchecked.simps
  proof (rule bind_post_cong [OF keep], goal_cases)
    case (1 x)
    obtain i pd1 pf1 st1 where x: "x = (i, pd1, pf1, st1)" by (cases x)
    then have "running pid c st1" using 1 Suc.prems(1) by (simp add: running_def)
    note step = ExecInstruction_run [OF this]
    show ?case
    proof (cases i)
      case (Some instr)
      have swap: "(procManProcessExecInstruction sys pid instr es pd1 pf1 st1 \<bind> f) =
          (procManProcessExecInstruction sys pid instr es pd1 pf1 st1 \<bind> g)"
        if "\<And>ok es' pd' pf' st'. runPostX pid c pd1 st1 (ok, es', pd', st') \<Longrightarrow>
          f (ok, es', pd', pf', st') = g (ok, es', pd', pf', st')" for f g ::
          "_ \<Rightarrow> (bool \<times> ProcManExitStatus \<times> ProcManProcessProcData \<times> 'a ProcMan) option"
        by (rule bind_post_cong [OF step]) (use that in \<open>auto simp: runPostI_def split: prod.splits\<close>)
      show ?thesis unfolding x Some prod.case option.case by (rule swap) (unfold prod.case, rule after)
    qed (simp add: x)
  qed
qed simp

lemma tick_unchecked:
  assumes "tableOk {} c (procs st)" "unat pid < ProcManPidMax" "c (unat pid) + procManProcessInstructionsPerTick \<le> 65500"
  shows "procManProcessTick sys pid st = tickUnchecked sys pid st"
proof (cases "procManGetProcessByPid st pid = None")
  case True
  then show ?thesis by (simp add: procManProcessTick_def tickUnchecked_def)
next
  case False
  then have r: "ready pid c st"
    using assms unused_iff_progmem [OF assms(1,2)] by (auto simp: ready_def getProcess_tbl split: if_splits)
  have run: "runInstructions sys pid procManProcessInstructionsPerTick es pd pf st' =
      runUnchecked sys pid procManProcessInstructionsPerTick es pd pf st'"
    if "startPost pid c st (TickRun pd', st')" for es pd pf pd' st'
    using that by (intro run_unchecked [where c = c] assms(3)) (simp add: startPost_def)
  show ?thesis
    unfolding procManProcessTick_def tickUnchecked_def
    by (intro if_cong refl bind_post_cong [OF tickStart_start [OF r]])
      (auto simp: run split: prod.splits TickStart.splits)
qed

lemma tickEach_unchecked:
  assumes "distinct pids" "\<forall>pid \<in> set pids. unat pid < ProcManPidMax \<and> c (unat pid) + procManProcessInstructionsPerTick \<le> 65500"
    "tableOk {} c (procs st)"
  shows "tickEach sys pids st = tickEachUnchecked sys pids st"
  using assms
proof (induction pids arbitrary: c st)
  case (Cons pid pids)
  have p: "unat pid < ProcManPidMax" "c (unat pid) + procManProcessInstructionsPerTick \<le> 65500" using Cons.prems by simp_all
  let ?c = "bump (unat pid) procManProcessInstructionsPerTick c"
  have other: "?c (unat q) = c (unat q)" if "q \<in> set pids" for q
    using that Cons.prems(1) by (auto simp: bump_def dest: word_unat_eq_iff [THEN iffD2])
  have "tickEach sys pids st1 = tickEachUnchecked sys pids st1" if "tickPost ?c st st1" for st1
    using that Cons.prems by (intro Cons.IH [where c = ?c]) (auto simp: tickPost_def other)
  then show ?case
    using bind_post_cong [OF ProcessTick_post [OF Cons.prems(3) p(1), of sys], of "tickEach sys pids" "tickEachUnchecked sys pids"]
    by (simp add: tick_unchecked [OF Cons.prems(3) p, symmetric])
qed simp

text \<open>C10: The assertion that the instruction counter of a process is below 65500 when it is raised never fails: from
  every state with the invariant that \<open>process_table_invariant\<close> states of all reachable ones, a tick of all
  processes, whatever they wait for or run, gives the same result, defined or not, as the scheduler without
  the assertion. The counters are reset every 409 ticks of at most 160 instructions.\<close>

theorem instruction_counter_assertion_holds:
  assumes "procManOk st"
  shows "procManTickAll sys st = tickAllUnchecked sys st"
proof -
  have t: "tableOk {} (\<lambda>_. procManProcessInstructionsPerTick * unat (pmTicks st)) (procs st)"
    and "pmTicks st < procManTicksPerInstructionCounterReset" using assms by (simp_all add: procManOk_def tbl_def)
  then have "procManProcessInstructionsPerTick * unat (pmTicks st) + procManProcessInstructionsPerTick \<le> 65500"
    by (simp add: procManTicksPerInstructionCounterReset_def word_less_nat_alt
        procManProcessInstructionCounterMax_def procManProcessInstructionsPerTick_def)
  then have "tickEach sys allPids st = tickEachUnchecked sys allPids st"
    by (intro tickEach_unchecked [OF allPids_distinct _ t]) (auto simp: allPids_set)
  then show ?thesis by (simp add: procManTickAll_def tickAllUnchecked_def)
qed

text \<open>A process that runs \<open>nop\<close> instructions from the device.\<close>

definition exRunning :: "unit ProcMan" where
  "exRunning = exProcMan [exProc 1 ProcManProcessStateActive]"

definition exData :: ProcManProcessProcData where
  "exData = procDataOfBytes (replicate procDataSize 0)"

lemma exProcMan_ok:
  "length ps \<le> ProcManPidMax \<Longrightarrow> \<forall>p \<in> set ps. slotOk p \<and> prInstructionCounter p = 0 \<and> prState p \<noteq> ProcManProcessStateExiting \<Longrightarrow>
   procManOk (exProcMan ps)"
  by (auto simp: procManOk_def exProcMan_def tableOk_def nth_append procManTicksPerInstructionCounterReset_def
      procManProcessInstructionCounterMax_def procManProcessInstructionsPerTick_def)

lemma exRunning_ok: "procManOk exRunning"
  unfolding exRunning_def
  by (rule exProcMan_ok) (simp_all add: exProc_def slotOk_def ProcManPidMax_def KernelFsFdInvalid_def)

theorem instruction_counter_assertion_holds_witness:
  "procManTickAll (exSys 0xC0) exRunning = tickAllUnchecked (exSys 0xC0) exRunning"
  by (rule instruction_counter_assertion_holds [OF exRunning_ok])

lemma procs_procOf: "procs st ! unat i = procOf st i"
  by (simp add: tbl_access)



text \<open>A descriptor that shares the file of another: the same one, or one that was opened for its path.\<close>

definition sharedFd :: "'w KEnv \<Rightarrow> KernelFsFd \<Rightarrow> KernelFsFd \<Rightarrow> bool" where
  "sharedFd env fd fd' \<longleftrightarrow> fd' \<noteq> KernelFsFdInvalid \<and> (\<exists>fs fs'. kernelFsFileDupeOrOpen env fd fs = Some (fd', fs'))"

lemma onFs_Some: "onFs f st = Some (r, st') \<longleftrightarrow> (\<exists>fs. f (kFs st) = Some (r, fs) \<and> st' = st\<lparr>kFs := fs\<rparr>)"
  by (auto simp: onFs_def)

definition fdOk :: "ProcManProcessProcData \<Rightarrow> ProcManLocalFd \<Rightarrow> bool" where
  "fdOk pd l \<longleftrightarrow> 0 < unat l \<and> unat l \<le> length (pdFds pd)"

lemma getFd_setFd: "fdOk pd l \<Longrightarrow> fdOk pd l' \<Longrightarrow> getFd (setFd l fd pd) l' = (if l' = l then fd else getFd pd l')"
  by (auto simp: getFd_def setFd_def fdOk_def nth_list_update word_unat_eq_iff)

lemma setFd_simps [simp]: "fdOk (setFd l fd pd) = fdOk pd" "length (pdFds (setFd l fd pd)) = length (pdFds pd)"
  "(setFd l fd pd)\<lparr>pdFds := fds\<rparr> = pd\<lparr>pdFds := fds\<rparr>"
  by (simp_all add: fdOk_def setFd_def fun_eq_iff)

lemma dupeFds_shared:
  assumes "dupeFds env lfds pd child st = Some (True, child', st')" "distinct lfds" "\<forall>l \<in> set lfds. fdOk child l"
  shows "pmProcesses st' = pmProcesses st \<and> child' = child\<lparr>pdFds := pdFds child'\<rparr> \<and>
    length (pdFds child') = length (pdFds child) \<and>
    (\<forall>l. fdOk child l \<longrightarrow> (if l \<in> set lfds \<and> getFd pd l \<noteq> KernelFsFdInvalid
       then sharedFd env (getFd pd l) (getFd child' l) else getFd child' l = getFd child l))"
  using assms
proof (induction lfds arbitrary: child st)
  case (Cons l rest)
  show ?case
  proof (cases "getFd pd l = KernelFsFdInvalid")
    case True
    then show ?thesis using Cons by auto
  next
    case False
    then obtain fd fs where d: "kernelFsFileDupeOrOpen env (getFd pd l) (kFs st) = Some (fd, fs)"
      "fd \<noteq> KernelFsFdInvalid" "dupeFds env rest pd (setFd l fd child) (st\<lparr>kFs := fs\<rparr>) = Some (True, child', st')"
      using Cons.prems(1) by (auto simp: onFs_Some split: option.splits if_splits prod.splits)
    have l: "fdOk child l" "l \<notin> set rest" using Cons.prems(2,3) by simp_all
    have IH: "pmProcesses st' = pmProcesses st" "child' = child\<lparr>pdFds := pdFds child'\<rparr>"
      "length (pdFds child') = length (pdFds child)"
      "\<And>l'. fdOk child l' \<Longrightarrow> if l' \<in> set rest \<and> getFd pd l' \<noteq> KernelFsFdInvalid
         then sharedFd env (getFd pd l') (getFd child' l') else getFd child' l' = getFd (setFd l fd child) l'"
      using Cons.IH [OF d(3)] Cons.prems(2,3) by simp_all
    have "getFd child' l = fd" using IH(4) [OF l(1)] l by (simp add: getFd_setFd)
    then have "sharedFd env (getFd pd l) (getFd child' l)" using d by (auto simp: sharedFd_def)
    then have "if l' \<in> set (l # rest) \<and> getFd pd l' \<noteq> KernelFsFdInvalid
       then sharedFd env (getFd pd l') (getFd child' l') else getFd child' l' = getFd child l'" if "fdOk child l'" for l'
      using IH(4) [OF that] False getFd_setFd [OF l(1) that, of fd] by (cases "l' = l") simp_all
    then show ?thesis using IH(1-3) by blast
  qed
qed simp


text \<open>The files of a child: those of the parent are shared, and its descriptors of files
  for its data and its ram are the results of opening them, each after creating it.\<close>

definition createdFile :: "'w KEnv \<Rightarrow> u8 list \<Rightarrow> u32 \<Rightarrow> KernelFsFd \<Rightarrow> bool" where
  "createdFile env path sz fd \<longleftrightarrow> fd \<noteq> KernelFsFdInvalid \<and> (\<exists>fs fs' fs''.
     kernelFsFileCreateWithSize env path sz fs = Some (True, fs') \<and>
     kernelFsFileOpen env path KernelFsFdModeRW fs' = Some (fd, fs''))"

definition sharedFds :: "'w KEnv \<Rightarrow> KernelFsFd list \<Rightarrow> KernelFsFd list \<Rightarrow> bool" where
  "sharedFds env = list_all2 (\<lambda>fd fd'. if fd = KernelFsFdInvalid then fd' = KernelFsFdInvalid else sharedFd env fd fd')"

lemma createdFile_I:
  "kernelFsFileCreateWithSize env path sz fs = Some (True, fs') \<Longrightarrow>
   kernelFsFileOpen env path KernelFsFdModeRW fs' = Some (fd, fs'') \<Longrightarrow> fd \<noteq> KernelFsFdInvalid \<Longrightarrow> createdFile env path sz fd"
  unfolding createdFile_def by blast

lemma sharedFd_I:
  "kernelFsFileDupeOrOpen env fd fs = Some (fd', fs') \<Longrightarrow> fd' \<noteq> KernelFsFdInvalid \<Longrightarrow> sharedFd env fd fd'"
  unfolding sharedFd_def by blast

lemma updProc_kFs [simp]: "kFs (updProc pid f st) = kFs st" "updProc pid f (st\<lparr>kFs := fs\<rparr>) = (updProc pid f st)\<lparr>kFs := fs\<rparr>"
  "procOf (st\<lparr>kFs := fs\<rparr>) = procOf st"
  by (simp_all add: updProc_def procOf_def fun_eq_iff)

lemma forkFiles_chain:
  assumes "forkFiles env parentPid childPid pd child st = Some (True, child', st')"
  shows "\<exists>procFd ramFd progFd fs st6 st7. createdFile env (procPathOf childPid) (of_nat procDataSize) procFd \<and>
    createdFile env (ramPathOf childPid) (ucast (ucast (pdEnvVarDataLen pd) + pdRamLen pd :: u16)) ramFd \<and>
    sharedFd env (prProgmemFd (procOf (updProc childPid (\<lambda>p. p\<lparr>prProcFd := procFd, prState := ProcManProcessStateActive\<rparr>) st) parentPid)) progFd \<and>
    dupeFds env localFds pd (child\<lparr>pdRamFd := ramFd\<rparr>)
      ((updProc childPid (\<lambda>p. p\<lparr>prProcFd := procFd, prState := ProcManProcessStateActive, prProgmemFd := progFd\<rparr>) st)\<lparr>kFs := fs\<rparr>) =
      Some (True, child', st6) \<and>
    procManProcessStoreProcData env childPid child' st6 = Some (True, st7) \<and>
    copyRam env (pdRamFd pd) ramFd (ucast (pdEnvVarDataLen pd) + pdRamLen pd) st7 = Some (True, st')"
proof -
  have u: "updProc q f (updProc q g s) = updProc q (f \<circ> g) s" for q f g and s :: "'a ProcMan"
    by (cases "unat q < length (pmProcesses s)") (simp_all add: updProc_def procOf_def not_less list_update_beyond)
  show ?thesis
    using assms unfolding forkFiles_def Let_def
    apply (clarsimp simp: onFs_Some Option.bind_eq_Some_conv u comp_def split: if_splits prod.splits)
    by (blast intro: createdFile_I sharedFd_I)
qed

lemma unat_small: "i < 256 \<Longrightarrow> unat (of_nat i :: u8) = i"
  by (simp add: unat_of_nat)

lemma localFds_at: "i < 8 \<Longrightarrow> of_nat (Suc i) \<in> set localFds" "l \<in> set localFds \<Longrightarrow> 0 < unat l \<and> unat l \<le> 8" "distinct localFds"
proof -
  show "of_nat (Suc i) \<in> set localFds" if "i < 8"
    using that by (force simp: localFds_def ProcManMaxFds_def)
  show "0 < unat l \<and> unat l \<le> 8" if "l \<in> set localFds"
    using that by (auto simp: localFds_def ProcManMaxFds_def unat_small)
  show "distinct localFds" by code_simp
qed

lemma dupeFds_all:
  assumes "dupeFds env localFds pd child st = Some (True, child', st')"
    "length (pdFds pd) = 8" "pdFds child = replicate 8 KernelFsFdInvalid"
  shows "child' = child\<lparr>pdFds := pdFds child'\<rparr> \<and> sharedFds env (pdFds pd) (pdFds child') \<and>
    pmProcesses st' = pmProcesses st"
proof -
  have ok: "\<forall>l \<in> set localFds. fdOk child l" using localFds_at(2) assms(3) by (fastforce simp: fdOk_def)
  note d = dupeFds_shared [OF assms(1) localFds_at(3) ok]
  have l: "length (pdFds child') = 8" using d assms(3) by simp
  have "sharedFds env (pdFds pd) (pdFds child')"
    unfolding sharedFds_def
  proof (rule list_all2_all_nthI)
    fix i assume "i < length (pdFds pd)"
    then have i: "i < 8" using assms(2) by simp
    then have u: "unat (of_nat (Suc i) :: u8) = Suc i" by (intro unat_small) simp
    have a: "getFd p (of_nat (Suc i)) = pdFds p ! i" for p by (simp add: getFd_def u del: of_nat_Suc)
    have c: "getFd child (of_nat (Suc i)) = KernelFsFdInvalid" unfolding a using assms(3) i by simp
    have "of_nat (Suc i) \<in> set localFds" using i by (rule localFds_at(1))
    then show "if pdFds pd ! i = KernelFsFdInvalid then pdFds child' ! i = KernelFsFdInvalid
      else sharedFd env (pdFds pd ! i) (pdFds child' ! i)"
      using d ok i c unfolding a [symmetric] by (auto split: if_splits dest: bspec)
  qed (use assms(2) l in simp)
  then show ?thesis using d by blast
qed

lemma copyRam_tbl: "copyRam env src dest n st = Some (a, st') \<Longrightarrow> tbl st' = tbl st"
  using post_D [OF copyRam_keeps [of st "\<lambda>(a, st'). tbl st' = tbl st"]] by auto

lemma Store_tbl: "procManProcessStoreProcData env p pd st = Some (a, st') \<Longrightarrow> tbl st' = tbl st"
  using post_D [OF Store_keeps [of st "\<lambda>(a, st'). tbl st' = tbl st"]] by auto



section \<open>The data file\<close>

text \<open>The code copies the struct from memory to the file and back. The layout the model gives it
  agrees with the offsets at which parts of it are loaded or saved alone, which the code takes with
  \<open>offsetof\<close>: a register, the length of the ram, the length of the environment and the
  descriptor of the ram file.\<close>

lemma procData_layout:
  assumes "length (pdRegs pd) = 8" "length (pdSignalHandlers pd) = 4" "length (pdFds pd) = 8"
  shows "length (procDataBytes pd) = procDataSize \<and> procDataOfBytes (procDataBytes pd) = pd \<and>
    take 2 (drop (unat procDataOffsetRamLen) (procDataBytes pd)) = le16_bytes (pdRamLen pd) \<and>
    procDataBytes pd ! unat procDataOffsetEnvVarDataLen = pdEnvVarDataLen pd \<and>
    procDataBytes pd ! unat procDataOffsetRamFd = pdRamFd pd \<and>
    (\<forall>r < 8. take 2 (drop (2 * r) (procDataBytes pd)) = le16_bytes (pdRegs pd ! r))"
proof -
  obtain r0 r1 r2 r3 r4 r5 r6 r7 where r: "pdRegs pd = [r0, r1, r2, r3, r4, r5, r6, r7]"
    using assms(1) by (auto simp: length_Suc_conv eval_nat_numeral)
  obtain h0 h1 h2 h3 where h: "pdSignalHandlers pd = [h0, h1, h2, h3]"
    using assms(2) by (auto simp: length_Suc_conv eval_nat_numeral)
  obtain f0 f1 f2 f3 f4 f5 f6 f7 where f: "pdFds pd = [f0, f1, f2, f3, f4, f5, f6, f7]"
    using assms(3) by (auto simp: length_Suc_conv eval_nat_numeral)
  have b: "procDataBytes pd = [lo8 r0, hi8 r0, lo8 r1, hi8 r1, lo8 r2, hi8 r2, lo8 r3, hi8 r3,
      lo8 r4, hi8 r4, lo8 r5, hi8 r5, lo8 r6, hi8 r6, lo8 r7, hi8 r7, h0, h1, h2, h3,
      lo8 (pdRamLen pd), hi8 (pdRamLen pd), pdEnvVarDataLen pd, pdRamFd pd, f0, f1, f2, f3, f4, f5, f6, f7,
      pdArgc pd, pdPadding pd, lo8 (pdPwd pd), hi8 (pdPwd pd), lo8 (pdPath pd), hi8 (pdPath pd)]"
    by (simp add: procDataBytes_def le16_bytes_def r h f)
  have upt8: "[0..<8] = [0, 1, 2, 3, 4, 5, 6, 7]" by code_simp
  show ?thesis
  proof (intro conjI allI impI)
    show "length (procDataBytes pd) = procDataSize" by (simp add: b procDataSize_def)
    show "procDataOfBytes (procDataBytes pd) = pd"
      unfolding b procDataOfBytes_def upt8
      by (rule ProcManProcessProcData.equality) (simp_all add: r h f)
    show "take 2 (drop (unat procDataOffsetRamLen) (procDataBytes pd)) = le16_bytes (pdRamLen pd)"
      by (simp add: b procDataOffsetRamLen_def le16_bytes_def)
    show "procDataBytes pd ! unat procDataOffsetEnvVarDataLen = pdEnvVarDataLen pd"
      by (simp add: b procDataOffsetEnvVarDataLen_def)
    show "procDataBytes pd ! unat procDataOffsetRamFd = pdRamFd pd"
      by (simp add: b procDataOffsetRamFd_def)
    show "take 2 (drop (2 * i) (procDataBytes pd)) = le16_bytes (pdRegs pd ! i)" if "i < 8" for i
    proof -
      from that have "i \<in> set [0..<8]" by simp
      then show ?thesis unfolding upt8 by (auto simp: b r le16_bytes_def)
    qed
  qed
qed

end
