(* ===== verification/KernelDevices.thy ===== *)
theory KernelDevices
  imports HwDevice
begin

text \<open>
  The device functors of \<open>src/kernel/kernel.c\<close>, \<open>kernelmount.c\<close> and \<open>hwdevice.c\<close>: what is
  behind each file of the virtual file system. A functor is one C function that switches on the
  operation asked for; here it is a record with a field for each. Its user data is a number, and
  an operation it does not have is the failed assertion \<open>None\<close>. Closing the loop, the table of
  functors is the environment the file system runs in.
\<close>

record 'w FsFunctor =
  functorCommonFlush :: "nat \<Rightarrow> 'w KFs \<Rightarrow> (bool \<times> 'w KFs) option"
  functorCharacterRead :: "nat \<Rightarrow> 'w KFs \<Rightarrow> (int \<times> 'w KFs) option"
  functorCharacterCanRead :: "nat \<Rightarrow> 'w KFs \<Rightarrow> bool option"
  functorCharacterWrite :: "nat \<Rightarrow> u8 list \<Rightarrow> 'w KFs \<Rightarrow> (u32 \<times> 'w KFs) option"
  functorCharacterCanWrite :: "nat \<Rightarrow> 'w KFs \<Rightarrow> bool option"
  functorBlockRead :: "nat \<Rightarrow> 'w KFs \<Rightarrow> u32 \<Rightarrow> u32 \<Rightarrow> (u8 list \<times> 'w KFs) option"
  functorBlockWrite :: "nat \<Rightarrow> u32 \<Rightarrow> u8 list \<Rightarrow> 'w KFs \<Rightarrow> (u32 \<times> 'w KFs) option"

definition assertFalseFunctor :: "'w FsFunctor" where
  "assertFalseFunctor = \<lparr>functorCommonFlush = \<lambda>_ _. None, functorCharacterRead = \<lambda>_ _. None,
     functorCharacterCanRead = \<lambda>_ _. None, functorCharacterWrite = \<lambda>_ _ _. None,
     functorCharacterCanWrite = \<lambda>_ _. None, functorBlockRead = \<lambda>_ _ _ _. None,
     functorBlockWrite = \<lambda>_ _ _ _. None\<rparr>"

text \<open>Most functors have nothing to flush.\<close>

definition flushNothing :: "nat \<Rightarrow> 'w KFs \<Rightarrow> (bool \<times> 'w KFs) option" where
  "flushNothing userData st = Some (True, st)"

section \<open>Read-only volumes in the program\<close>

text \<open>The volumes are generated by the build; the user data points to one of them.\<close>

type_synonym ProgmemEntry = "KStr \<times> u8 list"

definition kernelProgmemGenericReadFunctor ::
    "ProgmemEntry list \<Rightarrow> u32 \<Rightarrow> u32 \<Rightarrow> nat \<Rightarrow> u8 list" where
  "kernelProgmemGenericReadFunctor progmem addr len userData =
     take (unat len) (drop (unat addr) (snd (progmem ! userData)))"

definition kernelProgmemGenericFsFunctor :: "ProgmemEntry list \<Rightarrow> 'w FsFunctor" where
  "kernelProgmemGenericFsFunctor progmem = assertFalseFunctor\<lparr>
     functorCommonFlush := flushNothing,
     functorBlockRead := \<lambda>userData st addr len.
       Some (kernelProgmemGenericReadFunctor progmem addr len userData, st)\<rparr>"

section \<open>The EEPROM\<close>

text \<open>On the host a file, opened for reading and writing: a read stops at its end, a write past it
  makes it longer, with zeros in between.\<close>

definition KernelEepromTotalSize :: u32 where "KernelEepromTotalSize = 4 * 1024"
definition KernelEepromEtcOffset :: u32 where "KernelEepromEtcOffset = 0"
definition KernelEepromEtcSize :: u32 where "KernelEepromEtcSize = 1 * 1024"
definition KernelEepromDevEepromOffset :: u32 where "KernelEepromDevEepromOffset = KernelEepromEtcSize"
definition KernelEepromDevEepromSize :: u32 where
  "KernelEepromDevEepromSize = KernelEepromTotalSize - KernelEepromDevEepromOffset"

definition fileRead :: "nat \<Rightarrow> nat \<Rightarrow> u8 list \<Rightarrow> u8 list" where
  "fileRead addr len file = take len (drop addr file)"

definition fileWrite :: "nat \<Rightarrow> u8 list \<Rightarrow> u8 list \<Rightarrow> u8 list" where
  "fileWrite addr data file =
     (if data = [] then file else splice_at addr data (file @ replicate (addr - length file) 0))"

definition kernelEepromGenericReadFunctor :: "u32 \<Rightarrow> u32 \<Rightarrow> nat \<Rightarrow> 'w KFs \<Rightarrow> u8 list" where
  "kernelEepromGenericReadFunctor addr len userData st =
     (let offset = of_nat userData :: u16;
          addr = addr + ucast offset in
      if addr > 0xFFFF then [] else fileRead (unat addr) (unat len) (gEeprom (globalsOf st)))"

definition kernelEepromGenericWriteFunctor :: "u32 \<Rightarrow> u8 list \<Rightarrow> nat \<Rightarrow> 'w KFs \<Rightarrow> u32 \<times> 'w KFs" where
  "kernelEepromGenericWriteFunctor addr data userData st =
     (let data = take 0xFFFF data;
          offset = of_nat userData :: u16;
          addr = addr + ucast offset in
      if addr > 0xFFFF then (0, st)
      else (of_nat (length data),
            updGlobals (\<lambda>g. g\<lparr>gEeprom := fileWrite (unat addr) data (gEeprom g)\<rparr>) st))"

definition kernelEepromGenericFsFunctor :: "'w FsFunctor" where
  "kernelEepromGenericFsFunctor = assertFalseFunctor\<lparr>
     functorCommonFlush := flushNothing,
     functorBlockRead := \<lambda>userData st addr len.
       Some (kernelEepromGenericReadFunctor addr len userData st, st),
     functorBlockWrite := \<lambda>userData addr data st.
       Some (kernelEepromGenericWriteFunctor addr data userData st)\<rparr>"

section \<open>The virtual device files\<close>

definition devRamSize :: u32 where "devRamSize = 2 * 1024"

datatype KernelVirtualDevFile =
    KernelVirtualDevFileFull
  | KernelVirtualDevFileNull
  | KernelVirtualDevFileTtyS0
  | KernelVirtualDevFileSpi
  | KernelVirtualDevFileURandom
  | KernelVirtualDevFileZero
  | KernelVirtualDevFileRam

definition kernelVirtualDevFiles :: "KernelVirtualDevFile list" where
  "kernelVirtualDevFiles = [KernelVirtualDevFileFull, KernelVirtualDevFileNull,
     KernelVirtualDevFileTtyS0, KernelVirtualDevFileSpi, KernelVirtualDevFileURandom,
     KernelVirtualDevFileZero, KernelVirtualDevFileRam]"

text \<open>The user data is the number of the file in the enumeration.\<close>

fun virtualDevFileCode :: "KernelVirtualDevFile \<Rightarrow> nat" where
  "virtualDevFileCode KernelVirtualDevFileFull = 0"
| "virtualDevFileCode KernelVirtualDevFileNull = 1"
| "virtualDevFileCode KernelVirtualDevFileTtyS0 = 2"
| "virtualDevFileCode KernelVirtualDevFileSpi = 3"
| "virtualDevFileCode KernelVirtualDevFileURandom = 4"
| "virtualDevFileCode KernelVirtualDevFileZero = 5"
| "virtualDevFileCode KernelVirtualDevFileRam = 6"

definition onDevFile :: "(KernelVirtualDevFile \<Rightarrow> 'a option) \<Rightarrow> nat \<Rightarrow> 'a option" where
  "onDevFile f userData = Option.bind (List.find (\<lambda>file. virtualDevFileCode file = userData) kernelVirtualDevFiles) f"

fun virtualDevCharacterRead :: "'w Hardware \<Rightarrow> KernelVirtualDevFile \<Rightarrow> 'w KFs \<Rightarrow> (int \<times> 'w KFs) option" where
  "virtualDevCharacterRead hw KernelVirtualDevFileFull st = Some (0, st)"
| "virtualDevCharacterRead hw KernelVirtualDevFileNull st = Some (0, st)"
| "virtualDevCharacterRead hw KernelVirtualDevFileTtyS0 st =
     (case ttyReadFunctor (gTty (globalsOf st)) of
        (c, t) \<Rightarrow> Some (c, updGlobals (\<lambda>g. g\<lparr>gTty := t\<rparr>) st))"
| "virtualDevCharacterRead hw KernelVirtualDevFileSpi st =
     (case spiReadByte hw st of (b, st) \<Rightarrow> Some (uint b, st))"
| "virtualDevCharacterRead hw KernelVirtualDevFileURandom st =
     (case hwRand hw (gHost (globalsOf st)) of
        (r, w) \<Rightarrow> Some (int (r mod 256), updGlobals (\<lambda>g. g\<lparr>gHost := w\<rparr>) st))"
| "virtualDevCharacterRead hw KernelVirtualDevFileZero st = Some (0, st)"
| "virtualDevCharacterRead hw KernelVirtualDevFileRam st = None"

fun virtualDevCharacterCanRead :: "KernelVirtualDevFile \<Rightarrow> 'w KFs \<Rightarrow> bool option" where
  "virtualDevCharacterCanRead KernelVirtualDevFileTtyS0 st = Some (ttyCanReadFunctor (gTty (globalsOf st)))"
| "virtualDevCharacterCanRead KernelVirtualDevFileRam st = None"
| "virtualDevCharacterCanRead _ st = Some True"

fun virtualDevCharacterWrite ::
    "'w Hardware \<Rightarrow> KernelVirtualDevFile \<Rightarrow> u8 list \<Rightarrow> 'w KFs \<Rightarrow> (u32 \<times> 'w KFs) option" where
  "virtualDevCharacterWrite hw KernelVirtualDevFileFull data st = Some (0, st)"
| "virtualDevCharacterWrite hw KernelVirtualDevFileNull data st = Some (of_nat (length data), st)"
| "virtualDevCharacterWrite hw KernelVirtualDevFileTtyS0 data st =
     (case ttyWriteFunctor data (gTty (globalsOf st)) of
        (n, t) \<Rightarrow> Some (of_nat n, updGlobals (\<lambda>g. g\<lparr>gTty := t\<rparr>) st))"
| "virtualDevCharacterWrite hw KernelVirtualDevFileSpi data st =
     (let data = take 0xFFFF data in Some (of_nat (length data), spiWriteBlock hw data st))"
| "virtualDevCharacterWrite hw KernelVirtualDevFileURandom data st = Some (0, st)"
| "virtualDevCharacterWrite hw KernelVirtualDevFileZero data st = Some (of_nat (length data), st)"
| "virtualDevCharacterWrite hw KernelVirtualDevFileRam data st = None"

fun virtualDevCharacterCanWrite :: "KernelVirtualDevFile \<Rightarrow> 'w KFs \<Rightarrow> bool option" where
  "virtualDevCharacterCanWrite KernelVirtualDevFileFull st = Some False"
| "virtualDevCharacterCanWrite KernelVirtualDevFileTtyS0 st = Some (ttyCanWriteFunctor (gTty (globalsOf st)))"
| "virtualDevCharacterCanWrite KernelVirtualDevFileURandom st = Some False"
| "virtualDevCharacterCanWrite KernelVirtualDevFileRam st = None"
| "virtualDevCharacterCanWrite _ st = Some True"

text \<open>An access beyond the end of the array is undefined in C; here it reads and writes only what
  lies inside.\<close>

definition virtualDevBlockRead ::
    "KernelVirtualDevFile \<Rightarrow> u32 \<Rightarrow> u32 \<Rightarrow> 'w KFs \<Rightarrow> (u8 list \<times> 'w KFs) option" where
  "virtualDevBlockRead file addr len st =
     (if file = KernelVirtualDevFileRam
      then Some (take (unat len) (drop (unat addr) (gRamData (globalsOf st))), st) else None)"

definition virtualDevBlockWrite ::
    "KernelVirtualDevFile \<Rightarrow> u32 \<Rightarrow> u8 list \<Rightarrow> 'w KFs \<Rightarrow> (u32 \<times> 'w KFs) option" where
  "virtualDevBlockWrite file addr data st =
     (if file = KernelVirtualDevFileRam
      then Some (of_nat (length data), updGlobals (\<lambda>g. g\<lparr>gRamData :=
             take (length (gRamData g)) (splice_at (unat addr) data (gRamData g))\<rparr>) st)
      else None)"

definition kernelVirtualDevFileGenericFsFunctor :: "'w Hardware \<Rightarrow> 'w FsFunctor" where
  "kernelVirtualDevFileGenericFsFunctor hw = \<lparr>
     functorCommonFlush = flushNothing,
     functorCharacterRead = \<lambda>userData st. onDevFile (\<lambda>file. virtualDevCharacterRead hw file st) userData,
     functorCharacterCanRead = \<lambda>userData st. onDevFile (\<lambda>file. virtualDevCharacterCanRead file st) userData,
     functorCharacterWrite = \<lambda>userData data st. onDevFile (\<lambda>file. virtualDevCharacterWrite hw file data st) userData,
     functorCharacterCanWrite = \<lambda>userData st. onDevFile (\<lambda>file. virtualDevCharacterCanWrite file st) userData,
     functorBlockRead = \<lambda>userData st addr len. onDevFile (\<lambda>file. virtualDevBlockRead file addr len st) userData,
     functorBlockWrite = \<lambda>userData addr data st. onDevFile (\<lambda>file. virtualDevBlockWrite file addr data st) userData\<rparr>"

section \<open>Digital pins\<close>

definition kernelDevDigitalPinReadFunctor :: "'w Hardware \<Rightarrow> nat \<Rightarrow> 'w KFs \<Rightarrow> int" where
  "kernelDevDigitalPinReadFunctor hw userData st =
     (let pinNum = of_nat userData :: u8 in
      if pinInUse pinNum (gPins (globalsOf st)) then 0 else of_bool (kPinRead hw pinNum st))"

definition kernelDevDigitalPinCanReadFunctor :: "nat \<Rightarrow> 'w KFs \<Rightarrow> bool" where
  "kernelDevDigitalPinCanReadFunctor userData st \<longleftrightarrow>
     \<not> pinInUse (of_nat userData) (gPins (globalsOf st))"

text \<open>The last of the bytes is the level written; with no bytes the code reads one in front of
  its buffer.\<close>

definition kernelDevDigitalPinWriteFunctor :: "u8 list \<Rightarrow> nat \<Rightarrow> 'w KFs \<Rightarrow> (u32 \<times> 'w KFs) option" where
  "kernelDevDigitalPinWriteFunctor data userData st =
     (let pinNum = of_nat userData :: u8 in
      if pinInUse pinNum (gPins (globalsOf st)) then Some (0, st)
      else if data = [] then None
      else case pinWrite pinNum (data ! (length data - 1) \<noteq> 0) (gPins (globalsOf st)) of
        (ok, p) \<Rightarrow> Some (if ok then of_nat (length data) else 0, updGlobals (\<lambda>g. g\<lparr>gPins := p\<rparr>) st))"

definition kernelDevDigitalPinCanWriteFunctor :: "nat \<Rightarrow> 'w KFs \<Rightarrow> bool" where
  "kernelDevDigitalPinCanWriteFunctor userData st \<longleftrightarrow>
     \<not> pinInUse (of_nat userData) (gPins (globalsOf st))"

definition kernelDevDigitalPinFsFunctor :: "'w Hardware \<Rightarrow> 'w FsFunctor" where
  "kernelDevDigitalPinFsFunctor hw = assertFalseFunctor\<lparr>
     functorCommonFlush := flushNothing,
     functorCharacterRead := \<lambda>userData st. Some (kernelDevDigitalPinReadFunctor hw userData st, st),
     functorCharacterCanRead := \<lambda>userData st. Some (kernelDevDigitalPinCanReadFunctor userData st),
     functorCharacterWrite := \<lambda>userData data st. kernelDevDigitalPinWriteFunctor data userData st,
     functorCharacterCanWrite := \<lambda>userData st. Some (kernelDevDigitalPinCanWriteFunctor userData st)\<rparr>"

section \<open>Files of the host\<close>

text \<open>The user data points to the path given to \<open>--mountfile\<close>.\<close>

definition kernelExternalMountGenericReadFunctor :: "u32 \<Rightarrow> u32 \<Rightarrow> nat \<Rightarrow> 'w KFs \<Rightarrow> u8 list" where
  "kernelExternalMountGenericReadFunctor addr len userData st =
     (case gHostFiles (globalsOf st) ! userData of
        None \<Rightarrow> []
      | Some file \<Rightarrow> fileRead (unat addr) (unat len) file)"

definition kernelExternalMountGenericWriteFunctor ::
    "u32 \<Rightarrow> u8 list \<Rightarrow> nat \<Rightarrow> 'w KFs \<Rightarrow> u32 \<times> 'w KFs" where
  "kernelExternalMountGenericWriteFunctor addr data userData st =
     (case gHostFiles (globalsOf st) ! userData of
        None \<Rightarrow> (0, st)
      | Some file \<Rightarrow> (of_nat (length data), updGlobals (\<lambda>g. g\<lparr>gHostFiles :=
          (gHostFiles g)[userData := Some (fileWrite (unat addr) data file)]\<rparr>) st))"

definition kernelExternalMountGenericFsFunctor :: "'w FsFunctor" where
  "kernelExternalMountGenericFsFunctor = assertFalseFunctor\<lparr>
     functorCommonFlush := flushNothing,
     functorBlockRead := \<lambda>userData st addr len.
       Some (kernelExternalMountGenericReadFunctor addr len userData st, st),
     functorBlockWrite := \<lambda>userData addr data st.
       Some (kernelExternalMountGenericWriteFunctor addr data userData st)\<rparr>"

section \<open>Mounted files and hardware devices\<close>

text \<open>The user data of a mounted device is the descriptor of its backing file. The state after a
  query is that before it.\<close>

definition kernelMountFsFunctor :: "'w KEnv \<Rightarrow> 'w FsFunctor" where
  "kernelMountFsFunctor env = \<lparr>
     functorCommonFlush = \<lambda>userData st. if userData < KernelFsFdMax
       then kernelMountCommonFlushFunctor env (of_nat userData) st else None,
     functorCharacterRead = \<lambda>userData st. if userData < KernelFsFdMax
       then kernelMountCharacterReadFunctor env (of_nat userData) st else None,
     functorCharacterCanRead = \<lambda>userData st. if userData < KernelFsFdMax
       then map_option fst (kernelMountCharacterCanReadFunctor env (of_nat userData) st) else None,
     functorCharacterWrite = \<lambda>userData data st. if userData < KernelFsFdMax
       then kernelMountCharacterWriteFunctor env (of_nat userData) data st else None,
     functorCharacterCanWrite = \<lambda>userData st. if userData < KernelFsFdMax
       then map_option fst (kernelMountCharacterCanWriteFunctor env (of_nat userData) st) else None,
     functorBlockRead = \<lambda>userData st addr len. if userData < KernelFsFdMax
       then kernelMountBlockReadFunctor env addr len (of_nat userData) st else None,
     functorBlockWrite = \<lambda>userData addr data st. if userData < KernelFsFdMax
       then kernelMountBlockWriteFunctor env addr data (of_nat userData) st else None\<rparr>"

definition hwDeviceKeypadFsFunctor :: "'w FsFunctor" where
  "hwDeviceKeypadFsFunctor = assertFalseFunctor\<lparr>
     functorCommonFlush := flushNothing,
     functorCharacterRead := \<lambda>userData st. Some (hwDeviceKeypadFsRead (of_nat userData) st),
     functorCharacterCanRead := \<lambda>userData st. Some (hwDeviceKeypadFsCanRead (of_nat userData) st),
     functorCharacterWrite := \<lambda>userData data st. Some (0, st),
     functorCharacterCanWrite := \<lambda>userData st. Some False\<rparr>"

definition hwDeviceSdCardReaderFsFunctor :: "'w KEnv \<Rightarrow> 'w Hardware \<Rightarrow> 'w FsFunctor" where
  "hwDeviceSdCardReaderFsFunctor env hw = assertFalseFunctor\<lparr>
     functorCommonFlush := \<lambda>userData st. hwDeviceSdCardReaderFlushFunctor env hw (of_nat userData) st,
     functorBlockRead := \<lambda>userData st addr len.
       hwDeviceSdCardReaderReadFunctor env hw (of_nat userData) addr len st,
     functorBlockWrite := \<lambda>userData addr data st.
       hwDeviceSdCardReaderWriteFunctor env hw (of_nat userData) addr data st\<rparr>"

section \<open>The environment\<close>

text \<open>The numbers that stand for the addresses of the functors; those of \<open>kernelmount.c\<close> and
  \<open>hwdevice.c\<close> are 1 to 3.\<close>

definition kernelVirtualDevFileGenericFsFunctorId :: nat where "kernelVirtualDevFileGenericFsFunctorId = 4"
definition kernelProgmemGenericFsFunctorId :: nat where "kernelProgmemGenericFsFunctorId = 5"
definition kernelEepromGenericFsFunctorId :: nat where "kernelEepromGenericFsFunctorId = 6"
definition kernelDevDigitalPinFsFunctorId :: nat where "kernelDevDigitalPinFsFunctorId = 7"
definition kernelExternalMountGenericFsFunctorId :: nat where "kernelExternalMountGenericFsFunctorId = 8"

lemmas functor_ids = kernelMountFsFunctorId_def hwDeviceKeypadFsFunctorId_def
  hwDeviceSdCardReaderFsFunctorId_def kernelVirtualDevFileGenericFsFunctorId_def
  kernelProgmemGenericFsFunctorId_def kernelEepromGenericFsFunctorId_def
  kernelDevDigitalPinFsFunctorId_def kernelExternalMountGenericFsFunctorId_def

definition functorAt :: "ProgmemEntry list \<Rightarrow> 'w Hardware \<Rightarrow> 'w KEnv \<Rightarrow> nat \<Rightarrow> 'w FsFunctor" where
  "functorAt progmem hw env f =
     (if f = kernelMountFsFunctorId then kernelMountFsFunctor env
      else if f = hwDeviceKeypadFsFunctorId then hwDeviceKeypadFsFunctor
      else if f = hwDeviceSdCardReaderFsFunctorId then hwDeviceSdCardReaderFsFunctor env hw
      else if f = kernelVirtualDevFileGenericFsFunctorId then kernelVirtualDevFileGenericFsFunctor hw
      else if f = kernelProgmemGenericFsFunctorId then kernelProgmemGenericFsFunctor progmem
      else if f = kernelEepromGenericFsFunctorId then kernelEepromGenericFsFunctor
      else if f = kernelDevDigitalPinFsFunctorId then kernelDevDigitalPinFsFunctor hw
      else if f = kernelExternalMountGenericFsFunctorId then kernelExternalMountGenericFsFunctor
      else assertFalseFunctor)"

definition functorEnv :: "(u16 \<Rightarrow> u8) \<Rightarrow> (nat \<Rightarrow> 'w FsFunctor) \<Rightarrow> 'w KEnv" where
  "functorEnv indet F = \<lparr>
     fnFlush = \<lambda>f. functorCommonFlush (F f), fnCharacterRead = \<lambda>f. functorCharacterRead (F f),
     fnCharacterCanRead = \<lambda>f. functorCharacterCanRead (F f),
     fnCharacterWrite = \<lambda>f. functorCharacterWrite (F f),
     fnCharacterCanWrite = \<lambda>f. functorCharacterCanWrite (F f),
     fnBlockRead = \<lambda>f. functorBlockRead (F f), fnBlockWrite = \<lambda>f. functorBlockWrite (F f),
     envIndet = indet\<rparr>"

text \<open>A mounted device calls the file system again for its backing file, which may be on a
  mounted device in turn. The depth is bounded by the number of mounts, and below that bound by
  what can be stacked: beyond it every functor fails.\<close>

primrec kernelEnvDepth :: "(u16 \<Rightarrow> u8) \<Rightarrow> ProgmemEntry list \<Rightarrow> 'w Hardware \<Rightarrow> nat \<Rightarrow> 'w KEnv" where
  "kernelEnvDepth indet progmem hw 0 = functorEnv indet (\<lambda>_. assertFalseFunctor)"
| "kernelEnvDepth indet progmem hw (Suc n) =
     functorEnv indet (functorAt progmem hw (kernelEnvDepth indet progmem hw n))"

definition kernelEnv :: "(u16 \<Rightarrow> u8) \<Rightarrow> ProgmemEntry list \<Rightarrow> 'w Hardware \<Rightarrow> 'w KEnv" where
  "kernelEnv indet progmem hw = kernelEnvDepth indet progmem hw (kernelMountedDevicesMax + 1)"

end
