(* ===== verification/KernelMain.thy ===== *)
theory KernelMain
  imports KernelDevices ProcManTick
begin

text \<open>
  \<open>src/kernel/kernel.c\<close>: booting, the main loop and shutting down, with the tick of the
  terminal in \<open>tty.c\<close> that hands an interrupt to processes. A fatal error halts the kernel. The
  generated volumes and the options of the command line are arguments.
\<close>

section \<open>The tick of the terminal\<close>

text \<open>How many of the bytes that have arrived the read loop takes: the one that does not fit is
  the last.\<close>

fun ttyTickTaken :: "u8 list \<Rightarrow> Tty \<Rightarrow> nat" where
  "ttyTickTaken [] t = 0"
| "ttyTickTaken (b # bs) t =
     Suc (case ttyHandleByte b t of (ok, t') \<Rightarrow> if ok then ttyTickTaken bs t' else 0)"

definition ttyPollInput :: "'w SysEnv \<Rightarrow> 'w ProcMan \<Rightarrow> 'w ProcMan" where
  "ttyPollInput sys st =
     (let bytes = hwStdin (seHw sys) (gHost (worldOf st)) in
      updWorld (\<lambda>g. g\<lparr>gTty := ttyTickInput bytes (gTty g),
        gHost := hwStdinTake (seHw sys) (ttyTickTaken bytes (gTty g)) (gHost g)\<rparr>) st)"

text \<open>\<open>/dev/ttyS0\<close>\<close>

definition ttyS0Path :: cstr where "ttyS0Path = [47, 100, 101, 118, 47, 116, 116, 121, 83, 48]"

text \<open>The search through the descriptors of a process ends at the first match.\<close>

fun hasTtyOpen :: "'w ProcMan \<Rightarrow> KernelFsFd list \<Rightarrow> bool option" where
  "hasTtyOpen st [] = Some False"
| "hasTtyOpen st (fd # fds) =
     (if fd = KernelFsFdInvalid then hasTtyOpen st fds
      else case kernelFsGetFilePath (kFs st) fd of
        None \<Rightarrow> None
      | Some path \<Rightarrow>
          if kstrDoubleStrcmp (kstrAllocCopy ttyS0Path) path = 0 then Some True else hasTtyOpen st fds)"

fun ttyInterruptEach :: "'w KEnv \<Rightarrow> ProcManPid list \<Rightarrow> 'w ProcMan \<Rightarrow> 'w ProcMan option" where
  "ttyInterruptEach env [] st = Some st"
| "ttyInterruptEach env (pid # pids) st = do {
     (fds, st) \<leftarrow> procManProcessGetOpenGlobalFds env pid st;
     case fds of
       None \<Rightarrow> ttyInterruptEach env pids st
     | Some fds \<Rightarrow> do {
         isOpen \<leftarrow> hasTtyOpen st fds;
         if isOpen then do {
           st \<leftarrow> procManProcessSendSignal env pid 0 st;
           ttyInterruptEach env pids st
         } else ttyInterruptEach env pids st
       }
   }"

definition ttyTick :: "'w SysEnv \<Rightarrow> 'w ProcMan \<Rightarrow> 'w ProcMan option" where
  "ttyTick sys st =
     (let st = ttyPollInput sys st in
      if ttyFlags (gTty (worldOf st)) AND TtyFlagBreak \<noteq> 0 then do {
        st \<leftarrow> ttyInterruptEach (seFs sys) allPids st;
        Some (updWorld (\<lambda>g. g\<lparr>gTty := (gTty g)\<lparr>ttyFlags := ttyFlags (gTty g) AND NOT TtyFlagBreak\<rparr>\<rparr>) st)
      } else Some st)"

section \<open>Booting\<close>

text \<open>A fatal error in one of the stages halts the kernel.\<close>

datatype 'w BootResult = BootOk "'w ProcMan" | BootFatal "'w ProcMan"

text \<open>A list of devices is added in turn, whatever becomes of the ones before; the result says
  that all of them could be added.\<close>

fun addAll :: "('w KFs \<Rightarrow> (bool \<times> 'w KFs) option) list \<Rightarrow> 'w KFs \<Rightarrow> (bool \<times> 'w KFs) option" where
  "addAll [] st = Some (True, st)"
| "addAll (f # fs) st = do {
     (ok, st) \<leftarrow> f st;
     (oks, st) \<leftarrow> addAll fs st;
     Some (ok \<and> oks, st)
   }"

definition asciiOf :: "string \<Rightarrow> cstr" where
  "asciiOf s = map (\<lambda>c. of_nat (of_char c)) s"

definition TtyPinTX0 :: u8 where "TtyPinTX0 = 32"
definition TtyPinRX0 :: u8 where "TtyPinRX0 = 33"

text \<open>The terminal and the pins before the file system exists. The bus is initialised first.\<close>

definition bootPins :: "'w KFs \<Rightarrow> bool \<times> 'w KFs" where
  "bootPins st =
     (case spiInit (gPins (globalsOf st)) of (ok, p) \<Rightarrow>
        let st = updGlobals (\<lambda>g. g\<lparr>gPins := p\<rparr>) st in
        if \<not> ok then (False, st)
        else case grabPins [TtyPinTX0, TtyPinRX0] (gPins (globalsOf st)) of (ok, p) \<Rightarrow>
          let st = updGlobals (\<lambda>g. g\<lparr>gPins := p\<rparr>) st in
          if \<not> ok then (False, st)
          else (True, hwDeviceInit (updGlobals (\<lambda>g. g\<lparr>gTty := ttyInit\<rparr>) st)))"

definition bootTime :: "'w SysEnv \<Rightarrow> 'w ProcMan \<Rightarrow> 'w ProcMan" where
  "bootTime sys st =
     (case rawMs sys st of (raw1, st) \<Rightarrow>
      case rawMs sys st of (raw2, st) \<Rightarrow>
      case rawMs sys st of (raw3, st) \<Rightarrow>
        updWorld (\<lambda>g. g\<lparr>gTime := ktimeInit raw1 raw2 raw3 (gTime g)\<rparr>) st)"

text \<open>The EEPROM file is created when it is not there and filled up to its size.\<close>

definition bootEeprom :: "'w KFs \<Rightarrow> 'w KFs" where
  "bootEeprom st = updGlobals (\<lambda>g. g\<lparr>gEeprom :=
     gEeprom g @ replicate (unat KernelEepromTotalSize - length (gEeprom g)) 0xFF\<rparr>) st"

definition baseDirectories :: "string list" where
  "baseDirectories = [''/'', ''/dev'', ''/lib'', ''/lib/std'', ''/media'', ''/usr'', ''/usr/man'']"

definition addBaseDirectories :: "'w KEnv \<Rightarrow> 'w KFs \<Rightarrow> (bool \<times> 'w KFs) option" where
  "addBaseDirectories env =
     addAll (map (\<lambda>p. kernelFsAddDirectoryDeviceFile env (kstrAllocCopy (asciiOf p))) baseDirectories)"

definition addDevRam :: "'w KEnv \<Rightarrow> 'w KFs \<Rightarrow> (bool \<times> 'w KFs) option" where
  "addDevRam env = kernelFsAddBlockDeviceFile env (kstrAllocCopy (asciiOf ''/dev/ram''))
     kernelVirtualDevFileGenericFsFunctorId (virtualDevFileCode KernelVirtualDevFileRam)
     KernelFsBlockDeviceFormatFlatFile devRamSize True"

text \<open>\<open>kernelVirtualDevFileDevRamMiniFsWriteFunctor\<close> on the state of the kernel.\<close>

definition devRamMiniFsWriteFunctor :: "'w KFs \<Rightarrow> u16 \<Rightarrow> u8 list \<Rightarrow> u16 \<times> 'w KFs" where
  "devRamMiniFsWriteFunctor st addr data =
     (case virtualDevBlockWrite KernelVirtualDevFileRam (ucast addr) data st of
        None \<Rightarrow> (0, st) | Some (n, st) \<Rightarrow> (ucast n, st))"

definition formatDevRam :: "'w KFs \<Rightarrow> (bool \<times> 'w KFs) option" where
  "formatDevRam st = Some (miniFsFormat devRamMiniFsWriteFunctor st (ucast devRamSize))"

definition mountTmp :: "'w KEnv \<Rightarrow> 'w KFs \<Rightarrow> (bool \<times> 'w KFs) option" where
  "mountTmp env = kernelMount env KernelMountFormatMiniFs (asciiOf ''/dev/ram'') (asciiOf ''/tmp'')"

definition addProgmem :: "'w KEnv \<Rightarrow> ProgmemEntry list \<Rightarrow> 'w KFs \<Rightarrow> (bool \<times> 'w KFs) option" where
  "addProgmem env progmem = addAll (map (\<lambda>i. kernelFsAddBlockDeviceFile env (fst (progmem ! i))
     kernelProgmemGenericFsFunctorId i KernelFsBlockDeviceFormatCustomMiniFs
     (of_nat (length (snd (progmem ! i)))) False) [0..<length progmem])"

definition addEeprom :: "'w KEnv \<Rightarrow> 'w KFs \<Rightarrow> (bool \<times> 'w KFs) option" where
  "addEeprom env = addAll
     [kernelFsAddBlockDeviceFile env (kstrAllocCopy (asciiOf ''/dev/eeprom'')) kernelEepromGenericFsFunctorId
        (unat KernelEepromDevEepromOffset) KernelFsBlockDeviceFormatFlatFile KernelEepromDevEepromSize True,
      kernelFsAddBlockDeviceFile env (kstrAllocCopy (asciiOf ''/etc'')) kernelEepromGenericFsFunctorId
        (unat KernelEepromEtcOffset) KernelFsBlockDeviceFormatCustomMiniFs KernelEepromEtcSize True]"

text \<open>The character devices of the host build, which has no \<open>/dev/spi\<close>: the path, the file, and
  whether it can be opened more than once and written.\<close>

definition devFiles :: "(string \<times> KernelVirtualDevFile \<times> bool \<times> bool) list" where
  "devFiles =
     [(''/dev/full'', KernelVirtualDevFileFull, True, True),
      (''/dev/null'', KernelVirtualDevFileNull, True, True),
      (''/dev/ttyS0'', KernelVirtualDevFileTtyS0, True, True),
      (''/dev/urandom'', KernelVirtualDevFileURandom, True, False),
      (''/dev/zero'', KernelVirtualDevFileZero, True, True)]"

definition addDevFiles :: "'w KEnv \<Rightarrow> 'w KFs \<Rightarrow> (bool \<times> 'w KFs) option" where
  "addDevFiles env = addAll (map (\<lambda>(path, file, canOpenMany, writable).
     kernelFsAddCharacterDeviceFile env (kstrAllocCopy (asciiOf path))
       kernelVirtualDevFileGenericFsFunctorId (virtualDevFileCode file) canOpenMany writable) devFiles)"

text \<open>The decimal digits of a pin number.\<close>

definition pinPath :: "nat \<Rightarrow> cstr" where
  "pinPath n = asciiOf ''/dev/pin'' @
     (if n < 10 then [of_nat (48 + n)] else [of_nat (48 + n div 10), of_nat (48 + n mod 10)])"

definition addPins :: "'w KEnv \<Rightarrow> 'w KFs \<Rightarrow> (bool \<times> 'w KFs) option" where
  "addPins env = addAll (map (\<lambda>pinNum. kernelFsAddCharacterDeviceFile env (kstrAllocCopy (pinPath pinNum))
     kernelDevDigitalPinFsFunctorId pinNum False True) (filter (\<lambda>n. pinIsValid (of_nat n)) [0..<100]))"

definition initPath :: cstr where "initPath = asciiOf ''/bin/init''"

definition bootFileSystem ::
    "'w SysEnv \<Rightarrow> ProgmemEntry list \<Rightarrow> 'w KFs \<Rightarrow> (bool \<times> 'w KFs) option" where
  "bootFileSystem sys progmem st = do {
     let env = seFs sys;
     let st = kernelFsInit (kfsWorld st);
     (ok, st) \<leftarrow> addBaseDirectories env st;
     if \<not> ok then Some (False, st)
     else do {
       (ok, st) \<leftarrow> addDevRam env st;
       if \<not> ok then Some (False, st)
       else do {
         (ok, st) \<leftarrow> formatDevRam st;
         if \<not> ok then Some (False, st)
         else do {
           (ok, st) \<leftarrow> mountTmp env st;
           if \<not> ok then Some (False, st)
           else do {
             (_, st) \<leftarrow> addProgmem env progmem st;
             (_, st) \<leftarrow> addEeprom env st;
             (_, st) \<leftarrow> addDevFiles env st;
             (_, st) \<leftarrow> addPins env st;
             Some (True, st)
           }
         }
       }
     }
   }"

definition kernelBoot ::
    "'w SysEnv \<Rightarrow> ProgmemEntry list \<Rightarrow> u16 \<Rightarrow> 'w ProcMan \<Rightarrow> 'w BootResult option" where
  "kernelBoot sys progmem logLevel st = do {
     let st = st\<lparr>pmLogLevel := logLevel\<rparr>;
     let (ok, fs) = bootPins (kFs st);
     let st = st\<lparr>kFs := fs\<rparr>;
     if \<not> ok then Some (BootFatal st)
     else do {
       let st = bootTime sys (kernelSetState sys KernelStateBooting st);
       let st = st\<lparr>kFs := bootEeprom (kFs st)\<rparr>;
       (ok, st) \<leftarrow> onFs (bootFileSystem sys progmem) st;
       if \<not> ok then Some (BootFatal st)
       else do {
         (pid, st) \<leftarrow> procManProcessNew (seFs sys) initPath (procManInit st);
         Some (if unat pid = ProcManPidMax then BootFatal st else BootOk st)
       }
     }
   }"

section \<open>The main loop\<close>

definition kernelTickMinTimeMs :: KTime where "kernelTickMinTimeMs = 10"

definition shutdownTimedOut :: "'w SysEnv \<Rightarrow> 'w ProcMan \<Rightarrow> bool \<times> 'w ProcMan" where
  "shutdownTimedOut sys st =
     (case getMonotonicMs sys st of (now, st) \<Rightarrow> (now - pmKernelStateTime st \<ge> 30000, st))"

text \<open>The clock is read for the time-out only when the process count has not decided.\<close>

definition checkShutdownWaitAll :: "'w SysEnv \<Rightarrow> 'w ProcMan \<Rightarrow> 'w ProcMan option" where
  "checkShutdownWaitAll sys st =
     (if pmKernelState st \<noteq> KernelStateShuttingDownWaitAll then Some st
      else if procManGetProcessCount st = 1 then kernelShutdownNext sys st
      else case shutdownTimedOut sys st of (late, st) \<Rightarrow>
        if late then kernelShutdownNext sys st else Some st)"

definition checkShutdownWaitInit :: "'w SysEnv \<Rightarrow> 'w ProcMan \<Rightarrow> bool \<times> 'w ProcMan" where
  "checkShutdownWaitInit sys st =
     (if pmKernelState st \<noteq> KernelStateShuttingDownWaitInit then (False, st) else shutdownTimedOut sys st)"

definition hwTick :: "'w SysEnv \<Rightarrow> 'w ProcMan \<Rightarrow> 'w ProcMan" where
  "hwTick sys st = st\<lparr>kFs := hwDeviceTick (seHw sys) (kFs st)\<rparr>"

definition ktimeDelayMs :: "'w SysEnv \<Rightarrow> KTime \<Rightarrow> 'w ProcMan \<Rightarrow> 'w ProcMan" where
  "ktimeDelayMs sys ms st = st\<lparr>kFs := kDelayUs (seHw sys) (unat (ms * 1000)) (kFs st)\<rparr>"

text \<open>The ticks of the terminal, the devices and the processes, and a rest when there is time.\<close>

definition runTicks :: "'w SysEnv \<Rightarrow> 'w ProcMan \<Rightarrow> 'w ProcMan option" where
  "runTicks sys st = do {
     st \<leftarrow> ttyTick sys st;
     let (t0, st) = getMonotonicMs sys (hwTick sys st);
     st \<leftarrow> procManTickAll sys st;
     let (t1, st) = getMonotonicMs sys st;
     let t = t1 - t0;
     Some (if t < kernelTickMinTimeMs then ktimeDelayMs sys (kernelTickMinTimeMs - t) st else st)
   }"

text \<open>One round of the loop; \<open>False\<close> says that the loop is left.\<close>

definition mainLoopRound :: "'w SysEnv \<Rightarrow> 'w ProcMan \<Rightarrow> (bool \<times> 'w ProcMan) option" where
  "mainLoopRound sys st =
     (if procManGetProcessCount st = 0 then Some (False, st)
      else do {
        st \<leftarrow> checkShutdownWaitAll sys st;
        let (late, st) = checkShutdownWaitInit sys st;
        if late then Some (False, st) else map_option (Pair True) (runTicks sys st)
      })"

definition kernelHalt :: "'w SysEnv \<Rightarrow> 'w ProcMan \<Rightarrow> 'w ProcMan" where
  "kernelHalt sys st = kernelSetState sys KernelStateShutdown st"

definition kernelShutdownFinal :: "'w SysEnv \<Rightarrow> 'w ProcMan \<Rightarrow> 'w ProcMan option" where
  "kernelShutdownFinal sys st = do {
     st \<leftarrow> procManQuit (seFs sys) (kernelSetState sys KernelStateShuttingDownFinal st);
     Some (kernelHalt sys (st\<lparr>kFs := kernelFsQuit (kFs st)\<rparr>))
   }"

text \<open>The loop runs as long as there are processes: \<open>None\<close> also stands for running for ever.\<close>

partial_function (option) mainLoop :: "'w SysEnv \<Rightarrow> 'w ProcMan \<Rightarrow> 'w ProcMan option" where
  "mainLoop sys st = do {
     (more, st) \<leftarrow> mainLoopRound sys st;
     if more then mainLoop sys st else kernelShutdownFinal sys st
   }"

text \<open>The files given with \<open>--mountfile\<close>: the virtual path and the number of the host file. One
  that cannot be opened is skipped.\<close>

fun mountExternal :: "'w KEnv \<Rightarrow> (cstr \<times> nat) list \<Rightarrow> 'w KFs \<Rightarrow> 'w KFs option" where
  "mountExternal env [] st = Some st"
| "mountExternal env ((path, i) # entries) st =
     (case gHostFiles (globalsOf st) ! i of
        None \<Rightarrow> mountExternal env entries st
      | Some file \<Rightarrow>
          Option.bind (kernelFsAddBlockDeviceFile env (kstrAllocCopy path) kernelExternalMountGenericFsFunctorId
              i KernelFsBlockDeviceFormatFlatFile (of_nat (length file)) False st)
            (\<lambda>(_, st). mountExternal env entries st))"

definition kernelMain ::
    "'w SysEnv \<Rightarrow> ProgmemEntry list \<Rightarrow> u16 \<Rightarrow> (cstr \<times> nat) list \<Rightarrow> 'w ProcMan \<Rightarrow> 'w ProcMan option" where
  "kernelMain sys progmem logLevel externalMounts st = do {
     booted \<leftarrow> kernelBoot sys progmem logLevel st;
     case booted of
       BootFatal st \<Rightarrow> Some (kernelHalt sys st)
     | BootOk st \<Rightarrow> do {
         fs \<leftarrow> mountExternal (seFs sys) externalMounts (kFs st);
         mainLoop sys (kernelSetState sys KernelStateRunning (st\<lparr>kFs := fs\<rparr>))
       }
   }"

end
