(* ===== verification/KernelMainProps.thy ===== *)
theory KernelMainProps
  imports KernelMain ProcManProps
begin

text \<open>
  The main loop of the kernel keeps the invariant of the process table: booting establishes it,
  and every round of the loop, with the ticks of the terminal and the devices and with the steps of
  a shutdown, keeps it.
\<close>

definition tblOk :: "ProcManProcess list \<times> u16 \<Rightarrow> bool" where
  "tblOk t \<longleftrightarrow> snd t < procManTicksPerInstructionCounterReset \<and>
     tableOk {} (\<lambda>_. procManProcessInstructionsPerTick * unat (snd t)) (fst t)"

lemma procManOk_of_tbl: "procManOk st \<longleftrightarrow> tblOk (tbl st)"
  by (simp add: procManOk_tbl tblOk_def)

lemma ok_step:
  assumes "tblOk (tbl st)" "\<And>st'. r = Some st' \<Longrightarrow> procManStep sys st st'"
  shows "post (\<lambda>st'. tblOk (tbl st')) r"
  using procManStep_ok [OF assms(2)] assms(1) by (auto simp: post_def procManOk_of_tbl)

lemma ok_signal:
  fixes sys :: "'w SysEnv"
  shows "tblOk (tbl st) \<Longrightarrow> post (\<lambda>st'. tblOk (tbl st')) (procManProcessSendSignal (seFs sys) pid signalId st)"
  by (rule ok_step [where sys = sys and st = st]) (auto intro: procManStep.Signal)

section \<open>The terminal\<close>

lemma GetOpenGlobalFds_keeps:
  "post (\<lambda>(fds, st'). tbl st' = tbl st) (procManProcessGetOpenGlobalFds env pid st)"
  unfolding procManProcessGetOpenGlobalFds_def by (auto intro!: wp split: option.split)

lemma ttyInterruptEach_ok:
  fixes sys :: "'w SysEnv"
  shows "tblOk (tbl st) \<Longrightarrow> post (\<lambda>st'. tblOk (tbl st')) (ttyInterruptEach (seFs sys) pids st)"
proof (induction pids arbitrary: st)
  case (Cons pid pids)
  let ?Q = "\<lambda>st' :: 'w ProcMan. tblOk (tbl st')"
  have sig: "post (\<lambda>st. post ?Q (ttyInterruptEach (seFs sys) pids st)) (procManProcessSendSignal (seFs sys) pid 0 st')"
    if "tblOk (tbl st')" for st'
    by (rule post_weaken [OF ok_signal [OF that]]) (rule Cons.IH)
  have each: "post ?Q (case fds of None \<Rightarrow> ttyInterruptEach (seFs sys) pids st'
      | Some fds \<Rightarrow> do { isOpen \<leftarrow> hasTtyOpen st' fds;
          if isOpen then do { st \<leftarrow> procManProcessSendSignal (seFs sys) pid 0 st'; ttyInterruptEach (seFs sys) pids st }
          else ttyInterruptEach (seFs sys) pids st' })" if ok: "tblOk (tbl st')" for fds st'
  proof (cases fds)
    case None
    then show ?thesis using Cons.IH [OF ok] by simp
  next
    case (Some fds')
    have "post (\<lambda>isOpen. post ?Q (if isOpen
          then do { st \<leftarrow> procManProcessSendSignal (seFs sys) pid 0 st'; ttyInterruptEach (seFs sys) pids st }
          else ttyInterruptEach (seFs sys) pids st')) (hasTtyOpen st' fds')"
      by (rule any_wp) (simp add: sig [OF ok] Cons.IH [OF ok])
    then show ?thesis by (simp only: Some option.case post_simps(3))
  qed
  show ?case
    unfolding ttyInterruptEach.simps post_simps(3)
  proof (rule post_weaken [OF GetOpenGlobalFds_keeps], goal_cases)
    case (1 r)
    obtain fds st' where r: "r = (fds, st')" by fastforce
    with 1 have "tblOk (tbl st')" using Cons.prems by simp
    from each [OF this] show ?case unfolding r prod.case .
  qed
qed simp

lemma ttyPollInput_tbl [simp]: "tbl (ttyPollInput sys st) = tbl st"
  by (simp add: ttyPollInput_def Let_def)

lemma ttyTick_ok: "tblOk (tbl st) \<Longrightarrow> post (\<lambda>st'. tblOk (tbl st')) (ttyTick sys st)"
  unfolding ttyTick_def Let_def post_simps
  using ttyInterruptEach_ok [of "ttyPollInput sys st" sys allPids] by simp

section \<open>A round of the loop\<close>

lemma shutdownTimedOut_keeps: "shutdownTimedOut sys st = (late, st') \<Longrightarrow> tbl st' = tbl st"
  by (auto simp: shutdownTimedOut_def dest!: getMonotonicMs_tbl split: prod.splits)

lemma ShutdownNext_ok: "tblOk (tbl st) \<Longrightarrow> post (\<lambda>st'. tblOk (tbl st')) (kernelShutdownNext sys st)"
  by (rule ok_step [where sys = sys and st = st]) (auto intro: procManStep.ShutdownNext)

lemma checkWaitAll_ok:
  assumes "tblOk (tbl st)"
  shows "post (\<lambda>st'. tblOk (tbl st')) (checkShutdownWaitAll sys st)"
proof -
  obtain late st1 where l: "shutdownTimedOut sys st = (late, st1)" by fastforce
  have "tblOk (tbl st1)" using shutdownTimedOut_keeps [OF l] assms by simp
  then show ?thesis
    unfolding checkShutdownWaitAll_def l prod.case
    using ShutdownNext_ok [of st sys] ShutdownNext_ok [of st1 sys] assms by simp
qed

lemma checkWaitInit_tbl: "checkShutdownWaitInit sys st = (late, st') \<Longrightarrow> tbl st' = tbl st"
  by (auto simp: checkShutdownWaitInit_def dest: shutdownTimedOut_keeps split: if_splits)

lemma ktimeDelayMs_tbl [simp]: "tbl (ktimeDelayMs sys ms st) = tbl st"
  by (simp add: ktimeDelayMs_def tbl_def)

lemma hwTick_tbl [simp]: "tbl (hwTick sys st) = tbl st"
  by (simp add: hwTick_def tbl_def)

lemma runTicks_ok:
  assumes "tblOk (tbl st)"
  shows "post (\<lambda>st'. tblOk (tbl st')) (runTicks sys st)"
  unfolding runTicks_def Let_def post_simps(3)
proof (rule post_weaken [OF ttyTick_ok [OF assms]], goal_cases)
  case (1 st1)
  obtain t0 st2 where c0: "getMonotonicMs sys (hwTick sys st1) = (t0, st2)" by fastforce
  have "tblOk (tbl st2)" using getMonotonicMs_tbl [OF c0] 1 by simp
  then have "post (\<lambda>st'. tblOk (tbl st')) (procManTickAll sys st2)"
    by (rule ok_step [where sys = sys and st = st2]) (auto intro: procManStep.TickAll)
  then show ?case
    unfolding c0 prod.case post_simps(3)
  proof (rule post_weaken, goal_cases)
    case (1 st3)
    obtain t1 st4 where c1: "getMonotonicMs sys st3 = (t1, st4)" by fastforce
    show ?case using 1 getMonotonicMs_tbl [OF c1] unfolding c1 prod.case by simp
  qed
qed

lemma mainLoopRound_ok:
  assumes "tblOk (tbl st)"
  shows "post (\<lambda>(more, st'). tblOk (tbl st') \<and>
      (more \<or> procManGetProcessCount st' = 0 \<or> pmKernelState st' = KernelStateShuttingDownWaitInit))
    (mainLoopRound sys st)"
    (is "post ?Q _")
proof -
  have "post ?Q (let (late, st2) = checkShutdownWaitInit sys st1 in
      if late then Some (False, st2) else map_option (Pair True) (runTicks sys st2))"
    if ok: "tblOk (tbl st1)" for st1
  proof -
    obtain late st2 where l: "checkShutdownWaitInit sys st1 = (late, st2)" by fastforce
    have "pmKernelState st2 = KernelStateShuttingDownWaitInit" if late
      using l that
      by (auto simp: checkShutdownWaitInit_def shutdownTimedOut_def getMonotonicMs_def rawMs_def
          Let_def updWorld_def split: if_splits prod.splits)
    moreover have "tblOk (tbl st2)" using checkWaitInit_tbl [OF l] ok by simp
    ultimately show ?thesis
      using runTicks_ok [of st2 sys] unfolding l Let_def prod.case by (simp add: post_def)
  qed
  then have "post ?Q (do {
      st \<leftarrow> checkShutdownWaitAll sys st;
      let (late, st) = checkShutdownWaitInit sys st;
      if late then Some (False, st) else map_option (Pair True) (runTicks sys st) })"
    unfolding post_simps(3) by (rule post_weaken [OF checkWaitAll_ok [OF assms]])
  then show ?thesis
    unfolding mainLoopRound_def using assms
    by (cases "procManGetProcessCount st = 0") (simp_all only: if_True if_False post_simps(2) prod.case simp_thms)
qed

section \<open>Booting\<close>

lemma bootTime_tbl [simp]: "tbl (bootTime sys st) = tbl st"
proof -
  obtain r1 st1 where 1: "rawMs sys st = (r1, st1)" by fastforce
  obtain r2 st2 where 2: "rawMs sys st1 = (r2, st2)" by fastforce
  obtain r3 st3 where 3: "rawMs sys st2 = (r3, st3)" by fastforce
  show ?thesis
    using rawMs_tbl [OF 1] rawMs_tbl [OF 2] rawMs_tbl [OF 3] by (simp add: bootTime_def 1 2 3)
qed

lemma boot_ok:
  assumes "length (pmProcesses st) = ProcManPidMax" "kernelBoot sys progmem logLevel st = Some (BootOk st')"
  shows "procManOk st'"
proof -
  obtain ok1 fs1 where 1: "bootPins (kFs st) = (ok1, fs1)" by fastforce
  define st1 where "st1 = bootTime sys (kernelSetState sys KernelStateBooting (st\<lparr>pmLogLevel := logLevel, kFs := fs1\<rparr>))"
  have "tbl st1 = tbl (st\<lparr>pmLogLevel := logLevel, kFs := fs1\<rparr>)" by (simp add: st1_def)
  then have len1: "pmProcesses st1 = pmProcesses st" by (simp add: tbl_def)
  from assms(2) 1 obtain ok2 st2 pid where
    2: "onFs (bootFileSystem sys progmem) (st1\<lparr>kFs := bootEeprom (kFs st1)\<rparr>) = Some (ok2, st2)"
    and 3: "procManProcessNew (seFs sys) initPath (procManInit st2) = Some (pid, st')"
    by (auto simp: kernelBoot_def Let_def bind_eq_Some_conv st1_def split: if_splits)
  have "pmProcesses st2 = pmProcesses st" using 2 len1 by (auto simp: onFs_def)
  then have "procManOk (procManInit st2)" using assms(1) by (simp add: procManInit_ok)
  with procManStep.New [OF 3] show ?thesis by (rule procManStep_ok)
qed

section \<open>The loop keeps the table\<close>

text \<open>C3: a round of the main loop, with the interrupt of the terminal, the ticks and the steps of a
  shutdown, keeps the invariant of the process table that booting establishes. The loop is only left
  when no process remains or while the kernel waits for the last one to end.\<close>

theorem main_loop_keeps_process_table:
  assumes "procManOk st" "mainLoopRound sys st = Some (again, st')"
  shows "procManOk st' \<and>
    (if again then True
     else procManGetProcessCount st' = 0 \<or> pmKernelState st' = KernelStateShuttingDownWaitInit)"
  using post_D [OF mainLoopRound_ok assms(2)] assms(1) by (auto simp: procManOk_of_tbl)

text \<open>Half a minute after the kernel has begun to wait for its last process, the loop is left.\<close>

definition exIdle :: "unit ProcMan" where
  "exIdle = (exProcMan [exProc 1 ProcManProcessStateActive])\<lparr>pmKernelState := KernelStateShuttingDownWaitInit,
     pmKernelStateTime := - 30000\<rparr>"

lemma exIdle_ok: "procManOk exIdle"
  using exRunning_ok by (simp add: exIdle_def exRunning_def procManOk_def)

lemma exIdle_round: "map_option fst (mainLoopRound (exSys 0) exIdle) = Some False"
  by code_simp

theorem main_loop_keeps_process_table_witness:
  "\<exists>st'. mainLoopRound (exSys 0) exIdle = Some (False, st') \<and> procManOk st'"
proof -
  obtain st' where st': "mainLoopRound (exSys 0) exIdle = Some (False, st')" using exIdle_round by auto
  with main_loop_keeps_process_table [OF exIdle_ok st'] show ?thesis by blast
qed

end
