(* ===== verification/KTimeProps.thy ===== *)
theory KTimeProps
  imports KTime
begin

text \<open>
  The dates of \<open>KTime\<close> against the calendar: the days of the years since 1970 and of the
  months before, counted one by one. The arithmetic of the source counts from the first of
  March in eras of 400 years; a finite check over the 400 years of an era and the 366 days of a
  year ties the two together.
\<close>

section \<open>The calendar\<close>

definition leapYear :: "nat \<Rightarrow> bool" where
  "leapYear y \<longleftrightarrow> 4 dvd y \<and> (100 dvd y \<longrightarrow> 400 dvd y)"

definition monthDays :: "nat \<Rightarrow> nat \<Rightarrow> nat" where
  "monthDays y m = (if m = 2 then (if leapYear y then 29 else 28)
     else if m \<in> {4, 6, 9, 11} then 30 else 31)"

definition yearDays :: "nat \<Rightarrow> nat" where
  "yearDays y = (if leapYear y then 366 else 365)"

text \<open>The days from the first of January 1970 to a date.\<close>

definition calendarDays :: "nat \<Rightarrow> nat \<Rightarrow> nat \<Rightarrow> nat" where
  "calendarDays y m d = sum_list (map yearDays [1970..<y]) + sum_list (map (monthDays y) [1..<m]) + (d - 1)"

text \<open>The days from the first of March of year 0 to the first of March of a year.\<close>

definition marchDays :: "nat \<Rightarrow> nat" where
  "marchDays y = 365 * y + y div 4 - y div 100 + y div 400"

lemma leap_count:
  fixes A B C X :: nat
  assumes "B \<le> X + A" "p400 \<Longrightarrow> p100" "p100 \<Longrightarrow> p4"
  shows "365 + X + (A + (if p4 then 1 else 0)) - (B + (if p100 then 1 else 0)) +
      (C + (if p400 then 1 else 0)) =
    X + A - B + C + (if p4 \<and> (p100 \<longrightarrow> p400) then 366 else 365)"
proof -
  obtain k where k: "X + A = B + k" using assms(1) by (metis le_add_diff_inverse)
  have "365 + X + (A + n) - (B + m) + l = k + (365 + n - m) + l" if "m \<le> 365 + n" for n m l
    using k that by linarith
  then show ?thesis using k assms(2,3) by (cases p4; cases p100; cases p400) simp_all
qed

lemma marchDays_Suc: "marchDays (Suc y) = marchDays y + yearDays (Suc y)"
proof -
  have a: "Suc y div 4 = y div 4 + (if 4 dvd Suc y then 1 else 0)"
    "Suc y div 100 = y div 100 + (if 100 dvd Suc y then 1 else 0)"
    "Suc y div 400 = y div 400 + (if 400 dvd Suc y then 1 else 0)"
    unfolding div_Suc dvd_eq_mod_eq_0 by (simp_all only: split: if_split) simp_all
  have b: "400 dvd Suc y \<Longrightarrow> 100 dvd Suc y" "100 dvd Suc y \<Longrightarrow> 4 dvd Suc y"
    using dvd_trans [of 100 400 "Suc y"] dvd_trans [of 4 100 "Suc y"] by simp_all
  have c: "y div 100 \<le> 365 * y + y div 4" by simp
  show ?thesis unfolding marchDays_def yearDays_def leapYear_def a mult_Suc_right using c b by (rule leap_count)
qed

lemma marchDays_mono: "a \<le> b \<Longrightarrow> marchDays a \<le> marchDays b"
  by (rule lift_Suc_mono_le [of marchDays]) (simp_all add: marchDays_Suc)

lemma years_1970: "1970 \<le> y \<Longrightarrow> sum_list (map yearDays [1970..<y]) + 719468 = marchDays (y - 1) + 306"
proof (induction y rule: nat_induct_at_least)
  case base
  show ?case by (simp add: marchDays_def)
next
  case (Suc y)
  then obtain x where x: "y = Suc x" by (cases y) auto
  show ?case using Suc marchDays_Suc [of x] unfolding x by simp
qed

section \<open>The year of an era\<close>

definition yoeOf :: "int \<Rightarrow> int" where
  "yoeOf d = d - d div 1460 + d div 36524 - d div 146096"

definition yearStart :: "int \<Rightarrow> int" where
  "yearStart n = (if n = 400 then 146097 else 365 * n + n div 4 - n div 100)"

lemma year_starts: "\<forall>n\<in>set [0..399]. 365 * n \<le> yoeOf (yearStart n) \<and> yoeOf (yearStart (n + 1) - 1) < 365 * (n + 1)"
  by code_simp

lemma div_step: "0 < k \<Longrightarrow> (d + 1) div k = d div k + (if k dvd d + 1 then 1 else (0::int))"
proof -
  assume k: "0 < k"
  have r: "d = k * (d div k) + d mod k" "0 \<le> d mod k" "d mod k < k" using k by simp_all
  show ?thesis
  proof (cases "d mod k = k - 1")
    case True
    then have "d + 1 = k * (d div k) + k" using r(1) by linarith
    then have e: "d + 1 = k * (d div k + 1)" by (simp only: distrib_left mult_1_right)
    then have "k dvd d + 1" by (metis dvd_triv_left)
    then show ?thesis using k e by (metis nonzero_mult_div_cancel_left less_irrefl)
  next
    case False
    then have l: "d mod k + 1 < k" using r(3) by linarith
    have e: "d + 1 = k * (d div k) + (d mod k + 1)" using r(1) by linarith
    have "(d + 1) mod k = d mod k + 1" "(d + 1) div k = d div k"
      using l r(2) e by (metis int_mod_pos_eq add_nonneg_nonneg zero_le_one, metis int_div_pos_eq add_nonneg_nonneg zero_le_one)
    moreover from this r(2) have "\<not> k dvd d + 1" by (simp add: dvd_eq_mod_eq_0)
    ultimately show ?thesis by simp
  qed
qed

lemma yoeOf_mono: "a \<le> b \<Longrightarrow> yoeOf a \<le> yoeOf b"
proof (induction b rule: int_ge_induct)
  case (step i)
  have "(146096 :: int) dvd i + 1 \<Longrightarrow> 36524 dvd i + 1" using dvd_trans [of 36524 146096 "i + 1"] by simp
  then have "yoeOf i \<le> yoeOf (i + 1)" by (simp add: yoeOf_def div_step)
  then show ?case using step by simp
qed simp


lemma year_of_era:
  assumes "0 \<le> d" "d < 146097"
  defines "n \<equiv> yoeOf d div 365"
  shows "0 \<le> n" "n < 400" "365 * n + n div 4 - n div 100 \<le> d" "d < yearStart (n + 1)"
proof -
  have e: "yoeOf 0 = 0" "yoeOf 146096 = 145999" by (simp_all add: yoeOf_def)
  have f: "0 \<le> yoeOf d" "yoeOf d \<le> 145999"
    using yoeOf_mono [of 0 d] yoeOf_mono [of d 146096] assms(1,2) e by simp_all
  then show n: "0 \<le> n" "n < 400" unfolding n_def by simp_all
  have b: "365 * n \<le> yoeOf d" "yoeOf d < 365 * (n + 1)" unfolding n_def by simp_all
  show "365 * n + n div 4 - n div 100 \<le> d"
  proof (rule ccontr)
    assume c: "\<not> ?thesis"
    with assms(1) have "n \<noteq> 0" by (intro notI) simp
    then have m: "n - 1 \<in> set [0..399]" using n by simp
    have "d \<le> yearStart n - 1" using c n unfolding yearStart_def by simp
    then have "yoeOf d \<le> yoeOf (yearStart n - 1)" by (rule yoeOf_mono)
    moreover have "yoeOf (yearStart n - 1) < 365 * n" using year_starts m by fastforce
    ultimately show False using b(1) by simp
  qed
  show "d < yearStart (n + 1)"
  proof (rule ccontr)
    assume c: "\<not> ?thesis"
    show False
    proof (cases "n = 399")
      case True
      then show False using c assms(2) by (simp add: yearStart_def)
    next
      case False
      then have "n + 1 \<in> set [0..399]" using n by simp
      then have "365 * (n + 1) \<le> yoeOf (yearStart (n + 1))" using year_starts by fastforce
      also have "\<dots> \<le> yoeOf d" using c by (intro yoeOf_mono) simp
      finally show False using b(2) by simp
    qed
  qed
qed

lemma month_table:
  "\<forall>doy\<in>set [0..365]. let mp = (5 * doy + 2) div 153; d = doy - (153 * mp + 2) div 5 + 1 in
     0 \<le> mp \<and> mp \<le> 11 \<and> 1 \<le> d \<and>
     d \<le> (if mp = 11 then 29 else if mp \<in> {1, 3, 6, 8} then 30 else 31) \<and>
     (mp = 11 \<longrightarrow> d = 29 \<longrightarrow> doy = 365)"
  by code_simp


section \<open>The day of a year\<close>

definition yearOfEra :: "int \<Rightarrow> int" where "yearOfEra d = yoeOf d div 365"

definition dayOfYear :: "int \<Rightarrow> int" where
  "dayOfYear d = d - (365 * yearOfEra d + yearOfEra d div 4 - yearOfEra d div 100)"

lemma day_of_year:
  assumes "0 \<le> n" "n < 400" "365 * n + n div 4 - n div 100 \<le> d" "d < yearStart (n + 1)"
  defines "doy \<equiv> d - (365 * n + n div 4 - n div 100)"
  shows "0 \<le> doy" "doy \<le> 365" "doy = 365 \<Longrightarrow> 0 \<le> e \<Longrightarrow> leapYear (nat (n + e * 400 + 1))"
proof -
  show "0 \<le> doy" using assms(3) unfolding doy_def by simp
  have a: "n = 399 \<or> yearStart (n + 1) = 365 * (n + 1) + (n + 1) div 4 - (n + 1) div 100"
    by (auto simp: yearStart_def)
  have b: "(n + 1) div 4 = n div 4 + (if 4 dvd n + 1 then 1 else 0)"
    "(n + 1) div 100 = n div 100 + (if 100 dvd n + 1 then 1 else 0)"
    by (simp_all add: div_step)
  show "doy \<le> 365"
    using a assms(4) unfolding doy_def by (auto simp: b yearStart_def split: if_splits)
  assume l: "doy = 365" and e: "0 \<le> e"
  have "leapYear (nat (n + 1))"
  proof (cases "n = 399")
    case False
    then have "4 dvd n + 1 \<and> \<not> 100 dvd n + 1"
      using a assms(4) l unfolding doy_def b by (auto split: if_splits)
    then have "4 dvd nat (n + 1) \<and> \<not> 100 dvd nat (n + 1)"
      using assms(1) by (simp add: nat_dvd_iff dvd_nat_abs_iff flip: int_dvd_int_iff)
    then show ?thesis by (simp add: leapYear_def)
  qed (simp add: leapYear_def)
  moreover have "nat (n + e * 400 + 1) = nat (n + 1) + nat e * 400"
    using assms(1) e by (simp add: nat_add_distrib nat_mult_distrib)
  moreover have "leapYear (k + j * 400) = leapYear k" for k j :: nat
    unfolding leapYear_def by (simp add: dvd_add_left_iff)
  ultimately show "leapYear (nat (n + e * 400 + 1))" by simp
qed

lemma marchDays_era:
  assumes "n < 400"
  shows "marchDays (n + e * 400) + n div 100 = e * 146097 + 365 * n + n div 4"
proof -
  have "(n + e * 400) div 4 = n div 4 + e * 100" "(n + e * 400) div 100 = n div 100 + e * 4"
    "(n + e * 400) div 400 = e"
    using assms div_mult_self1 [of 4 n "e * 100"] div_mult_self1 [of 100 n "e * 4"] by simp_all
  then show ?thesis unfolding marchDays_def by simp
qed

lemma sum_upt_Suc: "1 \<le> j \<Longrightarrow> sum_list (map f [1..<Suc j]) = sum_list (map f [1..<j]) + (f j :: nat)"
  by simp

lemma month_days_before:
  "k < 10 \<Longrightarrow> sum_list (map (monthDays y) [1..<k + 3]) = 59 + (if leapYear y then 1 else 0) + (153 * k + 2) div 5"
proof (induction k)
  case 0
  show ?case by (simp add: monthDays_def upt_rec)
next
  case (Suc k)
  have "\<forall>k\<in>{0, 1, 2, 3, 4, 5, 6, 7, 8}. (153 * Suc k + 2) div 5 = (153 * k + 2) div 5 + monthDays y (k + 3)"
    by (simp add: monthDays_def)
  moreover have "k \<in> {0, 1, 2, 3, 4, 5, 6, 7, 8}" using Suc.prems by simp arith
  ultimately have "(153 * Suc k + 2) div 5 = (153 * k + 2) div 5 + monthDays y (k + 3)" by (rule bspec)
  then show ?case using Suc sum_upt_Suc [of "k + 3" "monthDays y"] by simp
qed

definition marchMonth :: "nat \<Rightarrow> nat" where "marchMonth doy = (5 * doy + 2) div 153"

definition civilMonth :: "nat \<Rightarrow> nat" where
  "civilMonth doy = (if marchMonth doy < 10 then marchMonth doy + 3 else marchMonth doy - 9)"

definition civilDay :: "nat \<Rightarrow> nat" where
  "civilDay doy = doy - (153 * marchMonth doy + 2) div 5 + 1"

definition civilYear :: "nat \<Rightarrow> nat \<Rightarrow> nat" where
  "civilYear Y doy = Y + (if civilMonth doy \<le> 2 then 1 else 0)"

lemma marchMonth_bounds: "(153 * marchMonth doy + 2) div 5 \<le> doy" "doy \<le> 365 \<Longrightarrow> marchMonth doy \<le> 11"
  by (simp_all add: marchMonth_def)

lemma civilMonth_range: "doy \<le> 365 \<Longrightarrow> 1 \<le> civilMonth doy \<and> civilMonth doy \<le> 12"
  using marchMonth_bounds(2) [of doy] by (auto simp: civilMonth_def)

lemma civilDay_table:
  assumes "doy \<le> 365"
  shows "civilDay doy \<le> (if marchMonth doy = 11 then 29 else if marchMonth doy \<in> {1, 3, 6, 8} then 30 else 31)"
    "marchMonth doy = 11 \<longrightarrow> civilDay doy = 29 \<longrightarrow> doy = 365"
proof -
  define mp where "mp = marchMonth doy"
  have "int doy \<in> set [0..365]" using assms by simp
  moreover have mpi: "(5 * int doy + 2) div 153 = int mp" by (simp add: mp_def marchMonth_def zdiv_int)
  ultimately have T:
    "int doy - (153 * int mp + 2) div 5 + 1 \<le> (if int mp = 11 then 29 else if int mp \<in> {1, 3, 6, 8} then 30 else 31)"
    "int mp = 11 \<longrightarrow> int doy - (153 * int mp + 2) div 5 + 1 = 29 \<longrightarrow> int doy = 365"
    using bspec [OF month_table, of "int doy"] unfolding Let_def mpi by blast+
  have d: "int (civilDay doy) = int doy - (153 * int mp + 2) div 5 + 1"
    unfolding civilDay_def mp_def using marchMonth_bounds(1) [of doy] by (simp add: of_nat_diff zdiv_int)
  show "civilDay doy \<le> (if marchMonth doy = 11 then 29 else if marchMonth doy \<in> {1, 3, 6, 8} then 30 else 31)"
    using T(1) unfolding d [symmetric] unfolding mp_def by (auto split: if_splits)
  show "marchMonth doy = 11 \<longrightarrow> civilDay doy = 29 \<longrightarrow> doy = 365"
    using T(2) unfolding d [symmetric] unfolding mp_def by simp
qed

lemma civilDay_valid:
  assumes "doy \<le> 365" "doy = 365 \<Longrightarrow> leapYear (Suc Y)"
  shows "1 \<le> civilDay doy" "civilDay doy \<le> monthDays (civilYear Y doy) (civilMonth doy)"
proof -
  show "1 \<le> civilDay doy" by (simp add: civilDay_def)
  note t = civilDay_table [OF assms(1)]
  show "civilDay doy \<le> monthDays (civilYear Y doy) (civilMonth doy)"
  proof (cases "marchMonth doy = 11")
    case True
    then have "civilMonth doy = 2" "civilYear Y doy = Suc Y" by (simp_all add: civilMonth_def civilYear_def)
    then show ?thesis using t True assms(2) by (cases "civilDay doy = 29") (auto simp: monthDays_def)
  next
    case False
    then show ?thesis using t marchMonth_bounds(2) [OF assms(1)]
      unfolding civilMonth_def monthDays_def by (auto split: if_splits)
  qed
qed

lemma calendar_of_march:
  assumes "doy \<le> 365" "1970 \<le> civilYear Y doy"
  shows "calendarDays (civilYear Y doy) (civilMonth doy) (civilDay doy) + 719468 = marchDays Y + doy"
proof -
  note le = marchMonth_bounds(1) [of doy]
  have y: "sum_list (map yearDays [1970..<civilYear Y doy]) + 719468 = marchDays (civilYear Y doy - 1) + 306"
    using assms(2) by (rule years_1970)
  show ?thesis
  proof (cases "marchMonth doy < 10")
    case True
    then have m: "civilMonth doy = marchMonth doy + 3" "civilYear Y doy = Y"
      by (simp_all add: civilMonth_def civilYear_def)
    obtain x where x: "Y = Suc x" using assms(2) m(2) by (cases Y) auto
    have "marchDays Y = marchDays x + (if leapYear Y then 366 else 365)"
      unfolding x marchDays_Suc yearDays_def ..
    then show ?thesis using y le month_days_before [OF True, of Y]
      unfolding calendarDays_def m civilDay_def by (simp add: x)
  next
    case False
    then have c: "marchMonth doy = 10 \<or> marchMonth doy = 11" "civilYear Y doy = Suc Y" "civilMonth doy = marchMonth doy - 9"
      using marchMonth_bounds(2) [OF assms(1)] by (auto simp: civilMonth_def civilYear_def)
    moreover have "sum_list (map (monthDays k) [1..<1]) = 0" "sum_list (map (monthDays k) [1..<2]) = 31" for k
      by (simp_all add: monthDays_def upt_rec [of "Suc 0" 2])
    ultimately show ?thesis using y le unfolding calendarDays_def civilDay_def by (elim disjE) simp_all
  qed
qed

section \<open>Days as dates\<close>

definition marchYear :: "int \<Rightarrow> nat" where
  "marchYear z = nat (yearOfEra (z mod 146097)) + nat (z div 146097) * 400"

definition marchDay :: "int \<Rightarrow> nat" where "marchDay z = nat (dayOfYear (z mod 146097))"

lemma era_split:
  fixes z :: int
  assumes "0 \<le> z" "z < 2 ^ 32"
  shows "0 \<le> z mod 146097" "z mod 146097 < 146097" "0 \<le> z div 146097" "z div 146097 < 29400"
    "z = z div 146097 * 146097 + z mod 146097"
  using assms by simp_all

lemma year_of_day:
  assumes "0 \<le> d" "d < 146097"
  shows "0 \<le> yearOfEra d" "yearOfEra d < 400"
    "365 * yearOfEra d + yearOfEra d div 4 - yearOfEra d div 100 \<le> d" "d < yearStart (yearOfEra d + 1)"
    "0 \<le> dayOfYear d" "dayOfYear d \<le> 365"
    "dayOfYear d = 365 \<Longrightarrow> 0 \<le> e \<Longrightarrow> leapYear (nat (yearOfEra d + e * 400 + 1))"
proof -
  note n = year_of_era [OF assms, folded yearOfEra_def]
  show "0 \<le> yearOfEra d" "yearOfEra d < 400"
    "365 * yearOfEra d + yearOfEra d div 4 - yearOfEra d div 100 \<le> d" "d < yearStart (yearOfEra d + 1)"
    by (fact n)+
  show "0 \<le> dayOfYear d" "dayOfYear d \<le> 365"
    "dayOfYear d = 365 \<Longrightarrow> 0 \<le> e \<Longrightarrow> leapYear (nat (yearOfEra d + e * 400 + 1))"
    by (fact day_of_year [OF n, folded dayOfYear_def])+
qed

lemma march_of_day:
  assumes "0 \<le> z" "z < 2 ^ 32"
  shows "marchDays (marchYear z) + marchDay z = nat z" "nat z < marchDays (Suc (marchYear z))"
proof -
  define e d where "e = z div 146097" and "d = z mod 146097"
  note de = era_split [OF assms, folded e_def d_def]
  note n = year_of_day [OF de(1,2)]
  have era: "int (marchDays (nat k + nat e * 400)) = e * 146097 + 365 * k + k div 4 - k div 100"
    if "0 \<le> k" "k < 400" for k
  proof -
    have "nat k < 400" using that by simp
    from marchDays_era [OF this, of "nat e", THEN arg_cong [of _ _ int]]
    show ?thesis using that de(3) by (simp add: zdiv_int)
  qed
  show "marchDays (marchYear z) + marchDay z = nat z"
    using era [OF n(1,2)] n(3,5) assms(1) de(5)
    unfolding marchYear_def marchDay_def dayOfYear_def e_def [symmetric] d_def [symmetric] by linarith
  show "nat z < marchDays (Suc (marchYear z))"
  proof (cases "yearOfEra d = 399")
    case True
    then have "Suc (marchYear z) = 0 + Suc (nat e) * 400" unfolding marchYear_def e_def d_def by simp
    then have "marchDays (Suc (marchYear z)) = Suc (nat e) * 146097" using marchDays_era [of 0 "Suc (nat e)"] by simp
    then show ?thesis using de assms(1) by simp
  next
    case False
    then have "Suc (marchYear z) = nat (yearOfEra d + 1) + nat e * 400"
      using n(1) unfolding marchYear_def e_def d_def by simp
    then have "int (marchDays (Suc (marchYear z))) = e * 146097 + yearStart (yearOfEra d + 1)"
      using era [of "yearOfEra d + 1"] n False by (simp add: yearStart_def)
    then show ?thesis using n(4) de assms(1) by linarith
  qed
qed

lemma marchDay_valid:
  assumes "0 \<le> z" "z < 2 ^ 32"
  shows "marchDay z \<le> 365" "marchDay z = 365 \<Longrightarrow> leapYear (Suc (marchYear z))" "marchYear z < 2 ^ 30"
proof -
  note de = era_split [OF assms]
  note n = year_of_day [OF de(1,2)]
  show "marchDay z \<le> 365" using n(6) by (simp add: marchDay_def)
  show "leapYear (Suc (marchYear z))" if "marchDay z = 365"
  proof -
    have "dayOfYear (z mod 146097) = 365" using that n(5) by (simp add: marchDay_def)
    from n(7) [OF this de(3)] show ?thesis
      using n(1) de(3) by (simp add: marchYear_def nat_add_distrib nat_mult_distrib)
  qed
  have "nat (yearOfEra (z mod 146097)) < 400" "nat (z div 146097) < 29400" using n(2) de(4) by simp_all
  then show "marchYear z < 2 ^ 30" by (simp add: marchYear_def)
qed

lemma civil_from_1970:
  assumes "719468 \<le> z" "z < 2 ^ 32"
  shows "1970 \<le> civilYear (marchYear z) (marchDay z)"
proof (rule ccontr)
  assume c: "\<not> ?thesis"
  then have Y: "marchYear z \<le> 1969" by (simp add: civilYear_def)
  have z: "0 \<le> z" using assms(1) by simp
  note m = march_of_day [OF z assms(2)]
  show False
  proof (cases "marchYear z = 1969")
    case True
    then have "306 \<le> marchDay z" using m(1) assms(1) by (simp add: marchDays_def)
    then have "10 \<le> marchMonth (marchDay z)" by (simp add: marchMonth_def)
    then have "civilMonth (marchDay z) \<le> 2"
      using marchMonth_bounds(2) [OF marchDay_valid(1) [OF z assms(2)]] by (simp add: civilMonth_def)
    then show False using c True by (simp add: civilYear_def)
  next
    case False
    then have "marchDays (Suc (marchYear z)) \<le> marchDays 1969" using Y by (intro marchDays_mono) simp
    then show False using m(2) assms(1) by (simp add: marchDays_def)
  qed
qed

section \<open>The words of the source\<close>

lemma of_int_div32:
  assumes "0 \<le> a" "a < 2 ^ 32" "0 \<le> b" "b < 2 ^ 32"
  shows "(of_int a :: u32) div of_int b = of_int (a div b)"
  using assms by (simp add: word_div_def uint_word_of_int_eq take_bit_int_eq_self)

lemma of_int_less32:
  assumes "0 \<le> a" "a < 2 ^ 32" "0 \<le> b" "b < 2 ^ 32"
  shows "(of_int a :: u32) < of_int b \<longleftrightarrow> a < b"
  using assms by (simp add: word_less_def uint_word_of_int_eq take_bit_int_eq_self)

lemma unat_field8: "k < 256 \<Longrightarrow> unat (ucast (of_nat k :: u32) :: u8) = k"
  by (simp add: unsigned_ucast_eq unat_of_nat take_bit_nat_eq_self)

lemma unat_of_nat32: "k < 2 ^ 32 \<Longrightarrow> unat (of_nat k :: u32) = k"
  by (simp add: unat_of_nat)

lemma div32:
  "0 \<le> a \<Longrightarrow> a < 2 ^ 32 \<Longrightarrow> numeral b < (2 ^ 32 :: int) \<Longrightarrow> (of_int a :: u32) div numeral b = of_int (a div numeral b)"
  using of_int_div32 [of a "numeral b"] by simp

lemma word_year:
  assumes "0 \<le> d" "d < 146097"
  shows "((of_int d :: u32) - of_int d div 1460 + of_int d div 36524 - of_int d div 146096) div 365 = of_int (yearOfEra d)"
    "(of_int d :: u32) - (365 * of_int (yearOfEra d) + of_int (yearOfEra d) div 4 - of_int (yearOfEra d) div 100)
      = of_nat (nat (dayOfYear d))"
proof -
  have "(of_int d :: u32) - of_int d div 1460 + of_int d div 36524 - of_int d div 146096 = of_int (yoeOf d)"
    unfolding yoeOf_def using assms by (simp add: div32)
  moreover have "0 \<le> yoeOf d" "yoeOf d < 2 ^ 32"
    using yoeOf_mono [of 0 d] yoeOf_mono [of d 146096] assms by (simp_all add: yoeOf_def)
  ultimately show "((of_int d :: u32) - of_int d div 1460 + of_int d div 36524 - of_int d div 146096) div 365 = of_int (yearOfEra d)"
    unfolding yearOfEra_def using div32 [of "yoeOf d"] by simp
  note n = year_of_day [OF assms]
  show "(of_int d :: u32) - (365 * of_int (yearOfEra d) + of_int (yearOfEra d) div 4 - of_int (yearOfEra d) div 100)
      = of_nat (nat (dayOfYear d))"
    using n(1,2,5) by (simp add: div32 dayOfYear_def)
qed

lemma word_month:
  assumes "doy \<le> 365"
  shows "(5 * of_nat doy + 2 :: u32) div 153 = of_nat (marchMonth doy)"
    "(of_nat doy :: u32) - (153 * of_nat (marchMonth doy) + 2) div 5 + 1 = of_nat (civilDay doy)"
    "(of_nat (marchMonth doy) :: u32) + (if (of_nat (marchMonth doy) :: u32) < 10 then 3 else - 9) = of_nat (civilMonth doy)"
    "(of_nat (civilMonth doy) :: u32) \<le> 2 \<longleftrightarrow> civilMonth doy \<le> 2"
proof -
  have mpi: "int (marchMonth doy) = (5 * int doy + 2) div 153" by (simp add: marchMonth_def zdiv_int)
  have "(of_int (5 * int doy + 2) :: u32) div 153 = of_int ((5 * int doy + 2) div 153)"
    using assms by (intro div32) simp_all
  then show "(5 * of_nat doy + 2 :: u32) div 153 = of_nat (marchMonth doy)"
    unfolding mpi [symmetric] by simp
  note mp = marchMonth_bounds [of doy]
  have d5: "(of_int (153 * int (marchMonth doy) + 2) :: u32) div 5 = of_int ((153 * int (marchMonth doy) + 2) div 5)"
    using mp assms by (intro div32) simp_all
  have c: "(of_int (153 * int (marchMonth doy) + 2) :: u32) = 153 * of_nat (marchMonth doy) + 2" by simp
  have "int (civilDay doy) = int doy - (153 * int (marchMonth doy) + 2) div 5 + 1"
    unfolding civilDay_def using mp(1) by (simp add: of_nat_diff zdiv_int)
  then have "(of_int (int (civilDay doy)) :: u32) = of_int (int doy) - of_int ((153 * int (marchMonth doy) + 2) div 5) + 1"
    by (simp only: of_int_add of_int_diff of_int_1)
  then show "(of_nat doy :: u32) - (153 * of_nat (marchMonth doy) + 2) div 5 + 1 = of_nat (civilDay doy)"
    unfolding d5 [symmetric] c of_int_of_nat_eq by (rule sym)
  show "(of_nat (marchMonth doy) :: u32) + (if (of_nat (marchMonth doy) :: u32) < 10 then 3 else - 9) = of_nat (civilMonth doy)"
    using mp(2) [OF assms] of_int_less32 [of "int (marchMonth doy)" 10] unfolding civilMonth_def by (simp add: of_nat_diff)
  show "(of_nat (civilMonth doy) :: u32) \<le> 2 \<longleftrightarrow> civilMonth doy \<le> 2"
    using civilMonth_range [OF assms] of_int_less32 [of 2 "int (civilMonth doy)"] by (simp add: not_less [symmetric])
qed

lemma word_date:
  assumes "uint t div 86400000 < 4294247828"
  defines "z \<equiv> uint t div 86400000 + 719468" and "dt \<equiv> ktimeTimeMsToDate t"
  shows "unat (kdYear dt) = civilYear (marchYear z) (marchDay z)"
    "unat (kdMonth dt) = civilMonth (marchDay z)" "unat (kdDay dt) = civilDay (marchDay z)"
proof -
  have "0 \<le> uint t div 86400000" by (simp add: pos_imp_zdiv_nonneg_iff)
  then have z: "0 \<le> z" "z < 2 ^ 32" using assms(1) by (simp_all add: z_def)
  note de = era_split [OF z]
  note doy = marchDay_valid [OF z]
  have "uint ((t div 1000) div 86400) = uint t div 86400000"
    by (simp add: uint_div_distrib zdiv_zmult2_eq)
  then have w1: "ucast ((t div 1000) div 86400) + 719468 = (of_int z :: u32)"
    unfolding z_def by (simp add: ucast_eq)
  have w2: "(of_int z :: u32) div 146097 = of_int (z div 146097)" using z by (simp add: div32)
  have "z - z div 146097 * 146097 = z mod 146097" using de(5) by linarith
  then have w3: "(of_int z :: u32) - of_int (z div 146097) * 146097 = of_int (z mod 146097)"
    by (metis of_int_diff of_int_mult of_int_numeral)
  note w = word_year [OF de(1,2), folded marchDay_def] word_month [OF doy(1)]
  have w5: "(of_int (yearOfEra (z mod 146097)) :: u32) + of_int (z div 146097) * 400 +
      (if civilMonth (marchDay z) \<le> 2 then 1 else 0) = of_nat (civilYear (marchYear z) (marchDay z))"
    unfolding civilYear_def marchYear_def using year_of_day(1) [OF de(1,2)] de(3) by simp
  have f: "kdYear dt = of_nat (civilYear (marchYear z) (marchDay z))"
    "kdMonth dt = ucast (of_nat (civilMonth (marchDay z)) :: u32)"
    "kdDay dt = ucast (of_nat (civilDay (marchDay z)) :: u32)"
    unfolding dt_def ktimeTimeMsToDate_def Let_def w1 w2 w3 w w5 by simp_all
  have "monthDays y m \<le> 31" for y m by (simp add: monthDays_def)
  with civilDay_valid(2) [OF doy(1,2)] have D: "civilDay (marchDay z) \<le> 31" by (rule order_trans)
  have "civilYear (marchYear z) (marchDay z) < 2 ^ 32" using doy(3) by (simp add: civilYear_def)
  then show "unat (kdYear dt) = civilYear (marchYear z) (marchDay z)"
    "unat (kdMonth dt) = civilMonth (marchDay z)" "unat (kdDay dt) = civilDay (marchDay z)"
    unfolding f using civilMonth_range [OF doy(1)] D by (simp_all add: unat_field8 unat_of_nat32)
qed

lemma unat_mod_field:
  assumes "unat k \<le> 2 ^ LENGTH('a)" "0 < unat k"
  shows "unat (ucast (x mod k :: u64) :: 'a::len word) = unat x mod unat k"
proof -
  have "unat x mod unat k < 2 ^ LENGTH('a)"
    using assms by (intro less_le_trans [OF mod_less_divisor])
  then show ?thesis by (simp add: unsigned_ucast_eq unat_mod_distrib take_bit_nat_eq_self)
qed

lemma word_time:
  "unat (kdHour (ktimeTimeMsToDate t)) = unat t div 3600000 mod 24"
  "unat (kdMinute (ktimeTimeMsToDate t)) = unat t div 60000 mod 60"
  "unat (kdSecond (ktimeTimeMsToDate t)) = unat t div 1000 mod 60"
  "unat (kdMs (ktimeTimeMsToDate t)) = unat t mod 1000"
  unfolding ktimeTimeMsToDate_def Let_def
  by (simp_all add: unat_mod_field unat_div_distrib div_mult2_eq [symmetric])

lemma split_time:
  fixes t :: nat
  shows "t = (((t div 86400000 * 24 + t div 3600000 mod 24) * 60 + t div 60000 mod 60) * 60
      + t div 1000 mod 60) * 1000 + t mod 1000"
proof -
  define s m h where "s = t div 1000" and "m = s div 60" and "h = m div 60"
  have d: "t div 86400000 = h div 24" "t div 3600000 = h" "t div 60000 = m"
    unfolding h_def m_def s_def by (simp_all add: div_mult2_eq [symmetric])
  have "h div 24 * 24 + h mod 24 = h" "h * 60 + m mod 60 = m" "m * 60 + s mod 60 = s" "s * 1000 + t mod 1000 = t"
    unfolding h_def m_def s_def by (rule div_mult_mod_eq)+
  then show ?thesis unfolding d s_def [symmetric] by simp
qed

text \<open>C23: the date computed from a time is a date of the Gregorian calendar, and counting the
  days of the years since 1970 and of the months before it, and then the hours, minutes, seconds
  and milliseconds, gives the time back; up to the day whose number overflows 32 bits.\<close>

theorem time_to_date_is_calendar:
  assumes "unat t div 86400000 < 4294247828"
  shows "let dt = ktimeTimeMsToDate t; y = unat (kdYear dt); m = unat (kdMonth dt); d = unat (kdDay dt) in
    1970 \<le> y \<and> 1 \<le> m \<and> m \<le> 12 \<and> 1 \<le> d \<and> d \<le> monthDays y m \<and>
    unat (kdHour dt) < 24 \<and> unat (kdMinute dt) < 60 \<and> unat (kdSecond dt) < 60 \<and> unat (kdMs dt) < 1000 \<and>
    unat t = (((calendarDays y m d * 24 + unat (kdHour dt)) * 60 + unat (kdMinute dt)) * 60
      + unat (kdSecond dt)) * 1000 + unat (kdMs dt)"
proof -
  define z where "z = uint t div 86400000 + 719468"
  have ut: "uint t div 86400000 = int (unat t div 86400000)" by (simp only: uint_nat zdiv_int of_nat_numeral)
  have t0: "0 \<le> uint t div 86400000" unfolding ut by (rule of_nat_0_le_iff)
  have zt: "nat z = unat t div 86400000 + 719468"
  proof -
    have "nat (int k + 719468) = k + 719468" for k by simp
    then show ?thesis unfolding z_def ut .
  qed
  have u: "uint t div 86400000 < 4294247828"
    using assms unfolding ut by (simp only: of_nat_less_numeral_iff)
  then have z: "719468 \<le> z" "0 \<le> z" "z < 2 ^ 32" using t0 by (simp_all add: z_def)
  note doy = marchDay_valid [OF z(2,3)]
  note y = civil_from_1970 [OF z(1,3)]
  have c: "calendarDays (civilYear (marchYear z) (marchDay z)) (civilMonth (marchDay z)) (civilDay (marchDay z))
      = unat t div 86400000"
    using calendar_of_march [OF doy(1) y] march_of_day(1) [OF z(2,3)] zt by simp
  have t: "unat t = (((unat t div 86400000 * 24 + unat t div 3600000 mod 24) * 60 + unat t div 60000 mod 60) * 60
      + unat t div 1000 mod 60) * 1000 + unat t mod 1000"
    by (rule split_time)
  show ?thesis
    unfolding Let_def word_date [OF u, folded z_def] word_time c t [symmetric]
    using y civilMonth_range [OF doy(1)] civilDay_valid [OF doy(1,2)] by simp
qed

text \<open>The leap day of the year 2000, one millisecond before midnight.\<close>

theorem time_to_date_is_calendar_witness:
  "let dt = ktimeTimeMsToDate 951868799999; y = unat (kdYear dt); m = unat (kdMonth dt); d = unat (kdDay dt) in
    d \<le> monthDays y m \<and> kdYear dt = 2000 \<and> kdMonth dt = 2 \<and> kdDay dt = 29 \<and> kdMs dt = 999"
proof -
  have "ktimeTimeMsToDate 951868799999 =
      \<lparr>kdYear = 2000, kdMonth = 2, kdDay = 29, kdHour = 23, kdMinute = 59, kdSecond = 59, kdMs = 999\<rparr>"
    by code_simp
  then show ?thesis using time_to_date_is_calendar [of 951868799999] by (simp add: Let_def)
qed

end
