(* ===== verification/Emulator.thy ===== *)
theory Emulator
  imports Bytecode Util "HOL-Library.Monad_Syntax"
begin

text \<open>
  \<open>src/tools/emulator/emulator.c\<close>, first part: the host program that runs one bytecode file. Its
  process has the registers and the memory in one structure, and its memory and ALU instructions
  are written anew, apart from the kernel's. \<open>None\<close> stands for behaviour C leaves undefined,
  which is an access outside the memory array. A result \<open>False\<close> ends the program. The options that
  print what is executed are left out.
\<close>

record ProcessEnvVars =
  evArgc :: nat
  evPwd :: u16
  evPath :: u16

text \<open>The state \<open>Process\<close> with the globals beside it. The memory is an array of
  \<open>BytecodeMemoryTotalSize\<close> bytes, a function of the index.\<close>

record 'w Emulator =
  emRegs :: "u16 list"
  emMemory :: "nat \<Rightarrow> u8"
  emSkipCounter :: u32
  emInstructionCount :: u32
  emPid :: u16
  emEnvVars :: ProcessEnvVars
  emExitStatus :: int
  emBootTimeMs :: u64
  emHost :: 'w

text \<open>What the emulator takes from outside: the bytes of an uninitialised instruction and its
  decoded form, an option of the command line, standard input and output, a rest of some seconds and
  the clock of the host, and what \<open>memcmp\<close> and \<open>strcmp\<close> return when the first bytes that differ
  are these, of which C fixes only the sign.\<close>

record 'w EmulatorEnv =
  eeIndet :: "nat \<Rightarrow> u8"
  eeInfo :: BytecodeInstructionInfo
  eePassOnExitStatus :: bool
  eeReadStdin :: "nat \<Rightarrow> 'w \<Rightarrow> u8 list option \<times> 'w"
  eeWriteStdout :: "u8 list \<Rightarrow> 'w \<Rightarrow> 'w"
  eeSleep :: "nat \<Rightarrow> 'w \<Rightarrow> 'w"
  eeTimeMs :: "'w \<Rightarrow> u64 \<times> 'w"
  eeCompare :: "u8 \<Rightarrow> u8 \<Rightarrow> int"

section \<open>Memory and registers\<close>

definition emSize :: nat where "emSize = unat BytecodeMemoryTotalSize"

definition emRead :: "nat \<Rightarrow> 'w Emulator \<Rightarrow> u8 option" where
  "emRead a em = (if a < emSize then Some (emMemory em a) else None)"

definition emWrite :: "nat \<Rightarrow> u8 \<Rightarrow> 'w Emulator \<Rightarrow> 'w Emulator option" where
  "emWrite a b em = (if a < emSize then Some (em\<lparr>emMemory := (emMemory em)(a := b)\<rparr>) else None)"

definition emReg :: "u8 \<Rightarrow> 'w Emulator \<Rightarrow> u16" where
  "emReg r em = emRegs em ! unat r"

definition emSetReg :: "u8 \<Rightarrow> u16 \<Rightarrow> 'w Emulator \<Rightarrow> 'w Emulator" where
  "emSetReg r v em = em\<lparr>emRegs := (emRegs em)[unat r := v]\<rparr>"

section \<open>Leading zeros\<close>

text \<open>The table, run by run. Its initialiser has 246 elements; C fills the rest with zero.\<close>

definition emulatorClz8Array :: "u8 list" where
  "emulatorClz8Array =
     ([8, 7] @ replicate 2 6 @ replicate 4 5 @ replicate 8 4 @ replicate 16 3 @ replicate 32 2 @
       replicate 64 1 @ replicate 118 0) @ replicate 10 0"

definition emulatorClz8 :: "u8 \<Rightarrow> int" where
  "emulatorClz8 x = uint (emulatorClz8Array ! unat x)"

definition emulatorClz16 :: "u16 \<Rightarrow> int" where
  "emulatorClz16 x =
     (let upper = hi8 x in
      if upper \<noteq> 0 then emulatorClz8 upper
      else let lower = lo8 x in emulatorClz8 lower + 8)"

section \<open>Instructions\<close>

definition emFetch :: "'w Emulator \<Rightarrow> (u8 \<times> 'w Emulator) option" where
  "emFetch em = do {
     let ip = emReg BytecodeRegisterIP em;
     b \<leftarrow> emRead (unat ip) em;
     Some (b, emSetReg BytecodeRegisterIP (ip + 1) em)
   }"

definition emFetchInstruction :: "'w EmulatorEnv \<Rightarrow> 'w Emulator \<Rightarrow> (instr3 \<times> 'w Emulator) option" where
  "emFetchInstruction ee em = do {
     (b0, em) \<leftarrow> emFetch em;
     let len = bytecodeInstructionParseLength (b0, eeIndet ee 1, eeIndet ee 2);
     (b1, em) \<leftarrow> (if len = BytecodeInstructionLength2Byte \<or> len = BytecodeInstructionLength3Byte
                   then emFetch em else Some (eeIndet ee 1, em));
     (b2, em) \<leftarrow> (if len = BytecodeInstructionLength3Byte then emFetch em else Some (eeIndet ee 2, em));
     Some ((b0, b1, b2), em)
   }"

text \<open>A store is carried out before its address is checked.\<close>

definition emMemoryInstruction ::
    "BytecodeInstructionMemoryInfo \<Rightarrow> 'w Emulator \<Rightarrow> (bool \<times> 'w Emulator) option" where
  "emMemoryInstruction info em =
     (case memType info of
        BytecodeInstructionMemoryTypeStore8 \<Rightarrow> do {
          let a = emReg (memDestReg info) em;
          em \<leftarrow> emWrite (unat a) (ucast (emReg (memSrcReg info) em)) em;
          Some (\<not> a < BytecodeMemoryProgmemSize, em)
        }
      | BytecodeInstructionMemoryTypeLoad8 \<Rightarrow> do {
          b \<leftarrow> emRead (unat (emReg (memSrcReg info) em)) em;
          Some (True, emSetReg (memDestReg info) (ucast b) em)
        }
      | BytecodeInstructionMemoryTypeSet4 \<Rightarrow>
          Some (True, emSetReg (memDestReg info) (ucast (memSet4Value info)) em)
      | BytecodeInstructionMemoryTypeOther \<Rightarrow> Some (True, em))"

text \<open>The comparison sets one bit after the other.\<close>

definition emCmp :: "int \<Rightarrow> int \<Rightarrow> u16" where
  "emCmp opA opB =
     (let d = 0 :: u16;
          d = d OR push_bit 0 (of_bool (opA = opB));
          d = d OR push_bit 1 (of_bool (opA = 0));
          d = d OR push_bit 2 (of_bool (opA \<noteq> opB));
          d = d OR push_bit 3 (of_bool (opA \<noteq> 0));
          d = d OR push_bit 4 (of_bool (opA < opB));
          d = d OR push_bit 5 (of_bool (opA \<le> opB));
          d = d OR push_bit 6 (of_bool (opA > opB))
      in d OR push_bit 7 (of_bool (opA \<ge> opB)))"

text \<open>The operations on registers are computed in \<open>int\<close> and cut to 16 bits; a product that
  does not fit an \<open>int\<close> of 32 bits is taken to wrap. \<open>None\<close> is a division by zero.\<close>

definition emAluResult :: "BytecodeInstructionAluType \<Rightarrow> u16 \<Rightarrow> u8 \<Rightarrow> int \<Rightarrow> int \<Rightarrow> u16 option" where
  "emAluResult t d incDecValue opA opB =
     (case t of
        BytecodeInstructionAluTypeInc \<Rightarrow> Some (word_of_int (uint d + uint incDecValue))
      | BytecodeInstructionAluTypeDec \<Rightarrow> Some (word_of_int (uint d - uint incDecValue))
      | BytecodeInstructionAluTypeAdd \<Rightarrow> Some (word_of_int (opA + opB))
      | BytecodeInstructionAluTypeSub \<Rightarrow> Some (word_of_int (opA - opB))
      | BytecodeInstructionAluTypeMul \<Rightarrow> Some (word_of_int (opA * opB))
      | BytecodeInstructionAluTypeDiv \<Rightarrow> (if opB = 0 then None else Some (word_of_int (opA div opB)))
      | BytecodeInstructionAluTypeXor \<Rightarrow> Some (word_of_int (opA XOR opB))
      | BytecodeInstructionAluTypeOr \<Rightarrow> Some (word_of_int (opA OR opB))
      | BytecodeInstructionAluTypeAnd \<Rightarrow> Some (word_of_int (opA AND opB))
      | BytecodeInstructionAluTypeCmp \<Rightarrow> Some (emCmp opA opB)
      | BytecodeInstructionAluTypeShiftLeft \<Rightarrow>
          Some (word_of_int (if opB < 16 then push_bit (nat opB) opA else 0))
      | BytecodeInstructionAluTypeShiftRight \<Rightarrow>
          Some (word_of_int (if opB < 16 then drop_bit (nat opB) opA else 0))
      | _ \<Rightarrow> None)"

definition emAluExtra ::
    "BytecodeInstructionAluInfo \<Rightarrow> 'w Emulator \<Rightarrow> (bool \<times> 'w Emulator) option" where
  "emAluExtra info em =
     (let dest = aluDestReg info; opAReg = aluOpAReg info; opA = emReg opAReg em in
      case aluExtraTypeOfNat (unat (aluOpBReg info)) of
        None \<Rightarrow> Some (False, em)
      | Some BytecodeInstructionAluExtraTypeNot \<Rightarrow>
          Some (True, emSetReg dest (word_of_int (NOT (uint opA))) em)
      | Some BytecodeInstructionAluExtraTypeStore16 \<Rightarrow> do {
          let a = emReg dest em;
          em \<leftarrow> emWrite (unat a) (hi8 opA) em;
          em \<leftarrow> emWrite (unat a + 1) (lo8 opA) em;
          Some (\<not> a < BytecodeMemoryProgmemSize, em)
        }
      | Some BytecodeInstructionAluExtraTypeLoad16 \<Rightarrow> do {
          hi \<leftarrow> emRead (unat opA) em;
          lo \<leftarrow> emRead (unat opA + 1) em;
          Some (True, emSetReg dest (be16 hi lo) em)
        }
      | Some BytecodeInstructionAluExtraTypePush16 \<Rightarrow> do {
          em \<leftarrow> emWrite (unat (emReg dest em)) (hi8 opA) em;
          let em = emSetReg dest (emReg dest em + 1) em;
          em \<leftarrow> emWrite (unat (emReg dest em)) (lo8 opA) em;
          Some (True, emSetReg dest (emReg dest em + 1) em)
        }
      | Some BytecodeInstructionAluExtraTypePop16 \<Rightarrow> do {
          let em = emSetReg opAReg (emReg opAReg em - 1) em;
          lo \<leftarrow> emRead (unat (emReg opAReg em)) em;
          let em = emSetReg dest (ucast lo) em;
          let em = emSetReg opAReg (emReg opAReg em - 1) em;
          hi \<leftarrow> emRead (unat (emReg opAReg em)) em;
          Some (True, emSetReg dest (emReg dest em OR push_bit 8 (ucast hi)) em)
        }
      | Some BytecodeInstructionAluExtraTypeCall \<Rightarrow> do {
          let preIPReg = emReg BytecodeRegisterIP em;
          em \<leftarrow> emWrite (unat (emReg opAReg em)) (hi8 preIPReg) em;
          let em = emSetReg opAReg (emReg opAReg em + 1) em;
          em \<leftarrow> emWrite (unat (emReg opAReg em)) (lo8 preIPReg) em;
          let em = emSetReg opAReg (emReg opAReg em + 1) em;
          Some (True, emSetReg BytecodeRegisterIP (emReg dest em) em)
        }
      | Some BytecodeInstructionAluExtraTypeXchg8 \<Rightarrow> do {
          let addr = emReg dest em;
          memValue \<leftarrow> emRead (unat addr) em;
          em \<leftarrow> emWrite (unat addr) (lo8 (emReg opAReg em)) em;
          Some (True, emSetReg opAReg (ucast memValue) em)
        }
      | Some BytecodeInstructionAluExtraTypeClz \<Rightarrow>
          Some (True, emSetReg dest (word_of_int (emulatorClz16 opA)) em))"

text \<open>A skip only sets a counter; the instructions skipped are still fetched and decoded.\<close>

definition emAluInstruction ::
    "BytecodeInstructionAluInfo \<Rightarrow> 'w Emulator \<Rightarrow> (bool \<times> 'w Emulator) option" where
  "emAluInstruction info em =
     (let dest = aluDestReg info;
          opA = uint (emReg (aluOpAReg info) em);
          opB = uint (emReg (aluOpBReg info) em) in
      case aluType info of
        BytecodeInstructionAluTypeSkip \<Rightarrow>
          Some (True, em\<lparr>emSkipCounter :=
            if emReg dest em AND push_bit (unat (aluOpAReg info)) 1 \<noteq> 0 then ucast (aluOpBReg info) + 1 else 0\<rparr>)
      | BytecodeInstructionAluTypeExtra \<Rightarrow> emAluExtra info em
      | BytecodeInstructionAluTypeOther n \<Rightarrow> Some (True, em)
      | t \<Rightarrow>
          (case emAluResult t (emReg dest em) (aluIncDecValue info) opA opB of
             None \<Rightarrow> Some (False, em)
           | Some v \<Rightarrow> Some (True, emSetReg dest v em)))"

end
