(* ===== verification/EmulatorSyscall.thy ===== *)
theory EmulatorSyscall
  imports Emulator SyscallId ProcMan
begin

text \<open>
  \<open>src/tools/emulator/emulator.c\<close>, second part: the system calls, the execution of an instruction
  and the program around it. Most calls that need a file system, other processes or devices do
  nothing and return a fixed value. The addresses a program passes to the string functions are not
  checked, so they may lead out of the memory, which is \<open>None\<close>.
\<close>

type_synonym 'w EmResult = "(bool \<times> 'w Emulator) option"

definition InitPid :: u16 where "InitPid = 0"
definition FdStdin :: u16 where "FdStdin = 1"
definition FdStdout :: u8 where "FdStdout = 2"

section \<open>The clock\<close>

definition getRealTimeMs :: "'w EmulatorEnv \<Rightarrow> 'w Emulator \<Rightarrow> u64 \<times> 'w Emulator" where
  "getRealTimeMs ee em = (case eeTimeMs ee (emHost em) of (t, w) \<Rightarrow> (t, em\<lparr>emHost := w\<rparr>))"

definition getMonotonicTimeMs :: "'w EmulatorEnv \<Rightarrow> 'w Emulator \<Rightarrow> u64 \<times> 'w Emulator" where
  "getMonotonicTimeMs ee em = (case getRealTimeMs ee em of (t, em) \<Rightarrow> (t - emBootTimeMs em, em))"

section \<open>Blocks of memory\<close>

definition emReadBytes :: "nat \<Rightarrow> nat \<Rightarrow> 'w Emulator \<Rightarrow> u8 list option" where
  "emReadBytes a n em = those (map (\<lambda>i. emRead (a + i) em) [0..<n])"

fun emWriteBytes :: "nat \<Rightarrow> u8 list \<Rightarrow> 'w Emulator \<Rightarrow> 'w Emulator option" where
  "emWriteBytes a [] em = Some em"
| "emWriteBytes a (b # bs) em = Option.bind (emWrite a b em) (emWriteBytes (a + 1) bs)"

definition emRead32 :: "nat \<Rightarrow> 'w Emulator \<Rightarrow> u32 option" where
  "emRead32 a em = do {
     b3 \<leftarrow> emRead a em;
     b2 \<leftarrow> emRead (a + 1) em;
     b1 \<leftarrow> emRead (a + 2) em;
     b0 \<leftarrow> emRead (a + 3) em;
     Some (be32 b3 b2 b1 b0)
   }"

text \<open>Four bytes that start at such an address lie in the half that can be written, or in the
  memory at all.\<close>

definition emWritable32 :: "u16 \<Rightarrow> bool" where
  "emWritable32 a \<longleftrightarrow> \<not> a < BytecodeMemoryRamAddr \<and> \<not> ucast a \<ge> BytecodeMemoryTotalSize - 3"

definition emReadable32 :: "u16 \<Rightarrow> bool" where
  "emReadable32 a \<longleftrightarrow> \<not> ucast a \<ge> BytecodeMemoryTotalSize - 3"

section \<open>Processes\<close>

text \<open>The result of a call that is not implemented.\<close>

definition emReturn :: "u16 \<Rightarrow> 'w Emulator \<Rightarrow> 'w EmResult" where
  "emReturn v em = Some (True, emSetReg 0 v em)"

definition emExit :: "'w EmulatorEnv \<Rightarrow> 'w Emulator \<Rightarrow> 'w EmResult" where
  "emExit ee em =
     Some (False, if eePassOnExitStatus ee then em\<lparr>emExitStatus := uint (emReg 1 em)\<rparr> else em)"

text \<open>The address behind the \<open>n\<close>th end of a string from \<open>a\<close> on.\<close>

function emSkipStrings :: "nat \<Rightarrow> nat \<Rightarrow> (nat \<Rightarrow> u8) \<Rightarrow> nat option" where
  "emSkipStrings n a m =
     (if n = 0 then Some a
      else if a \<ge> emSize then None
      else emSkipStrings (if m a = 0 then n - 1 else n) (a + 1) m)"
  by pat_completeness auto
termination
  by (relation "measure (\<lambda>(n, a, m). emSize - a)") auto

declare emSkipStrings.simps [simp del]

definition emGetArgVN :: "'w Emulator \<Rightarrow> 'w EmResult" where
  "emGetArgVN em =
     (let n = unat (emReg 1 em) in
      if n \<ge> evArgc (emEnvVars em) then Some (True, emSetReg 0 0 em)
      else do {
        argAddr \<leftarrow> emSkipStrings n (63 * 1024) (emMemory em);
        Some (True, emSetReg 0 (of_nat argAddr) em)
      })"

definition emWaitPid :: "'w EmulatorEnv \<Rightarrow> 'w Emulator \<Rightarrow> 'w EmResult" where
  "emWaitPid ee em =
     (let waitPid = (ucast (emReg 1 em) :: u8); timeout = emReg 2 em in
      if ucast waitPid = InitPid \<or> ucast waitPid = emPid em then
        if timeout = 0 then Some (False, em)
        else Some (True, emSetReg 0 ProcManExitStatusTimeout
          (em\<lparr>emHost := eeSleep ee (unat timeout) (emHost em)\<rparr>))
      else Some (True, emSetReg 0 ProcManExitStatusNoProcess em))"

definition emKill :: "'w Emulator \<Rightarrow> 'w EmResult" where
  "emKill em = Some (ucast (ucast (emReg 1 em) :: u8) \<noteq> emPid em, em)"

definition emSyscallProcess :: "'w EmulatorEnv \<Rightarrow> u16 \<Rightarrow> 'w Emulator \<Rightarrow> 'w EmResult" where
  "emSyscallProcess ee syscallId em =
     (if syscallId = BytecodeSyscallIdExit then emExit ee em
      else if syscallId = BytecodeSyscallIdGetPid then emReturn (emPid em) em
      else if syscallId = BytecodeSyscallIdGetArgC then emReturn (of_nat (evArgc (emEnvVars em))) em
      else if syscallId = BytecodeSyscallIdGetArgVN then emGetArgVN em
      else if syscallId = BytecodeSyscallIdFork then emReturn (of_nat ProcManPidMax) em
      else if syscallId = BytecodeSyscallIdExec then emReturn 0 em
      else if syscallId = BytecodeSyscallIdWaitPid then emWaitPid ee em
      else if syscallId = BytecodeSyscallIdGetPidPath then emReturn 0 em
      else if syscallId = BytecodeSyscallIdGetPidState then emReturn 0 em
      else if syscallId = BytecodeSyscallIdGetAllCpuCounts then emReturn 0 em
      else if syscallId = BytecodeSyscallIdKill then emKill em
      else if syscallId = BytecodeSyscallIdGetPidRam then emReturn 0 em
      else if syscallId = BytecodeSyscallIdSignal then Some (True, em)
      else if syscallId = BytecodeSyscallIdGetPidFdN then emReturn 0 em
      else if syscallId = BytecodeSyscallIdExec2 then emReturn 0 em
      else Some (False, em))"

section \<open>Files\<close>

text \<open>A read from the terminal of the host writes into the memory as many bytes as arrived.\<close>

definition emReadCall :: "'w EmulatorEnv \<Rightarrow> 'w Emulator \<Rightarrow> 'w EmResult" where
  "emReadCall ee em =
     (if emReg 1 em = FdStdin then
        (case eeReadStdin ee (unat (emReg 4 em)) (emHost em) of
           (None, w) \<Rightarrow> Some (True, emSetReg 0 0 (em\<lparr>emHost := w\<rparr>))
         | (Some bytes, w) \<Rightarrow> do {
             em \<leftarrow> emWriteBytes (unat (emReg 3 em)) bytes (em\<lparr>emHost := w\<rparr>);
             Some (True, emSetReg 0 (of_nat (length bytes)) em)
           })
      else Some (True, emSetReg 0 0 em))"

definition emWriteCall :: "'w EmulatorEnv \<Rightarrow> 'w Emulator \<Rightarrow> 'w EmResult" where
  "emWriteCall ee em =
     (let fd = (ucast (emReg 1 em) :: u8); bufAddr = emReg 3 em; bufLen = emReg 4 em in
      if fd = FdStdout then do {
        bytes \<leftarrow> emReadBytes (unat bufAddr) (unat bufLen) em;
        Some (True, emSetReg 0 bufLen (em\<lparr>emHost := eeWriteStdout ee bytes (emHost em)\<rparr>))
      } else Some (True, emSetReg 0 0 em))"

text \<open>Four zero bytes, and no result in the register.\<close>

definition emGetFileLen32 :: "'w Emulator \<Rightarrow> 'w EmResult" where
  "emGetFileLen32 em =
     (let destPtr = emReg 2 em in
      if \<not> emWritable32 destPtr then Some (False, em)
      else map_option (Pair True) (emWriteBytes (unat destPtr) [0, 0, 0, 0] em))"

definition emSyscallFile :: "'w EmulatorEnv \<Rightarrow> u16 \<Rightarrow> 'w Emulator \<Rightarrow> 'w EmResult" where
  "emSyscallFile ee syscallId em =
     (if syscallId = BytecodeSyscallIdRead then emReadCall ee em
      else if syscallId = BytecodeSyscallIdWrite then emWriteCall ee em
      else if syscallId = BytecodeSyscallIdOpen then emReturn 0 em
      else if syscallId = BytecodeSyscallIdClose then Some (True, em)
      else if syscallId = BytecodeSyscallIdDirGetChildN then emReturn 0 em
      else if syscallId = BytecodeSyscallIdGetPath then emReturn 0 em
      else if syscallId = BytecodeSyscallIdResizeFile then emReturn 0 em
      else if syscallId = BytecodeSyscallIdGetFileLen then emReturn 0 em
      else if syscallId = BytecodeSyscallIdTryReadByte then emReturn 256 em
      else if syscallId = BytecodeSyscallIdIsDir then emReturn 0 em
      else if syscallId = BytecodeSyscallIdFileExists then emReturn 0 em
      else if syscallId = BytecodeSyscallIdDelete then emReturn 0 em
      else if syscallId = BytecodeSyscallIdRead32 then emReadCall ee em
      else if syscallId = BytecodeSyscallIdWrite32 then emWriteCall ee em
      else if syscallId = BytecodeSyscallIdResizeFile32 then emReturn 0 em
      else if syscallId = BytecodeSyscallIdGetFileLen32 then emGetFileLen32 em
      else if syscallId = BytecodeSyscallIdAppend then emReturn 0 em
      else if syscallId = BytecodeSyscallIdFlush then emReturn 0 em
      else if syscallId = BytecodeSyscallIdTryWriteByte then emReturn 0 em
      else if syscallId = BytecodeSyscallIdGetPathGlobal then emReturn 0 em
      else Some (False, em))"

section \<open>Environment and time\<close>

definition emSyscallEnv :: "u16 \<Rightarrow> 'w Emulator \<Rightarrow> 'w EmResult" where
  "emSyscallEnv syscallId em =
     (if syscallId = BytecodeSyscallIdEnvGetPwd then emReturn (evPwd (emEnvVars em)) em
      else if syscallId = BytecodeSyscallIdEnvSetPwd then
        Some (True, em\<lparr>emEnvVars := (emEnvVars em)\<lparr>evPwd := emReg 1 em\<rparr>\<rparr>)
      else if syscallId = BytecodeSyscallIdEnvGetPath then emReturn (evPath (emEnvVars em)) em
      else if syscallId = BytecodeSyscallIdEnvSetPath then
        Some (True, em\<lparr>emEnvVars := (emEnvVars em)\<lparr>evPath := emReg 1 em\<rparr>\<rparr>)
      else Some (False, em))"

text \<open>A time as 16 bits, and one written to memory as 32. The call for milliseconds in 16 bits
  overwrites its result with zero.\<close>

definition emTimeMonotonic16s :: "'w EmulatorEnv \<Rightarrow> 'w Emulator \<Rightarrow> 'w EmResult" where
  "emTimeMonotonic16s ee em =
     (case getMonotonicTimeMs ee em of (t, em) \<Rightarrow> Some (True, emSetReg 0 (ucast (t div 1000)) em))"

definition emTimeMonotonic16ms :: "'w EmulatorEnv \<Rightarrow> 'w Emulator \<Rightarrow> 'w EmResult" where
  "emTimeMonotonic16ms ee em =
     (case getMonotonicTimeMs ee em of (t, em) \<Rightarrow>
        Some (True, emSetReg 0 0 (emSetReg 0 (ucast t) em)))"

definition emTime32 ::
    "('w Emulator \<Rightarrow> u64 \<times> 'w Emulator) \<Rightarrow> 'w Emulator \<Rightarrow> 'w EmResult" where
  "emTime32 time em =
     (let destPtr = emReg 1 em in
      if \<not> emWritable32 destPtr then Some (False, em)
      else case time em of (t, em) \<Rightarrow>
        map_option (Pair True) (emWriteBytes (unat destPtr) (be32_bytes (ucast t)) em))"

definition inSeconds :: "u64 \<times> 'w Emulator \<Rightarrow> u64 \<times> 'w Emulator" where
  "inSeconds = (\<lambda>(t, em). (t div 1000, em))"

definition emTimeToDate32s :: "'w Emulator \<Rightarrow> 'w EmResult" where
  "emTimeToDate32s em = do {
     let destDatePtr = unat (emReg 1 em);
     let srcTimePtr = unat (emReg 2 em);
     srcTime \<leftarrow> emRead32 srcTimePtr em;
     let date = ktimeTimeMsToDate (ucast srcTime * 1000);
     em \<leftarrow> emWriteBytes destDatePtr
       [ucast (drop_bit 8 (kdYear date)), ucast (kdYear date AND 0xFF), kdMonth date, kdDay date,
        kdHour date, kdMinute date, kdSecond date] em;
     Some (True, em)
   }"

definition emSyscallTime :: "'w EmulatorEnv \<Rightarrow> u16 \<Rightarrow> 'w Emulator \<Rightarrow> 'w EmResult" where
  "emSyscallTime ee syscallId em =
     (if syscallId = BytecodeSyscallIdTimeMonotonic16s then emTimeMonotonic16s ee em
      else if syscallId = BytecodeSyscallIdTimeMonotonic16ms then emTimeMonotonic16ms ee em
      else if syscallId = BytecodeSyscallIdTimeMonotonic32s then
        emTime32 (\<lambda>em. inSeconds (getMonotonicTimeMs ee em)) em
      else if syscallId = BytecodeSyscallIdTimeMonotonic32ms then emTime32 (getMonotonicTimeMs ee) em
      else if syscallId = BytecodeSyscallIdTimeReal32s then
        emTime32 (\<lambda>em. inSeconds (getRealTimeMs ee em)) em
      else if syscallId = BytecodeSyscallIdTimeToDate32s then emTimeToDate32s em
      else Some (False, em))"

definition emSyscallSystem :: "u16 \<Rightarrow> 'w Emulator \<Rightarrow> 'w EmResult" where
  "emSyscallSystem syscallId em =
     (if syscallId = BytecodeSyscallIdRegisterSignalHandler then Some (True, em)
      else if syscallId = BytecodeSyscallIdShutdown then Some (True, em)
      else if syscallId = BytecodeSyscallIdMount then emReturn 0 em
      else if syscallId = BytecodeSyscallIdUnmount then Some (True, em)
      else if syscallId = BytecodeSyscallIdIoctl then Some (True, em)
      else if syscallId = BytecodeSyscallIdGetLogLevel then emReturn 3 em
      else if syscallId = BytecodeSyscallIdSetLogLevel then Some (True, em)
      else if syscallId = BytecodeSyscallIdPipeOpen then emReturn 0 em
      else if syscallId = BytecodeSyscallIdRemount then emReturn 0 em
      else Some (False, em))"

section \<open>Strings and memory\<close>

text \<open>The address of the first byte from \<open>a\<close> on that is zero or \<open>c\<close>, and that of the last \<open>c\<close>
  in front of the end of the string, with the one found before.\<close>

function emStrchrnul :: "u16 \<Rightarrow> nat \<Rightarrow> (nat \<Rightarrow> u8) \<Rightarrow> nat option" where
  "emStrchrnul c a m =
     (if a \<ge> emSize then None
      else if m a = 0 \<or> ucast (m a) = c then Some a
      else emStrchrnul c (a + 1) m)"
  by pat_completeness auto
termination by (relation "measure (\<lambda>(c, a, m). emSize - a)") auto

function emStrrchr :: "u16 \<Rightarrow> u16 \<Rightarrow> nat \<Rightarrow> (nat \<Rightarrow> u8) \<Rightarrow> u16 option" where
  "emStrrchr c found a m =
     (if a \<ge> emSize then None
      else if m a = 0 then Some found
      else emStrrchr c (if ucast (m a) = c then of_nat a else found) (a + 1) m)"
  by pat_completeness auto
termination by (relation "measure (\<lambda>(c, found, a, m). emSize - a)") auto

declare emStrchrnul.simps [simp del] emStrrchr.simps [simp del]

definition emStrchrCall :: "'w Emulator \<Rightarrow> 'w EmResult" where
  "emStrchrCall em = do {
     i \<leftarrow> emStrchrnul (emReg 2 em) (unat (emReg 1 em)) (emMemory em);
     Some (True, emSetReg 0 (if emMemory em i = 0 then 0 else of_nat i) em)
   }"

definition emStrchrnulCall :: "'w Emulator \<Rightarrow> 'w EmResult" where
  "emStrchrnulCall em = do {
     i \<leftarrow> emStrchrnul (emReg 2 em) (unat (emReg 1 em)) (emMemory em);
     Some (True, emSetReg 0 (of_nat i) em)
   }"

definition emStrrchrCall :: "'w Emulator \<Rightarrow> 'w EmResult" where
  "emStrrchrCall em = do {
     found \<leftarrow> emStrrchr (emReg 2 em) 0 (unat (emReg 1 em)) (emMemory em);
     Some (True, emSetReg 0 found em)
   }"

text \<open>\<open>memmove\<close> of the C library, in the memory of the process.\<close>

definition emMemmove :: "nat \<Rightarrow> nat \<Rightarrow> nat \<Rightarrow> (nat \<Rightarrow> u8) \<Rightarrow> (nat \<Rightarrow> u8) option" where
  "emMemmove dest source n m =
     (if dest + n > emSize \<or> source + n > emSize then None
      else Some (\<lambda>i. if dest \<le> i \<and> i < dest + n then m (source + (i - dest)) else m i))"

definition emMemmoveCall :: "'w Emulator \<Rightarrow> 'w EmResult" where
  "emMemmoveCall em = do {
     m \<leftarrow> emMemmove (unat (emReg 1 em)) (unat (emReg 2 em)) (unat (emReg 3 em)) (emMemory em);
     Some (True, em\<lparr>emMemory := m\<rparr>)
   }"

fun emMemcmp :: "(u8 \<Rightarrow> u8 \<Rightarrow> int) \<Rightarrow> u8 list \<Rightarrow> u8 list \<Rightarrow> int" where
  "emMemcmp cmp (x # xs) (y # ys) = (if x = y then emMemcmp cmp xs ys else cmp x y)"
| "emMemcmp cmp _ _ = 0"

definition emMemcmpCall :: "'w EmulatorEnv \<Rightarrow> 'w Emulator \<Rightarrow> 'w EmResult" where
  "emMemcmpCall ee em = do {
     let n = unat (emReg 3 em);
     p1 \<leftarrow> emReadBytes (unat (emReg 1 em)) n em;
     p2 \<leftarrow> emReadBytes (unat (emReg 2 em)) n em;
     Some (True, emSetReg 0 (word_of_int (emMemcmp (eeCompare ee) p1 p2)) em)
   }"

function emStrcmp :: "(u8 \<Rightarrow> u8 \<Rightarrow> int) \<Rightarrow> nat \<Rightarrow> nat \<Rightarrow> (nat \<Rightarrow> u8) \<Rightarrow> int option" where
  "emStrcmp cmp a b m =
     (if a \<ge> emSize \<or> b \<ge> emSize then None
      else if m a \<noteq> m b then Some (cmp (m a) (m b))
      else if m a = 0 then Some 0
      else emStrcmp cmp (a + 1) (b + 1) m)"
  by pat_completeness auto
termination by (relation "measure (\<lambda>(cmp, a, b, m). emSize - a)") auto

declare emStrcmp.simps [simp del]

definition emStrcmpCall :: "'w EmulatorEnv \<Rightarrow> 'w Emulator \<Rightarrow> 'w EmResult" where
  "emStrcmpCall ee em = do {
     r \<leftarrow> emStrcmp (eeCompare ee) (unat (emReg 1 em)) (unat (emReg 2 em)) (emMemory em);
     Some (True, emSetReg 0 (word_of_int r) em)
   }"

fun emMemchr :: "u16 \<Rightarrow> nat \<Rightarrow> nat \<Rightarrow> 'w Emulator \<Rightarrow> u16 option" where
  "emMemchr c a 0 em = Some 0"
| "emMemchr c a (Suc n) em =
     (case emRead a em of
        None \<Rightarrow> None
      | Some b \<Rightarrow> if ucast b = c then Some (of_nat a) else emMemchr c (a + 1) n em)"

definition emMemchrCall :: "'w Emulator \<Rightarrow> 'w EmResult" where
  "emMemchrCall em = do {
     r \<leftarrow> emMemchr (emReg 2 em) (unat (emReg 1 em)) (unat (emReg 3 em)) em;
     Some (True, emSetReg 0 r em)
   }"

text \<open>\<open>strlen\<close>, \<open>strcpy\<close>, which must not be called with strings that overlap, and \<open>strstr\<close> of
  the C library, in the memory of the process.\<close>

definition emStrlen :: "nat \<Rightarrow> (nat \<Rightarrow> u8) \<Rightarrow> nat option" where
  "emStrlen a m = map_option (\<lambda>e. e - a) (emStrchrnul 0 a m)"

definition emStrcpy :: "nat \<Rightarrow> nat \<Rightarrow> (nat \<Rightarrow> u8) \<Rightarrow> (nat \<Rightarrow> u8) option" where
  "emStrcpy dest source m = do {
     n \<leftarrow> emStrlen source m;
     if dest \<le> source + n \<and> source \<le> dest + n then None else emMemmove dest source (n + 1) m
   }"

fun emFindAt :: "u8 list \<Rightarrow> u8 list \<Rightarrow> nat option" where
  "emFindAt needle [] = (if needle = [] then Some 0 else None)"
| "emFindAt needle (x # xs) =
     (if take (length needle) (x # xs) = needle then Some 0
      else map_option Suc (emFindAt needle xs))"

definition emString :: "nat \<Rightarrow> (nat \<Rightarrow> u8) \<Rightarrow> u8 list option" where
  "emString a m = map_option (\<lambda>n. map (\<lambda>i. m (a + i)) [0..<n]) (emStrlen a m)"

definition emStrstr :: "nat \<Rightarrow> nat \<Rightarrow> (nat \<Rightarrow> u8) \<Rightarrow> nat option option" where
  "emStrstr haystack needle m = do {
     h \<leftarrow> emString haystack m;
     n \<leftarrow> emString needle m;
     Some (map_option (\<lambda>i. haystack + i) (emFindAt n h))
   }"

text \<open>An occurrence is overwritten with the replacement, its end included, before the rest of the
  string is moved behind it.\<close>

definition emReplaceAt :: "nat \<Rightarrow> nat \<Rightarrow> nat \<Rightarrow> (nat \<Rightarrow> u8) \<Rightarrow> (nat \<Rightarrow> u8) option" where
  "emReplaceAt foundPos needle replace m = do {
     m \<leftarrow> emStrcpy foundPos replace m;
     needleLen \<leftarrow> emStrlen needle m;
     let moveSrc = foundPos + needleLen;
     replaceLen \<leftarrow> emStrlen replace m;
     restLen \<leftarrow> emStrlen moveSrc m;
     emMemmove (foundPos + replaceLen) moveSrc (restLen + 1) m
   }"

text \<open>\<open>None\<close> also stands for a loop that finds an occurrence again and again.\<close>

partial_function (option) emStrreplaceLoop ::
    "nat \<Rightarrow> nat \<Rightarrow> nat \<Rightarrow> u16 \<Rightarrow> (nat \<Rightarrow> u8) \<Rightarrow> (u16 \<times> (nat \<Rightarrow> u8)) option" where
  "emStrreplaceLoop haystack needle replace changed m =
     (case emStrstr haystack needle m of
        None \<Rightarrow> None
      | Some None \<Rightarrow> Some (changed, m)
      | Some (Some foundPos) \<Rightarrow>
          (case emReplaceAt foundPos needle replace m of
             None \<Rightarrow> None
           | Some m \<Rightarrow> emStrreplaceLoop haystack needle replace 1 m))"

declare emStrreplaceLoop.simps [code]

definition emStrreplaceCall :: "'w Emulator \<Rightarrow> 'w EmResult" where
  "emStrreplaceCall em = do {
     (changed, m) \<leftarrow> emStrreplaceLoop (unat (emReg 1 em)) (unat (emReg 2 em)) (unat (emReg 3 em)) 0
       (emMemory em);
     Some (True, emSetReg 0 changed (em\<lparr>emMemory := m\<rparr>))
   }"

definition emSyscallString :: "'w EmulatorEnv \<Rightarrow> u16 \<Rightarrow> 'w Emulator \<Rightarrow> 'w EmResult" where
  "emSyscallString ee syscallId em =
     (if syscallId = BytecodeSyscallIdStrchr then emStrchrCall em
      else if syscallId = BytecodeSyscallIdStrchrnul then emStrchrnulCall em
      else if syscallId = BytecodeSyscallIdMemmove then emMemmoveCall em
      else if syscallId = ByteCodeSyscallIdMemcmp then emMemcmpCall ee em
      else if syscallId = ByteCodeSyscallIdStrrchr then emStrrchrCall em
      else if syscallId = ByteCodeSyscallIdStrcmp then emStrcmpCall ee em
      else if syscallId = ByteCodeSyscallIdMemchr then emMemchrCall em
      else if syscallId = ByteCodeSyscallIdStrreplace then emStrreplaceCall em
      else if syscallId = ByteCodeSyscallIdPathNormalise then Some (True, em)
      else Some (False, em))"

definition emSyscallHwDevice :: "u16 \<Rightarrow> 'w Emulator \<Rightarrow> 'w EmResult" where
  "emSyscallHwDevice syscallId em =
     (if syscallId = BytecodeSyscallIdHwDeviceRegister then emReturn 0 em
      else if syscallId = BytecodeSyscallIdHwDeviceDeregister then Some (True, em)
      else if syscallId = BytecodeSyscallIdHwDeviceGetType then emReturn 0 em
      else if syscallId = BytecodeSyscallIdHwDeviceSdCardReaderMount then emReturn 0 em
      else if syscallId = BytecodeSyscallIdHwDeviceSdCardReaderUnmount then Some (True, em)
      else if syscallId = BytecodeSyscallIdHwDeviceDht22GetTemperature then emReturn 0 em
      else if syscallId = BytecodeSyscallIdHwDeviceDht22GetHumidity then emReturn 0 em
      else if syscallId = BytecodeSyscallIdHwDeviceKeypadMount then emReturn 0 em
      else if syscallId = BytecodeSyscallIdHwDeviceKeypadUnmount then Some (True, em)
      else Some (False, em))"

section \<open>Arithmetic on 32 bits\<close>

definition emInt32Op16 :: "(u32 \<Rightarrow> u16 \<Rightarrow> u32) \<Rightarrow> 'w Emulator \<Rightarrow> 'w EmResult" where
  "emInt32Op16 f em =
     (let aPtr = emReg 1 em; bValue = emReg 2 em in
      if \<not> emWritable32 aPtr then Some (False, em)
      else do {
        aValue \<leftarrow> emRead32 (unat aPtr) em;
        em \<leftarrow> emWriteBytes (unat aPtr) (be32_bytes (f aValue bValue)) em;
        Some (True, em)
      })"

definition emInt32Op32 :: "(u32 \<Rightarrow> u32 \<Rightarrow> u32) \<Rightarrow> 'w Emulator \<Rightarrow> 'w EmResult" where
  "emInt32Op32 f em =
     (let aPtr = emReg 1 em; bPtr = emReg 2 em in
      if \<not> emWritable32 aPtr then Some (False, em)
      else if \<not> emReadable32 bPtr then Some (False, em)
      else do {
        aValue \<leftarrow> emRead32 (unat aPtr) em;
        bValue \<leftarrow> emRead32 (unat bPtr) em;
        em \<leftarrow> emWriteBytes (unat aPtr) (be32_bytes (f aValue bValue)) em;
        Some (True, em)
      })"

definition emInt32Add16 :: "'w Emulator \<Rightarrow> 'w EmResult" where
  "emInt32Add16 = emInt32Op16 (\<lambda>a b. a + ucast b)"

definition emInt32Add32 :: "'w Emulator \<Rightarrow> 'w EmResult" where
  "emInt32Add32 = emInt32Op32 (\<lambda>a b. a + b)"

definition emInt32Sub16 :: "'w Emulator \<Rightarrow> 'w EmResult" where
  "emInt32Sub16 = emInt32Op16 (\<lambda>a b. a - ucast b)"

definition emInt32Sub32 :: "'w Emulator \<Rightarrow> 'w EmResult" where
  "emInt32Sub32 = emInt32Op32 (\<lambda>a b. a - b)"

definition emInt32Mul16 :: "'w Emulator \<Rightarrow> 'w EmResult" where
  "emInt32Mul16 = emInt32Op16 (\<lambda>a b. a * ucast b)"

definition emInt32Mul32 :: "'w Emulator \<Rightarrow> 'w EmResult" where
  "emInt32Mul32 = emInt32Op32 (\<lambda>a b. a * b)"

definition emInt32Div16 :: "'w Emulator \<Rightarrow> 'w EmResult" where
  "emInt32Div16 em =
     (let aPtr = emReg 1 em; bValue = emReg 2 em in
      if \<not> emWritable32 aPtr then Some (False, em)
      else if bValue = 0 then Some (False, em)
      else do {
        aValue \<leftarrow> emRead32 (unat aPtr) em;
        let quotient = aValue div ucast bValue;
        let remainder = aValue - quotient * ucast bValue;
        em \<leftarrow> emWriteBytes (unat aPtr) (be32_bytes quotient) em;
        Some (True, emSetReg 0 (ucast remainder) em)
      })"

definition emInt32Div32 :: "'w Emulator \<Rightarrow> 'w EmResult" where
  "emInt32Div32 em =
     (let aPtr = emReg 1 em; bPtr = emReg 2 em; rPtr = emReg 3 em in
      if \<not> emWritable32 aPtr then Some (False, em)
      else if \<not> emReadable32 bPtr then Some (False, em)
      else if \<not> emWritable32 rPtr then Some (False, em)
      else do {
        aValue \<leftarrow> emRead32 (unat aPtr) em;
        bValue \<leftarrow> emRead32 (unat bPtr) em;
        if bValue = 0 then Some (False, em)
        else do {
          let quotient = aValue div bValue;
          let remainder = aValue - quotient * bValue;
          em \<leftarrow> emWriteBytes (unat aPtr) (be32_bytes quotient) em;
          em \<leftarrow> emWriteBytes (unat rPtr) (be32_bytes remainder) em;
          Some (True, em)
        }
      })"

text \<open>A shift by 32 or more is undefined.\<close>

definition emInt32Shift :: "(nat \<Rightarrow> u32 \<Rightarrow> u32) \<Rightarrow> 'w Emulator \<Rightarrow> 'w EmResult" where
  "emInt32Shift f em =
     (if emWritable32 (emReg 1 em) \<and> emReg 2 em \<ge> 32 then None
      else emInt32Op16 (\<lambda>a b. f (unat b) a) em)"

definition emInt32Shl :: "'w Emulator \<Rightarrow> 'w EmResult" where "emInt32Shl = emInt32Shift push_bit"

definition emInt32Shr :: "'w Emulator \<Rightarrow> 'w EmResult" where "emInt32Shr = emInt32Shift drop_bit"

definition emSyscallInt32 :: "u16 \<Rightarrow> 'w Emulator \<Rightarrow> 'w EmResult" where
  "emSyscallInt32 syscallId em =
     (if syscallId = ByteCodeSyscallIdInt32Add16 then emInt32Add16 em
      else if syscallId = ByteCodeSyscallIdInt32Add32 then emInt32Add32 em
      else if syscallId = ByteCodeSyscallIdInt32Sub16 then emInt32Sub16 em
      else if syscallId = ByteCodeSyscallIdInt32Sub32 then emInt32Sub32 em
      else if syscallId = ByteCodeSyscallIdInt32Mul16 then emInt32Mul16 em
      else if syscallId = ByteCodeSyscallIdInt32Mul32 then emInt32Mul32 em
      else if syscallId = ByteCodeSyscallIdInt32Div16 then emInt32Div16 em
      else if syscallId = ByteCodeSyscallIdInt32Div32 then emInt32Div32 em
      else if syscallId = ByteCodeSyscallIdInt32Shl then emInt32Shl em
      else if syscallId = ByteCodeSyscallIdInt32Shr then emInt32Shr em
      else Some (False, em))"

section \<open>Running a program\<close>

text \<open>The number of the call has its group in the upper byte. An unknown one ends the
  program.\<close>

definition emSyscall :: "'w EmulatorEnv \<Rightarrow> 'w Emulator \<Rightarrow> 'w EmResult" where
  "emSyscall ee em =
     (let syscallId = emReg 0 em; grp = hi8 syscallId in
      if grp = 0 then emSyscallProcess ee syscallId em
      else if grp = 1 then emSyscallFile ee syscallId em
      else if grp = 2 then emSyscallEnv syscallId em
      else if grp = 3 then emSyscallTime ee syscallId em
      else if grp = 4 \<or> grp = 5 then emSyscallSystem syscallId em
      else if grp = 6 then emSyscallString ee syscallId em
      else if grp = 7 then emSyscallHwDevice syscallId em
      else if grp = 8 then emSyscallInt32 syscallId em
      else Some (False, em))"

definition emMiscInstruction ::
    "'w EmulatorEnv \<Rightarrow> BytecodeInstructionMiscInfo \<Rightarrow> 'w Emulator \<Rightarrow> 'w EmResult" where
  "emMiscInstruction ee info em =
     (case miscType info of
        BytecodeInstructionMiscTypeNop \<Rightarrow> Some (True, em)
      | BytecodeInstructionMiscTypeSyscall \<Rightarrow> emSyscall ee em
      | BytecodeInstructionMiscTypeClearInstructionCache \<Rightarrow> Some (True, em)
      | BytecodeInstructionMiscTypeIllegal \<Rightarrow> Some (False, em)
      | BytecodeInstructionMiscTypeDebug \<Rightarrow> Some (True, em)
      | BytecodeInstructionMiscTypeSet8 \<Rightarrow>
          Some (True, emSetReg (set8DestReg (miscSet8 info)) (ucast (set8Value (miscSet8 info))) em)
      | BytecodeInstructionMiscTypeSet16 \<Rightarrow>
          Some (True, emSetReg (set16DestReg (miscSet16 info)) (set16Value (miscSet16 info)) em)
      | BytecodeInstructionMiscTypeOther n \<Rightarrow> Some (True, em))"

definition emExecInstruction ::
    "'w EmulatorEnv \<Rightarrow> BytecodeInstructionInfo \<Rightarrow> 'w Emulator \<Rightarrow> 'w EmResult" where
  "emExecInstruction ee info em =
     (case infoType info of
        BytecodeInstructionTypeMemory \<Rightarrow> emMemoryInstruction (infoMemory info) em
      | BytecodeInstructionTypeAlu \<Rightarrow> emAluInstruction (infoAlu info) em
      | BytecodeInstructionTypeMisc \<Rightarrow> emMiscInstruction ee (infoMisc info) em)"

definition processRunNextInstruction :: "'w EmulatorEnv \<Rightarrow> 'w Emulator \<Rightarrow> 'w EmResult" where
  "processRunNextInstruction ee em = do {
     (instruction, em) \<leftarrow> emFetchInstruction ee em;
     let info = bytecodeInstructionParse (eeInfo ee) instruction;
     if emSkipCounter em > 0 then Some (True, em\<lparr>emSkipCounter := emSkipCounter em - 1\<rparr>)
     else do {
       (ok, em) \<leftarrow> emExecInstruction ee info em;
       Some (if ok then (True, em\<lparr>emInstructionCount := emInstructionCount em + 1\<rparr>) else (False, em))
     }
   }"

text \<open>The program may run for ever, which is \<open>None\<close>.\<close>

partial_function (option) emRun :: "'w EmulatorEnv \<Rightarrow> bool \<Rightarrow> 'w Emulator \<Rightarrow> 'w Emulator option" where
  "emRun ee slow em = do {
     (again, em) \<leftarrow> processRunNextInstruction ee
       (if slow then em\<lparr>emHost := eeSleep ee 1 (emHost em)\<rparr> else em);
     if again then emRun ee slow em else Some em
   }"

declare emRun.simps [code]

text \<open>The arguments are put into the upper part of the memory, one behind the other, each with its
  end; so are the working directory and the search path.\<close>

fun emPutStrings :: "u8 list list \<Rightarrow> u16 \<Rightarrow> 'w Emulator \<Rightarrow> (u16 \<times> 'w Emulator) option" where
  "emPutStrings [] offset em = Some (offset, em)"
| "emPutStrings (s # ss) offset em =
     Option.bind (emWriteBytes (unat offset) (s @ [0]) em)
       (emPutStrings ss (offset + of_nat (length s + 1)))"

text \<open>\<open>/bin\<close> and \<open>/usr/games:/usr/bin:/bin:\<close>\<close>

definition emPwdString :: "u8 list" where "emPwdString = [47, 98, 105, 110]"

definition emPathString :: "u8 list" where
  "emPathString = [47, 117, 115, 114, 47, 103, 97, 109, 101, 115, 58, 47, 117, 115, 114, 47, 98, 105, 110, 58,
     47, 98, 105, 110, 58]"

text \<open>The state before the program is loaded. The structure comes uninitialised from the heap: the
  other registers and the memory are those of \<open>em\<close>. The number of the process is random.\<close>

definition emPrepare :: "u16 \<Rightarrow> u8 list list \<Rightarrow> 'w Emulator \<Rightarrow> 'w Emulator option" where
  "emPrepare pid args em = do {
     let em = emSetReg BytecodeRegisterIP 0 (emSetReg BytecodeRegisterSP 0 em);
     let em = em\<lparr>emSkipCounter := 0, emInstructionCount := 0, emPid := pid\<rparr>;
     (offset, em) \<leftarrow> emPutStrings args (63 * 1024) em;
     let pwd = offset;
     (offset, em) \<leftarrow> emPutStrings [emPwdString] offset em;
     let path = offset;
     (offset, em) \<leftarrow> emPutStrings [emPathString] offset em;
     Some (em\<lparr>emEnvVars := \<lparr>evArgc = length args, evPwd = pwd, evPath = path\<rparr>\<rparr>)
   }"

text \<open>The file must begin with the two magic bytes; it is put at the start of the memory,
  whatever its size. \<open>False\<close> is a file that is refused.\<close>

definition emLoad :: "u8 list \<Rightarrow> 'w Emulator \<Rightarrow> (bool \<times> 'w Emulator) option" where
  "emLoad file em =
     (if length file < 1 \<or> file ! 0 \<noteq> 47 then Some (False, em)
      else if length file < 2 \<or> file ! 1 \<noteq> 47 then map_option (Pair False) (emWrite 0 (file ! 0) em)
      else map_option (Pair True) (emWriteBytes 0 file em))"

text \<open>The program with the arguments behind its options, the first of which names the file,
  and the content of that file, if it can be opened. The result is its exit status.\<close>

definition emMain ::
    "'w EmulatorEnv \<Rightarrow> bool \<Rightarrow> u16 \<Rightarrow> u8 list list \<Rightarrow> u8 list option \<Rightarrow> 'w Emulator \<Rightarrow> int option" where
  "emMain ee slow pid args file em = do {
     em \<leftarrow> emPrepare pid args (em\<lparr>emExitStatus := 0\<rparr>);
     case file of
       None \<Rightarrow> Some (emExitStatus em)
     | Some bytes \<Rightarrow> do {
         (ok, em) \<leftarrow> emLoad bytes em;
         if \<not> ok then Some (emExitStatus em)
         else do {
           let (t, em) = getRealTimeMs ee em;
           em \<leftarrow> emRun ee slow (em\<lparr>emBootTimeMs := t\<rparr>);
           Some (emExitStatus em)
         }
       }
   }"

end
