(* ===== verification/EmulatorProps.thy ===== *)
theory EmulatorProps
  imports EmulatorSyscall ProcManProps
begin

text \<open>
  The emulator beside the kernel: instructions that only use registers have the same effect in
  both. Where the emulator differs, in what it lets a program write and in its string replacement, is
  stated for the emulator alone, as is its arithmetic on 32 bits.
\<close>

section \<open>Operations on registers\<close>

lemma emulatorClz16_eq: "emulatorClz16 = clz16"
proof -
  have "emulatorClz8Array = clz8Array"
    by (simp add: emulatorClz8Array_def clz8Array_def flip: replicate_add)
  then show ?thesis
    by (simp add: fun_eq_iff emulatorClz16_def emulatorClz8_def clz16_unfold clz8_def)
qed

lemma emCmp_eq: "emCmp (uint a) (uint b) = cmpBits a b"
  unfolding emCmp_def cmpBits_def Let_def
  by (simp add: word_less_def word_le_def word_uint_eq_iff)

lemma word_of_int_op:
  "word_of_int (uint a + uint b) = (a + b :: u16)" "word_of_int (uint a - uint b) = (a - b :: u16)"
  "word_of_int (uint a * uint b) = (a * b :: u16)" "word_of_int (uint a div uint b) = (a div b :: u16)"
  "word_of_int (uint a XOR uint b) = (a XOR b :: u16)" "word_of_int (uint a OR uint b) = (a OR b :: u16)"
  "word_of_int (uint a AND uint b) = (a AND b :: u16)" "word_of_int (NOT (uint a)) = (NOT a :: u16)"
  "word_of_int (push_bit n (uint a)) = (push_bit n a :: u16)"
  "word_of_int (drop_bit n (uint a)) = (drop_bit n a :: u16)"
  "word_of_int (uint a + uint i) = (a + ucast i :: u16)" "word_of_int (uint a - uint i) = (a - ucast i :: u16)"
  for a b :: u16 and i :: u8
  by (simp_all add: word_div_def) (auto intro!: bit_word_eqI simp: bit_simps)

lemma emAluResult_eq:
  "emAluResult t d i (uint a) (uint b) = aluResult t d (ucast i) a b"
  by (cases t) (simp_all add: emAluResult_def aluResult_def emCmp_eq word_of_int_op word_less_def
      word_uint_eq_iff del: of_int_add of_int_diff of_int_mult)

text \<open>The instructions that neither use the memory nor call the system, nor skip others.\<close>

definition aluOnRegisters :: "BytecodeInstructionAluInfo \<Rightarrow> bool" where
  "aluOnRegisters info \<longleftrightarrow>
     (case aluType info of
        BytecodeInstructionAluTypeSkip \<Rightarrow> False
      | BytecodeInstructionAluTypeOther n \<Rightarrow> False
      | BytecodeInstructionAluTypeExtra \<Rightarrow>
          aluExtraTypeOfNat (unat (aluOpBReg info)) \<in>
            {Some BytecodeInstructionAluExtraTypeNot, Some BytecodeInstructionAluExtraTypeClz}
      | _ \<Rightarrow> True)"

definition onRegisters :: "BytecodeInstructionInfo \<Rightarrow> bool" where
  "onRegisters info \<longleftrightarrow>
     (case infoType info of
        BytecodeInstructionTypeMemory \<Rightarrow> memType (infoMemory info) = BytecodeInstructionMemoryTypeSet4
      | BytecodeInstructionTypeAlu \<Rightarrow> aluOnRegisters (infoAlu info)
      | BytecodeInstructionTypeMisc \<Rightarrow>
          (case miscType (infoMisc info) of
             BytecodeInstructionMiscTypeNop \<Rightarrow> True
           | BytecodeInstructionMiscTypeIllegal \<Rightarrow> True
           | BytecodeInstructionMiscTypeSet8 \<Rightarrow> set8DestReg (miscSet8 (infoMisc info)) < BytecodeRegisterNB
           | BytecodeInstructionMiscTypeSet16 \<Rightarrow> set16DestReg (miscSet16 (infoMisc info)) < BytecodeRegisterNB
           | _ \<Rightarrow> False))"

text \<open>The emulator's step on the registers is the kernel's.\<close>

definition sameStep where
  "sameStep em pd e k \<longleftrightarrow> (\<exists>ok r. e = Some (ok, em\<lparr>emRegs := r\<rparr>) \<and> k = Some (ok, pd\<lparr>pdRegs := r\<rparr>))"

lemma sameStep_set:
  "emRegs em = pdRegs pd \<Longrightarrow> sameStep em pd (Some (ok, emSetReg r v em)) (Some (ok, setReg r v pd))"
  by (auto simp: sameStep_def emSetReg_def setReg_def)

lemma sameStep_keep: "emRegs em = pdRegs pd \<Longrightarrow> sameStep em pd (Some (ok, em)) (Some (ok, pd))"
  unfolding sameStep_def by (intro exI [of _ ok] exI [of _ "emRegs em"]) simp

lemma emReg_getReg: "emRegs em = pdRegs pd \<Longrightarrow> emReg r em = getReg pd r"
  by (simp add: emReg_def getReg_def)

lemma aluExtra_step:
  assumes "emRegs em = pdRegs pd" "aluExtraTypeOfNat (unat (aluOpBReg info)) \<in>
    {Some BytecodeInstructionAluExtraTypeNot, Some BytecodeInstructionAluExtraTypeClz}"
  shows "\<exists>ok pd'. aluExtra env p info pd st = Some (ok, pd', st) \<and> sameStep em pd (emAluExtra info em) (Some (ok, pd'))"
  using assms
  by (auto simp: aluExtra_def emAluExtra_def emReg_getReg word_of_int_op emulatorClz16_eq Let_def intro!: sameStep_set)

lemma aluResult_step:
  assumes "emRegs em = pdRegs pd"
  shows "\<exists>ok pd'. (case aluResult t (getReg pd dest) (ucast i) a b of
        None \<Rightarrow> Some (False, pd, pf, st) | Some v \<Rightarrow> Some (True, setReg dest v pd, pf, st)) = Some (ok, pd', pf, st) \<and>
      sameStep em pd (case emAluResult t (emReg dest em) i (uint a) (uint b) of
        None \<Rightarrow> Some (False, em) | Some v \<Rightarrow> Some (True, emSetReg dest v em)) (Some (ok, pd'))"
  using assms
  by (auto simp: emAluResult_eq emReg_getReg split: option.split intro: sameStep_set sameStep_keep)

lemma alu_step:
  assumes "emRegs em = pdRegs pd" "aluOnRegisters info"
  shows "\<exists>ok pd'. procManProcessExecInstructionAlu env p info pd pf st = Some (ok, pd', pf, st) \<and>
      sameStep em pd (emAluInstruction info em) (Some (ok, pd'))"
  using aluExtra_step [OF assms(1), of info env p st] aluResult_step [OF assms(1)] assms
  unfolding procManProcessExecInstructionAlu_def emAluInstruction_def aluOnRegisters_def Let_def
  by (cases "aluType info") (simp_all add: emReg_getReg)

text \<open>C4: an instruction that uses only registers, carried out by the emulator and by the kernel
  from the same registers, ends with the same registers and the same verdict in both, a division by
  zero included; neither changes anything else.\<close>

theorem emulator_matches_kernel_on_registers:
  assumes "emRegs em = pdRegs pd" "info = bytecodeInstructionParse (indetInfo (seFs sys)) instruction"
    "onRegisters info"
  shows "\<exists>ok regs. emExecInstruction ee info em = Some (ok, em\<lparr>emRegs := regs\<rparr>) \<and>
    procManProcessExecInstruction sys pid instruction es pd pf st = Some (ok, es, pd\<lparr>pdRegs := regs\<rparr>, pf, st)"
proof -
  have "\<exists>ok pd'. procManProcessExecInstruction sys pid instruction es pd pf st = Some (ok, es, pd', pf, st) \<and>
      sameStep em pd (emExecInstruction ee info em) (Some (ok, pd'))"
  proof (cases "infoType info")
    case BytecodeInstructionTypeAlu
    then show ?thesis
      using alu_step [OF assms(1), of "infoAlu info" "seFs sys" pid pf st] assms(2,3)
      by (auto simp: procManProcessExecInstruction_def emExecInstruction_def onRegisters_def)
  next
    case BytecodeInstructionTypeMemory
    then show ?thesis
      using assms by (auto simp: procManProcessExecInstruction_def emExecInstruction_def onRegisters_def
          procManProcessExecInstructionMemory_def emMemoryInstruction_def Let_def intro: sameStep_set)
  next
    case BytecodeInstructionTypeMisc
    then show ?thesis
      using assms by (auto simp: procManProcessExecInstruction_def emExecInstruction_def onRegisters_def
          procManProcessExecInstructionMisc_def emMiscInstruction_def Let_def
          split: BytecodeInstructionMiscType.splits intro: sameStep_set sameStep_keep)
  qed
  then show ?thesis by (auto simp: sameStep_def)
qed

section \<open>An example\<close>

text \<open>An emulator whose memory is \<open>m\<close> and whose registers are \<open>regs\<close>, with no input.\<close>

definition exEm :: "u16 list \<Rightarrow> (nat \<Rightarrow> u8) \<Rightarrow> unit Emulator" where
  "exEm regs m = \<lparr>emRegs = regs, emMemory = m, emSkipCounter = 0, emInstructionCount = 0, emPid = 1,
     emEnvVars = \<lparr>evArgc = 0, evPwd = 0, evPath = 0\<rparr>, emExitStatus = 0, emBootTimeMs = 0, emHost = ()\<rparr>"

definition exEmEnv :: "unit EmulatorEnv" where
  "exEmEnv = \<lparr>eeIndet = \<lambda>_. 0, eeInfo = blankInfo, eePassOnExitStatus = False, eeReadStdin = \<lambda>_ w. (None, w),
     eeWriteStdout = \<lambda>_ w. w, eeSleep = \<lambda>_ w. w, eeTimeMs = \<lambda>w. (0, w), eeCompare = \<lambda>a b. uint a - uint b\<rparr>"

text \<open>\<open>r0 = r1 + r2\<close>\<close>

lemma exAdd: "onRegisters (bytecodeInstructionParse (indetInfo (seFs (exSys 0))) (0xE8, 0x0A, 0))"
  by code_simp

theorem emulator_matches_kernel_on_registers_witness:
  "\<exists>ok regs. emExecInstruction exEmEnv (bytecodeInstructionParse (indetInfo (seFs (exSys 0))) (0xE8, 0x0A, 0))
      (exEm (pdRegs exData) (\<lambda>_. 0)) = Some (ok, (exEm (pdRegs exData) (\<lambda>_. 0))\<lparr>emRegs := regs\<rparr>) \<and>
    procManProcessExecInstruction (exSys 0) 0 (0xE8, 0x0A, 0) 0 exData emptyPrefetch exRunning =
      Some (ok, 0, exData\<lparr>pdRegs := regs\<rparr>, emptyPrefetch, exRunning)"
  by (rule emulator_matches_kernel_on_registers [OF _ refl exAdd]) (simp add: exEm_def)

section \<open>Writes into the program\<close>

lemma emWrite_in: "a < emSize \<Longrightarrow> emWrite a b em = Some (em\<lparr>emMemory := (emMemory em)(a := b)\<rparr>)"
  by (simp add: emWrite_def)

lemma emSize_eq: "emSize = 65535"
  by (simp add: emSize_def BytecodeMemoryTotalSize_def)

lemma kernel_write_program:
  "a < 0x7FFF \<Longrightarrow> procManProcessMemoryWriteWord env p a v pd st = Some (False, pd, st)"
  by (simp add: procManProcessMemoryWriteWord_def procManProcessMemoryWriteBlock_def Let_def
      BytecodeMemoryRamAddr_def BytecodeMemoryProgmemAddr_def BytecodeMemoryProgmemSize_def word_less_nat_alt)

text \<open>C37: a push whose stack pointer points into the program is refused by the kernel, which
  changes nothing, while the emulator overwrites the program and goes on.\<close>

theorem emulator_push_overwrites_program:
  assumes "emRegs em = pdRegs pd" "length (pdRegs pd) = 8" "aluType info = BytecodeInstructionAluTypeExtra"
    "aluOpBReg info = 3" "aluDestReg info < 8" "emReg (aluDestReg info) em < 0x7FFF"
  shows "procManProcessExecInstructionAlu env p info pd pf st = Some (False, pd, pf, st) \<and>
    (\<exists>em'. emAluInstruction info em = Some (True, em') \<and>
      be16 (emMemory em' (unat (emReg (aluDestReg info) em))) (emMemory em' (unat (emReg (aluDestReg info) em) + 1)) =
        emReg (aluOpAReg info) em)"
proof -
  let ?d = "aluDestReg info"
  have push: "aluExtraTypeOfNat (unat (aluOpBReg info)) = Some BytecodeInstructionAluExtraTypePush16"
    using assms(4) by (simp add: aluExtraTypeOfNat_def aluExtraTypes_def)
  have d: "unat ?d < length (emRegs em)" using assms(1,2,5) by (simp add: word_less_nat_alt)
  have a: "unat (emReg ?d em) < 0x7FFF" using assms(6) by (simp add: word_less_nat_alt)
  then have a1: "unat (emReg ?d em + 1) = unat (emReg ?d em) + 1" by (simp add: unat_word_ariths)
  have "procManProcessExecInstructionAlu env p info pd pf st = Some (False, pd, pf, st)"
    using assms(3,6) push kernel_write_program [of "getReg pd ?d" env p "getReg pd (aluOpAReg info)" pd st]
    by (simp add: procManProcessExecInstructionAlu_def aluExtra_def emReg_getReg [OF assms(1)] Let_def)
  moreover have "\<exists>em'. emAluInstruction info em = Some (True, em') \<and>
      be16 (emMemory em' (unat (emReg ?d em))) (emMemory em' (unat (emReg ?d em) + 1)) = emReg (aluOpAReg info) em"
  proof -
    have r: "emReg ?d (emSetReg ?d v e) = v" if "emRegs e = emRegs em" for v and e :: "'b Emulator"
      using d that by (simp add: emReg_def emSetReg_def)
    have m: "emMemory (emSetReg r v e) = emMemory e" for r v and e :: "'b Emulator" by (simp add: emSetReg_def)
    show ?thesis
      using assms(3) push a a1
      by (simp add: emAluInstruction_def emAluExtra_def Let_def emWrite_in emSize_eq r m)
        (simp add: emReg_def emSetReg_def d emWrite_def emSize_eq)
  qed
  ultimately show ?thesis by blast
qed

text \<open>\<open>push16 r0 r1\<close> with 1 and 2 in the registers\<close>

definition exPush :: BytecodeInstructionAluInfo where
  "exPush = \<lparr>aluType = BytecodeInstructionAluTypeExtra, aluDestReg = 0, aluOpAReg = 1, aluOpBReg = 3, aluIncDecValue = 0\<rparr>"

lemma exPush_destination: "emReg (aluDestReg exPush) (exEm [1, 2, 0, 0, 0, 0, 0, 0] m) = 1"
  by (simp add: exEm_def exPush_def emReg_def)

lemma exPush_source: "emReg (aluOpAReg exPush) (exEm [1, 2, 0, 0, 0, 0, 0, 0] m) = 2"
  by (simp add: exEm_def exPush_def emReg_def)

theorem emulator_push_overwrites_program_witness:
  "procManProcessExecInstructionAlu (exK 0) 0 exPush (exData\<lparr>pdRegs := [1, 2, 0, 0, 0, 0, 0, 0]\<rparr>) emptyPrefetch exRunning =
     Some (False, exData\<lparr>pdRegs := [1, 2, 0, 0, 0, 0, 0, 0]\<rparr>, emptyPrefetch, exRunning) \<and>
   (\<exists>em'. emAluInstruction exPush (exEm [1, 2, 0, 0, 0, 0, 0, 0] (\<lambda>_. 0)) = Some (True, em') \<and>
     be16 (emMemory em' (unat (1 :: u16))) (emMemory em' (unat (1 :: u16) + 1)) = 2)"
proof -
  let ?em = "exEm [1, 2, 0, 0, 0, 0, 0, 0] (\<lambda>_. 0)"
  have "emRegs ?em = [1, 2, 0, 0, 0, 0, 0, 0]" "aluType exPush = BytecodeInstructionAluTypeExtra"
    "aluOpBReg exPush = 3" "aluDestReg exPush < 8"
    by (simp_all add: exEm_def exPush_def)
  then show ?thesis
    using emulator_push_overwrites_program [of ?em "exData\<lparr>pdRegs := [1, 2, 0, 0, 0, 0, 0, 0]\<rparr>" exPush "exK 0" 0
        emptyPrefetch exRunning]
    unfolding exPush_destination exPush_source by simp
qed

section \<open>Replacing in strings\<close>

text \<open>\<open>ax\<close> at 100, \<open>a\<close> at 110 and \<open>bb\<close> at 120\<close>

definition exStrings :: "nat \<Rightarrow> u8" where
  "exStrings = (\<lambda>_. 0)(100 := 97, 101 := 120, 110 := 97, 120 := 98, 121 := 98)"

lemmas em_string_defs = emStrchrnul.simps emStrlen_def emString_def emStrstr_def emStrcpy_def emMemmove_def
  emReplaceAt_def emSize_eq exStrings_def upt_rec

lemma exStrings_found: "emStrstr 100 110 exStrings = Some (Some 100)"
  by (simp add: em_string_defs)

lemma exStrings_replaced:
  obtains m where "emReplaceAt 100 110 120 exStrings = Some m" "emStrstr 100 110 m = Some None"
    "emString 100 m = Some [98, 98, 98]"
proof -
  have "\<exists>m. emReplaceAt 100 110 120 exStrings = Some m \<and> emStrstr 100 110 m = Some None \<and>
      emString 100 m = Some [98, 98, 98]"
    by (simp add: em_string_defs)
  then show thesis using that by blast
qed

text \<open>When the replacement is longer than what it replaces, the string replacement of the
  emulator has overwritten the text behind before it moves it: replacing \<open>a\<close> by \<open>bb\<close> in \<open>ax\<close> gives
  \<open>bbb\<close>.\<close>

theorem emulator_strreplace_loses_text:
  "map_option (\<lambda>(ok, em). (ok, emReg 0 em, emString 100 (emMemory em)))
     (emStrreplaceCall (exEm [0, 100, 110, 120, 0, 0, 0, 0] exStrings)) = Some (True, 1, Some [98, 98, 98])"
proof -
  obtain m where m: "emReplaceAt 100 110 120 exStrings = Some m" "emStrstr 100 110 m = Some None"
    "emString 100 m = Some [98, 98, 98]"
    by (rule exStrings_replaced)
  have "emStrreplaceLoop 100 110 120 1 m = Some (1, m)"
    by (subst emStrreplaceLoop.simps) (simp add: m)
  then have "emStrreplaceLoop 100 110 120 0 exStrings = Some (1, m)"
    by (subst emStrreplaceLoop.simps) (simp add: m exStrings_found)
  then show ?thesis by (simp add: emStrreplaceCall_def exEm_def emReg_def emSetReg_def m)
qed

section \<open>Division\<close>

lemma emWriteBytes_in:
  "a + length bs \<le> emSize \<Longrightarrow> emWriteBytes a bs em =
     Some (em\<lparr>emMemory := \<lambda>i. if a \<le> i \<and> i < a + length bs then bs ! (i - a) else emMemory em i\<rparr>)"
proof (induction bs arbitrary: a em)
  case Nil
  have "(\<lambda>i. if a \<le> i \<and> i < a then [] ! (i - a) else emMemory em i) = emMemory em" by (auto simp: fun_eq_iff)
  then show ?case by simp
next
  case (Cons b bs)
  have "(emMemory em)(a := b) = (\<lambda>i. if i = a then b else emMemory em i)" by auto
  then show ?case
    using Cons.prems by (simp add: emWrite_in Cons.IH) (auto simp: fun_eq_iff nth_Cons')
qed

lemma emRead32_in:
  "a + 4 \<le> emSize \<Longrightarrow> emRead32 a em =
     Some (be32 (emMemory em a) (emMemory em (a + 1)) (emMemory em (a + 2)) (emMemory em (a + 3)))"
  by (simp add: emRead32_def emRead_def)

lemma emWritable32_in: "emWritable32 a \<Longrightarrow> unat a + 4 \<le> emSize"
  by (simp add: emWritable32_def emSize_eq BytecodeMemoryTotalSize_def word_le_nat_alt unsigned_ucast_eq take_bit_eq_mod not_le)

lemma emReadable32_in: "emReadable32 a \<Longrightarrow> unat a + 4 \<le> emSize"
  by (simp add: emReadable32_def emSize_eq BytecodeMemoryTotalSize_def word_le_nat_alt unsigned_ucast_eq take_bit_eq_mod not_le)

lemma emRead32_written:
  assumes "unat a + 4 \<le> emSize"
  shows "emRead32 (unat a) (em\<lparr>emMemory := \<lambda>i. if unat a \<le> i \<and> i < unat a + 4 then be32_bytes w ! (i - unat a) else m i\<rparr>) = Some w"
  using assms be32_be32_bytes [of w] by (simp add: emRead32_in be32_bytes_def)

text \<open>C36: a division of 32 bit numbers by the emulator stores quotient and remainder at their
  places, from the values before it, even where the divisor is overwritten; the rest of the memory
  and the registers stay.\<close>

theorem emulator_div32_exact:
  assumes ptrs: "emWritable32 (emReg 1 em)" "emReadable32 (emReg 2 em)" "emWritable32 (emReg 3 em)"
    and apart: "unat (emReg 1 em) + 4 \<le> unat (emReg 3 em) \<or> unat (emReg 3 em) + 4 \<le> unat (emReg 1 em)"
    and vals: "emRead32 (unat (emReg 1 em)) em = Some x" "emRead32 (unat (emReg 2 em)) em = Some y" "y \<noteq> 0"
  shows "\<exists>em'. emInt32Div32 em = Some (True, em') \<and> emRegs em' = emRegs em \<and>
    emRead32 (unat (emReg 1 em)) em' = Some (x div y) \<and> emRead32 (unat (emReg 3 em)) em' = Some (x mod y) \<and>
    (\<lambda>i. if unat (emReg 1 em) \<le> i \<and> i < unat (emReg 1 em) + 4 \<or> unat (emReg 3 em) \<le> i \<and> i < unat (emReg 3 em) + 4
         then emMemory em i else emMemory em' i) = emMemory em"
proof -
  let ?a = "unat (emReg 1 em)" and ?r = "unat (emReg 3 em)"
  define m1 where "m1 = (\<lambda>i. if ?a \<le> i \<and> i < ?a + 4 then be32_bytes (x div y) ! (i - ?a) else emMemory em i)"
  define m2 where "m2 = (\<lambda>i. if ?r \<le> i \<and> i < ?r + 4 then be32_bytes (x mod y) ! (i - ?r) else m1 i)"
  have md: "x - x div y * y = x mod y" by (simp add: minus_div_mult_eq_mod)
  have run: "emInt32Div32 em = Some (True, em\<lparr>emMemory := m2\<rparr>)"
    using ptrs vals emWritable32_in [OF ptrs(1)] emWritable32_in [OF ptrs(3)]
    by (simp add: emInt32Div32_def Let_def emWriteBytes_in length_be32_bytes md m1_def m2_def cong: if_cong)
  have "emRead32 ?r (em\<lparr>emMemory := m2\<rparr>) = Some (x mod y)"
    unfolding m2_def by (rule emRead32_written [OF emWritable32_in [OF ptrs(3)]])
  moreover have "emRead32 ?a (em\<lparr>emMemory := m2\<rparr>) = emRead32 ?a (em\<lparr>emMemory := m1\<rparr>)"
    using apart emWritable32_in [OF ptrs(1)] by (auto simp: emRead32_in m2_def)
  moreover have "emRead32 ?a (em\<lparr>emMemory := m1\<rparr>) = Some (x div y)"
    unfolding m1_def by (rule emRead32_written [OF emWritable32_in [OF ptrs(1)]])
  ultimately show ?thesis
    using run by (auto simp: m1_def m2_def fun_eq_iff)
qed

text \<open>17 at \<open>0x8000\<close>, which is divided by the 5 at \<open>0x9000\<close>\<close>

definition exDiv :: "unit Emulator" where
  "exDiv = exEm [0, 0x8000, 0x9000, 0xA000, 0, 0, 0, 0] ((\<lambda>_. 0)(0x8003 := 17, 0x9003 := 5))"

theorem emulator_div32_exact_witness:
  "\<exists>em'. emInt32Div32 exDiv = Some (True, em') \<and> emRead32 0x8000 em' = Some 3 \<and> emRead32 0xA000 em' = Some 2"
proof -
  have r: "emReg 1 exDiv = 0x8000" "emReg 2 exDiv = 0x9000" "emReg 3 exDiv = 0xA000"
    by (simp_all add: exDiv_def exEm_def emReg_def)
  have p: "emWritable32 0x8000" "emReadable32 0x9000" "emWritable32 0xA000"
    by (simp_all add: emWritable32_def emReadable32_def BytecodeMemoryRamAddr_def BytecodeMemoryProgmemAddr_def
        BytecodeMemoryProgmemSize_def BytecodeMemoryTotalSize_def)
  have v: "emRead32 0x8000 exDiv = Some 17" "emRead32 0x9000 exDiv = Some 5"
    by (simp_all add: emRead32_in emSize_eq exDiv_def exEm_def be32_def)
  show ?thesis
    using emulator_div32_exact [of exDiv 17 5, unfolded r] p v by auto
qed

end
