(* ===== verification/Assembler.thy ===== *)
theory Assembler
  imports Bytecode KernelFsPath
begin

text \<open>
  \<open>src/tools/assembler/assembler.c\<close>, first part, with \<open>util.c\<close> beside it: the data of the
  assembler, reading files into lines, stripping comments and spaces, and the directives that include
  other files. Lines and instructions are in arrays of 65536 elements. A computation gives \<open>None\<close>
  where C leaves the behaviour undefined, such as a write past an array, and where an
  assertion fails; \<open>AsmError\<close> is an error reported by a message, after which nothing is written.
  Allocation is taken to succeed. Messages are left out.
\<close>

section \<open>Data\<close>

type_synonym 'a AsmResult = "'a option option"

abbreviation AsmError :: "'a AsmResult" where "AsmError \<equiv> Some None"
abbreviation AsmOk :: "'a \<Rightarrow> 'a AsmResult" where "AsmOk x \<equiv> Some (Some x)"

definition asmBind :: "'a AsmResult \<Rightarrow> ('a \<Rightarrow> 'b AsmResult) \<Rightarrow> 'b AsmResult" where
  "asmBind m f = (case m of None \<Rightarrow> None | Some None \<Rightarrow> AsmError | Some (Some x) \<Rightarrow> f x)"

lemma asmBind_simps [simp]:
  "asmBind None f = None" "asmBind AsmError f = AsmError" "asmBind (AsmOk x) f = f x"
  by (simp_all add: asmBind_def)

lemma asmBind_Ok:
  "asmBind m f = AsmOk y \<longleftrightarrow> (\<exists>x. m = AsmOk x \<and> f x = AsmOk y)"
  by (auto simp: asmBind_def split: option.splits)

definition AssemblerLinesMax :: nat where "AssemblerLinesMax = 65536"

text \<open>The instructions. The data of a definition is the front of an array of 1024 bytes.\<close>

record AssemblerInstructionAllocation =
  alMembSize :: u16
  alSymbol :: cstr
  alLenStr :: cstr
  alLen :: u16
  alTotalSize :: u16
  alRamOffset :: u16

record AssemblerInstructionDefine =
  dfMembSize :: u16
  dfLen :: u16
  dfTotalSize :: u16
  dfSymbol :: cstr
  dfData :: "u8 list"
  dfPointerLineIndex :: u16
  dfPointerOffset :: u16

record AssemblerInstructionAlu =
  asAluType :: BytecodeInstructionAluType
  asAluDest :: cstr
  asAluOpA :: "cstr option"
  asAluOpB :: "cstr option"
  asAluSkipBit :: u8
  asAluIncDecValue :: u8
  asAluExtraType :: u8

datatype AssemblerInstructionType =
    AssemblerInstructionTypeAllocation AssemblerInstructionAllocation
  | AssemblerInstructionTypeDefine AssemblerInstructionDefine
  | AssemblerInstructionTypeMov cstr cstr
  | AssemblerInstructionTypeLabel cstr
  | AssemblerInstructionTypeSyscall
  | AssemblerInstructionTypeClearInstructionCache
  | AssemblerInstructionTypeDebug
  | AssemblerInstructionTypeAlu AssemblerInstructionAlu
  | AssemblerInstructionTypeJmp cstr
  | AssemblerInstructionTypePush8 cstr
  | AssemblerInstructionTypePop8 cstr
  | AssemblerInstructionTypeCall cstr
  | AssemblerInstructionTypeRet
  | AssemblerInstructionTypeStore8 cstr cstr
  | AssemblerInstructionTypeLoad8 cstr cstr
  | AssemblerInstructionTypeXchg8 cstr cstr
  | AssemblerInstructionTypeClz cstr cstr
  | AssemblerInstructionTypeConst cstr u16
  | AssemblerInstructionTypeNop

text \<open>The machine code is the front of an array of 1024 bytes, the others being the byte for
  an illegal instruction.\<close>

definition AssemblerInstructionMachineCodeMax :: nat where
  "AssemblerInstructionMachineCodeMax = 1024"

record AssemblerInstruction =
  aiLineIndex :: u16
  aiType :: AssemblerInstructionType
  aiMachineCode :: "u8 list"
  aiMachineCodeLen :: u16
  aiMachineCodeOffset :: u16
  aiMachineCodeInstructions :: u8

record AssemblerLine =
  alnFile :: cstr
  alnLineNum :: u32
  alnOriginal :: cstr
  alnModified :: cstr

definition AssemblerIncludeDirMax :: nat where "AssemblerIncludeDirMax = 32"
definition AssemblerPathMax :: nat where "AssemblerPathMax = 1024"
definition AssemblerIncludedPathsMax :: nat where "AssemblerIncludedPathsMax = 256"

record AssemblerProgram =
  apLines :: "AssemblerLine list"
  apInstructions :: "AssemblerInstruction list"
  apStackRamOffset :: u16
  apIncludedPaths :: "cstr list"
  apNoStack :: bool
  apNoScratch :: bool
  apIncludeDirs :: "cstr list"

text \<open>The host: the files that can be read, which paths exist, the working directory, the bytes of a
  definition that were never written, and the number of machine instructions found in the slot
  behind the last instruction.\<close>

record AssemblerHost =
  ahFile :: "cstr \<Rightarrow> u8 list option"
  ahExists :: "cstr \<Rightarrow> bool"
  ahCwd :: cstr
  ahIndetData :: "nat \<Rightarrow> u8"
  ahIndetInstructions :: u8

text \<open>The offset of the stack is set before it is read.\<close>

definition assemblerProgramNew :: AssemblerProgram where
  "assemblerProgramNew = \<lparr>apLines = [], apInstructions = [], apStackRamOffset = 0, apIncludedPaths = [],
     apNoStack = False, apNoScratch = False, apIncludeDirs = []\<rparr>"

definition assemblerProgramAddIncludeDir ::
    "cstr \<Rightarrow> AssemblerProgram \<Rightarrow> (bool \<times> AssemblerProgram) option" where
  "assemblerProgramAddIncludeDir dir program =
     (if length (apIncludeDirs program) \<ge> AssemblerIncludeDirMax then Some (False, program)
      else if length dir \<ge> AssemblerPathMax then None
      else Some (True, program\<lparr>apIncludeDirs := apIncludeDirs program @ [dir]\<rparr>))"

section \<open>Paths\<close>

text \<open>One turn of the loop over \<open>/../\<close>, with \<open>c\<close> on a match. The end of the string may move in
  front of \<open>c\<close>; the search then goes on in the bytes left behind it.\<close>

definition utilParentStep :: "u8 list \<Rightarrow> nat \<Rightarrow> bool \<Rightarrow> u8 list \<times> bool" where
  "utilParentStep buf c change =
     (case List.find (\<lambda>d. buf ! d = chSlash) (rev [0..<c]) of
        None \<Rightarrow> (buf, change)
      | Some d \<Rightarrow>
          if take 4 (cstrFrom buf d) = [chSlash, chDot, chDot, chSlash] then (buf, change)
          else (memmoveBuf buf d (c + 3) (length (cstrFrom buf (c + 3)) + 1), True))"

partial_function (option) utilParentLoop :: "u8 list \<Rightarrow> nat \<Rightarrow> bool \<Rightarrow> (u8 list \<times> bool) option" where
  "utilParentLoop buf c change =
     (case strstrFrom buf c [chSlash, chDot, chDot, chSlash] of
        None \<Rightarrow> Some (buf, change)
      | Some c \<Rightarrow> (case utilParentStep buf c change of (buf', change') \<Rightarrow> utilParentLoop buf' (c + 1) change'))"

partial_function (option) utilNormaliseLoop :: "u8 list \<Rightarrow> u8 list option" where
  "utilNormaliseLoop buf =
     (case utilParentLoop buf 0 False of
        None \<Rightarrow> None
      | Some bc \<Rightarrow>
          (case squeeze [chSlash, chSlash] 1 (squeeze [chSlash, chDot, chSlash] 2 bc) of
             (buf', change) \<Rightarrow> if change then utilNormaliseLoop buf' else Some buf'))"

declare utilParentLoop.simps [code] utilNormaliseLoop.simps [code]

text \<open>The slash is appended in the buffer of the caller, which has 1024 bytes.\<close>

definition pathNormalise :: "cstr \<Rightarrow> cstr option" where
  "pathNormalise path =
     (if length path + 2 > AssemblerPathMax then None
      else case utilNormaliseLoop (path @ [chSlash, 0]) of
        None \<Rightarrow> None
      | Some buf \<Rightarrow>
          let s = cstrFrom buf 0 in
          Some (if s \<noteq> [chSlash] \<and> s \<noteq> [] \<and> last s = chSlash then butlast s else s))"

text \<open>A path made absolute: the working directory must fit the buffer.\<close>

definition absolutePath :: "AssemblerHost \<Rightarrow> cstr \<Rightarrow> cstr option" where
  "absolutePath host path =
     (if charAt path 0 \<noteq> chSlash then
        (if length (ahCwd host) + 1 + length path < AssemblerPathMax
         then pathNormalise (ahCwd host @ [chSlash] @ path) else None)
      else if length path < AssemblerPathMax then pathNormalise path else None)"

section \<open>Lines\<close>

definition assemblerInsertLine :: "AssemblerLine \<Rightarrow> nat \<Rightarrow> AssemblerProgram \<Rightarrow> AssemblerProgram option" where
  "assemblerInsertLine line offset program =
     (let ls = apLines program in
      if offset \<le> length ls \<and> length ls < AssemblerLinesMax
      then Some (program\<lparr>apLines := take offset ls @ [line] @ drop offset ls\<rparr>) else None)"

definition assemblerRemoveLine :: "nat \<Rightarrow> AssemblerProgram \<Rightarrow> AssemblerProgram option" where
  "assemblerRemoveLine offset program =
     (let ls = apLines program in
      if offset < length ls then Some (program\<lparr>apLines := take offset ls @ drop (Suc offset) ls\<rparr>) else None)"

text \<open>What \<open>getline\<close> returns, each with its newline. The text is a C string, which must not be
  empty for the test of its last byte.\<close>

fun fileLines :: "u8 list \<Rightarrow> u8 list list" where
  "fileLines [] = []"
| "fileLines (b # bs) =
     (if b = 10 then [b] # fileLines bs
      else case fileLines bs of [] \<Rightarrow> [[b]] | l # ls \<Rightarrow> (b # l) # ls)"

definition lineText :: "u8 list \<Rightarrow> cstr option" where
  "lineText l =
     (let s = takeWhile (\<lambda>b. b \<noteq> 0) l in
      if s = [] then None else Some (if last s = 10 then butlast s else s))"

fun insertFileLines ::
    "cstr \<Rightarrow> u32 \<Rightarrow> u8 list list \<Rightarrow> nat \<Rightarrow> AssemblerProgram \<Rightarrow> AssemblerProgram option" where
  "insertFileLines path lineNum [] offset program = Some program"
| "insertFileLines path lineNum (l # ls) offset program = do {
     text \<leftarrow> lineText l;
     program \<leftarrow> assemblerInsertLine
       \<lparr>alnFile = path, alnLineNum = lineNum, alnOriginal = text, alnModified = text\<rparr> offset program;
     insertFileLines path (lineNum + 1) ls (offset + 1) program
   }"

definition assemblerInsertLinesFromFile ::
    "AssemblerHost \<Rightarrow> cstr \<Rightarrow> nat \<Rightarrow> AssemblerProgram \<Rightarrow> AssemblerProgram AsmResult" where
  "assemblerInsertLinesFromFile host path offset program =
     (case ahFile host path of
        None \<Rightarrow> AsmError
      | Some bytes \<Rightarrow> do {
          program \<leftarrow> insertFileLines path 1 (fileLines bytes) offset program;
          if length (apIncludedPaths program) < AssemblerIncludedPathsMax \<and> length path < AssemblerPathMax
          then AsmOk (program\<lparr>apIncludedPaths := apIncludedPaths program @ [path]\<rparr>)
          else None
        })"

end
