(* ===== verification/AssemblerSource.thy ===== *)
theory AssemblerSource
  imports Assembler
begin

text \<open>
  \<open>src/tools/assembler/assembler.c\<close>, second part: from the text of the lines to the lines that are
  parsed. Comments and superfluous spaces are taken out, and the directives that include files or set
  options are carried out, until nothing changes. Each of the loops over the characters of a line
  steps over the character behind a backslash in a string without a look at it, so a string
  with a backslash at the end of the line is read past its end.
\<close>

section \<open>Comments and spaces\<close>

definition chQuote :: u8 where "chQuote = 39"
definition chBackslash :: u8 where "chBackslash = 92"
definition chSemicolon :: u8 where "chSemicolon = 59"
definition chSpace :: u8 where "chSpace = 32"

definition isSpace :: "u8 \<Rightarrow> bool" where "isSpace b \<longleftrightarrow> b = 32 \<or> 9 \<le> b \<and> b \<le> 13"

text \<open>Every white space becomes a space, which does not count as a change, and a comment is cut
  off.\<close>

fun stripComment :: "bool \<Rightarrow> cstr \<Rightarrow> (cstr \<times> bool) option" where
  "stripComment inString [] = Some ([], False)"
| "stripComment inString (c # cs) =
     (if inString then
        (if c = chQuote then map_option (map_prod ((#) c) id) (stripComment False cs)
         else if c = chBackslash then
           (case cs of
              [] \<Rightarrow> None
            | d # ds \<Rightarrow> map_option (map_prod (\<lambda>s. c # d # s) id) (stripComment True ds))
         else map_option (map_prod ((#) c) id) (stripComment True cs))
      else if c = chQuote then map_option (map_prod ((#) c) id) (stripComment True cs)
      else if c = chSemicolon then Some ([], True)
      else map_option (map_prod ((#) (if isSpace c then chSpace else c)) id) (stripComment False cs))"

text \<open>One turn of the loop that removes a space in front of another: the string moves up by one,
  and the search goes on behind.\<close>

fun squeezeSpaces :: "bool \<Rightarrow> cstr \<Rightarrow> (cstr \<times> bool) option" where
  "squeezeSpaces inString [] = Some ([], False)"
| "squeezeSpaces inString (c # cs) =
     (if inString then
        (if c = chQuote then map_option (map_prod ((#) c) id) (squeezeSpaces False cs)
         else if c = chBackslash then
           (case cs of
              [] \<Rightarrow> None
            | d # ds \<Rightarrow> map_option (map_prod (\<lambda>s. c # d # s) id) (squeezeSpaces True ds))
         else map_option (map_prod ((#) c) id) (squeezeSpaces True cs))
      else if c = chQuote then map_option (map_prod ((#) c) id) (squeezeSpaces True cs)
      else if c = chSpace then
        (case cs of
           [] \<Rightarrow> Some ([c], False)
         | d # ds \<Rightarrow>
             if d = chSpace then map_option (map_prod ((#) c) (\<lambda>_. True)) (squeezeSpaces False ds)
             else map_option (map_prod ((#) c) id) (squeezeSpaces False cs))
      else map_option (map_prod ((#) c) id) (squeezeSpaces False cs))"

lemma squeezeSpaces_length:
  "squeezeSpaces q s = Some (s', ch) \<Longrightarrow> length s' \<le> length s \<and> (ch \<longrightarrow> length s' < length s)"
  by (induction q s arbitrary: s' ch rule: squeezeSpaces.induct)
    (auto simp: Let_def less_Suc_eq_le split: if_splits list.splits, fastforce+)

function squeezeSpacesLoop :: "cstr \<Rightarrow> (cstr \<times> bool) option" where
  "squeezeSpacesLoop s =
     (case squeezeSpaces False s of
        None \<Rightarrow> None
      | Some (s', ch) \<Rightarrow>
          if ch then map_option (map_prod id (\<lambda>_. True)) (squeezeSpacesLoop s') else Some (s', False))"
  by pat_completeness auto
termination by (relation "measure length") (auto dest!: squeezeSpaces_length)

declare squeezeSpacesLoop.simps [simp del]

definition trimLine :: "cstr \<Rightarrow> cstr \<times> bool" where
  "trimLine s =
     (let front = charAt s 0 = chSpace;
          s = (if front then tl s else s);
          back = (s \<noteq> [] \<and> last s = chSpace)
      in (if back then butlast s else s, front \<or> back))"

definition preprocessLine :: "cstr \<Rightarrow> (cstr \<times> bool) option" where
  "preprocessLine s = do {
     (s, ch1) \<leftarrow> stripComment False s;
     (s, ch2) \<leftarrow> squeezeSpacesLoop s;
     let (s, ch3) = trimLine s;
     Some (s, ch1 \<or> ch2 \<or> ch3)
   }"

fun preprocessLines :: "AssemblerLine list \<Rightarrow> (AssemblerLine list \<times> bool) option" where
  "preprocessLines [] = Some ([], False)"
| "preprocessLines (l # ls) = do {
     (s, ch) \<leftarrow> preprocessLine (alnModified l);
     (ls, ch') \<leftarrow> preprocessLines ls;
     Some (l\<lparr>alnModified := s\<rparr> # ls, ch \<or> ch')
   }"

definition assemblerProgramPreprocess :: "AssemblerProgram \<Rightarrow> (AssemblerProgram \<times> bool) option" where
  "assemblerProgramPreprocess program = do {
     (ls, ch) \<leftarrow> preprocessLines (apLines program);
     Some (program\<lparr>apLines := ls\<rparr>, ch)
   }"

subsection \<open>Preprocessing ends: a change makes a line shorter\<close>

lemma stripComment_length:
  "stripComment q s = Some (s', ch) \<Longrightarrow> length s' \<le> length s \<and> (ch \<longrightarrow> length s' < length s)"
  by (induction q s arbitrary: s' ch rule: stripComment.induct)
    (auto simp: Let_def less_Suc_eq_le split: if_splits list.splits, fastforce+)

lemma squeezeSpacesLoop_length:
  "squeezeSpacesLoop s = Some (s', ch) \<Longrightarrow> length s' \<le> length s \<and> (ch \<longrightarrow> length s' < length s)"
proof (induction s arbitrary: s' ch rule: squeezeSpacesLoop.induct)
  case (1 s)
  from 1(2) obtain s1 c1 where sq: "squeezeSpaces False s = Some (s1, c1)"
    by (subst (asm) squeezeSpacesLoop.simps) (auto split: option.splits)
  note len = squeezeSpaces_length [OF sq]
  from 1(2) sq show ?case
    by (subst (asm) squeezeSpacesLoop.simps) (use len 1(1) [OF sq] in \<open>fastforce split: if_splits\<close>)
qed

lemma trimLine_length:
  "trimLine s = (s', ch) \<Longrightarrow> length s' \<le> length s \<and> (ch \<longrightarrow> length s' < length s)"
  by (cases s) (auto simp: trimLine_def charAt_def Let_def chSpace_def split: if_splits)

lemma preprocessLine_length:
  "preprocessLine s = Some (s', ch) \<Longrightarrow> length s' \<le> length s \<and> (ch \<longrightarrow> length s' < length s)"
  unfolding preprocessLine_def
  by (cases "stripComment False s"; cases "squeezeSpacesLoop (fst (the (stripComment False s)))";
      cases "trimLine (fst (the (squeezeSpacesLoop (fst (the (stripComment False s))))))")
    (auto dest!: stripComment_length squeezeSpacesLoop_length trimLine_length split: prod.splits)

definition linesSize :: "AssemblerLine list \<Rightarrow> nat" where
  "linesSize ls = sum_list (map (\<lambda>l. length (alnModified l)) ls)"

lemma preprocessLines_size:
  "preprocessLines ls = Some (ls', ch) \<Longrightarrow>
   length ls' = length ls \<and> linesSize ls' \<le> linesSize ls \<and> (ch \<longrightarrow> linesSize ls' < linesSize ls)"
  by (induction ls arbitrary: ls' ch)
    (force simp: linesSize_def bind_eq_Some_conv dest!: preprocessLine_length)+

function preprocessLoop :: "AssemblerProgram \<Rightarrow> (AssemblerProgram \<times> bool) option" where
  "preprocessLoop program =
     (case assemblerProgramPreprocess program of
        None \<Rightarrow> None
      | Some (program', ch) \<Rightarrow>
          if ch then map_option (map_prod id (\<lambda>_. True)) (preprocessLoop program') else Some (program', False))"
  by pat_completeness auto
termination
  by (relation "measure (\<lambda>p. linesSize (apLines p))")
    (auto simp: assemblerProgramPreprocess_def bind_eq_Some_conv dest!: preprocessLines_size)

declare preprocessLoop.simps [simp del]

section \<open>Directives\<close>

definition startsWith :: "string \<Rightarrow> cstr \<Rightarrow> bool" where
  "startsWith p s \<longleftrightarrow> take (length p) s = bytesOf p"

text \<open>The first of the directory of the calling file and the include directories, in order, in which
  the file exists. The outer \<open>None\<close> is a path that does not fit its buffer.\<close>

fun locateIn :: "AssemblerHost \<Rightarrow> cstr list \<Rightarrow> cstr \<Rightarrow> cstr AsmResult" where
  "locateIn host [] srcPath = Some None"
| "locateIn host (d # ds) srcPath =
     (case pathNormalise (d @ srcPath) of
        None \<Rightarrow> None
      | Some p \<Rightarrow> if ahExists host p then Some (Some p) else locateIn host ds srcPath)"

definition directoryOf :: "cstr \<Rightarrow> cstr" where
  "directoryOf path = (case lastIndex chSlash path of None \<Rightarrow> [] | Some i \<Rightarrow> take (Suc i) path)"

definition assemblerProgramLocateInclude ::
    "AssemblerHost \<Rightarrow> AssemblerProgram \<Rightarrow> cstr \<Rightarrow> cstr \<Rightarrow> cstr AsmResult" where
  "assemblerProgramLocateInclude host program callerPath srcPath =
     (if length callerPath \<ge> AssemblerPathMax then None
      else case locateIn host (directoryOf callerPath # map (\<lambda>d. d @ [chSlash]) (apIncludeDirs program)) srcPath of
        None \<Rightarrow> None
      | Some None \<Rightarrow> Some None
      | Some (Some p) \<Rightarrow> map_option Some (absolutePath host p))"

text \<open>A file that is not found only draws a warning, and the search goes on behind the next line; one
  that was already included is not taken again by \<open>require\<close>. After a file was included the
  search ends.\<close>

function includeLoop ::
    "AssemblerHost \<Rightarrow> nat \<Rightarrow> bool \<Rightarrow> AssemblerProgram \<Rightarrow> (bool \<times> AssemblerProgram) AsmResult" where
  "includeLoop host line change program =
     (if line \<ge> length (apLines program) then AsmOk (change, program)
      else
        let l = apLines program ! line;
            s = alnModified l;
            isInclude = startsWith ''include '' s;
            isRequire = startsWith ''require '' s;
            isRequireEnd = startsWith ''requireend '' s
        in if \<not> isInclude \<and> \<not> isRequire \<and> \<not> isRequireEnd then includeLoop host (line + 1) change program
           else case assemblerProgramLocateInclude host program (alnFile l) (tl (dropWhile (\<lambda>b. b \<noteq> chSpace) s)) of
             None \<Rightarrow> None
           | Some located \<Rightarrow>
               (case assemblerRemoveLine line program of
                  None \<Rightarrow> None
                | Some program' \<Rightarrow>
                    (case located of
                       None \<Rightarrow> includeLoop host (line + 1) True program'
                     | Some newPath \<Rightarrow>
                         if (isRequire \<or> isRequireEnd) \<and> newPath \<in> set (apIncludedPaths program')
                         then includeLoop host line True program'
                         else
                           (let offset = (if isRequireEnd then length (apLines program') else line) in
                            asmBind (assemblerInsertLinesFromFile host newPath offset program')
                              (\<lambda>program''. AsmOk (True, program''))))))"
  by pat_completeness auto
termination
  by (relation "measure (\<lambda>(host, line, change, program). length (apLines program) - line)")
    (auto simp: assemblerRemoveLine_def Let_def split: if_splits)

declare includeLoop.simps [simp del]

definition assemblerProgramHandleNextInclude ::
    "AssemblerHost \<Rightarrow> AssemblerProgram \<Rightarrow> (bool \<times> AssemblerProgram) AsmResult" where
  "assemblerProgramHandleNextInclude host program = includeLoop host 0 False program"

definition isOption :: "AssemblerLine \<Rightarrow> bool" where
  "isOption l \<longleftrightarrow> startsWith ''nostack'' (alnModified l) \<or> startsWith ''noscratch'' (alnModified l)"

definition assemblerProgramHandleNextOption :: "AssemblerProgram \<Rightarrow> (bool \<times> AssemblerProgram) option" where
  "assemblerProgramHandleNextOption program =
     (case List.find (\<lambda>i. isOption (apLines program ! i)) [0..<length (apLines program)] of
        None \<Rightarrow> Some (False, program)
      | Some line \<Rightarrow>
          let s = alnModified (apLines program ! line) in
          map_option (\<lambda>program. (True, program\<lparr>
              apNoStack := apNoStack program \<or> startsWith ''nostack'' s,
              apNoScratch := apNoScratch program \<or> startsWith ''noscratch'' s\<rparr>))
            (assemblerRemoveLine line program))"

text \<open>A file that includes itself never stops growing, until the lines no longer fit.\<close>

partial_function (option) sourceLoop ::
    "AssemblerHost \<Rightarrow> AssemblerProgram \<Rightarrow> AssemblerProgram AsmResult" where
  "sourceLoop host program =
     (case preprocessLoop program of
        None \<Rightarrow> None
      | Some (program, change1) \<Rightarrow>
          (case assemblerProgramHandleNextInclude host program of
             None \<Rightarrow> None
           | Some None \<Rightarrow> Some None
           | Some (Some (change2, program)) \<Rightarrow>
               (case assemblerProgramHandleNextOption program of
                  None \<Rightarrow> None
                | Some (change3, program) \<Rightarrow>
                    if change1 \<or> change2 \<or> change3 then sourceLoop host program else Some (Some program))))"

declare sourceLoop.simps [code]

definition readSource :: "AssemblerHost \<Rightarrow> cstr \<Rightarrow> AssemblerProgram \<Rightarrow> AssemblerProgram AsmResult" where
  "readSource host inputPath program =
     (case absolutePath host inputPath of
        None \<Rightarrow> None
      | Some path \<Rightarrow>
          asmBind (assemblerInsertLinesFromFile host path 0 program) (sourceLoop host))"

end
