(* ===== verification/AssemblerParse.thy ===== *)
theory AssemblerParse
  imports AssemblerSource
begin

text \<open>
  \<open>src/tools/assembler/assembler.c\<close>, third part: from lines to instructions. A token is cut
  off by \<open>strtok_r\<close>; the data of a definition and the source of a \<open>mov\<close> are the rest of the line
  behind the single space that ends the token before them, and when the line ends there the code
  reads past its end.
\<close>

section \<open>Symbols\<close>

text \<open>The index of the first instruction with a property.\<close>

fun findIndex :: "('a \<Rightarrow> bool) \<Rightarrow> 'a list \<Rightarrow> nat option" where
  "findIndex P [] = None"
| "findIndex P (x # xs) = (if P x then Some 0 else map_option Suc (findIndex P xs))"

lemma findIndex_Some: "findIndex P xs = Some i \<Longrightarrow> i < length xs \<and> P (xs ! i) \<and> (\<forall>j<i. \<not> P (xs ! j))"
proof (induction xs arbitrary: i)
  case (Cons x xs)
  show ?case
  proof (cases "P x")
    case False
    with Cons.prems obtain k where k: "findIndex P xs = Some k" "i = Suc k" by auto
    with Cons.IH [OF k(1)] False show ?thesis by (auto simp: nth_Cons' less_Suc_eq_0_disj)
  qed (use Cons.prems in simp)
qed simp

lemma findIndex_None: "findIndex P xs = None \<longleftrightarrow> (\<forall>x \<in> set xs. \<not> P x)"
  by (induction xs) auto

lemma findIndex_ext:
  "length xs = length ys \<Longrightarrow> (\<And>i. i < length xs \<Longrightarrow> P (xs ! i) = Q (ys ! i)) \<Longrightarrow>
   findIndex P xs = findIndex Q ys"
proof (induction xs ys rule: list_induct2)
  case (Cons x xs y ys)
  have "P x = Q y" using Cons.prems [of 0] by simp
  moreover have "P (xs ! i) = Q (ys ! i)" if "i < length xs" for i
    using Cons.prems [of "Suc i"] that by simp
  then have "findIndex P xs = findIndex Q ys" by (rule Cons.IH)
  ultimately show ?case by simp
qed simp

fun isAllocationOf :: "cstr \<Rightarrow> AssemblerInstructionType \<Rightarrow> bool" where
  "isAllocationOf s (AssemblerInstructionTypeAllocation a) = (alSymbol a = s)"
| "isAllocationOf s _ = False"

fun isDefineOf :: "cstr \<Rightarrow> AssemblerInstructionType \<Rightarrow> bool" where
  "isDefineOf s (AssemblerInstructionTypeDefine d) = (dfSymbol d = s)"
| "isDefineOf s _ = False"

fun isLabelOf :: "cstr \<Rightarrow> AssemblerInstructionType \<Rightarrow> bool" where
  "isLabelOf s (AssemblerInstructionTypeLabel l) = (l = s)"
| "isLabelOf s _ = False"

fun isConstOf :: "cstr \<Rightarrow> AssemblerInstructionType \<Rightarrow> bool" where
  "isConstOf s (AssemblerInstructionTypeConst c v) = (c = s)"
| "isConstOf s _ = False"

definition assemblerGetAllocationSymbolInstructionIndex :: "AssemblerProgram \<Rightarrow> cstr \<Rightarrow> nat option" where
  "assemblerGetAllocationSymbolInstructionIndex program symbol =
     findIndex (\<lambda>i. isAllocationOf symbol (aiType i)) (apInstructions program)"

definition assemblerGetAllocationSymbolAddr :: "AssemblerProgram \<Rightarrow> cstr \<Rightarrow> nat option" where
  "assemblerGetAllocationSymbolAddr program symbol =
     (case assemblerGetAllocationSymbolInstructionIndex program symbol of
        None \<Rightarrow> None
      | Some index \<Rightarrow>
          (case aiType (apInstructions program ! index) of
             AssemblerInstructionTypeAllocation a \<Rightarrow> Some (unat (alRamOffset a)) | _ \<Rightarrow> None))"

definition assemblerGetDefineSymbolInstructionIndex :: "AssemblerProgram \<Rightarrow> cstr \<Rightarrow> nat option" where
  "assemblerGetDefineSymbolInstructionIndex program symbol =
     findIndex (\<lambda>i. isDefineOf symbol (aiType i)) (apInstructions program)"

text \<open>A definition whose bytes lie in those of another has the address of that one and an
  offset.\<close>

definition assemblerGetDefineSymbolAddr :: "AssemblerProgram \<Rightarrow> cstr \<Rightarrow> nat option" where
  "assemblerGetDefineSymbolAddr program symbol =
     (case assemblerGetDefineSymbolInstructionIndex program symbol of
        None \<Rightarrow> None
      | Some index \<Rightarrow>
          let i = apInstructions program ! index in
          (case aiType i of
             AssemblerInstructionTypeDefine d \<Rightarrow>
               if dfPointerLineIndex d = aiLineIndex i then Some (unat (aiMachineCodeOffset i))
               else (case findIndex (\<lambda>j. aiLineIndex j = dfPointerLineIndex d) (apInstructions program) of
                  None \<Rightarrow> None
                | Some j \<Rightarrow>
                    Some (unat (aiMachineCodeOffset (apInstructions program ! j)) + unat (dfPointerOffset d)))
           | _ \<Rightarrow> None))"

definition assemblerGetLabelSymbolInstructionIndex :: "AssemblerProgram \<Rightarrow> cstr \<Rightarrow> nat option" where
  "assemblerGetLabelSymbolInstructionIndex program symbol =
     findIndex (\<lambda>i. isLabelOf symbol (aiType i)) (apInstructions program)"

definition assemblerGetLabelSymbolAddr :: "AssemblerProgram \<Rightarrow> cstr \<Rightarrow> nat option" where
  "assemblerGetLabelSymbolAddr program symbol =
     (case assemblerGetLabelSymbolInstructionIndex program symbol of
        None \<Rightarrow> None
      | Some index \<Rightarrow> Some (unat (aiMachineCodeOffset (apInstructions program ! index))))"

definition assemblerGetConstSymbolInstructionIndex :: "AssemblerProgram \<Rightarrow> cstr \<Rightarrow> nat option" where
  "assemblerGetConstSymbolInstructionIndex program symbol =
     findIndex (\<lambda>i. isConstOf symbol (aiType i)) (apInstructions program)"

definition assemblerGetConstSymbolValue :: "AssemblerProgram \<Rightarrow> cstr \<Rightarrow> nat option" where
  "assemblerGetConstSymbolValue program symbol =
     (case assemblerGetConstSymbolInstructionIndex program symbol of
        None \<Rightarrow> None
      | Some index \<Rightarrow>
          (case aiType (apInstructions program ! index) of
             AssemblerInstructionTypeConst c v \<Rightarrow> Some (unat v) | _ \<Rightarrow> None))"

text \<open>A missing operand is a null pointer.\<close>

definition assemblerRegisterFromStr :: "cstr option \<Rightarrow> u8" where
  "assemblerRegisterFromStr str =
     (case str of
        None \<Rightarrow> BytecodeRegisterNB
      | Some s \<Rightarrow>
          if charAt s 0 \<noteq> 114 \<or> (charAt s 1 < 48 \<or> charAt s 1 > 55) \<or> charAt s 2 \<noteq> 0 then BytecodeRegisterNB
          else charAt s 1 - 48)"

lemma register_less:
  "assemblerRegisterFromStr s \<noteq> BytecodeRegisterNB \<Longrightarrow> unat (assemblerRegisterFromStr s) < 8"
proof -
  have "unat (c - 48) < 8" if "\<not> c < (48 :: u8)" "\<not> 55 < c" for c
    using that by (simp add: unat_sub_if_size word_less_nat_alt word_size)
  then show "assemblerRegisterFromStr s \<noteq> BytecodeRegisterNB \<Longrightarrow> unat (assemblerRegisterFromStr s) < 8"
    by (auto simp: assemblerRegisterFromStr_def split: option.splits if_splits)
qed

section \<open>The ALU instructions\<close>

record AssemblerInstructionAluData =
  adType :: BytecodeInstructionAluType
  adStr :: cstr
  adOps :: nat
  adSkipBit :: u8
  adIncDecValue :: u8
  adExtraType :: u8

definition aluData :: "string \<Rightarrow> BytecodeInstructionAluType \<Rightarrow> nat \<Rightarrow> AssemblerInstructionAluData" where
  "aluData s t ops = \<lparr>adType = t, adStr = bytesOf s, adOps = ops, adSkipBit = 0, adIncDecValue = 0,
     adExtraType = 0\<rparr>"

text \<open>\<open>inc\<close>, \<open>inc1\<close> to \<open>inc64\<close>, and the same for \<open>dec\<close>.\<close>

definition incDecData :: "string \<Rightarrow> BytecodeInstructionAluType \<Rightarrow> AssemblerInstructionAluData list" where
  "incDecData s t = (aluData s t 0)\<lparr>adIncDecValue := 1\<rparr> #
     map (\<lambda>n. (aluData s t 0)\<lparr>adStr := bytesOf s @ decimalBytes n, adIncDecValue := of_nat n\<rparr>) [1..<65]"

definition assemblerIncData :: "AssemblerInstructionAluData list" where
  "assemblerIncData = incDecData ''inc'' BytecodeInstructionAluTypeInc"

definition assemblerDecData :: "AssemblerInstructionAluData list" where
  "assemblerDecData = incDecData ''dec'' BytecodeInstructionAluTypeDec"

definition skipData :: "string \<Rightarrow> u8 \<Rightarrow> AssemblerInstructionAluData" where
  "skipData s b = (aluData s BytecodeInstructionAluTypeSkip 0)\<lparr>adSkipBit := b\<rparr>"

definition extraData :: "string \<Rightarrow> nat \<Rightarrow> u8 \<Rightarrow> AssemblerInstructionAluData" where
  "extraData s ops t = (aluData s BytecodeInstructionAluTypeExtra ops)\<lparr>adExtraType := t\<rparr>"

definition assemblerOtherData :: "AssemblerInstructionAluData list" where
  "assemblerOtherData =
     [aluData ''add'' BytecodeInstructionAluTypeAdd 2, aluData ''sub'' BytecodeInstructionAluTypeSub 2,
      aluData ''mul'' BytecodeInstructionAluTypeMul 2, aluData ''div'' BytecodeInstructionAluTypeDiv 2,
      aluData ''xor'' BytecodeInstructionAluTypeXor 2, aluData ''or'' BytecodeInstructionAluTypeOr 2,
      aluData ''and'' BytecodeInstructionAluTypeAnd 2, aluData ''cmp'' BytecodeInstructionAluTypeCmp 2,
      aluData ''shl'' BytecodeInstructionAluTypeShiftLeft 2, aluData ''shr'' BytecodeInstructionAluTypeShiftRight 2,
      skipData ''skipeq'' 0, skipData ''skipeqz'' 1, skipData ''skipneq'' 2, skipData ''skipneqz'' 3,
      skipData ''skiplt'' 4, skipData ''skiple'' 5, skipData ''skipgt'' 6, skipData ''skipge'' 7,
      skipData ''skip0'' 0, skipData ''skip1'' 1, skipData ''skip2'' 2, skipData ''skip3'' 3,
      skipData ''skip4'' 4, skipData ''skip5'' 5, skipData ''skip6'' 6, skipData ''skip7'' 7,
      extraData ''not'' 1 0, extraData ''store16'' 1 1, extraData ''load16'' 1 2,
      extraData ''push16'' 0 3, extraData ''pop16'' 0 4]"

definition assemblerInstructionAluData :: "AssemblerInstructionAluData list" where
  "assemblerInstructionAluData = assemblerIncData @ assemblerDecData @ assemblerOtherData"

section \<open>Lines\<close>

text \<open>The next token, with what follows it; the space at its end is still there.\<close>

definition strtok :: "cstr \<Rightarrow> (cstr \<times> cstr) option" where
  "strtok s =
     (let t = dropWhile (\<lambda>b. b = chSpace) s in
      if t = [] then None else Some (takeWhile (\<lambda>b. b \<noteq> chSpace) t, dropWhile (\<lambda>b. b \<noteq> chSpace) t))"

definition needToken :: "cstr \<Rightarrow> (cstr \<Rightarrow> cstr \<Rightarrow> 'a AsmResult) \<Rightarrow> 'a AsmResult" where
  "needToken s f = (case strtok s of None \<Rightarrow> AsmError | Some (t, rest) \<Rightarrow> f t rest)"

text \<open>\<open>atoi\<close> is undefined for a number that does not fit an \<open>int\<close>.\<close>

definition atoiInt :: "cstr \<Rightarrow> int option" where
  "atoiInt s = (let v = atoi s in if - (2 ^ 31) \<le> v \<and> v < 2 ^ 31 then Some v else None)"

definition symbolIsFree :: "AssemblerProgram \<Rightarrow> cstr \<Rightarrow> bool" where
  "symbolIsFree program symbol \<longleftrightarrow>
     assemblerRegisterFromStr (Some symbol) = BytecodeRegisterNB \<and>
     assemblerGetAllocationSymbolInstructionIndex program symbol = None \<and>
     assemblerGetDefineSymbolInstructionIndex program symbol = None \<and>
     assemblerGetLabelSymbolInstructionIndex program symbol = None \<and>
     assemblerGetConstSymbolInstructionIndex program symbol = None"

definition membSizeOf :: "cstr \<Rightarrow> u16" where
  "membSizeOf first = (if charAt first 1 = 98 then 1 else 2)"

definition parseAllocation :: "AssemblerProgram \<Rightarrow> cstr \<Rightarrow> cstr \<Rightarrow> AssemblerInstructionType AsmResult" where
  "parseAllocation program first rest =
     needToken rest (\<lambda>symbol rest. needToken rest (\<lambda>lenStr rest.
       if \<not> symbolIsFree program symbol then AsmError
       else AsmOk (AssemblerInstructionTypeAllocation \<lparr>alMembSize = membSizeOf first, alSymbol = symbol,
         alLenStr = lenStr, alLen = 0, alTotalSize = 0, alRamOffset = 0\<rparr>)))"

subsection \<open>The data of a definition\<close>

text \<open>A byte is put at an index of the array; bytes in between that were never written are
  indeterminate.\<close>

definition dataPut :: "(nat \<Rightarrow> u8) \<Rightarrow> nat \<Rightarrow> u8 \<Rightarrow> u8 list \<Rightarrow> u8 list option" where
  "dataPut indet k b bytes =
     (if k \<ge> 1024 then None
      else Some (take k (bytes @ map indet [length bytes..<k]) @ [b] @ drop (Suc k) bytes))"

definition dataAppendByte :: "(nat \<Rightarrow> u8) \<Rightarrow> u8 \<Rightarrow> nat \<times> u8 list \<Rightarrow> (nat \<times> u8 list) option" where
  "dataAppendByte indet b st = (case st of (len, bytes) \<Rightarrow> map_option (Pair (len + 1)) (dataPut indet len b bytes))"

text \<open>The digits are in a buffer of 32 bytes, with their end. A number is cut to 16 bits, or to 8.\<close>

definition dataAppendInteger ::
    "(nat \<Rightarrow> u8) \<Rightarrow> u16 \<Rightarrow> cstr \<Rightarrow> nat \<times> u8 list \<Rightarrow> (nat \<times> u8 list) option" where
  "dataAppendInteger indet membSize tempInteger st =
     (if tempInteger = [] then Some st
      else if length tempInteger \<ge> 32 then None
      else do {
        v \<leftarrow> atoiInt tempInteger;
        let value = (of_int v :: u16);
        if membSize = 1 then dataAppendByte indet (lo8 value) st
        else (case st of (len, bytes) \<Rightarrow> do {
          bytes \<leftarrow> dataPut indet (len * 2) (hi8 value) bytes;
          bytes \<leftarrow> dataPut indet (len * 2 + 1) (lo8 value) bytes;
          Some (len + 1, bytes)
        })
      })"

text \<open>A character of a string takes one byte at the index of the element, whatever the size of an
  element is.\<close>

fun defineData ::
    "(nat \<Rightarrow> u8) \<Rightarrow> u16 \<Rightarrow> bool \<Rightarrow> cstr \<Rightarrow> cstr \<Rightarrow> nat \<times> u8 list \<Rightarrow> (nat \<times> u8 list) option" where
  "defineData indet membSize inString tempInteger [] st = dataAppendInteger indet membSize tempInteger st"
| "defineData indet membSize inString tempInteger (c # cs) st =
     (if inString then
        (if c = chQuote then defineData indet membSize False tempInteger cs st
         else if c = chBackslash then
           (case cs of
              [] \<Rightarrow> dataAppendInteger indet membSize tempInteger st
            | d # ds \<Rightarrow>
                if d = 110 then Option.bind (dataAppendByte indet 10 st) (defineData indet membSize True tempInteger ds)
                else if d = 116 then Option.bind (dataAppendByte indet 9 st) (defineData indet membSize True tempInteger ds)
                else defineData indet membSize True tempInteger ds st)
         else Option.bind (dataAppendByte indet c st) (defineData indet membSize True tempInteger cs))
      else if c = chQuote then defineData indet membSize True tempInteger cs st
      else if c = 44 then
        Option.bind (dataAppendInteger indet membSize tempInteger st) (defineData indet membSize False [] cs)
      else if isDigit c \<or> c = 45 then
        (if length tempInteger \<ge> 32 then None
         else defineData indet membSize False (tempInteger @ [c]) cs st)
      else defineData indet membSize False tempInteger cs st)"

definition parseDefine ::
    "AssemblerHost \<Rightarrow> AssemblerProgram \<Rightarrow> u16 \<Rightarrow> cstr \<Rightarrow> cstr \<Rightarrow> AssemblerInstructionType AsmResult" where
  "parseDefine host program lineIndex first rest =
     needToken rest (\<lambda>symbol rest.
       if \<not> symbolIsFree program symbol then AsmError
       else if rest = [] then None
       else do {
         let membSize = membSizeOf first;
         (len, bytes) \<leftarrow> defineData (ahIndetData host) membSize False [] (tl rest) (0, []);
         let totalSize = membSize * of_nat len;
         AsmOk (AssemblerInstructionTypeDefine \<lparr>dfMembSize = membSize, dfLen = of_nat len,
           dfTotalSize = totalSize, dfSymbol = symbol,
           dfData = bytes @ map (ahIndetData host) [length bytes..<min (unat totalSize) 1024],
           dfPointerLineIndex = lineIndex, dfPointerOffset = 0\<rparr>)
       })"

subsection \<open>The other instructions\<close>

definition parseMov :: "cstr \<Rightarrow> AssemblerInstructionType AsmResult" where
  "parseMov rest =
     needToken rest (\<lambda>dest rest.
       if rest = [] then None
       else if tl rest = [] then AsmError
       else AsmOk (AssemblerInstructionTypeMov dest (tl rest)))"

definition parseLabel :: "AssemblerProgram \<Rightarrow> cstr \<Rightarrow> AssemblerInstructionType AsmResult" where
  "parseLabel program rest =
     needToken rest (\<lambda>symbol rest.
       if \<not> symbolIsFree program symbol then AsmError else AsmOk (AssemblerInstructionTypeLabel symbol))"

definition parseConst :: "AssemblerProgram \<Rightarrow> cstr \<Rightarrow> AssemblerInstructionType AsmResult" where
  "parseConst program rest =
     needToken rest (\<lambda>symbol rest.
       if \<not> symbolIsFree program symbol then AsmError
       else needToken rest (\<lambda>valueStr rest.
         (case assemblerGetConstSymbolValue program valueStr of
            Some v \<Rightarrow> AsmOk (AssemblerInstructionTypeConst symbol (of_nat v))
          | None \<Rightarrow> map_option (\<lambda>v. Some (AssemblerInstructionTypeConst symbol (of_int v))) (atoiInt valueStr))))"

definition parseOne :: "(cstr \<Rightarrow> AssemblerInstructionType) \<Rightarrow> cstr \<Rightarrow> AssemblerInstructionType AsmResult" where
  "parseOne mk rest = needToken rest (\<lambda>a rest. AsmOk (mk a))"

definition parseTwo :: "(cstr \<Rightarrow> cstr \<Rightarrow> AssemblerInstructionType) \<Rightarrow> cstr \<Rightarrow> AssemblerInstructionType AsmResult" where
  "parseTwo mk rest = needToken rest (\<lambda>a rest. needToken rest (\<lambda>b rest. AsmOk (mk a b)))"

text \<open>The fields of an ALU instruction that its type does not use are not set.\<close>

definition parseAluLine :: "cstr \<Rightarrow> cstr \<Rightarrow> AssemblerInstructionType AsmResult" where
  "parseAluLine first rest =
     (case List.find (\<lambda>d. first = adStr d) assemblerInstructionAluData of
        None \<Rightarrow> AsmError
      | Some d \<Rightarrow>
          needToken rest (\<lambda>dest rest.
            let mk = (\<lambda>opA opB. AssemblerInstructionTypeAlu \<lparr>asAluType = adType d, asAluDest = dest,
                  asAluOpA = opA, asAluOpB = opB, asAluSkipBit = adSkipBit d,
                  asAluIncDecValue = adIncDecValue d, asAluExtraType = adExtraType d\<rparr>)
            in if adOps d \<ge> 1 then
                 needToken rest (\<lambda>opA rest.
                   if adOps d \<ge> 2 then needToken rest (\<lambda>opB rest. AsmOk (mk (Some opA) (Some opB)))
                   else AsmOk (mk (Some opA) None))
               else AsmOk (mk None None)))"

definition parseInstruction ::
    "AssemblerHost \<Rightarrow> AssemblerProgram \<Rightarrow> u16 \<Rightarrow> cstr \<Rightarrow> cstr \<Rightarrow> AssemblerInstructionType AsmResult" where
  "parseInstruction host program lineIndex first rest =
     (if first = bytesOf ''ab'' \<or> first = bytesOf ''aw'' then parseAllocation program first rest
      else if first = bytesOf ''db'' \<or> first = bytesOf ''dw'' then parseDefine host program lineIndex first rest
      else if first = bytesOf ''mov'' then parseMov rest
      else if first = bytesOf ''label'' then parseLabel program rest
      else if first = bytesOf ''syscall'' then AsmOk AssemblerInstructionTypeSyscall
      else if first = bytesOf ''clricache'' then AsmOk AssemblerInstructionTypeClearInstructionCache
      else if first = bytesOf ''debug'' then AsmOk AssemblerInstructionTypeDebug
      else if first = bytesOf ''jmp'' then parseOne AssemblerInstructionTypeJmp rest
      else if first = bytesOf ''push8'' then parseOne AssemblerInstructionTypePush8 rest
      else if first = bytesOf ''pop8'' then parseOne AssemblerInstructionTypePop8 rest
      else if first = bytesOf ''call'' then parseOne AssemblerInstructionTypeCall rest
      else if first = bytesOf ''ret'' then AsmOk AssemblerInstructionTypeRet
      else if first = bytesOf ''store8'' then parseTwo AssemblerInstructionTypeStore8 rest
      else if first = bytesOf ''load8'' then parseTwo AssemblerInstructionTypeLoad8 rest
      else if first = bytesOf ''xchg8'' then parseTwo AssemblerInstructionTypeXchg8 rest
      else if first = bytesOf ''clz'' then parseTwo AssemblerInstructionTypeClz rest
      else if first = bytesOf ''const'' then parseConst program rest
      else if first = bytesOf ''nop'' then AsmOk AssemblerInstructionTypeNop
      else parseAluLine first rest)"

text \<open>The machine code of a new instruction is not set; nothing depends on it before it is.\<close>

fun parseFrom :: "AssemblerHost \<Rightarrow> nat \<Rightarrow> AssemblerLine list \<Rightarrow> AssemblerProgram \<Rightarrow> AssemblerProgram AsmResult" where
  "parseFrom host i [] program = AsmOk program"
| "parseFrom host i (l # ls) program =
     (case strtok (alnModified l) of
        None \<Rightarrow> parseFrom host (i + 1) ls program
      | Some (first, rest) \<Rightarrow>
          asmBind (parseInstruction host program (of_nat i) first rest) (\<lambda>t.
            parseFrom host (i + 1) ls (program\<lparr>apInstructions := apInstructions program @
              [\<lparr>aiLineIndex = of_nat i, aiType = t, aiMachineCode = [], aiMachineCodeLen = 0,
                aiMachineCodeOffset = 0, aiMachineCodeInstructions = 0\<rparr>]\<rparr>)))"

definition assemblerProgramParseLines :: "AssemblerHost \<Rightarrow> AssemblerProgram \<Rightarrow> AssemblerProgram AsmResult" where
  "assemblerProgramParseLines host program = parseFrom host 0 (apLines program) program"

end
