(* ===== verification/AssemblerCode.thy ===== *)
theory AssemblerCode
  imports AssemblerParse
begin

text \<open>
  \<open>src/tools/assembler/assembler.c\<close>, fourth part: from instructions to machine code. Definitions are
  moved to the end and those whose bytes lie in others are dropped; each instruction is given
  the greatest length it may need, and code is generated again and again until no instruction
  becomes shorter.
\<close>

section \<open>Moving definitions to the end\<close>

fun isDefine :: "AssemblerInstructionType \<Rightarrow> bool" where
  "isDefine (AssemblerInstructionTypeDefine d) = True"
| "isDefine _ = False"

abbreviation isDef :: "AssemblerInstruction \<Rightarrow> bool" where "isDef i \<equiv> isDefine (aiType i)"

fun shiftPass :: "AssemblerInstruction list \<Rightarrow> AssemblerInstruction list \<times> bool" where
  "shiftPass (a # b # xs) =
     (if isDef a \<and> \<not> isDef b then map_prod ((#) b) (\<lambda>_. True) (shiftPass (a # xs))
      else map_prod ((#) a) id (shiftPass (b # xs)))"
| "shiftPass xs = (xs, False)"

text \<open>How many pairs are out of order.\<close>

fun misplaced :: "AssemblerInstruction list \<Rightarrow> nat" where
  "misplaced [] = 0"
| "misplaced (a # xs) = (if isDef a then length (filter (\<lambda>b. \<not> isDef b) xs) else 0) + misplaced xs"

lemma shiftPass_filter:
  "filter isDef (fst (shiftPass xs)) = filter isDef xs"
  "filter (\<lambda>i. \<not> isDef i) (fst (shiftPass xs)) = filter (\<lambda>i. \<not> isDef i) xs"
  by (induction xs rule: shiftPass.induct) (auto split: if_splits)

lemma shiftPass_misplaced:
  "misplaced (fst (shiftPass xs)) \<le> misplaced xs \<and> (snd (shiftPass xs) \<longrightarrow> misplaced (fst (shiftPass xs)) < misplaced xs)"
  by (induction xs rule: shiftPass.induct) (auto simp: shiftPass_filter split: if_splits)

function shiftLoop :: "AssemblerInstruction list \<Rightarrow> AssemblerInstruction list \<times> bool" where
  "shiftLoop xs =
     (let p = shiftPass xs in
      if snd p then (fst (shiftLoop (fst p)), True) else (fst p, False))"
  by pat_completeness auto
termination by (relation "measure misplaced") (auto simp: shiftPass_misplaced)

declare shiftLoop.simps [simp del]

text \<open>With no instruction at all the bound of the loop wraps.\<close>

definition assemblerProgramShiftDefines :: "AssemblerProgram \<Rightarrow> (AssemblerProgram \<times> bool) option" where
  "assemblerProgramShiftDefines program =
     (if apInstructions program = [] then None
      else case shiftLoop (apInstructions program) of (xs, change) \<Rightarrow>
        Some (program\<lparr>apInstructions := xs\<rparr>, change))"

partial_function (option) shiftAll :: "AssemblerProgram \<Rightarrow> AssemblerProgram option" where
  "shiftAll program =
     (case assemblerProgramShiftDefines program of
        None \<Rightarrow> None
      | Some (program, change) \<Rightarrow> if change then shiftAll program else Some program)"

section \<open>Definitions inside others\<close>

definition findData :: "u8 list \<Rightarrow> u8 list \<Rightarrow> nat option" where
  "findData needle hay =
     List.find (\<lambda>k. take (length needle) (drop k hay) = needle) [0..<length hay + 1 - length needle]"

text \<open>Whether instruction \<open>i\<close> can point into \<open>j\<close>, and where. Comparing more bytes than the array
  has is undefined.\<close>

definition shrinkMatch :: "AssemblerInstruction \<Rightarrow> AssemblerInstruction \<Rightarrow> nat option option" where
  "shrinkMatch i j =
     (case (aiType i, aiType j) of
        (AssemblerInstructionTypeDefine d, AssemblerInstructionTypeDefine e) \<Rightarrow>
          let n = unat (dfTotalSize d); m = unat (dfTotalSize e) in
          if dfPointerLineIndex e \<noteq> aiLineIndex j then Some None
          else if m < n then Some None
          else if length (dfData d) < n \<or> length (dfData e) < m then None
          else Some (findData (take n (dfData d)) (take m (dfData e)))
      | _ \<Rightarrow> Some None)"

fun setPointer :: "u16 \<Rightarrow> u16 \<Rightarrow> AssemblerInstructionType \<Rightarrow> AssemblerInstructionType" where
  "setPointer line offset (AssemblerInstructionTypeDefine d) =
     AssemblerInstructionTypeDefine (d\<lparr>dfPointerLineIndex := line, dfPointerOffset := offset\<rparr>)"
| "setPointer line offset t = t"

fun ownData :: "AssemblerInstruction \<Rightarrow> bool" where
  "ownData i = (case aiType i of AssemblerInstructionTypeDefine d \<Rightarrow> dfPointerLineIndex d = aiLineIndex i | _ \<Rightarrow> False)"

fun shrinkFor ::
    "nat \<Rightarrow> nat list \<Rightarrow> AssemblerInstruction list \<Rightarrow> bool \<Rightarrow> (AssemblerInstruction list \<times> bool) option" where
  "shrinkFor i [] xs change = Some (xs, change)"
| "shrinkFor i (j # js) xs change =
     (if i = j then shrinkFor i js xs change
      else case shrinkMatch (xs ! i) (xs ! j) of
        None \<Rightarrow> None
      | Some None \<Rightarrow> shrinkFor i js xs change
      | Some (Some k) \<Rightarrow>
          let x = xs ! i; x = x\<lparr>aiType := setPointer (aiLineIndex (xs ! j)) (of_nat k) (aiType x)\<rparr>; xs = xs[i := x] in
          if \<not> ownData x then Some (xs, True) else shrinkFor i js xs True)"

text \<open>The last instruction takes no part.\<close>

fun shrinkPass ::
    "nat list \<Rightarrow> AssemblerInstruction list \<Rightarrow> bool \<Rightarrow> (AssemblerInstruction list \<times> bool) option" where
  "shrinkPass [] xs change = Some (xs, change)"
| "shrinkPass (i # is) xs change =
     (if \<not> ownData (xs ! i) then shrinkPass is xs change
      else case shrinkFor i [0..<length xs - 1] xs change of
        None \<Rightarrow> None
      | Some (xs, change) \<Rightarrow> shrinkPass is xs change)"

partial_function (option) shrinkLoop ::
    "bool \<Rightarrow> AssemblerInstruction list \<Rightarrow> (AssemblerInstruction list \<times> bool) option" where
  "shrinkLoop anyChange xs =
     (case shrinkPass [0..<length xs - 1] xs False of
        None \<Rightarrow> None
      | Some (xs, change) \<Rightarrow>
          if change then shrinkLoop True xs else Some (xs, anyChange))"

definition assemblerProgramShrinkDefines :: "AssemblerProgram \<Rightarrow> (AssemblerProgram \<times> bool) option" where
  "assemblerProgramShrinkDefines program =
     (if apInstructions program = [] then None
      else case shrinkLoop False (apInstructions program) of
        None \<Rightarrow> None
      | Some (xs, change) \<Rightarrow> Some (program\<lparr>apInstructions := xs\<rparr>, change))"

partial_function (option) shrinkAll :: "AssemblerProgram \<Rightarrow> AssemblerProgram option" where
  "shrinkAll program =
     (case assemblerProgramShrinkDefines program of
        None \<Rightarrow> None
      | Some (program, change) \<Rightarrow> if change then shrinkAll program else Some program)"

declare shiftAll.simps [code] shrinkLoop.simps [code] shrinkAll.simps [code]

section \<open>Initial lengths\<close>

definition setLength :: "u8 \<Rightarrow> nat \<Rightarrow> u16" where
  "setLength destReg v = (if v < 16 \<and> destReg < 4 then 1 else if v < 256 then 2 else 3)"

definition isPrint :: "u8 \<Rightarrow> bool" where "isPrint b \<longleftrightarrow> 32 \<le> b \<and> b < 127"

definition goodCharacter :: "cstr \<Rightarrow> bool" where
  "goodCharacter src =
     (let c = charAt src 1 in
      (isPrint c \<or> c = 9) \<and> c \<noteq> chQuote \<and> last src = chQuote \<and>
      (c = chBackslash \<longrightarrow> charAt src 2 \<in> {110, 114, 116}))"

definition initialMovLength :: "AssemblerProgram \<Rightarrow> cstr \<Rightarrow> cstr \<Rightarrow> u16 AsmResult" where
  "initialMovLength program dest src =
     (let destReg = assemblerRegisterFromStr (Some dest) in
      if isDigit (charAt src 0) then map_option (\<lambda>v. Some (setLength destReg (nat v))) (atoiInt src)
      else if assemblerRegisterFromStr (Some src) \<noteq> BytecodeRegisterNB then AsmOk 2
      else if charAt src 0 = chQuote then (if goodCharacter src then AsmOk 2 else AsmError)
      else if assemblerGetDefineSymbolAddr program src \<noteq> None then AsmOk 3
      else if assemblerGetAllocationSymbolAddr program src \<noteq> None then AsmOk 3
      else if assemblerGetLabelSymbolAddr program src \<noteq> None then AsmOk 3
      else case assemblerGetConstSymbolValue program src of
        Some v \<Rightarrow> AsmOk (setLength destReg v)
      | None \<Rightarrow> AsmError)"

text \<open>The length in bytes and the number of machine instructions.\<close>

definition initialLength :: "AssemblerProgram \<Rightarrow> AssemblerInstruction \<Rightarrow> (u16 \<times> u8) AsmResult" where
  "initialLength program i =
     (case aiType i of
        AssemblerInstructionTypeAllocation a \<Rightarrow> AsmOk (0, 0)
      | AssemblerInstructionTypeDefine d \<Rightarrow>
          AsmOk (if dfPointerLineIndex d = aiLineIndex i then dfTotalSize d else 0, 0)
      | AssemblerInstructionTypeMov dest src \<Rightarrow>
          asmBind (initialMovLength program dest src) (\<lambda>n. AsmOk (n, 1))
      | AssemblerInstructionTypeLabel s \<Rightarrow> AsmOk (0, 0)
      | AssemblerInstructionTypeSyscall \<Rightarrow> AsmOk (1, 1)
      | AssemblerInstructionTypeClearInstructionCache \<Rightarrow> AsmOk (1, 1)
      | AssemblerInstructionTypeDebug \<Rightarrow> AsmOk (1, 1)
      | AssemblerInstructionTypeAlu a \<Rightarrow> AsmOk (2, 1)
      | AssemblerInstructionTypeJmp s \<Rightarrow> AsmOk (3, 1)
      | AssemblerInstructionTypePush8 s \<Rightarrow> AsmOk (3, 2)
      | AssemblerInstructionTypePop8 s \<Rightarrow> AsmOk (3, 2)
      | AssemblerInstructionTypeCall s \<Rightarrow> AsmOk (5, 2)
      | AssemblerInstructionTypeRet \<Rightarrow> AsmOk (2, 1)
      | AssemblerInstructionTypeStore8 d s \<Rightarrow> AsmOk (1, 1)
      | AssemblerInstructionTypeLoad8 d s \<Rightarrow> AsmOk (1, 1)
      | AssemblerInstructionTypeXchg8 a s \<Rightarrow> AsmOk (2, 1)
      | AssemblerInstructionTypeClz d s \<Rightarrow> AsmOk (2, 1)
      | AssemblerInstructionTypeConst s v \<Rightarrow> AsmOk (0, 0)
      | AssemblerInstructionTypeNop \<Rightarrow> AsmOk (1, 1))"

fun initialLengths :: "AssemblerProgram \<Rightarrow> AssemblerInstruction list \<Rightarrow> AssemblerInstruction list AsmResult" where
  "initialLengths program [] = AsmOk []"
| "initialLengths program (i # is) =
     asmBind (initialLength program i) (\<lambda>(len, n).
     asmBind (initialLengths program is) (\<lambda>is.
       AsmOk (i\<lparr>aiMachineCodeLen := len, aiMachineCodeInstructions := n\<rparr> # is)))"

definition assemblerProgramCalculateInitialMachineCodeLengths :: "AssemblerProgram \<Rightarrow> AssemblerProgram AsmResult" where
  "assemblerProgramCalculateInitialMachineCodeLengths program =
     asmBind (initialLengths program (apInstructions program)) (\<lambda>is. AsmOk (program\<lparr>apInstructions := is\<rparr>))"

section \<open>Offsets\<close>

text \<open>The offsets in the program and in the RAM are counted in 32 bits and stored in 16.\<close>

definition allocationLen :: "AssemblerProgram \<Rightarrow> cstr \<Rightarrow> u16 option" where
  "allocationLen program lenStr =
     (case assemblerGetConstSymbolValue program lenStr of
        Some v \<Rightarrow> Some (of_nat v)
      | None \<Rightarrow> map_option of_int (atoiInt lenStr))"

text \<open>What an instruction takes of the RAM.\<close>

fun allocate ::
    "AssemblerProgram \<Rightarrow> u32 \<Rightarrow> AssemblerInstructionType \<Rightarrow> (AssemblerInstructionType \<times> u32) option" where
  "allocate program ram (AssemblerInstructionTypeAllocation a) = do {
     len \<leftarrow> allocationLen program (alLenStr a);
     let totalSize = len * alMembSize a;
     Some (AssemblerInstructionTypeAllocation (a\<lparr>alRamOffset := ucast ram, alLen := len, alTotalSize := totalSize\<rparr>),
       ram + ucast totalSize)
   }"
| "allocate program ram t = Some (t, ram)"

fun offsetsFrom ::
    "AssemblerProgram \<Rightarrow> u32 \<Rightarrow> u32 \<Rightarrow> AssemblerInstruction list \<Rightarrow> (AssemblerInstruction list \<times> u32) option" where
  "offsetsFrom program code ram [] = Some ([], ram)"
| "offsetsFrom program code ram (i # is) = do {
     (t, ram) \<leftarrow> allocate program ram (aiType i);
     (is, ram) \<leftarrow> offsetsFrom program (code + ucast (aiMachineCodeLen i)) ram is;
     Some (i\<lparr>aiMachineCodeOffset := ucast code, aiType := t\<rparr> # is, ram)
   }"

definition assemblerProgramCalculateMachineCodeOffsets :: "AssemblerProgram \<Rightarrow> AssemblerProgram option" where
  "assemblerProgramCalculateMachineCodeOffsets program = do {
     (is, ram) \<leftarrow> offsetsFrom program (ucast BytecodeMemoryProgmemAddr) (ucast BytecodeMemoryRamAddr)
       (apInstructions program);
     Some (program\<lparr>apInstructions := is, apStackRamOffset := ucast ram\<rparr>)
   }"

end
