(* ===== verification/AssemblerGen.thy ===== *)
theory AssemblerGen
  imports AssemblerCode
begin

text \<open>
  \<open>src/tools/assembler/assembler.c\<close>, last part: the machine code of each instruction, the loop
  that generates code until no instruction becomes shorter, and the whole program from the name of
  the input file to the bytes of the output file.
\<close>

section \<open>Machine code\<close>

text \<open>The array is filled with the byte of an illegal instruction before.\<close>

definition setCode :: "u8 \<Rightarrow> u16 \<Rightarrow> u8 list option" where
  "setCode destReg v =
     (let b = ByteCodeIllegalInstructionByte in
      case bytecodeInstructionCreateSet (b, b, b) destReg v of
        None \<Rightarrow> None
      | Some ((b0, b1, b2), l) \<Rightarrow> Some (take (lengthBytes l) [b0, b1, b2]))"

definition opCode :: "u16 option \<Rightarrow> u8 list option" where
  "opCode op = map_option (\<lambda>w. [hi8 w, lo8 w]) op"

definition needRegister :: "cstr \<Rightarrow> (u8 \<Rightarrow> 'a AsmResult) \<Rightarrow> 'a AsmResult" where
  "needRegister s f =
     (let r = assemblerRegisterFromStr (Some s) in if r = BytecodeRegisterNB then AsmError else f r)"

text \<open>A character is signed.\<close>

definition movCharacter :: "cstr \<Rightarrow> u16" where
  "movCharacter src =
     (let c = charAt src 1 in
      scast (if c = chBackslash then
        (let d = charAt src 2 in if d = 110 then 10 else if d = 114 then 13 else if d = 116 then 9 else d)
      else c))"

definition genMov :: "AssemblerProgram \<Rightarrow> cstr \<Rightarrow> cstr \<Rightarrow> u8 list AsmResult" where
  "genMov program dest src =
     needRegister dest (\<lambda>destReg.
       let srcReg = assemblerRegisterFromStr (Some src);
           set = (\<lambda>v. map_option Some (setCode destReg v))
       in if isDigit (charAt src 0) then (case atoiInt src of None \<Rightarrow> None | Some v \<Rightarrow> set (of_int v))
          else if srcReg \<noteq> BytecodeRegisterNB then
            map_option Some (opCode (bytecodeInstructionCreateAlu BytecodeInstructionAluTypeOr destReg srcReg srcReg))
          else if charAt src 0 = chQuote then set (movCharacter src)
          else case assemblerGetDefineSymbolAddr program src of
            Some a \<Rightarrow> set (of_nat a)
          | None \<Rightarrow>
            (case assemblerGetAllocationSymbolAddr program src of
               Some a \<Rightarrow> set (of_nat a)
             | None \<Rightarrow>
               (case assemblerGetLabelSymbolAddr program src of
                  Some a \<Rightarrow> set (of_nat a)
                | None \<Rightarrow>
                  (case assemblerGetConstSymbolValue program src of
                     Some v \<Rightarrow> set (of_nat v)
                   | None \<Rightarrow> AsmError))))"

text \<open>The distance of a skip is the number of machine instructions of the next instruction less
  one. Behind the last instruction that number is indeterminate; for one that has none the
  distance is no register number and the encoder's assertion fails. An operand that is no register
  is taken as the first one.\<close>

definition skipDistance :: "AssemblerHost \<Rightarrow> AssemblerProgram \<Rightarrow> nat \<Rightarrow> u8 option" where
  "skipDistance host program i =
     (if i + 1 < length (apInstructions program)
      then Some (aiMachineCodeInstructions (apInstructions program ! (i + 1)) - 1)
      else if i + 1 < AssemblerLinesMax then Some (ahIndetInstructions host - 1) else None)"

definition operandRegister :: "cstr option \<Rightarrow> u8" where
  "operandRegister s =
     (let r = assemblerRegisterFromStr s in if r = BytecodeRegisterNB then 0 else r)"

text \<open>The three registers that are encoded.\<close>

definition aluOperands ::
    "AssemblerHost \<Rightarrow> AssemblerProgram \<Rightarrow> nat \<Rightarrow> AssemblerInstructionAlu \<Rightarrow> u8 \<Rightarrow> (u8 \<times> u8 \<times> u8) option" where
  "aluOperands host program i a destReg =
     (let opA = operandRegister (asAluOpA a); opB = operandRegister (asAluOpB a); t = asAluType a in
      if t = BytecodeInstructionAluTypeSkip then
        map_option (\<lambda>n. (destReg, asAluSkipBit a, n)) (skipDistance host program i)
      else if t = BytecodeInstructionAluTypeInc \<or> t = BytecodeInstructionAluTypeDec then
        Some (destReg, drop_bit 3 (asAluIncDecValue a - 1), (asAluIncDecValue a - 1) AND 7)
      else if t = BytecodeInstructionAluTypeExtra then
        (let e = asAluExtraType a in
         if e = 3 then Some (BytecodeRegisterSP, destReg, e)
         else if e = 4 then Some (destReg, BytecodeRegisterSP, e)
         else Some (destReg, opA, e))
      else Some (destReg, opA, opB))"

definition genAlu ::
    "AssemblerHost \<Rightarrow> AssemblerProgram \<Rightarrow> nat \<Rightarrow> AssemblerInstructionAlu \<Rightarrow> u8 list AsmResult" where
  "genAlu host program i a =
     (if apNoStack program \<and> asAluType a = BytecodeInstructionAluTypeExtra \<and> asAluExtraType a \<in> {3, 4} then AsmError
      else needRegister (asAluDest a) (\<lambda>destReg. do {
        (d, opA, opB) \<leftarrow> aluOperands host program i a destReg;
        map_option Some (opCode (bytecodeInstructionCreateAlu (asAluType a) d opA opB))
      }))"

text \<open>A jump is a load of the instruction pointer or an increment or decrement of it; when its target is
  what follows it, it is a \<open>nop\<close>. As long as its length is three it is tested whether two
  bytes will do: the code that is put then only has that length.\<close>

definition jmpCode3 :: "u16 \<Rightarrow> u16 \<Rightarrow> u8 list option" where
  "jmpCode3 offset addr =
     (let len2Addr = (if addr > offset then addr - 1 else addr);
          ip = offset + 2;
          two = [bytecodeInstructionCreateMiscNop, bytecodeInstructionCreateMiscNop];
          three = (case bytecodeInstructionCreateMiscSet16 BytecodeRegisterIP addr of (a, b, c) \<Rightarrow> [a, b, c])
      in if len2Addr < 256 then Some two
         else if len2Addr > ip then Some (if len2Addr - ip \<le> 64 then two else three)
         else if len2Addr < ip then Some (if ip - len2Addr \<le> 64 then two else three)
         else None)"

definition jmpCode2 :: "u16 \<Rightarrow> u16 \<Rightarrow> u8 list option" where
  "jmpCode2 offset addr =
     (let ip = offset + 2 in
      if addr < 256 then opCode (Some (bytecodeInstructionCreateMiscSet8 BytecodeRegisterIP (ucast addr)))
      else if addr > ip \<and> addr - ip \<le> 64 then
        opCode (bytecodeInstructionCreateAluIncDecValue BytecodeInstructionAluTypeInc BytecodeRegisterIP (ucast (addr - ip)))
      else if addr < ip \<and> ip - addr \<le> 64 then
        opCode (bytecodeInstructionCreateAluIncDecValue BytecodeInstructionAluTypeDec BytecodeRegisterIP (ucast (ip - addr)))
      else None)"

definition genJmp :: "AssemblerProgram \<Rightarrow> AssemblerInstruction \<Rightarrow> cstr \<Rightarrow> u8 list AsmResult" where
  "genJmp program i s =
     (case assemblerGetLabelSymbolAddr program s of
        None \<Rightarrow> AsmError
      | Some addr \<Rightarrow>
          if addr = unat (aiMachineCodeOffset i) + unat (aiMachineCodeLen i)
          then AsmOk [bytecodeInstructionCreateMiscNop]
          else if aiMachineCodeLen i = 3 then map_option Some (jmpCode3 (aiMachineCodeOffset i) (of_nat addr))
          else if aiMachineCodeLen i = 2 then map_option Some (jmpCode2 (aiMachineCodeOffset i) (of_nat addr))
          else None)"

definition genPush8 :: "AssemblerProgram \<Rightarrow> cstr \<Rightarrow> u8 list AsmResult" where
  "genPush8 program src =
     (if apNoStack program then AsmError
      else needRegister src (\<lambda>srcReg. do {
        inc1 \<leftarrow> opCode (bytecodeInstructionCreateAluIncDecValue BytecodeInstructionAluTypeInc BytecodeRegisterSP 1);
        AsmOk (bytecodeInstructionCreateMemory BytecodeInstructionMemoryTypeStore8 BytecodeRegisterSP srcReg # inc1)
      }))"

definition genPop8 :: "AssemblerProgram \<Rightarrow> cstr \<Rightarrow> u8 list AsmResult" where
  "genPop8 program dest =
     (if apNoStack program then AsmError
      else needRegister dest (\<lambda>destReg. do {
        dec1 \<leftarrow> opCode (bytecodeInstructionCreateAluIncDecValue BytecodeInstructionAluTypeDec BytecodeRegisterSP 1);
        AsmOk (dec1 @ [bytecodeInstructionCreateMemory BytecodeInstructionMemoryTypeLoad8 destReg BytecodeRegisterSP])
      }))"

definition genExtra :: "u8 \<Rightarrow> u8 \<Rightarrow> u8 \<Rightarrow> u8 list AsmResult" where
  "genExtra d a e =
     map_option Some (opCode (bytecodeInstructionCreateAlu BytecodeInstructionAluTypeExtra d a e))"

definition genCall :: "AssemblerProgram \<Rightarrow> cstr \<Rightarrow> u8 list AsmResult" where
  "genCall program label =
     (if apNoScratch program then AsmError
      else if apNoStack program then AsmError
      else case assemblerGetLabelSymbolAddr program label of
        None \<Rightarrow> AsmError
      | Some addr \<Rightarrow> do {
          set \<leftarrow> setCode BytecodeRegisterS (of_nat addr);
          asmBind (genExtra BytecodeRegisterS BytecodeRegisterSP 5) (\<lambda>call. AsmOk (set @ call))
        })"

definition genRet :: "AssemblerProgram \<Rightarrow> u8 list AsmResult" where
  "genRet program =
     (if apNoStack program then AsmError else genExtra BytecodeRegisterIP BytecodeRegisterSP 4)"

definition genMemory :: "BytecodeInstructionMemoryType \<Rightarrow> cstr \<Rightarrow> cstr \<Rightarrow> u8 list AsmResult" where
  "genMemory t dest src =
     needRegister dest (\<lambda>destReg. needRegister src (\<lambda>srcReg.
       AsmOk [bytecodeInstructionCreateMemory t destReg srcReg]))"

definition genXchg8 :: "cstr \<Rightarrow> cstr \<Rightarrow> u8 list AsmResult" where
  "genXchg8 addr srcDest = needRegister addr (\<lambda>addrReg. needRegister srcDest (\<lambda>r. genExtra addrReg r 6))"

definition genClz :: "cstr \<Rightarrow> cstr \<Rightarrow> u8 list AsmResult" where
  "genClz dest src = needRegister dest (\<lambda>destReg. needRegister src (\<lambda>srcReg. genExtra destReg srcReg 7))"

definition genDefine :: "AssemblerInstruction \<Rightarrow> AssemblerInstructionDefine \<Rightarrow> u8 list AsmResult" where
  "genDefine i d =
     (if dfPointerLineIndex d = aiLineIndex i then
        (if length (dfData d) < unat (dfTotalSize d) then None else AsmOk (take (unat (dfTotalSize d)) (dfData d)))
      else AsmOk [])"

definition generateOne :: "AssemblerHost \<Rightarrow> AssemblerProgram \<Rightarrow> nat \<Rightarrow> u8 list AsmResult" where
  "generateOne host program k =
     (let i = apInstructions program ! k in
      case aiType i of
        AssemblerInstructionTypeAllocation a \<Rightarrow> AsmOk []
      | AssemblerInstructionTypeDefine d \<Rightarrow> genDefine i d
      | AssemblerInstructionTypeMov dest src \<Rightarrow> genMov program dest src
      | AssemblerInstructionTypeLabel s \<Rightarrow> AsmOk []
      | AssemblerInstructionTypeSyscall \<Rightarrow> AsmOk [bytecodeInstructionCreateMiscSyscall]
      | AssemblerInstructionTypeClearInstructionCache \<Rightarrow> AsmOk [bytecodeInstructionCreateMiscClearInstructionCache]
      | AssemblerInstructionTypeDebug \<Rightarrow> AsmOk [bytecodeInstructionCreateMiscDebug]
      | AssemblerInstructionTypeAlu a \<Rightarrow> genAlu host program k a
      | AssemblerInstructionTypeJmp s \<Rightarrow> genJmp program i s
      | AssemblerInstructionTypePush8 s \<Rightarrow> genPush8 program s
      | AssemblerInstructionTypePop8 s \<Rightarrow> genPop8 program s
      | AssemblerInstructionTypeCall s \<Rightarrow> genCall program s
      | AssemblerInstructionTypeRet \<Rightarrow> genRet program
      | AssemblerInstructionTypeStore8 d s \<Rightarrow> genMemory BytecodeInstructionMemoryTypeStore8 d s
      | AssemblerInstructionTypeLoad8 d s \<Rightarrow> genMemory BytecodeInstructionMemoryTypeLoad8 d s
      | AssemblerInstructionTypeXchg8 a s \<Rightarrow> genXchg8 a s
      | AssemblerInstructionTypeClz d s \<Rightarrow> genClz d s
      | AssemblerInstructionTypeConst s v \<Rightarrow> AsmOk []
      | AssemblerInstructionTypeNop \<Rightarrow> AsmOk [bytecodeInstructionCreateMiscNop])"

section \<open>Generating until nothing changes\<close>

text \<open>The length of the code, instruction by instruction up to the first illegal one.\<close>

function codeLength :: "u8 list \<Rightarrow> nat" where
  "codeLength [] = 0"
| "codeLength (b # bs) =
     (if b = ByteCodeIllegalInstructionByte then 0
      else let n = lengthBytes (bytecodeInstructionParseLength (b, ByteCodeIllegalInstructionByte, ByteCodeIllegalInstructionByte))
        in n + codeLength (drop (n - 1) bs))"
  by pat_completeness auto
termination by (relation "measure length") auto

declare codeLength.simps(2) [simp del]

text \<open>An instruction that turned out shorter ends the pass.\<close>

fun generateFrom :: "AssemblerHost \<Rightarrow> nat list \<Rightarrow> AssemblerProgram \<Rightarrow> (bool \<times> AssemblerProgram) AsmResult" where
  "generateFrom host [] program = AsmOk (False, program)"
| "generateFrom host (k # ks) program =
     asmBind (generateOne host program k) (\<lambda>code.
       let i = (apInstructions program ! k)\<lparr>aiMachineCode := code\<rparr>;
           len = aiMachineCodeLen i;
           actualLen = codeLength code
       in if len > 0 \<and> \<not> isDef i \<and> actualLen \<noteq> unat len then
            (if actualLen < unat len then
               AsmOk (True, program\<lparr>apInstructions :=
                 (apInstructions program)[k := i\<lparr>aiMachineCodeLen := of_nat actualLen\<rparr>]\<rparr>)
             else None)
          else generateFrom host ks (program\<lparr>apInstructions := (apInstructions program)[k := i]\<rparr>))"

definition assemblerProgramGenerateMachineCode ::
    "AssemblerHost \<Rightarrow> AssemblerProgram \<Rightarrow> (bool \<times> AssemblerProgram) AsmResult" where
  "assemblerProgramGenerateMachineCode host program =
     generateFrom host [0..<length (apInstructions program)] program"

definition codeSize :: "AssemblerInstruction list \<Rightarrow> nat" where
  "codeSize is = sum_list (map (\<lambda>i. unat (aiMachineCodeLen i)) is)"

lemma codeSize_update:
  "k < length is \<Longrightarrow> codeSize (is[k := i]) + unat (aiMachineCodeLen (is ! k)) = codeSize is + unat (aiMachineCodeLen i)"
proof (induction "is" arbitrary: k)
  case (Cons j "is")
  then show ?case by (cases k) (auto simp: codeSize_def)
qed simp

lemma generateFrom_shrinks:
  "generateFrom host ks program = AsmOk (change, program') \<Longrightarrow> \<forall>k \<in> set ks. k < length (apInstructions program) \<Longrightarrow>
   length (apInstructions program') = length (apInstructions program) \<and>
   (if change then codeSize (apInstructions program') < codeSize (apInstructions program)
    else codeSize (apInstructions program') = codeSize (apInstructions program))"
proof (induction ks arbitrary: program)
  case (Cons k ks)
  from Cons.prems(1) obtain code where code: "generateOne host program k = AsmOk code"
    by (auto simp: asmBind_Ok)
  let ?i = "(apInstructions program ! k)\<lparr>aiMachineCode := code\<rparr>"
  have k: "k < length (apInstructions program)" using Cons.prems(2) by simp
  show ?case
  proof (cases "aiMachineCodeLen ?i > 0 \<and> \<not> isDef ?i \<and> codeLength code \<noteq> unat (aiMachineCodeLen ?i)")
    case True
    with Cons.prems(1) code have lt: "codeLength code < unat (aiMachineCodeLen ?i)" "change"
      and p: "program' = program\<lparr>apInstructions := (apInstructions program)[k := ?i\<lparr>aiMachineCodeLen := of_nat (codeLength code)\<rparr>]\<rparr>"
      by (auto simp: Let_def split: if_splits)
    from lt(1) unat_u16_less [of "aiMachineCodeLen ?i"] have "codeLength code < 65536" by linarith
    then have "unat (of_nat (codeLength code) :: u16) = codeLength code" by (simp add: unat_of_nat)
    then show ?thesis
      using codeSize_update [OF k, of "?i\<lparr>aiMachineCodeLen := of_nat (codeLength code)\<rparr>"] lt p by simp
  next
    case False
    let ?p = "program\<lparr>apInstructions := (apInstructions program)[k := ?i]\<rparr>"
    from False Cons.prems(1) code have "generateFrom host ks ?p = AsmOk (change, program')"
      by (auto simp: Let_def split: if_splits)
    from Cons.IH [OF this] Cons.prems(2) codeSize_update [OF k, of ?i] show ?thesis
      by (auto split: if_splits)
  qed
qed simp

lemma offsetsFrom_lens:
  "offsetsFrom program code ram is = Some (is', ram') \<Longrightarrow>
   map aiMachineCodeLen is' = map aiMachineCodeLen is"
  by (induction "is" arbitrary: code ram is' ram') (auto simp: bind_eq_Some_conv)

lemma CalculateMachineCodeOffsets_size:
  assumes "assemblerProgramCalculateMachineCodeOffsets program = Some program'"
  shows "codeSize (apInstructions program') = codeSize (apInstructions program)"
proof -
  from assms have "map aiMachineCodeLen (apInstructions program') = map aiMachineCodeLen (apInstructions program)"
    by (auto simp: assemblerProgramCalculateMachineCodeOffsets_def bind_eq_Some_conv dest: offsetsFrom_lens)
  then have "map unat (map aiMachineCodeLen (apInstructions program')) = map unat (map aiMachineCodeLen (apInstructions program))"
    by simp
  then show ?thesis by (simp add: codeSize_def comp_def)
qed

function generateLoop :: "AssemblerHost \<Rightarrow> AssemblerProgram \<Rightarrow> AssemblerProgram AsmResult" where
  "generateLoop host program =
     (case assemblerProgramCalculateMachineCodeOffsets program of
        None \<Rightarrow> None
      | Some program1 \<Rightarrow>
          (case assemblerProgramGenerateMachineCode host program1 of
             None \<Rightarrow> None
           | Some None \<Rightarrow> AsmError
           | Some (Some (change, program2)) \<Rightarrow>
               if change then generateLoop host program2 else AsmOk program2))"
  by pat_completeness auto
termination
  by (relation "measure (\<lambda>(host, program). codeSize (apInstructions program))")
    (auto simp: assemblerProgramGenerateMachineCode_def dest!: generateFrom_shrinks CalculateMachineCodeOffsets_size)

declare generateLoop.simps [simp del]

section \<open>The program\<close>

definition autoLine :: "nat \<Rightarrow> cstr \<Rightarrow> AssemblerLine" where
  "autoLine n text = \<lparr>alnFile = bytesOf ''<auto>'', alnLineNum = of_nat n + 1, alnOriginal = text, alnModified = text\<rparr>"

text \<open>The first two lines give the bytes every program file starts with, the third sets the stack
  pointer, to a number that is replaced when the offset of the stack is known.\<close>

definition insertHeader :: "AssemblerProgram \<Rightarrow> AssemblerProgram option" where
  "insertHeader program = do {
     program \<leftarrow> assemblerInsertLine (autoLine 0 (bytesOf ''load8 r5 r7 ; magic header byte 1'')) 0 program;
     program \<leftarrow> assemblerInsertLine (autoLine 1 (bytesOf ''load8 r5 r7 ; magic header byte 2'')) 1 program;
     if apNoStack program then Some program
     else assemblerInsertLine (autoLine 2 (bytesOf ''mov r6 65535 ; setup stack'')) 2 program
   }"

definition setStack :: "AssemblerProgram \<Rightarrow> AssemblerProgram option" where
  "setStack program =
     (if apNoStack program then Some program
      else case findIndex (\<lambda>i. aiLineIndex i = 2) (apInstructions program) of
        None \<Rightarrow> Some program
      | Some k \<Rightarrow>
          let i = apInstructions program ! k in
          (case aiType i of
             AssemblerInstructionTypeMov dest src \<Rightarrow>
               Some (program\<lparr>apInstructions := (apInstructions program)[k := i\<lparr>aiType :=
                 AssemblerInstructionTypeMov dest (decimalBytes (unat (apStackRamOffset program)))\<rparr>]\<rparr>)
           | _ \<Rightarrow> None))"

definition instructionBytes :: "AssemblerInstruction \<Rightarrow> u8 list" where
  "instructionBytes i =
     map (\<lambda>k. if k < length (aiMachineCode i) then aiMachineCode i ! k else ByteCodeIllegalInstructionByte)
       [0..<unat (aiMachineCodeLen i)]"

text \<open>Every byte is taken to be written.\<close>

definition assemblerProgramWriteMachineCode :: "AssemblerProgram \<Rightarrow> u8 list" where
  "assemblerProgramWriteMachineCode program = concat (map instructionBytes (apInstructions program))"

text \<open>From the lines to the program whose code is written.\<close>

definition assembleLines :: "AssemblerHost \<Rightarrow> AssemblerProgram \<Rightarrow> AssemblerProgram AsmResult" where
  "assembleLines host program = do {
     program \<leftarrow> insertHeader program;
     asmBind (assemblerProgramParseLines host program) (\<lambda>program. do {
       program \<leftarrow> shiftAll program;
       program \<leftarrow> shrinkAll program;
       asmBind (assemblerProgramCalculateInitialMachineCodeLengths program) (\<lambda>program.
       asmBind (generateLoop host program) (\<lambda>program. do {
         program \<leftarrow> setStack program;
         asmBind (assemblerProgramGenerateMachineCode host program) (\<lambda>(change, program).
           if change then None else AsmOk program)
       }))
     })
   }"

fun addIncludeDirs :: "cstr list \<Rightarrow> AssemblerProgram \<Rightarrow> AssemblerProgram option" where
  "addIncludeDirs [] program = Some program"
| "addIncludeDirs (d # ds) program = do {
     (ok, program) \<leftarrow> assemblerProgramAddIncludeDir d program;
     addIncludeDirs ds program
   }"

text \<open>The content of the output file.\<close>

definition assemblerMain :: "AssemblerHost \<Rightarrow> cstr list \<Rightarrow> cstr \<Rightarrow> u8 list AsmResult" where
  "assemblerMain host includeDirs inputPath = do {
     program \<leftarrow> addIncludeDirs includeDirs assemblerProgramNew;
     asmBind (readSource host inputPath program) (\<lambda>program.
     asmBind (assembleLines host program) (\<lambda>program. AsmOk (assemblerProgramWriteMachineCode program)))
   }"

end
