(* ===== verification/AssemblerLayout.thy ===== *)
theory AssemblerLayout
  imports AssemblerGen
begin

text \<open>
  What the assembler's passes establish: definitions come last in their old order, every instruction's
  offset is the number of bytes before it, and after a pass that changed nothing each instruction
  has the code that belongs to the final lengths and offsets.
\<close>

section \<open>Moving definitions\<close>

text \<open>No definition in front of another instruction.\<close>

abbreviation definesLast :: "AssemblerInstruction list \<Rightarrow> bool" where
  "definesLast \<equiv> sorted_wrt (\<lambda>a b. isDef a \<longrightarrow> isDef b)"

lemma shiftPass_unchanged: "\<not> snd (shiftPass xs) \<longleftrightarrow> definesLast xs"
proof (induction xs rule: shiftPass.induct)
  case (1 a b xs)
  have two: "definesLast (a # b # xs) \<longleftrightarrow> (isDef a \<longrightarrow> isDef b) \<and> definesLast (b # xs)"
    by auto
  show ?case
  proof (cases "isDef a \<and> \<not> isDef b")
    case True
    then show ?thesis by simp
  next
    case False
    then have eq: "snd (shiftPass (a # b # xs)) = snd (shiftPass (b # xs))" by auto
    show ?thesis unfolding eq two 1(2) [OF False] using False by blast
  qed
qed auto

lemma shiftPass_same: "\<not> snd (shiftPass xs) \<Longrightarrow> fst (shiftPass xs) = xs"
  by (induction xs rule: shiftPass.induct) (auto split: if_splits)

lemma definesLast_filter: "definesLast xs \<Longrightarrow> filter (\<lambda>i. \<not> isDef i) xs @ filter isDef xs = xs"
  by (induction xs) (auto simp: filter_id_conv filter_empty_conv)

lemma sorted_wrt_all: "(\<And>x y. x \<in> set xs \<Longrightarrow> y \<in> set xs \<Longrightarrow> P x y) \<Longrightarrow> sorted_wrt P xs"
  by (induction xs) auto

lemma filter_definesLast: "definesLast (filter (\<lambda>i. \<not> isDef i) xs @ filter isDef xs)"
  unfolding sorted_wrt_append by (intro conjI sorted_wrt_all) auto

lemma shiftLoop_stable:
  "fst (shiftLoop xs) = filter (\<lambda>i. \<not> isDef i) xs @ filter isDef xs"
proof (induction xs rule: shiftLoop.induct)
  case (1 xs)
  show ?case
  proof (cases "snd (shiftPass xs)")
    case True
    then show ?thesis
      using 1 [OF refl] by (subst shiftLoop.simps) (simp add: Let_def shiftPass_filter)
  next
    case False
    then have "definesLast xs" by (simp add: shiftPass_unchanged)
    with False show ?thesis
      by (subst shiftLoop.simps) (simp add: Let_def shiftPass_same definesLast_filter)
  qed
qed

lemma shiftLoop_sorted: "definesLast xs \<Longrightarrow> \<not> snd (shiftLoop xs)"
  by (subst shiftLoop.simps) (simp add: Let_def shiftPass_unchanged)

lemma shiftAll_stable:
  assumes "apInstructions program \<noteq> []"
  shows "shiftAll program = Some (program\<lparr>apInstructions :=
    filter (\<lambda>i. \<not> isDef i) (apInstructions program) @ filter isDef (apInstructions program)\<rparr>)"
proof -
  let ?ys = "filter (\<lambda>i. \<not> isDef i) (apInstructions program) @ filter isDef (apInstructions program)"
  have ne: "?ys \<noteq> []" using assms by (metis append_is_Nil_conv empty_filter_conv list.set_sel(1))
  have sorted: "\<not> snd (shiftLoop ?ys)" by (rule shiftLoop_sorted [OF filter_definesLast])
  have fix_point: "shiftAll (program\<lparr>apInstructions := ?ys\<rparr>) = Some (program\<lparr>apInstructions := ?ys\<rparr>)"
    using ne sorted shiftLoop_stable [of ?ys]
    by (subst shiftAll.simps) (auto simp: assemblerProgramShiftDefines_def split: prod.splits)
  show ?thesis
    using fix_point shiftLoop_stable [of "apInstructions program"] assms
    by (subst shiftAll.simps) (auto simp: assemblerProgramShiftDefines_def split: prod.splits)
qed

section \<open>Offsets\<close>

lemma codeSize_append [simp]: "codeSize (xs @ ys) = codeSize xs + codeSize ys"
  by (simp add: codeSize_def)

lemma codeSize_simps [simp]: "codeSize [] = 0" "codeSize (i # xs) = unat (aiMachineCodeLen i) + codeSize xs"
  by (simp_all add: codeSize_def)

lemma codeSize_cong: "map aiMachineCodeLen xs = map aiMachineCodeLen ys \<Longrightarrow> codeSize xs = codeSize ys"
proof -
  assume "map aiMachineCodeLen xs = map aiMachineCodeLen ys"
  then have "map unat (map aiMachineCodeLen xs) = map unat (map aiMachineCodeLen ys)" by simp
  then show ?thesis by (simp add: codeSize_def comp_def)
qed

definition offsetsOk :: "AssemblerInstruction list \<Rightarrow> bool" where
  "offsetsOk is \<longleftrightarrow> (\<forall>k < length is. aiMachineCodeOffset (is ! k) = of_nat (codeSize (take k is)))"

lemma offsetsFrom_offsets:
  "offsetsFrom program code ram is = Some (is', ram') \<Longrightarrow>
   length is' = length is \<and>
   (\<forall>k < length is. aiMachineCodeOffset (is' ! k) = ucast (code + of_nat (codeSize (take k is))))"
proof (induction "is" arbitrary: code ram is' ram')
  case (Cons i "is")
  from Cons.prems obtain t ram1 is1 where
    o: "offsetsFrom program (code + ucast (aiMachineCodeLen i)) ram1 is = Some (is1, ram')"
    and is': "is' = i\<lparr>aiMachineCodeOffset := ucast code, aiType := t\<rparr> # is1"
    by (auto simp: bind_eq_Some_conv)
  have len: "(ucast (aiMachineCodeLen i) :: u32) = of_nat (unat (aiMachineCodeLen i))" by simp
  show ?case
    using Cons.IH [OF o] unfolding is' len by (auto simp: nth_Cons' add.assoc less_Suc_eq_0_disj take_Cons')
qed simp

lemma ucast_of_nat_16: "(ucast (of_nat n :: u32) :: u16) = of_nat n"
  unfolding unat_eq_iff16 by (simp add: unat_ucast_32_16 unat_of_nat mod_mod_cancel)

lemma CalculateMachineCodeOffsets_ok:
  assumes "assemblerProgramCalculateMachineCodeOffsets program = Some program'"
  shows "offsetsOk (apInstructions program')"
proof -
  from assms obtain ram where o: "offsetsFrom program (ucast BytecodeMemoryProgmemAddr) (ucast BytecodeMemoryRamAddr)
      (apInstructions program) = Some (apInstructions program', ram)"
    by (auto simp: assemblerProgramCalculateMachineCodeOffsets_def bind_eq_Some_conv)
  have "codeSize (take k (apInstructions program')) = codeSize (take k (apInstructions program))" for k
    using offsetsFrom_lens [OF o] by (intro codeSize_cong) (simp flip: take_map)
  with offsetsFrom_offsets [OF o] show ?thesis
    by (simp add: offsetsOk_def BytecodeMemoryProgmemAddr_def ucast_of_nat_16)
qed

section \<open>A pass without a change\<close>

text \<open>Two programs with the same layout differ in the machine code only.\<close>

definition eraseCode :: "AssemblerProgram \<Rightarrow> AssemblerProgram" where
  "eraseCode program = program\<lparr>apInstructions := map (\<lambda>i. i\<lparr>aiMachineCode := []\<rparr>) (apInstructions program)\<rparr>"

abbreviation sameLayout :: "AssemblerProgram \<Rightarrow> AssemblerProgram \<Rightarrow> bool" where
  "sameLayout p q \<equiv> eraseCode p = eraseCode q"

lemma findIndex_map: "findIndex P (map f xs) = findIndex (\<lambda>x. P (f x)) xs"
  by (induction xs) auto

lemma labelAddr_erase: "assemblerGetLabelSymbolAddr (eraseCode p) s = assemblerGetLabelSymbolAddr p s"
  by (auto simp: assemblerGetLabelSymbolAddr_def assemblerGetLabelSymbolInstructionIndex_def eraseCode_def
      findIndex_map split: option.split dest!: findIndex_Some)

lemma sameLayout_label: "sameLayout p q \<Longrightarrow> assemblerGetLabelSymbolAddr p s = assemblerGetLabelSymbolAddr q s"
  by (metis labelAddr_erase)

lemma sameLayout_length: "sameLayout p q \<Longrightarrow> length (apInstructions p) = length (apInstructions q)"
  by (drule arg_cong [where f = "\<lambda>p. length (apInstructions p)"]) (simp add: eraseCode_def)

lemma sameLayout_nth:
  assumes "sameLayout p q" "k < length (apInstructions q)"
  shows "(apInstructions p ! k)\<lparr>aiMachineCode := []\<rparr> = (apInstructions q ! k)\<lparr>aiMachineCode := []\<rparr>"
  using arg_cong [OF assms(1), of "\<lambda>p. apInstructions p ! k"] assms(2) sameLayout_length [OF assms(1)]
  by (simp add: eraseCode_def)

lemma sameLayout_fields:
  assumes "sameLayout p q" "k < length (apInstructions q)"
  shows "aiType (apInstructions p ! k) = aiType (apInstructions q ! k)"
    "aiMachineCodeLen (apInstructions p ! k) = aiMachineCodeLen (apInstructions q ! k)"
    "aiMachineCodeOffset (apInstructions p ! k) = aiMachineCodeOffset (apInstructions q ! k)"
    "aiMachineCodeInstructions (apInstructions p ! k) = aiMachineCodeInstructions (apInstructions q ! k)"
  using arg_cong [OF sameLayout_nth [OF assms], of aiType]
    arg_cong [OF sameLayout_nth [OF assms], of aiMachineCodeLen]
    arg_cong [OF sameLayout_nth [OF assms], of aiMachineCodeOffset]
    arg_cong [OF sameLayout_nth [OF assms], of aiMachineCodeInstructions] by simp_all

lemma sameLayout_code:
  "k < length (apInstructions p) \<Longrightarrow>
   sameLayout (p\<lparr>apInstructions := (apInstructions p)[k := (apInstructions p ! k)\<lparr>aiMachineCode := c\<rparr>]\<rparr>) p"
  by (simp add: eraseCode_def map_update list_update_same_conv)

text \<open>Each instruction has code that was generated under the final layout and is as long as the
  instruction.\<close>

definition coded :: "AssemblerHost \<Rightarrow> AssemblerProgram \<Rightarrow> nat \<Rightarrow> bool" where
  "coded host program k \<longleftrightarrow> (let i = apInstructions program ! k in
     (\<exists>p. sameLayout p program \<and> generateOne host p k = AsmOk (aiMachineCode i)) \<and>
     (aiMachineCodeLen i > 0 \<longrightarrow> \<not> isDef i \<longrightarrow> codeLength (aiMachineCode i) = unat (aiMachineCodeLen i)))"

lemma generateFrom_coded:
  "generateFrom host ks program = AsmOk (False, program') \<Longrightarrow> distinct ks \<Longrightarrow>
   \<forall>k \<in> set ks. k < length (apInstructions program) \<Longrightarrow>
   sameLayout program program' \<and> (\<forall>k \<in> set ks. coded host program' k) \<and>
   (\<forall>k. k \<notin> set ks \<longrightarrow> apInstructions program' ! k = apInstructions program ! k)"
proof (induction ks arbitrary: program)
  case (Cons k ks)
  from Cons.prems(1) obtain code where code: "generateOne host program k = AsmOk code"
    by (auto simp: asmBind_Ok)
  let ?i = "(apInstructions program ! k)\<lparr>aiMachineCode := code\<rparr>"
  let ?p = "program\<lparr>apInstructions := (apInstructions program)[k := ?i]\<rparr>"
  from Cons.prems(1) code have len: "aiMachineCodeLen ?i > 0 \<Longrightarrow> \<not> isDef ?i \<Longrightarrow> codeLength code = unat (aiMachineCodeLen ?i)"
    and rest: "generateFrom host ks ?p = AsmOk (False, program')"
    by (auto simp: Let_def split: if_splits)
  have k: "k < length (apInstructions program)" "k \<notin> set ks" using Cons.prems by auto
  note IH = Cons.IH [OF rest]
  from IH Cons.prems have layout: "sameLayout ?p program'"
    and others: "\<forall>j \<in> set ks. coded host program' j"
    and same: "\<forall>j. j \<notin> set ks \<longrightarrow> apInstructions program' ! j = apInstructions ?p ! j"
    by auto
  have lay: "sameLayout program program'"
    using layout sameLayout_code [OF k(1), of code] by simp
  have nth: "apInstructions program' ! k = ?i" using same k by simp
  have "coded host program' k"
    unfolding coded_def Let_def nth using lay code len by (intro conjI exI [of _ program]) auto
  with lay others same show ?case by auto
qed simp

lemma Generate_coded:
  assumes "assemblerProgramGenerateMachineCode host program = AsmOk (False, program')"
  shows "sameLayout program program'" "k < length (apInstructions program) \<Longrightarrow> coded host program' k"
  using generateFrom_coded [OF assms [unfolded assemblerProgramGenerateMachineCode_def]] by auto

lemma sameLayout_offsetsOk:
  assumes "sameLayout p q" "offsetsOk (apInstructions p)"
  shows "offsetsOk (apInstructions q)"
proof -
  have "map aiMachineCodeLen (apInstructions p) = map aiMachineCodeLen (apInstructions q)"
    using sameLayout_fields(2) [OF assms(1)] sameLayout_length [OF assms(1)] by (intro nth_equalityI) auto
  then have "codeSize (take k (apInstructions p)) = codeSize (take k (apInstructions q))" for k
    by (intro codeSize_cong) (simp flip: take_map)
  with assms(2) sameLayout_fields(3) [OF assms(1)] sameLayout_length [OF assms(1)] show ?thesis
    by (simp add: offsetsOk_def)
qed

section \<open>The whole assembly\<close>

lemma generateLoop_ok:
  "generateLoop host program = AsmOk program' \<Longrightarrow> offsetsOk (apInstructions program')"
proof (induction host program rule: generateLoop.induct)
  case (1 host program)
  from "1.prems" obtain p1 change p2 where
    o: "assemblerProgramCalculateMachineCodeOffsets program = Some p1"
    and g: "assemblerProgramGenerateMachineCode host p1 = AsmOk (change, p2)"
    and r: "if change then generateLoop host p2 = AsmOk program' else program' = p2"
    by (subst (asm) generateLoop.simps) (auto split: option.splits if_splits)
  show ?case
  proof (cases change)
    case True
    with r "1.IH" [OF o g] show ?thesis by simp
  next
    case False
    with r g have "assemblerProgramGenerateMachineCode host p1 = AsmOk (False, program')" by simp
    from sameLayout_offsetsOk [OF Generate_coded(1) [OF this] CalculateMachineCodeOffsets_ok [OF o]]
    show ?thesis .
  qed
qed

lemma setStack_offsetsOk:
  assumes "setStack p = Some q" "offsetsOk (apInstructions p)"
  shows "offsetsOk (apInstructions q)"
proof -
  have "length (apInstructions q) = length (apInstructions p) \<and>
      map aiMachineCodeLen (apInstructions q) = map aiMachineCodeLen (apInstructions p) \<and>
      map aiMachineCodeOffset (apInstructions q) = map aiMachineCodeOffset (apInstructions p)"
    using assms(1) by (auto simp: setStack_def Let_def map_update list_update_same_conv
        split: if_splits option.splits AssemblerInstructionType.splits dest!: findIndex_Some)
  then have l: "length (apInstructions q) = length (apInstructions p)"
    and m: "map aiMachineCodeLen (apInstructions q) = map aiMachineCodeLen (apInstructions p)"
    and o: "map aiMachineCodeOffset (apInstructions q) = map aiMachineCodeOffset (apInstructions p)" by auto
  have "codeSize (take k (apInstructions q)) = codeSize (take k (apInstructions p))" for k
    using m by (intro codeSize_cong) (simp flip: take_map)
  moreover have "aiMachineCodeOffset (apInstructions q ! k) = aiMachineCodeOffset (apInstructions p ! k)"
    if "k < length (apInstructions p)" for k
    using that l arg_cong [OF o, of "\<lambda>xs. xs ! k"] by simp
  ultimately show ?thesis using assms(2) l by (simp add: offsetsOk_def)
qed

text \<open>What is known of the program whose code is written.\<close>

lemma assembleLines_ok:
  assumes "assembleLines host source = AsmOk program"
  shows "offsetsOk (apInstructions program)" "k < length (apInstructions program) \<Longrightarrow> coded host program k"
proof -
  from assms obtain p1 p2 p3 where
    g: "generateLoop host p1 = AsmOk p2" and s: "setStack p2 = Some p3"
    and f: "assemblerProgramGenerateMachineCode host p3 = AsmOk (False, program)"
    by (auto simp: assembleLines_def bind_eq_Some_conv asmBind_Ok split: if_splits)
  show "offsetsOk (apInstructions program)"
    by (rule sameLayout_offsetsOk [OF Generate_coded(1) [OF f] setStack_offsetsOk [OF s generateLoop_ok [OF g]]])
  show "k < length (apInstructions program) \<Longrightarrow> coded host program k"
    using Generate_coded [OF f] sameLayout_length by metis
qed

section \<open>The bytes that are written\<close>

lemma length_instructionBytes [simp]: "length (instructionBytes i) = unat (aiMachineCodeLen i)"
  by (simp add: instructionBytes_def)

lemma codeBytes_length: "length (concat (map instructionBytes is)) = codeSize is"
  by (induction "is") auto

lemma length_WriteMachineCode [simp]:
  "length (assemblerProgramWriteMachineCode program) = codeSize (apInstructions program)"
  by (simp add: assemblerProgramWriteMachineCode_def codeBytes_length)

lemma written_at:
  assumes "k < length (apInstructions program)" "n < unat (aiMachineCodeLen (apInstructions program ! k))"
  shows "assemblerProgramWriteMachineCode program ! (codeSize (take k (apInstructions program)) + n) =
      instructionBytes (apInstructions program ! k) ! n"
    "codeSize (take k (apInstructions program)) + n < codeSize (apInstructions program)"
proof -
  let ?is = "apInstructions program"
  have s: "?is = take k ?is @ ?is ! k # drop (Suc k) ?is" using assms(1) by (simp add: id_take_nth_drop)
  have w: "assemblerProgramWriteMachineCode program =
      concat (map instructionBytes (take k ?is)) @ instructionBytes (?is ! k) @
      concat (map instructionBytes (drop (Suc k) ?is))"
    unfolding assemblerProgramWriteMachineCode_def by (subst s) simp
  show "assemblerProgramWriteMachineCode program ! (codeSize (take k ?is) + n) = instructionBytes (?is ! k) ! n"
    unfolding w by (simp add: nth_append codeBytes_length assms(2))
  show "codeSize (take k ?is) + n < codeSize ?is"
    by (subst (2) s) (use assms(2) in simp)
qed

end
