(* ===== verification/AssemblerJump.thy ===== *)
theory AssemblerJump
  imports AssemblerLayout EmulatorProps
begin

text \<open>
  An assembled jump and the emulator: the code of a jump in each of its forms, that no jump is left
  without code, and one step of the emulator on that code.
\<close>

section \<open>The code of a jump\<close>

lemma parseLength_first: "bytecodeInstructionParseLength (b, x, y) = bytecodeInstructionParseLength (b, x', y')"
  by (simp add: parse_length_by_first_byte)

lemma codeLength_Cons:
  "bytecodeInstructionParseLength (b, x, y) = l \<Longrightarrow> b \<noteq> ByteCodeIllegalInstructionByte \<Longrightarrow>
   codeLength (b # bs) = lengthBytes l + codeLength (drop (lengthBytes l - 1) bs)"
  using parseLength_first [of b x y ByteCodeIllegalInstructionByte ByteCodeIllegalInstructionByte]
  by (subst codeLength.simps) (simp add: Let_def)

lemma longer_not_illegal:
  "bytecodeInstructionParseLength (b, x, y) \<noteq> BytecodeInstructionLength1Byte \<Longrightarrow> b \<noteq> ByteCodeIllegalInstructionByte"
  by (auto simp: parse_length_by_first_byte ByteCodeIllegalInstructionByte_def)

lemma codeLength_nop: "codeLength (bytecodeInstructionCreateMiscNop # bs) = Suc (codeLength bs)"
  by (subst codeLength_Cons [where x = 0 and y = 0 and l = BytecodeInstructionLength1Byte])
    (auto simp: parse_length_by_first_byte ByteCodeIllegalInstructionByte_def bytecodeInstructionCreateMiscNop_def)

lemma codeLength_two:
  "bytecodeInstructionParseLength (b, x, y) = BytecodeInstructionLength2Byte \<Longrightarrow> codeLength [b, c] = 2"
  using longer_not_illegal [of b x y] by (simp add: codeLength_Cons [of b x y])

lemma codeLength_three:
  "bytecodeInstructionParseLength (b, x, y) = BytecodeInstructionLength3Byte \<Longrightarrow> codeLength [b, c, d] = 3"
  using longer_not_illegal [of b x y] by (simp add: codeLength_Cons [of b x y])

lemma IP_less: "unat BytecodeRegisterIP < 8" by (simp add: BytecodeRegisterIP_def)

text \<open>The forms a jump can have, with what decoding them gives.\<close>

definition jumpsBy :: "BytecodeInstructionAluType \<Rightarrow> u8 \<Rightarrow> BytecodeInstructionInfo \<Rightarrow> bool" where
  "jumpsBy t v info \<longleftrightarrow> infoType info = BytecodeInstructionTypeAlu \<and> aluType (infoAlu info) = t \<and>
     aluDestReg (infoAlu info) = BytecodeRegisterIP \<and> aluIncDecValue (infoAlu info) = v"

lemma jmpCode3_cases:
  assumes "jmpCode3 offset addr = Some code"
  obtains "codeLength code = 2" | b c d where "code = [b, c, d]"
    "bytecodeInstructionParseLength (b, c, d) = BytecodeInstructionLength3Byte" "codeLength code = 3"
    "\<And>info. setEffect (bytecodeInstructionParse info (b, c, d)) = Some (BytecodeRegisterIP, addr)"
proof -
  obtain b c d where s: "bytecodeInstructionCreateMiscSet16 BytecodeRegisterIP addr = (b, c, d)"
    by (cases "bytecodeInstructionCreateMiscSet16 BytecodeRegisterIP addr") auto
  note e = set16_effect(1) [OF IP_less, where v = addr, unfolded s] set16_effect(2) [OF IP_less, where v = addr, unfolded s]
  from assms have "code = [bytecodeInstructionCreateMiscNop, bytecodeInstructionCreateMiscNop] \<or> code = [b, c, d]"
    by (auto simp: jmpCode3_def Let_def s split: if_splits)
  then show ?thesis
    using that e codeLength_three [OF e(1)] by (auto simp: codeLength_nop)
qed

lemma incDec_decodes:
  assumes "bytecodeInstructionCreateAluIncDecValue t BytecodeRegisterIP v = Some op"
  shows "bytecodeInstructionParseLength (hi8 op, lo8 op, x) = BytecodeInstructionLength2Byte"
    "jumpsBy t v (bytecodeInstructionParse info (hi8 op, lo8 op, x))"
proof -
  from assms have "t \<in> set aluTypes"
    and c: "bytecodeInstructionCreateAlu t BytecodeRegisterIP (drop_bit 3 (v - 1)) ((v - 1) AND 7) = Some op"
    by (auto simp: bytecodeInstructionCreateAluIncDecValue_def aluTypes_def split: if_splits)
  then show "bytecodeInstructionParseLength (hi8 op, lo8 op, x) = BytecodeInstructionLength2Byte"
    by (rule decode_create_alu(1) [rotated])
  show "jumpsBy t v (bytecodeInstructionParse info (hi8 op, lo8 op, x))"
    using parse_create_inc_dec [OF assms, of info x] by (simp add: jumpsBy_def)
qed

lemma jmpCode2_cases:
  assumes "jmpCode2 offset addr = Some code"
  obtains b c where "code = [b, c]" "codeLength code = 2"
    "bytecodeInstructionParseLength (b, c, x) = BytecodeInstructionLength2Byte"
    "setEffect (bytecodeInstructionParse info (b, c, x)) = Some (BytecodeRegisterIP, addr) \<or>
     jumpsBy BytecodeInstructionAluTypeInc (ucast (addr - (offset + 2))) (bytecodeInstructionParse info (b, c, x)) \<and>
       addr - (offset + 2) \<le> 64 \<or>
     jumpsBy BytecodeInstructionAluTypeDec (ucast (offset + 2 - addr)) (bytecodeInstructionParse info (b, c, x)) \<and>
       offset + 2 - addr \<le> 64"
proof -
  let ?ip = "offset + 2"
  consider "addr < 256" | "\<not> addr < 256" "addr > ?ip" "addr - ?ip \<le> 64"
    | "\<not> addr < 256" "addr < ?ip" "?ip - addr \<le> 64"
    using assms by (auto simp: jmpCode2_def Let_def split: if_splits)
  then show ?thesis
  proof cases
    case 1
    let ?op = "bytecodeInstructionCreateMiscSet8 BytecodeRegisterIP (ucast addr)"
    have "ucast (ucast addr :: u8) = addr" using 1 by (intro ucast_8_16_inverse) (simp add: word_less_nat_alt)
    with set8_effect(1) [OF IP_less refl, where v = "ucast addr" and x = x] set8_effect(2) [OF IP_less refl, where v = "ucast addr" and x = x and info = info]
    have e: "bytecodeInstructionParseLength (hi8 ?op, lo8 ?op, x) = BytecodeInstructionLength2Byte"
      "setEffect (bytecodeInstructionParse info (hi8 ?op, lo8 ?op, x)) = Some (BytecodeRegisterIP, addr)" by simp_all
    have "code = [hi8 ?op, lo8 ?op]" using assms 1 by (simp add: jmpCode2_def opCode_def)
    with e codeLength_two [OF e(1)] that show ?thesis by blast
  next
    case 2
    then obtain op where o: "bytecodeInstructionCreateAluIncDecValue BytecodeInstructionAluTypeInc BytecodeRegisterIP
        (ucast (addr - ?ip)) = Some op" "code = [hi8 op, lo8 op]"
      using assms by (auto simp: jmpCode2_def opCode_def Let_def)
    note e = incDec_decodes(1) [OF o(1), where x = x] incDec_decodes(2) [OF o(1), where x = x]
    with o codeLength_two [OF e(1)] 2 that show ?thesis by blast
  next
    case 3
    then have "\<not> addr > ?ip" by simp
    with 3 obtain op where o: "bytecodeInstructionCreateAluIncDecValue BytecodeInstructionAluTypeDec BytecodeRegisterIP
        (ucast (?ip - addr)) = Some op" "code = [hi8 op, lo8 op]"
      using assms by (auto simp: jmpCode2_def opCode_def Let_def)
    note e = incDec_decodes(1) [OF o(1), where x = x] incDec_decodes(2) [OF o(1), where x = x]
    with o codeLength_two [OF e(1)] 3 that show ?thesis by blast
  qed
qed

lemma genJmp_positive: "genJmp p i s = AsmOk code \<Longrightarrow> 0 < codeLength code"
  by (auto simp: genJmp_def codeLength_nop split: option.splits if_splits
      elim: jmpCode3_cases jmpCode2_cases [where x = 0 and info = blankInfo])

section \<open>Jumps have code, labels none\<close>

definition shapeOk :: "AssemblerInstruction \<Rightarrow> bool" where
  "shapeOk i \<longleftrightarrow>
     (\<forall>s. aiType i = AssemblerInstructionTypeJmp s \<longrightarrow> aiMachineCodeLen i > 0) \<and>
     (\<forall>s. aiType i = AssemblerInstructionTypeLabel s \<longrightarrow> aiMachineCodeInstructions i = 0)"

definition shapesOk :: "AssemblerInstruction list \<Rightarrow> bool" where
  "shapesOk is \<longleftrightarrow> (\<forall>i \<in> set is. shapeOk i)"

lemma initialLengths_shapes:
  "initialLengths program is = AsmOk is' \<Longrightarrow> shapesOk is'"
  by (induction "is" arbitrary: is')
    (auto simp: shapesOk_def shapeOk_def asmBind_Ok initialLength_def)

lemma allocate_shape: "allocate program ram (aiType i) = Some (t', ram') \<Longrightarrow> shapeOk i \<Longrightarrow> shapeOk (i\<lparr>aiMachineCodeOffset := a, aiType := t'\<rparr>)"
  by (cases "aiType i") (auto simp: shapeOk_def bind_eq_Some_conv Let_def)

lemma offsetsFrom_shapes:
  "offsetsFrom program code ram is = Some (is', ram') \<Longrightarrow> shapesOk is \<Longrightarrow> shapesOk is'"
  by (induction "is" arbitrary: code ram is' ram')
    (fastforce simp: shapesOk_def bind_eq_Some_conv intro: allocate_shape)+

lemma shapesOk_update:
  "shapesOk is \<Longrightarrow> shapeOk i \<Longrightarrow> shapesOk (is[k := i])"
  unfolding shapesOk_def using set_update_subset_insert [of "is" k i] by blast

lemma generateFrom_shapes:
  "generateFrom host ks program = AsmOk (change, program') \<Longrightarrow> shapesOk (apInstructions program) \<Longrightarrow>
   \<forall>k \<in> set ks. k < length (apInstructions program) \<Longrightarrow> shapesOk (apInstructions program')"
proof (induction ks arbitrary: program)
  case (Cons k ks)
  from Cons.prems(1) obtain code where code: "generateOne host program k = AsmOk code"
    by (auto simp: asmBind_Ok)
  let ?i = "(apInstructions program ! k)\<lparr>aiMachineCode := code\<rparr>"
  have k: "shapeOk (apInstructions program ! k)" using Cons.prems(2,3) by (simp add: shapesOk_def)
  have pos: "0 < codeLength code" if "aiType ?i = AssemblerInstructionTypeJmp s" for s
    using that code by (auto simp: generateOne_def Let_def intro: genJmp_positive)
  show ?case
  proof (cases "aiMachineCodeLen ?i > 0 \<and> \<not> isDef ?i \<and> codeLength code \<noteq> unat (aiMachineCodeLen ?i)")
    case True
    with Cons.prems(1) code have lt: "codeLength code < unat (aiMachineCodeLen ?i)"
      and p: "program' = program\<lparr>apInstructions := (apInstructions program)[k := ?i\<lparr>aiMachineCodeLen := of_nat (codeLength code)\<rparr>]\<rparr>"
      by (auto simp: Let_def split: if_splits)
    from lt unat_u16_less [of "aiMachineCodeLen ?i"] have "codeLength code < 65536" by linarith
    then have u: "unat (of_nat (codeLength code) :: u16) = codeLength code" by (simp add: unat_of_nat)
    have "(of_nat (codeLength code) :: u16) > 0" if "aiType ?i = AssemblerInstructionTypeJmp s" for s
      using pos [OF that] u by (simp add: word_less_nat_alt)
    with k have "shapeOk (?i\<lparr>aiMachineCodeLen := of_nat (codeLength code)\<rparr>)" by (simp add: shapeOk_def)
    then show ?thesis unfolding p using shapesOk_update [OF Cons.prems(2)] by simp
  next
    case False
    let ?p = "program\<lparr>apInstructions := (apInstructions program)[k := ?i]\<rparr>"
    from False Cons.prems(1) code have g: "generateFrom host ks ?p = AsmOk (change, program')"
      by (auto simp: Let_def split: if_splits)
    have "shapeOk ?i" using k by (simp add: shapeOk_def)
    then have "shapesOk (apInstructions ?p)" using shapesOk_update [OF Cons.prems(2)] by simp
    then show ?thesis by (rule Cons.IH [OF g]) (use Cons.prems(3) in simp)
  qed
qed simp

lemma Generate_shapes:
  "assemblerProgramGenerateMachineCode host program = AsmOk (change, program') \<Longrightarrow>
   shapesOk (apInstructions program) \<Longrightarrow> shapesOk (apInstructions program')"
  unfolding assemblerProgramGenerateMachineCode_def by (erule generateFrom_shapes) auto

lemma Offsets_shapes:
  "assemblerProgramCalculateMachineCodeOffsets program = Some program' \<Longrightarrow>
   shapesOk (apInstructions program) \<Longrightarrow> shapesOk (apInstructions program')"
  by (auto simp: assemblerProgramCalculateMachineCodeOffsets_def bind_eq_Some_conv dest: offsetsFrom_shapes)

lemma generateLoop_shapes:
  "generateLoop host program = AsmOk program' \<Longrightarrow> shapesOk (apInstructions program) \<Longrightarrow>
   shapesOk (apInstructions program')"
proof (induction host program rule: generateLoop.induct)
  case (1 host program)
  from "1.prems" obtain p1 change p2 where
    o: "assemblerProgramCalculateMachineCodeOffsets program = Some p1"
    and g: "assemblerProgramGenerateMachineCode host p1 = AsmOk (change, p2)"
    and r: "if change then generateLoop host p2 = AsmOk program' else program' = p2"
    by (subst (asm) generateLoop.simps) (auto split: option.splits if_splits)
  have "shapesOk (apInstructions p2)"
    by (rule Generate_shapes [OF g Offsets_shapes [OF o "1.prems"(2)]])
  with r "1.IH" [OF o g] show ?case by (auto split: if_splits)
qed

lemma setStack_shapes:
  "setStack p = Some q \<Longrightarrow> shapesOk (apInstructions p) \<Longrightarrow> shapesOk (apInstructions q)"
  by (auto simp: setStack_def Let_def shapeOk_def intro!: shapesOk_update
      split: if_splits option.splits AssemblerInstructionType.splits)

lemma assembleLines_shapes:
  assumes "assembleLines host source = AsmOk program"
  shows "shapesOk (apInstructions program)"
proof -
  from assms obtain p0 p1 p2 p3 where
    i: "assemblerProgramCalculateInitialMachineCodeLengths p0 = AsmOk p1"
    and g: "generateLoop host p1 = AsmOk p2" and s: "setStack p2 = Some p3"
    and f: "assemblerProgramGenerateMachineCode host p3 = AsmOk (False, program)"
    by (auto simp: assembleLines_def bind_eq_Some_conv asmBind_Ok split: if_splits)
  from i have "shapesOk (apInstructions p1)"
    by (auto simp: assemblerProgramCalculateInitialMachineCodeLengths_def asmBind_Ok dest: initialLengths_shapes)
  then show ?thesis
    by (rule Generate_shapes [OF f setStack_shapes [OF s generateLoop_shapes [OF g]]])
qed

section \<open>One step of the emulator\<close>

lemma emSetReg_simps [simp]:
  "emMemory (emSetReg r v em) = emMemory em" "emSkipCounter (emSetReg r v em) = emSkipCounter em"
  "emInstructionCount (emSetReg r v em) = emInstructionCount em"
  "emSetReg r v (emSetReg r w em) = emSetReg r v em" "length (emRegs (emSetReg r v em)) = length (emRegs em)"
  by (simp_all add: emSetReg_def)

lemma emReg_emSetReg: "length (emRegs em) = 8 \<Longrightarrow> unat r < 8 \<Longrightarrow> emReg r (emSetReg r v em) = v"
  by (simp add: emReg_def emSetReg_def)

lemma emFetch_at:
  "unat (emReg BytecodeRegisterIP em) < emSize \<Longrightarrow>
   emFetch em = Some (emMemory em (unat (emReg BytecodeRegisterIP em)),
     emSetReg BytecodeRegisterIP (emReg BytecodeRegisterIP em + 1) em)"
  by (simp add: emFetch_def emRead_def Let_def)

text \<open>The bytes at the instruction pointer.\<close>

definition codeAt :: "'w Emulator \<Rightarrow> u8 list \<Rightarrow> bool" where
  "codeAt em code \<longleftrightarrow> unat (emReg BytecodeRegisterIP em) + length code \<le> emSize \<and>
     (\<forall>n < length code. emMemory em (unat (emReg BytecodeRegisterIP em) + n) = code ! n)"

lemma codeAt_fetch:
  assumes "codeAt em (b # bs)" "length (emRegs em) = 8"
  shows "\<exists>em'. emFetch em = Some (b, em') \<and> em' = emSetReg BytecodeRegisterIP (emReg BytecodeRegisterIP em + 1) em \<and>
    (bs \<noteq> [] \<longrightarrow> codeAt em' bs) \<and> length (emRegs em') = 8 \<and> emReg BytecodeRegisterIP em' = emReg BytecodeRegisterIP em + 1"
proof -
  let ?ip = "emReg BytecodeRegisterIP em"
  from assms(1) have le: "unat ?ip + Suc (length bs) \<le> emSize"
    and m: "\<And>n. n < Suc (length bs) \<Longrightarrow> emMemory em (unat ?ip + n) = (b # bs) ! n"
    by (auto simp: codeAt_def)
  have u: "unat (?ip + 1) = unat ?ip + 1"
    using le by (simp add: unat_word_ariths emSize_eq)
  have "codeAt (emSetReg BytecodeRegisterIP (?ip + 1) em) bs" if "bs \<noteq> []"
    using le m [of "Suc n" for n] by (simp add: codeAt_def emReg_emSetReg [OF assms(2) IP_less] u)
  then show ?thesis
    using emFetch_at [of em] le m [of 0] assms(2) by (simp add: emReg_emSetReg IP_less)
qed

lemma fetch_one:
  assumes "codeAt em [b0]" "length (emRegs em) = 8"
    and "bytecodeInstructionParseLength (b0, x, y) = BytecodeInstructionLength1Byte"
  shows "emFetchInstruction ee em = Some ((b0, eeIndet ee 1, eeIndet ee 2),
    emSetReg BytecodeRegisterIP (emReg BytecodeRegisterIP em + 1) em)"
  using codeAt_fetch [OF assms(1,2)] parseLength_first [of b0 x y "eeIndet ee 1" "eeIndet ee 2"] assms(3)
  by (auto simp: emFetchInstruction_def)

lemma fetch_two:
  assumes "codeAt em [b0, b1]" "length (emRegs em) = 8"
    and "bytecodeInstructionParseLength (b0, x, y) = BytecodeInstructionLength2Byte"
  shows "emFetchInstruction ee em = Some ((b0, b1, eeIndet ee 2),
    emSetReg BytecodeRegisterIP (emReg BytecodeRegisterIP em + 2) em)"
proof -
  obtain em1 where 1: "emFetch em = Some (b0, em1)" "em1 = emSetReg BytecodeRegisterIP (emReg BytecodeRegisterIP em + 1) em"
    "codeAt em1 [b1]" "length (emRegs em1) = 8" "emReg BytecodeRegisterIP em1 = emReg BytecodeRegisterIP em + 1"
    using codeAt_fetch [OF assms(1,2)] by auto
  obtain em2 where 2: "emFetch em1 = Some (b1, em2)" "em2 = emSetReg BytecodeRegisterIP (emReg BytecodeRegisterIP em1 + 1) em1"
    using codeAt_fetch [OF 1(3,4)] by auto
  show ?thesis
    using 1 2 parseLength_first [of b0 x y "eeIndet ee 1" "eeIndet ee 2"] assms(3)
    by (simp add: emFetchInstruction_def add.commute)
qed

lemma fetch_three:
  assumes "codeAt em [b0, b1, b2]" "length (emRegs em) = 8"
    and "bytecodeInstructionParseLength (b0, x, y) = BytecodeInstructionLength3Byte"
  shows "emFetchInstruction ee em = Some ((b0, b1, b2),
    emSetReg BytecodeRegisterIP (emReg BytecodeRegisterIP em + 3) em)"
proof -
  obtain em1 where 1: "emFetch em = Some (b0, em1)" "em1 = emSetReg BytecodeRegisterIP (emReg BytecodeRegisterIP em + 1) em"
    "codeAt em1 [b1, b2]" "length (emRegs em1) = 8" "emReg BytecodeRegisterIP em1 = emReg BytecodeRegisterIP em + 1"
    using codeAt_fetch [OF assms(1,2)] by auto
  obtain em2 where 2: "emFetch em1 = Some (b1, em2)" "em2 = emSetReg BytecodeRegisterIP (emReg BytecodeRegisterIP em1 + 1) em1"
    "codeAt em2 [b2]" "length (emRegs em2) = 8" "emReg BytecodeRegisterIP em2 = emReg BytecodeRegisterIP em1 + 1"
    using codeAt_fetch [OF 1(3,4)] by auto
  obtain em3 where 3: "emFetch em2 = Some (b2, em3)" "em3 = emSetReg BytecodeRegisterIP (emReg BytecodeRegisterIP em2 + 1) em2"
    using codeAt_fetch [OF 2(3,4)] by auto
  show ?thesis
    using 1 2 3 parseLength_first [of b0 x y "eeIndet ee 1" "eeIndet ee 2"] assms(3)
    by (simp add: emFetchInstruction_def add.commute)
qed

lemma exec_set: "setEffect info = Some (d, v) \<Longrightarrow> emExecInstruction ee info em = Some (True, emSetReg d v em)"
  by (auto simp: setEffect_def emExecInstruction_def emMemoryInstruction_def emMiscInstruction_def
      split: BytecodeInstructionType.splits if_splits)

lemma exec_inc:
  "jumpsBy BytecodeInstructionAluTypeInc v info \<Longrightarrow> emExecInstruction ee info em =
   Some (True, emSetReg BytecodeRegisterIP (emReg BytecodeRegisterIP em + ucast v) em)"
  by (simp add: jumpsBy_def emExecInstruction_def emAluInstruction_def emAluResult_def word_of_int_op Let_def)

lemma exec_dec:
  "jumpsBy BytecodeInstructionAluTypeDec v info \<Longrightarrow> emExecInstruction ee info em =
   Some (True, emSetReg BytecodeRegisterIP (emReg BytecodeRegisterIP em - ucast v) em)"
  by (simp add: jumpsBy_def emExecInstruction_def emAluInstruction_def emAluResult_def word_of_int_op Let_def)

lemma exec_nop:
  "emExecInstruction ee (bytecodeInstructionParse info (bytecodeInstructionCreateMiscNop, x, y)) em = Some (True, em)"
  by (simp add: bytecodeInstructionCreateMiscNop_def parse_class parseMisc_def Let_def miscTypeOfNat_def miscTypes_def
      emExecInstruction_def emMiscInstruction_def)

text \<open>An instruction that is fetched and only sets the instruction pointer.\<close>

lemma runs_to:
  assumes "emFetchInstruction ee em = Some (ins, emSetReg BytecodeRegisterIP ip em)" "emSkipCounter em = 0"
    and "emExecInstruction ee (bytecodeInstructionParse (eeInfo ee) ins) (emSetReg BytecodeRegisterIP ip em) =
      Some (True, emSetReg BytecodeRegisterIP addr em)"
  shows "processRunNextInstruction ee em =
    Some (True, (emSetReg BytecodeRegisterIP addr em)\<lparr>emInstructionCount := emInstructionCount em + 1\<rparr>)"
  using assms by (simp add: processRunNextInstruction_def)

lemma jmp_runs:
  assumes g: "genJmp p i s = AsmOk code" and len: "codeLength code = unat (aiMachineCodeLen i)"
    and l: "assemblerGetLabelSymbolAddr p s = Some addr"
    and at: "codeAt em code" and ip: "emReg BytecodeRegisterIP em = aiMachineCodeOffset i"
    and em: "length (emRegs em) = 8" "emSkipCounter em = 0"
  shows "processRunNextInstruction ee em =
    Some (True, (emSetReg BytecodeRegisterIP (of_nat addr) em)\<lparr>emInstructionCount := emInstructionCount em + 1\<rparr>)"
proof -
  let ?IP = "BytecodeRegisterIP" and ?off = "aiMachineCodeOffset i"
  consider (nop) "addr = unat ?off + unat (aiMachineCodeLen i)" "code = [bytecodeInstructionCreateMiscNop]"
    | (three) "aiMachineCodeLen i = 3" "jmpCode3 ?off (of_nat addr) = Some code"
    | (two) "aiMachineCodeLen i = 2" "jmpCode2 ?off (of_nat addr) = Some code"
    using g l by (auto simp: genJmp_def split: if_splits)
  then show ?thesis
  proof cases
    case nop
    then have "aiMachineCodeLen i = 1" unfolding unat_eq_iff16 using len by (simp add: codeLength_nop)
    with nop have a: "of_nat addr = ?off + 1" by simp
    have one: "bytecodeInstructionParseLength (bytecodeInstructionCreateMiscNop, 0, 0) = BytecodeInstructionLength1Byte"
      by (simp add: bytecodeInstructionCreateMiscNop_def parse_length_by_first_byte)
    show ?thesis
      unfolding a by (rule runs_to [OF fetch_one [OF at [unfolded nop(2)] em(1) one, unfolded ip] em(2)]) (rule exec_nop)
  next
    case three
    from three(2) show ?thesis
    proof (cases rule: jmpCode3_cases)
      case 1
      with three len show ?thesis by simp
    next
      case (2 b c d)
      show ?thesis
        by (rule runs_to [OF fetch_three [OF at [unfolded 2(1)] em(1) 2(2)] em(2)])
          (simp add: exec_set [OF 2(4)])
    qed
  next
    case two
    obtain b c where c: "code = [b, c]" "bytecodeInstructionParseLength (b, c, eeIndet ee 2) = BytecodeInstructionLength2Byte"
      and e: "setEffect (bytecodeInstructionParse (eeInfo ee) (b, c, eeIndet ee 2)) = Some (?IP, of_nat addr) \<or>
        jumpsBy BytecodeInstructionAluTypeInc (ucast (of_nat addr - (?off + 2))) (bytecodeInstructionParse (eeInfo ee) (b, c, eeIndet ee 2)) \<and>
          of_nat addr - (?off + 2) \<le> 64 \<or>
        jumpsBy BytecodeInstructionAluTypeDec (ucast (?off + 2 - of_nat addr)) (bytecodeInstructionParse (eeInfo ee) (b, c, eeIndet ee 2)) \<and>
          ?off + 2 - of_nat addr \<le> 64"
      by (rule jmpCode2_cases [OF two(2), where x = "eeIndet ee 2" and info = "eeInfo ee"]) blast
    have u: "ucast (ucast w :: u8) = w" if "w \<le> 64" for w :: u16
      using that by (intro ucast_8_16_inverse) (simp add: word_le_nat_alt)
    have "emExecInstruction ee (bytecodeInstructionParse (eeInfo ee) (b, c, eeIndet ee 2)) (emSetReg ?IP (?off + 2) em) =
        Some (True, emSetReg ?IP (of_nat addr) em)"
      using e
    proof (elim disjE conjE)
      assume "setEffect (bytecodeInstructionParse (eeInfo ee) (b, c, eeIndet ee 2)) = Some (?IP, of_nat addr)"
      then show ?thesis by (simp add: exec_set)
    next
      assume "jumpsBy BytecodeInstructionAluTypeInc (ucast (of_nat addr - (?off + 2))) (bytecodeInstructionParse (eeInfo ee) (b, c, eeIndet ee 2))"
        and "of_nat addr - (?off + 2) \<le> 64"
      then show ?thesis by (simp add: exec_inc u emReg_emSetReg em(1) IP_less)
    next
      assume "jumpsBy BytecodeInstructionAluTypeDec (ucast (?off + 2 - of_nat addr)) (bytecodeInstructionParse (eeInfo ee) (b, c, eeIndet ee 2))"
        and "?off + 2 - of_nat addr \<le> 64"
      then show ?thesis by (simp add: exec_dec u emReg_emSetReg em(1) IP_less)
    qed
    then show ?thesis
      by (intro runs_to [OF fetch_two [OF at [unfolded c(1)] em(1) c(2)] em(2)]) (simp add: ip)
  qed
qed

lemma genJmp_length: "genJmp p i s = AsmOk code \<Longrightarrow> codeLength code = unat (aiMachineCodeLen i) \<Longrightarrow> length code = unat (aiMachineCodeLen i)"
  by (auto simp: genJmp_def codeLength_nop split: option.splits if_splits
      elim: jmpCode3_cases jmpCode2_cases [where x = 0 and info = blankInfo])

lemma labelAddr_Some:
  "assemblerGetLabelSymbolAddr p s = Some addr \<Longrightarrow>
   \<exists>j < length (apInstructions p). aiType (apInstructions p ! j) = AssemblerInstructionTypeLabel s \<and>
     addr = unat (aiMachineCodeOffset (apInstructions p ! j))"
  by (auto simp: assemblerGetLabelSymbolAddr_def assemblerGetLabelSymbolInstructionIndex_def
      split: option.splits dest!: findIndex_Some elim!: isLabelOf.elims)

end
