(* ===== verification/AssemblerExample.thy ===== *)
theory AssemblerExample
  imports AssemblerJump
begin

text \<open>
  Two small programs assembled step by step: a loop with a skip and a jump, and definitions that
  lie in one another.
\<close>

definition exAsmHost :: AssemblerHost where
  "exAsmHost = \<lparr>ahFile = \<lambda>_. None, ahExists = \<lambda>_. False, ahCwd = [], ahIndetData = \<lambda>_. 0, ahIndetInstructions = 0\<rparr>"

definition exHeader :: "AssemblerLine list" where
  "exHeader = [autoLine 0 (bytesOf ''load8 r5 r7 ; magic header byte 1''), autoLine 1 (bytesOf ''load8 r5 r7 ; magic header byte 2'')]"

text \<open>A program without a stack, and the same behind its first two lines.\<close>

definition exSource :: "string list \<Rightarrow> AssemblerProgram" where
  "exSource ls = assemblerProgramNew\<lparr>apNoStack := True, apLines := map (autoLine 0) (map bytesOf ls)\<rparr>"

definition exLines :: "string list \<Rightarrow> u16 \<Rightarrow> AssemblerInstruction list \<Rightarrow> AssemblerProgram" where
  "exLines ls stack is = (exSource ls)\<lparr>apLines := exHeader @ map (autoLine 0) (map bytesOf ls),
     apInstructions := is, apStackRamOffset := stack\<rparr>"

definition exIns :: "u16 \<Rightarrow> AssemblerInstructionType \<Rightarrow> u8 list \<Rightarrow> u16 \<Rightarrow> u16 \<Rightarrow> u8 \<Rightarrow> AssemblerInstruction" where
  "exIns line t code len offset n = \<lparr>aiLineIndex = line, aiType = t, aiMachineCode = code, aiMachineCodeLen = len,
     aiMachineCodeOffset = offset, aiMachineCodeInstructions = n\<rparr>"

abbreviation exLoad :: AssemblerInstructionType where
  "exLoad \<equiv> AssemblerInstructionTypeLoad8 [114, 53] [114, 55]"

lemma exLines_simps [simp]:
  "apInstructions (exLines ls stack is) = is" "apNoStack (exLines ls stack is)"
  "exLines ls stack is\<lparr>apInstructions := is'\<rparr> = exLines ls stack is'"
  by (simp_all add: exLines_def exSource_def)

lemma exIns_simps [simp]:
  "aiType (exIns line t code len offset n) = t" "aiMachineCodeLen (exIns line t code len offset n) = len"
  "aiMachineCodeOffset (exIns line t code len offset n) = offset" "aiMachineCode (exIns line t code len offset n) = code"
  "aiLineIndex (exIns line t code len offset n) = line"
  by (simp_all add: exIns_def)

text \<open>The first two lines.\<close>

lemma exHeader_parse:
  "strtok (bytesOf ''load8 r5 r7 ; magic header byte 1'') = Some (bytesOf ''load8'', bytesOf '' r5 r7 ; magic header byte 1'')"
  "strtok (bytesOf ''load8 r5 r7 ; magic header byte 2'') = Some (bytesOf ''load8'', bytesOf '' r5 r7 ; magic header byte 2'')"
  "parseInstruction host P i (bytesOf ''load8'') (bytesOf '' r5 r7 ; magic header byte 1'') = AsmOk exLoad"
  "parseInstruction host P i (bytesOf ''load8'') (bytesOf '' r5 r7 ; magic header byte 2'') = AsmOk exLoad"
  by code_simp+

lemma exInsertHeader: "length ls < 1000 \<Longrightarrow> insertHeader (exSource ls) = Some (exLines ls 0 [])"
  by (simp add: insertHeader_def assemblerInsertLine_def exSource_def exLines_def exHeader_def Let_def
      assemblerProgramNew_def AssemblerLinesMax_def)

abbreviation exLoads :: "AssemblerInstruction list" where
  "exLoads \<equiv> [exIns 0 exLoad [] 0 0 0, exIns 1 exLoad [] 0 0 0]"

lemma exHeader_lines:
  "assemblerProgramParseLines exAsmHost (exLines ls 0 []) =
   parseFrom exAsmHost 2 (map (autoLine 0) (map bytesOf ls)) (exLines ls 0 exLoads)"
  by (simp add: assemblerProgramParseLines_def exLines_def exSource_def exHeader_def autoLine_def exHeader_parse exIns_def
      assemblerProgramNew_def numeral_2_eq_2)

lemma exParse_step:
  "strtok (bytesOf l) = Some (first, rest) \<Longrightarrow>
   parseInstruction exAsmHost (exLines ls 0 is) (of_nat n) first rest = AsmOk t \<Longrightarrow>
   parseFrom exAsmHost n (autoLine 0 (bytesOf l) # xs) (exLines ls 0 is) =
   parseFrom exAsmHost (n + 1) xs (exLines ls 0 (is @ [exIns (of_nat n) t [] 0 0 0]))"
  by (simp add: autoLine_def exIns_def)

text \<open>From the parsed program to the one whose code is written, when no definition is dropped and
  the first pass is the only one with a change.\<close>

lemma exAssemble:
  assumes "length ls < 1000" "parseFrom exAsmHost 2 (map (autoLine 0) (map bytesOf ls)) (exLines ls 0 exLoads) = AsmOk (exLines ls 0 is)"
    and "shiftAll (exLines ls 0 is) = Some (exLines ls 0 is1)" "shrinkAll (exLines ls 0 is1) = Some (exLines ls 0 is2)"
    and "assemblerProgramCalculateInitialMachineCodeLengths (exLines ls 0 is2) = AsmOk (exLines ls 0 is3)"
    and "generateLoop exAsmHost (exLines ls 0 is3) = AsmOk (exLines ls stack is4)"
    and "assemblerProgramGenerateMachineCode exAsmHost (exLines ls stack is4) = AsmOk (False, exLines ls stack is4)"
  shows "assembleLines exAsmHost (exSource ls) = AsmOk (exLines ls stack is4)"
  unfolding assembleLines_def using assms by (simp add: exInsertHeader exHeader_lines setStack_def)

section \<open>A loop\<close>

definition exLoopLines :: "string list" where "exLoopLines = [''label l'', ''skipeq r0'', ''jmp l'']"

definition exSkip :: AssemblerInstructionAlu where
  "exSkip = \<lparr>asAluType = BytecodeInstructionAluTypeSkip, asAluDest = [114, 48], asAluOpA = None, asAluOpB = None,
     asAluSkipBit = 0, asAluIncDecValue = 0, asAluExtraType = 0\<rparr>"

definition exLoopWith :: "u8 list list \<Rightarrow> u16 list \<Rightarrow> u16 list \<Rightarrow> u8 list \<Rightarrow> AssemblerInstruction list" where
  "exLoopWith codes lens offsets ns =
     [exIns 0 exLoad (codes ! 0) (lens ! 0) (offsets ! 0) (ns ! 0), exIns 1 exLoad (codes ! 1) (lens ! 1) (offsets ! 1) (ns ! 1),
      exIns 2 (AssemblerInstructionTypeLabel [108]) (codes ! 2) (lens ! 2) (offsets ! 2) (ns ! 2),
      exIns 3 (AssemblerInstructionTypeAlu exSkip) (codes ! 3) (lens ! 3) (offsets ! 3) (ns ! 3),
      exIns 4 (AssemblerInstructionTypeJmp [108]) (codes ! 4) (lens ! 4) (offsets ! 4) (ns ! 4)]"

abbreviation exLoopParsed :: "AssemblerInstruction list" where
  "exLoopParsed \<equiv> exLoopWith [[], [], [], [], []] [0, 0, 0, 0, 0] [0, 0, 0, 0, 0] [0, 0, 0, 0, 0]"

abbreviation exLoopFinal :: "AssemblerInstruction list" where
  "exLoopFinal \<equiv> exLoopWith [[0x2F], [0x2F], [], [0xF8, 0], [0xD7, 2]] [1, 1, 0, 2, 2] [0, 1, 2, 2, 4] [1, 1, 0, 1, 1]"

definition exLoop :: AssemblerProgram where
  "exLoop = exLines exLoopLines 0x8000 exLoopFinal"

lemma exLoop_tokens:
  "strtok (bytesOf ''label l'') = Some (bytesOf ''label'', bytesOf '' l'')"
  "strtok (bytesOf ''skipeq r0'') = Some (bytesOf ''skipeq'', bytesOf '' r0'')"
  "strtok (bytesOf ''jmp l'') = Some (bytesOf ''jmp'', bytesOf '' l'')"
  by code_simp+

lemma exLoop_parse:
  "parseInstruction exAsmHost (exLines exLoopLines 0 exLoads) i (bytesOf ''label'') (bytesOf '' l'') = AsmOk (AssemblerInstructionTypeLabel [108])"
  "parseInstruction host P i (bytesOf ''skipeq'') (bytesOf '' r0'') = AsmOk (AssemblerInstructionTypeAlu exSkip)"
  "parseInstruction host P i (bytesOf ''jmp'') (bytesOf '' l'') = AsmOk (AssemblerInstructionTypeJmp [108])"
  by code_simp+

lemma exLoop_parsed:
  "parseFrom exAsmHost 2 (map (autoLine 0) (map bytesOf exLoopLines)) (exLines exLoopLines 0 exLoads) = AsmOk (exLines exLoopLines 0 exLoopParsed)"
proof -
  have "parseFrom exAsmHost 2 (map (autoLine 0) (map bytesOf exLoopLines)) (exLines ls 0 is) =
      parseFrom exAsmHost 2 [autoLine 0 (bytesOf ''label l''), autoLine 0 (bytesOf ''skipeq r0''), autoLine 0 (bytesOf ''jmp l'')] (exLines ls 0 is)"
    for ls "is" by (simp add: exLoopLines_def)
  then show ?thesis
    by (simp only: exParse_step [OF exLoop_tokens(1) exLoop_parse(1)] exParse_step [OF exLoop_tokens(2) exLoop_parse(2)]
        exParse_step [OF exLoop_tokens(3) exLoop_parse(3)]) (simp add: exLoopWith_def)
qed

lemma exLoop_shrink: "shrinkAll (exLines exLoopLines 0 exLoopParsed) = Some (exLines exLoopLines 0 exLoopParsed)"
proof -
  have "shrinkLoop False exLoopParsed = Some (exLoopParsed, False)"
    by (subst shrinkLoop.simps) (simp add: exLoopWith_def upt_conv_Cons)
  then show ?thesis by (subst shrinkAll.simps) (simp add: assemblerProgramShrinkDefines_def exLoopWith_def)
qed

abbreviation exLoopFirst :: "AssemblerInstruction list" where
  "exLoopFirst \<equiv> exLoopWith [[0x2F], [0x2F], [], [0xF8, 0], [0xC0, 0xC0]] [1, 1, 0, 2, 2] [0, 1, 2, 2, 4] [1, 1, 0, 1, 1]"

abbreviation exLoopLong :: "u16 list \<Rightarrow> AssemblerInstruction list" where
  "exLoopLong offsets \<equiv> exLoopWith [[], [], [], [], []] [1, 1, 0, 2, 3] offsets [1, 1, 0, 1, 1]"

lemma exLoop_lengths:
  "assemblerProgramCalculateInitialMachineCodeLengths (exLines exLoopLines 0 exLoopParsed) =
   AsmOk (exLines exLoopLines 0 (exLoopLong [0, 0, 0, 0, 0]))"
  by code_simp

lemma exLoop_offsets:
  "assemblerProgramCalculateMachineCodeOffsets (exLines exLoopLines 0 (exLoopLong [0, 0, 0, 0, 0])) =
   Some (exLines exLoopLines 0x8000 (exLoopLong [0, 1, 2, 2, 4]))"
  "assemblerProgramCalculateMachineCodeOffsets (exLines exLoopLines 0x8000 exLoopFirst) = Some (exLines exLoopLines 0x8000 exLoopFirst)"
  by code_simp+

lemma exLoop_code:
  "assemblerProgramGenerateMachineCode exAsmHost (exLines exLoopLines 0x8000 (exLoopLong [0, 1, 2, 2, 4])) =
   AsmOk (True, exLines exLoopLines 0x8000 exLoopFirst)"
  "assemblerProgramGenerateMachineCode exAsmHost (exLines exLoopLines 0x8000 exLoopFirst) =
   AsmOk (False, exLines exLoopLines 0x8000 exLoopFinal)"
  "assemblerProgramGenerateMachineCode exAsmHost (exLines exLoopLines 0x8000 exLoopFinal) =
   AsmOk (False, exLines exLoopLines 0x8000 exLoopFinal)"
  by code_simp+

lemma exLoop_assembled: "assembleLines exAsmHost (exSource exLoopLines) = AsmOk exLoop"
proof -
  have "generateLoop exAsmHost (exLines exLoopLines 0 (exLoopLong [0, 0, 0, 0, 0])) = AsmOk (exLines exLoopLines 0x8000 exLoopFinal)"
    by (subst generateLoop.simps, simp add: exLoop_offsets exLoop_code) (subst generateLoop.simps, simp add: exLoop_offsets exLoop_code)
  from exAssemble [OF _ exLoop_parsed _ exLoop_shrink exLoop_lengths this exLoop_code(3)] show ?thesis
    by (simp add: exLoopLines_def [THEN arg_cong [where f = length]] shiftAll_stable exLoopWith_def exLoop_def)
qed

section \<open>Definitions in definitions\<close>

definition exNestedLines :: "string list" where
  "exNestedLines = [''db a 1'', ''db b 2,1'', ''db c 3,2,1'', ''db e 9'']"

definition exDefine :: "u8 \<Rightarrow> u8 list \<Rightarrow> u16 \<Rightarrow> u16 \<Rightarrow> AssemblerInstructionType" where
  "exDefine symbol bytes line offset = AssemblerInstructionTypeDefine \<lparr>dfMembSize = 1, dfLen = of_nat (length bytes),
     dfTotalSize = of_nat (length bytes), dfSymbol = [symbol], dfData = bytes, dfPointerLineIndex = line,
     dfPointerOffset = offset\<rparr>"

text \<open>The definitions point to the lines given.\<close>

definition exNestedWith :: "u16 list \<Rightarrow> u16 list \<Rightarrow> u8 list list \<Rightarrow> u16 list \<Rightarrow> u16 list \<Rightarrow> u8 list \<Rightarrow> AssemblerInstruction list" where
  "exNestedWith lines starts codes lens offsets ns =
     [exIns 0 exLoad (codes ! 0) (lens ! 0) (offsets ! 0) (ns ! 0), exIns 1 exLoad (codes ! 1) (lens ! 1) (offsets ! 1) (ns ! 1),
      exIns 2 (exDefine 97 [1] (lines ! 0) (starts ! 0)) (codes ! 2) (lens ! 2) (offsets ! 2) 0,
      exIns 3 (exDefine 98 [2, 1] (lines ! 1) (starts ! 1)) (codes ! 3) (lens ! 3) (offsets ! 3) 0,
      exIns 4 (exDefine 99 [3, 2, 1] (lines ! 2) (starts ! 2)) (codes ! 4) (lens ! 4) (offsets ! 4) 0,
      exIns 5 (exDefine 101 [9] (lines ! 3) (starts ! 3)) (codes ! 5) (lens ! 5) (offsets ! 5) 0]"

abbreviation exNestedParsed :: "AssemblerInstruction list" where
  "exNestedParsed \<equiv> exNestedWith [2, 3, 4, 5] [0, 0, 0, 0] [[], [], [], [], [], []] [0, 0, 0, 0, 0, 0] [0, 0, 0, 0, 0, 0] [0, 0]"

abbreviation exNestedShrunk :: "u16 list \<Rightarrow> u16 list \<Rightarrow> u8 list \<Rightarrow> AssemblerInstruction list" where
  "exNestedShrunk lens offsets ns \<equiv> exNestedWith [3, 4, 4, 5] [1, 1, 0, 0] [[], [], [], [], [], []] lens offsets ns"

abbreviation exNestedFinal :: "AssemblerInstruction list" where
  "exNestedFinal \<equiv> exNestedWith [3, 4, 4, 5] [1, 1, 0, 0] [[0x2F], [0x2F], [], [], [3, 2, 1], [9]] [1, 1, 0, 0, 3, 1]
     [0, 1, 2, 2, 2, 5] [1, 1]"

definition exNested :: AssemblerProgram where
  "exNested = exLines exNestedLines 0x8000 exNestedFinal"

lemma exNested_tokens:
  "strtok (bytesOf ''db a 1'') = Some (bytesOf ''db'', bytesOf '' a 1'')"
  "strtok (bytesOf ''db b 2,1'') = Some (bytesOf ''db'', bytesOf '' b 2,1'')"
  "strtok (bytesOf ''db c 3,2,1'') = Some (bytesOf ''db'', bytesOf '' c 3,2,1'')"
  "strtok (bytesOf ''db e 9'') = Some (bytesOf ''db'', bytesOf '' e 9'')"
  by code_simp+

lemma exNested_parse:
  "parseInstruction exAsmHost (exLines exNestedLines 0 (take 2 exNestedParsed)) 2 (bytesOf ''db'') (bytesOf '' a 1'') = AsmOk (exDefine 97 [1] 2 0)"
  "parseInstruction exAsmHost (exLines exNestedLines 0 (take 3 exNestedParsed)) 3 (bytesOf ''db'') (bytesOf '' b 2,1'') = AsmOk (exDefine 98 [2, 1] 3 0)"
  "parseInstruction exAsmHost (exLines exNestedLines 0 (take 4 exNestedParsed)) 4 (bytesOf ''db'') (bytesOf '' c 3,2,1'') = AsmOk (exDefine 99 [3, 2, 1] 4 0)"
  "parseInstruction exAsmHost (exLines exNestedLines 0 (take 5 exNestedParsed)) 5 (bytesOf ''db'') (bytesOf '' e 9'') = AsmOk (exDefine 101 [9] 5 0)"
  by code_simp+

lemma exNested_step:
  assumes "strtok (bytesOf l) = Some (first, rest)"
    and "parseInstruction exAsmHost (exLines exNestedLines 0 is) w first rest = AsmOk t"
    and "w = of_nat n" "m = Suc n" "is' = is @ [exIns w t [] 0 0 0]"
  shows "parseFrom exAsmHost n (autoLine 0 (bytesOf l) # xs) (exLines exNestedLines 0 is) =
    parseFrom exAsmHost m xs (exLines exNestedLines 0 is')"
  using exParse_step [OF assms(1), where n = n and ls = exNestedLines and ?is = "is" and t = t] assms(2-5) by simp

lemma exNested_parsed:
  "parseFrom exAsmHost 2 (map (autoLine 0) (map bytesOf exNestedLines)) (exLines exNestedLines 0 exLoads) =
   AsmOk (exLines exNestedLines 0 exNestedParsed)"
proof -
  have "parseFrom exAsmHost 2 (map (autoLine 0) (map bytesOf exNestedLines)) (exLines exNestedLines 0 exLoads) =
      parseFrom exAsmHost 2 [autoLine 0 (bytesOf ''db a 1''), autoLine 0 (bytesOf ''db b 2,1''), autoLine 0 (bytesOf ''db c 3,2,1''),
        autoLine 0 (bytesOf ''db e 9'')] (exLines exNestedLines 0 (take 2 exNestedParsed))"
    by (simp add: exNestedLines_def exNestedWith_def)
  also have "\<dots> = parseFrom exAsmHost 3 [autoLine 0 (bytesOf ''db b 2,1''), autoLine 0 (bytesOf ''db c 3,2,1''),
        autoLine 0 (bytesOf ''db e 9'')] (exLines exNestedLines 0 (take 3 exNestedParsed))"
    by (rule exNested_step [OF exNested_tokens(1) exNested_parse(1)]) (simp_all add: exNestedWith_def)
  also have "\<dots> = parseFrom exAsmHost 4 [autoLine 0 (bytesOf ''db c 3,2,1''), autoLine 0 (bytesOf ''db e 9'')]
        (exLines exNestedLines 0 (take 4 exNestedParsed))"
    by (rule exNested_step [OF exNested_tokens(2) exNested_parse(2)]) (simp_all add: exNestedWith_def)
  also have "\<dots> = parseFrom exAsmHost 5 [autoLine 0 (bytesOf ''db e 9'')] (exLines exNestedLines 0 (take 5 exNestedParsed))"
    by (rule exNested_step [OF exNested_tokens(3) exNested_parse(3)]) (simp_all add: exNestedWith_def)
  also have "\<dots> = parseFrom exAsmHost 6 [] (exLines exNestedLines 0 exNestedParsed)"
    by (rule exNested_step [OF exNested_tokens(4) exNested_parse(4)]) (simp_all add: exNestedWith_def)
  finally show ?thesis by simp
qed

lemma exNested_shift: "shiftAll (exLines exNestedLines 0 exNestedParsed) = Some (exLines exNestedLines 0 exNestedParsed)"
  by (simp add: shiftAll_stable exNestedWith_def exDefine_def)

lemma exNested_shrink:
  "shrinkAll (exLines exNestedLines 0 exNestedParsed) =
   Some (exLines exNestedLines 0 (exNestedShrunk [0, 0, 0, 0, 0, 0] [0, 0, 0, 0, 0, 0] [0, 0]))"
proof -
  let ?is = "exNestedShrunk [0, 0, 0, 0, 0, 0] [0, 0, 0, 0, 0, 0] [0, 0]"
  have p: "shrinkPass [0..<length exNestedParsed - 1] exNestedParsed False = Some (?is, True)"
    "shrinkPass [0..<length ?is - 1] ?is False = Some (?is, False)"
    by code_simp+
  have l: "shrinkLoop c ?is = Some (?is, c)" for c by (subst shrinkLoop.simps, subst p(2)) simp
  have "shrinkLoop False exNestedParsed = Some (?is, True)"
    by (subst shrinkLoop.simps, subst p(1)) (simp add: l)
  moreover have ne: "exNestedParsed \<noteq> []" "?is \<noteq> []" by (simp_all add: exNestedWith_def)
  moreover have "shrinkAll (exLines exNestedLines 0 ?is) = Some (exLines exNestedLines 0 ?is)"
    by (subst shrinkAll.simps) (simp add: assemblerProgramShrinkDefines_def l ne)
  ultimately show ?thesis
    by (subst shrinkAll.simps) (simp add: assemblerProgramShrinkDefines_def)
qed

lemma exNested_lengths:
  "assemblerProgramCalculateInitialMachineCodeLengths (exLines exNestedLines 0 (exNestedShrunk [0, 0, 0, 0, 0, 0] [0, 0, 0, 0, 0, 0] [0, 0])) =
   AsmOk (exLines exNestedLines 0 (exNestedShrunk [1, 1, 0, 0, 3, 1] [0, 0, 0, 0, 0, 0] [1, 1]))"
  by code_simp

lemma exNested_offsets:
  "assemblerProgramCalculateMachineCodeOffsets (exLines exNestedLines 0 (exNestedShrunk [1, 1, 0, 0, 3, 1] [0, 0, 0, 0, 0, 0] [1, 1])) =
   Some (exLines exNestedLines 0x8000 (exNestedShrunk [1, 1, 0, 0, 3, 1] [0, 1, 2, 2, 2, 5] [1, 1]))"
  by code_simp

lemma exNested_code:
  "assemblerProgramGenerateMachineCode exAsmHost (exLines exNestedLines 0x8000 (exNestedShrunk [1, 1, 0, 0, 3, 1] [0, 1, 2, 2, 2, 5] [1, 1])) =
   AsmOk (False, exNested)"
  "assemblerProgramGenerateMachineCode exAsmHost exNested = AsmOk (False, exNested)"
  by code_simp+

lemma exNested_assembled: "assembleLines exAsmHost (exSource exNestedLines) = AsmOk exNested"
proof -
  have "generateLoop exAsmHost (exLines exNestedLines 0 (exNestedShrunk [1, 1, 0, 0, 3, 1] [0, 0, 0, 0, 0, 0] [1, 1])) = AsmOk exNested"
    by (subst generateLoop.simps) (simp add: exNested_offsets exNested_code)
  from exAssemble [OF _ exNested_parsed exNested_shift exNested_shrink exNested_lengths this [unfolded exNested_def]
      exNested_code(2) [unfolded exNested_def]] show ?thesis
    by (simp add: exNestedLines_def [THEN arg_cong [where f = length]] exNested_def)
qed

end
