(* ===== verification/AssemblerProps.thy ===== *)
theory AssemblerProps
  imports AssemblerExample
begin

text \<open>
  What the assembler promises, and where it does not keep it. A jump in an assembled program, run by
  the emulator, continues at its label, whichever of its encodings was chosen; definitions are moved
  behind everything else in their order; and a skip cannot stand before a label. A definition that lies
  in one that is itself dropped can get a wrong address. A small program serves as an example.
\<close>

section \<open>Properties\<close>

text \<open>C5: a jump in an assembled program whose bytes are in the memory of the emulator continues, after one
  instruction, at the first byte of what follows the label it names, and changes nothing else but
  the instruction count; this holds for every encoding the assembler chooses, whatever follows.\<close>

theorem assembled_jump_reaches_label:
  assumes "assembleLines host source = AsmOk program"
    and "codeSize (apInstructions program) < 65536"
    and "k < length (apInstructions program)"
    and "aiType (apInstructions program ! k) = AssemblerInstructionTypeJmp s"
    and "\<forall>a < codeSize (apInstructions program). emMemory em a = assemblerProgramWriteMachineCode program ! a"
    and "emReg BytecodeRegisterIP em = of_nat (codeSize (take k (apInstructions program)))"
    and "length (emRegs em) = 8" "emSkipCounter em = 0"
  shows "\<exists>j < length (apInstructions program).
     aiType (apInstructions program ! j) = AssemblerInstructionTypeLabel s \<and>
     processRunNextInstruction ee em = Some (True,
       (emSetReg BytecodeRegisterIP (of_nat (codeSize (take j (apInstructions program)))) em)
         \<lparr>emInstructionCount := emInstructionCount em + 1\<rparr>)"
proof -
  let ?is = "apInstructions program" and ?i = "apInstructions program ! k"
  note offsets = assembleLines_ok(1) [OF assms(1), unfolded offsetsOk_def, rule_format]
  obtain p where p: "sameLayout p program" "generateOne host p k = AsmOk (aiMachineCode ?i)"
    and len: "aiMachineCodeLen ?i > 0 \<longrightarrow> codeLength (aiMachineCode ?i) = unat (aiMachineCodeLen ?i)"
    using assembleLines_ok(2) [OF assms(1,3)] assms(4) by (auto simp: coded_def Let_def)
  have "aiMachineCodeLen ?i > 0"
    using assembleLines_shapes [OF assms(1)] assms(3,4) by (simp add: shapesOk_def shapeOk_def)
  with len have len: "codeLength (aiMachineCode ?i) = unat (aiMachineCodeLen ?i)" by simp
  have "generateOne host p k = genJmp p (apInstructions p ! k) s"
    using sameLayout_fields(1) [OF p(1) assms(3)] assms(4) by (simp add: generateOne_def)
  also have "\<dots> = genJmp program ?i s"
    unfolding genJmp_def sameLayout_fields [OF p(1) assms(3)] sameLayout_label [OF p(1)] by (rule refl)
  finally have g: "genJmp program ?i s = AsmOk (aiMachineCode ?i)" using p(2) by simp
  then obtain addr where l: "assemblerGetLabelSymbolAddr program s = Some addr"
    by (auto simp: genJmp_def split: option.splits)
  then obtain j where j: "j < length ?is" "aiType (?is ! j) = AssemblerInstructionTypeLabel s"
    "addr = unat (aiMachineCodeOffset (?is ! j))" using labelAddr_Some by blast
  have bytes: "instructionBytes ?i = aiMachineCode ?i"
    using genJmp_length [OF g len] by (auto simp: instructionBytes_def intro!: nth_equalityI)
  have "codeSize (take k ?is) \<le> codeSize ?is"
    by (metis append_take_drop_id codeSize_append le_add1)
  with assms(2) have u: "unat (of_nat (codeSize (take k ?is)) :: u16) = codeSize (take k ?is)"
    by (simp add: unat_of_nat)
  have ends: "codeSize (take k ?is) + unat (aiMachineCodeLen ?i) \<le> codeSize ?is"
    using written_at(2) [OF assms(3), of "unat (aiMachineCodeLen ?i) - 1"] \<open>aiMachineCodeLen ?i > 0\<close>
    by (simp add: word_less_nat_alt)
  have at: "codeAt em (aiMachineCode ?i)"
    unfolding codeAt_def assms(6) u
    using ends assms(2,5) written_at [OF assms(3)] genJmp_length [OF g len] bytes by (simp add: emSize_eq)
  have ip: "emReg BytecodeRegisterIP em = aiMachineCodeOffset ?i"
    using offsets [OF assms(3)] assms(6) by simp
  have "of_nat addr = (of_nat (codeSize (take j ?is)) :: u16)" using j(3) offsets [OF j(1)] by simp
  with jmp_runs [OF g len l at ip assms(7,8)] j(1,2) show ?thesis by auto
qed


text \<open>The loop in the memory of the emulator, at its jump.\<close>

definition exLoopMemory :: "unit Emulator" where
  "exLoopMemory = \<lparr>emRegs = [0, 0, 0, 0, 0, 0, 0, 4],
     emMemory = (\<lambda>a. if a < 6 then [0x2F, 0x2F, 0xF8, 0, 0xD7, 2] ! a else 0), emSkipCounter = 0,
     emInstructionCount = 0, emPid = 0, emEnvVars = \<lparr>evArgc = 0, evPwd = 0, evPath = 0\<rparr>,
     emExitStatus = 0, emBootTimeMs = 0, emHost = ()\<rparr>"

lemma exLoop_bytes:
  "assemblerProgramWriteMachineCode exLoop = [0x2F, 0x2F, 0xF8, 0, 0xD7, 2]" "apInstructions exLoop = exLoopFinal"
  by (simp_all add: assemblerProgramWriteMachineCode_def instructionBytes_def exLoop_def exLoopWith_def
      upt_conv_Cons)

theorem assembled_jump_reaches_label_witness:
  "\<exists>j < 5. aiType (exLoopFinal ! j) = AssemblerInstructionTypeLabel [108] \<and>
    processRunNextInstruction exEmEnv exLoopMemory = Some (True,
      (emSetReg BytecodeRegisterIP (of_nat (codeSize (take j exLoopFinal))) exLoopMemory)
        \<lparr>emInstructionCount := emInstructionCount exLoopMemory + 1\<rparr>)"
proof -
  have len: "length exLoopFinal = 5" and size: "codeSize exLoopFinal = 6" "codeSize (take 4 exLoopFinal) = 4"
    and jump: "aiType (exLoopFinal ! 4) = AssemblerInstructionTypeJmp [108]"
    by (simp_all add: exLoopWith_def)
  show ?thesis
    by (rule assembled_jump_reaches_label [OF exLoop_assembled, of 4 "[108]" exLoopMemory exEmEnv,
          unfolded exLoop_bytes len size, OF _ _ jump])
      (simp_all add: exLoopMemory_def emReg_def BytecodeRegisterIP_def)
qed

text \<open>C29: the assembler's first pass over the instructions, repeated until it changes nothing, ends and puts every
  definition behind all other instructions; within both groups the order stays as it was.\<close>

theorem shift_defines_stable:
  assumes "apInstructions program \<noteq> []"
  shows "shiftAll program = Some (program\<lparr>apInstructions :=
    filter (\<lambda>i. \<not> isDefine (aiType i)) (apInstructions program) @
    filter (\<lambda>i. isDefine (aiType i)) (apInstructions program)\<rparr>)"
  by (rule shiftAll_stable [OF assms])

theorem shift_defines_stable_witness:
  "shiftAll (exLines [] 0 [exIns 0 (exDefine 97 [1] 0 0) [] 0 0 0, exIns 1 AssemblerInstructionTypeNop [] 0 0 0]) =
   Some (exLines [] 0 [exIns 1 AssemblerInstructionTypeNop [] 0 0 0, exIns 0 (exDefine 97 [1] 0 0) [] 0 0 0])"
  using shift_defines_stable [of "exLines [] 0 [exIns 0 (exDefine 97 [1] 0 0) [] 0 0 0, exIns 1 AssemblerInstructionTypeNop [] 0 0 0]"]
  by (simp add: exDefine_def)

text \<open>C30: in a program that was assembled no skip stands directly before a label: a label has no machine
  instructions, so the distance of the skip is below zero and the encoder's assertion fails.\<close>

theorem assembled_skip_not_before_label:
  assumes "assembleLines host source = AsmOk program"
    and "k + 1 < length (apInstructions program)"
    and "aiType (apInstructions program ! k) = AssemblerInstructionTypeAlu a"
    and "asAluType a = BytecodeInstructionAluTypeSkip"
  shows "aiType (apInstructions program ! (k + 1)) \<noteq> AssemblerInstructionTypeLabel s"
proof
  assume l: "aiType (apInstructions program ! (k + 1)) = AssemblerInstructionTypeLabel s"
  have k: "k < length (apInstructions program)" using assms(2) by simp
  obtain p where p: "sameLayout p program" "generateOne host p k = AsmOk (aiMachineCode (apInstructions program ! k))"
    using assembleLines_ok(2) [OF assms(1) k] by (auto simp: coded_def Let_def)
  have "aiMachineCodeInstructions (apInstructions program ! (k + 1)) = 0"
    using assembleLines_shapes [OF assms(1)] assms(2) l by (simp add: shapesOk_def shapeOk_def)
  then have "aiMachineCodeInstructions (apInstructions p ! (k + 1)) = 0"
    using sameLayout_fields(4) [OF p(1) assms(2)] by simp
  then have "skipDistance host p k = Some 255"
    using assms(2) sameLayout_length [OF p(1)] by (simp add: skipDistance_def)
  then have "genAlu host p k a \<noteq> AsmOk code" for code
    using assms(4) by (auto simp: genAlu_def needRegister_def aluOperands_def opCode_def Let_def
        bytecodeInstructionCreateAlu_def BytecodeRegisterNB_def split: if_splits)
  then show False
    using p(2) sameLayout_fields(1) [OF p(1) k] assms(3) by (simp add: generateOne_def)
qed

theorem assembled_skip_not_before_label_witness:
  "aiType (apInstructions exLoop ! 4) \<noteq> AssemblerInstructionTypeLabel [108]"
  using assembled_skip_not_before_label [OF exLoop_assembled, of 3 exSkip "[108]"]
  by (simp add: exLoop_bytes exLoopWith_def exSkip_def)

section \<open>Definitions inside others\<close>

text \<open>A case in which the address of a definition is wrong: one was put inside another and that one
  then inside a third. Of the definitions \<open>a\<close> with the byte 1, \<open>b\<close> with 2 and 1, and \<open>c\<close> with 3, 2
  and 1, in this order, the first is put inside the second and then the second inside the third;
  the address of \<open>a\<close> is still computed from that of \<open>b\<close>, where nothing is written any more, and
  there the file has the byte 2. In the order \<open>c\<close>, \<open>b\<close>, \<open>a\<close> the same definitions get right
  addresses.\<close>

lemma shrink_wrong_address:
  "\<exists>program d.
     assembleLines exAsmHost (exSource [''db a 1'', ''db b 2,1'', ''db c 3,2,1'', ''db e 9'']) = AsmOk program \<and>
     aiType (apInstructions program ! 2) = AssemblerInstructionTypeDefine d \<and>
     dfSymbol d = bytesOf ''a'' \<and> dfData d = [1] \<and>
     assemblerGetDefineSymbolAddr program (bytesOf ''a'') = Some 3 \<and>
     assemblerProgramWriteMachineCode program ! 3 = 2"
proof (intro exI conjI)
  have a: "bytesOf ''a'' = [97]" by (simp add: bytesOf_def)
  show "assembleLines exAsmHost (exSource [''db a 1'', ''db b 2,1'', ''db c 3,2,1'', ''db e 9'']) = AsmOk exNested"
    using exNested_assembled by (simp add: exNestedLines_def)
  show "aiType (apInstructions exNested ! 2) = AssemblerInstructionTypeDefine \<lparr>dfMembSize = 1, dfLen = 1, dfTotalSize = 1,
      dfSymbol = [97], dfData = [1], dfPointerLineIndex = 3, dfPointerOffset = 1\<rparr>"
    by (simp add: exNested_def exNestedWith_def exDefine_def)
  show "assemblerGetDefineSymbolAddr exNested (bytesOf ''a'') = Some 3"
    by (simp add: a assemblerGetDefineSymbolAddr_def assemblerGetDefineSymbolInstructionIndex_def exNested_def
        exNestedWith_def exDefine_def)
  show "assemblerProgramWriteMachineCode exNested ! 3 = 2"
    by (simp add: assemblerProgramWriteMachineCode_def instructionBytes_def exNested_def exNestedWith_def exDefine_def
        upt_conv_Cons)
qed (simp_all add: bytesOf_def)

end
